(* ===== verification/Prelude.thy ===== *)
theory Prelude
  imports Complex_Main
begin

text \<open>
  Shared vocabulary of the development: identifiers and instants, the tables of the database as
  lists of rows with the handful of Prisma operations the services use
  (\<open>findFirst\<close>, \<open>updateMany\<close>, \<open>count\<close>, \<open>aggregate _sum\<close>), and the lemmas about them that
  every component needs.
\<close>

named_theorems table_simps \<open>equations for the table operations\<close>

type_synonym ident = string
type_synonym time = int

text \<open>An instant is the integer number of milliseconds that \<open>Date.getTime()\<close> returns.\<close>

abbreviation ms_per_minute :: int where "ms_per_minute \<equiv> 60000"
abbreviation ms_per_hour :: int where "ms_per_hour \<equiv> 3600000"
abbreviation ms_per_day :: int where "ms_per_day \<equiv> 86400000"

subsection \<open>Error codes\<close>

text \<open>
  The \<open>Error\<close>s the services throw carry a code as their message, and the code that catches one
  looks at nothing else. \<open>INVALID_PAYMENT_TRANSITION\<close> is the one with parameters.
\<close>

datatype payment_status =
    P_CREATED | P_PAYMENT_PENDING | P_PAID | P_HELD_IN_ESCROW | P_PAYOUT_ELIGIBLE
  | P_TRANSFER_CREATED | P_PAYOUT_COMPLETED | P_REFUND_PENDING | P_REFUNDED | P_PAYMENT_FAILED

datatype error = Err string | INVALID_PAYMENT_TRANSITION payment_status payment_status

abbreviation PAYMENT_SPLIT_NEGATIVE_FARE :: error where "PAYMENT_SPLIT_NEGATIVE_FARE \<equiv> Err ''PAYMENT_SPLIT_NEGATIVE_FARE''"
abbreviation PAYMENT_SPLIT_IMBALANCE :: error where "PAYMENT_SPLIT_IMBALANCE \<equiv> Err ''PAYMENT_SPLIT_IMBALANCE''"
abbreviation MINIMUM_ONE_SEAT_REQUIRED :: error where "MINIMUM_ONE_SEAT_REQUIRED \<equiv> Err ''MINIMUM_ONE_SEAT_REQUIRED''"
abbreviation MAXIMUM_SEATS_EXCEEDED :: error where "MAXIMUM_SEATS_EXCEEDED \<equiv> Err ''MAXIMUM_SEATS_EXCEEDED''"
abbreviation INSUFFICIENT_SEATS :: error where "INSUFFICIENT_SEATS \<equiv> Err ''INSUFFICIENT_SEATS''"
abbreviation RIDE_NOT_FOUND :: error where "RIDE_NOT_FOUND \<equiv> Err ''RIDE_NOT_FOUND''"
abbreviation BOOKING_NOT_FOUND :: error where "BOOKING_NOT_FOUND \<equiv> Err ''BOOKING_NOT_FOUND''"
abbreviation RECORD_NOT_FOUND :: error where "RECORD_NOT_FOUND \<equiv> Err ''RECORD_NOT_FOUND''"
abbreviation INVALID_RIDE_DEPARTURE_TIME :: error where "INVALID_RIDE_DEPARTURE_TIME \<equiv> Err ''INVALID_RIDE_DEPARTURE_TIME''"
abbreviation INVALID_BOOKING_SEGMENT :: error where "INVALID_BOOKING_SEGMENT \<equiv> Err ''INVALID_BOOKING_SEGMENT''"
abbreviation BOOKING_WINDOW_CLOSED :: error where "BOOKING_WINDOW_CLOSED \<equiv> Err ''BOOKING_WINDOW_CLOSED''"
abbreviation CANNOT_BOOK_OWN_RIDE :: error where "CANNOT_BOOK_OWN_RIDE \<equiv> Err ''CANNOT_BOOK_OWN_RIDE''"
abbreviation USER_BLOCKED :: error where "USER_BLOCKED \<equiv> Err ''USER_BLOCKED''"
abbreviation BOOKING_ALREADY_EXISTS :: error where "BOOKING_ALREADY_EXISTS \<equiv> Err ''BOOKING_ALREADY_EXISTS''"
abbreviation FEMALE_ONLY_RIDE :: error where "FEMALE_ONLY_RIDE \<equiv> Err ''FEMALE_ONLY_RIDE''"
abbreviation PICKUP_POINT_REQUIRED :: error where "PICKUP_POINT_REQUIRED \<equiv> Err ''PICKUP_POINT_REQUIRED''"
abbreviation DROPOFF_POINT_REQUIRED :: error where "DROPOFF_POINT_REQUIRED \<equiv> Err ''DROPOFF_POINT_REQUIRED''"
abbreviation TOS_NOT_ACCEPTED :: error where "TOS_NOT_ACCEPTED \<equiv> Err ''TOS_NOT_ACCEPTED''"
abbreviation USER_BANNED :: error where "USER_BANNED \<equiv> Err ''USER_BANNED''"
abbreviation PASSENGER_TOO_YOUNG :: error where "PASSENGER_TOO_YOUNG \<equiv> Err ''PASSENGER_TOO_YOUNG''"
abbreviation CHILD_SEAT_ACK_REQUIRED :: error where "CHILD_SEAT_ACK_REQUIRED \<equiv> Err ''CHILD_SEAT_ACK_REQUIRED''"
abbreviation PAYMENT_INITIALIZATION_FAILED :: error where "PAYMENT_INITIALIZATION_FAILED \<equiv> Err ''PAYMENT_INITIALIZATION_FAILED''"
abbreviation BOOKING_PRICE_CHANGED :: error where "BOOKING_PRICE_CHANGED \<equiv> Err ''BOOKING_PRICE_CHANGED''"
abbreviation BOOKING_NOT_DRIVER_PENDING :: error where "BOOKING_NOT_DRIVER_PENDING \<equiv> Err ''BOOKING_NOT_DRIVER_PENDING''"
abbreviation BOOKING_NOT_CONFIRMED :: error where "BOOKING_NOT_CONFIRMED \<equiv> Err ''BOOKING_NOT_CONFIRMED''"
abbreviation BOOKING_NOT_CANCELLABLE :: error where "BOOKING_NOT_CANCELLABLE \<equiv> Err ''BOOKING_NOT_CANCELLABLE''"
abbreviation BOOKING_NOT_PAYABLE :: error where "BOOKING_NOT_PAYABLE \<equiv> Err ''BOOKING_NOT_PAYABLE''"
abbreviation DEADLINE_NOT_EXPIRED :: error where "DEADLINE_NOT_EXPIRED \<equiv> Err ''DEADLINE_NOT_EXPIRED''"
abbreviation ALREADY_EXTENDED :: error where "ALREADY_EXTENDED \<equiv> Err ''ALREADY_EXTENDED''"
abbreviation CANCELLATION_WINDOW_CLOSED :: error where "CANCELLATION_WINDOW_CLOSED \<equiv> Err ''CANCELLATION_WINDOW_CLOSED''"
abbreviation REQUEST_CHECKOUT_PENDING :: error where "REQUEST_CHECKOUT_PENDING \<equiv> Err ''REQUEST_CHECKOUT_PENDING''"
abbreviation PAYMENT_NOT_INITIALIZED :: error where "PAYMENT_NOT_INITIALIZED \<equiv> Err ''PAYMENT_NOT_INITIALIZED''"
abbreviation PAYMENT_VERIFICATION_UNAVAILABLE :: error where "PAYMENT_VERIFICATION_UNAVAILABLE \<equiv> Err ''PAYMENT_VERIFICATION_UNAVAILABLE''"
abbreviation PAYMENT_METHOD_REQUIRED :: error where "PAYMENT_METHOD_REQUIRED \<equiv> Err ''PAYMENT_METHOD_REQUIRED''"
abbreviation PAYMENT_NOT_CONFIRMED :: error where "PAYMENT_NOT_CONFIRMED \<equiv> Err ''PAYMENT_NOT_CONFIRMED''"
abbreviation PAYMENT_REQUIRES_ACTION :: error where "PAYMENT_REQUIRES_ACTION \<equiv> Err ''PAYMENT_REQUIRES_ACTION''"
abbreviation PAYMENT_PROCESSING :: error where "PAYMENT_PROCESSING \<equiv> Err ''PAYMENT_PROCESSING''"
abbreviation PAYMENT_CANCELLED :: error where "PAYMENT_CANCELLED \<equiv> Err ''PAYMENT_CANCELLED''"
abbreviation FORBIDDEN_DRIVER :: error where "FORBIDDEN_DRIVER \<equiv> Err ''FORBIDDEN_DRIVER''"
abbreviation DRIVER_NOT_VERIFIED :: error where "DRIVER_NOT_VERIFIED \<equiv> Err ''DRIVER_NOT_VERIFIED''"
abbreviation BOOKING_DECISION_DEADLINE_PASSED :: error where "BOOKING_DECISION_DEADLINE_PASSED \<equiv> Err ''BOOKING_DECISION_DEADLINE_PASSED''"
abbreviation RIDE_NOT_FOUND_OR_CANNOT_CANCEL :: error where "RIDE_NOT_FOUND_OR_CANNOT_CANCEL \<equiv> Err ''RIDE_NOT_FOUND_OR_CANNOT_CANCEL''"
abbreviation STRIPE_CALL_FAILED :: error where "STRIPE_CALL_FAILED \<equiv> Err ''STRIPE_CALL_FAILED''"
abbreviation SIDE_EFFECT_FAILED :: error where "SIDE_EFFECT_FAILED \<equiv> Err ''SIDE_EFFECT_FAILED''"

subsection \<open>Rows of a table\<close>

definition update_where :: "('r \<Rightarrow> bool) \<Rightarrow> ('r \<Rightarrow> 'r) \<Rightarrow> 'r list \<Rightarrow> 'r list" where
  "update_where p f rows = map (\<lambda>r. if p r then f r else r) rows"

definition count_where :: "('r \<Rightarrow> bool) \<Rightarrow> 'r list \<Rightarrow> nat" where
  "count_where p rows = length (filter p rows)"

definition sum_where :: "('r \<Rightarrow> bool) \<Rightarrow> ('r \<Rightarrow> int) \<Rightarrow> 'r list \<Rightarrow> int" where
  "sum_where p g rows = sum_list (map g (filter p rows))"

lemma update_where_Nil [simp]: "update_where p f [] = []"
  and update_where_Cons [simp]:
    "update_where p f (r # rows) = (if p r then f r else r) # update_where p f rows"
  by (simp_all add: update_where_def)

lemma sum_where_Nil [simp]: "sum_where p g [] = 0"
  and sum_where_Cons [simp]:
    "sum_where p g (r # rows) = (if p r then g r else 0) + sum_where p g rows"
  by (simp_all add: sum_where_def)

lemma count_where_Nil [simp]: "count_where p [] = 0"
  and count_where_Cons [simp]:
    "count_where p (r # rows) = (if p r then 1 else 0) + count_where p rows"
  by (simp_all add: count_where_def)

lemma sum_where_append [simp]: "sum_where p g (xs @ ys) = sum_where p g xs + sum_where p g ys"
  by (simp add: sum_where_def)

lemma count_where_0_iff: "count_where p rows = 0 \<longleftrightarrow> (\<forall>r \<in> set rows. \<not> p r)"
  by (auto simp: count_where_def filter_empty_conv)

lemma update_where_none: "count_where p rows = 0 \<Longrightarrow> update_where p f rows = rows"
  by (induction rows) (auto split: if_splits)

lemma set_update_where: "set (update_where p f rows) = (\<lambda>r. if p r then f r else r) ` set rows"
  by (simp add: update_where_def)

lemma length_update_where [simp]: "length (update_where p f rows) = length rows"
  by (simp add: update_where_def)

text \<open>An update that does not touch the key keeps the list of keys, hence its distinctness.\<close>

lemma map_update_where:
  "(\<And>r. p r \<Longrightarrow> k (f r) = k r) \<Longrightarrow> map k (update_where p f rows) = map k rows"
  by (induction rows) auto

lemma find_update_where:
  assumes "\<And>r. p r \<Longrightarrow> k (f r) = k r"
  shows "find (\<lambda>r. k r = x) (update_where p f rows) =
    map_option (\<lambda>r. if p r then f r else r) (find (\<lambda>r. k r = x) rows)"
  using assms by (induction rows) auto

lemma find_Some_mem: "find p rows = Some r \<Longrightarrow> r \<in> set rows \<and> p r"
  by (induction rows) (auto split: if_splits)

lemma find_key_unique:
  "distinct (map k rows) \<Longrightarrow> r \<in> set rows \<Longrightarrow> find (\<lambda>y. k y = k r) rows = Some r"
  by (induction rows) force+

lemma find_key_None_iff: "find (\<lambda>y. k y = x) rows = None \<longleftrightarrow> x \<notin> k ` set rows"
  by (induction rows) auto

lemma sum_where_cong:
  "(\<And>r. r \<in> set rows \<Longrightarrow> p r = q r) \<Longrightarrow> (\<And>r. r \<in> set rows \<Longrightarrow> p r \<Longrightarrow> g r = h r) \<Longrightarrow>
   sum_where p g rows = sum_where q h rows"
  by (induction rows) auto

lemma sum_where_nonneg:
  "(\<And>r. r \<in> set rows \<Longrightarrow> p r \<Longrightarrow> 0 \<le> g r) \<Longrightarrow> 0 \<le> sum_where p g rows"
  by (induction rows) auto

lemma sum_where_split:
  "sum_where p g rows = sum_where (\<lambda>r. p r \<and> q r) g rows + sum_where (\<lambda>r. p r \<and> \<not> q r) g rows"
  by (induction rows) auto

text \<open>With distinct keys exactly one row carries a given key.\<close>

lemma sum_where_key:
  "distinct (map k rows) \<Longrightarrow> r \<in> set rows \<Longrightarrow> sum_where (\<lambda>y. k y = k r \<and> p y) g rows =
     (if p r then g r else 0)"
proof (induction rows)
  case Nil
  then show ?case by simp
next
  case (Cons y rows)
  show ?case
  proof (cases "y = r")
    case True
    with Cons.prems(1) have "\<forall>z \<in> set rows. k z \<noteq> k r" by (auto simp: image_iff)
    then have "sum_where (\<lambda>y. k y = k r \<and> p y) g rows = sum_where (\<lambda>y. False) g rows"
      by (intro sum_where_cong) auto
    also have "\<dots> = 0" by (simp add: sum_where_def)
    finally show ?thesis using True by simp
  next
    case False
    with Cons.prems have "r \<in> set rows" and "k y \<noteq> k r" by force+
    with Cons show ?thesis by simp
  qed
qed

lemma sum_where_update_key:
  assumes "distinct (map k rows)" "r \<in> set rows"
  shows "sum_where p g (update_where (\<lambda>y. k y = k r) f rows) =
    sum_where p g rows - (if p r then g r else 0) + (if p (f r) then g (f r) else 0)"
  using assms
proof (induction rows)
  case Nil
  then show ?case by simp
next
  case (Cons y rows)
  show ?case
  proof (cases "y = r")
    case True
    with Cons.prems(1) have "update_where (\<lambda>y. k y = k r) f rows = rows"
      by (intro update_where_none) (auto simp: count_where_0_iff image_iff)
    then show ?thesis using True by simp
  next
    case False
    with Cons.prems have "r \<in> set rows" and "k y \<noteq> k r" by force+
    with Cons show ?thesis by simp
  qed
qed

lemma sum_where_map_cong:
  "map (\<lambda>r. (p r, g r)) xs = map (\<lambda>r. (q r, h r)) ys \<Longrightarrow> sum_where p g xs = sum_where q h ys"
  by (induction xs arbitrary: ys) (auto split: if_splits)

lemma find_map_cong:
  assumes "map k xs = map k ys"
  shows "(find (\<lambda>r. k r = x) xs = None) = (find (\<lambda>r. k r = x) ys = None)"
proof -
  have "k ` set xs = k ` set ys" using assms by (metis set_map)
  then show ?thesis by (simp add: find_key_None_iff)
qed

end
