(* ===== verification/Js_Number.thy ===== *)
theory Js_Number
  imports Prelude "HOL-Library.Log_Nat"
begin

text \<open>
  JavaScript numbers. A \<open>Number\<close> is an IEEE 754 double; a finite one is a rational, and the
  arithmetic operators return the double nearest to the exact result (ties to even). \<open>fl64\<close> is
  that rounding, with an unbounded exponent: the amounts the program computes with (prices,
  percentages, millisecond counts) are far from overflow and underflow, and NaN, the infinities
  and the sign of zero are not modelled. \<open>Math.round\<close> rounds half up on the exact value of its
  argument, and \<open>Number(x.toFixed(2))\<close> is the double nearest to the nearest hundredth.

  The locale \<open>js_rounding\<close> is the interface the money proofs rely on: exactness on the integers
  up to \<open>2 ^ 53\<close> and a relative error of \<open>2 ^ -53\<close>. It is interpreted on \<open>fl64\<close>.
\<close>

type_synonym jsnum = rat

subsection \<open>Rounding to a double\<close>

definition round_half_even :: "rat \<Rightarrow> int" where
  "round_half_even x =
     (let f = \<lfloor>x\<rfloor>; r = x - of_int f
      in if r < 1/2 then f else if 1/2 < r then f + 1 else if even f then f else f + 1)"

text \<open>The exponent \<open>e\<close> of the last of the 53 bits: \<open>2 ^ 52 \<le> \<bar>x\<bar> / 2 ^ e < 2 ^ 53\<close>.\<close>

definition fl_exponent :: "rat \<Rightarrow> int" where
  "fl_exponent x =
     (let (n, d) = quotient_of \<bar>x\<bar>; e = bitlen n - bitlen d - 53
      in if 2 ^ 53 \<le> \<bar>x\<bar> / power_int 2 e then e + 1 else e)"

definition fl64 :: "rat \<Rightarrow> jsnum" where
  "fl64 x =
     (if x = 0 then 0
      else let e = fl_exponent x in of_int (round_half_even (x / power_int 2 e)) * power_int 2 e)"

lemma round_half_even_error: "\<bar>of_int (round_half_even x) - x\<bar> \<le> 1/2"
proof -
  define f where "f = \<lfloor>x\<rfloor>"
  have "of_int f \<le> x" "x < of_int f + 1" unfolding f_def by linarith+
  then show ?thesis
    unfolding round_half_even_def Let_def f_def[symmetric] by auto
qed

lemma round_half_even_of_int [simp]: "round_half_even (of_int k) = k"
  by (simp add: round_half_even_def Let_def)

lemma quotient_of_abs_pos:
  assumes "quotient_of \<bar>x\<bar> = (n, d)" "x \<noteq> 0"
  shows "0 < n" "0 < d" "\<bar>x\<bar> = of_int n / of_int d"
proof -
  show d: "0 < d" using assms(1) by (rule quotient_of_denom_pos)
  show q: "\<bar>x\<bar> = of_int n / of_int d" using assms(1) by (rule quotient_of_div)
  have "0 < \<bar>x\<bar>" using assms(2) by simp
  then show "0 < n" using d unfolding q by (simp add: zero_less_divide_iff)
qed

lemma bitlen_rat_bounds:
  assumes "0 < n"
  shows "(power_int 2 (bitlen n - 1) :: rat) \<le> of_int n" "of_int n < (power_int 2 (bitlen n) :: rat)"
proof -
  have b: "1 \<le> bitlen n" using assms by (simp add: bitlen_alt_def)
  have i: "2 ^ nat (bitlen n - 1) \<le> n" "n < 2 ^ nat (bitlen n)"
    using bitlen_bounds[OF assms] by simp_all
  have "(of_int (2 ^ nat (bitlen n - 1)) :: rat) \<le> of_int n" using i(1) by (simp only: of_int_le_iff)
  then show "(power_int 2 (bitlen n - 1) :: rat) \<le> of_int n" using b by (simp add: power_int_def)
  have "(of_int n :: rat) < of_int (2 ^ nat (bitlen n))" using i(2) by (simp only: of_int_less_iff)
  then show "of_int n < (power_int 2 (bitlen n) :: rat)" using b by (simp add: power_int_def)
qed

lemma fl_exponent_bounds:
  assumes "x \<noteq> 0"
  shows "2 ^ 52 \<le> \<bar>x\<bar> / power_int 2 (fl_exponent x)" "\<bar>x\<bar> / power_int 2 (fl_exponent x) < 2 ^ 53"
proof -
  obtain n d where q: "quotient_of \<bar>x\<bar> = (n, d)" by fastforce
  note p = quotient_of_abs_pos[OF q assms]
  define e where "e = bitlen n - bitlen d - 53"
  have P: "0 < (power_int 2 k :: rat)" for k by simp
  have lo: "(power_int 2 (bitlen n - 1 - bitlen d) :: rat) \<le> \<bar>x\<bar>"
  proof -
    have "(power_int 2 (bitlen n - 1 - bitlen d) :: rat) = power_int 2 (bitlen n - 1) / power_int 2 (bitlen d)"
      by (simp add: power_int_diff)
    also have "\<dots> \<le> of_int n / of_int d"
      using bitlen_rat_bounds[OF p(1)] bitlen_rat_bounds[OF p(2)] p(1,2)
      by (intro frac_le) auto
    finally show ?thesis by (simp add: p(3))
  qed
  have hi: "\<bar>x\<bar> < (power_int 2 (bitlen n - bitlen d + 1) :: rat)"
  proof -
    have "of_int n / of_int d < (power_int 2 (bitlen n) / power_int 2 (bitlen d - 1) :: rat)"
      using bitlen_rat_bounds[OF p(1)] bitlen_rat_bounds[OF p(2)] p(1,2) P
      by (intro frac_less) auto
    also have "\<dots> = power_int 2 (bitlen n - bitlen d + 1)"
      by (simp add: power_int_diff[symmetric] algebra_simps)
    finally show ?thesis by (simp add: p(3))
  qed
  have sc: "(power_int 2 k :: rat) / power_int 2 j = power_int 2 (k - j)" for k j
    by (simp add: power_int_diff)
  have lo': "2 ^ 52 \<le> \<bar>x\<bar> / power_int 2 e"
  proof -
    have "power_int 2 (bitlen n - 1 - bitlen d) / power_int 2 e \<le> \<bar>x\<bar> / power_int 2 e"
      using lo by (intro divide_right_mono) auto
    then show ?thesis unfolding sc by (simp add: e_def power_int_def)
  qed
  have hi': "\<bar>x\<bar> / power_int 2 e < 2 ^ 54"
  proof -
    have "\<bar>x\<bar> / power_int 2 e < power_int 2 (bitlen n - bitlen d + 1) / power_int 2 e"
      using hi by (intro divide_strict_right_mono) auto
    then show ?thesis unfolding sc by (simp add: e_def power_int_def)
  qed
  have s: "\<bar>x\<bar> / power_int 2 (e + 1) = \<bar>x\<bar> / power_int 2 e / 2"
    by (simp add: power_int_add)
  have E: "fl_exponent x = (if 2 ^ 53 \<le> \<bar>x\<bar> / power_int 2 e then e + 1 else e)"
    unfolding fl_exponent_def q e_def Let_def by simp
  show "2 ^ 52 \<le> \<bar>x\<bar> / power_int 2 (fl_exponent x)"
    using lo' unfolding E by (auto simp: s)
  show "\<bar>x\<bar> / power_int 2 (fl_exponent x) < 2 ^ 53"
    using hi' unfolding E by (auto simp: s)
qed

lemma fl64_0 [simp]: "fl64 0 = 0"
  by (simp add: fl64_def)

lemma fl64_relative_error: "\<bar>fl64 x - x\<bar> \<le> \<bar>x\<bar> / 2 ^ 53"
proof (cases "x = 0")
  case True
  then show ?thesis by simp
next
  case False
  define p :: rat where "p = power_int 2 (fl_exponent x)"
  define m where "m = x / p"
  have p: "0 < p" by (simp add: p_def)
  have fl: "fl64 x = of_int (round_half_even m) * p"
    using False by (simp add: fl64_def p_def m_def Let_def)
  have x: "x = m * p" using p by (simp add: m_def)
  have ap: "\<bar>p\<bar> = p" using p by simp
  have "\<bar>fl64 x - x\<bar> = \<bar>of_int (round_half_even m) - m\<bar> * p"
    by (subst (2) x) (simp add: fl abs_mult ap left_diff_distrib[symmetric])
  also have "\<dots> \<le> 1/2 * p"
    using round_half_even_error p by (intro mult_right_mono) auto
  also have "\<dots> = 2 ^ 52 * p / 2 ^ 53" by simp
  also have "\<dots> \<le> \<bar>x\<bar> / 2 ^ 53"
  proof (intro divide_right_mono)
    have "2 ^ 52 \<le> \<bar>x\<bar> / p" using fl_exponent_bounds(1)[OF False] by (simp add: p_def)
    then show "2 ^ 52 * p \<le> \<bar>x\<bar>" using p by (simp add: pos_le_divide_eq)
  qed auto
  finally show ?thesis .
qed

lemma fl64_of_int:
  assumes "\<bar>k\<bar> \<le> 2 ^ 53"
  shows "fl64 (of_int k) = of_int k"
proof (cases "k = 0")
  case True
  then show ?thesis by simp
next
  case False
  let ?x = "of_int k :: rat"
  define e where "e = fl_exponent ?x"
  have x0: "?x \<noteq> 0" using False by simp
  have b: "2 ^ 52 \<le> \<bar>?x\<bar> / power_int 2 e" "\<bar>?x\<bar> / power_int 2 e < 2 ^ 53"
    using fl_exponent_bounds[OF x0] by (simp_all add: e_def)
  have ax: "\<bar>?x\<bar> \<le> 2 ^ 53"
  proof -
    have "(of_int \<bar>k\<bar> :: rat) \<le> of_int (2 ^ 53)" using assms by (simp only: of_int_le_iff)
    then show ?thesis by simp
  qed
  have "\<exists>j. ?x / power_int 2 e = of_int j"
  proof (cases "e \<le> 0")
    case True
    then have "?x / power_int 2 e = of_int (k * 2 ^ nat (- e))"
      by (auto simp: power_int_def field_simps power_inverse)
    then show ?thesis by blast
  next
    case False
    have "e \<le> 1"
    proof (rule ccontr)
      assume "\<not> e \<le> 1"
      then have "(power_int 2 2 :: rat) \<le> power_int 2 e" by (intro power_int_increasing) auto
      then have "(4 :: rat) \<le> power_int 2 e" by (simp add: power_int_def)
      moreover have "2 ^ 52 * power_int 2 e \<le> \<bar>?x\<bar>" using b(1) by (simp add: pos_le_divide_eq)
      moreover have "2 ^ 52 * 4 \<le> 2 ^ 52 * (power_int 2 e :: rat)"
        using calculation(1) by (intro mult_left_mono) auto
      ultimately have "2 ^ 52 * 4 \<le> \<bar>?x\<bar>" by linarith
      with ax show False by simp
    qed
    with False have e: "e = 1" by simp
    then have "2 ^ 53 \<le> \<bar>?x\<bar>" using b(1) by (simp add: power_int_def)
    with ax have "\<bar>?x\<bar> = 2 ^ 53" by simp
    then have "\<bar>k\<bar> = 2 ^ 53"
      by (metis of_int_abs of_int_eq_iff of_int_numeral of_int_power)
    then have "k = 2 * 2 ^ 52 \<or> k = 2 * (- (2 ^ 52))" by auto
    then show ?thesis unfolding e by (elim disjE) (auto intro: exI[of _ "2 ^ 52"] exI[of _ "- (2 ^ 52)"])
  qed
  then obtain j where j: "?x / power_int 2 e = of_int j" by blast
  have "fl64 ?x = of_int (round_half_even (?x / power_int 2 e)) * power_int 2 e"
    using x0 by (simp add: fl64_def e_def Let_def)
  also have "\<dots> = ?x / power_int 2 e * power_int 2 e" unfolding j by simp
  also have "\<dots> = ?x" by simp
  finally show ?thesis .
qed

text \<open>\<open>a\<close> is \<open>k\<close> hundredths up to one rounding.\<close>

definition approximates :: "rat \<Rightarrow> int \<Rightarrow> bool" where
  "approximates a k \<longleftrightarrow> \<bar>a - of_int k / 100\<bar> \<le> \<bar>of_int k / 100\<bar> / 2 ^ 53"

subsection \<open>The interface of floating point arithmetic\<close>

locale js_rounding =
  fixes fl :: "rat \<Rightarrow> rat"
  assumes fl_int: "\<bar>k\<bar> \<le> 2 ^ 53 \<Longrightarrow> fl (of_int k) = of_int k"
    and fl_relative_error: "\<bar>fl x - x\<bar> \<le> \<bar>x\<bar> / 2 ^ 53"
begin

lemma fl_error_bound: "\<bar>x\<bar> \<le> b \<Longrightarrow> \<bar>fl x - x\<bar> \<le> b / 2 ^ 53"
  by (rule order_trans[OF fl_relative_error]) (simp add: divide_right_mono)

lemma fl_nonneg:
  assumes "0 \<le> x"
  shows "0 \<le> fl x"
proof -
  have "\<bar>fl x - x\<bar> \<le> x / 2 ^ 53" using fl_relative_error[of x] assms by simp
  moreover have "x / 2 ^ 53 \<le> x" using assms by simp
  ultimately show ?thesis by linarith
qed

lemma fl_pos:
  assumes "0 < x"
  shows "0 < fl x"
proof -
  have "\<bar>fl x - x\<bar> \<le> x / 2 ^ 53" using fl_relative_error[of x] assms by simp
  moreover have "x / 2 ^ 53 < x" using assms by simp
  ultimately show ?thesis by linarith
qed

lemma fl_nonpos:
  assumes "x \<le> 0"
  shows "fl x \<le> 0"
proof -
  have "\<bar>fl x - x\<bar> \<le> - x / 2 ^ 53" using fl_relative_error[of x] assms by simp
  moreover have "- x / 2 ^ 53 \<le> - x" using assms by simp
  ultimately show ?thesis by linarith
qed

text \<open>
  An amount of \<open>k\<close> cents, divided by 100 and multiplied by 100 again, is off by less than half a
  cent: rounding gives \<open>k\<close> back.
\<close>

lemma scale_error:
  assumes "\<bar>k\<bar> \<le> 2 ^ 50"
  shows "\<bar>fl (fl (of_int k / 100) * 100) - of_int k\<bar> \<le> 1/3"
proof -
  define a where "a = fl (of_int k / 100)"
  have k: "\<bar>of_int k :: rat\<bar> \<le> 2 ^ 50"
  proof -
    have "(of_int \<bar>k\<bar> :: rat) \<le> of_int (2 ^ 50)" using assms by (simp only: of_int_le_iff)
    then show ?thesis by simp
  qed
  have 1: "\<bar>a - of_int k / 100\<bar> \<le> 2 ^ 50 / 100 / 2 ^ 53"
    unfolding a_def using k by (intro fl_error_bound) simp
  have 2: "\<bar>a * 100 - of_int k\<bar> \<le> 1 / 8" using 1 by (simp add: abs_le_iff field_simps)
  then have "\<bar>a * 100\<bar> \<le> 2 ^ 50 + 1" using k by linarith
  then have "\<bar>fl (a * 100) - a * 100\<bar> \<le> (2 ^ 50 + 1) / 2 ^ 53" by (rule fl_error_bound)
  then have "\<bar>fl (a * 100) - a * 100\<bar> \<le> 1 / 6" by simp
  with 2 show ?thesis unfolding a_def by linarith
qed

lemma scale_round:
  assumes "\<bar>k\<bar> \<le> 2 ^ 50"
  shows "\<lfloor>fl (fl (of_int k / 100) * 100) + 1/2\<rfloor> = k"
  using scale_error[OF assms] by (intro floor_unique) linarith+

lemma scale_inject:
  assumes "\<bar>j\<bar> \<le> 2 ^ 50" "\<bar>k\<bar> \<le> 2 ^ 50"
  shows "fl (of_int j / 100) = fl (of_int k / 100) \<longleftrightarrow> j = k"
  using scale_round[OF assms(1)] scale_round[OF assms(2)] by metis

text \<open>
  A running total: amounts that are hundredths up to rounding, added one by one. With at most 4096
  amounts of at most \<open>2 ^ 32\<close> cents in all, the rounding of every step together stays far below
  half a cent.
\<close>

lemma hundredths_bound:
  assumes "\<bar>k\<bar> \<le> 2 ^ 32"
  shows "\<bar>of_int k / 100\<bar> \<le> (42949673 :: rat)"
proof -
  have "(of_int k :: rat) \<le> of_int (2 ^ 32)" "(of_int (- (2 ^ 32)) :: rat) \<le> of_int k"
    using assms by (simp_all only: of_int_le_iff)
  then show ?thesis by (simp add: abs_le_iff)
qed

lemma rounded_step:
  assumes "\<bar>acc - t\<bar> \<le> e" "e \<le> 1" "\<bar>a - y\<bar> \<le> \<bar>y\<bar> / 2 ^ 53" "\<bar>y\<bar> \<le> 42949673" "\<bar>t\<bar> \<le> 42949673"
  shows "\<bar>fl (acc + a) - (t + y)\<bar> \<le> e + 1 / 4194304"
proof -
  have e1: "\<bar>a - y\<bar> \<le> 1 / 33554432" using assms(3,4) by simp
  have "\<bar>acc + a\<bar> \<le> 268435456" using assms e1 by linarith
  then have "\<bar>fl (acc + a) - (acc + a)\<bar> \<le> 1 / 33554432"
    using fl_error_bound[of "acc + a" "268435456"] by simp
  then show ?thesis using assms(1) e1 by linarith
qed

lemma accumulate_step:
  assumes acc: "\<bar>acc - of_int s / 100\<bar> \<le> of_nat n / 4194304" and n: "n < 4096"
    and s: "\<bar>s\<bar> + \<bar>k\<bar> \<le> 2 ^ 32" and a: "approximates a k"
  shows "\<bar>fl (acc + a) - of_int (s + k) / 100\<bar> \<le> of_nat (Suc n) / 4194304"
proof -
  have "\<bar>k\<bar> \<le> 2 ^ 32" "\<bar>s\<bar> \<le> 2 ^ 32" using s by linarith+
  then have "\<bar>of_int k / 100\<bar> \<le> (42949673 :: rat)" "\<bar>of_int s / 100\<bar> \<le> (42949673 :: rat)"
    using hundredths_bound by blast+
  moreover have "of_nat n / 4194304 \<le> (1 :: rat)" using n by simp
  ultimately have "\<bar>fl (acc + a) - (of_int s / 100 + of_int k / 100)\<bar> \<le> of_nat n / 4194304 + 1 / 4194304"
    using rounded_step[OF acc] a unfolding approximates_def by blast
  then show ?thesis by (simp add: add_divide_distrib add.commute)
qed

lemma accumulate_error:
  assumes "list_all2 approximates as ks" "\<bar>acc - of_int s / 100\<bar> \<le> of_nat n / 4194304"
    and "n + length ks \<le> 4096" "\<bar>s\<bar> + sum_list (map abs ks) \<le> 2 ^ 32"
  shows "\<bar>foldl (\<lambda>x a. fl (x + a)) acc as - of_int (s + sum_list ks) / 100\<bar> \<le> of_nat (n + length ks) / 4194304"
  using assms
proof (induction as ks arbitrary: acc s n rule: list_all2_induct)
  case (Cons a as k ks)
  have nn: "0 \<le> sum_list (map abs ks)" by (rule sum_list_nonneg) auto
  have st: "\<bar>fl (acc + a) - of_int (s + k) / 100\<bar> \<le> of_nat (Suc n) / 4194304"
    by (rule accumulate_step) (use Cons nn in auto)
  have "\<bar>foldl (\<lambda>x a. fl (x + a)) (fl (acc + a)) as - of_int (s + k + sum_list ks) / 100\<bar> \<le> of_nat (Suc n + length ks) / 4194304"
    by (rule Cons.IH[OF st]) (use Cons.prems in auto)
  then show ?case by (simp add: add.assoc)
qed simp

lemma scaled_round:
  assumes "\<bar>x - y\<bar> \<le> 1 / 1024" "\<bar>y\<bar> \<le> 42949673" "y * 100 = of_int k"
  shows "\<lfloor>fl (x * 100) + 1/2\<rfloor> = k"
proof -
  have "\<bar>x\<bar> \<le> 85899346" using assms(1,2) by linarith
  then have "\<bar>x * 100\<bar> \<le> 8589934600" by (simp add: abs_mult)
  then have "\<bar>fl (x * 100) - x * 100\<bar> \<le> 1/8" using fl_error_bound[of "x * 100" "8589934600"] by simp
  then have "\<bar>fl (x * 100) - y * 100\<bar> \<le> 1/3" using assms(1) by linarith
  then show ?thesis unfolding assms(3) by (intro floor_unique) linarith+
qed

lemma accumulate_round:
  assumes "list_all2 approximates as ks" "length ks \<le> 4096" "sum_list (map abs ks) \<le> 2 ^ 32"
  shows "\<lfloor>fl (foldl (\<lambda>x a. fl (x + a)) 0 as * 100) + 1/2\<rfloor> = sum_list ks"
proof (rule scaled_round[of _ "of_int (sum_list ks) / 100"])
  have "\<bar>foldl (\<lambda>x a. fl (x + a)) 0 as - of_int (sum_list ks) / 100\<bar> \<le> of_nat (length ks) / 4194304"
    using accumulate_error[OF assms(1), of 0 0 0] assms(2,3) by simp
  also have "\<dots> \<le> 1 / 1024" using assms(2) by simp
  finally show "\<bar>foldl (\<lambda>x a. fl (x + a)) 0 as - of_int (sum_list ks) / 100\<bar> \<le> 1 / 1024" .
  have "\<bar>sum_list ks\<bar> \<le> 2 ^ 32" using sum_list_abs[of ks] assms(3) by linarith
  then show "\<bar>of_int (sum_list ks) / 100\<bar> \<le> (42949673 :: rat)" by (rule hundredths_bound)
qed simp

lemma approximates_fl: "approximates (fl (of_int k / 100)) k"
  unfolding approximates_def by (rule fl_relative_error)

lemma approximates_uminus: "approximates a k \<Longrightarrow> approximates (- a) (- k)"
  unfolding approximates_def by (simp add: abs_minus_commute)

end

interpretation js: js_rounding fl64
  by unfold_locales (fact fl64_of_int, fact fl64_relative_error)

subsection \<open>The operators of the language\<close>

definition js_add :: "jsnum \<Rightarrow> jsnum \<Rightarrow> jsnum" where "js_add x y = fl64 (x + y)"
definition js_sub :: "jsnum \<Rightarrow> jsnum \<Rightarrow> jsnum" where "js_sub x y = fl64 (x - y)"
definition js_mul :: "jsnum \<Rightarrow> jsnum \<Rightarrow> jsnum" where "js_mul x y = fl64 (x * y)"
definition js_div :: "jsnum \<Rightarrow> jsnum \<Rightarrow> jsnum" where "js_div x y = fl64 (x / y)"

text \<open>\<open>Math.round\<close>; the integers it returns here are below \<open>2 ^ 53\<close>, hence exact.\<close>

definition js_round :: "jsnum \<Rightarrow> int" where "js_round x = \<lfloor>x + 1/2\<rfloor>"

text \<open>\<open>Number(x.toFixed(2))\<close>: of two equally near hundredths the one larger in magnitude.\<close>

definition js_toFixed2 :: "jsnum \<Rightarrow> jsnum" where
  "js_toFixed2 x =
     (if x < 0 then - fl64 (of_int \<lfloor>- x * 100 + 1/2\<rfloor> / 100) else fl64 (of_int \<lfloor>x * 100 + 1/2\<rfloor> / 100))"

text \<open>\<open>Math.round(x * 100)\<close> and \<open>k / 100\<close>, the conversions between major units and cents.\<close>

definition cents :: "jsnum \<Rightarrow> int" where "cents x = js_round (js_mul x 100)"
definition major :: "int \<Rightarrow> jsnum" where "major k = js_div (of_int k) 100"

text \<open>Amounts of at most \<open>2 ^ 50\<close> cents (eleven trillion), the range of the exactness results.\<close>

abbreviation safe_cents :: "int \<Rightarrow> bool" where "safe_cents k \<equiv> \<bar>k\<bar> \<le> 2 ^ 50"

lemma cents_major [simp]: "safe_cents k \<Longrightarrow> cents (major k) = k"
  using js.scale_round[of k] by (simp add: cents_def major_def js_round_def js_mul_def js_div_def)

lemma major_inject: "safe_cents j \<Longrightarrow> safe_cents k \<Longrightarrow> major j = major k \<longleftrightarrow> j = k"
  by (metis cents_major)

lemma major_0 [simp]: "major 0 = 0"
  by (simp add: major_def js_div_def)

lemma cents_0 [simp]: "cents 0 = 0"
  using cents_major[of 0] by simp

lemma major_nonneg: "0 \<le> k \<Longrightarrow> 0 \<le> major k"
  by (simp add: major_def js_div_def js.fl_nonneg)

lemma major_pos_iff [simp]: "0 < major k \<longleftrightarrow> 0 < k"
proof
  assume "0 < major k"
  then show "0 < k"
    using js.fl_nonpos[of "of_int k / 100"] by (auto simp: major_def js_div_def intro: ccontr)
qed (simp add: major_def js_div_def js.fl_pos)

lemma cents_nonneg: "0 \<le> x \<Longrightarrow> 0 \<le> cents x"
proof -
  assume "0 \<le> x"
  then have "0 \<le> js_mul x 100" by (simp add: js_mul_def js.fl_nonneg)
  then show ?thesis by (simp add: cents_def js_round_def)
qed

lemma js_round_of_int [simp]: "js_round (of_int k) = k"
  by (simp add: js_round_def floor_unique)

lemma js_round_mono: "x \<le> y \<Longrightarrow> js_round x \<le> js_round y"
  by (simp add: js_round_def floor_mono)

subsection \<open>Running totals\<close>

definition js_total :: "jsnum list \<Rightarrow> jsnum" where "js_total = foldl js_add 0"

lemma cents_js_total:
  assumes "list_all2 approximates as ks" "length ks \<le> 4096" "sum_list (map abs ks) \<le> 2 ^ 32"
  shows "cents (js_total as) = sum_list ks"
  using js.accumulate_round[OF assms]
  by (simp add: cents_def js_total_def js_round_def js_mul_def js_add_def[abs_def])

lemma major_approximates: "approximates (major k) k"
  using js.approximates_fl[of k] by (simp add: major_def js_div_def)

lemma js_total_error:
  assumes "list_all2 approximates as ks" "length ks \<le> 4096" "sum_list (map abs ks) \<le> 2 ^ 32"
  shows "\<bar>js_total as - of_int (sum_list ks) / 100\<bar> \<le> 1 / 1024" "\<bar>of_int (sum_list ks) / 100\<bar> \<le> (42949673 :: rat)"
proof -
  have "\<bar>foldl (\<lambda>x a. fl64 (x + a)) 0 as - of_int (sum_list ks) / 100\<bar> \<le> of_nat (length ks) / 4194304"
    using js.accumulate_error[OF assms(1), of 0 0 0] assms(2,3) by simp
  also have "\<dots> \<le> 1 / 1024" using assms(2) by simp
  finally show "\<bar>js_total as - of_int (sum_list ks) / 100\<bar> \<le> 1 / 1024"
    by (simp add: js_total_def js_add_def[abs_def])
  have "\<bar>sum_list ks\<bar> \<le> 2 ^ 32" using sum_list_abs[of ks] assms(3) by linarith
  then show "\<bar>of_int (sum_list ks) / 100\<bar> \<le> (42949673 :: rat)" by (rule js.hundredths_bound)
qed

text \<open>The difference of two running totals against a tolerance of one cent.\<close>

lemma js_sub_tolerance:
  fixes x y X Y :: rat
  assumes "\<bar>x - X\<bar> \<le> 1 / 1024" "\<bar>y - Y\<bar> \<le> 1 / 1024" "\<bar>X\<bar> \<le> 42949673" "\<bar>Y\<bar> \<le> 42949673"
  shows "\<bar>X - Y\<bar> \<ge> 2 / 100 \<Longrightarrow> fl64 (1 / 100) < \<bar>js_sub x y\<bar>" "X = Y \<Longrightarrow> \<not> fl64 (1 / 100) < \<bar>js_sub x y\<bar>"
proof -
  have "\<bar>x - y\<bar> \<le> 85899347" using assms by linarith
  then have "\<bar>fl64 (x - y) - (x - y)\<bar> \<le> 1 / 1024" using js.fl_error_bound[of "x - y" 85899347] by simp
  then have d: "\<bar>js_sub x y - (X - Y)\<bar> \<le> 3 / 1024" using assms(1,2) unfolding js_sub_def by linarith
  have "\<bar>fl64 (1 / 100) - 1 / 100\<bar> \<le> 1 / 1024" using fl64_relative_error[of "1 / 100"] by simp
  then have t: "fl64 (1 / 100) \<le> 11 / 1000" "9 / 1000 \<le> fl64 (1 / 100)" by linarith+
  show "\<bar>X - Y\<bar> \<ge> 2 / 100 \<Longrightarrow> fl64 (1 / 100) < \<bar>js_sub x y\<bar>" using d t by linarith
  show "X = Y \<Longrightarrow> \<not> fl64 (1 / 100) < \<bar>js_sub x y\<bar>" using d t by linarith
qed

text \<open>Subtracting two amounts of cents, as the residual amounts do.\<close>

lemma rounded_difference:
  fixes x y X Y :: rat
  assumes "\<bar>x - X\<bar> \<le> \<bar>X\<bar> / 2 ^ 53" "\<bar>y - Y\<bar> \<le> \<bar>Y\<bar> / 2 ^ 53"
    and "0 \<le> X" "X \<le> 2814749767107" "0 \<le> Y" "Y \<le> 2814749767107"
  shows "\<bar>fl64 (fl64 (x - y) * 100) - (X * 100 - Y * 100)\<bar> \<le> 1/3"
proof -
  have e1: "\<bar>x - X\<bar> \<le> 1 / 2048" and e2: "\<bar>y - Y\<bar> \<le> 1 / 2048" using assms by simp_all
  have "\<bar>x - y\<bar> \<le> 2814749767108" using e1 e2 assms(3-6) by linarith
  then have "\<bar>fl64 (x - y) - (x - y)\<bar> \<le> 1 / 2048" using js.fl_error_bound[of "x - y" 2814749767108] by simp
  then have e3: "\<bar>fl64 (x - y) - (X - Y)\<bar> \<le> 3 / 2048" using e1 e2 by linarith
  then have "\<bar>fl64 (x - y)\<bar> \<le> 2814749767109" using assms(3-6) by linarith
  then have "\<bar>fl64 (x - y) * 100\<bar> \<le> 281474976710900" by (simp add: abs_mult)
  then have "\<bar>fl64 (fl64 (x - y) * 100) - fl64 (x - y) * 100\<bar> \<le> 1 / 16"
    using js.fl_error_bound[of "fl64 (x - y) * 100" 281474976710900] by simp
  then show ?thesis using e3 by linarith
qed

lemma cents_js_sub_major:
  assumes "0 \<le> a" "a \<le> 2 ^ 48" "0 \<le> b" "b \<le> 2 ^ 48"
  shows "cents (js_sub (major a) (major b)) = a - b"
proof -
  have bound: "0 \<le> (of_int k / 100 :: rat) \<and> of_int k / 100 \<le> (2814749767107 :: rat)" if "0 \<le> k" "k \<le> 2 ^ 48" for k :: int
  proof -
    have "(of_int k :: rat) \<le> of_int (2 ^ 48)" "(of_int 0 :: rat) \<le> of_int k" using that by (simp_all only: of_int_le_iff)
    then show ?thesis by simp
  qed
  have "\<bar>fl64 (fl64 (major a - major b) * 100) - (of_int a / 100 * 100 - of_int b / 100 * 100)\<bar> \<le> 1/3"
    using major_approximates[of a] major_approximates[of b] bound[OF assms(1,2)] bound[OF assms(3,4)]
    by (intro rounded_difference) (simp_all add: approximates_def)
  then have "\<bar>fl64 (fl64 (major a - major b) * 100) - of_int (a - b)\<bar> \<le> 1/3" by simp
  then show ?thesis
    unfolding cents_def js_sub_def js_round_def js_mul_def by (intro floor_unique) linarith+
qed

end
