(* ===== verification/Booking_Price.thy ===== *)
theory Booking_Price
  imports Js_Number
begin

text \<open>
  The price of a booking and its division between driver and platform:
  \<open>booking-price.ts\<close>, \<open>booking-payment-split.ts\<close>, \<open>booking-cancellation-policy.ts\<close> of
  \<open>src/src/modules/ride-booking\<close>, and the reconstruction of a stored breakdown in
  \<open>ride-booking.service.ts\<close>. Amounts in major units are doubles; an integral number of cents is
  an \<open>int\<close> (exact in double arithmetic below \<open>2 ^ 53\<close>).
\<close>

named_theorems price_defs \<open>the definitions of the price computations\<close>

subsection \<open>Price breakdown\<close>

definition MAX_SEATS_PER_BOOKING :: int where "MAX_SEATS_PER_BOOKING = 4"

record price_breakdown =
  basePricePerSeat :: jsnum
  seatsBooked :: int
  subtotal :: jsnum
  luggageFee :: jsnum
  serviceFee :: jsnum
  totalPrice :: jsnum
  currency :: string
  serviceFeePercent :: jsnum
  serviceFeeFlat :: jsnum

record price_input =
  in_basePricePerSeat :: jsnum
  in_seatsBooked :: int
  in_currency :: "string option"
  in_serviceFeePercent :: jsnum
  in_serviceFeeFlat :: jsnum

definition percent_fee_cents :: "int \<Rightarrow> jsnum \<Rightarrow> int" where
  "percent_fee_cents subtotalCents percent = js_round (js_div (js_mul (of_int subtotalCents) percent) 100)"

definition calculateBookingPrice :: "price_input \<Rightarrow> price_breakdown" where
  "calculateBookingPrice input =
     (let subtotalCents = cents (in_basePricePerSeat input) * in_seatsBooked input;
          luggageFeeCents = 0;
          percentFeeCents = percent_fee_cents subtotalCents (in_serviceFeePercent input);
          flatFeeCents = cents (in_serviceFeeFlat input);
          serviceFeeCents = percentFeeCents + flatFeeCents;
          totalCents = subtotalCents + luggageFeeCents + serviceFeeCents
      in \<lparr> basePricePerSeat = in_basePricePerSeat input,
           seatsBooked = in_seatsBooked input,
           subtotal = major subtotalCents,
           luggageFee = major luggageFeeCents,
           serviceFee = major serviceFeeCents,
           totalPrice = major totalCents,
           currency = (case in_currency input of None \<Rightarrow> ''EUR'' | Some c \<Rightarrow> c),
           serviceFeePercent = in_serviceFeePercent input,
           serviceFeeFlat = in_serviceFeeFlat input \<rparr>)"

subsection \<open>Payment split\<close>

record payment_split =
  amountTotal :: jsnum
  fareAmount :: jsnum
  platformFeeAmount :: jsnum
  split_currency :: string

definition resolvePaymentSplit :: "price_breakdown \<Rightarrow> error + payment_split" where
  "resolvePaymentSplit breakdown =
     (let totalCents = cents (totalPrice breakdown);
          feeCents = cents (serviceFee breakdown);
          fareCents = totalCents - feeCents
      in if fareCents < 0 then Inl PAYMENT_SPLIT_NEGATIVE_FARE
         else if fareCents + feeCents \<noteq> totalCents then Inl PAYMENT_SPLIT_IMBALANCE
         else Inr \<lparr> amountTotal = major totalCents,
                    fareAmount = major fareCents,
                    platformFeeAmount = major feeCents,
                    split_currency = currency breakdown \<rparr>)"

record refund_split =
  fareRefundAmount :: jsnum
  feeRefundAmount :: jsnum

text \<open>The arguments are the \<open>amountTotal\<close> and the \<open>fareAmount\<close> of the payment.\<close>

definition fare_refund_cents :: "int \<Rightarrow> int \<Rightarrow> int \<Rightarrow> int" where
  "fare_refund_cents totalCents fareCents refundCents =
     js_round (js_div (js_mul (of_int refundCents) (of_int fareCents)) (of_int totalCents))"

definition resolveRefundSplit :: "jsnum \<Rightarrow> jsnum \<Rightarrow> jsnum \<Rightarrow> refund_split" where
  "resolveRefundSplit payTotal payFare refundAmount =
     (let totalCents = cents payTotal;
          refundCents = cents refundAmount
      in if refundCents \<le> 0 then \<lparr> fareRefundAmount = 0, feeRefundAmount = 0 \<rparr>
         else if totalCents \<le> 0 then \<lparr> fareRefundAmount = major refundCents, feeRefundAmount = 0 \<rparr>
         else let fareCents = cents payFare;
                  fareRefundCents = fare_refund_cents totalCents fareCents refundCents;
                  feeRefundCents = refundCents - fareRefundCents
              in \<lparr> fareRefundAmount = major fareRefundCents, feeRefundAmount = major feeRefundCents \<rparr>)"

subsection \<open>Cancellation policy\<close>

definition THREE_HOURS_MS :: int where "THREE_HOURS_MS = 3 * 60 * 60 * 1000"

definition isConfirmedCancellationWindowClosed :: "time \<Rightarrow> time \<Rightarrow> bool" where
  "isConfirmedCancellationWindowClosed departureAt now \<longleftrightarrow> departureAt - now \<le> THREE_HOURS_MS"

definition getRiderRefundPercent :: "time \<Rightarrow> time \<Rightarrow> jsnum" where
  "getRiderRefundPercent departureAt now = (if departureAt - now > THREE_HOURS_MS then 50 else 0)"

definition getRiderRefundAmount :: "jsnum \<Rightarrow> jsnum \<Rightarrow> jsnum" where
  "getRiderRefundAmount price percent =
     (if percent \<le> 0 then 0 else js_toFixed2 (js_div (js_mul price percent) 100))"

definition toMinorCurrencyUnits :: "jsnum \<Rightarrow> int" where
  "toMinorCurrencyUnits amountMajor = (if amountMajor \<le> 0 then 0 else cents amountMajor)"

subsection \<open>Stored breakdown\<close>

text \<open>The columns of a booking row that \<open>reconstructPriceBreakdown\<close> reads.\<close>

record stored_price =
  st_seatsBooked :: int
  st_totalPrice :: jsnum
  st_segmentFare :: "jsnum option"
  st_serviceFeeAmount :: "jsnum option"
  st_serviceFeePercent :: "jsnum option"
  st_paymentCurrency :: "string option"
  st_rideCurrency :: "string option"

definition reconstructPriceBreakdown :: "stored_price \<Rightarrow> price_breakdown option" where
  "reconstructPriceBreakdown booking =
     (case st_serviceFeeAmount booking of
        None \<Rightarrow> None
      | Some fee \<Rightarrow>
          let subtotalCents = cents (st_totalPrice booking) - cents fee;
              seats = (if st_seatsBooked booking > 0 then st_seatsBooked booking else 1);
              percent = (case st_serviceFeePercent booking of None \<Rightarrow> 0 | Some p \<Rightarrow> p);
              percentFeeCents = percent_fee_cents subtotalCents percent;
              flatFeeCents = max 0 (cents fee - percentFeeCents)
          in Some \<lparr> basePricePerSeat = (case st_segmentFare booking of
                        None \<Rightarrow> js_div (major subtotalCents) (of_int seats) | Some f \<Rightarrow> f),
                    seatsBooked = st_seatsBooked booking,
                    subtotal = major subtotalCents,
                    luggageFee = 0,
                    serviceFee = fee,
                    totalPrice = st_totalPrice booking,
                    currency = (case st_paymentCurrency booking of Some c \<Rightarrow> c
                                | None \<Rightarrow> (case st_rideCurrency booking of Some c \<Rightarrow> c | None \<Rightarrow> ''EUR'')),
                    serviceFeePercent = percent,
                    serviceFeeFlat = major flatFeeCents \<rparr>)"

text \<open>What \<open>buildBookingData\<close> stores of the plan's breakdown.\<close>

definition store_breakdown :: "price_breakdown \<Rightarrow> stored_price" where
  "store_breakdown b =
     \<lparr> st_seatsBooked = seatsBooked b, st_totalPrice = totalPrice b,
       st_segmentFare = Some (basePricePerSeat b), st_serviceFeeAmount = Some (serviceFee b),
       st_serviceFeePercent = Some (serviceFeePercent b), st_paymentCurrency = Some (currency b),
       st_rideCurrency = Some (currency b) \<rparr>"

lemmas [price_defs] =
  calculateBookingPrice_def resolvePaymentSplit_def resolveRefundSplit_def
  reconstructPriceBreakdown_def store_breakdown_def

subsection \<open>Bounds of the percentage computations\<close>

lemma rounded_product_quotient:
  fixes a b c :: rat
  assumes "0 \<le> a" "0 \<le> b" "0 < c" "a * b / c \<le> m"
  shows "\<bar>js_div (js_mul a b) c - a * b / c\<bar> \<le> 3 * m / 2 ^ 53"
proof -
  let ?x = "a * b" and ?y = "fl64 (a * b)"
  have x: "0 \<le> ?x" using assms by simp
  have m: "0 \<le> m" using assms by (meson divide_nonneg_pos order_trans mult_nonneg_nonneg)
  have 1: "\<bar>?y - ?x\<bar> \<le> ?x / 2 ^ 53" using fl64_relative_error[of ?x] x by simp
  have "\<bar>?y / c - ?x / c\<bar> = \<bar>?y - ?x\<bar> / c"
    using assms(3) by (simp add: diff_divide_distrib[symmetric])
  also have "\<dots> \<le> ?x / 2 ^ 53 / c" using 1 assms(3) by (intro divide_right_mono) auto
  also have "\<dots> = (?x / c) / 2 ^ 53" by simp
  also have "\<dots> \<le> m / 2 ^ 53" using assms(4) by (intro divide_right_mono) auto
  finally have 2: "\<bar>?y / c - ?x / c\<bar> \<le> m / 2 ^ 53" .
  have q: "0 \<le> ?x / c" using x assms(3) by simp
  have "\<bar>?y / c\<bar> \<le> m + m / 2 ^ 53" using 2 assms(4) q by linarith
  also have "\<dots> \<le> 2 * m" using m by simp
  finally have "\<bar>fl64 (?y / c) - ?y / c\<bar> \<le> 2 * m / 2 ^ 53" by (rule js.fl_error_bound)
  with 2 have "\<bar>fl64 (?y / c) - ?x / c\<bar> \<le> m / 2 ^ 53 + 2 * m / 2 ^ 53" by linarith
  then show ?thesis by (simp add: js_div_def js_mul_def)
qed

lemma percent_fee_accuracy:
  assumes "0 \<le> s" "s \<le> 2 ^ 40" "0 \<le> p" "p \<le> 100"
  shows "\<bar>of_int (percent_fee_cents s p) - of_int s * p / 100\<bar> \<le> 1/2 + 1 / 2 ^ 11"
proof -
  have "(of_int s :: rat) \<le> of_int (2 ^ 40)" using assms(2) by (simp only: of_int_le_iff)
  then have s: "0 \<le> (of_int s :: rat)" "(of_int s :: rat) \<le> 2 ^ 40" using assms(1) by simp_all
  have "of_int s * p \<le> 2 ^ 40 * 100" using s assms(3,4) by (intro mult_mono) auto
  then have "of_int s * p / 100 \<le> 2 ^ 40" by simp
  from rounded_product_quotient[OF s(1) assms(3) _ this]
  have "\<bar>js_div (js_mul (of_int s) p) 100 - of_int s * p / 100\<bar> \<le> 3 * 2 ^ 40 / 2 ^ 53" by simp
  then have e: "\<bar>js_div (js_mul (of_int s) p) 100 - of_int s * p / 100\<bar> \<le> 1 / 2 ^ 11"
    by simp
  have "\<bar>of_int (js_round z) - z\<bar> \<le> 1/2" for z :: rat
    unfolding js_round_def by linarith
  from this[of "js_div (js_mul (of_int s) p) 100"] e
  show ?thesis unfolding percent_fee_cents_def by linarith
qed

lemma percent_fee_bounds:
  assumes "0 \<le> s" "s \<le> 2 ^ 40" "0 \<le> p" "p \<le> 100"
  shows "0 \<le> percent_fee_cents s p" "percent_fee_cents s p \<le> s"
proof -
  have s: "0 \<le> (of_int s :: rat)" using assms(1) by simp
  have lo: "0 \<le> of_int s * p / 100" using s assms(3) by simp
  have hi: "of_int s * p / 100 \<le> of_int s"
    using mult_left_mono[OF assms(4) s] by simp
  have e: "\<bar>of_int (percent_fee_cents s p) - of_int s * p / 100\<bar> < 1"
    using percent_fee_accuracy[OF assms] by simp
  have "(of_int (- 1) :: rat) < of_int (percent_fee_cents s p)" using e lo by simp
  then show "0 \<le> percent_fee_cents s p" by (simp only: of_int_less_iff)
  have "of_int (percent_fee_cents s p) < (of_int s + 1 :: rat)" using e hi by linarith
  then have "(of_int (percent_fee_cents s p) :: rat) < of_int (s + 1)" by simp
  then show "percent_fee_cents s p \<le> s" by (simp only: of_int_less_iff)
qed

subsection \<open>The inputs the platform prices\<close>

text \<open>
  A fare per seat of a whole number of cents (at most \<open>2 ^ 36\<close>), one to four seats, a percentage
  between 0 and 100 and a flat fee of a whole number of cents.
\<close>

definition whole_cents :: "jsnum \<Rightarrow> bool" where
  "whole_cents x \<longleftrightarrow> 0 \<le> cents x \<and> cents x \<le> 2 ^ 36 \<and> x = major (cents x)"

definition priced_in_cents :: "price_input \<Rightarrow> bool" where
  "priced_in_cents i \<longleftrightarrow>
     whole_cents (in_basePricePerSeat i) \<and> whole_cents (in_serviceFeeFlat i) \<and>
     1 \<le> in_seatsBooked i \<and> in_seatsBooked i \<le> MAX_SEATS_PER_BOOKING \<and>
     0 \<le> in_serviceFeePercent i \<and> in_serviceFeePercent i \<le> 100"

abbreviation subtotal_cents :: "price_input \<Rightarrow> int" where
  "subtotal_cents i \<equiv> cents (in_basePricePerSeat i) * in_seatsBooked i"

abbreviation fee_cents :: "price_input \<Rightarrow> int" where
  "fee_cents i \<equiv> percent_fee_cents (subtotal_cents i) (in_serviceFeePercent i) + cents (in_serviceFeeFlat i)"

lemma whole_cents_major: "0 \<le> k \<Longrightarrow> k \<le> 2 ^ 36 \<Longrightarrow> whole_cents (major k)"
  by (simp add: whole_cents_def)

lemma priced_in_cents_bounds:
  assumes "priced_in_cents i"
  shows "0 \<le> subtotal_cents i" "subtotal_cents i \<le> 2 ^ 38"
    "cents (in_serviceFeeFlat i) \<le> fee_cents i" "0 \<le> fee_cents i" "fee_cents i \<le> 2 ^ 39"
proof -
  note d = assms[unfolded priced_in_cents_def whole_cents_def MAX_SEATS_PER_BOOKING_def]
  show s0: "0 \<le> subtotal_cents i" using d by simp
  have "subtotal_cents i \<le> 2 ^ 36 * 4" using d by (intro mult_mono) auto
  then show s1: "subtotal_cents i \<le> 2 ^ 38" by simp
  have "0 \<le> percent_fee_cents (subtotal_cents i) (in_serviceFeePercent i)"
    "percent_fee_cents (subtotal_cents i) (in_serviceFeePercent i) \<le> subtotal_cents i"
    using percent_fee_bounds[OF s0, of "in_serviceFeePercent i"] s1 d by simp_all
  then show "cents (in_serviceFeeFlat i) \<le> fee_cents i" "0 \<le> fee_cents i" "fee_cents i \<le> 2 ^ 39"
    using d s1 by simp_all
qed

lemma calculateBookingPrice_cents:
  assumes "priced_in_cents i"
  defines "b \<equiv> calculateBookingPrice i"
  shows "cents (subtotal b) = subtotal_cents i" "cents (serviceFee b) = fee_cents i"
    "cents (totalPrice b) = subtotal_cents i + fee_cents i"
    "subtotal b = major (subtotal_cents i)" "serviceFee b = major (fee_cents i)"
    "totalPrice b = major (subtotal_cents i + fee_cents i)"
  using priced_in_cents_bounds[OF assms(1)]
  by (simp_all add: b_def calculateBookingPrice_def Let_def)

text \<open>
  C32. The price breakdown adds up in whole cents, and splitting the charge never fails: the
  driver's share is the subtotal (seat fare times seats) in full and the platform's share is the
  service fee charged on top of it.
\<close>

theorem split_of_price_keeps_fare:
  assumes "priced_in_cents i"
  defines "b \<equiv> calculateBookingPrice i"
  shows "resolvePaymentSplit b =
      Inr \<lparr> amountTotal = totalPrice b, fareAmount = subtotal b, platformFeeAmount = serviceFee b,
            split_currency = currency b \<rparr> \<and>
    cents (subtotal b) = cents (in_basePricePerSeat i) * in_seatsBooked i \<and>
    cents (totalPrice b) = cents (subtotal b) + cents (luggageFee b) + cents (serviceFee b)"
proof -
  note c = calculateBookingPrice_cents[OF assms(1)]
  have "cents (luggageFee b) = 0" by (simp add: b_def calculateBookingPrice_def Let_def)
  then show ?thesis
    using c priced_in_cents_bounds[OF assms(1)] unfolding b_def
    by (simp add: resolvePaymentSplit_def Let_def)
qed

definition sample_input :: price_input where
  "sample_input = \<lparr> in_basePricePerSeat = major 330, in_seatsBooked = 3, in_currency = None,
     in_serviceFeePercent = 15, in_serviceFeeFlat = major 20 \<rparr>"

lemma sample_input_priced: "priced_in_cents sample_input"
  by (simp add: sample_input_def priced_in_cents_def whole_cents_major MAX_SEATS_PER_BOOKING_def)

theorem split_of_price_keeps_fare_witness:
  "cents (subtotal (calculateBookingPrice sample_input)) = 990"
  using split_of_price_keeps_fare[OF sample_input_priced] by (simp add: sample_input_def)

text \<open>
  C33. The service fee is the flat fee plus the percentage of the whole-booking subtotal, rounded
  once: it is within half a cent (and the error of two double roundings) of the exact value.
\<close>

theorem service_fee_accuracy:
  assumes "priced_in_cents i"
  defines "b \<equiv> calculateBookingPrice i"
  shows "\<bar>of_int (cents (serviceFee b)) -
      (of_int (cents (in_serviceFeeFlat i)) + of_int (cents (subtotal b)) * in_serviceFeePercent i / 100)\<bar>
    \<le> 1/2 + 1 / 2 ^ 11"
proof -
  note d = assms(1)[unfolded priced_in_cents_def]
  show ?thesis
    using percent_fee_accuracy[of "subtotal_cents i" "in_serviceFeePercent i"] d
      priced_in_cents_bounds[OF assms(1)] calculateBookingPrice_cents[OF assms(1)]
    by (simp add: b_def)
qed

theorem service_fee_accuracy_witness:
  "\<bar>of_int (cents (serviceFee (calculateBookingPrice sample_input))) - (1685 / 10 :: rat)\<bar> \<le> 1/2 + 1 / 2 ^ 11"
  using service_fee_accuracy[OF sample_input_priced] calculateBookingPrice_cents(1)[OF sample_input_priced]
  by (simp add: sample_input_def)

text \<open>
  Storing a booking and rebuilding the receipt from its columns gives back the very breakdown
  the rider was charged, the flat fee included.
\<close>

theorem reconstruct_stored_breakdown:
  assumes "priced_in_cents i"
  shows "reconstructPriceBreakdown (store_breakdown (calculateBookingPrice i)) = Some (calculateBookingPrice i)"
proof -
  note c = calculateBookingPrice_cents[OF assms]
  have flat: "major (cents (in_serviceFeeFlat i)) = in_serviceFeeFlat i" "0 \<le> cents (in_serviceFeeFlat i)"
    and seats: "1 \<le> in_seatsBooked i"
    using assms by (auto simp: priced_in_cents_def whole_cents_def)
  show ?thesis
    using c flat seats priced_in_cents_bounds[OF assms]
    by (simp add: reconstructPriceBreakdown_def store_breakdown_def Let_def)
      (simp add: calculateBookingPrice_def Let_def)
qed

theorem reconstruct_stored_breakdown_witness:
  "map_option serviceFeeFlat (reconstructPriceBreakdown (store_breakdown (calculateBookingPrice sample_input)))
    = Some (major 20)"
  by (simp add: reconstruct_stored_breakdown[OF sample_input_priced])
    (simp add: calculateBookingPrice_def sample_input_def Let_def)

subsection \<open>Refunds\<close>

lemma fare_refund_accuracy:
  assumes "0 \<le> r" "r \<le> 2 ^ 48" "0 \<le> f" "f \<le> t" "0 < t"
  shows "\<bar>of_int (fare_refund_cents t f r) - of_int r * of_int f / of_int t\<bar> < (1 :: rat)"
proof -
  have "(of_int r :: rat) \<le> of_int (2 ^ 48)" using assms(2) by (simp only: of_int_le_iff)
  then have r: "0 \<le> (of_int r :: rat)" "(of_int r :: rat) \<le> 2 ^ 48" using assms(1) by simp_all
  have f: "0 \<le> (of_int f :: rat)" and t: "0 < (of_int t :: rat)" and "(of_int f :: rat) \<le> of_int t"
    using assms by simp_all
  then have "of_int f / of_int t \<le> (1 :: rat)" by simp
  then have "of_int r * (of_int f / of_int t) \<le> (2 ^ 48 * 1 :: rat)"
    using r f t by (intro mult_mono) auto
  then have "of_int r * of_int f / of_int t \<le> (2 ^ 48 :: rat)" by simp
  from rounded_product_quotient[OF r(1) f t this]
  have e: "\<bar>js_div (js_mul (of_int r) (of_int f)) (of_int t) - of_int r * of_int f / of_int t\<bar> \<le> 1/4"
    by simp
  have "\<bar>of_int (js_round z) - z\<bar> \<le> 1/2" for z :: rat
    unfolding js_round_def by linarith
  from this[of "js_div (js_mul (of_int r) (of_int f)) (of_int t)"] e
  show ?thesis unfolding fare_refund_cents_def by linarith
qed

lemma fare_refund_bounds:
  assumes "0 \<le> r" "r \<le> 2 ^ 48" "0 \<le> f" "f \<le> t" "0 < t"
  shows "0 \<le> fare_refund_cents t f r" "fare_refund_cents t f r \<le> r"
    "\<bar>t * fare_refund_cents t f r - r * f\<bar> \<le> t"
    "r = t \<Longrightarrow> fare_refund_cents t f r = f"
proof -
  let ?c = "fare_refund_cents t f r"
  note e = fare_refund_accuracy[OF assms]
  have t: "0 < (of_int t :: rat)" using assms by simp
  have "0 \<le> (of_int r * of_int f / of_int t :: rat)" using assms by simp
  with e have "(of_int (- 1) :: rat) < of_int ?c" by simp
  then show "0 \<le> ?c" by (simp only: of_int_less_iff)
  have "of_int f / of_int t \<le> (1 :: rat)" using assms(4) t by simp
  then have "of_int r * (of_int f / of_int t) \<le> (of_int r * 1 :: rat)"
    using assms(1) by (intro mult_left_mono) auto
  then have "of_int r * of_int f / of_int t \<le> (of_int r :: rat)" by simp
  with e have "of_int ?c < (of_int r + 1 :: rat)" by linarith
  then have "(of_int ?c :: rat) < of_int (r + 1)" by simp
  then show "?c \<le> r" by (simp only: of_int_less_iff)
  have "(of_int (t * ?c - r * f) :: rat) = of_int t * (of_int ?c - of_int r * of_int f / of_int t)"
    using t by (simp add: right_diff_distrib)
  then have "(of_int \<bar>t * ?c - r * f\<bar> :: rat) = of_int t * \<bar>of_int ?c - of_int r * of_int f / of_int t\<bar>"
    using t by (simp only: of_int_abs abs_mult abs_of_pos)
  also have "\<dots> \<le> of_int t * 1" using e t by (intro mult_left_mono) auto
  finally have "(of_int \<bar>t * ?c - r * f\<bar> :: rat) \<le> of_int t" by simp
  then show "\<bar>t * ?c - r * f\<bar> \<le> t" by (simp only: of_int_le_iff)
  show "?c = f" if "r = t"
  proof -
    have "\<bar>of_int ?c - of_int f\<bar> < (1 :: rat)" using e t that by simp
    then have "(of_int \<bar>?c - f\<bar> :: rat) < of_int 1" by simp
    then have "\<bar>?c - f\<bar> < 1" by (simp only: of_int_less_iff)
    then show ?thesis by simp
  qed
qed

lemma fare_refund_parts:
  assumes "0 \<le> r" "r \<le> 2 ^ 48" "0 \<le> f" "f \<le> t" "0 < t" and "r \<le> t"
  shows "fare_refund_cents t f r \<le> f" "r - fare_refund_cents t f r \<le> t - f"
proof -
  let ?c = "fare_refund_cents t f r" and ?x = "of_int r * of_int f / of_int t :: rat"
  have e: "\<bar>of_int ?c - ?x\<bar> < 1" by (rule fare_refund_accuracy[OF assms(1-5)])
  have t: "0 < (of_int t :: rat)" using assms by simp
  have "of_int r / of_int t \<le> (1 :: rat)" using assms(6) t by simp
  then have "of_int r / of_int t * of_int f \<le> (1 * of_int f :: rat)"
    and "of_int r / of_int t * of_int (t - f) \<le> (1 * of_int (t - f) :: rat)"
    using assms by (intro mult_right_mono; simp)+
  then have x: "?x \<le> of_int f" and y: "of_int r - ?x \<le> of_int (t - f)"
    using t by (simp_all add: field_simps)
  have "(of_int ?c :: rat) < of_int (f + 1)" using e x by simp
  then show "?c \<le> f" by (simp only: of_int_less_iff)
  have "(of_int (r - ?c) :: rat) < of_int (t - f + 1)" using e y by simp
  then show "r - ?c \<le> t - f" by (simp only: of_int_less_iff)
qed

lemma resolveRefundSplit_cents:
  assumes "0 < r" "r \<le> 2 ^ 48" "0 \<le> f" "f \<le> t" "0 < t" "t \<le> 2 ^ 48"
  shows "resolveRefundSplit (major t) (major f) (major r) =
    \<lparr> fareRefundAmount = major (fare_refund_cents t f r),
      feeRefundAmount = major (r - fare_refund_cents t f r) \<rparr>"
  using assms by (simp add: resolveRefundSplit_def Let_def)

text \<open>
  The two parts of a refund sum to the refund to the cent, each is between nothing and the
  refund, the driver's part is pro rata to the fare within a cent, and a full refund gives back
  exactly the fare and exactly the platform fee.
\<close>

theorem refund_split_sums:
  assumes "0 < r" "r \<le> 2 ^ 48" "0 \<le> f" "f \<le> t" "0 < t" "t \<le> 2 ^ 48"
  defines "s \<equiv> resolveRefundSplit (major t) (major f) (major r)"
  shows "cents (fareRefundAmount s) + cents (feeRefundAmount s) = r \<and>
    0 \<le> cents (fareRefundAmount s) \<and> cents (fareRefundAmount s) \<le> r \<and>
    \<bar>t * cents (fareRefundAmount s) - r * f\<bar> \<le> t \<and>
    (r = t \<longrightarrow> s = \<lparr> fareRefundAmount = major f, feeRefundAmount = major (t - f) \<rparr>)"
proof -
  have r: "0 \<le> r" using assms by simp
  note b = fare_refund_bounds[OF r assms(2-5)]
  show ?thesis
    unfolding s_def resolveRefundSplit_cents[OF assms(1-6)] using b assms by auto
qed

theorem refund_split_sums_witness:
  "cents (fareRefundAmount (resolveRefundSplit (major 1020) (major 1000) (major 510))) +
   cents (feeRefundAmount (resolveRefundSplit (major 1020) (major 1000) (major 510))) = 510"
  using refund_split_sums[of 510 1000 1020] by simp

lemma half_refund_cents:
  assumes "0 \<le> k" "k \<le> 2 ^ 40"
  shows "cents (getRiderRefundAmount (major k) 50) \<in> {k div 2, (k + 1) div 2}"
proof -
  have "(of_int k :: rat) \<le> of_int (2 ^ 40)" using assms(2) by (simp only: of_int_le_iff)
  then have k: "0 \<le> (of_int k :: rat)" "(of_int k :: rat) \<le> 2 ^ 40" using assms(1) by simp_all
  define a where "a = major k"
  define x where "x = js_div (js_mul a 50) 100"
  have a0: "0 \<le> a" using assms(1) by (simp add: a_def major_nonneg)
  have "\<bar>of_int k / 100 :: rat\<bar> \<le> 2 ^ 40" using k by simp
  then have "\<bar>a - of_int k / 100\<bar> \<le> 2 ^ 40 / 2 ^ 53"
    unfolding a_def major_def js_div_def by (rule js.fl_error_bound)
  then have a: "\<bar>a - of_int k / 100\<bar> \<le> 1 / 2 ^ 13" by simp
  have "a \<le> 2 ^ 40 / 100 + 1 / 2 ^ 13" using a k(2) by linarith
  then have "a * 50 / 100 \<le> 2 ^ 40" by simp
  from rounded_product_quotient[OF a0 _ _ this]
  have "\<bar>x - a * 50 / 100\<bar> \<le> 3 / 2 ^ 13" by (simp add: x_def)
  then have "\<bar>x - a / 2\<bar> \<le> 3 / 8192" by simp
  moreover have "\<bar>a - of_int k / 100\<bar> \<le> 1 / 8192" using a by simp
  ultimately have x: "\<bar>x * 100 - of_int k / 2\<bar> \<le> 1/10" by linarith
  have x0: "0 \<le> x" using a0 by (simp add: x_def js_div_def js_mul_def js.fl_nonneg)
  define n where "n = \<lfloor>x * 100 + 1/2\<rfloor>"
  have n: "of_int n \<le> x * 100 + 1/2" "x * 100 + 1/2 < of_int n + 1"
    unfolding n_def by linarith+
  have "2 * of_int n < (of_int k + 2 :: rat)" "(of_int k - 2 :: rat) < 2 * of_int n"
    using n x by linarith+
  then have "(of_int (2 * n) :: rat) < of_int (k + 2)" "(of_int (k - 2) :: rat) < of_int (2 * n)"
    by simp_all
  then have "2 * n < k + 2" "k - 2 < 2 * n" by (simp_all only: of_int_less_iff)
  then have nk: "n \<in> {k div 2, (k + 1) div 2}" by auto
  then have ns: "safe_cents n" using assms by auto
  have "getRiderRefundAmount a 50 = major n"
  proof -
    have "getRiderRefundAmount a 50 = js_toFixed2 x" by (simp add: getRiderRefundAmount_def x_def)
    also have "\<dots> = major n" using x0 by (simp add: js_toFixed2_def n_def major_def js_div_def)
    finally show ?thesis .
  qed
  then show ?thesis using nk ns by (simp add: a_def)
qed

text \<open>
  A cancelling rider is refunded half of what was paid, to the cent and rounding half a cent
  either way, when departure is more than three hours off, and nothing once it is not. The refund
  is zero exactly when the window for cancelling a confirmed booking is closed.
\<close>

theorem rider_refund_policy:
  fixes departureAt now :: time
  assumes "0 \<le> k" "k \<le> 2 ^ 40"
  defines "a \<equiv> getRiderRefundAmount (major k) (getRiderRefundPercent departureAt now)"
  shows "(if isConfirmedCancellationWindowClosed departureAt now then a = 0
      else cents a \<in> {k div 2, (k + 1) div 2} \<and> toMinorCurrencyUnits a = cents a) \<and>
    0 \<le> cents a \<and> cents a \<le> k"
proof (cases "departureAt - now \<le> THREE_HOURS_MS")
  case True
  then show ?thesis
    using assms by (simp add: isConfirmedCancellationWindowClosed_def getRiderRefundPercent_def
        getRiderRefundAmount_def)
next
  case False
  then have a: "a = getRiderRefundAmount (major k) 50"
    by (simp add: a_def getRiderRefundPercent_def)
  have h: "cents a \<in> {k div 2, (k + 1) div 2}"
    unfolding a by (rule half_refund_cents[OF assms(1,2)])
  moreover have "toMinorCurrencyUnits a = cents a"
  proof (cases "0 < a")
    case False
    then have "cents a \<le> 0"
      using js_round_mono[of "js_mul a 100" 0] js.fl_nonpos[of "a * 100"]
      by (simp add: cents_def js_mul_def js_round_def)
    with h assms(1) have "cents a = 0" by auto
    then show ?thesis using False by (simp add: toMinorCurrencyUnits_def)
  qed (simp add: toMinorCurrencyUnits_def)
  ultimately show ?thesis
    using False assms(1) by (auto simp: isConfirmedCancellationWindowClosed_def)
qed

theorem rider_refund_policy_witness:
  "cents (getRiderRefundAmount (major 1020) (getRiderRefundPercent 20000000 0)) = 510"
  using rider_refund_policy[of 1020 20000000 0]
  by (simp add: isConfirmedCancellationWindowClosed_def THREE_HOURS_MS_def)

end
