(* ===== verification/Booking_Time.thy ===== *)
theory Booking_Time
  imports Js_Number
begin

text \<open>
  Deadlines and windows of a booking: \<open>request-expiry.utils.ts\<close>, \<open>booking-window.ts\<close>,
  \<open>booking-otp-expiry.ts\<close> (all in \<open>ride-booking\<close>), \<open>ride-operations/no-show-window.ts\<close>,
  \<open>utils/ride-start-window.ts\<close>, \<open>utils/age.ts\<close> and \<open>combineDepartureDateTimeUtc\<close>. A \<open>Date\<close> is
  its integer time value; \<open>new Date(x)\<close> of a fractional \<open>x\<close> truncates towards zero
  (\<open>TimeClip\<close>). Integer sums and products of milliseconds are exact (below \<open>2 ^ 53\<close>).
\<close>

definition js_date :: "jsnum \<Rightarrow> time" where
  "js_date x = (if x < 0 then \<lceil>x\<rceil> else \<lfloor>x\<rfloor>)"

definition ms_to_hours :: "int \<Rightarrow> jsnum" where
  "ms_to_hours ms = js_div (of_int ms) (60 * 60 * 1000)"

subsection \<open>UTC calendar fields\<close>

definition utc_day :: "time \<Rightarrow> int" where "utc_day t = t div ms_per_day"

text \<open>Year, month (1 to 12) and day of the month of an instant, proleptic Gregorian.\<close>

definition utc_ymd :: "time \<Rightarrow> int \<times> int \<times> int" where
  "utc_ymd t =
     (let z = utc_day t + 719468; era = z div 146097; doe = z mod 146097;
          yoe = (doe - doe div 1460 + doe div 36524 - doe div 146096) div 365;
          doy = doe - (365 * yoe + yoe div 4 - yoe div 100);
          mp = (5 * doy + 2) div 153;
          d = doy - (153 * mp + 2) div 5 + 1;
          m = (if mp < 10 then mp + 3 else mp - 9)
      in (yoe + era * 400 + (if m \<le> 2 then 1 else 0), m, d))"

definition MINIMUM_BOOKING_AGE_YEARS :: int where "MINIMUM_BOOKING_AGE_YEARS = 8"

definition calculateAgeYears :: "time \<Rightarrow> time \<Rightarrow> int" where
  "calculateAgeYears dob asof =
     (let (yd, md, dd) = utc_ymd dob; (ya, ma, da) = utc_ymd asof;
          age = ya - yd; monthDelta = ma - md; dayDelta = da - dd
      in if monthDelta < 0 \<or> (monthDelta = 0 \<and> dayDelta < 0) then age - 1 else age)"

definition isAtLeastAge :: "time \<Rightarrow> int \<Rightarrow> time \<Rightarrow> bool" where
  "isAtLeastAge dob minimumAgeYears asof \<longleftrightarrow> calculateAgeYears dob asof \<ge> minimumAgeYears"

subsection \<open>Departure time\<close>

text \<open>
  \<open>Number(s)\<close> on a string of decimal digits (the empty string is 0); the forms with signs,
  fractions, exponents or blanks, which the publish validator's pattern excludes, count as NaN.
\<close>

definition digit_value :: "char \<Rightarrow> int option" where
  "digit_value c = (let n = of_char c :: int in if 48 \<le> n \<and> n \<le> 57 then Some (n - 48) else None)"

fun digits_value :: "int \<Rightarrow> string \<Rightarrow> int option" where
  "digits_value acc [] = Some acc"
| "digits_value acc (c # cs) =
     (case digit_value c of None \<Rightarrow> None | Some d \<Rightarrow> digits_value (10 * acc + d) cs)"

text \<open>\<open>s.split(':')\<close>.\<close>

fun split_on :: "char \<Rightarrow> string \<Rightarrow> string list" where
  "split_on c [] = [[]]"
| "split_on c (x # xs) =
     (if x = c then [] # split_on c xs
      else (case split_on c xs of [] \<Rightarrow> [[x]] | p # ps \<Rightarrow> (x # p) # ps))"

definition parse_departure_time :: "string \<Rightarrow> (int \<times> int) option" where
  "parse_departure_time s =
     (case split_on (CHR '':'') s of
        hoursRaw # minutesRaw # _ \<Rightarrow>
          (case (digits_value 0 hoursRaw, digits_value 0 minutesRaw) of
             (Some hours, Some minutes) \<Rightarrow> Some (hours, minutes) | _ \<Rightarrow> None)
      | _ \<Rightarrow> None)"

definition combineDepartureDateTimeUtc :: "time \<Rightarrow> string \<Rightarrow> error + time" where
  "combineDepartureDateTimeUtc departureDate departureTime =
     (case parse_departure_time departureTime of
        None \<Rightarrow> Inl INVALID_RIDE_DEPARTURE_TIME
      | Some (hours, minutes) \<Rightarrow>
          if hours < 0 \<or> hours > 23 \<or> minutes < 0 \<or> minutes > 59 then Inl INVALID_RIDE_DEPARTURE_TIME
          else Inr (utc_day departureDate * ms_per_day + hours * ms_per_hour + minutes * ms_per_minute))"

lemma combine_same_day:
  assumes "combineDepartureDateTimeUtc d s = Inr t"
  shows "utc_day t = utc_day d \<and> utc_day d * ms_per_day \<le> t \<and> t < (utc_day d + 1) * ms_per_day"
  using assms
  by (auto simp: combineDepartureDateTimeUtc_def utc_day_def split: option.splits if_splits)

subsection \<open>Response deadline\<close>

definition BEFORE_DEPARTURE :: string where "BEFORE_DEPARTURE = ''BEFORE_DEPARTURE''"

definition OPTION_TO_HOURS :: "(string \<times> int) list" where
  "OPTION_TO_HOURS =
     [(''ONE_HOUR'', 1), (''THREE_HOURS'', 3), (''SIX_HOURS'', 6), (''TWELVE_HOURS'', 12),
      (''TWENTY_FOUR_HOURS'', 24)]"

definition cap_date :: "time \<Rightarrow> time \<Rightarrow> time" where
  "cap_date date max_date = (if date > max_date then max_date else date)"

definition hours_before_departure :: "time \<Rightarrow> time \<Rightarrow> jsnum" where
  "hours_before_departure departureAt now = max (1/2) (js_sub (ms_to_hours (departureAt - now)) 1)"

definition default_deadline :: "time \<Rightarrow> time \<Rightarrow> time \<times> int" where
  "default_deadline departureAt now =
     (let hoursBeforeDeparture = hours_before_departure departureAt now;
          deadlineAt = js_date (js_add (of_int now)
            (js_mul (js_mul (js_mul hoursBeforeDeparture 60) 60) 1000))
      in (cap_date deadlineAt departureAt, js_round hoursBeforeDeparture))"

definition calculateDeadline :: "string option \<Rightarrow> time \<Rightarrow> time \<Rightarrow> time \<times> int" where
  "calculateDeadline option departureAt now =
     (if option = Some BEFORE_DEPARTURE \<or> option = None \<or> option = Some ''''
      then default_deadline departureAt now
      else (case map_of OPTION_TO_HOURS (the option) of
              None \<Rightarrow> default_deadline departureAt now
            | Some hours \<Rightarrow> (cap_date (now + hours * 60 * 60 * 1000) departureAt, hours)))"

definition suggestDefaultOption :: "time \<Rightarrow> time \<Rightarrow> string" where
  "suggestDefaultOption departureAt now =
     (let hoursUntilDeparture = ms_to_hours (departureAt - now)
      in if hoursUntilDeparture \<le> 2 then ''ONE_HOUR''
         else if hoursUntilDeparture \<le> 7 then ''THREE_HOURS''
         else if hoursUntilDeparture \<le> 13 then ''SIX_HOURS''
         else if hoursUntilDeparture \<le> 25 then ''TWELVE_HOURS''
         else ''TWENTY_FOUR_HOURS'')"

record expiry_option =
  eo_option :: string
  eo_hours :: int
  eo_available :: bool
  eo_label :: string

definition formatOptionLabel :: "string \<Rightarrow> string" where
  "formatOptionLabel option =
     (if option = ''ONE_HOUR'' then ''1 hour''
      else if option = ''THREE_HOURS'' then ''3 hours''
      else if option = ''SIX_HOURS'' then ''6 hours''
      else if option = ''TWELVE_HOURS'' then ''12 hours''
      else if option = ''TWENTY_FOUR_HOURS'' then ''24 hours''
      else option)"

definition getAvailableOptions :: "time \<Rightarrow> time \<Rightarrow> expiry_option list" where
  "getAvailableOptions departureAt now =
     (let hoursUntilDeparture = ms_to_hours (departureAt - now)
      in map (\<lambda>(key, hours).
            \<lparr> eo_option = key, eo_hours = hours, eo_available = of_int hours < hoursUntilDeparture,
              eo_label = formatOptionLabel key \<rparr>) OPTION_TO_HOURS
         @ [\<lparr> eo_option = BEFORE_DEPARTURE,
              eo_hours = max 1 (js_round (js_sub hoursUntilDeparture 1)),
              eo_available = hoursUntilDeparture > 1, eo_label = ''Before departure'' \<rparr>])"

subsection \<open>Windows\<close>

definition SAME_DAY_MINIMUM_BOOKING_LEAD_MS :: int where
  "SAME_DAY_MINIMUM_BOOKING_LEAD_MS = 1 * 60 * 60 * 1000"

definition isSameUtcDay :: "time \<Rightarrow> time \<Rightarrow> bool" where
  "isSameUtcDay left right \<longleftrightarrow> utc_ymd left = utc_ymd right"

definition isBookingWindowClosed :: "time \<Rightarrow> time \<Rightarrow> bool" where
  "isBookingWindowClosed departureAt now \<longleftrightarrow>
     departureAt \<le> now \<or>
     (isSameUtcDay departureAt now \<and> departureAt - now < SAME_DAY_MINIMUM_BOOKING_LEAD_MS)"

text \<open>
  \<open>setUTCHours(hours, minutes, 0, 0)\<close> does not check its arguments; the two numbers come from the
  same \<open>HH:MM\<close> text. The result is \<open>None\<close> (an invalid date) when they do not parse.
\<close>

definition bookingOtpExpiries :: "time \<Rightarrow> string \<Rightarrow> int option \<Rightarrow> time \<Rightarrow> (time \<times> time) option" where
  "bookingOtpExpiries departureDate departureTime routeDurationSeconds now =
     (case parse_departure_time departureTime of
        None \<Rightarrow> None
      | Some (hours, minutes) \<Rightarrow>
          let departure = utc_day departureDate * ms_per_day + hours * ms_per_hour + minutes * ms_per_minute;
              start = max now departure;
              durationMs = max 0 (case routeDurationSeconds of None \<Rightarrow> 0 | Some s \<Rightarrow> s) * 1000
          in Some (start + 6 * 3600000, start + durationMs + 24 * 3600000))"

definition WAIT_TIME_MINUTES :: int where "WAIT_TIME_MINUTES = 10"

definition noShowAvailableAt :: "bool \<Rightarrow> time option \<Rightarrow> time option" where
  "noShowAvailableAt allowRideSimulation waitTimerStartedAt =
     (case waitTimerStartedAt of
        None \<Rightarrow> None
      | Some t \<Rightarrow> if allowRideSimulation then Some t else Some (t + WAIT_TIME_MINUTES * 60000))"

text \<open>The configured limit as \<open>Number()\<close> reads it; unset, empty and non-finite settings are \<open>None\<close>.\<close>

definition getRideStartEarlyLimitMinutes :: "jsnum option \<Rightarrow> jsnum option" where
  "getRideStartEarlyLimitMinutes setting =
     (case setting of None \<Rightarrow> None | Some minutes \<Rightarrow> if minutes < 0 then None else Some minutes)"

definition isRideStartTooEarly :: "jsnum option \<Rightarrow> time \<Rightarrow> time \<Rightarrow> bool" where
  "isRideStartTooEarly setting departureAt now =
     (case getRideStartEarlyLimitMinutes setting of None \<Rightarrow> False
      | Some m \<Rightarrow> of_int now < js_sub (of_int departureAt) (js_mul (js_mul m 60) 1000))"

subsection \<open>Error analysis of the default deadline\<close>

lemma js_mul_error:
  assumes "\<bar>a - x\<bar> \<le> e" "0 \<le> c" "\<bar>x\<bar> * c \<le> B" "e * c \<le> B"
  shows "\<bar>js_mul a c - x * c\<bar> \<le> e * c + 2 * B / 2 ^ 53"
proof -
  have "\<bar>a * c - x * c\<bar> = \<bar>a - x\<bar> * c" using assms(2) by (simp add: left_diff_distrib[symmetric] abs_mult)
  also have "\<dots> \<le> e * c" using assms(1,2) by (intro mult_right_mono)
  finally have 1: "\<bar>a * c - x * c\<bar> \<le> e * c" .
  moreover have "\<bar>x * c\<bar> \<le> B" using assms(2,3) by (simp add: abs_mult)
  ultimately have "\<bar>a * c\<bar> \<le> 2 * B" using assms(4) by linarith
  then have "\<bar>fl64 (a * c) - a * c\<bar> \<le> 2 * B / 2 ^ 53" by (rule js.fl_error_bound)
  with 1 show ?thesis unfolding js_mul_def by linarith
qed

lemma js_sum_error:
  assumes "\<bar>a - x\<bar> \<le> e" "\<bar>x + y\<bar> + e \<le> B"
  shows "\<bar>fl64 (a + y) - (x + y)\<bar> \<le> e + B / 2 ^ 53"
proof -
  have "\<bar>a + y\<bar> \<le> B" using assms by linarith
  then have "\<bar>fl64 (a + y) - (a + y)\<bar> \<le> B / 2 ^ 53" by (rule js.fl_error_bound)
  then show ?thesis using assms(1) by linarith
qed

lemma hours_error:
  assumes "0 \<le> D" "D \<le> 2 ^ 40"
  shows "\<bar>js_sub (ms_to_hours D) 1 - (of_int D / 3600000 - 1)\<bar> \<le> 1 / 2 ^ 32"
proof -
  have "(of_int D :: rat) \<le> of_int (2 ^ 40)" using assms(2) by (simp only: of_int_le_iff)
  then have D: "0 \<le> (of_int D :: rat)" "(of_int D :: rat) \<le> 1099511627776" using assms(1) by simp_all
  have b: "\<bar>of_int D / 3600000 :: rat\<bar> \<le> 2 ^ 19" using D by simp
  have "\<bar>ms_to_hours D - of_int D / 3600000\<bar> \<le> 2 ^ 19 / 2 ^ 53"
    using js.fl_error_bound[OF b] by (simp add: ms_to_hours_def js_div_def)
  moreover have "\<bar>of_int D / 3600000 + - 1 :: rat\<bar> + 2 ^ 19 / 2 ^ 53 \<le> 2 ^ 20" using D by simp
  ultimately have "\<bar>fl64 (ms_to_hours D + - 1) - (of_int D / 3600000 + - 1)\<bar> \<le> 2 ^ 19 / 2 ^ 53 + 2 ^ 20 / 2 ^ 53"
    by (rule js_sum_error)
  then show ?thesis by (simp add: js_sub_def)
qed

lemma near_integer_date:
  assumes "\<bar>v - of_int T\<bar> \<le> 1/2" "0 < T"
  shows "js_date v \<in> {T - 1, T}"
proof -
  have T: "1 \<le> (of_int T :: rat)" using assms(2) by simp
  then have "\<not> v < 0" using assms(1) by linarith
  then have "js_date v = \<lfloor>v\<rfloor>" by (simp add: js_date_def)
  moreover have "of_int T - 1 \<le> v" "v < of_int T + 1" using assms(1) by linarith+
  then have "of_int (T - 1) \<le> v" "v < of_int (T + 1)" by simp_all
  then have "T - 1 \<le> \<lfloor>v\<rfloor>" "\<lfloor>v\<rfloor> < T + 1" by (simp_all only: le_floor_iff floor_less_iff)
  ultimately show ?thesis by auto
qed

lemma default_deadline_far:
  assumes "0 \<le> now" "now \<le> 2 ^ 42" "5400000 \<le> departureAt - now" "departureAt - now \<le> 2 ^ 40"
  shows "fst (default_deadline departureAt now) \<in> {departureAt - ms_per_hour - 1, departureAt - ms_per_hour}"
proof -
  define D where "D = departureAt - now"
  define x where "x = (of_int D / 3600000 - 1 :: rat)"
  have "(of_int D :: rat) \<le> of_int (2 ^ 40)" "of_int 5400000 \<le> (of_int D :: rat)"
    using assms by (simp_all only: of_int_le_iff D_def)
  then have D: "5400000 \<le> (of_int D :: rat)" "(of_int D :: rat) \<le> 1099511627776" by simp_all
  have "(of_int now :: rat) \<le> of_int (2 ^ 42)" using assms(2) by (simp only: of_int_le_iff)
  then have n: "0 \<le> (of_int now :: rat)" "(of_int now :: rat) \<le> 4398046511104" using assms(1) by simp_all
  have x: "1/2 \<le> x" "x \<le> 2 ^ 19" using D by (simp_all add: x_def)
  have "\<bar>js_sub (ms_to_hours D) 1 - x\<bar> \<le> 1 / 2 ^ 32"
    using hours_error[of D] assms by (simp add: D_def x_def)
  then have a0: "\<bar>hours_before_departure departureAt now - x\<bar> \<le> 1 / 2 ^ 32"
    using x(1) unfolding hours_before_departure_def D_def[symmetric] by linarith
  define a1 where "a1 = js_mul (hours_before_departure departureAt now) 60"
  define a2 where "a2 = js_mul a1 60"
  define a3 where "a3 = js_mul a2 1000"
  have "\<bar>a1 - x * 60\<bar> \<le> 1 / 2 ^ 32 * 60 + 2 * 2 ^ 25 / 2 ^ 53"
    unfolding a1_def using x by (intro js_mul_error[OF a0]) auto
  then have "\<bar>a1 - x * 60\<bar> \<le> 1 / 2 ^ 25" by simp
  from js_mul_error[OF this, of 60 "2 ^ 31"] x
  have "\<bar>a2 - x * 60 * 60\<bar> \<le> 1 / 2 ^ 25 * 60 + 2 * 2 ^ 31 / 2 ^ 53" by (simp add: a2_def)
  then have "\<bar>a2 - x * 60 * 60\<bar> \<le> 1 / 2 ^ 18" by simp
  from js_mul_error[OF this, of 1000 "2 ^ 41"] x
  have "\<bar>a3 - x * 60 * 60 * 1000\<bar> \<le> 1 / 2 ^ 18 * 1000 + 2 * 2 ^ 41 / 2 ^ 53" by (simp add: a3_def)
  then have a3: "\<bar>a3 - (of_int D - 3600000)\<bar> \<le> 1 / 64" by (simp add: x_def)
  have "\<bar>fl64 (a3 + of_int now) - ((of_int D - 3600000) + of_int now)\<bar> \<le> 1 / 64 + 2 ^ 43 / 2 ^ 53"
    using D n by (intro js_sum_error[OF a3]) simp
  then have v: "\<bar>js_add (of_int now) a3 - of_int (departureAt - ms_per_hour)\<bar> \<le> 1/2"
    by (simp add: js_add_def D_def add.commute)
  have "js_date (js_add (of_int now) a3) \<in> {departureAt - ms_per_hour - 1, departureAt - ms_per_hour}"
    using assms by (intro near_integer_date[OF v]) simp
  then show ?thesis
    by (auto simp: default_deadline_def Let_def cap_date_def a1_def a2_def a3_def)
qed

lemma default_deadline_near:
  assumes "0 \<le> now" "now \<le> 2 ^ 42" "departureAt - now < 5400000"
  shows "fst (default_deadline departureAt now) = min (now + 30 * ms_per_minute) departureAt"
proof -
  have half: "js_sub (ms_to_hours (departureAt - now)) 1 \<le> 1/2"
  proof (cases "0 \<le> departureAt - now")
    case True
    have "(of_int (departureAt - now) :: rat) \<le> of_int 5399999" using assms(3) by (simp only: of_int_le_iff)
    then have "of_int (departureAt - now) / 3600000 - 1 \<le> (5399999 / 3600000 - 1 :: rat)"
      unfolding of_int_numeral by (intro diff_right_mono divide_right_mono) auto
    moreover have "\<bar>js_sub (ms_to_hours (departureAt - now)) 1 - (of_int (departureAt - now) / 3600000 - 1)\<bar> \<le> 1 / 2 ^ 32"
      using True assms by (intro hours_error) auto
    moreover have "1 / 2 ^ 32 + (5399999 / 3600000 - 1) \<le> (1/2 :: rat)" by simp
    ultimately show ?thesis by linarith
  next
    case False
    then have "(of_int (departureAt - now) / (60 * 60 * 1000) :: rat) \<le> 0" by (simp add: divide_nonpos_pos)
    then have "ms_to_hours (departureAt - now) \<le> 0" unfolding ms_to_hours_def js_div_def by (rule js.fl_nonpos)
    then have "js_sub (ms_to_hours (departureAt - now)) 1 \<le> 0"
      unfolding js_sub_def by (intro js.fl_nonpos) simp
    then show ?thesis by simp
  qed
  have m: "js_mul (js_mul (js_mul (1/2) 60) 60) 1000 = 1800000"
    using js.fl_int[of 30] js.fl_int[of 1800] js.fl_int[of 1800000] by (simp add: js_mul_def)
  have "fl64 (of_int (now + 1800000)) = of_int (now + 1800000)" using assms by (intro js.fl_int) simp
  then have "js_add (of_int now) 1800000 = of_int (now + 1800000)" by (simp add: js_add_def)
  then have "js_date (js_add (of_int now) 1800000) = now + 1800000" using assms(1) by (simp add: js_date_def)
  then show ?thesis
    using half m by (simp add: default_deadline_def hours_before_departure_def Let_def max_absorb1 cap_date_def min_def)
qed

text \<open>
  The driver's response deadline never falls after departure. A named option gives exactly its
  number of hours, cut at departure. The default (no option, \<open>BEFORE_DEPARTURE\<close> or an unknown
  one) is one hour before departure, up to one millisecond of rounding, when at least ninety
  minutes are left, and thirty minutes from now, cut at departure, when less is left.
\<close>

theorem calculateDeadline_spec:
  fixes departureAt now :: time
  assumes "0 \<le> now" "now \<le> 2 ^ 42" "departureAt - now \<le> 2 ^ 40"
  defines "deadline \<equiv> \<lambda>option. fst (calculateDeadline option departureAt now)"
  shows "deadline option \<le> departureAt \<and>
    (\<forall>(key, h) \<in> set OPTION_TO_HOURS. deadline (Some key) = min (now + h * ms_per_hour) departureAt) \<and>
    (option = None \<or> the option \<notin> fst ` set OPTION_TO_HOURS \<longrightarrow>
      (if departureAt - now < 90 * ms_per_minute
       then deadline option = min (now + 30 * ms_per_minute) departureAt
       else deadline option \<in> {departureAt - ms_per_hour - 1, departureAt - ms_per_hour}))"
proof (intro conjI impI)
  show "deadline option \<le> departureAt"
    by (auto simp: deadline_def calculateDeadline_def default_deadline_def Let_def cap_date_def split: option.splits)
  show "\<forall>(key, h) \<in> set OPTION_TO_HOURS. deadline (Some key) = min (now + h * ms_per_hour) departureAt"
    by (simp add: deadline_def calculateDeadline_def OPTION_TO_HOURS_def BEFORE_DEPARTURE_def cap_date_def min_def)
  assume "option = None \<or> the option \<notin> fst ` set OPTION_TO_HOURS"
  then have "deadline option = fst (default_deadline departureAt now)"
    by (auto simp: deadline_def calculateDeadline_def map_of_eq_None_iff[symmetric])
  then show "if departureAt - now < 90 * ms_per_minute
       then deadline option = min (now + 30 * ms_per_minute) departureAt
       else deadline option \<in> {departureAt - ms_per_hour - 1, departureAt - ms_per_hour}"
    using default_deadline_near[OF assms(1,2)] default_deadline_far[OF assms(1,2) _ assms(3)] by simp
qed

theorem calculateDeadline_spec_witness:
  "fst (calculateDeadline None 6000000 0) \<in> {2399999, 2400000} \<and>
   fst (calculateDeadline (Some ''ONE_HOUR'') 6000000 0) = 3600000"
  using calculateDeadline_spec[of 0 6000000 None] by (simp add: OPTION_TO_HOURS_def)

text \<open>
  The suggested default is one of the options offered as available exactly when more than an
  hour is left and the remaining time is not in the interval (2h, 3h]: there the suggestion is
  three hours, which is not before departure.
\<close>

theorem suggestion_available_iff:
  fixes departureAt now :: time
  defines "h \<equiv> ms_to_hours (departureAt - now)"
  shows "(\<exists>o' \<in> set (getAvailableOptions departureAt now).
      eo_option o' = suggestDefaultOption departureAt now \<and> eo_available o') \<longleftrightarrow>
    1 < h \<and> \<not> (2 < h \<and> h \<le> 3)"
  by (auto simp: getAvailableOptions_def suggestDefaultOption_def OPTION_TO_HOURS_def
      BEFORE_DEPARTURE_def h_def[symmetric] Let_def)

end
