(* ===== verification/Effects.thy ===== *)
theory Effects
  imports Prelude
begin

text \<open>
  Asynchronous service functions as state transformers that may throw: an operation takes the state
  and returns an error or a value together with the state it leaves behind. A thrown error keeps
  the writes made before it, as an \<open>await\<close>ed statement does; a database transaction discards them
  (\<open>transaction\<close>, parameterised by what a rollback restores). \<open>hoare\<close> is the usual triple with a
  postcondition for each way of returning.
\<close>

type_synonym ('s, 'a) op = "'s \<Rightarrow> (error + 'a) \<times> 's"

named_theorems hoare_intros \<open>rules of the triples, one per combinator\<close>

subsection \<open>Combinators\<close>

definition ret :: "'a \<Rightarrow> ('s, 'a) op" where "ret a = (\<lambda>s. (Inr a, s))"

definition throw :: "error \<Rightarrow> ('s, 'a) op" where "throw e = (\<lambda>s. (Inl e, s))"

definition andThen :: "('s, 'a) op \<Rightarrow> ('a \<Rightarrow> ('s, 'b) op) \<Rightarrow> ('s, 'b) op" where
  "andThen m k = (\<lambda>s. case m s of (Inl e, s') \<Rightarrow> (Inl e, s') | (Inr a, s') \<Rightarrow> k a s')"

definition andDo :: "('s, 'a) op \<Rightarrow> ('s, 'b) op \<Rightarrow> ('s, 'b) op" where
  "andDo m n = andThen m (\<lambda>_. n)"

definition gets :: "('s \<Rightarrow> 'a) \<Rightarrow> ('s, 'a) op" where "gets f = (\<lambda>s. (Inr (f s), s))"

definition modify :: "('s \<Rightarrow> 's) \<Rightarrow> ('s, unit) op" where "modify f = (\<lambda>s. (Inr (), f s))"

definition ensure :: "bool \<Rightarrow> error \<Rightarrow> ('s, unit) op" where
  "ensure b e = (if b then ret () else throw e)"

definition ofOption :: "error \<Rightarrow> 'a option \<Rightarrow> ('s, 'a) op" where
  "ofOption e x = (case x of None \<Rightarrow> throw e | Some a \<Rightarrow> ret a)"

definition ofSum :: "error + 'a \<Rightarrow> ('s, 'a) op" where
  "ofSum x = (case x of Inl e \<Rightarrow> throw e | Inr a \<Rightarrow> ret a)"

definition whenM :: "bool \<Rightarrow> ('s, unit) op \<Rightarrow> ('s, unit) op" where
  "whenM b m = (if b then m else ret ())"

text \<open>\<open>try { m } catch (e) { h(e) }\<close>.\<close>

definition tryCatch :: "('s, 'a) op \<Rightarrow> (error \<Rightarrow> ('s, 'a) op) \<Rightarrow> ('s, 'a) op" where
  "tryCatch m h = (\<lambda>s. case m s of (Inl e, s') \<Rightarrow> h e s' | (Inr a, s') \<Rightarrow> (Inr a, s'))"

definition bestEffort :: "('s, unit) op \<Rightarrow> ('s, unit) op" where
  "bestEffort m = tryCatch m (\<lambda>_. ret ())"

fun forEach :: "'x list \<Rightarrow> ('x \<Rightarrow> ('s, unit) op) \<Rightarrow> ('s, unit) op" where
  "forEach [] f = ret ()"
| "forEach (x # xs) f = andDo (f x) (forEach xs f)"

text \<open>\<open>restore s s'\<close> is the state after undoing, at \<open>s'\<close>, the writes made since \<open>s\<close>.\<close>

definition transactionOf :: "('s \<Rightarrow> 's \<Rightarrow> 's) \<Rightarrow> ('s, 'a) op \<Rightarrow> ('s, 'a) op" where
  "transactionOf restore m = (\<lambda>s. case m s of (Inl e, s') \<Rightarrow> (Inl e, restore s s') | (Inr a, s') \<Rightarrow> (Inr a, s'))"

lemmas op_defs = ret_def throw_def andThen_def andDo_def gets_def modify_def ensure_def ofOption_def
  ofSum_def whenM_def tryCatch_def bestEffort_def transactionOf_def

text \<open>Running a combinator on a state.\<close>

lemma run_simps [simp]:
  "ret a s = (Inr a, s)" "throw e s = (Inl e, s)" "gets f s = (Inr (f s), s)"
  "modify g s = (Inr (), g s)"
  "ensure b e s = (if b then (Inr (), s) else (Inl e, s))"
  "ofOption e x s = (case x of None \<Rightarrow> (Inl e, s) | Some a \<Rightarrow> (Inr a, s))"
  "ofSum y s = (y, s)"
  by (simp_all add: op_defs split: option.splits sum.splits)

lemma run_andThen: "andThen m k s = (case m s of (Inl e, s') \<Rightarrow> (Inl e, s') | (Inr a, s') \<Rightarrow> k a s')"
  and run_andDo: "andDo m n s = (case m s of (Inl e, s') \<Rightarrow> (Inl e, s') | (Inr a, s') \<Rightarrow> n s')"
  and run_tryCatch: "tryCatch m h s = (case m s of (Inl e, s') \<Rightarrow> h e s' | (Inr a, s') \<Rightarrow> (Inr a, s'))"
  and run_transaction:
    "transactionOf restore m s = (case m s of (Inl e, s') \<Rightarrow> (Inl e, restore s s') | (Inr a, s') \<Rightarrow> (Inr a, s'))"
  by (simp_all add: op_defs)

lemmas run_defs = run_andThen run_andDo run_tryCatch run_transaction whenM_def bestEffort_def

lemma andThen_ret [simp]: "andThen (ret a) k = k a"
  and andDo_ret [simp]: "andDo (ret a) n = n"
  and andThen_throw [simp]: "andThen (throw e) k = throw e"
  and andDo_throw [simp]: "andDo (throw e) n = throw e"
  by (simp_all add: op_defs)

lemma snd_andDo_ret [simp]: "snd (andDo m (ret a) s) = snd (m s)"
  and snd_andThen_ret [simp]: "snd (andThen m (\<lambda>p. ret (f p)) s) = snd (m s)"
  by (simp_all add: run_andDo run_andThen split: prod.splits sum.splits)

lemma forEach_Cons_ok: "f x s = (Inr (), s') \<Longrightarrow> forEach (x # xs) f s = forEach xs f s'"
  by (simp add: run_andDo)

lemma andThen_assoc: "andThen (andThen m k) l = andThen m (\<lambda>a. andThen (k a) l)"
  by (rule ext) (simp add: run_andThen split: prod.splits sum.splits)

subsection \<open>Triples\<close>

definition hoare :: "('s \<Rightarrow> bool) \<Rightarrow> ('s, 'a) op \<Rightarrow> ('a \<Rightarrow> 's \<Rightarrow> bool) \<Rightarrow> (error \<Rightarrow> 's \<Rightarrow> bool) \<Rightarrow> bool" where
  "hoare P m Q E \<longleftrightarrow> (\<forall>s. P s \<longrightarrow> (case m s of (Inl e, s') \<Rightarrow> E e s' | (Inr a, s') \<Rightarrow> Q a s'))"

text \<open>An operation keeps an invariant however it ends.\<close>

definition preserves :: "('s \<Rightarrow> bool) \<Rightarrow> ('s, 'a) op \<Rightarrow> bool" where
  "preserves I m \<longleftrightarrow> hoare I m (\<lambda>_. I) (\<lambda>_. I)"

lemma preservesD:
  assumes "preserves I m" "I s"
  shows "I (snd (m s))"
proof -
  have "case m s of (Inl e, s') \<Rightarrow> I s' | (Inr a, s') \<Rightarrow> I s'"
    using assms by (simp add: preserves_def hoare_def)
  then show ?thesis by (cases "m s") (auto split: sum.splits)
qed

lemma preservesI:
  assumes "\<And>s. I s \<Longrightarrow> I (snd (m s))"
  shows "preserves I m"
  unfolding preserves_def hoare_def
proof (intro allI impI)
  fix s assume "I s"
  then have "I (snd (m s))" by (rule assms)
  then show "case m s of (Inl e, s') \<Rightarrow> I s' | (Inr a, s') \<Rightarrow> I s'"
    by (cases "m s") (auto split: sum.splits)
qed

lemma preserves_ret [hoare_intros]: "preserves I (ret a)"
  and preserves_throw [hoare_intros]: "preserves I (throw e)"
  and preserves_gets [hoare_intros]: "preserves I (gets f)"
  and preserves_ensure [hoare_intros]: "preserves I (ensure b e)"
  and preserves_ofOption [hoare_intros]: "preserves I (ofOption e x)"
  and preserves_ofSum [hoare_intros]: "preserves I (ofSum y)"
  by (auto intro!: preservesI split: option.splits)

lemma preserves_modify: "(\<And>s. I s \<Longrightarrow> I (f s)) \<Longrightarrow> preserves I (modify f)"
  by (auto intro!: preservesI)

lemma preserves_andThen [hoare_intros]:
  assumes "preserves I m" and "\<And>a. preserves I (k a)"
  shows "preserves I (andThen m k)"
proof (rule preservesI)
  fix s assume "I s"
  with assms(1) have 1: "I (snd (m s))" by (rule preservesD)
  show "I (snd (andThen m k s))"
    using 1 preservesD[OF assms(2)] by (cases "m s") (auto simp: run_andThen split: sum.splits)
qed

lemma preserves_andDo [hoare_intros]:
  "preserves I m \<Longrightarrow> preserves I n \<Longrightarrow> preserves I (andDo m n)"
  by (simp add: andDo_def preserves_andThen)

lemma preserves_whenM [hoare_intros]: "(b \<Longrightarrow> preserves I m) \<Longrightarrow> preserves I (whenM b m)"
  by (simp add: whenM_def preserves_ret)

lemma preserves_tryCatch [hoare_intros]:
  assumes "preserves I m" and "\<And>e. preserves I (h e)"
  shows "preserves I (tryCatch m h)"
proof (rule preservesI)
  fix s assume "I s"
  with assms(1) have 1: "I (snd (m s))" by (rule preservesD)
  show "I (snd (tryCatch m h s))"
    using 1 preservesD[OF assms(2)] by (cases "m s") (auto simp: run_tryCatch split: sum.splits)
qed

lemma preserves_bestEffort [hoare_intros]: "preserves I m \<Longrightarrow> preserves I (bestEffort m)"
  by (simp add: bestEffort_def preserves_tryCatch preserves_ret)

lemma preserves_forEach [hoare_intros]: "(\<And>x. x \<in> set xs \<Longrightarrow> preserves I (f x)) \<Longrightarrow> preserves I (forEach xs f)"
  by (induction xs) (auto intro: hoare_intros)

lemma preserves_if [hoare_intros]:
  "(b \<Longrightarrow> preserves I m) \<Longrightarrow> (\<not> b \<Longrightarrow> preserves I n) \<Longrightarrow> preserves I (if b then m else n)"
  by simp

lemma preserves_case_option [hoare_intros]:
  "(x = None \<Longrightarrow> preserves I m) \<Longrightarrow> (\<And>a. x = Some a \<Longrightarrow> preserves I (k a)) \<Longrightarrow>
   preserves I (case x of None \<Rightarrow> m | Some a \<Rightarrow> k a)"
  by (cases x) simp_all

text \<open>
  A transaction that fails restores the tables; one that succeeds must re-establish the invariant,
  which it may have broken on the way.
\<close>

lemma preserves_transaction:
  assumes "\<And>s s'. I s \<Longrightarrow> I (restore s s')"
    and "\<And>s a s'. I s \<Longrightarrow> m s = (Inr a, s') \<Longrightarrow> I s'"
  shows "preserves I (transactionOf restore m)"
  by (rule preservesI) (auto simp: run_transaction split: prod.splits sum.splits intro: assms)

lemma preserves_pure: "(\<And>s. snd (m s) = s) \<Longrightarrow> preserves I m"
  by (rule preservesI) simp

text \<open>\<open>Promise.all\<close>: every operation runs, the first failure is reported at the end.\<close>

fun awaitAll :: "'x list \<Rightarrow> ('x \<Rightarrow> ('s, unit) op) \<Rightarrow> ('s, unit) op" where
  "awaitAll [] f = ret ()"
| "awaitAll (x # xs) f = (\<lambda>s. case f x s of
      (Inl e, s') \<Rightarrow> (Inl e, snd (awaitAll xs f s')) | (Inr _, s') \<Rightarrow> awaitAll xs f s')"

lemma preserves_awaitAll [hoare_intros]:
  "(\<And>x. x \<in> set xs \<Longrightarrow> preserves I (f x)) \<Longrightarrow> preserves I (awaitAll xs f)"
proof (induction xs)
  case (Cons x xs)
  have x: "preserves I (f x)" and xs: "preserves I (awaitAll xs f)" using Cons by simp_all
  show ?case
  proof (rule preservesI)
    fix s assume "I s"
    then have "I (snd (f x s))" by (rule preservesD[OF x])
    then show "I (snd (awaitAll (x # xs) f s))"
      using preservesD[OF xs] by (cases "f x s") (auto split: sum.splits)
  qed
qed (simp add: preserves_ret)

subsection \<open>Services\<close>

text \<open>
  A service is a family of calls over one state. Callers issue them in any order, and a call that
  fails does not stop the next one.
\<close>

fun run_calls :: "('c \<Rightarrow> ('s, 'r) op) \<Rightarrow> 'c list \<Rightarrow> 's \<Rightarrow> 's" where
  "run_calls call [] s = s"
| "run_calls call (c # cs) s = run_calls call cs (snd (call c s))"

inductive reachable :: "('c \<Rightarrow> ('s, 'r) op) \<Rightarrow> 's \<Rightarrow> 's \<Rightarrow> bool" for call s where
  start: "reachable call s s"
| step: "reachable call s t \<Longrightarrow> reachable call s (snd (call c t))"

lemma reachable_run_calls: "reachable call s t \<Longrightarrow> reachable call s (run_calls call cs t)"
  by (induction cs arbitrary: t) (auto intro: reachable.step)

locale service =
  fixes call :: "'c \<Rightarrow> ('s, 'r) op" and I :: "'s \<Rightarrow> bool"
  assumes keeps: "preserves I (call c)"
begin

lemma call_keeps: "I s \<Longrightarrow> I (snd (call c s))"
  by (rule preservesD[OF keeps])

lemma reachable_keeps:
  assumes "reachable call s t" "I s"
  shows "I t"
  using assms by (induction rule: reachable.induct) (auto intro: call_keeps)

lemma run_keeps: "I s \<Longrightarrow> I (run_calls call cs s)"
  by (rule reachable_keeps[OF reachable_run_calls[OF reachable.start]])

end

end
