(* ===== verification/Store.thy ===== *)
theory Store
  imports Effects Js_Number
begin

text \<open>
  The database rows and the outside world that the booking, payment and payout services share: the
  columns of \<open>prisma/schema.prisma\<close> those services read or write, one table per list, and the trace
  of calls that leave the process (Stripe, notifications, delayed jobs). A transaction that throws
  restores every table and keeps the trace: an external call is not undone.
\<close>

datatype booking_status =
    PAYMENT_PENDING | DRIVER_PENDING | CONFIRMED | WAITING_FOR_PICKUP | DRIVER_ARRIVED | OTP_PENDING
  | ONBOARD | DROP_PENDING | DRIVER_DROPPED | IN_PROGRESS | PAYMENT_FAILED | RIDE_FULL_REFUNDED
  | CANCELLED | COMPLETED | NO_SHOW | DRIVER_MISSED_PICKUP | DISPUTED

datatype ride_status =
    RIDE_DRAFT | RIDE_PUBLISHED | RIDE_SCHEDULED | RIDE_READY_TO_START | RIDE_IN_PROGRESS
  | RIDE_COMPLETION_PENDING | RIDE_COMPLETED | RIDE_CANCELLED | RIDE_EXPIRED | RIDE_DISPUTED

record waypoint_row =
  wp_id :: ident
  wp_waypointType :: string
  wp_orderIndex :: int
  wp_pricePerSeat :: "jsnum option"

record user_row =
  u_id :: ident
  u_gender :: "string option"
  u_dob :: "time option"
  u_tosAcceptedAt :: "time option"
  u_privacyAcceptedAt :: "time option"
  u_isBanned :: bool
  u_dlVerified :: bool

record ride_row =
  r_id :: ident
  r_driverId :: ident
  r_status :: ride_status
  r_totalSeats :: int
  r_availableSeats :: int
  r_departureDate :: time
  r_departureTime :: string
  r_routeDurationSeconds :: "int option"
  r_basePricePerSeat :: jsnum
  r_currency :: string
  r_femaleOnly :: bool
  r_waypoints :: "waypoint_row list"
  r_actualStartTime :: "time option"
  r_actualEndTime :: "time option"

record booking_row =
  b_id :: ident
  b_rideId :: ident
  b_passengerId :: ident
  b_seatsBooked :: int
  b_totalPrice :: jsnum
  b_pickupWaypointId :: "ident option"
  b_dropoffWaypointId :: "ident option"
  b_segmentFare :: "jsnum option"
  b_serviceFeeAmount :: "jsnum option"
  b_serviceFeePercent :: "jsnum option"
  b_pickupPosition :: "int option"
  b_dropoffPosition :: "int option"
  b_status :: booking_status
  b_seatsReservedAt :: "time option"
  b_stripePaymentIntentId :: "ident option"
  b_stripeChargeId :: "ident option"
  b_paymentAmount :: "jsnum option"
  b_paymentCurrency :: "string option"
  b_paymentCapturedAt :: "time option"
  b_refundId :: "ident option"
  b_refundedAt :: "time option"
  b_refundAmount :: "jsnum option"
  b_refundPercent :: "jsnum option"
  b_driverDecisionDeadlineAt :: "time option"
  b_driverDecisionAt :: "time option"
  b_deadlineExpiredNotifiedAt :: "time option"
  b_deadlineExtendedAt :: "time option"
  b_autoCancelledAt :: "time option"
  b_cancelledAt :: "time option"
  b_cancelledByRole :: "string option"
  b_cancellationReason :: "string option"
  b_driverRejectionReason :: "string option"
  b_driverCancellationReason :: "string option"
  b_driverPenaltyAppliedAt :: "time option"
  b_driverPenaltyValue :: "int option"
  b_pickupOtpHash :: "string option"
  b_dropOtpHash :: "string option"
  b_pickupOtpExpiresAt :: "time option"
  b_dropOtpExpiresAt :: "time option"
  b_pickupOtpVerifiedAt :: "time option"
  b_dropOtpVerifiedAt :: "time option"
  b_otpAttemptCount :: int
  b_responseExpiryOption :: "string option"
  b_responseExpiryHours :: "int option"
  b_withdrawnAt :: "time option"
  b_withdrawnReason :: "string option"
  b_reminderSentAt :: "time option"
  b_createdAt :: time
  b_updatedAt :: time
  b_completedAt :: "time option"
  b_driverArrivedAt :: "time option"
  b_waitTimerStartedAt :: "time option"
  b_onboardedAt :: "time option"
  b_noShowMarkedAt :: "time option"
  b_dropoffConfirmedAt :: "time option"
  b_riderDropoffConfirmedAt :: "time option"

record segment_row =
  s_rideId :: ident
  s_fromPosition :: int
  s_toPosition :: int
  s_occupiedSeats :: int

record payment_row =
  p_id :: ident
  p_bookingId :: ident
  p_rideId :: ident
  p_riderId :: ident
  p_stripePaymentIntentId :: "ident option"
  p_amountTotal :: jsnum
  p_currency :: string
  p_fareAmount :: jsnum
  p_platformFeeAmount :: jsnum
  p_refundedFareAmount :: jsnum
  p_refundedFeeAmount :: jsnum
  p_status :: payment_status
  p_payoutEligibleAt :: "time option"
  p_failureReason :: "string option"

datatype account_type = ACC_RIDER | ACC_DRIVER | ACC_PLATFORM | ACC_PROVIDER

datatype entry_type =
    RIDER_PAYMENT_RECEIVED | DRIVER_EARNING_LIABILITY | PLATFORM_FEE_REVENUE | STRIPE_FEE_EXPENSE
  | REFUND_TO_RIDER | DRIVER_TRANSFER_CREATED | PAYOUT_FAILURE_REVERSAL | PLATFORM_FEE_REVERSAL

datatype direction = DEBIT | CREDIT

record ledger_row =
  l_paymentId :: ident
  l_bookingId :: ident
  l_userId :: "ident option"
  l_accountType :: account_type
  l_entryType :: entry_type
  l_direction :: direction
  l_amount :: jsnum
  l_currency :: string

datatype outbox_status = OUTBOX_PENDING | OUTBOX_PROCESSING | OUTBOX_PROCESSED | OUTBOX_FAILED

record outbox_row =
  o_id :: nat
  o_eventType :: string
  o_paymentId :: "ident option"
  o_status :: outbox_status
  o_retryCount :: int
  o_nextRetryAt :: "time option"
  o_processedAt :: "time option"

datatype request_status = REQ_OPEN | REQ_CHECKOUT_PENDING | REQ_MATCHED | REQ_CANCELLED | REQ_EXPIRED

record request_row =
  q_id :: ident
  q_riderId :: ident
  q_seats :: int
  q_status :: request_status
  q_expiresAt :: time
  q_checkoutExpiresAt :: "time option"

datatype offer_status = OFFER_OPEN | OFFER_SELECTED | OFFER_ACCEPTED | OFFER_CLOSED | OFFER_EXPIRED | OFFER_WITHDRAWN

record offer_row =
  of_id :: ident
  of_requestId :: ident
  of_driverId :: ident
  of_rideId :: ident
  of_bookingId :: "ident option"
  of_status :: offer_status
  of_expiresAt :: time

datatype dispute_status =
    DISPUTE_OPEN | EVIDENCE_COLLECTED | AUTO_RESOLVED_RIDER_REFUND | AUTO_RESOLVED_DRIVER_PAYOUT
  | NEEDS_MANUAL_REVIEW | WAITING_FOR_USER_RESPONSE | RESOLVED_REFUND | RESOLVED_PAYOUT
  | RESOLVED_SPLIT | ESCALATED

text \<open>What \<open>collectEvidence\<close> keeps of the booking, the ride, its events and its location history.\<close>

record dispute_evidence =
  de_driverGpsCount :: int
  de_riderGpsCount :: int
  de_manualOverrideCount :: int
  de_rideCompleted :: bool
  de_completedAt :: bool
  de_otpVerified :: bool
  de_dropoffConfirmed :: bool
  de_riderConfirmedDropoff :: bool
  de_noShowMarked :: bool

record dispute_row =
  d_id :: ident
  d_rideId :: ident
  d_bookingId :: ident
  d_raisedBy :: ident
  d_reason :: string
  d_status :: dispute_status
  d_resolution :: "string option"
  d_resolvedBy :: "ident option"
  d_resolvedAt :: "time option"
  d_description :: "string option"
  d_evidence :: "dispute_evidence option"
  d_recommendation :: "string option"
  d_riskScore :: "jsnum option"

datatype validation_status = VALID | WARNING | SUSPICIOUS

text \<open>\<open>ev_override\<close>: the metadata carries one of the manual, support, simulation or override reason marks.\<close>

record ride_event =
  ev_rideId :: ident
  ev_bookingId :: "ident option"
  ev_actionId :: ident
  ev_eventType :: string
  ev_actorType :: string
  ev_actorId :: ident
  ev_lat :: "jsnum option"
  ev_lng :: "jsnum option"
  ev_clientTimestamp :: time
  ev_validationStatus :: validation_status
  ev_override :: bool

record location_row =
  lo_rideId :: ident
  lo_driverId :: ident
  lo_lat :: jsnum
  lo_lng :: jsnum
  lo_timestamp :: time

datatype payout_status = PO_PENDING | PO_PROCESSING | PO_COMPLETED | PO_FAILED

record payout_item =
  pi_bookingId :: ident
  pi_paymentId :: ident
  pi_driverAmount :: jsnum
  pi_platformFee :: jsnum
  pi_status :: payout_status

record batch_row =
  pb_id :: ident
  pb_driverId :: ident
  pb_currency :: string
  pb_amountTotal :: jsnum
  pb_status :: payout_status
  pb_stripeTransferId :: "ident option"
  pb_items :: "payout_item list"

text \<open>Calls that leave the process, in the order they are made.\<close>

datatype effect =
    StripeCreateIntent ident int string
  | StripeRefund ident "int option"
  | StripeCancelIntent ident
  | StripeTransfer ident int
  | Notified ident string
  | Enqueued string ident int
  | IssueRecorded ident string string
  | ModuleCall string ident

record world =
  rides :: "ride_row list"
  bookings :: "booking_row list"
  segments :: "segment_row list"
  payments :: "payment_row list"
  ledger :: "ledger_row list"
  outbox :: "outbox_row list"
  requests :: "request_row list"
  offers :: "offer_row list"
  disputes :: "dispute_row list"
  batches :: "batch_row list"
  users :: "user_row list"
  blocks :: "(ident \<times> ident) list"
  feeSnapshots :: "(ident \<times> jsnum \<times> jsnum) list"
  penalties :: "(ident \<times> ident \<times> int) list"
  webhookEvents :: "ident list"
  rideEvents :: "ride_event list"
  locations :: "location_row list"
  rideIssues :: "(string \<times> ident) list"
  trace :: "effect list"

text \<open>\<open>prisma.$transaction\<close>: the tables of a failed transaction roll back, the trace does not.\<close>

definition rollback :: "world \<Rightarrow> world \<Rightarrow> world" where
  "rollback w w' = w\<lparr>trace := trace w'\<rparr>"

definition transaction :: "(world, 'a) op \<Rightarrow> (world, 'a) op" where
  "transaction = transactionOf rollback"

definition emit :: "effect \<Rightarrow> (world, unit) op" where
  "emit e = modify (\<lambda>w. w\<lparr>trace := trace w @ [e]\<rparr>)"

subsection \<open>Row access\<close>

definition findRide :: "ident \<Rightarrow> world \<Rightarrow> ride_row option" where
  "findRide x w = find (\<lambda>r. r_id r = x) (rides w)"

definition findBooking :: "ident \<Rightarrow> world \<Rightarrow> booking_row option" where
  "findBooking x w = find (\<lambda>b. b_id b = x) (bookings w)"

definition findPayment :: "ident \<Rightarrow> world \<Rightarrow> payment_row option" where
  "findPayment x w = find (\<lambda>p. p_id p = x) (payments w)"

definition updateBookings :: "(booking_row \<Rightarrow> bool) \<Rightarrow> (booking_row \<Rightarrow> booking_row) \<Rightarrow> (world, nat) op" where
  "updateBookings p f = (\<lambda>w. (Inr (count_where p (bookings w)), w\<lparr>bookings := update_where p f (bookings w)\<rparr>))"

text \<open>\<open>update\<close> by id throws when there is no such row (P2025).\<close>

definition updateBooking :: "ident \<Rightarrow> (booking_row \<Rightarrow> booking_row) \<Rightarrow> (world, unit) op" where
  "updateBooking x f = (\<lambda>w. if findBooking x w = None then (Inl RECORD_NOT_FOUND, w)
     else (Inr (), w\<lparr>bookings := update_where (\<lambda>b. b_id b = x) f (bookings w)\<rparr>))"

definition updateRide :: "ident \<Rightarrow> (ride_row \<Rightarrow> ride_row) \<Rightarrow> (world, unit) op" where
  "updateRide x f = (\<lambda>w. if findRide x w = None then (Inl RECORD_NOT_FOUND, w)
     else (Inr (), w\<lparr>rides := update_where (\<lambda>r. r_id r = x) f (rides w)\<rparr>))"

definition updateRides :: "(ride_row \<Rightarrow> bool) \<Rightarrow> (ride_row \<Rightarrow> ride_row) \<Rightarrow> (world, nat) op" where
  "updateRides p f = (\<lambda>w. (Inr (count_where p (rides w)), w\<lparr>rides := update_where p f (rides w)\<rparr>))"

definition updatePayment :: "ident \<Rightarrow> (payment_row \<Rightarrow> payment_row) \<Rightarrow> (world, unit) op" where
  "updatePayment x f = (\<lambda>w. if findPayment x w = None then (Inl RECORD_NOT_FOUND, w)
     else (Inr (), w\<lparr>payments := update_where (\<lambda>p. p_id p = x) f (payments w)\<rparr>))"

definition updateSegments :: "(segment_row \<Rightarrow> bool) \<Rightarrow> (segment_row \<Rightarrow> segment_row) \<Rightarrow> (world, nat) op" where
  "updateSegments p f = (\<lambda>w. (Inr (count_where p (segments w)), w\<lparr>segments := update_where p f (segments w)\<rparr>))"

lemmas store_defs = updateBookings_def updateBooking_def updateRide_def updatePayment_def
  updateSegments_def emit_def transaction_def

lemma run_emit [simp]: "emit e w = (Inr (), w\<lparr>trace := trace w @ [e]\<rparr>)"
  by (simp add: emit_def)

lemma run_transaction_eq: "transaction m w =
  (case m w of (Inl e, w') \<Rightarrow> (Inl e, rollback w w') | (Inr a, w') \<Rightarrow> (Inr a, w'))"
  by (simp add: transaction_def run_transaction)

subsection \<open>The environment\<close>

text \<open>
  What a handler gets from outside the database: the clock (read once per handler), the payment
  mode, the answers of Stripe, freshly drawn one-time codes and their hashes, and whether the
  notification and queue calls succeed. Each is a parameter of the handlers.
\<close>

datatype intent_status =
    IS_requires_payment_method | IS_requires_confirmation | IS_requires_action | IS_processing
  | IS_requires_capture | IS_canceled | IS_succeeded

record intent =
  i_id :: ident
  i_bookingId :: "ident option"
  i_status :: intent_status
  i_amount :: int
  i_amount_received :: int
  i_currency :: string
  i_latest_charge :: "ident option"

datatype retrieved = Retrieved intent | ResourceMissing | StripeUnavailable

text \<open>Where a rider is picked up or dropped off: a waypoint of the ride, or its origin or destination.\<close>

datatype meeting_place = AtWaypoint ident | AtOrigin | AtDestination

record env =
  e_now :: time
  e_bypass :: bool
  e_retrieve :: "ident \<Rightarrow> retrieved"
  e_refund :: "ident \<Rightarrow> int option \<Rightarrow> ident option"
  e_cancelIntent :: "ident \<Rightarrow> bool"
  e_notify :: "ident \<Rightarrow> string \<Rightarrow> bool"
  e_enqueue :: "string \<Rightarrow> ident \<Rightarrow> bool"
  e_pickupOtp :: string
  e_dropOtp :: string
  e_hashOtp :: "string \<Rightarrow> string"
  e_balanceFee :: "ident \<Rightarrow> (int \<times> string option) option"
  e_newBookingId :: ident
  e_newPaymentId :: ident
  e_createIntent :: "ident \<Rightarrow> int \<Rightarrow> string \<Rightarrow> (ident \<times> string) option"
  e_activeFeeTerms :: "jsnum \<times> jsnum"
  e_platformFeePercent :: "jsnum option"
  e_paymentWindowMinutes :: int
  e_allowSimulation :: bool
  e_startEarlyLimitMinutes :: "jsnum option"
  e_overdueCancelAfterMinutes :: int
  e_overdueEndGraceMinutes :: int
  e_rideZoneDeparture :: "time \<Rightarrow> string \<Rightarrow> time option"
  e_distanceMeters :: "ident \<Rightarrow> meeting_place \<Rightarrow> jsnum \<Rightarrow> jsnum \<Rightarrow> int"
  e_newDisputeId :: ident
  e_newActionId :: ident

text \<open>\<open>refundPaymentIntent\<close> and \<open>cancelPaymentIntent\<close> of \<open>stripe.service.ts\<close>: one SDK call each.\<close>

definition refundPaymentIntent :: "env \<Rightarrow> ident \<Rightarrow> int option \<Rightarrow> (world, ident) op" where
  "refundPaymentIntent env paymentIntentId amountMinor =
     andDo (emit (StripeRefund paymentIntentId amountMinor))
       (ofOption STRIPE_CALL_FAILED (e_refund env paymentIntentId amountMinor))"

definition cancelPaymentIntent :: "env \<Rightarrow> ident \<Rightarrow> (world, unit) op" where
  "cancelPaymentIntent env paymentIntentId =
     andDo (emit (StripeCancelIntent paymentIntentId)) (ensure (e_cancelIntent env paymentIntentId) STRIPE_CALL_FAILED)"

definition createNotification :: "env \<Rightarrow> ident \<Rightarrow> string \<Rightarrow> (world, unit) op" where
  "createNotification env userId type =
     andDo (emit (Notified userId type)) (ensure (e_notify env userId type) SIDE_EFFECT_FAILED)"

definition enqueueJob :: "env \<Rightarrow> string \<Rightarrow> ident \<Rightarrow> int \<Rightarrow> (world, unit) op" where
  "enqueueJob env job bookingId delay =
     andDo (emit (Enqueued job bookingId delay)) (ensure (e_enqueue env job bookingId) SIDE_EFFECT_FAILED)"

text \<open>A call into a module whose tables are not part of the store (ride events, rewards).\<close>

definition callModule :: "env \<Rightarrow> string \<Rightarrow> ident \<Rightarrow> (world, unit) op" where
  "callModule env name bookingId =
     andDo (emit (ModuleCall name bookingId)) (ensure (e_enqueue env name bookingId) SIDE_EFFECT_FAILED)"

text \<open>Operations that write no table keep every property of the tables.\<close>

definition tables_only :: "(world \<Rightarrow> bool) \<Rightarrow> bool" where
  "tables_only I \<longleftrightarrow> (\<forall>w t. I (w\<lparr>trace := t\<rparr>) = I w)"

lemma preserves_emit: "tables_only I \<Longrightarrow> preserves I (emit e)"
  by (simp add: emit_def preserves_modify tables_only_def)

lemma preserves_external:
  assumes "tables_only I"
  shows "preserves I (refundPaymentIntent env x a)" "preserves I (cancelPaymentIntent env x)"
    "preserves I (createNotification env u ty)" "preserves I (enqueueJob env j x d)" "preserves I (callModule env j x)"
  using preserves_emit[OF assms]
  by (simp_all add: refundPaymentIntent_def cancelPaymentIntent_def createNotification_def enqueueJob_def callModule_def
      preserves_andDo preserves_ensure preserves_ofOption)

lemma preserves_world_transaction:
  assumes "tables_only I" and "\<And>w a w'. I w \<Longrightarrow> m w = (Inr a, w') \<Longrightarrow> I w'"
  shows "preserves I (transaction m)"
  unfolding transaction_def
  using assms by (intro preserves_transaction) (auto simp: rollback_def tables_only_def)

subsection \<open>A concrete store\<close>

definition sample_booking :: booking_row where
  "sample_booking = \<lparr>b_id = ''b1'', b_rideId = ''r1'', b_passengerId = ''u1'', b_seatsBooked = 2,
     b_totalPrice = 20, b_pickupWaypointId = None, b_dropoffWaypointId = None, b_segmentFare = Some 9,
     b_serviceFeeAmount = Some 2, b_serviceFeePercent = Some 10, b_pickupPosition = Some 0, b_dropoffPosition = Some 1, b_status = PAYMENT_PENDING,
     b_seatsReservedAt = None, b_stripePaymentIntentId = Some ''pi1'', b_stripeChargeId = None,
     b_paymentAmount = None, b_paymentCurrency = None, b_paymentCapturedAt = None, b_refundId = None,
     b_refundedAt = None, b_refundAmount = None, b_refundPercent = None, b_driverDecisionDeadlineAt = None,
     b_driverDecisionAt = None, b_deadlineExpiredNotifiedAt = None, b_deadlineExtendedAt = None,
     b_autoCancelledAt = None, b_cancelledAt = None, b_cancelledByRole = None, b_cancellationReason = None,
     b_driverRejectionReason = None, b_driverCancellationReason = None, b_driverPenaltyAppliedAt = None,
     b_driverPenaltyValue = None, b_pickupOtpHash = None, b_dropOtpHash = None,
     b_pickupOtpExpiresAt = None, b_dropOtpExpiresAt = None, b_pickupOtpVerifiedAt = None, b_dropOtpVerifiedAt = None, b_otpAttemptCount = 0,
     b_responseExpiryOption = None, b_responseExpiryHours = None, b_withdrawnAt = None, b_withdrawnReason = None,
     b_reminderSentAt = None, b_createdAt = 0, b_updatedAt = 0, b_completedAt = None,
     b_driverArrivedAt = None, b_waitTimerStartedAt = None, b_onboardedAt = None, b_noShowMarkedAt = None,
     b_dropoffConfirmedAt = None, b_riderDropoffConfirmedAt = None\<rparr>"

definition sample_ride :: ride_row where
  "sample_ride = \<lparr>r_id = ''r1'', r_driverId = ''d1'', r_status = RIDE_PUBLISHED, r_totalSeats = 3,
     r_availableSeats = 2, r_departureDate = 86400000, r_departureTime = ''10:30'',
     r_routeDurationSeconds = Some 5400, r_basePricePerSeat = 15, r_currency = ''EUR'', r_femaleOnly = False,
     r_waypoints = [\<lparr>wp_id = ''w1'', wp_waypointType = ''STOPOVER'', wp_orderIndex = 0, wp_pricePerSeat = Some 9\<rparr>],
     r_actualStartTime = None, r_actualEndTime = None\<rparr>"

text \<open>A three-seat ride over two legs; booking \<open>b2\<close> holds one seat on the second leg.\<close>

definition sample_world :: world where
  "sample_world = \<lparr>rides = [sample_ride],
     bookings = [sample_booking, sample_booking\<lparr>b_id := ''b2'', b_passengerId := ''u2'', b_seatsBooked := 1,
       b_pickupPosition := Some 1, b_dropoffPosition := Some 2, b_status := DRIVER_PENDING,
       b_seatsReservedAt := Some 5\<rparr>],
     segments = [\<lparr>s_rideId = ''r1'', s_fromPosition = 0, s_toPosition = 1, s_occupiedSeats = 0\<rparr>,
       \<lparr>s_rideId = ''r1'', s_fromPosition = 1, s_toPosition = 2, s_occupiedSeats = 1\<rparr>],
     payments = [], ledger = [], outbox = [], requests = [], offers = [], disputes = [], batches = [],
     users = [\<lparr>u_id = ''u1'', u_gender = Some ''FEMALE'', u_dob = Some 0, u_tosAcceptedAt = Some 1,
       u_privacyAcceptedAt = Some 1, u_isBanned = False, u_dlVerified = False\<rparr>,
       \<lparr>u_id = ''d1'', u_gender = None, u_dob = Some 0, u_tosAcceptedAt = Some 1,
       u_privacyAcceptedAt = Some 1, u_isBanned = False, u_dlVerified = True\<rparr>],
     blocks = [], feeSnapshots = [(''r1'', 10, 0)], penalties = [],
     webhookEvents = [], rideEvents = [], locations = [], rideIssues = [], trace = []\<rparr>"

definition sample_env :: env where
  "sample_env = \<lparr>e_now = 1000000, e_bypass = False,
     e_retrieve = (\<lambda>x. Retrieved \<lparr>i_id = x, i_bookingId = Some ''b1'', i_status = IS_succeeded, i_amount = 1020,
       i_amount_received = 1020, i_currency = ''eur'', i_latest_charge = Some ''ch1''\<rparr>),
     e_refund = (\<lambda>_ _. Some ''re1''), e_cancelIntent = (\<lambda>_. True), e_notify = (\<lambda>_ _. True),
     e_enqueue = (\<lambda>_ _. True), e_pickupOtp = ''123456'', e_dropOtp = ''654321'', e_hashOtp = (\<lambda>x. ''#'' @ x),
     e_balanceFee = (\<lambda>_. None), e_newBookingId = ''b9'', e_newPaymentId = ''p9'',
     e_createIntent = (\<lambda>_ _ currency. Some (''pi9'', currency)), e_activeFeeTerms = (20, 0),
     e_platformFeePercent = Some 0, e_paymentWindowMinutes = 15, e_allowSimulation = False,
     e_startEarlyLimitMinutes = None, e_overdueCancelAfterMinutes = 120, e_overdueEndGraceMinutes = 30,
     e_rideZoneDeparture = (\<lambda>_ _. None), e_distanceMeters = (\<lambda>_ _ _ _. 0), e_newDisputeId = ''x9'', e_newActionId = ''a9''\<rparr>"

lemmas sample_defs = sample_world_def sample_ride_def sample_booking_def

end
