(* ===== verification/Ledger.thy ===== *)
theory Ledger
  imports Store
begin

text \<open>
  The ledger, \<open>src/src/modules/ledger/ledger.service.ts\<close>: an append-only list of entries. Each
  \<open>record...\<close> operation appends the entries of one event; balances are derived by adding the
  entries of an account as JavaScript numbers. The random \<open>entryGroupId\<close> that ties the entries of
  one call together is not modelled (nothing reads it); "the entries of a payment" are those with its
  \<open>paymentId\<close>.
\<close>

subsection \<open>Recording\<close>

definition createEntries :: "ledger_row list \<Rightarrow> (world, unit) op" where
  "createEntries es = modify (\<lambda>w. w\<lparr>ledger := ledger w @ es\<rparr>)"

record payment_received =
  pr_paymentId :: ident
  pr_bookingId :: ident
  pr_riderId :: ident
  pr_driverId :: ident
  pr_totalAmount :: jsnum
  pr_fareAmount :: jsnum
  pr_platformFee :: jsnum
  pr_currency :: string

definition received_entries :: "payment_received \<Rightarrow> ledger_row list" where
  "received_entries q =
     [\<lparr>l_paymentId = pr_paymentId q, l_bookingId = pr_bookingId q, l_userId = Some (pr_riderId q),
       l_accountType = ACC_RIDER, l_entryType = RIDER_PAYMENT_RECEIVED, l_direction = DEBIT,
       l_amount = pr_totalAmount q, l_currency = pr_currency q\<rparr>,
      \<lparr>l_paymentId = pr_paymentId q, l_bookingId = pr_bookingId q, l_userId = Some (pr_driverId q),
       l_accountType = ACC_DRIVER, l_entryType = DRIVER_EARNING_LIABILITY, l_direction = CREDIT,
       l_amount = pr_fareAmount q, l_currency = pr_currency q\<rparr>] @
     (if pr_platformFee q > 0 then
       [\<lparr>l_paymentId = pr_paymentId q, l_bookingId = pr_bookingId q, l_userId = None,
         l_accountType = ACC_PLATFORM, l_entryType = PLATFORM_FEE_REVENUE, l_direction = CREDIT,
         l_amount = pr_platformFee q, l_currency = pr_currency q\<rparr>]
      else [])"

definition recordPaymentReceived :: "payment_received \<Rightarrow> (world, unit) op" where
  "recordPaymentReceived q = createEntries (received_entries q)"

record refund_record =
  rr_paymentId :: ident
  rr_bookingId :: ident
  rr_riderId :: ident
  rr_driverId :: ident
  rr_refundAmount :: jsnum
  rr_fareRefundAmount :: jsnum
  rr_feeRefundAmount :: jsnum
  rr_currency :: string

definition refund_entries :: "refund_record \<Rightarrow> ledger_row list" where
  "refund_entries q =
     [\<lparr>l_paymentId = rr_paymentId q, l_bookingId = rr_bookingId q, l_userId = Some (rr_riderId q),
       l_accountType = ACC_RIDER, l_entryType = REFUND_TO_RIDER, l_direction = CREDIT,
       l_amount = rr_refundAmount q, l_currency = rr_currency q\<rparr>,
      \<lparr>l_paymentId = rr_paymentId q, l_bookingId = rr_bookingId q, l_userId = Some (rr_driverId q),
       l_accountType = ACC_DRIVER, l_entryType = DRIVER_EARNING_LIABILITY, l_direction = DEBIT,
       l_amount = rr_fareRefundAmount q, l_currency = rr_currency q\<rparr>] @
     (if rr_feeRefundAmount q > 0 then
       [\<lparr>l_paymentId = rr_paymentId q, l_bookingId = rr_bookingId q, l_userId = None,
         l_accountType = ACC_PLATFORM, l_entryType = PLATFORM_FEE_REVERSAL, l_direction = DEBIT,
         l_amount = rr_feeRefundAmount q, l_currency = rr_currency q\<rparr>]
      else [])"

definition recordRefund :: "refund_record \<Rightarrow> (world, unit) op" where
  "recordRefund q = createEntries (refund_entries q)"

definition recordTransfer :: "ident \<Rightarrow> ident \<Rightarrow> ident \<Rightarrow> jsnum \<Rightarrow> string \<Rightarrow> (world, unit) op" where
  "recordTransfer paymentId bookingId driverId transferAmount cur = createEntries
     [\<lparr>l_paymentId = paymentId, l_bookingId = bookingId, l_userId = Some driverId,
       l_accountType = ACC_DRIVER, l_entryType = DRIVER_TRANSFER_CREATED, l_direction = DEBIT,
       l_amount = transferAmount, l_currency = cur\<rparr>]"

definition recordPayoutFailureReversal :: "ident \<Rightarrow> ident \<Rightarrow> ident \<Rightarrow> jsnum \<Rightarrow> string \<Rightarrow> (world, unit) op" where
  "recordPayoutFailureReversal paymentId bookingId driverId reversedAmount cur = createEntries
     [\<lparr>l_paymentId = paymentId, l_bookingId = bookingId, l_userId = Some driverId,
       l_accountType = ACC_DRIVER, l_entryType = PAYOUT_FAILURE_REVERSAL, l_direction = CREDIT,
       l_amount = reversedAmount, l_currency = cur\<rparr>]"

definition recordProviderFeeExpense :: "ident \<Rightarrow> ident \<Rightarrow> jsnum \<Rightarrow> string \<Rightarrow> (world, unit) op" where
  "recordProviderFeeExpense paymentId bookingId feeAmount cur =
     (if \<not> feeAmount > 0 then ret ()
      else createEntries
        [\<lparr>l_paymentId = paymentId, l_bookingId = bookingId, l_userId = None,
          l_accountType = ACC_PROVIDER, l_entryType = STRIPE_FEE_EXPENSE, l_direction = CREDIT,
          l_amount = feeAmount, l_currency = cur\<rparr>,
         \<lparr>l_paymentId = paymentId, l_bookingId = bookingId, l_userId = None,
          l_accountType = ACC_PLATFORM, l_entryType = STRIPE_FEE_EXPENSE, l_direction = DEBIT,
          l_amount = feeAmount, l_currency = cur\<rparr>])"

subsection \<open>Derived balances\<close>

definition driverEntries :: "ident \<Rightarrow> world \<Rightarrow> ledger_row list" where
  "driverEntries driverId w =
     filter (\<lambda>l. l_userId l = Some driverId \<and> l_accountType l = ACC_DRIVER) (ledger w)"

definition getDriverBalance :: "ident \<Rightarrow> string option \<Rightarrow> world \<Rightarrow> jsnum" where
  "getDriverBalance driverId cur w =
     foldl (\<lambda>balance l. if l_direction l = CREDIT then js_add balance (l_amount l) else js_sub balance (l_amount l)) 0
       (filter (\<lambda>l. case cur of None \<Rightarrow> True | Some c \<Rightarrow> l_currency l = c) (driverEntries driverId w))"

record earnings =
  totalEarned :: jsnum
  totalPaidOut :: jsnum
  totalRefunded :: jsnum
  pendingBalance :: jsnum

definition earnings_step :: "jsnum \<times> jsnum \<times> jsnum \<Rightarrow> ledger_row \<Rightarrow> jsnum \<times> jsnum \<times> jsnum" where
  "earnings_step acc l =
     (let (earned, paid, refunded) = acc in
       (if l_entryType l = DRIVER_EARNING_LIABILITY \<and> l_direction l = CREDIT then js_add earned (l_amount l) else earned,
        if l_entryType l = DRIVER_TRANSFER_CREATED then js_add paid (l_amount l) else paid,
        if l_entryType l = DRIVER_EARNING_LIABILITY \<and> l_direction l = DEBIT then js_add refunded (l_amount l) else refunded))"

definition getDriverEarnings :: "ident \<Rightarrow> world \<Rightarrow> earnings" where
  "getDriverEarnings driverId w =
     (let (earned, paid, refunded) = foldl earnings_step (0, 0, 0) (rev (driverEntries driverId w))
      in \<lparr>totalEarned = earned, totalPaidOut = paid, totalRefunded = refunded,
          pendingBalance = js_sub (js_sub earned paid) refunded\<rparr>)"

subsection \<open>The exact books\<close>

text \<open>The same quantities over the integers: sums of cents.\<close>

definition signed_cents :: "ledger_row \<Rightarrow> int" where
  "signed_cents l = (if l_direction l = CREDIT then cents (l_amount l) else - cents (l_amount l))"

text \<open>Credits minus debits of the entries of a payment that satisfy \<open>q\<close>.\<close>

definition book :: "(ledger_row \<Rightarrow> bool) \<Rightarrow> ident \<Rightarrow> world \<Rightarrow> int" where
  "book q pid w = sum_where (\<lambda>l. l_paymentId l = pid \<and> q l) signed_cents (ledger w)"

abbreviation "liability_entry l \<equiv> l_accountType l = ACC_DRIVER \<and> l_entryType l = DRIVER_EARNING_LIABILITY"
abbreviation "fee_entry l \<equiv> l_accountType l = ACC_PLATFORM \<and> (l_entryType l = PLATFORM_FEE_REVENUE \<or> l_entryType l = PLATFORM_FEE_REVERSAL)"
abbreviation "rider_entry l \<equiv> l_accountType l = ACC_RIDER"

definition whole_amount :: "jsnum \<Rightarrow> bool" where
  "whole_amount a \<longleftrightarrow> (\<exists>k. safe_cents k \<and> a = major k)"

lemma whole_amountI: "safe_cents k \<Longrightarrow> whole_amount (major k)"
  by (auto simp: whole_amount_def)

lemma whole_amount_cents: "whole_amount a \<Longrightarrow> a = major (cents a)"
  by (auto simp: whole_amount_def)

lemma whole_amount_pos_iff: "whole_amount a \<Longrightarrow> 0 < a \<longleftrightarrow> 0 < cents a"
  by (metis major_pos_iff whole_amount_cents)

lemma book_createEntries [simp]:
  "book q pid (snd (createEntries es w)) = book q pid w + sum_where (\<lambda>l. l_paymentId l = pid \<and> q l) signed_cents es"
  by (simp add: createEntries_def book_def)

lemma run_createEntries: "createEntries es w = (Inr (), w\<lparr>ledger := ledger w @ es\<rparr>)"
  by (simp add: createEntries_def)

lemmas record_defs = recordPaymentReceived_def recordRefund_def recordTransfer_def
  recordPayoutFailureReversal_def recordProviderFeeExpense_def

text \<open>Non-positive amounts of the guarded entries contribute nothing when they are zero cents.\<close>

lemma guarded_cents:
  assumes "0 \<le> cents a" "whole_amount a"
  shows "(if 0 < a then cents a else 0) = cents a"
  using assms whole_amount_pos_iff[OF assms(2)] by auto

text \<open>
  The entries written for a received payment balance: the rider is debited what the driver and
  the platform are credited together, and no zero fee line is written.
\<close>

theorem recordPaymentReceived_balanced:
  assumes "cents (pr_totalAmount q) = cents (pr_fareAmount q) + cents (pr_platformFee q)"
    and "whole_amount (pr_platformFee q)" and "0 \<le> cents (pr_platformFee q)"
  shows "book (\<lambda>_. True) pid (snd (recordPaymentReceived q w)) = book (\<lambda>_. True) pid w \<and>
    (\<forall>l \<in> set (received_entries q). l_entryType l = PLATFORM_FEE_REVENUE \<longrightarrow> 0 < l_amount l)"
proof -
  have "book (\<lambda>_. True) pid (snd (recordPaymentReceived q w)) = book (\<lambda>_. True) pid w +
      (if pr_paymentId q = pid then - cents (pr_totalAmount q) + cents (pr_fareAmount q) +
        (if 0 < pr_platformFee q then cents (pr_platformFee q) else 0) else 0)"
    by (simp add: recordPaymentReceived_def received_entries_def signed_cents_def)
  then show ?thesis using assms guarded_cents[OF assms(3,2)] by (simp add: received_entries_def)
qed

theorem recordPaymentReceived_balanced_witness:
  "book (\<lambda>_. True) ''p1'' (snd (recordPaymentReceived
     \<lparr>pr_paymentId = ''p1'', pr_bookingId = ''b1'', pr_riderId = ''u1'', pr_driverId = ''d1'',
      pr_totalAmount = major 1020, pr_fareAmount = major 1000, pr_platformFee = major 20, pr_currency = ''EUR''\<rparr>
     sample_world)) = 0"
  using recordPaymentReceived_balanced[of "\<lparr>pr_paymentId = ''p1'', pr_bookingId = ''b1'', pr_riderId = ''u1'', pr_driverId = ''d1'',
      pr_totalAmount = major 1020, pr_fareAmount = major 1000, pr_platformFee = major 20, pr_currency = ''EUR''\<rparr>" "''p1''" sample_world]
  by (simp add: whole_amountI) (simp add: book_def sample_world_def)

subsection \<open>Balances agree with the books\<close>

lemma js_add_uminus: "js_sub x y = js_add x (- y)"
  by (simp add: js_add_def js_sub_def)

lemma balance_as_total:
  "foldl (\<lambda>balance l. if l_direction l = CREDIT then js_add balance (l_amount l) else js_sub balance (l_amount l)) acc ls =
   foldl js_add acc (map (\<lambda>l. if l_direction l = CREDIT then l_amount l else - l_amount l) ls)"
  by (induction ls arbitrary: acc) (simp_all add: js_add_uminus)

lemma signed_approximates:
  assumes "\<And>l. l \<in> set ls \<Longrightarrow> whole_amount (l_amount l)"
  shows "list_all2 approximates (map (\<lambda>l. if l_direction l = CREDIT then l_amount l else - l_amount l) ls) (map signed_cents ls)"
  using assms
proof (induction ls)
  case (Cons l ls)
  have "l_amount l = major (cents (l_amount l))" using Cons.prems by (intro whole_amount_cents) simp
  then have "approximates (l_amount l) (cents (l_amount l))" by (metis major_approximates)
  then show ?case
    using Cons js.approximates_uminus[of "l_amount l" "cents (l_amount l)"] by (simp add: signed_cents_def)
qed simp

definition driver_book :: "ident \<Rightarrow> string option \<Rightarrow> world \<Rightarrow> int" where
  "driver_book driverId cur w =
     sum_where (\<lambda>l. case cur of None \<Rightarrow> True | Some c \<Rightarrow> l_currency l = c) signed_cents (driverEntries driverId w)"

text \<open>The range in which the derived balances are exact.\<close>

definition moderate :: "ledger_row list \<Rightarrow> bool" where
  "moderate ls \<longleftrightarrow> (\<forall>l \<in> set ls. whole_amount (l_amount l)) \<and> length ls \<le> 4096 \<and>
     sum_list (map (\<lambda>l. \<bar>cents (l_amount l)\<bar>) ls) \<le> 2 ^ 32"

lemma abs_signed_cents: "\<bar>signed_cents l\<bar> = \<bar>cents (l_amount l)\<bar>"
  by (simp add: signed_cents_def)

lemma moderate_filter:
  assumes "moderate ls"
  shows "moderate (filter q ls)"
proof -
  have "sum_list (map f (filter q xs)) \<le> sum_list (map f xs)" if "\<And>x. 0 \<le> f x" for f :: "ledger_row \<Rightarrow> int" and xs
    using that by (induction xs) (auto intro: add_increasing)
  from this[of "\<lambda>l. \<bar>cents (l_amount l)\<bar>" ls] show ?thesis
    using assms order_trans[OF length_filter_le[of q ls], of 4096] by (auto simp: moderate_def)
qed

lemma moderate_append: "moderate (xs @ ys) \<Longrightarrow> moderate xs"
proof -
  assume m: "moderate (xs @ ys)"
  have "0 \<le> sum_list (map (\<lambda>l. \<bar>cents (l_amount l)\<bar>) ys)" by (rule sum_list_nonneg) auto
  then show "moderate xs" using m by (simp add: moderate_def)
qed

lemma moderate_rev [simp]: "moderate (rev ls) = moderate ls"
  by (simp add: moderate_def rev_map[symmetric] sum_list_rev)

lemma total_of_entries:
  assumes "moderate ls"
  shows "cents (foldl js_add 0 (map l_amount ls)) = sum_list (map (\<lambda>l. cents (l_amount l)) ls)"
proof -
  have "list_all2 approximates (map l_amount ls) (map (\<lambda>l. cents (l_amount l)) ls)"
    using assms major_approximates whole_amount_cents by (auto simp: list_all2_conv_all_nth moderate_def) (metis nth_mem)
  from cents_js_total[OF this] assms show ?thesis by (simp add: js_total_def moderate_def comp_def)
qed

text \<open>
  C30. The balance of a driver, a sum of floating point amounts, is to the cent the sum of the
  credited minus the debited cents, in the currency asked for or over all of them, as long as the
  driver has at most 4096 entries of at most \<open>2 ^ 32\<close> cents altogether.
\<close>

theorem getDriverBalance_exact:
  assumes "moderate (driverEntries d w)"
  shows "cents (getDriverBalance d cur w) = driver_book d cur w"
proof -
  let ?ls = "filter (\<lambda>l. case cur of None \<Rightarrow> True | Some c \<Rightarrow> l_currency l = c) (driverEntries d w)"
  have m: "moderate ?ls" by (rule moderate_filter[OF assms])
  have "cents (js_total (map (\<lambda>l. if l_direction l = CREDIT then l_amount l else - l_amount l) ?ls)) = sum_list (map signed_cents ?ls)"
    by (rule cents_js_total[OF signed_approximates]) (use m in \<open>auto simp: moderate_def comp_def abs_signed_cents\<close>)
  then show ?thesis
    by (simp add: getDriverBalance_def balance_as_total js_total_def driver_book_def sum_where_def)
qed

definition sample_ledger :: "ledger_row list" where
  "sample_ledger =
     [\<lparr>l_paymentId = ''p1'', l_bookingId = ''b1'', l_userId = Some ''d1'', l_accountType = ACC_DRIVER,
       l_entryType = DRIVER_EARNING_LIABILITY, l_direction = CREDIT, l_amount = major 1000, l_currency = ''EUR''\<rparr>,
      \<lparr>l_paymentId = ''p1'', l_bookingId = ''b1'', l_userId = Some ''d1'', l_accountType = ACC_DRIVER,
       l_entryType = DRIVER_EARNING_LIABILITY, l_direction = DEBIT, l_amount = major 330, l_currency = ''EUR''\<rparr>]"

lemma sample_moderate: "moderate (driverEntries ''d1'' (sample_world\<lparr>ledger := sample_ledger\<rparr>))"
  by (simp add: moderate_def driverEntries_def sample_ledger_def whole_amountI)

theorem getDriverBalance_exact_witness:
  "cents (getDriverBalance ''d1'' (Some ''EUR'') (sample_world\<lparr>ledger := sample_ledger\<rparr>)) = 670"
  using getDriverBalance_exact[OF sample_moderate, of "Some ''EUR''"]
  by (simp add: driver_book_def driverEntries_def sample_ledger_def signed_cents_def)

lemma earnings_fold:
  "foldl earnings_step (a, b, c) ls =
    (foldl js_add a (map l_amount (filter (\<lambda>l. l_entryType l = DRIVER_EARNING_LIABILITY \<and> l_direction l = CREDIT) ls)),
     foldl js_add b (map l_amount (filter (\<lambda>l. l_entryType l = DRIVER_TRANSFER_CREATED) ls)),
     foldl js_add c (map l_amount (filter (\<lambda>l. l_entryType l = DRIVER_EARNING_LIABILITY \<and> l_direction l = DEBIT) ls)))"
  by (induction ls arbitrary: a b c) (simp_all add: earnings_step_def)

lemma sum_list_filter_sum_where: "sum_list (map f (filter q xs)) = sum_where q f xs"
  by (simp add: sum_where_def)

lemma sum_where_rev: "sum_where q f (rev xs) = sum_where q f xs"
  by (simp add: sum_where_def rev_filter[symmetric] rev_map[symmetric] sum_list_rev)

lemma driver_book_split:
  assumes "\<forall>l \<in> set ls. l_entryType l = DRIVER_EARNING_LIABILITY \<or>
      l_entryType l = DRIVER_TRANSFER_CREATED \<and> l_direction l = DEBIT \<or>
      l_entryType l = PAYOUT_FAILURE_REVERSAL \<and> l_direction l = CREDIT"
  shows "sum_where (\<lambda>_. True) signed_cents ls =
    sum_where (\<lambda>l. l_entryType l = DRIVER_EARNING_LIABILITY \<and> l_direction l = CREDIT) (\<lambda>l. cents (l_amount l)) ls -
    sum_where (\<lambda>l. l_entryType l = DRIVER_TRANSFER_CREATED) (\<lambda>l. cents (l_amount l)) ls -
    sum_where (\<lambda>l. l_entryType l = DRIVER_EARNING_LIABILITY \<and> l_direction l = DEBIT) (\<lambda>l. cents (l_amount l)) ls +
    sum_where (\<lambda>l. l_entryType l = PAYOUT_FAILURE_REVERSAL) (\<lambda>l. cents (l_amount l)) ls"
  using assms
proof (induction ls)
  case (Cons l ls)
  then show ?case by (cases "l_direction l") (auto simp: signed_cents_def)
qed simp

text \<open>
  The earnings summary reports exact cents, and what it leaves out: earned minus paid out minus
  refunded is the driver's ledger balance less every payout reversal, because
  \<open>PAYOUT_FAILURE_REVERSAL\<close> entries enter \<open>getDriverBalance\<close> only.
\<close>

theorem getDriverEarnings_exact:
  assumes "moderate (driverEntries d w)"
    and "\<forall>l \<in> set (driverEntries d w).
      l_entryType l = DRIVER_EARNING_LIABILITY \<or>
      l_entryType l = DRIVER_TRANSFER_CREATED \<and> l_direction l = DEBIT \<or>
      l_entryType l = PAYOUT_FAILURE_REVERSAL \<and> l_direction l = CREDIT"
  shows "cents (totalEarned (getDriverEarnings d w)) - cents (totalPaidOut (getDriverEarnings d w)) -
      cents (totalRefunded (getDriverEarnings d w)) =
    driver_book d None w - sum_where (\<lambda>l. l_entryType l = PAYOUT_FAILURE_REVERSAL) (\<lambda>l. cents (l_amount l)) (driverEntries d w)"
proof -
  let ?ls = "driverEntries d w" and ?c = "\<lambda>l. cents (l_amount l)"
  let ?e = "\<lambda>l. l_entryType l = DRIVER_EARNING_LIABILITY \<and> l_direction l = CREDIT"
  let ?p = "\<lambda>l. l_entryType l = DRIVER_TRANSFER_CREATED"
  let ?r = "\<lambda>l. l_entryType l = DRIVER_EARNING_LIABILITY \<and> l_direction l = DEBIT"
  have tot: "cents (foldl js_add 0 (map l_amount (filter q (rev ?ls)))) = sum_where q ?c ?ls" for q
    using total_of_entries[OF moderate_filter, of "rev ?ls" q] assms(1)
    by (simp add: sum_list_filter_sum_where sum_where_rev)
  have split: "driver_book d None w = sum_where ?e ?c ?ls - sum_where ?p ?c ?ls - sum_where ?r ?c ?ls +
      sum_where (\<lambda>l. l_entryType l = PAYOUT_FAILURE_REVERSAL) ?c ?ls"
    using driver_book_split[OF assms(2)] by (simp add: driver_book_def)
  show ?thesis by (simp add: getDriverEarnings_def earnings_fold tot split)
qed

theorem getDriverEarnings_exact_witness:
  "cents (totalEarned (getDriverEarnings ''d1'' (sample_world\<lparr>ledger := sample_ledger\<rparr>))) -
   cents (totalPaidOut (getDriverEarnings ''d1'' (sample_world\<lparr>ledger := sample_ledger\<rparr>))) -
   cents (totalRefunded (getDriverEarnings ''d1'' (sample_world\<lparr>ledger := sample_ledger\<rparr>))) = 670"
  using getDriverEarnings_exact[OF sample_moderate]
  by (simp add: driver_book_def driverEntries_def sample_ledger_def signed_cents_def)

end
