(* ===== verification/Payments.thy ===== *)
theory Payments
  imports Ledger Booking_Price
begin

text \<open>
  Payments, \<open>src/src/modules/payments/payment.service.ts\<close>: the status machine
  (\<open>PAYMENT_TRANSITIONS\<close>, \<open>assertTransition\<close>), the creation of a payment, every status helper, and
  the residual amounts. None of these helpers runs in a transaction: each reads the row, checks and
  writes, and an error keeps what was written before it. \<open>books\<close> ties the rows to the ledger.
\<close>

subsection \<open>The status machine\<close>

fun PAYMENT_TRANSITIONS :: "payment_status \<Rightarrow> payment_status list option" where
  "PAYMENT_TRANSITIONS P_CREATED = Some [P_PAYMENT_PENDING, P_PAYMENT_FAILED]"
| "PAYMENT_TRANSITIONS P_PAYMENT_PENDING = Some [P_PAID, P_PAYMENT_FAILED]"
| "PAYMENT_TRANSITIONS P_PAID = Some [P_HELD_IN_ESCROW, P_REFUND_PENDING]"
| "PAYMENT_TRANSITIONS P_HELD_IN_ESCROW = Some [P_PAYOUT_ELIGIBLE, P_REFUND_PENDING]"
| "PAYMENT_TRANSITIONS P_PAYOUT_ELIGIBLE = Some [P_TRANSFER_CREATED, P_REFUND_PENDING]"
| "PAYMENT_TRANSITIONS P_TRANSFER_CREATED = Some [P_PAYOUT_COMPLETED, P_PAYOUT_ELIGIBLE]"
| "PAYMENT_TRANSITIONS P_REFUND_PENDING = Some [P_REFUNDED, P_PAYOUT_ELIGIBLE]"
| "PAYMENT_TRANSITIONS _ = None"

definition transition_allowed :: "payment_status \<Rightarrow> payment_status \<Rightarrow> bool" where
  "transition_allowed current target =
     (case PAYMENT_TRANSITIONS current of None \<Rightarrow> False | Some allowed \<Rightarrow> target \<in> set allowed)"

definition assertTransition :: "payment_status \<Rightarrow> payment_status \<Rightarrow> (world, unit) op" where
  "assertTransition current target =
     ensure (transition_allowed current target) (INVALID_PAYMENT_TRANSITION current target)"

subsection \<open>Residual amounts\<close>

definition netFareAmount :: "payment_row \<Rightarrow> jsnum" where
  "netFareAmount p = major (max 0 (cents (js_sub (p_fareAmount p) (p_refundedFareAmount p))))"

definition netPlatformFeeAmount :: "payment_row \<Rightarrow> jsnum" where
  "netPlatformFeeAmount p = major (max 0 (cents (js_sub (p_platformFeeAmount p) (p_refundedFeeAmount p))))"

subsection \<open>Row access\<close>

definition findPaymentOrThrow :: "ident \<Rightarrow> (world, payment_row) op" where
  "findPaymentOrThrow x = andThen (gets (findPayment x)) (ofOption RECORD_NOT_FOUND)"

definition findPaymentByBooking :: "ident \<Rightarrow> world \<Rightarrow> payment_row option" where
  "findPaymentByBooking x w = find (\<lambda>p. p_bookingId p = x) (payments w)"

text \<open>\<open>payment.update\<close> returns the row it has written.\<close>

definition updatePaymentRow :: "ident \<Rightarrow> (payment_row \<Rightarrow> payment_row) \<Rightarrow> (world, payment_row) op" where
  "updatePaymentRow x f = andDo (updatePayment x f) (findPaymentOrThrow x)"

definition getPaymentsByRideId :: "ident \<Rightarrow> world \<Rightarrow> payment_row list" where
  "getPaymentsByRideId rideId w = rev (filter (\<lambda>p. p_rideId p = rideId) (payments w))"

definition getEligiblePaymentsForPayout :: "ident option \<Rightarrow> world \<Rightarrow> payment_row list" where
  "getEligiblePaymentsForPayout driverId w =
     filter (\<lambda>p. p_status p = P_PAYOUT_ELIGIBLE \<and>
       (case driverId of None \<Rightarrow> True
        | Some d \<Rightarrow> (case findBooking (p_bookingId p) w of None \<Rightarrow> False
                    | Some b \<Rightarrow> map_option r_driverId (findRide (b_rideId b) w) = Some d))) (payments w)"

subsection \<open>Creating a payment\<close>

abbreviation UNIQUE_VIOLATION :: error where "UNIQUE_VIOLATION \<equiv> Err ''P2002''"

record payment_params =
  pp_bookingId :: ident
  pp_rideId :: ident
  pp_riderId :: ident
  pp_amountTotal :: jsnum
  pp_fareAmount :: jsnum
  pp_platformFeeAmount :: jsnum
  pp_currency :: string
  pp_stripePaymentIntentId :: "ident option"
  pp_status :: "payment_status option"

text \<open>\<open>newId\<close> is the generated primary key; the unique columns of the schema are checked.\<close>

definition createPayment :: "ident \<Rightarrow> payment_params \<Rightarrow> (world, payment_row) op" where
  "createPayment newId q =
     (let p = \<lparr>p_id = newId, p_bookingId = pp_bookingId q, p_rideId = pp_rideId q, p_riderId = pp_riderId q,
        p_stripePaymentIntentId = pp_stripePaymentIntentId q, p_amountTotal = pp_amountTotal q,
        p_currency = pp_currency q, p_fareAmount = pp_fareAmount q,
        p_platformFeeAmount = pp_platformFeeAmount q, p_refundedFareAmount = 0, p_refundedFeeAmount = 0,
        p_status = (case pp_status q of None \<Rightarrow> P_CREATED | Some s \<Rightarrow> s),
        p_payoutEligibleAt = None, p_failureReason = None\<rparr>
      in andThen (gets payments) (\<lambda>ps.
         andDo (ensure (\<forall>y \<in> set ps. p_id y \<noteq> newId \<and> p_bookingId y \<noteq> p_bookingId p \<and>
             (p_stripePaymentIntentId p \<noteq> None \<longrightarrow> p_stripePaymentIntentId y \<noteq> p_stripePaymentIntentId p)) UNIQUE_VIOLATION)
        (andDo (modify (\<lambda>w. w\<lparr>payments := payments w @ [p]\<rparr>)) (ret p))))"

subsection \<open>Transition helpers\<close>

definition markPaymentPending :: "ident \<Rightarrow> (world, payment_row) op" where
  "markPaymentPending paymentId =
     andThen (findPaymentOrThrow paymentId) (\<lambda>payment.
     andDo (assertTransition (p_status payment) P_PAYMENT_PENDING)
       (updatePaymentRow paymentId (\<lambda>p. p\<lparr>p_status := P_PAYMENT_PENDING\<rparr>)))"

definition writeOutboxEvent :: "string \<Rightarrow> ident option \<Rightarrow> (world, unit) op" where
  "writeOutboxEvent eventType paymentId =
     modify (\<lambda>w. w\<lparr>outbox := outbox w @
       [\<lparr>o_id = length (outbox w), o_eventType = eventType, o_paymentId = paymentId,
         o_status = OUTBOX_PENDING, o_retryCount = 0, o_nextRetryAt = None, o_processedAt = None\<rparr>]\<rparr>)"

definition received_of :: "payment_row \<Rightarrow> ident \<Rightarrow> payment_received" where
  "received_of p driverId =
     \<lparr>pr_paymentId = p_id p, pr_bookingId = p_bookingId p, pr_riderId = p_riderId p, pr_driverId = driverId,
      pr_totalAmount = p_amountTotal p, pr_fareAmount = p_fareAmount p,
      pr_platformFee = p_platformFeeAmount p, pr_currency = p_currency p\<rparr>"

definition markPaymentPaid :: "ident \<Rightarrow> ident \<Rightarrow> (world, payment_row) op" where
  "markPaymentPaid paymentId driverId =
     andThen (findPaymentOrThrow paymentId) (\<lambda>payment.
     andDo (assertTransition (p_status payment) P_PAID)
    (andThen (updatePaymentRow paymentId (\<lambda>p. p\<lparr>p_status := P_PAID\<rparr>)) (\<lambda>updated.
     andDo (recordPaymentReceived (received_of payment driverId))
    (andDo (writeOutboxEvent ''payment.paid'' (Some paymentId))
     (ret updated)))))"

definition markBookingPaymentPaid :: "ident \<Rightarrow> ident \<Rightarrow> (world, payment_row option) op" where
  "markBookingPaymentPaid bookingId driverId =
     andThen (gets (findPaymentByBooking bookingId)) (\<lambda>found.
       case found of None \<Rightarrow> ret None
       | Some payment \<Rightarrow>
           if p_status payment = P_CREATED then
             andDo (markPaymentPending (p_id payment)) (andThen (markPaymentPaid (p_id payment) driverId) (\<lambda>p. ret (Some p)))
           else if p_status payment = P_PAYMENT_PENDING then
             andThen (markPaymentPaid (p_id payment) driverId) (\<lambda>p. ret (Some p))
           else ret (Some payment))"

definition markHeldInEscrow :: "ident \<Rightarrow> (world, payment_row) op" where
  "markHeldInEscrow paymentId =
     andThen (findPaymentOrThrow paymentId) (\<lambda>payment.
     andDo (assertTransition (p_status payment) P_HELD_IN_ESCROW)
       (updatePaymentRow paymentId (\<lambda>p. p\<lparr>p_status := P_HELD_IN_ESCROW\<rparr>)))"

definition markPayoutEligible :: "time \<Rightarrow> ident \<Rightarrow> (world, payment_row) op" where
  "markPayoutEligible now paymentId =
     andThen (findPaymentOrThrow paymentId) (\<lambda>payment.
     andDo (assertTransition (p_status payment) P_PAYOUT_ELIGIBLE)
       (updatePaymentRow paymentId (\<lambda>p. p\<lparr>p_status := P_PAYOUT_ELIGIBLE, p_payoutEligibleAt := Some now\<rparr>)))"

definition markTransferCreated :: "ident \<Rightarrow> (world, payment_row) op" where
  "markTransferCreated paymentId =
     andThen (findPaymentOrThrow paymentId) (\<lambda>payment.
     andDo (assertTransition (p_status payment) P_TRANSFER_CREATED)
       (updatePaymentRow paymentId (\<lambda>p. p\<lparr>p_status := P_TRANSFER_CREATED\<rparr>)))"

definition markPayoutCompleted :: "ident \<Rightarrow> (world, payment_row) op" where
  "markPayoutCompleted paymentId =
     andThen (findPaymentOrThrow paymentId) (\<lambda>payment.
     andDo (assertTransition (p_status payment) P_PAYOUT_COMPLETED)
       (updatePaymentRow paymentId (\<lambda>p. p\<lparr>p_status := P_PAYOUT_COMPLETED\<rparr>)))"

definition markRefundPending :: "ident \<Rightarrow> (world, payment_row) op" where
  "markRefundPending paymentId =
     andThen (findPaymentOrThrow paymentId) (\<lambda>payment.
     andDo (assertTransition (p_status payment) P_REFUND_PENDING)
       (updatePaymentRow paymentId (\<lambda>p. p\<lparr>p_status := P_REFUND_PENDING\<rparr>)))"

definition markPaymentFailed :: "ident \<Rightarrow> string option \<Rightarrow> (world, payment_row) op" where
  "markPaymentFailed paymentId reason =
     andThen (findPaymentOrThrow paymentId) (\<lambda>payment.
     andDo (assertTransition (p_status payment) P_PAYMENT_FAILED)
       (updatePaymentRow paymentId (\<lambda>p. p\<lparr>p_status := P_PAYMENT_FAILED, p_failureReason := reason\<rparr>)))"

text \<open>The numbers \<open>markRefunded\<close> computes from the row and the amount, before it writes them.\<close>

record refund_plan =
  rp_split :: refund_split
  rp_nextStatus :: payment_status
  rp_refundedFare :: jsnum
  rp_refundedFee :: jsnum

definition refund_plan_of :: "payment_row \<Rightarrow> jsnum \<Rightarrow> refund_plan" where
  "refund_plan_of payment effectiveRefund =
     (let split = resolveRefundSplit (p_amountTotal payment) (p_fareAmount payment) effectiveRefund;
          refundedFareCents = cents (p_refundedFareAmount payment) + cents (fareRefundAmount split);
          refundedFeeCents = cents (p_refundedFeeAmount payment) + cents (feeRefundAmount split);
          residualFareCents = cents (p_fareAmount payment) - refundedFareCents;
          totalRefundedCents = refundedFareCents + refundedFeeCents;
          isPartialRefund = totalRefundedCents < cents (p_amountTotal payment)
      in \<lparr>rp_split = split,
          rp_nextStatus = (if isPartialRefund \<and> residualFareCents > 0 then P_PAYOUT_ELIGIBLE else P_REFUNDED),
          rp_refundedFare = major (min (cents (p_fareAmount payment)) refundedFareCents),
          rp_refundedFee = major (min (cents (p_platformFeeAmount payment)) refundedFeeCents)\<rparr>)"

definition refund_of :: "payment_row \<Rightarrow> ident \<Rightarrow> jsnum \<Rightarrow> refund_record" where
  "refund_of p driverId amount =
     (let split = rp_split (refund_plan_of p amount) in
      \<lparr>rr_paymentId = p_id p, rr_bookingId = p_bookingId p, rr_riderId = p_riderId p, rr_driverId = driverId,
       rr_refundAmount = amount, rr_fareRefundAmount = fareRefundAmount split,
       rr_feeRefundAmount = feeRefundAmount split, rr_currency = p_currency p\<rparr>)"

definition markRefunded :: "time \<Rightarrow> ident \<Rightarrow> ident \<Rightarrow> jsnum option \<Rightarrow> (world, payment_row) op" where
  "markRefunded now paymentId driverId refundAmount =
     andThen (findPaymentOrThrow paymentId) (\<lambda>payment.
     if p_status payment = P_REFUNDED then ret payment
     else
       andDo (if p_status payment \<noteq> P_REFUND_PENDING then
                andDo (assertTransition (p_status payment) P_REFUND_PENDING)
                  (updatePayment paymentId (\<lambda>p. p\<lparr>p_status := P_REFUND_PENDING\<rparr>))
              else ret ())
      (let effectiveRefund = (case refundAmount of None \<Rightarrow> p_amountTotal payment | Some a \<Rightarrow> a);
           plan = refund_plan_of payment effectiveRefund
       in andDo (assertTransition P_REFUND_PENDING (rp_nextStatus plan))
         (andThen (updatePaymentRow paymentId (\<lambda>p. p\<lparr>p_status := rp_nextStatus plan,
              p_refundedFareAmount := rp_refundedFare plan, p_refundedFeeAmount := rp_refundedFee plan,
              p_payoutEligibleAt := (if rp_nextStatus plan = P_PAYOUT_ELIGIBLE then Some now else p_payoutEligibleAt p)\<rparr>)) (\<lambda>updated.
          andDo (recordRefund (refund_of payment driverId effectiveRefund)) (ret updated)))))"

definition markBookingPaymentRefunded :: "time \<Rightarrow> ident \<Rightarrow> ident \<Rightarrow> jsnum option \<Rightarrow> (world, payment_row option) op" where
  "markBookingPaymentRefunded now bookingId driverId refundAmount =
     andThen (gets (findPaymentByBooking bookingId)) (\<lambda>found.
       case found of None \<Rightarrow> ret None
       | Some payment \<Rightarrow> andThen (markRefunded now (p_id payment) driverId refundAmount) (\<lambda>p. ret (Some p)))"

lemmas mark_defs = markPaymentPending_def markPaymentPaid_def markHeldInEscrow_def markPayoutEligible_def
  markTransferCreated_def markPayoutCompleted_def markRefundPending_def markPaymentFailed_def markRefunded_def
  markBookingPaymentPaid_def markBookingPaymentRefunded_def assertTransition_def updatePaymentRow_def

subsection \<open>Histories of payments\<close>

lemma list_all2_refl_on: "(\<And>x. x \<in> set xs \<Longrightarrow> R x (g x)) \<Longrightarrow> list_all2 (\<lambda>x y. R x (g y)) xs xs"
  by (induction xs) auto

text \<open>
  How a payment may have changed: its status along allowed transitions, its refunds and notes; never
  its identity, its booking or the amounts charged.
\<close>

definition payment_later :: "payment_row \<Rightarrow> payment_row \<Rightarrow> bool" where
  "payment_later p p' \<longleftrightarrow> transition_allowed\<^sup>*\<^sup>* (p_status p) (p_status p') \<and>
     p_id p' = p_id p \<and> p_bookingId p' = p_bookingId p \<and> p_rideId p' = p_rideId p \<and> p_riderId p' = p_riderId p \<and>
     p_amountTotal p' = p_amountTotal p \<and> p_fareAmount p' = p_fareAmount p \<and>
     p_platformFeeAmount p' = p_platformFeeAmount p \<and> p_currency p' = p_currency p"

definition payment_history :: "payment_row list \<Rightarrow> world \<Rightarrow> bool" where
  "payment_history ps w \<longleftrightarrow> distinct (map p_id (payments w)) \<and>
     list_all2 payment_later ps (take (length ps) (payments w))"

lemma payment_later_refl [intro]: "payment_later p p"
  by (simp add: payment_later_def)

lemma payment_later_trans: "payment_later p q \<Longrightarrow> payment_later q r \<Longrightarrow> payment_later p r"
  by (auto simp: payment_later_def)

lemma payment_history_start: "distinct (map p_id (payments w)) \<Longrightarrow> payment_history (payments w) w"
  by (auto simp: payment_history_def intro: list_all2_refl)

lemma payment_history_payments:
  "payments w' = payments w \<Longrightarrow> payment_history ps w \<Longrightarrow> payment_history ps w'"
  by (simp add: payment_history_def)

lemma find_mem_unique:
  "distinct (map k xs) \<Longrightarrow> find (\<lambda>y. k y = x) xs = Some p \<Longrightarrow> y \<in> set xs \<Longrightarrow> k y = x \<Longrightarrow> y = p"
  by (metis find_key_unique option.inject)

text \<open>An update of the row just read, along the machine.\<close>

lemma payment_history_update:
  assumes "payment_history ps w" and "findPayment x w = Some p" and "payment_later p (f p)"
  shows "payment_history ps (w\<lparr>payments := update_where (\<lambda>y. p_id y = x) f (payments w)\<rparr>)"
proof -
  have d: "distinct (map p_id (payments w))" and h: "list_all2 payment_later ps (take (length ps) (payments w))"
    using assms(1) by (simp_all add: payment_history_def)
  have uniq: "y = p" if "y \<in> set (payments w)" "p_id y = x" for y
    using find_mem_unique[OF d] assms(2) that unfolding findPayment_def by blast
  have ids: "map p_id (update_where (\<lambda>y. p_id y = x) f (payments w)) = map p_id (payments w)"
    unfolding update_where_def using uniq assms(3) by (auto simp: payment_later_def)
  have "list_all2 payment_later (payments w) (update_where (\<lambda>y. p_id y = x) f (payments w))"
    unfolding update_where_def list_all2_map2 using uniq assms(3) by (auto intro!: list_all2_refl_on)
  then have "list_all2 payment_later (take (length ps) (payments w)) (take (length ps) (update_where (\<lambda>y. p_id y = x) f (payments w)))"
    by (rule list_all2_takeI)
  with h have "list_all2 payment_later ps (take (length ps) (update_where (\<lambda>y. p_id y = x) f (payments w)))"
    using list_all2_trans[of payment_later payment_later payment_later] payment_later_trans by blast
  then show ?thesis using d ids by (simp add: payment_history_def)
qed

text \<open>Most helpers are one guarded update.\<close>

definition guarded :: "ident \<Rightarrow> payment_status \<Rightarrow> (payment_row \<Rightarrow> payment_row) \<Rightarrow> (world, payment_row) op" where
  "guarded x target f =
     andThen (findPaymentOrThrow x) (\<lambda>payment.
     andDo (assertTransition (p_status payment) target) (updatePaymentRow x f))"

lemmas guarded_helpers = markPaymentPending_def markHeldInEscrow_def markPayoutEligible_def
  markTransferCreated_def markPayoutCompleted_def markRefundPending_def markPaymentFailed_def

lemma run_findPaymentOrThrow: "findPaymentOrThrow x w =
  (case findPayment x w of None \<Rightarrow> (Inl RECORD_NOT_FOUND, w) | Some p \<Rightarrow> (Inr p, w))"
  by (simp add: findPaymentOrThrow_def run_andThen)

lemma findPayment_update:
  "(\<And>p. p_id p = x \<Longrightarrow> p_id (f p) = x) \<Longrightarrow>
   findPayment x (w\<lparr>payments := update_where (\<lambda>y. p_id y = x) f (payments w)\<rparr>) = map_option f (findPayment x w)"
proof -
  assume f: "\<And>p. p_id p = x \<Longrightarrow> p_id (f p) = x"
  have "find (\<lambda>y. p_id y = x) (update_where (\<lambda>y. p_id y = x) f ps) = map_option f (find (\<lambda>y. p_id y = x) ps)" for ps
    using f by (induction ps) auto
  then show ?thesis by (simp add: findPayment_def)
qed

lemma run_updatePaymentRow:
  assumes "\<And>p. p_id p = x \<Longrightarrow> p_id (f p) = x"
  shows "updatePaymentRow x f w = (case findPayment x w of None \<Rightarrow> (Inl RECORD_NOT_FOUND, w)
    | Some p \<Rightarrow> (Inr (f p), w\<lparr>payments := update_where (\<lambda>y. p_id y = x) f (payments w)\<rparr>))"
  using findPayment_update[where f = f and x = x and w = w] assms
  by (auto simp: updatePaymentRow_def run_andDo updatePayment_def run_findPaymentOrThrow split: option.splits)

lemma run_guarded:
  assumes "\<And>p. p_id p = x \<Longrightarrow> p_id (f p) = x"
  shows "guarded x target f w = (case findPayment x w of None \<Rightarrow> (Inl RECORD_NOT_FOUND, w)
    | Some p \<Rightarrow> if transition_allowed (p_status p) target
        then (Inr (f p), w\<lparr>payments := update_where (\<lambda>y. p_id y = x) f (payments w)\<rparr>)
        else (Inl (INVALID_PAYMENT_TRANSITION (p_status p) target), w))"
  using run_updatePaymentRow[where f = f and x = x] assms
  by (auto simp: guarded_def run_andThen run_andDo run_findPaymentOrThrow assertTransition_def split: option.splits)

lemma findPayment_id: "findPayment x w = Some p \<Longrightarrow> p_id p = x"
  unfolding findPayment_def by (drule find_Some_mem) simp

lemma history_guarded:
  assumes "\<And>p. transition_allowed (p_status p) target \<Longrightarrow> payment_later p (f p)"
    and "\<And>p. p_id (f p) = p_id p"
  shows "preserves (payment_history ps) (guarded x target f)"
proof (rule preservesI)
  fix w assume h: "payment_history ps w"
  have "payment_history ps (w\<lparr>payments := update_where (\<lambda>y. p_id y = x) f (payments w)\<rparr>)"
    if "findPayment x w = Some p" "transition_allowed (p_status p) target" for p
    using payment_history_update[OF h that(1)] assms(1)[OF that(2)] by blast
  with h show "payment_history ps (snd (guarded x target f w))"
    using run_guarded[where f = f and x = x and target = target and w = w] assms(2) by (auto split: option.splits)
qed

lemma later_status: "transition_allowed (p_status p) s \<Longrightarrow> payment_later p (p\<lparr>p_status := s\<rparr>)"
  by (auto simp: payment_later_def)

lemma preserves_payments_only:
  assumes "\<And>w. payments (snd (m w)) = payments w"
  shows "preserves (payment_history ps) m"
  by (rule preservesI) (rule payment_history_payments[OF assms])

lemma payments_record [simp]:
  "payments (snd (recordPaymentReceived q w)) = payments w" "payments (snd (recordRefund r w)) = payments w"
  "payments (snd (recordTransfer a b c d e w)) = payments w"
  "payments (snd (recordPayoutFailureReversal a b c d e w)) = payments w"
  "payments (snd (writeOutboxEvent ty x w)) = payments w"
  by (simp_all add: record_defs createEntries_def writeOutboxEvent_def)

lemma history_guarded_helpers:
  "preserves (payment_history ps) (markPaymentPending x)" "preserves (payment_history ps) (markHeldInEscrow x)"
  "preserves (payment_history ps) (markPayoutEligible now x)" "preserves (payment_history ps) (markTransferCreated x)"
  "preserves (payment_history ps) (markPayoutCompleted x)" "preserves (payment_history ps) (markRefundPending x)"
  "preserves (payment_history ps) (markPaymentFailed x reason)"
  unfolding guarded_helpers guarded_def[symmetric]
  by (rule history_guarded; auto simp: payment_later_def)+

lemma markPaymentPaid_eq:
  "markPaymentPaid x d = (\<lambda>w. case guarded x P_PAID (\<lambda>p. p\<lparr>p_status := P_PAID\<rparr>) w of
      (Inl e, w') \<Rightarrow> (Inl e, w')
    | (Inr p, w') \<Rightarrow> andDo (recordPaymentReceived (received_of p d)) (andDo (writeOutboxEvent ''payment.paid'' (Some x)) (ret p)) w')"
  by (rule ext) (simp add: markPaymentPaid_def run_andThen run_andDo run_findPaymentOrThrow assertTransition_def
      run_guarded run_updatePaymentRow received_of_def split: option.splits)

lemma history_paid: "preserves (payment_history ps) (markPaymentPaid x d)"
proof (rule preservesI)
  fix w assume h: "payment_history ps w"
  have g: "payment_history ps (snd (guarded x P_PAID (\<lambda>p. p\<lparr>p_status := P_PAID\<rparr>) w))"
    by (rule preservesD[OF history_guarded h]) (auto simp: payment_later_def)
  have p: "preserves (payment_history ps) (andDo (recordPaymentReceived (received_of p d)) (andDo (writeOutboxEvent ''payment.paid'' (Some x)) (ret p)))" for p
    by (intro preserves_andDo preserves_payments_only) simp_all
  show "payment_history ps (snd (markPaymentPaid x d w))"
    using g preservesD[OF p] by (auto simp: markPaymentPaid_eq split: prod.splits sum.splits)
qed

subsection \<open>What a refund does\<close>

definition apply_refund :: "time \<Rightarrow> refund_plan \<Rightarrow> payment_row \<Rightarrow> payment_row" where
  "apply_refund now plan p = p\<lparr>p_status := rp_nextStatus plan,
     p_refundedFareAmount := rp_refundedFare plan, p_refundedFeeAmount := rp_refundedFee plan,
     p_payoutEligibleAt := (if rp_nextStatus plan = P_PAYOUT_ELIGIBLE then Some now else p_payoutEligibleAt p)\<rparr>"

abbreviation refundable :: "payment_status \<Rightarrow> bool" where
  "refundable s \<equiv> s = P_REFUND_PENDING \<or> transition_allowed s P_REFUND_PENDING"

lemma next_status_allowed: "transition_allowed P_REFUND_PENDING (rp_nextStatus (refund_plan_of p a))"
  by (simp add: transition_allowed_def refund_plan_of_def Let_def)

lemma update_where_twice:
  "(\<And>p. k (f p) = k p) \<Longrightarrow> update_where (\<lambda>y. k y = x) g (update_where (\<lambda>y. k y = x) f ps) = update_where (\<lambda>y. k y = x) (\<lambda>p. g (f p)) ps"
  by (induction ps) auto

lemma run_markRefunded:
  "markRefunded now x d a w = (case findPayment x w of None \<Rightarrow> (Inl RECORD_NOT_FOUND, w)
    | Some p \<Rightarrow>
        if p_status p = P_REFUNDED then (Inr p, w)
        else if refundable (p_status p) then
          (let amount = (case a of None \<Rightarrow> p_amountTotal p | Some v \<Rightarrow> v);
               plan = refund_plan_of p amount
           in (Inr (apply_refund now plan p),
               w\<lparr>payments := update_where (\<lambda>y. p_id y = x) (apply_refund now plan) (payments w),
                 ledger := ledger w @ refund_entries (refund_of p d amount)\<rparr>))
        else (Inl (INVALID_PAYMENT_TRANSITION (p_status p) P_REFUND_PENDING), w))"
proof (cases "findPayment x w")
  case None
  then show ?thesis by (simp add: markRefunded_def run_andThen run_findPaymentOrThrow)
next
  case (Some p)
  define amount where "amount = (case a of None \<Rightarrow> p_amountTotal p | Some v \<Rightarrow> v)"
  define plan where "plan = refund_plan_of p amount"
  have id: "p_id p = x" by (rule findPayment_id[OF Some])
  let ?g = "\<lambda>p. p\<lparr>p_status := P_REFUND_PENDING\<rparr>"
  let ?w1 = "w\<lparr>payments := update_where (\<lambda>y. p_id y = x) ?g (payments w)\<rparr>"
  have f1: "findPayment x ?w1 = Some (?g p)"
    using findPayment_update[where f = ?g and x = x and w = w] Some by simp
  have same: "apply_refund now plan (?g y) = apply_refund now plan y" for y by (simp add: apply_refund_def)
  have two: "update_where (\<lambda>y. p_id y = x) (apply_refund now plan) (update_where (\<lambda>y. p_id y = x) ?g (payments w)) =
      update_where (\<lambda>y. p_id y = x) (apply_refund now plan) (payments w)"
    by (subst update_where_twice) (simp_all add: same)
  have upd: "updatePaymentRow x (apply_refund now plan) v = (case findPayment x v of None \<Rightarrow> (Inl RECORD_NOT_FOUND, v)
      | Some p \<Rightarrow> (Inr (apply_refund now plan p), v\<lparr>payments := update_where (\<lambda>y. p_id y = x) (apply_refund now plan) (payments v)\<rparr>))" for v
    by (rule run_updatePaymentRow) (simp add: apply_refund_def)
  have ok: "transition_allowed P_REFUND_PENDING (rp_nextStatus plan)"
    unfolding plan_def by (rule next_status_allowed)
  have body: "markRefunded now x d a w =
      (if p_status p = P_REFUNDED then (Inr p, w)
       else andDo (if p_status p \<noteq> P_REFUND_PENDING then
                andDo (assertTransition (p_status p) P_REFUND_PENDING) (updatePayment x ?g) else ret ())
         (andDo (assertTransition P_REFUND_PENDING (rp_nextStatus plan))
         (andThen (updatePaymentRow x (apply_refund now plan)) (\<lambda>updated.
          andDo (recordRefund (refund_of p d amount)) (ret updated)))) w)"
    using Some unfolding markRefunded_def amount_def plan_def apply_refund_def[abs_def] Let_def
    by (simp add: run_andThen run_findPaymentOrThrow)
  show ?thesis
    using Some f1 ok two same unfolding body
    by (simp add: run_andThen run_andDo assertTransition_def updatePayment_def upd recordRefund_def run_createEntries
        amount_def[symmetric] plan_def[symmetric] Let_def)
qed

lemma later_refund:
  assumes "refundable (p_status p)"
  shows "payment_later p (apply_refund now (refund_plan_of p a) p)"
proof -
  have "transition_allowed\<^sup>*\<^sup>* (p_status p) P_REFUND_PENDING" using assms by auto
  then have "transition_allowed\<^sup>*\<^sup>* (p_status p) (rp_nextStatus (refund_plan_of p a))"
    using next_status_allowed by (rule rtranclp.rtrancl_into_rtrancl)
  then show ?thesis by (simp add: payment_later_def apply_refund_def)
qed

lemma history_refunded: "preserves (payment_history ps) (markRefunded now x d a)"
proof (rule preservesI)
  fix w assume h: "payment_history ps w"
  have "payment_history ps (w\<lparr>payments := update_where (\<lambda>y. p_id y = x) (apply_refund now (refund_plan_of p b)) (payments w), ledger := l\<rparr>)"
    if "findPayment x w = Some p" "refundable (p_status p)" for p b l
    using payment_history_update[where f = "apply_refund now (refund_plan_of p b)", OF h that(1) later_refund[OF that(2)]]
    by (simp add: payment_history_def)
  then show "payment_history ps (snd (markRefunded now x d a w))"
    using h by (simp add: run_markRefunded Let_def split: option.splits)
qed

subsection \<open>The payment service\<close>

datatype payment_call =
    Call_Pending ident | Call_Paid ident ident | Call_BookingPaid ident ident | Call_Escrow ident
  | Call_Eligible ident | Call_TransferCreated ident | Call_PayoutCompleted ident | Call_RefundPending ident
  | Call_Refunded ident ident "jsnum option" | Call_BookingRefunded ident ident "jsnum option"
  | Call_Failed ident "string option"

fun payment_service :: "time \<Rightarrow> payment_call \<Rightarrow> (world, unit) op" where
  "payment_service now (Call_Pending x) = andDo (markPaymentPending x) (ret ())"
| "payment_service now (Call_Paid x d) = andDo (markPaymentPaid x d) (ret ())"
| "payment_service now (Call_BookingPaid x d) = andDo (markBookingPaymentPaid x d) (ret ())"
| "payment_service now (Call_Escrow x) = andDo (markHeldInEscrow x) (ret ())"
| "payment_service now (Call_Eligible x) = andDo (markPayoutEligible now x) (ret ())"
| "payment_service now (Call_TransferCreated x) = andDo (markTransferCreated x) (ret ())"
| "payment_service now (Call_PayoutCompleted x) = andDo (markPayoutCompleted x) (ret ())"
| "payment_service now (Call_RefundPending x) = andDo (markRefundPending x) (ret ())"
| "payment_service now (Call_Refunded x d a) = andDo (markRefunded now x d a) (ret ())"
| "payment_service now (Call_BookingRefunded x d a) = andDo (markBookingPaymentRefunded now x d a) (ret ())"
| "payment_service now (Call_Failed x r) = andDo (markPaymentFailed x r) (ret ())"

lemma history_service: "preserves (payment_history ps) (payment_service now c)"
  by (cases c)
    (auto intro!: hoare_intros history_guarded_helpers history_paid history_refunded
      simp: markBookingPaymentPaid_def markBookingPaymentRefunded_def)

interpretation payment_histories: service "payment_service now" "payment_history ps" for now ps
  by unfold_locales (rule history_service)

lemma terminal_stays:
  assumes "transition_allowed\<^sup>*\<^sup>* s t" "PAYMENT_TRANSITIONS s = None"
  shows "t = s"
  using assms by (induction rule: converse_rtranclp_induct) (auto simp: transition_allowed_def)

text \<open>
  C15. Whatever sequence of payment helpers runs, successful or not: no payment row disappears or
  changes its booking, rider, currency or charged amounts; its status only moves along
  \<open>PAYMENT_TRANSITIONS\<close>; and a payment that reached \<open>PAYOUT_COMPLETED\<close>, \<open>REFUNDED\<close> or
  \<open>PAYMENT_FAILED\<close> keeps that status.
\<close>

theorem payment_status_machine:
  assumes "distinct (map p_id (payments w))" and "i < length (payments w)"
    and "w' = run_calls (payment_service now) cs w"
  shows "payment_later (payments w ! i) (payments w' ! i) \<and>
    (PAYMENT_TRANSITIONS (p_status (payments w ! i)) = None \<longrightarrow> p_status (payments w' ! i) = p_status (payments w ! i))"
proof -
  have "payment_history (payments w) w'"
    unfolding assms(3) by (rule payment_histories.run_keeps[OF payment_history_start[OF assms(1)]])
  then have all: "list_all2 payment_later (payments w) (take (length (payments w)) (payments w'))"
    by (simp add: payment_history_def)
  then have "payment_later (payments w ! i) (payments w' ! i)"
    using list_all2_nthD[OF all assms(2)] list_all2_lengthD[OF all] assms(2) by simp
  then show ?thesis using terminal_stays by (auto simp: payment_later_def)
qed

definition sample_payment :: payment_row where
  "sample_payment = \<lparr>p_id = ''p1'', p_bookingId = ''b1'', p_rideId = ''r1'', p_riderId = ''u1'',
     p_stripePaymentIntentId = Some ''pi1'', p_amountTotal = major 1020, p_currency = ''EUR'',
     p_fareAmount = major 1000, p_platformFeeAmount = major 20, p_refundedFareAmount = 0,
     p_refundedFeeAmount = 0, p_status = P_PAYMENT_PENDING, p_payoutEligibleAt = None, p_failureReason = None\<rparr>"

definition paid_world :: world where
  "paid_world = sample_world\<lparr>payments := [sample_payment\<lparr>p_status := P_HELD_IN_ESCROW\<rparr>],
     ledger := received_entries (received_of sample_payment ''d1'')\<rparr>"

theorem payment_status_machine_witness:
  "payment_later (payments paid_world ! 0)
     (payments (run_calls (payment_service 7) [Call_Refunded ''p1'' ''d1'' None, Call_Eligible ''p1''] paid_world) ! 0)"
  using payment_status_machine[of paid_world 0 _ 7 "[Call_Refunded ''p1'' ''d1'' None, Call_Eligible ''p1'']"]
  by (simp add: paid_world_def)

subsection \<open>Rows and ledger agree\<close>

abbreviation captured :: "payment_status \<Rightarrow> bool" where
  "captured s \<equiv> s \<noteq> P_CREATED \<and> s \<noteq> P_PAYMENT_PENDING \<and> s \<noteq> P_PAYMENT_FAILED"

text \<open>A row whose amounts are whole cents, with refunds inside the charge.\<close>

definition cents_row :: "payment_row \<Rightarrow> bool" where
  "cents_row p \<longleftrightarrow>
     p_fareAmount p = major (cents (p_fareAmount p)) \<and> p_platformFeeAmount p = major (cents (p_platformFeeAmount p)) \<and>
     p_amountTotal p = major (cents (p_fareAmount p) + cents (p_platformFeeAmount p)) \<and>
     p_refundedFareAmount p = major (cents (p_refundedFareAmount p)) \<and>
     p_refundedFeeAmount p = major (cents (p_refundedFeeAmount p)) \<and>
     0 \<le> cents (p_refundedFareAmount p) \<and> cents (p_refundedFareAmount p) \<le> cents (p_fareAmount p) \<and>
     0 \<le> cents (p_refundedFeeAmount p) \<and> cents (p_refundedFeeAmount p) \<le> cents (p_platformFeeAmount p) \<and>
     0 < cents (p_fareAmount p) \<and> cents (p_fareAmount p) + cents (p_platformFeeAmount p) \<le> 2 ^ 48"

text \<open>
  Before the capture the ledger knows nothing of the payment. Afterwards the rider's account shows
  the charge less the refunds, the driver's liability the fare less its refunds, and the platform the
  fee less its refunds.
\<close>

definition tied :: "world \<Rightarrow> payment_row \<Rightarrow> bool" where
  "tied w p \<longleftrightarrow> cents_row p \<and>
     (if captured (p_status p) then
        book (\<lambda>l. rider_entry l) (p_id p) w =
          cents (p_refundedFareAmount p) + cents (p_refundedFeeAmount p) - cents (p_fareAmount p) - cents (p_platformFeeAmount p) \<and>
        book (\<lambda>l. liability_entry l) (p_id p) w = cents (p_fareAmount p) - cents (p_refundedFareAmount p) \<and>
        book (\<lambda>l. fee_entry l) (p_id p) w = cents (p_platformFeeAmount p) - cents (p_refundedFeeAmount p)
      else cents (p_refundedFareAmount p) = 0 \<and> cents (p_refundedFeeAmount p) = 0 \<and>
        (\<forall>l \<in> set (ledger w). l_paymentId l \<noteq> p_id p))"

definition books :: "world \<Rightarrow> bool" where
  "books w \<longleftrightarrow> distinct (map p_id (payments w)) \<and> (\<forall>p \<in> set (payments w). tied w p)"

lemma book_append:
  "book q x (w\<lparr>ledger := ledger w @ es\<rparr>) = book q x w + sum_where (\<lambda>l. l_paymentId l = x \<and> q l) signed_cents es"
  by (simp add: book_def)

lemma tied_cong: "ledger w = ledger w' \<Longrightarrow> tied w p = tied w' p"
  by (simp add: tied_def book_def)

lemma tied_other:
  assumes "tied w y" and "\<forall>l \<in> set es. l_paymentId l \<noteq> p_id y" and "ledger w' = ledger w @ es"
  shows "tied w' y"
proof -
  have "sum_where (\<lambda>l. l_paymentId l = p_id y \<and> q l) signed_cents es = 0" for q
    using assms(2) by (induction es) auto
  then have "book q (p_id y) w' = book q (p_id y) w" for q
    using book_append[of q "p_id y" w es] assms(3) by (simp add: book_def)
  then show ?thesis using assms by (auto simp: tied_def)
qed

text \<open>Changing one row and appending entries of that payment only.\<close>

lemma books_update:
  assumes "books w" and "findPayment x w = Some p" and "p_id (f p) = x"
    and "payments w' = update_where (\<lambda>y. p_id y = x) f (payments w)" and "ledger w' = ledger w @ es"
    and "\<forall>l \<in> set es. l_paymentId l = x" and "tied w' (f p)"
  shows "books w'"
proof -
  have d: "distinct (map p_id (payments w))" and t: "\<forall>y \<in> set (payments w). tied w y"
    using assms(1) by (simp_all add: books_def)
  have uniq: "y = p" if "y \<in> set (payments w)" "p_id y = x" for y
    using find_mem_unique[OF d] assms(2) that unfolding findPayment_def by blast
  have ids: "map p_id (payments w') = map p_id (payments w)"
    unfolding assms(4) update_where_def using uniq assms(3) by auto
  have "tied w' z" if z: "z \<in> set (payments w')" for z
  proof -
    obtain y where y: "y \<in> set (payments w)" "z = (if p_id y = x then f y else y)"
      using z unfolding assms(4) set_update_where by auto
    show ?thesis
    proof (cases "p_id y = x")
      case True
      with uniq y assms(7) show ?thesis by simp
    next
      case False
      then show ?thesis using y t assms(5,6) by (auto intro!: tied_other[of w y es w'])
    qed
  qed
  then show ?thesis using d ids by (simp add: books_def)
qed

lemma books_found: "books w \<Longrightarrow> findPayment x w = Some p \<Longrightarrow> tied w p"
  unfolding books_def findPayment_def by (drule find_Some_mem) blast

text \<open>A guarded status change that neither captures nor refunds.\<close>

lemma books_guarded:
  assumes "\<And>p. f p = (f p)\<lparr>p_status := target\<rparr>"
    and "\<And>p. cents_row p \<Longrightarrow> cents_row (f p)" and "\<And>p. p_id (f p) = p_id p"
    and "\<And>p. p_fareAmount (f p) = p_fareAmount p \<and> p_platformFeeAmount (f p) = p_platformFeeAmount p \<and>
      p_refundedFareAmount (f p) = p_refundedFareAmount p \<and> p_refundedFeeAmount (f p) = p_refundedFeeAmount p"
    and "target \<noteq> P_PAID"
  shows "preserves books (guarded x target f)"
proof (rule preservesI)
  fix w assume b: "books w"
  have cap: "captured target = captured s" if "transition_allowed s target" for s
    using that assms(5) by (cases s; cases target) (simp_all add: transition_allowed_def)
  have "books (w\<lparr>payments := update_where (\<lambda>y. p_id y = x) f (payments w)\<rparr>)"
    if p: "findPayment x w = Some p" and ok: "transition_allowed (p_status p) target" for p
  proof (rule books_update[where es = "[]", OF b p])
    have st: "p_status (f p) = target" using arg_cong[OF assms(1)[of p], of p_status] by simp
    have "tied w (f p)"
      unfolding tied_def using books_found[OF b p, unfolded tied_def] assms(2)[of p] assms(3,4) cap[OF ok] st
      by (auto split: if_splits)
    then show "tied (w\<lparr>payments := update_where (\<lambda>y. p_id y = x) f (payments w)\<rparr>) (f p)"
      using tied_cong[of "w\<lparr>payments := update_where (\<lambda>y. p_id y = x) f (payments w)\<rparr>" w] by simp
  qed (use findPayment_id[OF p] assms(3) in simp_all)
  with b show "books (snd (guarded x target f w))"
    using run_guarded[where f = f and x = x and target = target and w = w] assms(3) by (auto split: option.splits)
qed

lemma books_guarded_helpers:
  "preserves books (markPaymentPending x)" "preserves books (markHeldInEscrow x)"
  "preserves books (markPayoutEligible now x)" "preserves books (markTransferCreated x)"
  "preserves books (markPayoutCompleted x)" "preserves books (markRefundPending x)"
  "preserves books (markPaymentFailed x reason)"
  unfolding guarded_helpers guarded_def[symmetric]
  by (rule books_guarded; auto simp: cents_row_def)+

lemma cents_row_facts:
  assumes "cents_row p"
  shows "0 < cents (p_fareAmount p)" "0 \<le> cents (p_platformFeeAmount p)"
    "cents (p_amountTotal p) = cents (p_fareAmount p) + cents (p_platformFeeAmount p)"
    "cents (p_fareAmount p) + cents (p_platformFeeAmount p) \<le> 2 ^ 48"
    "whole_amount (p_platformFeeAmount p)"
proof -
  show 1: "0 < cents (p_fareAmount p)" and 2: "0 \<le> cents (p_platformFeeAmount p)"
    and 3: "cents (p_fareAmount p) + cents (p_platformFeeAmount p) \<le> 2 ^ 48"
    using assms unfolding cents_row_def by linarith+
  have t: "p_amountTotal p = major (cents (p_fareAmount p) + cents (p_platformFeeAmount p))"
    and e: "p_platformFeeAmount p = major (cents (p_platformFeeAmount p))"
    using assms by (simp_all add: cents_row_def)
  show "cents (p_amountTotal p) = cents (p_fareAmount p) + cents (p_platformFeeAmount p)"
    unfolding t using 1 2 3 by (intro cents_major) simp
  have "safe_cents (cents (p_platformFeeAmount p))" using 1 2 3 by simp
  then show "whole_amount (p_platformFeeAmount p)" using e unfolding whole_amount_def by blast
qed

lemma book_none: "\<forall>l \<in> set (ledger w). l_paymentId l \<noteq> x \<Longrightarrow> book q x w = 0"
  unfolding book_def by (induction "ledger w" arbitrary: w) (auto simp: sum_where_def filter_empty_conv intro: sum_list_0)

lemma received_entries_payment: "l \<in> set (received_entries (received_of p d)) \<Longrightarrow> l_paymentId l = p_id p"
  by (auto simp: received_entries_def received_of_def split: if_splits)

lemma refund_entries_payment: "l \<in> set (refund_entries (refund_of p d a)) \<Longrightarrow> l_paymentId l = p_id p"
  by (auto simp: refund_entries_def refund_of_def Let_def split: if_splits)

lemma tied_paid:
  assumes t: "tied w p" and s: "\<not> captured (p_status p)"
    and w': "ledger w' = ledger w @ received_entries (received_of p d)"
  shows "tied w' (p\<lparr>p_status := P_PAID\<rparr>)"
proof -
  have c: "cents_row p" and z: "cents (p_refundedFareAmount p) = 0" "cents (p_refundedFeeAmount p) = 0"
    and n: "\<forall>l \<in> set (ledger w). l_paymentId l \<noteq> p_id p"
    using t s unfolding tied_def by (auto split: if_splits)
  note f = cents_row_facts[OF c]
  have b: "book q (p_id p) w' = sum_where (\<lambda>l. l_paymentId l = p_id p \<and> q l) signed_cents (received_entries (received_of p d))" for q
    using book_none[OF n, of q] w' by (simp add: book_def)
  have c': "cents_row (p\<lparr>p_status := P_PAID\<rparr>)" using c by (simp add: cents_row_def)
  have fee: "(if 0 < p_platformFeeAmount p then cents (p_platformFeeAmount p) else 0) = cents (p_platformFeeAmount p)"
    by (rule guarded_cents[OF f(2,5)])
  show ?thesis
    using c' z f(3) fee
    by (simp add: tied_def b received_entries_def received_of_def signed_cents_def split: if_splits)
qed

lemma books_paid: "preserves books (markPaymentPaid x d)"
proof (rule preservesI)
  fix w assume b: "books w"
  show "books (snd (markPaymentPaid x d w))"
  proof (cases "findPayment x w")
    case None
    then show ?thesis using b by (simp add: markPaymentPaid_eq run_guarded)
  next
    case (Some p)
    show ?thesis
    proof (cases "transition_allowed (p_status p) P_PAID")
      case False
      then show ?thesis using b Some by (simp add: markPaymentPaid_eq run_guarded)
    next
      case True
      then have un: "\<not> captured (p_status p)" by (cases "p_status p") (simp_all add: transition_allowed_def)
      let ?w' = "snd (markPaymentPaid x d w)"
      have eq: "received_of (p\<lparr>p_status := P_PAID\<rparr>) d = received_of p d" by (simp add: received_of_def)
      have w': "payments ?w' = update_where (\<lambda>y. p_id y = x) (\<lambda>p. p\<lparr>p_status := P_PAID\<rparr>) (payments w)"
        "ledger ?w' = ledger w @ received_entries (received_of p d)"
        using Some True eq by (simp_all add: markPaymentPaid_eq run_guarded run_andDo recordPaymentReceived_def
            run_createEntries writeOutboxEvent_def)
      show ?thesis
        by (rule books_update[where f = "\<lambda>p. p\<lparr>p_status := P_PAID\<rparr>", OF b Some _ w'])
          (use findPayment_id[OF Some] received_entries_payment tied_paid[OF books_found[OF b Some] un w'(2)] in auto)
    qed
  qed
qed

text \<open>A refund of whole cents whose two parts stay inside what is left of the fare and of the fee.\<close>

definition refund_fits :: "payment_row \<Rightarrow> jsnum \<Rightarrow> bool" where
  "refund_fits p a \<longleftrightarrow> a = major (cents a) \<and> 0 \<le> cents a \<and> cents a \<le> 2 ^ 48 \<and>
     (let split = resolveRefundSplit (p_amountTotal p) (p_fareAmount p) a in
      cents (p_refundedFareAmount p) + cents (fareRefundAmount split) \<le> cents (p_fareAmount p) \<and>
      cents (p_refundedFeeAmount p) + cents (feeRefundAmount split) \<le> cents (p_platformFeeAmount p))"

lemma refund_split_whole:
  assumes "cents_row p" "0 \<le> cents a" "cents a \<le> 2 ^ 48"
  obtains c where "0 \<le> c" "c \<le> cents a"
    "resolveRefundSplit (p_amountTotal p) (p_fareAmount p) a = \<lparr>fareRefundAmount = major c, feeRefundAmount = major (cents a - c)\<rparr>"
    "cents a \<le> cents (p_amountTotal p) \<Longrightarrow> c \<le> cents (p_fareAmount p) \<and> cents a - c \<le> cents (p_platformFeeAmount p)"
proof -
  note f = cents_row_facts[OF assms(1)]
  let ?t = "cents (p_amountTotal p)" and ?f = "cents (p_fareAmount p)"
  show thesis
  proof (cases "cents a = 0")
    case True
    then show thesis using f by (intro that[of 0]) (simp_all add: resolveRefundSplit_def)
  next
    case False
    let ?c = "fare_refund_cents ?t ?f (cents a)"
    have ft: "?f \<le> ?t" "0 < ?t" using f by simp_all
    note b = fare_refund_bounds[OF assms(2,3) less_imp_le[OF f(1)] ft]
    have "cents a \<le> ?t \<Longrightarrow> ?c \<le> ?f \<and> cents a - ?c \<le> cents (p_platformFeeAmount p)"
      using fare_refund_parts[OF assms(2,3) less_imp_le[OF f(1)] ft] f(3) by simp
    then show thesis
      using b False assms(2) ft by (intro that[of ?c]) (simp_all add: resolveRefundSplit_def Let_def)
  qed
qed

lemma safe_centsI: "0 \<le> k \<Longrightarrow> k \<le> 2 ^ 48 \<Longrightarrow> safe_cents k"
  by simp

lemma first_refund_fits:
  assumes "cents_row p" "cents (p_refundedFareAmount p) = 0" "cents (p_refundedFeeAmount p) = 0"
    and "a = major (cents a)" "0 \<le> cents a" "cents a \<le> cents (p_amountTotal p)"
  shows "refund_fits p a"
proof -
  note f = cents_row_facts[OF assms(1)]
  have le: "cents a \<le> 2 ^ 48" using assms(6) f by linarith
  obtain c where c: "0 \<le> c" "c \<le> cents a"
    "resolveRefundSplit (p_amountTotal p) (p_fareAmount p) a = \<lparr>fareRefundAmount = major c, feeRefundAmount = major (cents a - c)\<rparr>"
    "c \<le> cents (p_fareAmount p) \<and> cents a - c \<le> cents (p_platformFeeAmount p)"
    using refund_split_whole[OF assms(1,5) le] assms(6) by metis
  then show ?thesis using assms(2-5) le by (simp add: refund_fits_def Let_def)
qed

text \<open>The row and the ledger entries of a refund that fits.\<close>

lemma refund_effect:
  assumes c: "cents_row p" and fit: "refund_fits p a"
  obtains k where "0 \<le> k" "k \<le> cents a" "cents a \<le> 2 ^ 48"
    "rp_split (refund_plan_of p a) = \<lparr>fareRefundAmount = major k, feeRefundAmount = major (cents a - k)\<rparr>"
    "cents (p_refundedFareAmount p) + k \<le> cents (p_fareAmount p)"
    "cents (p_refundedFeeAmount p) + (cents a - k) \<le> cents (p_platformFeeAmount p)"
    "rp_refundedFare (refund_plan_of p a) = major (cents (p_refundedFareAmount p) + k)"
    "rp_refundedFee (refund_plan_of p a) = major (cents (p_refundedFeeAmount p) + (cents a - k))"
    "rp_nextStatus (refund_plan_of p a) =
       (if cents (p_refundedFareAmount p) + k < cents (p_fareAmount p) then P_PAYOUT_ELIGIBLE else P_REFUNDED)"
proof -
  note f = cents_row_facts[OF c]
  have a: "0 \<le> cents a" "cents a \<le> 2 ^ 48" using fit by (simp_all add: refund_fits_def)
  obtain k where k: "0 \<le> k" "k \<le> cents a"
    "resolveRefundSplit (p_amountTotal p) (p_fareAmount p) a = \<lparr>fareRefundAmount = major k, feeRefundAmount = major (cents a - k)\<rparr>"
    using refund_split_whole[OF c a] by metis
  have s: "safe_cents k" "safe_cents (cents a - k)" using k a by simp_all
  have fits: "cents (p_refundedFareAmount p) + k \<le> cents (p_fareAmount p)"
    "cents (p_refundedFeeAmount p) + (cents a - k) \<le> cents (p_platformFeeAmount p)"
    using fit k(3) s by (simp_all add: refund_fits_def Let_def)
  show thesis
    by (rule that[of k]) (use k a s fits f(3) in \<open>auto simp: refund_plan_of_def Let_def min_def\<close>)
qed

lemma cents_row_refund:
  assumes c: "cents_row p" and fit: "refund_fits p a"
  shows "cents_row (apply_refund now (refund_plan_of p a) p)"
proof -
  obtain k where k: "0 \<le> k" "k \<le> cents a" "cents a \<le> 2 ^ 48"
    "cents (p_refundedFareAmount p) + k \<le> cents (p_fareAmount p)"
    "cents (p_refundedFeeAmount p) + (cents a - k) \<le> cents (p_platformFeeAmount p)"
    "rp_refundedFare (refund_plan_of p a) = major (cents (p_refundedFareAmount p) + k)"
    "rp_refundedFee (refund_plan_of p a) = major (cents (p_refundedFeeAmount p) + (cents a - k))"
    by (rule refund_effect[OF c fit])
  note f = cents_row_facts[OF c]
  have r: "0 \<le> cents (p_refundedFareAmount p)" "0 \<le> cents (p_refundedFeeAmount p)" using c by (simp_all add: cents_row_def)
  have "safe_cents (cents (p_refundedFareAmount p) + k)" "safe_cents (cents (p_refundedFeeAmount p) + (cents a - k))"
    using k f r by (intro safe_centsI; linarith)+
  then show ?thesis using c k r by (simp add: cents_row_def apply_refund_def)
qed

lemma tied_refund:
  assumes t: "tied w p" and s: "captured (p_status p)" and fit: "refund_fits p a"
    and w': "ledger w' = ledger w @ refund_entries (refund_of p d a)"
  shows "tied w' (apply_refund now (refund_plan_of p a) p)"
proof -
  have c: "cents_row p" using t by (simp add: tied_def)
  obtain k where k: "0 \<le> k" "k \<le> cents a" "cents a \<le> 2 ^ 48"
    "rp_split (refund_plan_of p a) = \<lparr>fareRefundAmount = major k, feeRefundAmount = major (cents a - k)\<rparr>"
    "cents (p_refundedFareAmount p) + k \<le> cents (p_fareAmount p)"
    "cents (p_refundedFeeAmount p) + (cents a - k) \<le> cents (p_platformFeeAmount p)"
    "rp_refundedFare (refund_plan_of p a) = major (cents (p_refundedFareAmount p) + k)"
    "rp_refundedFee (refund_plan_of p a) = major (cents (p_refundedFeeAmount p) + (cents a - k))"
    "rp_nextStatus (refund_plan_of p a) =
       (if cents (p_refundedFareAmount p) + k < cents (p_fareAmount p) then P_PAYOUT_ELIGIBLE else P_REFUNDED)"
    by (rule refund_effect[OF c fit])
  note f = cents_row_facts[OF c]
  have r: "0 \<le> cents (p_refundedFareAmount p)" "0 \<le> cents (p_refundedFeeAmount p)" using c by (simp_all add: cents_row_def)
  have safe: "safe_cents (cents (p_refundedFareAmount p) + k)" "safe_cents (cents (p_refundedFeeAmount p) + (cents a - k))"
    "safe_cents k" "safe_cents (cents a - k)"
    using k(1-3,5,6) f r by (intro safe_centsI; linarith)+
  have b: "book q (p_id p) w' = book q (p_id p) w +
      sum_where (\<lambda>l. l_paymentId l = p_id p \<and> q l) signed_cents (refund_entries (refund_of p d a))" for q
    using w' by (simp add: book_def)
  have old: "book (\<lambda>l. rider_entry l) (p_id p) w =
          cents (p_refundedFareAmount p) + cents (p_refundedFeeAmount p) - cents (p_fareAmount p) - cents (p_platformFeeAmount p)"
    "book (\<lambda>l. liability_entry l) (p_id p) w = cents (p_fareAmount p) - cents (p_refundedFareAmount p)"
    "book (\<lambda>l. fee_entry l) (p_id p) w = cents (p_platformFeeAmount p) - cents (p_refundedFeeAmount p)"
    using t s by (simp_all add: tied_def)
  have "captured (rp_nextStatus (refund_plan_of p a))" using k(9) by simp
  then show ?thesis
    using cents_row_refund[OF c fit] k(1,2) safe
    by (simp add: tied_def b old apply_refund_def k(4,7,8) refund_entries_def refund_of_def Let_def signed_cents_def)
qed

lemma books_refunded:
  assumes b: "books w" and fit: "\<And>p. findPayment x w = Some p \<Longrightarrow>
    refund_fits p (case a of None \<Rightarrow> p_amountTotal p | Some v \<Rightarrow> v)"
  shows "books (snd (markRefunded now x d a w))"
proof (cases "findPayment x w")
  case None
  then show ?thesis using b by (simp add: run_markRefunded)
next
  case (Some p)
  define v where "v = (case a of None \<Rightarrow> p_amountTotal p | Some v \<Rightarrow> v)"
  show ?thesis
  proof (cases "p_status p \<noteq> P_REFUNDED \<and> refundable (p_status p)")
    case False
    then show ?thesis using b Some by (auto simp: run_markRefunded)
  next
    case True
    then have cap: "captured (p_status p)" by (cases "p_status p") (simp_all add: transition_allowed_def)
    let ?w' = "snd (markRefunded now x d a w)"
    have w': "payments ?w' = update_where (\<lambda>y. p_id y = x) (apply_refund now (refund_plan_of p v)) (payments w)"
      "ledger ?w' = ledger w @ refund_entries (refund_of p d v)"
      using Some True by (simp_all add: run_markRefunded Let_def v_def)
    have fitv: "refund_fits p v" using fit[OF Some] by (simp add: v_def)
    show ?thesis
      by (rule books_update[where f = "apply_refund now (refund_plan_of p v)", OF b Some _ w'])
        (use findPayment_id[OF Some] refund_entries_payment tied_refund[OF books_found[OF b Some] cap fitv w'(2)]
          in \<open>auto simp: apply_refund_def\<close>)
  qed
qed

subsection \<open>Properties of refunds and of the books\<close>

lemma netFareAmount_cents: "cents_row p \<Longrightarrow> cents (netFareAmount p) = cents (p_fareAmount p) - cents (p_refundedFareAmount p)"
  and netPlatformFeeAmount_cents:
    "cents_row p \<Longrightarrow> cents (netPlatformFeeAmount p) = cents (p_platformFeeAmount p) - cents (p_refundedFeeAmount p)"
proof -
  assume c: "cents_row p"
  note f = cents_row_facts[OF c]
  have b: "cents (p_fareAmount p) \<le> 2 ^ 48" "cents (p_platformFeeAmount p) \<le> 2 ^ 48" using f by linarith+
  have r: "0 \<le> cents (p_refundedFareAmount p)" "cents (p_refundedFareAmount p) \<le> cents (p_fareAmount p)"
    "0 \<le> cents (p_refundedFeeAmount p)" "cents (p_refundedFeeAmount p) \<le> cents (p_platformFeeAmount p)"
    using c by (simp_all add: cents_row_def)
  have "cents (js_sub (p_fareAmount p) (p_refundedFareAmount p)) =
      cents (js_sub (major (cents (p_fareAmount p))) (major (cents (p_refundedFareAmount p))))"
    and "cents (js_sub (p_platformFeeAmount p) (p_refundedFeeAmount p)) =
      cents (js_sub (major (cents (p_platformFeeAmount p))) (major (cents (p_refundedFeeAmount p))))"
    using c unfolding cents_row_def by metis+
  then have "cents (js_sub (p_fareAmount p) (p_refundedFareAmount p)) = cents (p_fareAmount p) - cents (p_refundedFareAmount p)"
    and "cents (js_sub (p_platformFeeAmount p) (p_refundedFeeAmount p)) = cents (p_platformFeeAmount p) - cents (p_refundedFeeAmount p)"
    using cents_js_sub_major b r f(1,2) by auto
  then show "cents (netFareAmount p) = cents (p_fareAmount p) - cents (p_refundedFareAmount p)"
    and "cents (netPlatformFeeAmount p) = cents (p_platformFeeAmount p) - cents (p_refundedFeeAmount p)"
    using b r f unfolding netFareAmount_def netPlatformFeeAmount_def by simp_all
qed

definition fits_at :: "world \<Rightarrow> ident \<Rightarrow> jsnum option \<Rightarrow> bool" where
  "fits_at w x a =
     (case findPayment x w of None \<Rightarrow> True | Some p \<Rightarrow> refund_fits p (case a of None \<Rightarrow> p_amountTotal p | Some v \<Rightarrow> v))"

fun call_fits :: "world \<Rightarrow> payment_call \<Rightarrow> bool" where
  "call_fits w (Call_Refunded x d a) = fits_at w x a"
| "call_fits w (Call_BookingRefunded b d a) =
     (case findPaymentByBooking b w of None \<Rightarrow> True
      | Some q \<Rightarrow> fits_at w (p_id q) a)"
| "call_fits w _ = True"

lemma books_fits: "books w \<Longrightarrow> fits_at w x a \<Longrightarrow> books (snd (markRefunded now x d a w))"
  by (rule books_refunded) (simp_all add: fits_at_def)

lemma books_service:
  assumes "books w" and "call_fits w c"
  shows "books (snd (payment_service now c w))"
proof (cases c)
  case (Call_Refunded x d a)
  with books_fits assms show ?thesis by simp
next
  case (Call_BookingRefunded b d a)
  with books_fits assms show ?thesis
    by (cases "findPaymentByBooking b w") (simp_all add: markBookingPaymentRefunded_def run_andThen[of "gets _"])
next
  case (Call_BookingPaid b d)
  have "preserves books (payment_service now c)"
    unfolding Call_BookingPaid
    by (auto intro!: hoare_intros books_guarded_helpers books_paid simp: markBookingPaymentPaid_def)
  then show ?thesis using assms(1) by (rule preservesD)
qed (auto intro!: preservesD[where I = books, OF _ assms(1)] hoare_intros books_guarded_helpers books_paid)


text \<open>
  C14. The rows and the ledger stay in agreement: every payment helper, on success and on failure,
  keeps the rider's account of each payment at the charge less the refunds, the driver's liability at
  the fare less its refunds and the platform at the fee less its refunds. A refund must be of whole cents, and the fare part
  and the fee part it is split into must each stay within what is left of the fare and of the fee (\<open>call_fits\<close>). A first
  refund always does; a later one within what is left of the charge can miss by the rounding of the split, and then the
  agreement is lost (\<open>repeated_refunds_drift\<close>).
\<close>

theorem payment_calls_keep_books:
  assumes "books w" and "call_fits w c"
  shows "books (snd (payment_service now c w))"
  by (rule books_service[OF assms])

lemma book_simps: "book q x w = sum_where (\<lambda>l. l_paymentId l = x \<and> q l) signed_cents (ledger w)"
  by (simp add: book_def)

lemma paid_world_books: "books paid_world"
  by (simp add: books_def paid_world_def sample_payment_def tied_def cents_row_def book_def received_entries_def
      received_of_def signed_cents_def)

lemma sample_first_refund: "refund_fits (sample_payment\<lparr>p_status := P_HELD_IN_ESCROW\<rparr>) (major 510)"
  by (rule first_refund_fits) (simp_all add: sample_payment_def cents_row_def)

theorem payment_calls_keep_books_witness:
  "books (snd (payment_service 7 (Call_Refunded ''p1'' ''d1'' (Some (major 510))) paid_world))"
  by (rule payment_calls_keep_books[OF paid_world_books])
    (use sample_first_refund in \<open>simp add: fits_at_def findPayment_def paid_world_def sample_payment_def\<close>)

text \<open>
  C17. A first refund of a captured payment, for any whole number of cents up to the charge: it is
  accepted unless a transfer has started, what the driver and the platform are still due plus the refund
  is the charge to the cent, the driver's liability in the ledger is what payout will pay, and the
  payment ends \<open>REFUNDED\<close> exactly when no fare is left (always for a full refund), else it becomes
  payable again.
\<close>

theorem first_refund_outcome:
  assumes "books w" and "findPayment x w = Some p" and "captured (p_status p)" and "p_status p \<noteq> P_REFUNDED"
    and "cents (p_refundedFareAmount p) = 0" and "cents (p_refundedFeeAmount p) = 0"
    and "0 \<le> r" and "r \<le> cents (p_amountTotal p)"
  shows "case markRefunded now x d (Some (major r)) w of
      (Inl e, w') \<Rightarrow> w' = w \<and> p_status p \<in> {P_TRANSFER_CREATED, P_PAYOUT_COMPLETED}
    | (Inr p', w') \<Rightarrow> p_status p \<notin> {P_TRANSFER_CREATED, P_PAYOUT_COMPLETED} \<and> books w' \<and>
        findPayment x w' = Some p' \<and>
        cents (netFareAmount p') + cents (netPlatformFeeAmount p') + r = cents (p_amountTotal p) \<and>
        book (\<lambda>l. liability_entry l) x w' = cents (netFareAmount p') \<and>
        p_status p' = (if cents (netFareAmount p') = 0 then P_REFUNDED else P_PAYOUT_ELIGIBLE) \<and>
        (r = cents (p_amountTotal p) \<longrightarrow> p_status p' = P_REFUNDED)"
proof (cases "refundable (p_status p)")
  case False
  then have "p_status p \<in> {P_TRANSFER_CREATED, P_PAYOUT_COMPLETED}"
    using assms(3,4) by (cases "p_status p") (simp_all add: transition_allowed_def)
  then show ?thesis using assms(2,4) False by (simp add: run_markRefunded)
next
  case True
  have t: "tied w p" by (rule books_found[OF assms(1,2)])
  then have c: "cents_row p" by (simp add: tied_def)
  note f = cents_row_facts[OF c]
  have safe: "cents (major r) = r" using assms(7,8) f by (intro cents_major) simp
  have fit: "refund_fits p (major r)" using first_refund_fits[OF c assms(5,6)] assms(7,8) safe by simp
  let ?p' = "apply_refund now (refund_plan_of p (major r)) p"
  define w' where "w' = snd (markRefunded now x d (Some (major r)) w)"
  have b': "books w'" unfolding w'_def by (rule books_refunded[OF assms(1)]) (use assms(2) fit in simp)
  have run: "markRefunded now x d (Some (major r)) w = (Inr ?p', w')"
    and p': "payments w' = update_where (\<lambda>y. p_id y = x) (apply_refund now (refund_plan_of p (major r))) (payments w)"
    using assms(2,4) True by (simp_all add: w'_def run_markRefunded Let_def)
  have found: "findPayment x w' = Some ?p'"
    using findPayment_update[where f = "apply_refund now (refund_plan_of p (major r))" and x = x and w = w] assms(2) p'
    by (simp add: findPayment_def apply_refund_def)
  obtain k where k: "0 \<le> k" "k \<le> r" "k \<le> cents (p_fareAmount p)" "r - k \<le> cents (p_platformFeeAmount p)"
    "rp_refundedFare (refund_plan_of p (major r)) = major k" "rp_refundedFee (refund_plan_of p (major r)) = major (r - k)"
    "rp_nextStatus (refund_plan_of p (major r)) = (if k < cents (p_fareAmount p) then P_PAYOUT_ELIGIBLE else P_REFUNDED)"
    by (rule refund_effect[OF c fit, unfolded assms(5,6) safe]) simp
  have ks: "safe_cents k" "safe_cents (r - k)" using k f by (intro safe_centsI; linarith)+
  have c': "cents_row ?p'" by (rule cents_row_refund[OF c fit])
  have net: "cents (netFareAmount ?p') = cents (p_fareAmount p) - k"
    "cents (netPlatformFeeAmount ?p') = cents (p_platformFeeAmount p) - (r - k)"
    using netFareAmount_cents[OF c'] netPlatformFeeAmount_cents[OF c'] k(5,6) ks by (simp_all add: apply_refund_def)
  have "tied w' ?p'" by (rule books_found[OF b' found])
  moreover have "captured (p_status ?p')" using k(7) by (simp add: apply_refund_def)
  ultimately have "book (\<lambda>l. liability_entry l) (p_id ?p') w' = cents (p_fareAmount ?p') - cents (p_refundedFareAmount ?p')"
    unfolding tied_def by metis
  then have bk: "book (\<lambda>l. liability_entry l) x w' = cents (netFareAmount ?p')"
    using net k(5) ks findPayment_id[OF assms(2)] by (simp add: apply_refund_def)
  have full: "r = cents (p_amountTotal p) \<longrightarrow> k = cents (p_fareAmount p)" using k(3,4) f(3) by linarith
  have nt: "p_status p \<notin> {P_TRANSFER_CREATED, P_PAYOUT_COMPLETED}" using True by (auto simp: transition_allowed_def)
  show ?thesis
    using b' found net bk full k(3,7) f(3) nt by (simp add: run apply_refund_def)
qed

theorem first_refund_outcome_witness:
  "case markRefunded 7 ''p1'' ''d1'' (Some (major 510)) paid_world of (Inl e, w') \<Rightarrow> False
   | (Inr p', w') \<Rightarrow> cents (netFareAmount p') + cents (netPlatformFeeAmount p') + 510 = 1020"
  using first_refund_outcome[OF paid_world_books, of "''p1''" "sample_payment\<lparr>p_status := P_HELD_IN_ESCROW\<rparr>" 510 7 "''d1''"]
  by (simp add: findPayment_def paid_world_def sample_payment_def split: prod.splits sum.splits)

lemma third_of_sample: "fare_refund_cents 1020 1000 340 = 333"
proof -
  have m: "js_mul 340 1000 = 340000"
    using js.fl_int[of 340000] by (simp add: js_mul_def)
  have "\<bar>fl64 (340000 / 1020) - 340000 / 1020\<bar> \<le> 1 / 100"
    using fl64_relative_error[of "340000 / 1020"] by simp
  moreover have "\<lfloor>y + 1 / 2\<rfloor> = 333" if "\<bar>y - 340000 / 1020\<bar> \<le> 1 / 100" for y :: rat
    using that by (intro floor_unique; simp; linarith)
  ultimately have "\<lfloor>fl64 (340000 / 1020) + 1 / 2\<rfloor> = 333" by blast
  then show ?thesis by (simp add: fare_refund_cents_def m js_div_def js_round_def)
qed

text \<open>
  Several partial refunds of one payment are each apportioned on their own, and the roundings add
  up: three refunds of a third of a 10.20 charge (10.00 fare, 0.20 fee) close the payment as
  \<open>REFUNDED\<close>, with the row showing 9.99 of the fare and, clamped, 0.20 of the fee refunded, while the
  ledger still owes the driver one cent and has taken one cent too many from the platform.
\<close>

theorem repeated_refunds_drift:
  "let w' = run_calls (payment_service 7) (replicate 3 (Call_Refunded ''p1'' ''d1'' (Some (major 340)))) paid_world
   in map p_status (payments w') = [P_REFUNDED] \<and>
      map p_refundedFareAmount (payments w') = [major 999] \<and> map p_refundedFeeAmount (payments w') = [major 20] \<and>
      book (\<lambda>l. liability_entry l) ''p1'' w' = 1 \<and> book (\<lambda>l. fee_entry l) ''p1'' w' = - 1"
proof -
  have split: "resolveRefundSplit (major 1020) (major 1000) (major 340) = \<lparr>fareRefundAmount = major 333, feeRefundAmount = major 7\<rparr>"
    using resolveRefundSplit_cents[of 340 1000 1020] third_of_sample by simp
  show ?thesis
    by (simp add: numeral_3_eq_3 run_markRefunded findPayment_def paid_world_def sample_payment_def transition_allowed_def
        refund_plan_of_def apply_refund_def split Let_def book_def refund_entries_def refund_of_def received_entries_def
        received_of_def signed_cents_def)
qed

text \<open>
  Confirming the payment of a booking twice records it once: after \<open>markBookingPaymentPaid\<close>
  succeeded for a payment that was still open, a second call succeeds and changes nothing, so the
  ledger credits the driver and the platform once and one event is queued.
\<close>

theorem markBookingPaymentPaid_idempotent:
  assumes "distinct (map p_id (payments w))" and "findPaymentByBooking b w = Some p"
    and "p_status p \<in> {P_CREATED, P_PAYMENT_PENDING}"
    and "w1 = snd (markBookingPaymentPaid b d w)"
  shows "fst (markBookingPaymentPaid b d w) = Inr (Some (p\<lparr>p_status := P_PAID\<rparr>)) \<and>
    ledger w1 = ledger w @ received_entries (received_of p d) \<and> length (outbox w1) = length (outbox w) + 1 \<and>
    markBookingPaymentPaid b d w1 = (Inr (Some (p\<lparr>p_status := P_PAID\<rparr>)), w1)"
proof -
  have mem: "p \<in> set (payments w)" "p_bookingId p = b"
    using find_Some_mem assms(2) unfolding findPaymentByBooking_def by fast+
  have fp: "findPayment (p_id p) w = Some p"
    unfolding findPayment_def by (rule find_key_unique[OF assms(1) mem(1)])
  let ?pend = "w\<lparr>payments := update_where (\<lambda>y. p_id y = p_id p) (\<lambda>p. p\<lparr>p_status := P_PAYMENT_PENDING\<rparr>) (payments w)\<rparr>"
  have fq: "findPayment (p_id p) ?pend = Some (p\<lparr>p_status := P_PAYMENT_PENDING\<rparr>)"
    using findPayment_update[where f = "\<lambda>p. p\<lparr>p_status := P_PAYMENT_PENDING\<rparr>" and x = "p_id p" and w = w] fp by simp
  have rec: "received_of (p\<lparr>p_status := s\<rparr>) d = received_of p d" for s by (simp add: received_of_def)
  have run: "markBookingPaymentPaid b d w = (Inr (Some (p\<lparr>p_status := P_PAID\<rparr>)), w1) \<and>
      payments w1 = update_where (\<lambda>y. p_id y = p_id p) (\<lambda>p. p\<lparr>p_status := P_PAID\<rparr>) (payments w) \<and>
      ledger w1 = ledger w @ received_entries (received_of p d) \<and> length (outbox w1) = length (outbox w) + 1"
  proof (cases "p_status p = P_CREATED")
    case True
    then show ?thesis
      using assms(2,4) fp fq
      by (simp add: markBookingPaymentPaid_def run_andThen run_andDo guarded_helpers[folded guarded_def] run_guarded
          transition_allowed_def markPaymentPaid_eq recordPaymentReceived_def run_createEntries writeOutboxEvent_def
          update_where_twice rec)
  next
    case False
    then have "p_status p = P_PAYMENT_PENDING" using assms(3) by simp
    then show ?thesis
      using assms(2,4) fp
      by (simp add: markBookingPaymentPaid_def run_andThen run_andDo run_guarded
          transition_allowed_def markPaymentPaid_eq recordPaymentReceived_def run_createEntries writeOutboxEvent_def rec)
  qed
  have "findPaymentByBooking b w1 = Some (p\<lparr>p_status := P_PAID\<rparr>)"
    using assms(2) find_update_where[of "\<lambda>y. p_id y = p_id p" p_bookingId "\<lambda>p. p\<lparr>p_status := P_PAID\<rparr>" b "payments w"] run
    by (simp add: findPaymentByBooking_def)
  then show ?thesis using run by (simp add: markBookingPaymentPaid_def run_andThen)
qed

theorem markBookingPaymentPaid_idempotent_witness:
  "let w = sample_world\<lparr>payments := [sample_payment]\<rparr>; w1 = snd (markBookingPaymentPaid ''b1'' ''d1'' w)
   in markBookingPaymentPaid ''b1'' ''d1'' w1 = (Inr (Some (sample_payment\<lparr>p_status := P_PAID\<rparr>)), w1)"
proof -
  have "findPaymentByBooking ''b1'' (sample_world\<lparr>payments := [sample_payment]\<rparr>) = Some sample_payment"
    "p_status sample_payment \<in> {P_CREATED, P_PAYMENT_PENDING}"
    by (simp_all add: findPaymentByBooking_def sample_payment_def)
  then show ?thesis
    using markBookingPaymentPaid_idempotent[where w = "sample_world\<lparr>payments := [sample_payment]\<rparr>" and d = "''d1''", OF _ _ _ refl]
    by (simp add: Let_def)
qed

end
