(* ===== verification/Payout.thy ===== *)
theory Payout
  imports Payments
begin

text \<open>
  Paying drivers: the outbox worker that moves captured payments to escrow
  (\<open>src/src/modules/payments/payment-outbox.worker.ts\<close>), the eligibility sweep and the payout of a
  driver (\<open>src/src/modules/payout/payout.service.ts\<close>), and the ledger check of the daily
  reconciliation (\<open>src/src/modules/reconciliation/reconciliation.service.ts\<close>). The environment
  parameters \<open>eligibility_delay\<close>, \<open>mock_mode\<close> and the driver's Stripe account are arguments.
\<close>

subsection \<open>The outbox\<close>

definition MAX_RETRIES :: int where "MAX_RETRIES = 5"
definition RETRY_DELAY_MS :: int where "RETRY_DELAY_MS = 60000"

definition updateOutbox :: "nat \<Rightarrow> (outbox_row \<Rightarrow> outbox_row) \<Rightarrow> (world, unit) op" where
  "updateOutbox x f = modify (\<lambda>w. w\<lparr>outbox := update_where (\<lambda>e. o_id e = x) f (outbox w)\<rparr>)"

text \<open>The table of handlers; \<open>payload.paymentId\<close> missing makes \<open>markHeldInEscrow\<close> fail.\<close>

definition outbox_handler :: "time \<Rightarrow> string \<Rightarrow> (ident option \<Rightarrow> (world, unit) op) option" where
  "outbox_handler now eventType =
     (if eventType = ''payment.paid'' then
        Some (\<lambda>payload. case payload of None \<Rightarrow> throw RECORD_NOT_FOUND
                        | Some x \<Rightarrow> andDo (markHeldInEscrow x) (ret ()))
      else if eventType = ''booking.completed'' then
        Some (\<lambda>payload. case payload of None \<Rightarrow> ret ()
                        | Some x \<Rightarrow> andDo (markPayoutEligible now x) (ret ()))
      else None)"

definition dueEvents :: "time \<Rightarrow> nat \<Rightarrow> world \<Rightarrow> outbox_row list" where
  "dueEvents now batchSize w =
     take batchSize (filter (\<lambda>e. o_status e = OUTBOX_PENDING \<and>
       (case o_nextRetryAt e of None \<Rightarrow> True | Some t \<Rightarrow> t \<le> now)) (outbox w))"

datatype event_result = Processed | Failed | Retrying

definition processOutboxEvent :: "time \<Rightarrow> outbox_row \<Rightarrow> (world, event_result) op" where
  "processOutboxEvent now event =
     andDo (updateOutbox (o_id event) (\<lambda>e. e\<lparr>o_status := OUTBOX_PROCESSING\<rparr>))
     (case outbox_handler now (o_eventType event) of
        None \<Rightarrow> andDo (updateOutbox (o_id event) (\<lambda>e. e\<lparr>o_status := OUTBOX_FAILED, o_processedAt := Some now\<rparr>)) (ret Failed)
      | Some handler \<Rightarrow>
          tryCatch
            (andDo (handler (o_paymentId event))
              (andDo (updateOutbox (o_id event) (\<lambda>e. e\<lparr>o_status := OUTBOX_PROCESSED, o_processedAt := Some now\<rparr>)) (ret Processed)))
            (\<lambda>_. let newRetryCount = o_retryCount event + 1 in
               if newRetryCount \<ge> MAX_RETRIES then
                 andDo (updateOutbox (o_id event) (\<lambda>e. e\<lparr>o_status := OUTBOX_FAILED, o_retryCount := newRetryCount, o_processedAt := Some now\<rparr>)) (ret Failed)
               else
                 andDo (updateOutbox (o_id event) (\<lambda>e. e\<lparr>o_status := OUTBOX_PENDING, o_retryCount := newRetryCount,
                   o_nextRetryAt := Some (now + RETRY_DELAY_MS * 2 ^ nat newRetryCount)\<rparr>)) (ret Retrying)))"

record outbox_summary =
  os_processed :: nat
  os_failed :: nat
  os_total :: nat

fun processEvents :: "time \<Rightarrow> outbox_row list \<Rightarrow> (world, nat \<times> nat) op" where
  "processEvents now [] = ret (0, 0)"
| "processEvents now (e # es) =
     andThen (processOutboxEvent now e) (\<lambda>r.
     andThen (processEvents now es) (\<lambda>(p, f).
       ret ((if r = Processed then 1 else 0) + p, (if r = Failed then 1 else 0) + f)))"

definition processOutboxEvents :: "time \<Rightarrow> nat \<Rightarrow> (world, outbox_summary) op" where
  "processOutboxEvents now batchSize =
     andThen (gets (dueEvents now batchSize)) (\<lambda>events.
     andThen (processEvents now events) (\<lambda>(p, f).
       ret \<lparr>os_processed = p, os_failed = f, os_total = length events\<rparr>))"

subsection \<open>Eligibility\<close>

fun open_dispute :: "dispute_status \<Rightarrow> bool" where
  "open_dispute DISPUTE_OPEN = True"
| "open_dispute EVIDENCE_COLLECTED = True"
| "open_dispute NEEDS_MANUAL_REVIEW = True"
| "open_dispute WAITING_FOR_USER_RESPONSE = True"
| "open_dispute ESCALATED = True"
| "open_dispute _ = False"

definition hasOpenDisputeForBooking :: "ident \<Rightarrow> world \<Rightarrow> bool" where
  "hasOpenDisputeForBooking bookingId w \<longleftrightarrow>
     count_where (\<lambda>d. d_bookingId d = bookingId \<and> open_dispute (d_status d)) (disputes w) > 0"

definition eligible_for_release :: "time \<Rightarrow> world \<Rightarrow> payment_row \<Rightarrow> bool" where
  "eligible_for_release cutoff w p \<longleftrightarrow> p_status p = P_HELD_IN_ESCROW \<and>
     (case findBooking (p_bookingId p) w of None \<Rightarrow> False
      | Some b \<Rightarrow> \<not> hasOpenDisputeForBooking (b_id b) w \<and> b_status b = COMPLETED \<and>
          (case b_completedAt b of None \<Rightarrow> False | Some t \<Rightarrow> t < cutoff))"

definition checkAndMarkEligible :: "int \<Rightarrow> time \<Rightarrow> (world, nat) op" where
  "checkAndMarkEligible delayMinutes now =
     andThen (processOutboxEvents now 50) (\<lambda>_.
     let cutoff = now - delayMinutes * 60 * 1000 in
     andThen (gets (\<lambda>w. filter (eligible_for_release cutoff w) (payments w))) (\<lambda>eligible.
     andDo (forEach eligible (\<lambda>payment. updatePayment (p_id payment)
       (\<lambda>p. p\<lparr>p_status := P_PAYOUT_ELIGIBLE, p_payoutEligibleAt := Some now\<rparr>)))
     (ret (length eligible))))"

subsection \<open>Payout of a driver\<close>

definition driver_of_payment :: "world \<Rightarrow> payment_row \<Rightarrow> ident option" where
  "driver_of_payment w p = (case findBooking (p_bookingId p) w of None \<Rightarrow> None
     | Some b \<Rightarrow> map_option r_driverId (findRide (b_rideId b) w))"

definition payable :: "ident \<Rightarrow> world \<Rightarrow> payment_row \<Rightarrow> bool" where
  "payable driverId w p \<longleftrightarrow> p_status p = P_PAYOUT_ELIGIBLE \<and> driver_of_payment w p = Some driverId \<and>
     \<not> hasOpenDisputeForBooking (p_bookingId p) w"

datatype payout_result =
    NO_ELIGIBLE_PAYMENTS | NO_STRIPE_ACCOUNT | STRIPE_ONBOARDING_INCOMPLETE
  | PAID_OUT ident jsnum | PAYOUT_FAILED ident

record payout_env =
  pe_mock :: bool
  pe_account :: "ident \<Rightarrow> (ident option \<times> bool) option"
  pe_transfer :: "ident \<Rightarrow> int \<Rightarrow> ident option"
  pe_batchId :: ident

definition payout_total :: "payment_row list \<Rightarrow> jsnum" where
  "payout_total ps = major (sum_list (map (\<lambda>p. cents (netFareAmount p)) ps))"

definition updateBatch :: "ident \<Rightarrow> (batch_row \<Rightarrow> batch_row) \<Rightarrow> (world, unit) op" where
  "updateBatch x f = modify (\<lambda>w. w\<lparr>batches := update_where (\<lambda>b. pb_id b = x) f (batches w)\<rparr>)"

definition set_items :: "payout_status \<Rightarrow> batch_row \<Rightarrow> batch_row" where
  "set_items s b = b\<lparr>pb_items := map (\<lambda>i. i\<lparr>pi_status := s\<rparr>) (pb_items b)\<rparr>"

text \<open>What follows a transfer, real or mocked; \<open>transferId\<close> is recorded on the batch.\<close>

definition settle_batch :: "ident \<Rightarrow> ident \<Rightarrow> ident \<Rightarrow> payment_row list \<Rightarrow> (world, unit) op" where
  "settle_batch driverId batchId transferId ps =
     andDo (forEach ps (\<lambda>p. andDo (markTransferCreated (p_id p)) (ret ())))
    (andDo (forEach ps (\<lambda>p. recordTransfer (p_id p) (p_bookingId p) driverId (netFareAmount p) (p_currency p)))
    (andDo (updateBatch batchId (\<lambda>b. b\<lparr>pb_status := PO_COMPLETED, pb_stripeTransferId := Some transferId\<rparr>))
    (andDo (forEach ps (\<lambda>p. andDo (markPayoutCompleted (p_id p)) (ret ())))
      (updateBatch batchId (set_items PO_COMPLETED)))))"

text \<open>The \<open>catch\<close> block: the batch fails and every payment gets a reversal.\<close>

definition fail_batch :: "ident \<Rightarrow> ident \<Rightarrow> payment_row list \<Rightarrow> (world, payout_result) op" where
  "fail_batch driverId batchId ps =
     andDo (updateBatch batchId (\<lambda>b. b\<lparr>pb_status := PO_FAILED\<rparr>))
    (andDo (updateBatch batchId (set_items PO_FAILED))
    (andDo (forEach ps (\<lambda>p. bestEffort (recordPayoutFailureReversal (p_id p) (p_bookingId p) driverId (netFareAmount p) (p_currency p))))
      (ret (PAYOUT_FAILED batchId))))"

definition mock_transfer_id :: "ident \<Rightarrow> ident" where "mock_transfer_id batchId = ''tr_mock_'' @ batchId"

definition processDriverPayout :: "payout_env \<Rightarrow> ident \<Rightarrow> (world, payout_result) op" where
  "processDriverPayout env driverId =
     andThen (gets (\<lambda>w. filter (payable driverId w) (payments w))) (\<lambda>ps.
     case ps of [] \<Rightarrow> ret NO_ELIGIBLE_PAYMENTS
     | first # _ \<Rightarrow>
       let currency = p_currency first; totalAmount = payout_total ps; batchId = pe_batchId env;
           stripeAccount = (case pe_account env driverId of None \<Rightarrow> None | Some (a, _) \<Rightarrow> a);
           onboarded = (case pe_account env driverId of None \<Rightarrow> False | Some (_, ob) \<Rightarrow> ob)
       in if \<not> pe_mock env \<and> stripeAccount = None then ret NO_STRIPE_ACCOUNT
       else if \<not> pe_mock env \<and> \<not> onboarded then ret STRIPE_ONBOARDING_INCOMPLETE
       else
         andDo (modify (\<lambda>w. w\<lparr>batches := batches w @ [\<lparr>pb_id = batchId, pb_driverId = driverId, pb_currency = currency,
             pb_amountTotal = totalAmount, pb_status = PO_PROCESSING, pb_stripeTransferId = None,
             pb_items = map (\<lambda>p. \<lparr>pi_bookingId = p_bookingId p, pi_paymentId = p_id p,
               pi_driverAmount = netFareAmount p, pi_platformFee = netPlatformFeeAmount p, pi_status = PO_PENDING\<rparr>) ps\<rparr>]\<rparr>))
         (if pe_mock env then
            andDo (settle_batch driverId batchId (mock_transfer_id batchId) ps) (ret (PAID_OUT (mock_transfer_id batchId) totalAmount))
          else tryCatch
            (andDo (emit (StripeTransfer driverId (cents totalAmount)))
            (andThen (ofOption STRIPE_CALL_FAILED (pe_transfer env driverId (cents totalAmount))) (\<lambda>transferId.
             andDo (settle_batch driverId batchId transferId ps) (ret (PAID_OUT transferId totalAmount)))))
            (\<lambda>_. fail_batch driverId batchId ps)))"

subsection \<open>Sweeping the drivers\<close>

record candidate =
  ca_driverId :: ident
  ca_currency :: string
  ca_amountTotal :: jsnum
  ca_payments :: "payment_row list"

text \<open>The \<open>Map\<close> of the source keeps insertion order: an association list, extended at the end.\<close>

fun add_candidate :: "ident \<Rightarrow> payment_row \<Rightarrow> candidate list \<Rightarrow> candidate list" where
  "add_candidate d p [] = [\<lparr>ca_driverId = d, ca_currency = p_currency p, ca_amountTotal = netFareAmount p, ca_payments = [p]\<rparr>]"
| "add_candidate d p (c # cs) =
     (if ca_driverId c = d then
        c\<lparr>ca_amountTotal := js_add (ca_amountTotal c) (netFareAmount p), ca_payments := ca_payments c @ [p]\<rparr> # cs
      else c # add_candidate d p cs)"

text \<open>\<open>orderBy payoutEligibleAt asc\<close> on the selected rows: PostgreSQL sorts nulls last.\<close>

definition eligible_in_order :: "world \<Rightarrow> payment_row list" where
  "eligible_in_order w =
     (let rows = filter (\<lambda>p. p_status p = P_PAYOUT_ELIGIBLE \<and> \<not> hasOpenDisputeForBooking (p_bookingId p) w) (payments w) in
      sort_key (\<lambda>p. the (p_payoutEligibleAt p)) (filter (\<lambda>p. p_payoutEligibleAt p \<noteq> None) rows)
        @ filter (\<lambda>p. p_payoutEligibleAt p = None) rows)"

definition getEligiblePayoutCandidates :: "world \<Rightarrow> candidate list" where
  "getEligiblePayoutCandidates w =
     map (\<lambda>c. c\<lparr>ca_amountTotal := major (cents (ca_amountTotal c))\<rparr>)
       (foldl (\<lambda>cs p. case driver_of_payment w p of None \<Rightarrow> cs | Some d \<Rightarrow> add_candidate d p cs) [] (eligible_in_order w))"

definition ready :: "payout_env \<Rightarrow> candidate \<Rightarrow> bool" where
  "ready env c \<longleftrightarrow> (case pe_account env (ca_driverId c) of Some (Some _, True) \<Rightarrow> True | _ \<Rightarrow> False)"

fun payoutEach :: "(ident \<Rightarrow> payout_env) \<Rightarrow> ident list \<Rightarrow> (world, payout_result list) op" where
  "payoutEach envs [] = ret []"
| "payoutEach envs (d # ds) =
     andThen (processDriverPayout (envs d) d) (\<lambda>r. andThen (payoutEach envs ds) (\<lambda>rs. ret (r # rs)))"

definition processEligibleDriverPayouts :: "(ident \<Rightarrow> payout_env) \<Rightarrow> (world, payout_result list) op" where
  "processEligibleDriverPayouts envs =
     andThen (gets getEligiblePayoutCandidates) (\<lambda>cs.
       payoutEach envs (map ca_driverId (filter (\<lambda>c. ready (envs (ca_driverId c)) c) cs)))"

subsection \<open>Loops over the selected payments\<close>

lemma update_where_join:
  assumes "\<And>r. k (f r) = k r" "x \<notin> S"
  shows "update_where (\<lambda>r. k r \<in> S) f (update_where (\<lambda>r. k r = x) f rows) = update_where (\<lambda>r. k r \<in> insert x S) f rows"
  using assms by (induction rows) auto

lemma findPayment_update_other:
  assumes "\<And>p. p_id (f p) = p_id p" "y \<noteq> x"
  shows "findPayment y (w\<lparr>payments := update_where (\<lambda>p. p_id p = x) f (payments w)\<rparr>) = findPayment y w"
proof -
  have "find (\<lambda>p. p_id p = y) (update_where (\<lambda>p. p_id p = x) f ps) = find (\<lambda>p. p_id p = y) ps" for ps
    using assms by (induction ps) auto
  then show ?thesis by (simp add: findPayment_def)
qed

lemma forEach_guarded:
  assumes "\<And>p. p_id (f p) = p_id p" and "distinct (map p_id ps)"
    and "\<forall>p \<in> set ps. \<exists>q. findPayment (p_id p) w = Some q \<and> transition_allowed (p_status q) t"
  shows "forEach ps (\<lambda>p. andDo (guarded (p_id p) t f) (ret ())) w =
    (Inr (), w\<lparr>payments := update_where (\<lambda>y. p_id y \<in> p_id ` set ps) f (payments w)\<rparr>)"
  using assms(2,3)
proof (induction ps arbitrary: w)
  case Nil
  have "update_where (\<lambda>y. False) f rows = rows" for rows by (induction rows) auto
  then show ?case by simp
next
  case (Cons p ps)
  obtain q where q: "findPayment (p_id p) w = Some q" "transition_allowed (p_status q) t" using Cons.prems(2) by auto
  let ?w1 = "w\<lparr>payments := update_where (\<lambda>y. p_id y = p_id p) f (payments w)\<rparr>"
  have nin: "p_id p \<notin> p_id ` set ps" using Cons.prems(1) by simp
  have later: "\<exists>q. findPayment (p_id y) ?w1 = Some q \<and> transition_allowed (p_status q) t" if "y \<in> set ps" for y
  proof -
    have "p_id y \<noteq> p_id p" using that nin by (metis imageI)
    then show ?thesis
      using Cons.prems(2) that findPayment_update_other[where f = f and x = "p_id p" and y = "p_id y" and w = w] assms(1) by simp
  qed
  have ih: "forEach ps (\<lambda>p. andDo (guarded (p_id p) t f) (ret ())) ?w1 =
      (Inr (), ?w1\<lparr>payments := update_where (\<lambda>y. p_id y \<in> p_id ` set ps) f (payments ?w1)\<rparr>)"
    by (rule Cons.IH) (use Cons.prems(1) later in simp_all)
  have step: "andDo (guarded (p_id p) t f) (ret ()) w = (Inr (), ?w1)"
    using q assms(1) by (simp add: run_andDo run_guarded)
  have "update_where (\<lambda>y. p_id y \<in> p_id ` set ps) f (payments ?w1) = update_where (\<lambda>y. p_id y \<in> p_id ` set (p # ps)) f (payments w)"
    using update_where_join[where k = p_id and f = f and x = "p_id p" and S = "p_id ` set ps" and rows = "payments w"] assms(1) nin
    by simp
  then show ?case
    by (subst forEach_Cons_ok[where xs = ps and f = "\<lambda>p. andDo (guarded (p_id p) t f) (ret ())", OF step], subst ih) simp
qed

lemma forEach_createEntries:
  "forEach ps (\<lambda>p. createEntries (g p)) w = (Inr (), w\<lparr>ledger := ledger w @ concat (map g ps)\<rparr>)"
  by (induction ps arbitrary: w) (simp_all add: run_andDo run_createEntries)

definition transfer_entry :: "ident \<Rightarrow> payment_row \<Rightarrow> ledger_row" where
  "transfer_entry d p = \<lparr>l_paymentId = p_id p, l_bookingId = p_bookingId p, l_userId = Some d,
     l_accountType = ACC_DRIVER, l_entryType = DRIVER_TRANSFER_CREATED, l_direction = DEBIT,
     l_amount = netFareAmount p, l_currency = p_currency p\<rparr>"

definition reversal_entry :: "ident \<Rightarrow> payment_row \<Rightarrow> ledger_row" where
  "reversal_entry d p = \<lparr>l_paymentId = p_id p, l_bookingId = p_bookingId p, l_userId = Some d,
     l_accountType = ACC_DRIVER, l_entryType = PAYOUT_FAILURE_REVERSAL, l_direction = CREDIT,
     l_amount = netFareAmount p, l_currency = p_currency p\<rparr>"

lemma forEach_transfers:
  "forEach ps (\<lambda>p. recordTransfer (p_id p) (p_bookingId p) d (netFareAmount p) (p_currency p)) w =
    (Inr (), w\<lparr>ledger := ledger w @ map (transfer_entry d) ps\<rparr>)"
  using forEach_createEntries[of ps "\<lambda>p. [transfer_entry d p]" w]
  by (simp add: recordTransfer_def transfer_entry_def[symmetric])

lemma bestEffort_createEntries: "bestEffort (createEntries es) = createEntries es"
  by (rule ext) (simp add: bestEffort_def run_tryCatch run_createEntries)

lemma forEach_reversals:
  "forEach ps (\<lambda>p. bestEffort (recordPayoutFailureReversal (p_id p) (p_bookingId p) d (netFareAmount p) (p_currency p))) w =
    (Inr (), w\<lparr>ledger := ledger w @ map (reversal_entry d) ps\<rparr>)"
  using forEach_createEntries[of ps "\<lambda>p. [reversal_entry d p]" w]
  by (simp add: recordPayoutFailureReversal_def reversal_entry_def[symmetric] bestEffort_createEntries)

lemma run_updateBatch: "updateBatch x f w = (Inr (), w\<lparr>batches := update_where (\<lambda>b. pb_id b = x) f (batches w)\<rparr>)"
  by (simp add: updateBatch_def)

lemma run_fail_batch:
  "fail_batch d batchId ps w = (Inr (PAYOUT_FAILED batchId), w\<lparr>ledger := ledger w @ map (reversal_entry d) ps,
     batches := update_where (\<lambda>b. pb_id b = batchId) (set_items PO_FAILED)
       (update_where (\<lambda>b. pb_id b = batchId) (\<lambda>b. b\<lparr>pb_status := PO_FAILED\<rparr>) (batches w))\<rparr>)"
  unfolding fail_batch_def by (simp add: run_andDo run_updateBatch forEach_reversals)

definition settled_batches :: "ident \<Rightarrow> ident \<Rightarrow> batch_row list \<Rightarrow> batch_row list" where
  "settled_batches batchId tid bs = update_where (\<lambda>b. pb_id b = batchId) (set_items PO_COMPLETED)
     (update_where (\<lambda>b. pb_id b = batchId) (\<lambda>b. b\<lparr>pb_status := PO_COMPLETED, pb_stripeTransferId := Some tid\<rparr>) bs)"

text \<open>Settling a batch of payments that are all eligible and distinct.\<close>

lemma update_where_status_twice:
  assumes "\<And>r. k (g r) = k r" "\<And>r. f (g r) = f r"
  shows "update_where (\<lambda>r. k r \<in> S) f (update_where (\<lambda>r. k r \<in> S) g rows) = update_where (\<lambda>r. k r \<in> S) f rows"
  using assms by (induction rows) auto

lemma run_settle_batch:
  assumes "distinct (map p_id ps)" and "\<forall>p \<in> set ps. \<exists>q. findPayment (p_id p) w = Some q \<and> p_status q = P_PAYOUT_ELIGIBLE"
  shows "settle_batch d batchId tid ps w = (Inr (), w\<lparr>
     payments := update_where (\<lambda>y. p_id y \<in> p_id ` set ps) (\<lambda>p. p\<lparr>p_status := P_PAYOUT_COMPLETED\<rparr>) (payments w),
     ledger := ledger w @ map (transfer_entry d) ps, batches := settled_batches batchId tid (batches w)\<rparr>)"
proof -
  let ?f = "\<lambda>p. p\<lparr>p_status := P_TRANSFER_CREATED\<rparr>" and ?S = "p_id ` set ps"
  have 1: "forEach ps (\<lambda>p. andDo (markTransferCreated (p_id p)) (ret ())) w =
      (Inr (), w\<lparr>payments := update_where (\<lambda>y. p_id y \<in> ?S) ?f (payments w)\<rparr>)"
    unfolding markTransferCreated_def guarded_def[symmetric]
    by (rule forEach_guarded) (use assms in \<open>force simp: transition_allowed_def\<close>)+
  have find: "findPayment x (w\<lparr>payments := update_where (\<lambda>y. p_id y \<in> ?S) ?f (payments w), ledger := l, batches := b\<rparr>) =
      map_option (\<lambda>p. if p_id p \<in> ?S then ?f p else p) (findPayment x w)" for x l b
    unfolding findPayment_def using find_update_where[of "\<lambda>y. p_id y \<in> ?S" p_id ?f x "payments w"] by simp
  have 2: "forEach ps (\<lambda>p. andDo (markPayoutCompleted (p_id p)) (ret ()))
      (w\<lparr>payments := update_where (\<lambda>y. p_id y \<in> ?S) ?f (payments w), ledger := l, batches := b\<rparr>) =
      (Inr (), w\<lparr>payments := update_where (\<lambda>y. p_id y \<in> ?S) (\<lambda>p. p\<lparr>p_status := P_PAYOUT_COMPLETED\<rparr>)
        (update_where (\<lambda>y. p_id y \<in> ?S) ?f (payments w)), ledger := l, batches := b\<rparr>)" for l b
  proof -
    have "\<forall>p \<in> set ps. \<exists>q. findPayment (p_id p) (w\<lparr>payments := update_where (\<lambda>y. p_id y \<in> ?S) ?f (payments w), ledger := l, batches := b\<rparr>) = Some q \<and>
        transition_allowed (p_status q) P_PAYOUT_COMPLETED"
      using assms(2) findPayment_id by (fastforce simp: find transition_allowed_def)
    from forEach_guarded[OF _ assms(1) this, of "\<lambda>p. p\<lparr>p_status := P_PAYOUT_COMPLETED\<rparr>"]
    show ?thesis unfolding markPayoutCompleted_def guarded_def[symmetric] by simp
  qed
  have 3: "update_where (\<lambda>y. p_id y \<in> ?S) (\<lambda>p. p\<lparr>p_status := P_PAYOUT_COMPLETED\<rparr>) (update_where (\<lambda>y. p_id y \<in> ?S) ?f (payments w)) =
      update_where (\<lambda>y. p_id y \<in> ?S) (\<lambda>p. p\<lparr>p_status := P_PAYOUT_COMPLETED\<rparr>) (payments w)"
    by (rule update_where_status_twice) simp_all
  show ?thesis
    unfolding settle_batch_def by (simp add: run_andDo 1 2 3 forEach_transfers run_updateBatch settled_batches_def)
qed

subsection \<open>Properties of a payout\<close>

definition driver_account :: "ident \<Rightarrow> world \<Rightarrow> int" where
  "driver_account pid w = book (\<lambda>l. l_accountType l = ACC_DRIVER) pid w"

text \<open>
  The driver's account of every eligible payment shows just the open liability: nothing has been
  transferred for it yet.
\<close>

definition unpaid_accounts :: "world \<Rightarrow> bool" where
  "unpaid_accounts w \<longleftrightarrow> (\<forall>p \<in> set (payments w). p_status p = P_PAYOUT_ELIGIBLE \<longrightarrow>
     driver_account (p_id p) w = book (\<lambda>l. liability_entry l) (p_id p) w)"

lemma sum_where_entry_map:
  assumes "distinct (map p_id ps)" "p \<in> set ps" "\<And>q. l_paymentId (e q) = p_id q" "\<And>q. Q (e q)"
  shows "sum_where (\<lambda>l. l_paymentId l = p_id p \<and> Q l) g (map e ps) = g (e p)"
proof -
  have "sum_where (\<lambda>l. l_paymentId l = p_id p \<and> Q l) g (map e ps) = sum_where (\<lambda>q. p_id q = p_id p \<and> True) (\<lambda>q. g (e q)) ps"
    using assms(3,4) by (induction ps) auto
  then show ?thesis using sum_where_key[OF assms(1,2), of "\<lambda>_. True" "\<lambda>q. g (e q)"] by simp
qed

lemma payable_facts:
  assumes "books w" "ps = filter (payable d w) (payments w)"
  shows "distinct (map p_id ps)" "\<And>p. p \<in> set ps \<Longrightarrow> findPayment (p_id p) w = Some p \<and> p_status p = P_PAYOUT_ELIGIBLE \<and> tied w p"
proof -
  have d: "distinct (map p_id (payments w))" using assms(1) by (simp add: books_def)
  then show "distinct (map p_id ps)" unfolding assms(2) by (rule distinct_map_filter)
  show "findPayment (p_id p) w = Some p \<and> p_status p = P_PAYOUT_ELIGIBLE \<and> tied w p" if "p \<in> set ps" for p
    using that assms find_key_unique[OF d, of p] by (auto simp: findPayment_def payable_def books_def)
qed

lemma payout_total_cents:
  assumes "\<And>p. p \<in> set ps \<Longrightarrow> cents_row p" "sum_list (map (\<lambda>p. cents (p_fareAmount p)) ps) \<le> 2 ^ 48"
  shows "cents (payout_total ps) = sum_list (map (\<lambda>p. cents (p_fareAmount p) - cents (p_refundedFareAmount p)) ps)"
proof -
  have e: "map (\<lambda>p. cents (netFareAmount p)) ps = map (\<lambda>p. cents (p_fareAmount p) - cents (p_refundedFareAmount p)) ps"
    using assms(1) by (simp add: netFareAmount_cents)
  have "0 \<le> sum_list (map (\<lambda>p. cents (p_fareAmount p) - cents (p_refundedFareAmount p)) ps)"
    by (rule sum_list_nonneg) (use assms(1) in \<open>auto simp: cents_row_def\<close>)
  moreover have "sum_list (map (\<lambda>p. cents (p_fareAmount p) - cents (p_refundedFareAmount p)) ps) \<le> sum_list (map (\<lambda>p. cents (p_fareAmount p)) ps)"
    by (rule sum_list_mono) (use assms(1) in \<open>auto simp: cents_row_def\<close>)
  ultimately have "safe_cents (sum_list (map (\<lambda>p. cents (p_fareAmount p) - cents (p_refundedFareAmount p)) ps))"
    using assms(2) by (intro safe_centsI) linarith+
  then show ?thesis unfolding payout_total_def e by (rule cents_major)
qed

lemma transfer_account:
  assumes "books w" "ps = filter (payable d w) (payments w)" "p \<in> set ps" "unpaid_accounts w"
    and "e = transfer_entry d \<and> s = - 1 \<or> e = reversal_entry d \<and> s = 1" "ledger w' = ledger w @ map e ps"
  shows "driver_account (p_id p) w' = (1 + s) * (cents (p_fareAmount p) - cents (p_refundedFareAmount p))"
proof -
  note f = payable_facts[OF assms(1,2)]
  have p: "p \<in> set (payments w)" "p_status p = P_PAYOUT_ELIGIBLE" "tied w p" using assms(2,3) f(2)[OF assms(3)] by auto
  then have "driver_account (p_id p) w = cents (p_fareAmount p) - cents (p_refundedFareAmount p)"
    using assms(4) by (simp add: unpaid_accounts_def tied_def)
  moreover have "cents (netFareAmount p) = cents (p_fareAmount p) - cents (p_refundedFareAmount p)"
    using p(3) by (intro netFareAmount_cents) (simp add: tied_def)
  moreover have "sum_where (\<lambda>l. l_paymentId l = p_id p \<and> l_accountType l = ACC_DRIVER) signed_cents (map e ps) = signed_cents (e p)"
    by (rule sum_where_entry_map[OF f(1) assms(3)]) (use assms(5) in \<open>auto simp: transfer_entry_def reversal_entry_def\<close>)
  moreover have "signed_cents (e p) = s * cents (netFareAmount p)"
    using assms(5) by (auto simp: transfer_entry_def reversal_entry_def signed_cents_def)
  ultimately show ?thesis
    unfolding driver_account_def using book_append[of "\<lambda>l. l_accountType l = ACC_DRIVER" "p_id p" w "map e ps"] assms(5,6)
    by (auto simp: book_def algebra_simps)
qed

lemma payout_success:
  assumes "books w" and "ps = filter (payable d w) (payments w)" and "ps \<noteq> []"
    and "pe_mock env \<or> (\<exists>a t. pe_account env d = Some (Some a, True) \<and> pe_transfer env d (cents (payout_total ps)) = Some t)"
  obtains t w' where "processDriverPayout env d w = (Inr (PAID_OUT t (payout_total ps)), w')"
    "payments w' = update_where (\<lambda>y. p_id y \<in> p_id ` set ps) (\<lambda>p. p\<lparr>p_status := P_PAYOUT_COMPLETED\<rparr>) (payments w)"
    "ledger w' = ledger w @ map (transfer_entry d) ps" "bookings w' = bookings w" "rides w' = rides w" "disputes w' = disputes w"
proof -
  note f = payable_facts[OF assms(1,2)]
  obtain p0 ps0 where ps: "ps = p0 # ps0" using assms(3) by (cases ps) auto
  have fl: "filter (payable d w) (payments w) = p0 # ps0" using assms(2) ps by simp
  have settle: "settle_batch d bid tid ps u = (Inr (), u\<lparr>
     payments := update_where (\<lambda>y. p_id y \<in> p_id ` set ps) (\<lambda>p. p\<lparr>p_status := P_PAYOUT_COMPLETED\<rparr>) (payments w),
     ledger := ledger w @ map (transfer_entry d) ps, batches := settled_batches bid tid (batches u)\<rparr>)"
    if "payments u = payments w" "ledger u = ledger w" for bid tid u
    using run_settle_batch[OF f(1), of u d bid tid] f(2) that by (auto simp: findPayment_def)
  show thesis
  proof (cases "pe_mock env")
    case True
    then show thesis
      using that unfolding processDriverPayout_def ps
      by (simp add: run_andThen run_andDo fl Let_def settle[unfolded ps])
  next
    case False
    then show thesis
      using that assms(4) unfolding processDriverPayout_def ps
      by (auto simp: run_andThen run_andDo run_tryCatch fl Let_def settle[unfolded ps])
  qed
qed

text \<open>
  C16. A payout that goes through pays the driver exactly what the ledger owes: the transferred total
  is, to the cent, the sum of the residual fares of the driver's eligible payments without an open
  dispute, those payments end \<open>PAYOUT_COMPLETED\<close> and no other payment changes, and the driver's
  account of each of them is closed at zero.
\<close>

theorem processDriverPayout_settles:
  assumes "books w" and "unpaid_accounts w" and "ps = filter (payable d w) (payments w)" and "ps \<noteq> []"
    and "sum_list (map (\<lambda>p. cents (p_fareAmount p)) ps) \<le> 2 ^ 48"
    and "pe_mock env \<or> (\<exists>a t. pe_account env d = Some (Some a, True) \<and> pe_transfer env d (cents (payout_total ps)) = Some t)"
  shows "case processDriverPayout env d w of (Inr (PAID_OUT t amount), w') \<Rightarrow>
      cents amount = sum_list (map (\<lambda>p. cents (p_fareAmount p) - cents (p_refundedFareAmount p)) ps) \<and>
      payments w' = update_where (\<lambda>y. p_id y \<in> p_id ` set ps) (\<lambda>p. p\<lparr>p_status := P_PAYOUT_COMPLETED\<rparr>) (payments w) \<and>
      (\<forall>p \<in> set ps. driver_account (p_id p) w' = 0)
    | _ \<Rightarrow> False"
proof -
  note f = payable_facts[OF assms(1,3)]
  have amount: "cents (payout_total ps) = sum_list (map (\<lambda>p. cents (p_fareAmount p) - cents (p_refundedFareAmount p)) ps)"
    by (rule payout_total_cents[OF _ assms(5)]) (use f(2) in \<open>auto simp: tied_def\<close>)
  obtain t w' where run: "processDriverPayout env d w = (Inr (PAID_OUT t (payout_total ps)), w')"
    and w': "payments w' = update_where (\<lambda>y. p_id y \<in> p_id ` set ps) (\<lambda>p. p\<lparr>p_status := P_PAYOUT_COMPLETED\<rparr>) (payments w)"
      "ledger w' = ledger w @ map (transfer_entry d) ps"
    by (rule payout_success[OF assms(1,3,4,6)])
  have "driver_account (p_id p) w' = 0" if "p \<in> set ps" for p
    using transfer_account[OF assms(1,3) that assms(2) _ w'(2), of "- 1"] by simp
  then show ?thesis by (simp add: run amount w'(1))
qed

definition payout_world :: world where
  "payout_world = paid_world\<lparr>payments := [sample_payment\<lparr>p_status := P_PAYOUT_ELIGIBLE\<rparr>]\<rparr>"

definition payout_sample_env :: payout_env where
  "payout_sample_env = \<lparr>pe_mock = False, pe_account = (\<lambda>_. Some (Some ''acct1'', True)),
     pe_transfer = (\<lambda>_ _. Some ''tr1''), pe_batchId = ''batch1''\<rparr>"

lemma payout_world_facts:
  "books payout_world" "unpaid_accounts payout_world"
  "filter (payable ''d1'' payout_world) (payments payout_world) = [sample_payment\<lparr>p_status := P_PAYOUT_ELIGIBLE\<rparr>]"
proof -
  show "books payout_world"
    by (simp add: payout_world_def books_def paid_world_def sample_payment_def tied_def cents_row_def book_def received_entries_def
      received_of_def signed_cents_def)
  show "unpaid_accounts payout_world"
    by (simp add: unpaid_accounts_def driver_account_def book_def payout_world_def paid_world_def received_entries_def
        received_of_def sample_payment_def)
  show "filter (payable ''d1'' payout_world) (payments payout_world) = [sample_payment\<lparr>p_status := P_PAYOUT_ELIGIBLE\<rparr>]"
    by (simp add: payable_def driver_of_payment_def hasOpenDisputeForBooking_def payout_world_def paid_world_def
        sample_payment_def findBooking_def findRide_def sample_defs)
qed

lemma sample_payment_amounts: "cents (p_fareAmount sample_payment) = 1000" "cents (p_refundedFareAmount sample_payment) = 0"
  "p_id sample_payment = ''p1''"
  by (simp_all add: sample_payment_def)

theorem processDriverPayout_settles_witness:
  "case processDriverPayout payout_sample_env ''d1'' payout_world of
     (Inr (PAID_OUT t amount), w') \<Rightarrow> cents amount = 1000 \<and> driver_account ''p1'' w' = 0 | _ \<Rightarrow> False"
  using processDriverPayout_settles[OF payout_world_facts(1,2) payout_world_facts(3)[symmetric], of payout_sample_env]
  by (simp add: payout_sample_env_def sample_payment_amounts split: prod.splits sum.splits payout_result.splits)

text \<open>
  C19. When Stripe refuses the transfer nothing has been debited yet, but the error path credits every
  payment of the batch again: the payments stay eligible and untouched, and the ledger then shows the
  driver owed twice the residual fare of each of them. A retry pays once, so each failed attempt
  inflates the balance for good.
\<close>

theorem failed_transfer_doubles_liability:
  assumes "books w" and "unpaid_accounts w" and "ps = filter (payable d w) (payments w)" and "ps \<noteq> []"
    and "\<not> pe_mock env" and "pe_account env d = Some (Some a, True)" and "pe_transfer env d (cents (payout_total ps)) = None"
  shows "case processDriverPayout env d w of (Inr (PAYOUT_FAILED b), w') \<Rightarrow>
      payments w' = payments w \<and>
      (\<forall>p \<in> set ps. driver_account (p_id p) w' = 2 * (cents (p_fareAmount p) - cents (p_refundedFareAmount p)))
    | _ \<Rightarrow> False"
proof -
  obtain p0 ps0 where ps: "ps = p0 # ps0" using assms(4) by (cases ps) auto
  have fl: "filter (payable d w) (payments w) = p0 # ps0" using assms(3) ps by simp
  have acc: "driver_account (p_id p) w' = 2 * (cents (p_fareAmount p) - cents (p_refundedFareAmount p))"
    if "p \<in> set ps" "ledger w' = ledger w @ map (reversal_entry d) ps" for p w'
    using transfer_account[OF assms(1,3) that(1) assms(2) _ that(2), of 1] by simp
  show ?thesis
    using acc assms(5-7) unfolding processDriverPayout_def ps
    by (auto simp: run_andThen run_andDo run_tryCatch fl Let_def run_fail_batch)
qed

theorem failed_transfer_doubles_liability_witness:
  "case processDriverPayout (payout_sample_env\<lparr>pe_transfer := \<lambda>_ _. None\<rparr>) ''d1'' payout_world of
     (Inr (PAYOUT_FAILED b), w') \<Rightarrow> driver_account ''p1'' w' = 2000 | _ \<Rightarrow> False"
  using failed_transfer_doubles_liability[OF payout_world_facts(1,2) payout_world_facts(3)[symmetric],
      of "payout_sample_env\<lparr>pe_transfer := \<lambda>_ _. None\<rparr>" "''acct1''"]
  by (simp add: payout_sample_env_def sample_payment_amounts split: prod.splits sum.splits payout_result.splits)

subsection \<open>Open disputes hold a payment back\<close>

lemma hasOpenDispute_same: "disputes w = disputes w' \<Longrightarrow> hasOpenDisputeForBooking x w = hasOpenDisputeForBooking x w'"
  by (simp add: hasOpenDisputeForBooking_def)

lemma processDriverPayout_frame:
  assumes b: "books w" and ps: "ps = filter (payable d w) (payments w)"
    and w'_def: "w' = snd (processDriverPayout env d w)"
  shows "\<exists>f es. (\<forall>y. p_id (f y) = p_id y) \<and> payments w' = update_where (\<lambda>y. p_id y \<in> p_id ` set ps) f (payments w) \<and>
    ledger w' = ledger w @ es \<and> (\<forall>l \<in> set es. l_paymentId l \<in> p_id ` set ps)"
proof (cases ps)
  case Nil
  have "update_where (\<lambda>y. False) f rows = rows" for f :: "payment_row \<Rightarrow> payment_row" and rows by (induction rows) auto
  then show ?thesis using Nil ps
    by (intro exI[of _ "\<lambda>p. p"] exI[of _ "[]"]) (simp add: w'_def processDriverPayout_def run_andThen)
next
  case (Cons p0 ps0)
  note f = payable_facts[OF b ps]
  have fl: "filter (payable d w) (payments w) = p0 # ps0" using ps Cons by simp
  have settle: "settle_batch d bid tid ps u = (Inr (), u\<lparr>
     payments := update_where (\<lambda>y. p_id y \<in> p_id ` set ps) (\<lambda>p. p\<lparr>p_status := P_PAYOUT_COMPLETED\<rparr>) (payments w),
     ledger := ledger w @ map (transfer_entry d) ps, batches := settled_batches bid tid (batches u)\<rparr>)"
    if "payments u = payments w" "ledger u = ledger w" for bid tid u
    using run_settle_batch[OF f(1), of u d bid tid] f(2) that by (auto simp: findPayment_def)
  have keep: "update_where (\<lambda>y. p_id y \<in> S) (\<lambda>p. p) rows = rows" for S and rows :: "payment_row list" by (induction rows) auto
  have es: "\<forall>l \<in> set (map (transfer_entry d) ps). l_paymentId l \<in> p_id ` set ps"
    "\<forall>l \<in> set (map (reversal_entry d) ps). l_paymentId l \<in> p_id ` set ps"
    by (auto simp: transfer_entry_def reversal_entry_def)
  have "(payments w' = payments w \<and> ledger w' = ledger w) \<or>
      (payments w' = payments w \<and> ledger w' = ledger w @ map (reversal_entry d) ps) \<or>
      (payments w' = update_where (\<lambda>y. p_id y \<in> p_id ` set ps) (\<lambda>p. p\<lparr>p_status := P_PAYOUT_COMPLETED\<rparr>) (payments w) \<and>
       ledger w' = ledger w @ map (transfer_entry d) ps)"
    unfolding w'_def processDriverPayout_def Cons
    by (simp add: run_andThen run_andDo run_tryCatch fl Let_def run_fail_batch settle[unfolded Cons] split: option.splits)
  then show ?thesis
  proof (elim disjE conjE)
    assume "payments w' = payments w" "ledger w' = ledger w"
    then show ?thesis using keep[of "p_id ` set ps" "payments w"] by (intro exI[of _ "\<lambda>p. p"] exI[of _ "[]"]) simp
  next
    assume "payments w' = payments w" "ledger w' = ledger w @ map (reversal_entry d) ps"
    then show ?thesis using keep[of "p_id ` set ps" "payments w"] es(2)
      by (intro exI[of _ "\<lambda>p. p"] exI[of _ "map (reversal_entry d) ps"]) simp
  next
    assume "payments w' = update_where (\<lambda>y. p_id y \<in> p_id ` set ps) (\<lambda>p. p\<lparr>p_status := P_PAYOUT_COMPLETED\<rparr>) (payments w)"
      "ledger w' = ledger w @ map (transfer_entry d) ps"
    then show ?thesis using es(1)
      by (intro exI[of _ "\<lambda>p. p\<lparr>p_status := P_PAYOUT_COMPLETED\<rparr>"] exI[of _ "map (transfer_entry d) ps"]) simp
  qed
qed

text \<open>
  C18. A payment whose booking has an open dispute is never paid out: whatever the payout of any driver
  does, the row of that payment and its ledger entries stay exactly as they were.
\<close>

theorem open_dispute_blocks_payout:
  assumes "books w" and "p \<in> set (payments w)" and "hasOpenDisputeForBooking (p_bookingId p) w"
    and "w' = snd (processDriverPayout env d w)"
  shows "findPayment (p_id p) w' = Some p \<and>
    filter (\<lambda>l. l_paymentId l = p_id p) (ledger w') = filter (\<lambda>l. l_paymentId l = p_id p) (ledger w)"
proof -
  let ?ps = "filter (payable d w) (payments w)"
  have dd: "distinct (map p_id (payments w))" using assms(1) by (simp add: books_def)
  have out: "p_id p \<notin> p_id ` set ?ps"
  proof
    assume "p_id p \<in> p_id ` set ?ps"
    then obtain q where q: "q \<in> set (payments w)" "payable d w q" "p_id q = p_id p" by auto
    then have "q = p" using dd assms(2) by (auto dest: inj_onD simp: distinct_map)
    then show False using q(2) assms(3) by (simp add: payable_def)
  qed
  obtain f es where w': "\<forall>y. p_id (f y) = p_id y"
    "payments w' = update_where (\<lambda>y. p_id y \<in> p_id ` set ?ps) f (payments w)"
    "ledger w' = ledger w @ es" "\<forall>l \<in> set es. l_paymentId l \<in> p_id ` set ?ps"
    using processDriverPayout_frame[OF assms(1) refl assms(4)] by blast
  have "find (\<lambda>y. p_id y = p_id p) (update_where (\<lambda>y. p_id y \<in> S) f rows) = find (\<lambda>y. p_id y = p_id p) rows"
    if "p_id p \<notin> S" "\<forall>y. p_id (f y) = p_id y" for S rows and f :: "payment_row \<Rightarrow> payment_row"
    using that by (induction rows) auto
  from this[OF out w'(1)] have "findPayment (p_id p) w' = Some p"
    using find_key_unique[OF dd assms(2)] w'(2) by (simp add: findPayment_def)
  moreover have "\<forall>l \<in> set es. l_paymentId l \<noteq> p_id p" using w'(4) out by metis
  ultimately show ?thesis using w'(3) by (simp add: filter_empty_conv)
qed

theorem open_dispute_blocks_payout_witness:
  "let w = payout_world\<lparr>disputes := [\<lparr>d_id = ''x1'', d_rideId = ''r1'', d_bookingId = ''b1'', d_raisedBy = ''u1'',
       d_reason = ''late'', d_status = DISPUTE_OPEN, d_resolution = None, d_resolvedBy = None, d_resolvedAt = None,
       d_description = None, d_evidence = None, d_recommendation = None, d_riskScore = None\<rparr>]\<rparr>
   in findPayment ''p1'' (snd (processDriverPayout payout_sample_env ''d1'' w)) = Some (sample_payment\<lparr>p_status := P_PAYOUT_ELIGIBLE\<rparr>)"
proof -
  let ?w = "payout_world\<lparr>disputes := [\<lparr>d_id = ''x1'', d_rideId = ''r1'', d_bookingId = ''b1'', d_raisedBy = ''u1'',
       d_reason = ''late'', d_status = DISPUTE_OPEN, d_resolution = None, d_resolvedBy = None, d_resolvedAt = None,
       d_description = None, d_evidence = None, d_recommendation = None, d_riskScore = None\<rparr>]\<rparr>"
  have "books ?w" using payout_world_facts(1) by (simp add: books_def tied_cong[of ?w payout_world])
  then show ?thesis
    using open_dispute_blocks_payout[of ?w "sample_payment\<lparr>p_status := P_PAYOUT_ELIGIBLE\<rparr>", OF _ _ _ refl, of payout_sample_env "''d1''"]
    by (simp add: hasOpenDisputeForBooking_def payout_world_def sample_payment_def Let_def)
qed

end
