(* ===== verification/Reconciliation.thy ===== *)
theory Reconciliation
  imports Payout
begin

text \<open>
  Reconciliation, \<open>src/src/modules/reconciliation/reconciliation.service.ts\<close>: the hourly comparison of
  payments with Stripe and its automatic repair, and the daily checks (stale escrow, ledger balance of
  closed payments, disputes against payment states). Creating an issue row is the trace entry
  \<open>IssueRecorded\<close>; the windows on \<open>updatedAt\<close> and \<open>resolvedAt\<close>, columns the model does not keep,
  are predicates passed in.
\<close>

subsection \<open>Stripe against the payments\<close>

fun STRIPE_TO_INTERNAL_MAP :: "intent_status \<Rightarrow> payment_status list" where
  "STRIPE_TO_INTERNAL_MAP IS_requires_payment_method = [P_CREATED, P_PAYMENT_PENDING]"
| "STRIPE_TO_INTERNAL_MAP IS_requires_confirmation = [P_CREATED, P_PAYMENT_PENDING]"
| "STRIPE_TO_INTERNAL_MAP IS_requires_action = [P_PAYMENT_PENDING]"
| "STRIPE_TO_INTERNAL_MAP IS_processing = [P_PAYMENT_PENDING]"
| "STRIPE_TO_INTERNAL_MAP IS_requires_capture = [P_PAID, P_HELD_IN_ESCROW]"
| "STRIPE_TO_INTERNAL_MAP IS_succeeded = [P_PAID, P_HELD_IN_ESCROW, P_PAYOUT_ELIGIBLE, P_TRANSFER_CREATED, P_PAYOUT_COMPLETED]"
| "STRIPE_TO_INTERNAL_MAP IS_canceled = [P_PAYMENT_FAILED, P_REFUNDED]"

text \<open>\<open>SAFE_REPAIRS.MISSING_WEBHOOK\<close>: Stripe status, internal status, target.\<close>

definition MISSING_WEBHOOK_REPAIRS :: "(intent_status \<times> payment_status \<times> payment_status) list" where
  "MISSING_WEBHOOK_REPAIRS = [(IS_succeeded, P_PAYMENT_PENDING, P_PAID)]"

record reconcile_result =
  rc_issue :: bool
  rc_repaired :: bool

definition createIssue :: "payment_row \<Rightarrow> string \<Rightarrow> (world, unit) op" where
  "createIssue p issueType = emit (IssueRecorded (p_id p) (p_bookingId p) issueType)"

definition reconcilePayment :: "env \<Rightarrow> payment_row \<Rightarrow> (world, reconcile_result) op" where
  "reconcilePayment env payment =
     (case p_stripePaymentIntentId payment of
        None \<Rightarrow> ret \<lparr>rc_issue = False, rc_repaired = False\<rparr>
      | Some intentId \<Rightarrow>
        (case e_retrieve env intentId of
           Retrieved si \<Rightarrow>
             if p_status payment \<in> set (STRIPE_TO_INTERNAL_MAP (i_status si)) then ret \<lparr>rc_issue = False, rc_repaired = False\<rparr>
             else
               (case find (\<lambda>(st, from, to). st = i_status si \<and> from = p_status payment) MISSING_WEBHOOK_REPAIRS of
                  Some (_, _, target) \<Rightarrow>
                    andDo (updatePayment (p_id payment) (\<lambda>p. p\<lparr>p_status := target\<rparr>))
                   (andDo (createIssue payment ''MISSING_WEBHOOK'')
                    (ret \<lparr>rc_issue = True, rc_repaired = True\<rparr>))
                | None \<Rightarrow>
                    andDo (createIssue payment ''STRIPE_MISMATCH'') (ret \<lparr>rc_issue = True, rc_repaired = False\<rparr>))
         | _ \<Rightarrow> throw STRIPE_CALL_FAILED))"

definition hourly_selection :: "(payment_row \<Rightarrow> bool) \<Rightarrow> world \<Rightarrow> payment_row list" where
  "hourly_selection recent w =
     filter (\<lambda>p. p_stripePaymentIntentId p \<noteq> None \<and> recent p \<and> p_status p \<notin> {P_PAYOUT_COMPLETED, P_REFUNDED}) (payments w)"

fun reconcileAll :: "env \<Rightarrow> payment_row list \<Rightarrow> (world, nat \<times> nat) op" where
  "reconcileAll env [] = ret (0, 0)"
| "reconcileAll env (p # ps) =
     andThen (tryCatch (andThen (reconcilePayment env p) (\<lambda>r. ret (if rc_issue r then 1 else 0, if rc_repaired r then 1 else 0)))
                (\<lambda>_. ret (0, 0))) (\<lambda>(i, r).
     andThen (reconcileAll env ps) (\<lambda>(is, rs). ret (i + is, r + rs)))"

definition runHourlyReconciliation :: "env \<Rightarrow> (payment_row \<Rightarrow> bool) \<Rightarrow> (world, nat \<times> nat \<times> nat) op" where
  "runHourlyReconciliation env recent =
     andThen (gets (hourly_selection recent)) (\<lambda>ps.
     andThen (reconcileAll env ps) (\<lambda>(issues, repaired). ret (length ps, issues, repaired)))"

subsection \<open>The daily checks\<close>

definition stale_escrow :: "int \<Rightarrow> time \<Rightarrow> world \<Rightarrow> payment_row \<Rightarrow> bool" where
  "stale_escrow delayMinutes now w p =
     eligible_for_release (now - max delayMinutes 30 * 60 * 1000) w p"

definition direction_total :: "direction \<Rightarrow> ident \<Rightarrow> world \<Rightarrow> jsnum" where
  "direction_total dir pid w =
     js_total (map l_amount (filter (\<lambda>l. l_direction l = dir) (filter (\<lambda>l. l_paymentId l = pid) (ledger w))))"

text \<open>\<open>Math.abs(totalDebit - totalCredit) > 0.01\<close>.\<close>

definition ledger_imbalanced :: "ident \<Rightarrow> world \<Rightarrow> bool" where
  "ledger_imbalanced pid w \<longleftrightarrow> fl64 (1 / 100) < \<bar>js_sub (direction_total DEBIT pid w) (direction_total CREDIT pid w)\<bar>"

fun dispute_state_valid :: "dispute_status \<Rightarrow> payment_status \<Rightarrow> bool" where
  "dispute_state_valid RESOLVED_REFUND s \<longleftrightarrow> s = P_REFUNDED"
| "dispute_state_valid AUTO_RESOLVED_RIDER_REFUND s \<longleftrightarrow> s = P_REFUNDED"
| "dispute_state_valid RESOLVED_PAYOUT s \<longleftrightarrow> s \<in> {P_PAYOUT_ELIGIBLE, P_TRANSFER_CREATED, P_PAYOUT_COMPLETED}"
| "dispute_state_valid AUTO_RESOLVED_DRIVER_PAYOUT s \<longleftrightarrow> s \<in> {P_PAYOUT_ELIGIBLE, P_TRANSFER_CREATED, P_PAYOUT_COMPLETED}"
| "dispute_state_valid RESOLVED_SPLIT s \<longleftrightarrow> s \<in> {P_PAYOUT_ELIGIBLE, P_TRANSFER_CREATED, P_PAYOUT_COMPLETED, P_REFUNDED}"
| "dispute_state_valid _ s \<longleftrightarrow> True"

definition closed_dispute :: "dispute_status \<Rightarrow> bool" where
  "closed_dispute s \<longleftrightarrow> s \<in> {RESOLVED_REFUND, RESOLVED_PAYOUT, RESOLVED_SPLIT, AUTO_RESOLVED_RIDER_REFUND, AUTO_RESOLVED_DRIVER_PAYOUT}"

definition mismatched_disputes :: "(dispute_row \<Rightarrow> bool) \<Rightarrow> world \<Rightarrow> (dispute_row \<times> payment_row) list" where
  "mismatched_disputes recent w =
     concat (map (\<lambda>d. case findPaymentByBooking (d_bookingId d) w of None \<Rightarrow> []
        | Some p \<Rightarrow> if dispute_state_valid (d_status d) (p_status p) then [] else [(d, p)])
       (filter (\<lambda>d. closed_dispute (d_status d) \<and> recent d) (disputes w)))"

definition runDailyReconciliation ::
  "int \<Rightarrow> time \<Rightarrow> (payment_row \<Rightarrow> bool) \<Rightarrow> (dispute_row \<Rightarrow> bool) \<Rightarrow> (world, nat \<times> nat) op" where
  "runDailyReconciliation delayMinutes now recentPayment recentDispute =
     andThen (gets (\<lambda>w. filter (stale_escrow delayMinutes now w) (payments w))) (\<lambda>stale.
     andDo (forEach stale (\<lambda>p. createIssue p ''STALE_ESCROW''))
    (andThen (gets (\<lambda>w. filter (\<lambda>p. p_status p \<in> {P_PAYOUT_COMPLETED, P_REFUNDED} \<and> recentPayment p \<and> ledger_imbalanced (p_id p) w) (payments w)))
       (\<lambda>bad. andDo (forEach bad (\<lambda>p. createIssue p ''LEDGER_IMBALANCE''))
    (andThen (gets (mismatched_disputes recentDispute)) (\<lambda>mism.
     andDo (forEach mism (\<lambda>(d, p). createIssue p ''DISPUTE_PAYMENT_MISMATCH''))
     (ret (length stale, length bad + length mism)))))))"

subsection \<open>When the ledger check fires\<close>

definition entries_of :: "ident \<Rightarrow> world \<Rightarrow> ledger_row list" where
  "entries_of pid w = filter (\<lambda>l. l_paymentId l = pid) (ledger w)"

lemma book_entries: "book (\<lambda>_. True) pid w =
  sum_where (\<lambda>l. l_direction l = CREDIT) (\<lambda>l. cents (l_amount l)) (entries_of pid w) -
  sum_where (\<lambda>l. l_direction l = DEBIT) (\<lambda>l. cents (l_amount l)) (entries_of pid w)"
proof -
  have "sum_where (\<lambda>l. l_paymentId l = pid) signed_cents ls =
      sum_where (\<lambda>l. l_direction l = CREDIT) (\<lambda>l. cents (l_amount l)) (filter (\<lambda>l. l_paymentId l = pid) ls) -
      sum_where (\<lambda>l. l_direction l = DEBIT) (\<lambda>l. cents (l_amount l)) (filter (\<lambda>l. l_paymentId l = pid) ls)" for ls
  proof (induction ls)
    case (Cons l ls)
    then show ?case by (cases "l_direction l") (simp_all add: signed_cents_def)
  qed simp
  then show ?thesis by (simp add: book_def entries_of_def)
qed

lemma direction_total_error:
  assumes "moderate (entries_of pid w)"
  shows "\<bar>direction_total dir pid w - of_int (sum_where (\<lambda>l. l_direction l = dir) (\<lambda>l. cents (l_amount l)) (entries_of pid w)) / 100\<bar> \<le> 1 / 1024"
    "\<bar>of_int (sum_where (\<lambda>l. l_direction l = dir) (\<lambda>l. cents (l_amount l)) (entries_of pid w)) / 100\<bar> \<le> (42949673 :: rat)"
proof -
  let ?ls = "filter (\<lambda>l. l_direction l = dir) (entries_of pid w)"
  have m: "moderate ?ls" by (rule moderate_filter[OF assms])
  have a: "list_all2 approximates (map l_amount ?ls) (map (\<lambda>l. cents (l_amount l)) ?ls)"
    using m unfolding moderate_def by (auto simp: list_all2_map1 list_all2_map2 intro!: list_all2_refl_on)
      (metis major_approximates whole_amount_cents)
  have e: "length (map (\<lambda>l. cents (l_amount l)) ?ls) \<le> 4096" "sum_list (map abs (map (\<lambda>l. cents (l_amount l)) ?ls)) \<le> 2 ^ 32"
    using m by (simp_all add: moderate_def comp_def)
  show "\<bar>direction_total dir pid w - of_int (sum_where (\<lambda>l. l_direction l = dir) (\<lambda>l. cents (l_amount l)) (entries_of pid w)) / 100\<bar> \<le> 1 / 1024"
    "\<bar>of_int (sum_where (\<lambda>l. l_direction l = dir) (\<lambda>l. cents (l_amount l)) (entries_of pid w)) / 100\<bar> \<le> (42949673 :: rat)"
    using js_total_error[OF a e] by (simp_all add: direction_total_def entries_of_def sum_where_def)
qed

lemma ledger_imbalanced_iff:
  assumes "moderate (entries_of pid w)"
  shows "book (\<lambda>_. True) pid w = 0 \<Longrightarrow> \<not> ledger_imbalanced pid w"
    and "2 \<le> \<bar>book (\<lambda>_. True) pid w\<bar> \<Longrightarrow> ledger_imbalanced pid w"
proof -
  let ?s = "\<lambda>dir. sum_where (\<lambda>l. l_direction l = dir) (\<lambda>l. cents (l_amount l)) (entries_of pid w)"
  note e = direction_total_error[OF assms]
  note t = js_sub_tolerance[OF e(1)[of DEBIT] e(1)[of CREDIT] e(2)[of DEBIT] e(2)[of CREDIT]]
  show "book (\<lambda>_. True) pid w = 0 \<Longrightarrow> \<not> ledger_imbalanced pid w"
    using t(2) by (simp add: book_entries ledger_imbalanced_def)
  assume "2 \<le> \<bar>book (\<lambda>_. True) pid w\<bar>"
  then have "2 \<le> \<bar>?s DEBIT - ?s CREDIT\<bar>" by (simp add: book_entries abs_minus_commute)
  then have "(of_int 2 :: rat) \<le> of_int \<bar>?s DEBIT - ?s CREDIT\<bar>" by (simp only: of_int_le_iff)
  then have "(2 :: rat) \<le> \<bar>of_int (?s DEBIT) - of_int (?s CREDIT)\<bar>" by simp
  then have "2 / 100 \<le> \<bar>of_int (?s DEBIT) / 100 - of_int (?s CREDIT) / (100 :: rat)\<bar>"
    by (simp flip: diff_divide_distrib add: abs_divide)
  then show "ledger_imbalanced pid w" using t(1) by (simp add: ledger_imbalanced_def)
qed

text \<open>
  C20. The ledger check of the daily reconciliation adds up all entries of a closed payment, the
  one-sided transfer to the driver included. A payment whose entries balanced before a successful
  payout is therefore always reported as \<open>LEDGER_IMBALANCE\<close> afterwards, by exactly the fare paid
  out (from two cents on), although nothing is wrong with it.
\<close>

theorem daily_check_flags_paid_out_payments:
  assumes "books w" and "ps = filter (payable d w) (payments w)" and "p \<in> set ps"
    and "pe_mock env \<or> (\<exists>a t. pe_account env d = Some (Some a, True) \<and> pe_transfer env d (cents (payout_total ps)) = Some t)"
    and "book (\<lambda>_. True) (p_id p) w = 0" and "2 \<le> cents (p_fareAmount p) - cents (p_refundedFareAmount p)"
    and "w' = snd (processDriverPayout env d w)" and "moderate (entries_of (p_id p) w')"
  shows "\<not> ledger_imbalanced (p_id p) w \<and> ledger_imbalanced (p_id p) w' \<and>
    book (\<lambda>_. True) (p_id p) w' = cents (p_refundedFareAmount p) - cents (p_fareAmount p)"
proof -
  note f = payable_facts[OF assms(1,2)]
  have "ps \<noteq> []" using assms(3) by auto
  then obtain t u where "processDriverPayout env d w = (Inr (PAID_OUT t (payout_total ps)), u)"
    and u: "ledger u = ledger w @ map (transfer_entry d) ps"
    by (rule payout_success[OF assms(1,2) _ assms(4)])
  then have w': "ledger w' = ledger w @ map (transfer_entry d) ps" using assms(7) by simp
  have "sum_where (\<lambda>l. l_paymentId l = p_id p \<and> True) signed_cents (map (transfer_entry d) ps) = signed_cents (transfer_entry d p)"
    by (rule sum_where_entry_map[OF f(1) assms(3)]) (simp_all add: transfer_entry_def)
  moreover have "cents (netFareAmount p) = cents (p_fareAmount p) - cents (p_refundedFareAmount p)"
    using f(2)[OF assms(3)] by (intro netFareAmount_cents) (simp add: tied_def)
  ultimately have b: "book (\<lambda>_. True) (p_id p) w' = cents (p_refundedFareAmount p) - cents (p_fareAmount p)"
    using assms(5) w' by (simp add: book_def transfer_entry_def signed_cents_def)
  have "filter (\<lambda>l. l_paymentId l = p_id p) (ledger w') = entries_of (p_id p) w @ filter (\<lambda>l. l_paymentId l = p_id p) (map (transfer_entry d) ps)"
    using w' by (simp add: entries_of_def)
  then have "moderate (entries_of (p_id p) w)"
    using assms(8) moderate_append by (metis entries_of_def)
  then show ?thesis
    using ledger_imbalanced_iff(1)[of "p_id p" w] ledger_imbalanced_iff(2)[OF assms(8)] assms(5,6) b by simp
qed

theorem daily_check_flags_paid_out_payments_witness:
  "ledger_imbalanced ''p1'' (snd (processDriverPayout payout_sample_env ''d1'' payout_world))"
proof -
  obtain t u where run: "processDriverPayout payout_sample_env ''d1'' payout_world = (Inr (PAID_OUT t (payout_total [sample_payment\<lparr>p_status := P_PAYOUT_ELIGIBLE\<rparr>])), u)"
    and u: "ledger u = ledger payout_world @ map (transfer_entry ''d1'') [sample_payment\<lparr>p_status := P_PAYOUT_ELIGIBLE\<rparr>]"
    by (rule payout_success[OF payout_world_facts(1) payout_world_facts(3)[symmetric], of payout_sample_env])
      (auto simp: payout_sample_env_def)
  have net: "netFareAmount (sample_payment\<lparr>p_status := P_PAYOUT_ELIGIBLE\<rparr>) = major 1000"
    using cents_js_sub_major[of 1000 0] by (simp add: netFareAmount_def sample_payment_def)
  have te: "map (transfer_entry ''d1'') [sample_payment\<lparr>p_status := P_PAYOUT_ELIGIBLE\<rparr>] =
      [\<lparr>l_paymentId = ''p1'', l_bookingId = ''b1'', l_userId = Some ''d1'', l_accountType = ACC_DRIVER,
        l_entryType = DRIVER_TRANSFER_CREATED, l_direction = DEBIT, l_amount = major 1000, l_currency = ''EUR''\<rparr>]"
    unfolding transfer_entry_def list.map net by (simp add: sample_payment_def)
  have "moderate (entries_of ''p1'' u)"
    by (simp add: entries_of_def u te del: list.map)
      (simp add: moderate_def whole_amountI payout_world_def paid_world_def received_entries_def received_of_def sample_payment_def)
  moreover have "book (\<lambda>_. True) ''p1'' payout_world = 0"
    by (simp add: book_def payout_world_def paid_world_def received_entries_def received_of_def sample_payment_def signed_cents_def)
  ultimately show ?thesis
    using daily_check_flags_paid_out_payments[OF payout_world_facts(1) payout_world_facts(3)[symmetric], of "sample_payment\<lparr>p_status := P_PAYOUT_ELIGIBLE\<rparr>" payout_sample_env, OF _ _ _ _ refl]
    by (simp add: sample_payment_amounts run) (simp add: payout_sample_env_def)
qed

text \<open>
  C21. The automatic repair of a missed webhook moves the payment to \<open>PAID\<close> but records nothing: no
  ledger entry and no outbox event are written, so the payment never reaches escrow through the
  outbox, and the webhook that arrives later finds it \<open>PAID\<close> and records nothing either. The driver's
  earning is missing from the ledger although the rider was charged.
\<close>

theorem auto_repair_skips_the_ledger:
  assumes "books w" and "findPayment x w = Some p" and "p_status p = P_PAYMENT_PENDING"
    and "p_stripePaymentIntentId p = Some pid" and "e_retrieve env pid = Retrieved si" and "i_status si = IS_succeeded"
    and "findPaymentByBooking (p_bookingId p) w = Some p"
    and "w' = snd (reconcilePayment env p w)" and "w'' = snd (markBookingPaymentPaid (p_bookingId p) d w')"
  shows "findPayment x w'' = Some (p\<lparr>p_status := P_PAID\<rparr>) \<and> ledger w'' = ledger w \<and> outbox w'' = outbox w \<and>
    book (\<lambda>l. liability_entry l) x w'' = 0 \<and> 0 < cents (p_fareAmount p) \<and> \<not> books w''"
proof -
  have id: "p_id p = x" by (rule findPayment_id[OF assms(2)])
  have t: "tied w p" by (rule books_found[OF assms(1,2)])
  then have c: "cents_row p" and n: "\<forall>l \<in> set (ledger w). l_paymentId l \<noteq> x"
    using assms(3) id by (auto simp: tied_def)
  let ?u = "w\<lparr>payments := update_where (\<lambda>y. p_id y = x) (\<lambda>p. p\<lparr>p_status := P_PAID\<rparr>) (payments w)\<rparr>"
  have w': "w' = ?u\<lparr>trace := trace w @ [IssueRecorded x (p_bookingId p) ''MISSING_WEBHOOK'']\<rparr>"
    using assms(2-6,8) id
    by (simp add: reconcilePayment_def MISSING_WEBHOOK_REPAIRS_def run_andDo updatePayment_def createIssue_def)
  have found: "findPayment x w' = Some (p\<lparr>p_status := P_PAID\<rparr>)"
    using findPayment_update[where f = "\<lambda>p. p\<lparr>p_status := P_PAID\<rparr>" and x = x and w = w] assms(2)
    by (simp add: w' findPayment_def)
  have "findPaymentByBooking (p_bookingId p) w' = Some (p\<lparr>p_status := P_PAID\<rparr>)"
    using assms(7) find_update_where[of "\<lambda>y. p_id y = x" p_bookingId "\<lambda>p. p\<lparr>p_status := P_PAID\<rparr>" "p_bookingId p" "payments w"] id
    by (simp add: w' findPaymentByBooking_def)
  then have w'': "w'' = w'" using assms(9) by (simp add: markBookingPaymentPaid_def run_andThen)
  have z: "book (\<lambda>l. liability_entry l) x w'' = 0"
    using book_none[OF n] by (simp add: w'' w' book_def)
  have f: "0 < cents (p_fareAmount p)" by (rule cents_row_facts[OF c])
  have "\<not> books w''"
  proof
    assume "books w''"
    then have "tied w'' (p\<lparr>p_status := P_PAID\<rparr>)" using found unfolding w'' by (rule books_found)
    then have "book (\<lambda>l. liability_entry l) x w'' = cents (p_fareAmount p) - cents (p_refundedFareAmount p)"
      using id by (simp add: tied_def)
    moreover have "cents (p_refundedFareAmount p) = 0" using t assms(3) by (simp add: tied_def)
    ultimately show False using z f by simp
  qed
  with found z f show ?thesis by (simp add: w'' w')
qed

definition pending_world :: world where
  "pending_world = sample_world\<lparr>payments := [sample_payment]\<rparr>"

lemma pending_world_books: "books pending_world"
  by (simp add: pending_world_def sample_world_def books_def sample_payment_def tied_def cents_row_def)

theorem auto_repair_skips_the_ledger_witness:
  "\<not> books (snd (markBookingPaymentPaid ''b1'' ''d1'' (snd (reconcilePayment sample_env sample_payment pending_world))))"
  using auto_repair_skips_the_ledger[OF pending_world_books, of "''p1''" sample_payment "''pi1''" sample_env _, OF _ _ _ _ _ _ refl refl]
  by (simp add: pending_world_def findPayment_def findPaymentByBooking_def sample_payment_def sample_env_def)

end
