(* ===== verification/Segment_View.thy ===== *)
theory Segment_View
  imports Store
begin

text \<open>
  Segments of a ride, \<open>src/src/modules/search-ride/segment-view.utils.ts\<close>: the cumulative price of
  every point of the route, with the unpriced waypoints interpolated, and the view of the leg from a
  pickup to a drop-off that a rider books. Addresses, coordinates and the route metrics that are only
  displayed are left out.
\<close>

datatype point_ref = OriginRef | DestinationRef | WaypointRef ident

record segment_point =
  pt_ref :: point_ref
  pt_waypointId :: "ident option"
  pt_waypointType :: "string option"
  pt_cumulativePrice :: jsnum
  pt_position :: int

record segment_view =
  sv_basePricePerSeat :: jsnum
  sv_pickupWaypointId :: "ident option"
  sv_dropoffWaypointId :: "ident option"
  sv_pickupCumulativePrice :: jsnum
  sv_dropCumulativePrice :: jsnum

subsection \<open>Cumulative prices\<close>

text \<open>
  The two inner \<open>while\<close> loops: the nearest priced index to the left of \<open>n\<close> in the prices filled so
  far, and the nearest one from \<open>n\<close> on in the prices given.
\<close>

fun seek_previous :: "jsnum option list \<Rightarrow> nat \<Rightarrow> nat option" where
  "seek_previous filled 0 = None"
| "seek_previous filled (Suc n) = (if filled ! n = None then seek_previous filled n else Some n)"

function seek_next :: "jsnum option list \<Rightarrow> nat \<Rightarrow> nat" where
  "seek_next prices n = (if n < length prices \<and> prices ! n = None then seek_next prices (Suc n) else n)"
  by pat_completeness auto

termination seek_next by (relation "measure (\<lambda>(prices, n). length prices - n)") auto

declare seek_next.simps [simp del]

definition interpolate :: "jsnum \<Rightarrow> jsnum \<Rightarrow> nat \<Rightarrow> nat \<Rightarrow> jsnum" where
  "interpolate previousPrice nextPrice gap offset =
     (let step = js_div (js_sub nextPrice previousPrice) (of_nat gap)
      in major (js_round (js_mul (js_add previousPrice (js_mul step (of_nat offset))) 100)))"

text \<open>One turn of the outer loop; without an anchor on either side the result is \<open>NaN\<close>, here \<open>None\<close>.\<close>

definition fill_index :: "jsnum option list \<Rightarrow> nat \<Rightarrow> jsnum option list \<Rightarrow> jsnum option list" where
  "fill_index prices index filled =
     (if filled ! index \<noteq> None then filled
      else (case seek_previous filled index of None \<Rightarrow> filled
        | Some previous \<Rightarrow>
            let next = seek_next prices (Suc index) in
            if length prices \<le> next then filled
            else filled[index := Some (interpolate (the (filled ! previous)) (the (prices ! next))
                   (next - previous) (index - previous))]))"

definition fillMissingCumulativePrices :: "jsnum option list \<Rightarrow> jsnum option list" where
  "fillMissingCumulativePrices prices = fold (fill_index prices) [0..<length prices] prices"

subsection \<open>Points and views\<close>

definition buildSegmentPoints :: "ride_row \<Rightarrow> segment_point list" where
  "buildSegmentPoints ride =
     (let segmentWaypoints = sort_key wp_orderIndex (r_waypoints ride);
          cumulativePrices = map the (fillMissingCumulativePrices
            (Some 0 # map wp_pricePerSeat segmentWaypoints @ [Some (r_basePricePerSeat ride)]));
          n = length segmentWaypoints
      in \<lparr>pt_ref = OriginRef, pt_waypointId = None, pt_waypointType = None,
           pt_cumulativePrice = cumulativePrices ! 0, pt_position = 0\<rparr>
         # map (\<lambda>(index, wp). \<lparr>pt_ref = WaypointRef (wp_id wp), pt_waypointId = Some (wp_id wp),
             pt_waypointType = Some (wp_waypointType wp),
             pt_cumulativePrice = cumulativePrices ! Suc index, pt_position = int index + 1\<rparr>)
             (zip [0..<n] segmentWaypoints)
         @ [\<lparr>pt_ref = DestinationRef, pt_waypointId = None, pt_waypointType = None,
             pt_cumulativePrice = cumulativePrices ! Suc n, pt_position = int n + 1\<rparr>])"

definition findPointByRef :: "segment_point list \<Rightarrow> point_ref \<Rightarrow> segment_point option" where
  "findPointByRef points ref = find (\<lambda>point. pt_ref point = ref) points"

datatype role = PickupRole | DropoffRole

definition normalizeFarePoint :: "segment_point list \<Rightarrow> segment_point \<Rightarrow> role \<Rightarrow> segment_point" where
  "normalizeFarePoint points point role =
     (if role = PickupRole \<and> pt_waypointType point = Some ''PICKUP'' then
        (case findPointByRef points OriginRef of Some p \<Rightarrow> p | None \<Rightarrow> point)
      else if role = DropoffRole \<and> pt_waypointType point = Some ''DROPOFF'' then
        (case findPointByRef points DestinationRef of Some p \<Rightarrow> p | None \<Rightarrow> point)
      else point)"

definition resolveSegmentView :: "segment_point list \<Rightarrow> point_ref \<Rightarrow> point_ref \<Rightarrow> segment_view option" where
  "resolveSegmentView points pickupRef dropRef =
     (case (findPointByRef points pickupRef, findPointByRef points dropRef) of
        (Some pickup, Some dropoff) \<Rightarrow>
          if pt_position pickup \<ge> pt_position dropoff then None
          else let farePickup = normalizeFarePoint points pickup PickupRole;
                   fareDrop = normalizeFarePoint points dropoff DropoffRole;
                   segmentFare = js_sub (pt_cumulativePrice fareDrop) (pt_cumulativePrice farePickup)
               in if segmentFare < 0 then None
                  else Some \<lparr>sv_basePricePerSeat = segmentFare,
                    sv_pickupWaypointId = pt_waypointId pickup, sv_dropoffWaypointId = pt_waypointId dropoff,
                    sv_pickupCumulativePrice = pt_cumulativePrice farePickup,
                    sv_dropCumulativePrice = pt_cumulativePrice fareDrop\<rparr>
      | _ \<Rightarrow> None)"

subsection \<open>The fill as one pass\<close>

text \<open>
  What the loops amount to when the first and the last point are priced: one pass from the left,
  an unpriced point a step further from its left neighbour, already filled, towards the next price.
\<close>

fun fill_from :: "jsnum \<Rightarrow> jsnum option list \<Rightarrow> jsnum list" where
  "fill_from previous [] = []"
| "fill_from previous (Some p # ps) = p # fill_from p ps"
| "fill_from previous (None # ps) =
     (let k = length (takeWhile (\<lambda>x. x = None) ps);
          v = interpolate previous (the (ps ! k)) (k + 2) 1
      in v # fill_from v ps)"

lemma seek_next_eq:
  "n \<le> length prices \<Longrightarrow> seek_next prices n = n + length (takeWhile (\<lambda>x. x = None) (drop n prices))"
proof (induction prices n rule: seek_next.induct)
  case (1 prices n)
  show ?case
  proof (cases "n < length prices")
    case True
    then have d: "drop n prices = prices ! n # drop (Suc n) prices" by (rule Cons_nth_drop_Suc[symmetric])
    show ?thesis
    proof (cases "prices ! n")
      case None
      with 1 True d show ?thesis by (simp add: seek_next.simps[of prices n])
    next
      case (Some a)
      with d show ?thesis by (simp add: seek_next.simps[of prices n])
    qed
  next
    case False
    then show ?thesis by (simp add: seek_next.simps[of prices n])
  qed
qed

lemma takeWhile_short:
  "xs \<noteq> [] \<Longrightarrow> last xs \<noteq> None \<Longrightarrow> length (takeWhile (\<lambda>x. x = None) xs) < length xs"
  by (induction xs) (auto split: if_splits)

lemma fill_index_at:
  assumes "ds \<noteq> []" and "drop (length ds) prices = None # ps" and "ps \<noteq> []" "last ps \<noteq> None"
    and "length ds < length prices"
  defines "k \<equiv> length (takeWhile (\<lambda>x. x = None) ps)"
  shows "fill_index prices (length ds) (map Some ds @ None # ps) =
    map Some ds @ Some (interpolate (last ds) (the (ps ! k)) (k + 2) 1) # ps"
proof -
  obtain m where m: "length ds = Suc m" using assms(1) by (cases ds) auto
  have dS: "drop (Suc (length ds)) prices = ps" using assms(2) by (metis drop_Suc drop_tl list.sel(3) tl_drop)
  have len: "length prices = Suc (length ds) + length ps"
    using assms(5) arg_cong[OF dS, of length] by simp
  have "k < length ps" unfolding k_def by (rule takeWhile_short[OF assms(3,4)])
  moreover have nxt: "seek_next prices (Suc (length ds)) = Suc (length ds) + k"
    using seek_next_eq[of "Suc (length ds)" prices] len dS by (simp add: k_def)
  moreover have "prices ! (Suc (length ds) + k) = ps ! k"
    using nth_drop[of "Suc (length ds)" prices k] len dS by simp
  moreover have "(map Some ds @ None # ps) ! m = Some (last ds)"
    using m by (simp add: nth_append last_conv_nth assms(1))
  ultimately show ?thesis
    using len m by (simp add: fill_index_def nth_append Let_def list_update_append)
qed

lemma fold_fill:
  assumes "ds \<noteq> []" "length ds \<le> length prices" "drop (length ds) prices \<noteq> [] \<longrightarrow> last prices \<noteq> None"
  shows "fold (fill_index prices) [length ds..<length prices] (map Some ds @ drop (length ds) prices) =
    map Some (ds @ fill_from (last ds) (drop (length ds) prices))"
  using assms
proof (induction "length prices - length ds" arbitrary: ds)
  case 0
  then show ?case by simp
next
  case (Suc n)
  then have lt: "length ds < length prices" by simp
  let ?ps = "drop (Suc (length ds)) prices"
  have d: "drop (length ds) prices = prices ! length ds # ?ps" using Cons_nth_drop_Suc[OF lt] by simp
  have up: "[length ds..<length prices] = length ds # [Suc (length ds)..<length prices]" using lt by (rule upt_conv_Cons)
  have l: "last prices \<noteq> None" using Suc.prems(3) d by simp
  have step: "fold (fill_index prices) [length ds..<length prices] (map Some ds @ drop (length ds) prices) =
      map Some (ds @ fill_from (last ds) (drop (length ds) prices))"
    if v: "fill_index prices (length ds) (map Some ds @ drop (length ds) prices) = map Some (ds @ [v]) @ ?ps"
      and f: "fill_from (last ds) (drop (length ds) prices) = v # fill_from v ?ps" for v
    using Suc.hyps(1)[of "ds @ [v]"] Suc.hyps(2) lt l v f by (simp add: up)
  show ?case
  proof (cases "prices ! length ds")
    case (Some p)
    then show ?thesis using d by (intro step[of p]) (simp_all add: fill_index_def nth_append)
  next
    case None
    have ne: "?ps \<noteq> []"
    proof
      assume "?ps = []"
      then have "length prices = Suc (length ds)" using lt by simp
      then have "last prices = prices ! length ds" using lt by (subst last_conv_nth) auto
      with l None show False by simp
    qed
    then have lp: "last ?ps \<noteq> None" using l by (simp add: last_drop)
    note at = fill_index_at[OF Suc.prems(1) _ ne lp lt]
    show ?thesis using at d None by (intro step) (simp_all add: Let_def)
  qed
qed

lemma fill_one_pass:
  assumes "ps \<noteq> []" "last ps \<noteq> None"
  shows "fillMissingCumulativePrices (Some p # ps) = map Some (p # fill_from p ps)"
proof -
  have up: "[0..<length (Some p # ps)] = 0 # [1..<length (Some p # ps)]"
    using upt_conv_Cons[of 0 "length (Some p # ps)"] by simp
  have "fillMissingCumulativePrices (Some p # ps) =
      fold (fill_index (Some p # ps)) [1..<length (Some p # ps)] (map Some [p] @ drop 1 (Some p # ps))"
    unfolding fillMissingCumulativePrices_def up by (simp add: fill_index_def)
  also have "\<dots> = map Some ([p] @ fill_from p ps)"
    using fold_fill[of "[p]" "Some p # ps"] assms by simp
  finally show ?thesis by simp
qed

subsection \<open>Interpolated prices\<close>

lemma cents_error:
  assumes "0 \<le> k" "k \<le> 2 ^ 40"
  shows "\<bar>major k - of_int k / 100\<bar> \<le> 1 / 500000" "0 \<le> (of_int k / 100 :: rat)" "of_int k / 100 \<le> (10995116278 :: rat)"
proof -
  have "(of_int k :: rat) \<le> of_int (2 ^ 40)" using assms(2) by (simp only: of_int_le_iff)
  then show b: "of_int k / 100 \<le> (10995116278 :: rat)" by simp
  show z: "0 \<le> (of_int k / 100 :: rat)" using assms(1) by simp
  have "\<bar>major k - of_int k / 100\<bar> \<le> 10995116278 / 2 ^ 53"
    unfolding major_def js_div_def using b z by (intro js.fl_error_bound) simp
  then show "\<bar>major k - of_int k / 100\<bar> \<le> 1 / 500000" by simp
qed

lemma fl_close: "\<bar>x\<bar> \<le> 10995116279 \<Longrightarrow> \<bar>fl64 x - x\<bar> \<le> 1 / 500000"
  using js.fl_error_bound[of x 10995116279] by simp

lemma interpolate_between:
  assumes "0 \<le> a" "a \<le> b" "b \<le> 2 ^ 40" "1 \<le> g"
  shows "\<exists>c. interpolate (major a) (major b) g 1 = major c \<and> a \<le> c \<and> c \<le> b"
proof -
  define A B :: rat where "A = of_int a / 100" and "B = of_int b / 100"
  define G :: rat where "G = of_nat g"
  have G: "1 \<le> G" using assms(4) by (simp add: G_def)
  have ea: "\<bar>major a - A\<bar> \<le> 1 / 500000" "0 \<le> A" and eb: "\<bar>major b - B\<bar> \<le> 1 / 500000" "B \<le> 10995116278"
    unfolding A_def B_def by (rule cents_error; use assms in linarith)+
  have AB: "A \<le> B" unfolding A_def B_def using assms(2) by simp
  define d where "d = js_sub (major b) (major a)"
  have dd: "\<bar>d - (B - A)\<bar> \<le> 3 / 500000"
  proof -
    have "\<bar>d - (major b - major a)\<bar> \<le> 1 / 500000"
      unfolding d_def js_sub_def by (rule fl_close) (use ea eb AB in linarith)
    then show ?thesis using ea eb by linarith
  qed
  have quotient: "\<bar>d / G\<bar> \<le> \<bar>d\<bar>"
  proof -
    have "\<bar>d / G\<bar> = \<bar>d\<bar> / G" using G by simp
    also have "\<dots> \<le> \<bar>d\<bar> / 1" using G by (intro divide_left_mono) auto
    finally show ?thesis by simp
  qed
  define s where "s = js_div d G"
  have ss: "\<bar>s - d / G\<bar> \<le> 1 / 500000"
    unfolding s_def js_div_def by (rule fl_close) (use quotient dd ea eb AB in linarith)
  have dG: "0 - 3 / 500000 \<le> d / G" "d / G \<le> B - A + 3 / 500000"
  proof -
    have lo: "0 - 3 / 500000 \<le> d" "d \<le> B - A + 3 / 500000" using dd AB by linarith+
    have sign: "0 \<le> d \<Longrightarrow> 0 \<le> d / G" "d \<le> 0 \<Longrightarrow> d / G \<le> 0"
      using G by (simp_all add: divide_nonneg_pos divide_nonpos_pos)
    show "0 - 3 / 500000 \<le> d / G" using lo sign quotient by linarith
    show "d / G \<le> B - A + 3 / 500000" using lo sign quotient AB by linarith
  qed
  define t where "t = js_mul s 1"
  have tt: "\<bar>t - s\<bar> \<le> 1 / 500000"
  proof -
    have "\<bar>s\<bar> \<le> 10995116279" using ss dG ea eb AB by linarith
    from fl_close[OF this] show ?thesis unfolding t_def js_mul_def by simp
  qed
  define x where "x = js_add (major a) t"
  have xx: "\<bar>x - (major a + t)\<bar> \<le> 1 / 500000"
    unfolding x_def js_add_def by (rule fl_close) (use tt ss dG ea eb AB in linarith)
  define y where "y = js_mul x 100"
  have yy: "\<bar>y - x * 100\<bar> \<le> 1 / 5000"
  proof -
    have "\<bar>x * 100\<bar> \<le> 1099511627900" using xx tt ss dG ea eb AB by linarith
    from js.fl_error_bound[OF this] show ?thesis unfolding y_def js_mul_def by simp
  qed
  have "of_int a - 1 / 4 \<le> y" "y \<le> of_int b + 1 / 4"
    using yy xx tt ss dG ea eb unfolding A_def B_def by linarith+
  then have "a \<le> js_round y" "js_round y \<le> b" unfolding js_round_def by linarith+
  moreover have "interpolate (major a) (major b) g 1 = major (js_round y)"
    unfolding interpolate_def y_def x_def t_def s_def d_def G_def Let_def by simp
  ultimately show ?thesis by blast
qed

text \<open>Prices given in whole cents that never fall along the route.\<close>

fun rising :: "int \<Rightarrow> jsnum option list \<Rightarrow> bool" where
  "rising a [] \<longleftrightarrow> True"
| "rising a (None # ps) \<longleftrightarrow> rising a ps"
| "rising a (Some p # ps) \<longleftrightarrow> p = major (cents p) \<and> a \<le> cents p \<and> cents p \<le> 2 ^ 40 \<and> rising (cents p) ps"

lemma rising_next:
  assumes "rising a ps" "ps \<noteq> []" "last ps \<noteq> None"
  defines "k \<equiv> length (takeWhile (\<lambda>x. x = None) ps)"
  shows "\<exists>b. ps ! k = Some (major b) \<and> a \<le> b \<and> b \<le> 2 ^ 40"
  using assms(1-3) unfolding k_def
proof (induction ps)
  case (Cons x ps)
  show ?case
  proof (cases x)
    case None
    with Cons.prems have "rising a ps" "ps \<noteq> []" "last ps \<noteq> None" by (auto split: if_splits)
    from Cons.IH[OF this] None show ?thesis by simp
  next
    case (Some p)
    with Cons.prems show ?thesis by (auto intro!: exI[of _ "cents p"])
  qed
qed simp

lemma rising_weaken: "rising b ps \<Longrightarrow> a \<le> b \<Longrightarrow> rising a ps"
proof (induction ps arbitrary: b)
  case (Cons x ps)
  then show ?case by (cases x) auto
qed simp

text \<open>A filled-in price lies below the next given one, so what follows is still rising.\<close>

lemma rising_step:
  assumes "rising a ps" "ps ! length (takeWhile (\<lambda>x. x = None) ps) = Some (major b)" "c \<le> b"
    and "ps \<noteq> []" "last ps \<noteq> None" "0 \<le> a" "a \<le> b" "b \<le> 2 ^ 40"
  shows "rising c ps"
  using assms
proof (induction ps)
  case (Cons x ps)
  show ?case
  proof (cases x)
    case None
    with Cons.prems have "ps \<noteq> []" "last ps \<noteq> None" by (auto split: if_splits)
    then show ?thesis using Cons None by simp
  next
    case (Some p)
    then have p: "p = major b" using Cons.prems(2) by simp
    have "safe_cents b" using Cons.prems(6-8) by simp
    then show ?thesis using Cons.prems(1,3) Some p by auto
  qed
qed simp

lemma fill_from_rising:
  assumes "rising a ps" "ps = [] \<or> last ps \<noteq> None" "0 \<le> a"
  shows "\<exists>cs. fill_from (major a) ps = map major cs \<and> sorted (a # cs) \<and> (\<forall>c \<in> set cs. c \<le> 2 ^ 40)"
  using assms
proof (induction ps arbitrary: a)
  case (Cons x ps)
  show ?case
  proof (cases x)
    case None
    with Cons.prems have ps: "rising a ps" "ps \<noteq> []" "last ps \<noteq> None" by (auto split: if_splits)
    let ?k = "length (takeWhile (\<lambda>x. x = None) ps)"
    obtain b where b: "ps ! ?k = Some (major b)" "a \<le> b" "b \<le> 2 ^ 40" using rising_next[OF ps] by blast
    obtain c where c: "interpolate (major a) (major b) (?k + 2) 1 = major c" "a \<le> c" "c \<le> b"
      using interpolate_between[OF Cons.prems(3) b(2,3), of "?k + 2"] by auto
    have "rising c ps" by (rule rising_step[OF ps(1) b(1) c(3) ps(2,3) Cons.prems(3) b(2,3)])
    then obtain cs where cs: "fill_from (major c) ps = map major cs" "sorted (c # cs)" "\<forall>c \<in> set cs. c \<le> 2 ^ 40"
      using Cons.IH[of c] ps(3) c(2) Cons.prems(3) by auto
    have "fill_from (major a) (x # ps) = map major (c # cs)" using None b(1) c(1) cs(1) by (simp add: Let_def)
    then show ?thesis using cs c b(3) by (intro exI[of _ "c # cs"]) auto
  next
    case (Some p)
    with Cons.prems have p: "p = major (cents p)" "a \<le> cents p" "cents p \<le> 2 ^ 40" "rising (cents p) ps"
      "ps = [] \<or> last ps \<noteq> None" by auto
    then obtain cs where cs: "fill_from (major (cents p)) ps = map major cs" "sorted (cents p # cs)" "\<forall>c \<in> set cs. c \<le> 2 ^ 40"
      using Cons.IH[of "cents p"] Cons.prems(3) by auto
    have "fill_from (major a) (x # ps) = map major (cents p # cs)" using Some p(1) cs(1) by simp
    then show ?thesis using cs p by (intro exI[of _ "cents p # cs"]) auto
  qed
qed simp

subsection \<open>Fares of the legs of a route\<close>

definition route_prices :: "ride_row \<Rightarrow> jsnum option list" where
  "route_prices ride = map wp_pricePerSeat (sort_key wp_orderIndex (r_waypoints ride)) @ [Some (r_basePricePerSeat ride)]"

definition priced_route :: "ride_row \<Rightarrow> bool" where
  "priced_route ride \<longleftrightarrow> rising 0 (route_prices ride)"

lemma length_fill_from [simp]: "length (fill_from p ps) = length ps"
  by (induction p ps rule: fill_from.induct) (simp_all add: Let_def)

lemma fill_from_Nil_iff [simp]: "fill_from p ps = [] \<longleftrightarrow> ps = []"
  by (metis length_fill_from length_0_conv)

lemma last_fill_from: "ps \<noteq> [] \<Longrightarrow> last ps = Some x \<Longrightarrow> last (fill_from p ps) = x"
proof (induction p ps rule: fill_from.induct)
  case (2 previous p ps)
  then show ?case by (cases ps) auto
next
  case (3 previous ps)
  then have "ps \<noteq> []" by auto
  with 3 show ?case by (simp add: Let_def)
qed simp

lemma cumulative_prices:
  assumes "priced_route ride"
  shows "\<exists>cs. map the (fillMissingCumulativePrices (Some 0 # route_prices ride)) = map major (0 # cs) \<and>
    sorted (0 # cs) \<and> length cs = Suc (length (r_waypoints ride)) \<and> (\<forall>c \<in> set cs. c \<le> 2 ^ 40) \<and>
    last cs = cents (r_basePricePerSeat ride)"
proof -
  let ?ps = "route_prices ride"
  have ps: "?ps \<noteq> []" "last ?ps = Some (r_basePricePerSeat ride)" by (simp_all add: route_prices_def)
  obtain cs where cs: "fill_from (major 0) ?ps = map major cs" "sorted (0 # cs)" "\<forall>c \<in> set cs. c \<le> 2 ^ 40"
    using fill_from_rising[of 0 ?ps] assms ps by (auto simp: priced_route_def)
  have len: "length cs = Suc (length (r_waypoints ride))"
    using arg_cong[OF cs(1), of length] by (simp add: route_prices_def)
  then have ne: "cs \<noteq> []" by auto
  have "major (last cs) = r_basePricePerSeat ride"
    using last_fill_from[OF ps, of "major 0"] cs(1) ne by (simp add: last_map)
  moreover have "safe_cents (last cs)" using cs(2,3) ne last_in_set[OF ne] by fastforce
  ultimately have l: "last cs = cents (r_basePricePerSeat ride)" by (metis cents_major)
  have "fillMissingCumulativePrices (Some 0 # ?ps) = map Some (major 0 # map major cs)"
    using fill_one_pass[of ?ps 0] ps cs(1) by simp
  then have "map the (fillMissingCumulativePrices (Some 0 # ?ps)) = map major (0 # cs)" by (simp add: comp_def)
  with cs len l show ?thesis by blast
qed

text \<open>The \<open>i\<close>-th point carries the \<open>i\<close>-th cumulative price.\<close>

lemma buildSegmentPoints_eq:
  assumes "map the (fillMissingCumulativePrices (Some 0 # route_prices ride)) = map major cs"
    and "length cs = Suc (Suc (length (r_waypoints ride)))"
  shows "buildSegmentPoints ride =
    \<lparr>pt_ref = OriginRef, pt_waypointId = None, pt_waypointType = None,
      pt_cumulativePrice = major (cs ! 0), pt_position = 0\<rparr>
    # map (\<lambda>(index, wp). \<lparr>pt_ref = WaypointRef (wp_id wp), pt_waypointId = Some (wp_id wp),
        pt_waypointType = Some (wp_waypointType wp),
        pt_cumulativePrice = major (cs ! Suc index), pt_position = int index + 1\<rparr>)
        (zip [0..<length (r_waypoints ride)] (sort_key wp_orderIndex (r_waypoints ride)))
    @ [\<lparr>pt_ref = DestinationRef, pt_waypointId = None, pt_waypointType = None,
        pt_cumulativePrice = major (cs ! Suc (length (r_waypoints ride))), pt_position = int (length (r_waypoints ride)) + 1\<rparr>]"
  using assms unfolding buildSegmentPoints_def route_prices_def
  by (auto simp: Let_def set_zip intro!: map_cong)

lemma point_price:
  assumes "map the (fillMissingCumulativePrices (Some 0 # route_prices ride)) = map major cs"
    and "length cs = Suc (Suc (length (r_waypoints ride)))"
    and "q \<in> set (buildSegmentPoints ride)"
  shows "\<exists>i. pt_position q = int i \<and> i < length cs \<and> pt_cumulativePrice q = major (cs ! i)"
proof -
  let ?n = "length (r_waypoints ride)"
  have "(pt_position q = 0 \<and> pt_cumulativePrice q = major (cs ! 0)) \<or>
      (\<exists>i < ?n. pt_position q = int (Suc i) \<and> pt_cumulativePrice q = major (cs ! Suc i)) \<or>
      (pt_position q = int (Suc ?n) \<and> pt_cumulativePrice q = major (cs ! Suc ?n))"
    using assms(3) unfolding buildSegmentPoints_eq[OF assms(1,2)] by (fastforce simp: set_zip)
  then show ?thesis using assms(2) by (metis less_Suc_eq of_nat_0 zero_less_Suc Suc_less_eq lessI)
qed

lemma findPoint_mem: "findPointByRef ps x = Some q \<Longrightarrow> q \<in> set ps"
  unfolding findPointByRef_def by (drule find_Some_mem) simp

lemma origin_destination:
  assumes "map the (fillMissingCumulativePrices (Some 0 # route_prices ride)) = map major cs"
    and "length cs = Suc (Suc (length (r_waypoints ride)))"
  shows "\<exists>p. findPointByRef (buildSegmentPoints ride) OriginRef = Some p \<and> pt_cumulativePrice p = major (cs ! 0)"
    "\<exists>p. findPointByRef (buildSegmentPoints ride) DestinationRef = Some p \<and>
       pt_cumulativePrice p = major (cs ! Suc (length (r_waypoints ride)))"
proof -
  have skip: "(\<And>q. q \<in> set ps \<Longrightarrow> pt_ref q \<noteq> DestinationRef) \<Longrightarrow>
      find (\<lambda>q. pt_ref q = DestinationRef) (ps @ [z]) = find (\<lambda>q. pt_ref q = DestinationRef) [z]" for ps z
    by (induction ps) auto
  show "\<exists>p. findPointByRef (buildSegmentPoints ride) DestinationRef = Some p \<and>
       pt_cumulativePrice p = major (cs ! Suc (length (r_waypoints ride)))"
    unfolding findPointByRef_def buildSegmentPoints_eq[OF assms]
    by (subst find.simps, simp, subst skip) auto
qed (simp add: findPointByRef_def buildSegmentPoints_eq[OF assms])

text \<open>The prices a leg is charged by: in cents, between nothing and the full fare, in route order.\<close>

lemma fare_points:
  assumes "priced_route ride" "findPointByRef (buildSegmentPoints ride) x = Some p"
    "findPointByRef (buildSegmentPoints ride) y = Some q" "pt_position p < pt_position q"
  shows "\<exists>a b. pt_cumulativePrice (normalizeFarePoint (buildSegmentPoints ride) p PickupRole) = major a \<and>
    pt_cumulativePrice (normalizeFarePoint (buildSegmentPoints ride) q DropoffRole) = major b \<and>
    0 \<le> a \<and> a \<le> b \<and> b \<le> cents (r_basePricePerSeat ride) \<and> b \<le> 2 ^ 40"
proof -
  obtain cs where cs: "map the (fillMissingCumulativePrices (Some 0 # route_prices ride)) = map major (0 # cs)"
    "sorted (0 # cs)" "length cs = Suc (length (r_waypoints ride))" "\<forall>c \<in> set cs. c \<le> 2 ^ 40"
    "last cs = cents (r_basePricePerSeat ride)" using cumulative_prices[OF assms(1)] by blast
  let ?c = "\<lambda>i. (0 # cs) ! i" and ?n = "Suc (length (r_waypoints ride))"
  have price: "\<exists>i. pt_position z = int i \<and> i \<le> ?n \<and> pt_cumulativePrice z = major (?c i)"
    if "findPointByRef (buildSegmentPoints ride) u = Some z" for u z
    using point_price[OF cs(1) _ findPoint_mem[OF that]] cs(3) by fastforce
  obtain i where i: "pt_position p = int i" "i \<le> ?n" "pt_cumulativePrice p = major (?c i)" using price[OF assms(2)] by blast
  obtain j where j: "pt_position q = int j" "j \<le> ?n" "pt_cumulativePrice q = major (?c j)" using price[OF assms(3)] by blast
  have ij: "i < j" using i(1) j(1) assms(4) by simp
  have mono: "?c k \<le> ?c l" if "k \<le> l" "l \<le> ?n" for k l
    using sorted_nth_mono[OF cs(2) that(1)] that(2) cs(3) by simp
  have top: "?c ?n = cents (r_basePricePerSeat ride)"
    using cs(3,5) by (metis last_conv_nth length_0_conv nat.simps(3) nth_Cons_Suc diff_Suc_1)
  have hi: "?c ?n \<le> 2 ^ 40" using cs(3,4) by simp
  have P: "\<exists>k. k \<le> i \<and> pt_cumulativePrice (normalizeFarePoint (buildSegmentPoints ride) p PickupRole) = major (?c k)"
    using i origin_destination(1)[OF cs(1)] cs(3) by (cases "pt_waypointType p = Some ''PICKUP''") (auto simp: normalizeFarePoint_def)
  have Q: "\<exists>l. j \<le> l \<and> l \<le> ?n \<and> pt_cumulativePrice (normalizeFarePoint (buildSegmentPoints ride) q DropoffRole) = major (?c l)"
  proof (cases "pt_waypointType q = Some ''DROPOFF''")
    case True
    then show ?thesis using j cs(3) origin_destination(2)[OF cs(1)]
      by (intro exI[of _ ?n]) (auto simp: normalizeFarePoint_def)
  next
    case False
    then show ?thesis using j by (intro exI[of _ j]) (simp add: normalizeFarePoint_def)
  qed
  obtain k l where k: "k \<le> i" "pt_cumulativePrice (normalizeFarePoint (buildSegmentPoints ride) p PickupRole) = major (?c k)"
    and l: "j \<le> l" "l \<le> ?n" "pt_cumulativePrice (normalizeFarePoint (buildSegmentPoints ride) q DropoffRole) = major (?c l)"
    using P Q by blast
  have "0 \<le> ?c k" using mono[of 0 k] k(1) i(2) by simp
  moreover have "?c k \<le> ?c l" by (rule mono) (use k l ij in simp_all)
  moreover have "?c l \<le> ?c ?n" by (rule mono) (use l in simp_all)
  ultimately show ?thesis using k l top hi by (intro exI[of _ "?c k"] exI[of _ "?c l"]) simp
qed

lemma forward_leg:
  assumes "priced_route ride" "findPointByRef (buildSegmentPoints ride) x = Some p"
    "findPointByRef (buildSegmentPoints ride) y = Some q" "pt_position p < pt_position q"
  shows "\<exists>v. resolveSegmentView (buildSegmentPoints ride) x y = Some v \<and>
    cents (sv_basePricePerSeat v) = cents (pt_cumulativePrice (normalizeFarePoint (buildSegmentPoints ride) q DropoffRole)) -
      cents (pt_cumulativePrice (normalizeFarePoint (buildSegmentPoints ride) p PickupRole)) \<and>
    0 \<le> cents (sv_basePricePerSeat v) \<and> cents (sv_basePricePerSeat v) \<le> cents (r_basePricePerSeat ride)"
proof -
  obtain a b where ab: "pt_cumulativePrice (normalizeFarePoint (buildSegmentPoints ride) p PickupRole) = major a"
    "pt_cumulativePrice (normalizeFarePoint (buildSegmentPoints ride) q DropoffRole) = major b"
    "0 \<le> a" "a \<le> b" "b \<le> cents (r_basePricePerSeat ride)" "b \<le> 2 ^ 40"
    using fare_points[OF assms] by blast
  have c: "cents (js_sub (major b) (major a)) = b - a" using ab by (intro cents_js_sub_major) simp_all
  have "major a \<le> major b"
  proof (cases "a = b")
    case False
    then have "(of_int a / 100 :: rat) + 1 / 100 \<le> of_int b / 100"
      using ab(4) by (simp add: field_simps flip: of_int_add)
    then show ?thesis using cents_error(1)[of a] cents_error(1)[of b] ab by linarith
  qed simp
  then have "\<not> js_sub (major b) (major a) < 0" by (simp add: js_sub_def js.fl_nonneg not_less)
  then show ?thesis using assms ab c by (simp add: resolveSegmentView_def Let_def)
qed

subsection \<open>Properties\<close>

lemma normalize_stop:
  assumes "pt_waypointType p \<noteq> Some ''PICKUP''" "pt_waypointType p \<noteq> Some ''DROPOFF''"
  shows "normalizeFarePoint ps p r = p"
  using assms by (simp add: normalizeFarePoint_def)

text \<open>
  C39. On a ride whose given prices are whole cents and never fall along the route, two forward legs that meet at the origin, the
  destination or a stopover, that is not at a pickup or drop-off point (those are priced from the ends of the route), can both
  be bought, whichever stops were priced by interpolation: neither fare is negative, the joint leg costs at most the full
  fare, and travelling to the stop and on from it costs to the cent what the joint leg costs.
\<close>

theorem segment_fares_add_up:
  assumes "priced_route ride" and "points = buildSegmentPoints ride"
    and "findPointByRef points x = Some p" "findPointByRef points y = Some q" "findPointByRef points z = Some s"
    and "pt_position p < pt_position q" "pt_position q < pt_position s"
    and "pt_waypointType q \<noteq> Some ''PICKUP''" "pt_waypointType q \<noteq> Some ''DROPOFF''"
  shows "\<exists>u v t. resolveSegmentView points x y = Some u \<and> resolveSegmentView points y z = Some v \<and>
    resolveSegmentView points x z = Some t \<and>
    cents (sv_basePricePerSeat u) + cents (sv_basePricePerSeat v) = cents (sv_basePricePerSeat t) \<and>
    0 \<le> cents (sv_basePricePerSeat u) \<and> 0 \<le> cents (sv_basePricePerSeat v) \<and>
    cents (sv_basePricePerSeat t) \<le> cents (r_basePricePerSeat ride)"
proof -
  note f = assms(3-5)[unfolded assms(2)] and stop = normalize_stop[OF assms(8,9)]
  have "pt_position p < pt_position s" using assms(6,7) by simp
  from forward_leg[OF assms(1) f(1,2) assms(6)] forward_leg[OF assms(1) f(2,3) assms(7)]
    forward_leg[OF assms(1) f(1,3) this] stop
  show ?thesis unfolding assms(2) by fastforce
qed

definition stopover_ride :: ride_row where
  "stopover_ride = sample_ride\<lparr>r_waypoints :=
     [\<lparr>wp_id = ''w1'', wp_waypointType = ''STOPOVER'', wp_orderIndex = 0, wp_pricePerSeat = None\<rparr>],
     r_basePricePerSeat := major 1500\<rparr>"

theorem segment_fares_add_up_witness:
  "\<exists>u v t. resolveSegmentView (buildSegmentPoints stopover_ride) OriginRef (WaypointRef ''w1'') = Some u \<and>
    resolveSegmentView (buildSegmentPoints stopover_ride) (WaypointRef ''w1'') DestinationRef = Some v \<and>
    resolveSegmentView (buildSegmentPoints stopover_ride) OriginRef DestinationRef = Some t \<and>
    cents (sv_basePricePerSeat u) + cents (sv_basePricePerSeat v) = cents (sv_basePricePerSeat t) \<and>
    0 \<le> cents (sv_basePricePerSeat u) \<and> 0 \<le> cents (sv_basePricePerSeat v) \<and>
    cents (sv_basePricePerSeat t) \<le> cents (r_basePricePerSeat stopover_ride)"
proof -
  note defs = stopover_ride_def findPointByRef_def buildSegmentPoints_def Let_def
  have pr: "priced_route stopover_ride" by (simp add: priced_route_def route_prices_def stopover_ride_def)
  obtain p where p: "findPointByRef (buildSegmentPoints stopover_ride) OriginRef = Some p" "pt_position p = 0"
    by (simp add: defs)
  obtain q where q: "findPointByRef (buildSegmentPoints stopover_ride) (WaypointRef ''w1'') = Some q"
    "pt_position q = 1" "pt_waypointType q = Some ''STOPOVER''" by (simp add: defs)
  obtain s where s: "findPointByRef (buildSegmentPoints stopover_ride) DestinationRef = Some s" "pt_position s = 2"
    by (simp add: defs)
  show ?thesis by (rule segment_fares_add_up[OF pr refl p(1) q(1) s(1)]) (simp_all add: p q s)
qed

text \<open>
  C40. The nested search loops of \<open>fillMissingCumulativePrices\<close> amount to a single pass from the left:
  when the first and last prices are given nothing stays unpriced, given prices stay, and each gap is
  spread evenly from the left neighbour just filled to the next given price, a cent at a time.
\<close>

theorem fill_is_one_pass:
  assumes "ps \<noteq> []" "last ps \<noteq> None"
  shows "fillMissingCumulativePrices (Some p # ps) = map Some (p # fill_from p ps)"
  by (rule fill_one_pass[OF assms])

theorem fill_is_one_pass_witness:
  "fillMissingCumulativePrices [Some 0, None, Some 9] = [Some 0, Some (interpolate 0 9 2 1), Some 9]"
  using fill_is_one_pass[of "[None, Some 9]" 0] by (simp add: Let_def numeral_2_eq_2)

end
