(* ===== verification/Seats.thy ===== *)
theory Seats
  imports Store
begin

text \<open>
  Seat capacity, \<open>src/src/modules/ride-booking/segment-capacity.utils.ts\<close>. Capacity is counted for
  the whole ride: \<open>availableSeats = totalSeats -\<close> seats of the bookings whose \<open>seatsReservedAt\<close> is
  set. \<open>seat_inv\<close> is that equation together with the key constraints of the schema,
  \<open>occupancy_inv\<close> says that each segment row counts the seats held across it.
\<close>

subsection \<open>The operations\<close>

text \<open>\<open>SELECT ... FOR UPDATE\<close> on the ride row: operations on one ride take turns, nothing is written.\<close>

definition lockRideForSeats :: "ident \<Rightarrow> (world, unit) op" where
  "lockRideForSeats rideId = ret ()"

definition heldSeats :: "ident \<Rightarrow> ident option \<Rightarrow> world \<Rightarrow> int" where
  "heldSeats rideId excludeBookingId w =
     sum_where (\<lambda>b. b_rideId b = rideId \<and> b_seatsReservedAt b \<noteq> None \<and>
       (case excludeBookingId of None \<Rightarrow> True | Some x \<Rightarrow> b_id b \<noteq> x)) b_seatsBooked (bookings w)"

definition recomputeAvailableSeats :: "ident \<Rightarrow> int \<Rightarrow> (world, int) op" where
  "recomputeAvailableSeats rideId totalSeats =
     andThen (gets (heldSeats rideId None)) (\<lambda>held.
       let available = max 0 (totalSeats - held)
       in andDo (updateRide rideId (\<lambda>r. r\<lparr>r_availableSeats := available\<rparr>)) (ret available))"

record seats_input =
  si_rideId :: ident
  si_seatsBooked :: int
  si_pickupPosition :: "int option"
  si_dropoffPosition :: "int option"
  si_totalSeats :: int
  si_bookingId :: "ident option"

definition bookedRange :: "ident \<Rightarrow> int \<Rightarrow> int \<Rightarrow> segment_row \<Rightarrow> bool" where
  "bookedRange rideId pickupPosition dropoffPosition s \<longleftrightarrow>
     s_rideId s = rideId \<and> pickupPosition \<le> s_fromPosition s \<and> s_toPosition s \<le> dropoffPosition"

definition releaseSegmentSeats :: "seats_input \<Rightarrow> (world, unit) op" where
  "releaseSegmentSeats i =
     andDo (lockRideForSeats (si_rideId i))
     (andDo (case (si_pickupPosition i, si_dropoffPosition i) of
               (Some from, Some to) \<Rightarrow>
                 andDo (updateSegments
                   (\<lambda>s. bookedRange (si_rideId i) from to s \<and> s_occupiedSeats s \<ge> si_seatsBooked i)
                   (\<lambda>s. s\<lparr>s_occupiedSeats := s_occupiedSeats s - si_seatsBooked i\<rparr>)) (ret ())
             | _ \<Rightarrow> ret ())
     (andDo (recomputeAvailableSeats (si_rideId i) (si_totalSeats i)) (ret ())))"

definition reserveRideSeats :: "seats_input \<Rightarrow> (world, unit) op" where
  "reserveRideSeats i =
     andDo (lockRideForSeats (si_rideId i))
     (andThen (gets (heldSeats (si_rideId i) (si_bookingId i))) (\<lambda>held.
      andDo (ensure (\<not> held + si_seatsBooked i > si_totalSeats i) INSUFFICIENT_SEATS)
     (andDo (case (si_pickupPosition i, si_dropoffPosition i) of
               (Some from, Some to) \<Rightarrow>
                 andDo (updateSegments (bookedRange (si_rideId i) from to)
                   (\<lambda>s. s\<lparr>s_occupiedSeats := s_occupiedSeats s + si_seatsBooked i\<rparr>)) (ret ())
             | _ \<Rightarrow> ret ())
      (updateRide (si_rideId i) (\<lambda>r. r\<lparr>r_availableSeats := si_totalSeats i - held - si_seatsBooked i\<rparr>)))))"

definition releaseBookingSeats :: "ident \<Rightarrow> seats_input \<Rightarrow> (world, bool) op" where
  "releaseBookingSeats bookingId i =
     andThen (updateBookings (\<lambda>b. b_id b = bookingId \<and> b_seatsReservedAt b \<noteq> None)
                (\<lambda>b. b\<lparr>b_seatsReservedAt := None\<rparr>)) (\<lambda>claimed.
     if claimed = 0 then ret False
     else andDo (releaseSegmentSeats i) (ret True))"

fun sumReservedSeats :: "booking_row list \<Rightarrow> int" where
  "sumReservedSeats [] = 0"
| "sumReservedSeats (b # bs) =
     (if b_seatsReservedAt b \<noteq> None then b_seatsBooked b else 0) + sumReservedSeats bs"

subsection \<open>Sums over the bookings that hold seats\<close>

definition sum_held :: "(booking_row \<Rightarrow> bool) \<Rightarrow> world \<Rightarrow> int" where
  "sum_held q w = sum_where (\<lambda>b. b_seatsReservedAt b \<noteq> None \<and> q b) b_seatsBooked (bookings w)"

lemma heldSeats_None: "heldSeats rid None w = sum_held (\<lambda>b. b_rideId b = rid) w"
  by (simp add: heldSeats_def sum_held_def conj_commute)

lemma heldSeats_Some: "heldSeats rid (Some x) w = sum_held (\<lambda>b. b_rideId b = rid \<and> b_id b \<noteq> x) w"
  unfolding heldSeats_def sum_held_def by (rule sum_where_cong) auto

lemma sumReservedSeats_eq: "sumReservedSeats bs = sum_where (\<lambda>b. b_seatsReservedAt b \<noteq> None) b_seatsBooked bs"
  by (induction bs) auto

lemma sum_held_update:
  assumes "distinct (map b_id (bookings w))" "b \<in> set (bookings w)"
  shows "sum_held q (w\<lparr>bookings := update_where (\<lambda>y. b_id y = b_id b) f (bookings w)\<rparr>) =
    sum_held q w - (if b_seatsReservedAt b \<noteq> None \<and> q b then b_seatsBooked b else 0)
      + (if b_seatsReservedAt (f b) \<noteq> None \<and> q (f b) then b_seatsBooked (f b) else 0)"
  unfolding sum_held_def by (simp add: sum_where_update_key[OF assms])

subsection \<open>The invariants\<close>

definition seat_inv :: "(ride_status \<Rightarrow> bool) \<Rightarrow> world \<Rightarrow> bool" where
  "seat_inv P w \<longleftrightarrow>
     distinct (map b_id (bookings w)) \<and> distinct (map r_id (rides w)) \<and>
     (\<forall>b \<in> set (bookings w). 1 \<le> b_seatsBooked b \<and> b_rideId b \<in> r_id ` set (rides w)) \<and>
     (\<forall>r \<in> set (rides w). sum_held (\<lambda>b. b_rideId b = r_id r) w \<le> r_totalSeats r \<and>
        (P (r_status r) \<longrightarrow>
           r_availableSeats r = r_totalSeats r - sum_held (\<lambda>b. b_rideId b = r_id r) w))"

definition covers :: "segment_row \<Rightarrow> booking_row \<Rightarrow> bool" where
  "covers s b \<longleftrightarrow>
     (case (b_pickupPosition b, b_dropoffPosition b) of
        (Some from, Some to) \<Rightarrow> bookedRange (b_rideId b) from to s | _ \<Rightarrow> False)"

definition occupancy_inv :: "(ride_status \<Rightarrow> bool) \<Rightarrow> world \<Rightarrow> bool" where
  "occupancy_inv P w \<longleftrightarrow>
     (\<forall>s \<in> set (segments w).
        (\<exists>r \<in> set (rides w). r_id r = s_rideId s \<and> P (r_status r)) \<longrightarrow>
        s_occupiedSeats s = sum_held (covers s) w)"

abbreviation capacity_for :: "(ride_status \<Rightarrow> bool) \<Rightarrow> world \<Rightarrow> bool" where
  "capacity_for P w \<equiv> seat_inv P w \<and> occupancy_inv P w"

abbreviation capacity_inv :: "world \<Rightarrow> bool" where
  "capacity_inv \<equiv> capacity_for (\<lambda>s. s \<noteq> RIDE_CANCELLED)"

text \<open>The columns the invariants depend on.\<close>

definition booking_view :: "booking_row \<Rightarrow> ident \<times> ident \<times> int \<times> bool \<times> int option \<times> int option" where
  "booking_view b = (b_id b, b_rideId b, b_seatsBooked b, b_seatsReservedAt b \<noteq> None,
     b_pickupPosition b, b_dropoffPosition b)"

definition ride_view :: "(ride_status \<Rightarrow> bool) \<Rightarrow> ride_row \<Rightarrow> ident \<times> int \<times> int \<times> bool" where
  "ride_view P r = (r_id r, r_totalSeats r, r_availableSeats r, P (r_status r))"

definition seat_view ::
  "(ride_status \<Rightarrow> bool) \<Rightarrow> world \<Rightarrow> (ident \<times> ident \<times> int \<times> bool \<times> int option \<times> int option) list \<times> (ident \<times> int \<times> int \<times> bool) list \<times> segment_row list" where
  "seat_view P w = (map booking_view (bookings w), map (ride_view P) (rides w), segments w)"

lemma map_view_booking_id:
  assumes "map booking_view xs = map booking_view ys"
  shows "map b_id xs = map b_id ys"
proof -
  have "map fst (map booking_view xs) = map fst (map booking_view ys)" using assms by simp
  then show ?thesis by (simp add: comp_def booking_view_def)
qed

lemma map_view_ride_id:
  assumes "map (ride_view P) xs = map (ride_view P) ys"
  shows "map r_id xs = map r_id ys"
proof -
  have "map fst (map (ride_view P) xs) = map fst (map (ride_view P) ys)" using assms by simp
  then show ?thesis by (simp add: comp_def ride_view_def)
qed

lemma sum_where_view:
  assumes "map v xs = map v ys" and "\<And>x y. v x = v y \<Longrightarrow> p x = p y \<and> g x = g y"
  shows "sum_where p g xs = sum_where p g ys"
  using assms(1)
proof (induction xs arbitrary: ys)
  case (Cons x xs)
  then obtain y ys' where ys: "ys = y # ys'" "v x = v y" "map v xs = map v ys'" by auto
  with Cons.IH[OF ys(3)] assms(2)[OF ys(2)] show ?case by simp
qed simp

lemma sum_held_view:
  assumes "map booking_view (bookings w) = map booking_view (bookings w')"
    and "\<And>b b'. booking_view b = booking_view b' \<Longrightarrow> q b = q b'"
  shows "sum_held q w = sum_held q w'"
  unfolding sum_held_def
proof (rule sum_where_view[OF assms(1)])
  fix x y
  assume v: "booking_view x = booking_view y"
  then have "(b_seatsReservedAt x \<noteq> None) = (b_seatsReservedAt y \<noteq> None)" "b_seatsBooked x = b_seatsBooked y"
    unfolding booking_view_def by blast+
  with assms(2)[OF v]
  show "(b_seatsReservedAt x \<noteq> None \<and> q x) = (b_seatsReservedAt y \<noteq> None \<and> q y) \<and> b_seatsBooked x = b_seatsBooked y"
    by (simp only: simp_thms)
qed

lemma ball_view:
  assumes "map v xs = map v ys" and "\<And>x y. v x = v y \<Longrightarrow> P x = Q y"
  shows "(\<forall>x \<in> set xs. P x) \<longleftrightarrow> (\<forall>y \<in> set ys. Q y)"
  using assms(1)
proof (induction xs arbitrary: ys)
  case (Cons x xs)
  then obtain y ys' where ys: "ys = y # ys'" "v x = v y" "map v xs = map v ys'" by auto
  with Cons.IH[OF ys(3)] assms(2)[OF ys(2)] show ?case by simp
qed simp

lemma covers_view: "booking_view b = booking_view b' \<Longrightarrow> covers s b = covers s b'"
  by (auto simp: booking_view_def covers_def split: option.splits)

text \<open>An operation that changes none of those columns keeps both invariants.\<close>

lemma capacity_inv_view:
  assumes "seat_view P w = seat_view P w'"
  shows "capacity_for P w = capacity_for P w'"
proof -
  have b: "map booking_view (bookings w) = map booking_view (bookings w')"
    and r: "map (ride_view P) (rides w) = map (ride_view P) (rides w')" and s: "segments w = segments w'"
    using assms by (simp_all add: seat_view_def)
  have ids: "map b_id (bookings w) = map b_id (bookings w')" "map r_id (rides w) = map r_id (rides w')"
    by (rule map_view_booking_id[OF b], rule map_view_ride_id[OF r])
  have keys: "r_id ` set (rides w) = r_id ` set (rides w')" using ids(2) by (metis set_map)
  have held: "sum_held (\<lambda>b. b_rideId b = x) w = sum_held (\<lambda>b. b_rideId b = x) w'" for x
    by (rule sum_held_view[OF b]) (simp add: booking_view_def)
  have cov: "sum_held (covers s) w = sum_held (covers s) w'" for s
    by (rule sum_held_view[OF b]) (rule covers_view)
  have bs: "(\<forall>b \<in> set (bookings w). 1 \<le> b_seatsBooked b \<and> b_rideId b \<in> r_id ` set (rides w)) \<longleftrightarrow>
      (\<forall>b \<in> set (bookings w'). 1 \<le> b_seatsBooked b \<and> b_rideId b \<in> r_id ` set (rides w'))"
    by (rule ball_view[OF b]) (simp add: booking_view_def keys)
  have rs: "(\<forall>r \<in> set (rides w). sum_held (\<lambda>b. b_rideId b = r_id r) w \<le> r_totalSeats r \<and>
        (P (r_status r) \<longrightarrow>
           r_availableSeats r = r_totalSeats r - sum_held (\<lambda>b. b_rideId b = r_id r) w)) \<longleftrightarrow>
      (\<forall>r \<in> set (rides w'). sum_held (\<lambda>b. b_rideId b = r_id r) w' \<le> r_totalSeats r \<and>
        (P (r_status r) \<longrightarrow>
           r_availableSeats r = r_totalSeats r - sum_held (\<lambda>b. b_rideId b = r_id r) w'))"
    by (rule ball_view[OF r]) (simp add: ride_view_def held)
  have live: "(\<exists>r \<in> set (rides w). r_id r = x \<and> P (r_status r)) \<longleftrightarrow>
      (\<exists>r \<in> set (rides w'). r_id r = x \<and> P (r_status r))" for x
    using ball_view[OF r, of "\<lambda>r. \<not> (r_id r = x \<and> P (r_status r))"
        "\<lambda>r. \<not> (r_id r = x \<and> P (r_status r))"]
    by (auto simp: ride_view_def)
  show ?thesis unfolding seat_inv_def occupancy_inv_def by (simp only: ids bs rs live cov s)
qed

subsection \<open>Moving one booking between holding seats and not\<close>

abbreviation same_seats :: "booking_row \<Rightarrow> booking_row \<Rightarrow> bool" where
  "same_seats b b' \<equiv> b_id b' = b_id b \<and> b_rideId b' = b_rideId b \<and> b_seatsBooked b' = b_seatsBooked b \<and>
     b_pickupPosition b' = b_pickupPosition b \<and> b_dropoffPosition b' = b_dropoffPosition b"

definition taken_by :: "booking_row \<Rightarrow> int" where
  "taken_by b = (if b_seatsReservedAt b \<noteq> None then b_seatsBooked b else 0)"

lemma covers_same: "same_seats b b' \<Longrightarrow> covers s b' = covers s b"
  by (simp add: covers_def split: option.splits)

lemma covers_position: "s_rideId s' = s_rideId s \<Longrightarrow> s_fromPosition s' = s_fromPosition s \<Longrightarrow>
  s_toPosition s' = s_toPosition s \<Longrightarrow> covers s' b = covers s b"
  by (simp add: covers_def bookedRange_def split: option.splits)

lemma covers_ride: "covers s b \<Longrightarrow> s_rideId s = b_rideId b"
  by (auto simp: covers_def bookedRange_def split: option.splits)

lemma sum_held_move:
  assumes "distinct (map b_id (bookings w))" "b \<in> set (bookings w)"
    and "same_seats b (f b)" "q (f b) = q b"
    and "bookings w' = update_where (\<lambda>y. b_id y = b_id b) f (bookings w)"
  shows "sum_held q w' = sum_held q w + (if q b then taken_by (f b) - taken_by b else 0)"
proof -
  have "sum_held q w' = sum_held q (w\<lparr>bookings := update_where (\<lambda>y. b_id y = b_id b) f (bookings w)\<rparr>)"
    using assms(5) by (simp add: sum_held_def)
  then show ?thesis using sum_held_update[OF assms(1,2), of q f] assms(3,4) by (simp add: taken_by_def)
qed

lemma live_update:
  assumes "rs = update_where p (\<lambda>x. x\<lparr>r_availableSeats := a\<rparr>) rs0"
  shows "(\<exists>x \<in> set rs. r_id x = y \<and> P (r_status x)) \<longleftrightarrow>
    (\<exists>x \<in> set rs0. r_id x = y \<and> P (r_status x))"
  unfolding assms by (induction rs0) auto

text \<open>
  The one place where the counters move: the row of a booking changes, the ride counter is written
  from the new sum, and the segments the booking covers follow it.
\<close>

lemma capacity_inv_move:
  assumes inv: "capacity_for P w" and b: "b \<in> set (bookings w)" and r: "r \<in> set (rides w)" "r_id r = b_rideId b"
    and f: "same_seats b (f b)" and d: "d = taken_by (f b) - taken_by b"
    and le: "sum_held (\<lambda>y. b_rideId y = b_rideId b) w + d \<le> r_totalSeats r"
    and avail: "a = r_totalSeats r - (sum_held (\<lambda>y. b_rideId y = b_rideId b) w + d)"
    and g: "\<And>s. s_rideId (g s) = s_rideId s \<and> s_fromPosition (g s) = s_fromPosition s \<and> s_toPosition (g s) = s_toPosition s"
    and occ: "\<And>s. s \<in> set (segments w) \<Longrightarrow> s_rideId s = b_rideId b \<Longrightarrow> P (r_status r) \<Longrightarrow>
      s_occupiedSeats (g s) = s_occupiedSeats s + (if covers s b then d else 0)"
    and other: "\<And>s. s_rideId s \<noteq> b_rideId b \<Longrightarrow> g s = s"
    and w': "bookings w' = update_where (\<lambda>y. b_id y = b_id b) f (bookings w)"
      "segments w' = map g (segments w)"
      "rides w' = update_where (\<lambda>x. r_id x = b_rideId b) (\<lambda>x. x\<lparr>r_availableSeats := a\<rparr>) (rides w)"
  shows "capacity_for P w'"
proof -
  have S: "seat_inv P w" and O: "occupancy_inv P w" using inv by simp_all
  have db: "distinct (map b_id (bookings w))" and dr: "distinct (map r_id (rides w))"
    using S by (simp_all add: seat_inv_def)
  have inj: "x = r" if "x \<in> set (rides w)" "r_id x = r_id r" for x
    using dr r(1) that by (auto dest: inj_onD simp: distinct_map)
  have idf: "b_id (f y) = b_id y" if "b_id y = b_id b" "y \<in> set (bookings w)" for y
    using db b that f by (auto dest: inj_onD simp: distinct_map)
  have ids: "map b_id (bookings w') = map b_id (bookings w)"
    unfolding w' update_where_def by (auto simp: idf)
  have rids: "map r_id (rides w') = map r_id (rides w)"
    unfolding w' by (rule map_update_where) simp
  have keys: "r_id ` set (rides w') = r_id ` set (rides w)" using rids by (metis set_map)
  have held: "sum_held (\<lambda>y. b_rideId y = x) w' = sum_held (\<lambda>y. b_rideId y = x) w + (if b_rideId b = x then d else 0)" for x
    using sum_held_move[OF db b f _ w'(1), of "\<lambda>y. b_rideId y = x"] f d by simp
  have cov: "sum_held (covers s) w' = sum_held (covers s) w + (if covers s b then d else 0)" for s
    using sum_held_move[OF db b f _ w'(1), of "covers s"] covers_same[OF f] d by simp
  have bs: "1 \<le> b_seatsBooked y \<and> b_rideId y \<in> r_id ` set (rides w')" if "y \<in> set (bookings w')" for y
  proof -
    from that w'(1) obtain z where z: "z \<in> set (bookings w)" "y = (if b_id z = b_id b then f z else z)"
      by (auto simp: set_update_where)
    have "b_id z = b_id b \<Longrightarrow> z = b" using db b z(1) by (auto dest: inj_onD simp: distinct_map)
    then have "b_seatsBooked y = b_seatsBooked z" "b_rideId y = b_rideId z" using z f by auto
    then show ?thesis using S z(1) keys by (simp add: seat_inv_def)
  qed
  have rs: "sum_held (\<lambda>y. b_rideId y = r_id x) w' \<le> r_totalSeats x \<and>
      (P (r_status x) \<longrightarrow> r_availableSeats x = r_totalSeats x - sum_held (\<lambda>y. b_rideId y = r_id x) w')"
    if "x \<in> set (rides w')" for x
  proof -
    from that w'(3) obtain z where z: "z \<in> set (rides w)"
      "x = (if r_id z = b_rideId b then z\<lparr>r_availableSeats := a\<rparr> else z)" by (auto simp: set_update_where)
    show ?thesis
    proof (cases "r_id z = b_rideId b")
      case True
      with inj z(1) r have "z = r" by simp
      with True z show ?thesis using le avail held[of "b_rideId b"] by simp
    next
      case False
      then have "x = z" "sum_held (\<lambda>y. b_rideId y = r_id x) w' = sum_held (\<lambda>y. b_rideId y = r_id z) w"
        using z held[of "r_id z"] by auto
      then show ?thesis using S z(1) by (simp add: seat_inv_def)
    qed
  qed
  have S': "seat_inv P w'"
    unfolding seat_inv_def using db dr ids rids bs rs by simp
  have live: "(\<exists>x \<in> set (rides w'). r_id x = y \<and> P (r_status x)) \<longleftrightarrow>
      (\<exists>x \<in> set (rides w). r_id x = y \<and> P (r_status x))" for y
    by (rule live_update[OF w'(3)])
  have "occupancy_inv P w'"
    unfolding occupancy_inv_def
  proof (intro ballI impI)
    fix s'
    assume "s' \<in> set (segments w')" and "\<exists>x \<in> set (rides w'). r_id x = s_rideId s' \<and> P (r_status x)"
    note s' = this
    from s'(1) obtain s where s: "s \<in> set (segments w)" "s' = g s" using w'(2) by auto
    have lv: "\<exists>x \<in> set (rides w). r_id x = s_rideId s \<and> P (r_status x)"
      using s'(2) g s(2) unfolding live by simp
    have o: "s_occupiedSeats s = sum_held (covers s) w" using O s(1) lv by (simp add: occupancy_inv_def)
    have c: "covers s' = covers s" using covers_position g s(2) by blast
    show "s_occupiedSeats s' = sum_held (covers s') w'"
    proof (cases "s_rideId s = b_rideId b")
      case True
      then have "P (r_status r)" using lv inj r(2) by metis
      with occ[OF s(1) True] show ?thesis using o c cov s(2) by simp
    next
      case False
      then have "\<not> covers s b" using covers_ride by blast
      then show ?thesis using o c cov other[OF False] s(2) by simp
    qed
  qed
  with S' show ?thesis by simp
qed

subsection \<open>Taking and giving back seats\<close>

text \<open>The segments of a booked range, \<open>[]\<close>-like when a position is missing.\<close>

definition rangeOf :: "seats_input \<Rightarrow> segment_row \<Rightarrow> bool" where
  "rangeOf i s = (case (si_pickupPosition i, si_dropoffPosition i) of
     (Some from, Some to) \<Rightarrow> bookedRange (si_rideId i) from to s | _ \<Rightarrow> False)"

lemma updateSegments_range:
  "(case si_pickupPosition i of None \<Rightarrow> ret () | Some from \<Rightarrow> (case si_dropoffPosition i of None \<Rightarrow> ret ()
      | Some to \<Rightarrow> andDo (updateSegments (\<lambda>s. bookedRange (si_rideId i) from to s \<and> c s) f) (ret ()))) w = (Inr (), w\<lparr>segments := update_where (\<lambda>s. rangeOf i s \<and> c s) f (segments w)\<rparr>)"
  by (cases "si_pickupPosition i"; cases "si_dropoffPosition i")
    (simp_all add: rangeOf_def run_andDo updateSegments_def update_where_def)

lemma updateSegments_whole_range:
  "(case si_pickupPosition i of None \<Rightarrow> ret () | Some from \<Rightarrow> (case si_dropoffPosition i of None \<Rightarrow> ret ()
      | Some to \<Rightarrow> andDo (updateSegments (bookedRange (si_rideId i) from to) f) (ret ()))) w = (Inr (), w\<lparr>segments := update_where (rangeOf i) f (segments w)\<rparr>)"
  by (cases "si_pickupPosition i"; cases "si_dropoffPosition i")
    (simp_all add: rangeOf_def run_andDo updateSegments_def update_where_def)

lemma run_reserveRideSeats:
  "reserveRideSeats i w =
     (if heldSeats (si_rideId i) (si_bookingId i) w + si_seatsBooked i > si_totalSeats i then (Inl INSUFFICIENT_SEATS, w)
      else updateRide (si_rideId i)
        (\<lambda>r. r\<lparr>r_availableSeats := si_totalSeats i - heldSeats (si_rideId i) (si_bookingId i) w - si_seatsBooked i\<rparr>)
        (w\<lparr>segments := update_where (rangeOf i) (\<lambda>s. s\<lparr>s_occupiedSeats := s_occupiedSeats s + si_seatsBooked i\<rparr>) (segments w)\<rparr>))"
  unfolding reserveRideSeats_def lockRideForSeats_def
  by (simp add: run_andThen run_andDo updateSegments_whole_range)

lemma run_releaseSegmentSeats:
  assumes "findRide (si_rideId i) w \<noteq> None"
  shows "releaseSegmentSeats i w = (Inr (), w\<lparr>
     segments := update_where (\<lambda>s. rangeOf i s \<and> s_occupiedSeats s \<ge> si_seatsBooked i)
       (\<lambda>s. s\<lparr>s_occupiedSeats := s_occupiedSeats s - si_seatsBooked i\<rparr>) (segments w),
     rides := update_where (\<lambda>r. r_id r = si_rideId i)
       (\<lambda>r. r\<lparr>r_availableSeats := max 0 (si_totalSeats i - heldSeats (si_rideId i) None w)\<rparr>) (rides w)\<rparr>)"
proof -
  have "heldSeats x y (w\<lparr>segments := z\<rparr>) = heldSeats x y w" for x y z by (simp add: heldSeats_def)
  then show ?thesis
    using assms unfolding releaseSegmentSeats_def lockRideForSeats_def recomputeAvailableSeats_def
    by (simp add: run_andThen run_andDo updateSegments_range updateRide_def findRide_def Let_def)
qed

text \<open>The input a handler builds from the booking row and its ride.\<close>

definition seats_of :: "booking_row \<Rightarrow> ride_row \<Rightarrow> ident option \<Rightarrow> seats_input" where
  "seats_of b r bid = \<lparr>si_rideId = b_rideId b, si_seatsBooked = b_seatsBooked b,
     si_pickupPosition = b_pickupPosition b, si_dropoffPosition = b_dropoffPosition b,
     si_totalSeats = r_totalSeats r, si_bookingId = bid\<rparr>"

lemma seats_of_simps [simp]:
  "si_rideId (seats_of b r x) = b_rideId b" "si_seatsBooked (seats_of b r x) = b_seatsBooked b"
  "si_totalSeats (seats_of b r x) = r_totalSeats r" "si_bookingId (seats_of b r x) = x"
  by (simp_all add: seats_of_def)

lemma rangeOf_seats_of: "rangeOf (seats_of b r x) = (\<lambda>s. covers s b)"
  by (rule ext) (simp add: rangeOf_def seats_of_def covers_def split: option.splits)

lemma findRide_mem: "findRide x w = Some r \<Longrightarrow> r \<in> set (rides w) \<and> r_id r = x"
  unfolding findRide_def by (drule find_Some_mem) simp

lemma findBooking_mem: "findBooking x w = Some b \<Longrightarrow> b \<in> set (bookings w) \<and> b_id b = x"
  unfolding findBooking_def by (drule find_Some_mem) simp

lemma seat_inv_keys: "seat_inv P w \<Longrightarrow> distinct (map b_id (bookings w))" "seat_inv P w \<Longrightarrow> distinct (map r_id (rides w))"
  by (simp_all add: seat_inv_def)

lemma seat_inv_held_le: "seat_inv P w \<Longrightarrow> r \<in> set (rides w) \<Longrightarrow> sum_held (\<lambda>b. b_rideId b = r_id r) w \<le> r_totalSeats r"
  by (simp add: seat_inv_def)

lemma booking_unique:
  assumes "seat_inv P w" "b \<in> set (bookings w)" "y \<in> set (bookings w)" "b_id y = b_id b"
  shows "y = b"
  using seat_inv_keys(1)[OF assms(1)] assms(2-4) by (auto dest: inj_onD simp: distinct_map)

lemma held_excluding:
  assumes S: "seat_inv P w" and b: "findBooking x w = Some b" and free: "b_seatsReservedAt b = None" and f: "same_seats b (f b)"
  shows "heldSeats (b_rideId b) (Some x) (w\<lparr>bookings := update_where (\<lambda>y. b_id y = x) f (bookings w)\<rparr>) =
    sum_held (\<lambda>y. b_rideId y = b_rideId b) w"
proof -
  let ?u = "w\<lparr>bookings := update_where (\<lambda>y. b_id y = x) f (bookings w)\<rparr>"
  have bm: "b \<in> set (bookings w)" "b_id b = x" using findBooking_mem[OF b] by simp_all
  have "heldSeats (b_rideId b) (Some x) ?u = sum_held (\<lambda>y. b_rideId y = b_rideId b \<and> b_id y \<noteq> x) ?u"
    by (rule heldSeats_Some)
  also have "\<dots> = sum_held (\<lambda>y. b_rideId y = b_rideId b \<and> b_id y \<noteq> x) w"
    using sum_held_move[where f = f and b = b and w = w and w' = ?u
        and q = "\<lambda>y. b_rideId y = b_rideId b \<and> b_id y \<noteq> x"] seat_inv_keys(1)[OF S] bm f by simp
  also have "\<dots> = sum_held (\<lambda>y. b_rideId y = b_rideId b) w"
    unfolding sum_held_def
  proof (rule sum_where_cong)
    fix y assume "y \<in> set (bookings w)"
    then show "(b_seatsReservedAt y \<noteq> None \<and> b_rideId y = b_rideId b \<and> b_id y \<noteq> x) =
        (b_seatsReservedAt y \<noteq> None \<and> b_rideId y = b_rideId b)"
      using booking_unique[OF S bm(1), of y] bm(2) free by auto
  qed simp
  finally show ?thesis .
qed

text \<open>
  A booking that holds no seats starts to hold them: the row is marked first, then the seats are
  taken, leaving the booking itself out of the count (\<open>bookingId\<close>).
\<close>

lemma capacity_inv_reserve:
  assumes inv: "capacity_for P w" and b: "findBooking x w = Some b" and r: "findRide (b_rideId b) w = Some r"
    and free: "b_seatsReservedAt b = None"
    and f: "same_seats b (f b)" "b_seatsReservedAt (f b) \<noteq> None"
    and run: "reserveRideSeats (seats_of b r (Some x)) (w\<lparr>bookings := update_where (\<lambda>y. b_id y = x) f (bookings w)\<rparr>) = (Inr (), w')"
  shows "capacity_for P w'"
proof -
  let ?u = "w\<lparr>bookings := update_where (\<lambda>y. b_id y = x) f (bookings w)\<rparr>"
  let ?n = "sum_held (\<lambda>y. b_rideId y = b_rideId b) w"
  have bm: "b \<in> set (bookings w)" "b_id b = x" using findBooking_mem[OF b] by simp_all
  have rm: "r \<in> set (rides w)" "r_id r = b_rideId b" using findRide_mem[OF r] by simp_all
  have S: "seat_inv P w" using inv by simp
  have h: "heldSeats (b_rideId b) (Some x) ?u = ?n"
    by (rule held_excluding[where f = f, OF S b free f(1)])
  have fr: "findRide (b_rideId b) (?u\<lparr>segments := z\<rparr>) = Some r" for z using r by (simp add: findRide_def)
  have le: "?n + b_seatsBooked b \<le> r_totalSeats r"
    using run by (simp add: run_reserveRideSeats h split: if_splits)
  have w': "w' = ?u\<lparr>segments := update_where (\<lambda>s. covers s b) (\<lambda>s. s\<lparr>s_occupiedSeats := s_occupiedSeats s + b_seatsBooked b\<rparr>) (segments w),
      rides := update_where (\<lambda>y. r_id y = b_rideId b) (\<lambda>y. y\<lparr>r_availableSeats := r_totalSeats r - ?n - b_seatsBooked b\<rparr>) (rides w)\<rparr>"
    using run le fr by (simp add: run_reserveRideSeats h updateRide_def rangeOf_seats_of)
  have d: "b_seatsBooked b = taken_by (f b) - taken_by b" using free f by (simp add: taken_by_def)
  show ?thesis
  proof (rule capacity_inv_move[where w = w and b = b and r = r and f = f and d = "b_seatsBooked b"
        and a = "r_totalSeats r - ?n - b_seatsBooked b"
        and g = "\<lambda>s. if covers s b then s\<lparr>s_occupiedSeats := s_occupiedSeats s + b_seatsBooked b\<rparr> else s"])
    show "b_seatsBooked b = taken_by (f b) - taken_by b" by (rule d)
  qed (use inv bm rm f(1) le covers_ride in \<open>auto simp: w' update_where_def\<close>)
qed

text \<open>Seats are taken exactly when the ride has room for them.\<close>

lemma reserveRideSeats_result:
  assumes "findRide (si_rideId i) w \<noteq> None"
  shows "fst (reserveRideSeats i w) =
    (if heldSeats (si_rideId i) (si_bookingId i) w + si_seatsBooked i \<le> si_totalSeats i then Inr () else Inl INSUFFICIENT_SEATS)"
    and "fst (reserveRideSeats i w) \<noteq> Inr () \<Longrightarrow> snd (reserveRideSeats i w) = w"
  using assms by (auto simp: run_reserveRideSeats updateRide_def findRide_def split: if_splits)

lemma run_releaseBookingSeats:
  assumes b: "findBooking x w = Some b" and r: "findRide (b_rideId b) w = Some r" and d: "distinct (map b_id (bookings w))"
  shows "releaseBookingSeats x (seats_of b r y) w =
    (if b_seatsReservedAt b = None then (Inr False, w)
     else (let u = w\<lparr>bookings := update_where (\<lambda>z. b_id z = x) (\<lambda>z. z\<lparr>b_seatsReservedAt := None\<rparr>) (bookings w)\<rparr>
       in (Inr True, u\<lparr>
         segments := update_where (\<lambda>s. covers s b \<and> s_occupiedSeats s \<ge> b_seatsBooked b)
           (\<lambda>s. s\<lparr>s_occupiedSeats := s_occupiedSeats s - b_seatsBooked b\<rparr>) (segments w),
         rides := update_where (\<lambda>z. r_id z = b_rideId b)
           (\<lambda>z. z\<lparr>r_availableSeats := max 0 (r_totalSeats r - heldSeats (b_rideId b) None u)\<rparr>) (rides w)\<rparr>)))"
proof -
  have bm: "b \<in> set (bookings w)" "b_id b = x" using findBooking_mem[OF b] by simp_all
  have uniq: "z = b" if "z \<in> set (bookings w)" "b_id z = x" for z
    using d bm that by (auto dest: inj_onD simp: distinct_map)
  show ?thesis
  proof (cases "b_seatsReservedAt b = None")
    case True
    have c: "count_where (\<lambda>z. b_id z = x \<and> b_seatsReservedAt z \<noteq> None) (bookings w) = 0"
      using uniq True by (auto simp: count_where_0_iff)
    then have "update_where (\<lambda>z. b_id z = x \<and> b_seatsReservedAt z \<noteq> None) (\<lambda>z. z\<lparr>b_seatsReservedAt := None\<rparr>) (bookings w) = bookings w"
      by (rule update_where_none)
    with c True show ?thesis by (simp add: releaseBookingSeats_def run_andThen updateBookings_def)
  next
    case False
    have c: "count_where (\<lambda>z. b_id z = x \<and> b_seatsReservedAt z \<noteq> None) (bookings w) \<noteq> 0"
      using bm False by (auto simp: count_where_0_iff)
    have e: "update_where (\<lambda>z. b_id z = x \<and> b_seatsReservedAt z \<noteq> None) (\<lambda>z. z\<lparr>b_seatsReservedAt := None\<rparr>) (bookings w) =
        update_where (\<lambda>z. b_id z = x) (\<lambda>z. z\<lparr>b_seatsReservedAt := None\<rparr>) (bookings w)"
      unfolding update_where_def using uniq False by (intro map_cong) auto
    let ?u = "w\<lparr>bookings := update_where (\<lambda>z. b_id z = x) (\<lambda>z. z\<lparr>b_seatsReservedAt := None\<rparr>) (bookings w)\<rparr>"
    have "findRide (si_rideId (seats_of b r y)) ?u \<noteq> None" using r by (simp add: findRide_def)
    from run_releaseSegmentSeats[OF this] c e False show ?thesis
      by (simp add: releaseBookingSeats_def run_andThen run_andDo updateBookings_def rangeOf_seats_of Let_def)
  qed
qed

text \<open>Giving the seats back keeps both invariants.\<close>

lemma capacity_inv_release:
  assumes inv: "capacity_for P w" and b: "findBooking x w = Some b" and r: "findRide (b_rideId b) w = Some r"
  shows "capacity_for P (snd (releaseBookingSeats x (seats_of b r y) w))"
proof (cases "b_seatsReservedAt b = None")
  case True
  then show ?thesis using inv run_releaseBookingSeats[OF b r seat_inv_keys(1)[of P w], of y] by simp
next
  case False
  have S: "seat_inv P w" and O: "occupancy_inv P w" using inv by simp_all
  have bm: "b \<in> set (bookings w)" "b_id b = x" using findBooking_mem[OF b] by simp_all
  have rm: "r \<in> set (rides w)" "r_id r = b_rideId b" using findRide_mem[OF r] by simp_all
  let ?f = "\<lambda>z. z\<lparr>b_seatsReservedAt := None\<rparr>"
  let ?u = "w\<lparr>bookings := update_where (\<lambda>z. b_id z = x) ?f (bookings w)\<rparr>"
  let ?n = "sum_held (\<lambda>y. b_rideId y = b_rideId b) w"
  let ?g = "\<lambda>s. if covers s b \<and> s_occupiedSeats s \<ge> b_seatsBooked b then s\<lparr>s_occupiedSeats := s_occupiedSeats s - b_seatsBooked b\<rparr> else s"
  have f: "same_seats b (?f b)" by simp
  have d: "- b_seatsBooked b = taken_by (?f b) - taken_by b" using False by (simp add: taken_by_def)
  have n: "?n \<le> r_totalSeats r" using seat_inv_held_le[OF S rm(1)] rm(2) by simp
  have pos: "1 \<le> b_seatsBooked b" using S bm(1) by (simp add: seat_inv_def)
  have h: "heldSeats (b_rideId b) None ?u = ?n - b_seatsBooked b"
    unfolding heldSeats_None
    using sum_held_move[where f = ?f and b = b and w = w and w' = ?u and q = "\<lambda>y. b_rideId y = b_rideId b"]
      seat_inv_keys(1)[OF S] bm d by simp
  have full: "b_seatsBooked b \<le> s_occupiedSeats s" if s: "s \<in> set (segments w)" "s_rideId s = b_rideId b"
    "P (r_status r)" "covers s b" for s
  proof -
    have "s_occupiedSeats s = sum_held (covers s) w" using O s rm unfolding occupancy_inv_def by metis
    also have "\<dots> = sum_where (\<lambda>z. (b_seatsReservedAt z \<noteq> None \<and> covers s z) \<and> b_id z = b_id b) b_seatsBooked (bookings w) +
        sum_where (\<lambda>z. (b_seatsReservedAt z \<noteq> None \<and> covers s z) \<and> b_id z \<noteq> b_id b) b_seatsBooked (bookings w)"
      unfolding sum_held_def by (rule sum_where_split)
    also have "sum_where (\<lambda>z. (b_seatsReservedAt z \<noteq> None \<and> covers s z) \<and> b_id z = b_id b) b_seatsBooked (bookings w) = b_seatsBooked b"
      using sum_where_key[OF seat_inv_keys(1)[OF S] bm(1), of "\<lambda>z. b_seatsReservedAt z \<noteq> None \<and> covers s z" b_seatsBooked]
        False s(4) by (simp add: conj_commute)
    finally show ?thesis
      using sum_where_nonneg[of "bookings w" "\<lambda>z. (b_seatsReservedAt z \<noteq> None \<and> covers s z) \<and> b_id z \<noteq> b_id b" b_seatsBooked]
        S by (force simp: seat_inv_def)
  qed
  have run: "snd (releaseBookingSeats x (seats_of b r y) w) = ?u\<lparr>segments := map ?g (segments w),
      rides := update_where (\<lambda>z. r_id z = b_rideId b) (\<lambda>z. z\<lparr>r_availableSeats := max 0 (r_totalSeats r - (?n - b_seatsBooked b))\<rparr>) (rides w)\<rparr>"
    using run_releaseBookingSeats[OF b r seat_inv_keys(1)[OF S], of y] False h by (simp add: Let_def update_where_def)
  show ?thesis
    unfolding run
  proof (rule capacity_inv_move[where w = w and b = b and r = r and f = ?f and d = "- b_seatsBooked b"
        and a = "r_totalSeats r - (?n - b_seatsBooked b)" and g = ?g])
    show "- b_seatsBooked b = taken_by (?f b) - taken_by b" by (rule d)
  qed (use inv bm rm n pos covers_ride full in \<open>auto simp: max_def\<close>)
qed

text \<open>A new booking that holds no seats yet.\<close>

lemma capacity_inv_append:
  assumes "capacity_for P w" and "findBooking (b_id b) w = None" and "b_rideId b \<in> r_id ` set (rides w)"
    and "1 \<le> b_seatsBooked b" and "b_seatsReservedAt b = None"
  shows "capacity_for P (w\<lparr>bookings := bookings w @ [b]\<rparr>)"
proof -
  have s: "sum_held q (w\<lparr>bookings := bookings w @ [b]\<rparr>) = sum_held q w" for q
    using assms(5) by (simp add: sum_held_def)
  have "b_id b \<notin> b_id ` set (bookings w)"
    using assms(2) unfolding findBooking_def find_key_None_iff .
  then show ?thesis using assms by (auto simp: seat_inv_def occupancy_inv_def s)
qed

lemma update_where_keep:
  "distinct (map k xs) \<Longrightarrow> x \<in> set xs \<Longrightarrow> f x = x \<Longrightarrow> update_where (\<lambda>y. k y = k x) f xs = xs"
  unfolding update_where_def by (rule map_idI) (auto dest: inj_onD simp: distinct_map)

lemma reserve_outcome:
  assumes inv: "capacity_for P w" and b: "findBooking x w = Some b" and r: "findRide (b_rideId b) w = Some r"
    and live: "P (r_status r)" and free: "b_seatsReservedAt b = None"
    and f: "same_seats b (f b)" "b_seatsReservedAt (f b) \<noteq> None"
    and u: "u = w\<lparr>bookings := update_where (\<lambda>y. b_id y = x) f (bookings w)\<rparr>"
    and run: "reserveRideSeats (seats_of b r (Some x)) u = (res, w')"
  shows "if b_seatsBooked b > r_availableSeats r then res = Inl INSUFFICIENT_SEATS \<and> w' = u
    else res = Inr () \<and> capacity_for P w' \<and>
      findRide (b_rideId b) w' = Some (r\<lparr>r_availableSeats := r_availableSeats r - b_seatsBooked b\<rparr>)"
proof -
  let ?n = "sum_held (\<lambda>y. b_rideId y = b_rideId b) w"
  have S: "seat_inv P w" using inv by simp
  have rm: "r \<in> set (rides w)" "r_id r = b_rideId b" using findRide_mem[OF r] by simp_all
  have a: "r_availableSeats r = r_totalSeats r - ?n" using S rm live unfolding seat_inv_def by metis
  have h: "heldSeats (b_rideId b) (Some x) u = ?n"
    unfolding u by (rule held_excluding[where f = f, OF S b free f(1)])
  show ?thesis
  proof (cases "b_seatsBooked b > r_availableSeats r")
    case True
    then show ?thesis using run h a by (simp add: run_reserveRideSeats)
  next
    case False
    have fr: "findRide (b_rideId b) (u\<lparr>segments := z\<rparr>) = Some r" for z using r by (simp add: findRide_def u)
    have ok: "res = Inr ()" and w': "rides w' = update_where (\<lambda>y. r_id y = b_rideId b)
        (\<lambda>y. y\<lparr>r_availableSeats := r_availableSeats r - b_seatsBooked b\<rparr>) (rides w)"
      using run h a False fr by (auto simp: run_reserveRideSeats updateRide_def u)
    have "capacity_for P w'"
      by (rule capacity_inv_reserve[where f = f, OF inv b r free f]) (use run ok u in simp)
    moreover have "findRide (b_rideId b) w' = Some (r\<lparr>r_availableSeats := r_availableSeats r - b_seatsBooked b\<rparr>)"
      using r rm(2) unfolding findRide_def w' by (simp add: find_update_where)
    ultimately show ?thesis using ok False by simp
  qed
qed

lemma heldSeats_same: "bookings w = bookings w' \<Longrightarrow> heldSeats x y w = heldSeats x y w'"
  by (simp add: heldSeats_def)

lemma count_cleared:
  "count_where (\<lambda>z. b_id z = x \<and> b_seatsReservedAt z \<noteq> None)
     (update_where (\<lambda>z. b_id z = x) (\<lambda>z. z\<lparr>b_seatsReservedAt := None\<rparr>) bs) = 0"
  by (induction bs) auto

lemma release_outcome:
  assumes inv: "capacity_for P w" and b: "findBooking x w = Some b" and r: "findRide (b_rideId b) w = Some r"
    and w1: "w1 = snd (releaseBookingSeats x (seats_of b r y) w)"
  shows "fst (releaseBookingSeats x (seats_of b r y) w) = Inr (b_seatsReservedAt b \<noteq> None) \<and>
    capacity_for P w1 \<and> findBooking x w1 = Some (b\<lparr>b_seatsReservedAt := None\<rparr>) \<and>
    heldSeats (b_rideId b) None w1 = heldSeats (b_rideId b) None w - taken_by b \<and>
    releaseBookingSeats x (seats_of b r y) w1 = (Inr False, w1)"
proof -
  have db: "distinct (map b_id (bookings w))" using inv by (simp add: seat_inv_def)
  have bm: "b \<in> set (bookings w)" "b_id b = x" using findBooking_mem[OF b] by simp_all
  note run = run_releaseBookingSeats[OF b r db, of y]
  have inv1: "capacity_for P w1" unfolding w1 by (rule capacity_inv_release[OF inv b r])
  have bs: "bookings w1 = update_where (\<lambda>z. b_id z = x) (\<lambda>z. z\<lparr>b_seatsReservedAt := None\<rparr>) (bookings w)"
    using update_where_keep[OF db bm(1), of "\<lambda>z. z\<lparr>b_seatsReservedAt := None\<rparr>"] bm(2)
    by (cases "b_seatsReservedAt b") (simp_all add: w1 run Let_def)
  have rs: "\<exists>r'. findRide (b_rideId b) w1 = Some r'"
    using r by (simp add: w1 run Let_def findRide_def find_update_where)
  have fb: "findBooking x w1 = Some (b\<lparr>b_seatsReservedAt := None\<rparr>)"
    using b bm(2) unfolding findBooking_def bs by (simp add: find_update_where)
  have "heldSeats (b_rideId b) None w1 = heldSeats (b_rideId b) None w - taken_by b"
    unfolding heldSeats_None
    using sum_held_move[where f = "\<lambda>z. z\<lparr>b_seatsReservedAt := None\<rparr>" and b = b and w = w and w' = w1
        and q = "\<lambda>y. b_rideId y = b_rideId b"] db bm bs by (simp add: taken_by_def)
  moreover have "releaseBookingSeats x (seats_of b r y) w1 = (Inr False, w1)"
  proof -
    have "count_where (\<lambda>z. b_id z = x \<and> b_seatsReservedAt z \<noteq> None) (bookings w1) = 0"
      unfolding bs by (rule count_cleared)
    then show ?thesis
      using update_where_none[of "\<lambda>z. b_id z = x \<and> b_seatsReservedAt z \<noteq> None" "bookings w1"]
      by (simp add: releaseBookingSeats_def run_andThen updateBookings_def)
  qed
  ultimately show ?thesis using inv1 fb by (simp add: run Let_def)
qed

subsection \<open>Properties\<close>

lemma sample_world_inv: "capacity_inv sample_world"
  by (simp add: sample_defs seat_inv_def occupancy_inv_def sum_held_def covers_def bookedRange_def)

text \<open>
  C12. Seats are never oversold: when a booking of a ride with consistent counters is marked and its
  seats are taken, either the ride lacks that many free seats and \<open>INSUFFICIENT_SEATS\<close> is thrown
  with nothing written, or it succeeds, the ride's available seats drop by exactly the booked
  number, and the counters are consistent again for the whole ride and for every segment.
\<close>

theorem reserveRideSeats_never_oversells:
  assumes "capacity_inv w" and "findBooking x w = Some b" and "findRide (b_rideId b) w = Some r"
    and "r_status r \<noteq> RIDE_CANCELLED" and "b_seatsReservedAt b = None"
    and "u = w\<lparr>bookings := update_where (\<lambda>y. b_id y = x) (\<lambda>y. y\<lparr>b_seatsReservedAt := Some t\<rparr>) (bookings w)\<rparr>"
    and "reserveRideSeats (seats_of b r (Some x)) u = (res, w')"
  shows "if b_seatsBooked b > r_availableSeats r then res = Inl INSUFFICIENT_SEATS \<and> w' = u
    else res = Inr () \<and> capacity_inv w' \<and>
      findRide (b_rideId b) w' = Some (r\<lparr>r_availableSeats := r_availableSeats r - b_seatsBooked b\<rparr>)"
  by (rule reserve_outcome[where f = "\<lambda>y. y\<lparr>b_seatsReservedAt := Some t\<rparr>", OF assms(1-5) _ _ assms(6,7)]) simp_all

theorem reserveRideSeats_never_oversells_witness:
  "(let u = sample_world\<lparr>bookings := update_where (\<lambda>y. b_id y = ''b1'') (\<lambda>y. y\<lparr>b_seatsReservedAt := Some 9\<rparr>) (bookings sample_world)\<rparr>
    in fst (reserveRideSeats (seats_of sample_booking sample_ride (Some ''b1'')) u) = Inr () \<and>
       capacity_inv (snd (reserveRideSeats (seats_of sample_booking sample_ride (Some ''b1'')) u)))"
proof -
  have "findBooking ''b1'' sample_world = Some sample_booking" "findRide ''r1'' sample_world = Some sample_ride"
    "b_rideId sample_booking = ''r1''" "r_status sample_ride \<noteq> RIDE_CANCELLED" "b_seatsReservedAt sample_booking = None"
    "\<not> b_seatsBooked sample_booking > r_availableSeats sample_ride"
    by (simp_all add: findBooking_def findRide_def sample_defs)
  then show ?thesis
    using reserveRideSeats_never_oversells[where t = 9, OF sample_world_inv _ _ _ _ refl prod.collapse[symmetric],
        of "''b1''" sample_booking sample_ride] by (simp add: Let_def)
qed

text \<open>
  C13. A booking's seats are given back exactly once: releasing a booking that holds seats frees
  precisely its seats and clears the mark, releasing it again does nothing and reports so, a
  booking that never held seats is left alone, and the counters stay consistent throughout.
\<close>

theorem releaseBookingSeats_once:
  assumes "capacity_inv w" and "findBooking x w = Some b" and "findRide (b_rideId b) w = Some r"
    and "w1 = snd (releaseBookingSeats x (seats_of b r None) w)"
  shows "fst (releaseBookingSeats x (seats_of b r None) w) = Inr (b_seatsReservedAt b \<noteq> None) \<and>
    capacity_inv w1 \<and> findBooking x w1 = Some (b\<lparr>b_seatsReservedAt := None\<rparr>) \<and>
    heldSeats (b_rideId b) None w1 = heldSeats (b_rideId b) None w - taken_by b \<and>
    releaseBookingSeats x (seats_of b r None) w1 = (Inr False, w1)"
  by (rule release_outcome[OF assms])

theorem releaseBookingSeats_once_witness:
  "(let b = sample_booking\<lparr>b_id := ''b2'', b_passengerId := ''u2'', b_seatsBooked := 1,
       b_pickupPosition := Some 1, b_dropoffPosition := Some 2, b_status := DRIVER_PENDING, b_seatsReservedAt := Some 5\<rparr>
    in fst (releaseBookingSeats ''b2'' (seats_of b sample_ride None) sample_world) = Inr True)"
  using releaseBookingSeats_once[OF sample_world_inv, of "''b2''" "sample_booking\<lparr>b_id := ''b2'', b_passengerId := ''u2'', b_seatsBooked := 1,
       b_pickupPosition := Some 1, b_dropoffPosition := Some 2, b_status := DRIVER_PENDING, b_seatsReservedAt := Some 5\<rparr>" sample_ride]
  by (simp add: findBooking_def findRide_def sample_defs Let_def)

text \<open>
  The seats in use computed from already loaded booking rows agree with the stored counter: on
  a ride that is not cancelled, \<open>sumReservedSeats\<close> of its bookings is total minus available seats.
\<close>

theorem sumReservedSeats_counts_taken:
  assumes "capacity_inv w" and "findRide x w = Some r" and "r_status r \<noteq> RIDE_CANCELLED"
  shows "sumReservedSeats (filter (\<lambda>b. b_rideId b = x) (bookings w)) = r_totalSeats r - r_availableSeats r"
proof -
  have "sumReservedSeats (filter (\<lambda>b. b_rideId b = x) bs) = sum_where (\<lambda>b. b_seatsReservedAt b \<noteq> None \<and> b_rideId b = x) b_seatsBooked bs" for bs
    by (induction bs) auto
  then show ?thesis using assms findRide_mem[OF assms(2)] by (auto simp: seat_inv_def sum_held_def)
qed

theorem sumReservedSeats_counts_taken_witness:
  "sumReservedSeats (filter (\<lambda>b. b_rideId b = ''r1'') (bookings sample_world)) = 1"
  using sumReservedSeats_counts_taken[OF sample_world_inv, of "''r1''" sample_ride]
  by (simp add: findRide_def sample_defs)

end
