(* ===== verification/Request_Booking.thy ===== *)
theory Request_Booking
  imports Payments Booking_Time Seats
begin

text \<open>
  Ride requests at checkout: \<open>src/src/modules/ride-request/ride-request.booking.ts\<close> (reserving the
  chosen offer, confirming its booking inside the payment transaction), \<open>ride-request.payment.ts\<close> and
  \<open>ride-request.policy.ts\<close>, and the overlap check of \<open>publish-ride/draft-ride.service.ts\<close>. All of it
  runs inside a transaction of the caller, so an error undoes its writes.
\<close>

subsection \<open>Policy\<close>

definition REQUEST_CHECKOUT_MS :: int where "REQUEST_CHECKOUT_MS = 15 * 60 * 1000"

definition assertRequestWindow :: "time \<Rightarrow> time \<Rightarrow> time \<Rightarrow> (world, unit) op" where
  "assertRequestWindow opening closing now =
     ensure (\<not> (opening < now + 3 * 60 * 60 * 1000 \<or> closing < opening \<or>
       closing - opening > 24 * 60 * 60 * 1000 \<or> closing > now + 180 * 24 * 60 * 60 * 1000))
       (Err ''REQUEST_WINDOW_INVALID'')"

definition assertOfferFits :: "time \<Rightarrow> time \<Rightarrow> int \<Rightarrow> time \<Rightarrow> int \<Rightarrow> (world, unit) op" where
  "assertOfferFits departureAfter departureBefore requestSeats departure seats =
     andDo (ensure (\<not> (departure < departureAfter \<or> departure > departureBefore)) (Err ''OFFER_OUTSIDE_WINDOW''))
       (ensure (\<not> seats < requestSeats) (Err ''OFFER_TOO_FEW_SEATS''))"

subsection \<open>A driver is in one place at a time\<close>

text \<open>
  The draft module has its own reading of a departure: missing minutes are 0, the fields are not
  checked, and a time that is no number gives an invalid date, which compares false with everything.
\<close>

definition draftDepartureUtc :: "time \<Rightarrow> string \<Rightarrow> time option" where
  "draftDepartureUtc departureDate departureTime =
     (case split_on (CHR '':'') departureTime of
        [] \<Rightarrow> None
      | h # rest \<Rightarrow>
          (case (digits_value 0 h, case rest of [] \<Rightarrow> Some 0 | m # _ \<Rightarrow> digits_value 0 m) of
             (Some hours, Some minutes) \<Rightarrow>
               Some (utc_day departureDate * ms_per_day + hours * ms_per_hour + minutes * ms_per_minute)
           | _ \<Rightarrow> None))"

definition MIN_OVERLAP_DURATION_SECONDS :: int where "MIN_OVERLAP_DURATION_SECONDS = 60 * 60"

definition endTimeForRideWindow :: "time \<Rightarrow> int option \<Rightarrow> time" where
  "endTimeForRideWindow start durationSeconds =
     start + max (case durationSeconds of None \<Rightarrow> 0 | Some d \<Rightarrow> d) MIN_OVERLAP_DURATION_SECONDS * 1000"

fun active_driver_ride_status :: "ride_status \<Rightarrow> bool" where
  "active_driver_ride_status RIDE_PUBLISHED = True"
| "active_driver_ride_status RIDE_SCHEDULED = True"
| "active_driver_ride_status RIDE_READY_TO_START = True"
| "active_driver_ride_status RIDE_IN_PROGRESS = True"
| "active_driver_ride_status RIDE_COMPLETION_PENDING = True"
| "active_driver_ride_status _ = False"

definition windows_overlap :: "time option \<Rightarrow> int option \<Rightarrow> time option \<Rightarrow> int option \<Rightarrow> bool" where
  "windows_overlap s d s' d' =
     (case (s, s') of
        (Some a, Some b) \<Rightarrow> a < endTimeForRideWindow b d' \<and> b < endTimeForRideWindow a d
      | _ \<Rightarrow> False)"

definition overlap_candidate :: "world \<Rightarrow> ident \<Rightarrow> time \<Rightarrow> ident option \<Rightarrow> ride_row \<Rightarrow> bool" where
  "overlap_candidate w driverId departureDate excludeRideId r \<longleftrightarrow>
     (let dayStart = utc_day departureDate * ms_per_day in
      r_driverId r = driverId \<and> excludeRideId \<noteq> Some (r_id r) \<and>
      (active_driver_ride_status (r_status r) \<or>
       (r_status r = RIDE_DRAFT \<and> (\<exists>f \<in> set (offers w). of_rideId f = r_id r \<and> of_status f = OFFER_SELECTED))) \<and>
      dayStart - ms_per_day \<le> r_departureDate r \<and> r_departureDate r \<le> dayStart + ms_per_day)"

definition assertDriverHasNoOverlappingRide ::
  "ident \<Rightarrow> time \<Rightarrow> string \<Rightarrow> int option \<Rightarrow> ident option \<Rightarrow> (world, unit) op" where
  "assertDriverHasNoOverlappingRide driverId departureDate departureTime routeDurationSeconds excludeRideId =
     andThen (gets (\<lambda>w. filter (overlap_candidate w driverId departureDate excludeRideId) (rides w))) (\<lambda>existing.
       ensure (\<not> (\<exists>r \<in> set existing.
         windows_overlap (draftDepartureUtc departureDate departureTime) routeDurationSeconds
           (draftDepartureUtc (r_departureDate r) (r_departureTime r)) (r_routeDurationSeconds r)))
         (Err ''DRIVER_RIDE_TIME_CONFLICT''))"

subsection \<open>Offers and requests\<close>

definition findOffer :: "ident \<Rightarrow> world \<Rightarrow> offer_row option" where
  "findOffer x w = find (\<lambda>f. of_id f = x) (offers w)"

definition findOfferByBooking :: "ident \<Rightarrow> world \<Rightarrow> offer_row option" where
  "findOfferByBooking x w = find (\<lambda>f. of_bookingId f = Some x) (offers w)"

definition findRequest :: "ident \<Rightarrow> world \<Rightarrow> request_row option" where
  "findRequest x w = find (\<lambda>q. q_id q = x) (requests w)"

definition updateRequests :: "(request_row \<Rightarrow> bool) \<Rightarrow> (request_row \<Rightarrow> request_row) \<Rightarrow> (world, nat) op" where
  "updateRequests p f = (\<lambda>w. (Inr (count_where p (requests w)), w\<lparr>requests := update_where p f (requests w)\<rparr>))"

definition updateOffers :: "(offer_row \<Rightarrow> bool) \<Rightarrow> (offer_row \<Rightarrow> offer_row) \<Rightarrow> (world, nat) op" where
  "updateOffers p f = (\<lambda>w. (Inr (count_where p (offers w)), w\<lparr>offers := update_where p f (offers w)\<rparr>))"

abbreviation OFFER_UNAVAILABLE :: error where "OFFER_UNAVAILABLE \<equiv> Err ''OFFER_UNAVAILABLE''"
abbreviation RECONCILIATION_REQUIRED :: error where
  "RECONCILIATION_REQUIRED \<equiv> Err ''REQUEST_PAYMENT_REQUIRES_RECONCILIATION''"

definition reserveRequestOffer :: "env \<Rightarrow> ident \<Rightarrow> ident \<Rightarrow> ident \<Rightarrow> int \<Rightarrow> (world, unit) op" where
  "reserveRequestOffer env offerId riderId rideId seats =
     (let now = e_now env in
      andThen (gets (\<lambda>w. case findOffer offerId w of None \<Rightarrow> None
                | Some f \<Rightarrow> (case (findRequest (of_requestId f) w, findRide (of_rideId f) w) of
                     (Some q, Some r) \<Rightarrow> Some (f, q, r) | _ \<Rightarrow> None))) (\<lambda>found.
      case found of None \<Rightarrow> throw OFFER_UNAVAILABLE
      | Some (f, q, r) \<Rightarrow>
          andDo (ensure (\<not> (of_rideId f \<noteq> rideId \<or> q_riderId q \<noteq> riderId \<or> q_seats q \<noteq> seats \<or>
                   of_status f \<noteq> OFFER_OPEN \<or> of_expiresAt f \<le> now)) OFFER_UNAVAILABLE)
         (andDo (assertDriverHasNoOverlappingRide (of_driverId f) (r_departureDate r) (r_departureTime r)
                   (r_routeDurationSeconds r) (Some (of_rideId f)))
         (andThen (updateRequests
                    (\<lambda>y. q_id y = of_requestId f \<and> q_riderId y = riderId \<and> q_status y = REQ_OPEN \<and> q_expiresAt y > now)
                    (\<lambda>y. y\<lparr>q_status := REQ_CHECKOUT_PENDING,
                           q_checkoutExpiresAt := Some (min (now + REQUEST_CHECKOUT_MS) (of_expiresAt f))\<rparr>)) (\<lambda>changed.
          andDo (ensure (changed = 1) (Err ''REQUEST_ALREADY_SELECTED''))
         (andThen (updateOffers (\<lambda>y. of_id y = offerId \<and> of_status y = OFFER_OPEN) (\<lambda>y. y\<lparr>of_status := OFFER_SELECTED\<rparr>)) (\<lambda>selected.
          ensure (selected = 1) OFFER_UNAVAILABLE)))))))"

subsection \<open>The payment row of a request\<close>

definition to_upper_char :: "char \<Rightarrow> char" where
  "to_upper_char c = (let n = of_char c :: nat in if 97 \<le> n \<and> n \<le> 122 then char_of (n - 32) else c)"

definition toUpperCase :: "string \<Rightarrow> string" where "toUpperCase = map to_upper_char"

definition request_platform_fee :: "env \<Rightarrow> booking_row \<Rightarrow> error + jsnum" where
  "request_platform_fee env booking =
     (case b_serviceFeeAmount booking of
        Some fee \<Rightarrow> Inr fee
      | None \<Rightarrow>
          (case e_platformFeePercent env of
             None \<Rightarrow> Inl (Err ''INVALID_PLATFORM_FEE'')
           | Some feePercent \<Rightarrow>
               if feePercent < 0 \<or> feePercent > 100 then Inl (Err ''INVALID_PLATFORM_FEE'')
               else Inr (major (js_round (js_mul (b_totalPrice booking) feePercent)))))"

definition ensureRequestPayment :: "env \<Rightarrow> booking_row \<Rightarrow> (world, payment_row) op" where
  "ensureRequestPayment env booking =
     andThen (ofOption (Err ''REQUEST_PAYMENT_NOT_INITIALIZED'') (b_stripePaymentIntentId booking)) (\<lambda>intentId.
     andThen (ofOption (Err ''REQUEST_PAYMENT_CURRENCY_MISSING'') (b_paymentCurrency booking)) (\<lambda>paymentCurrency.
     andThen (ofSum (request_platform_fee env booking)) (\<lambda>platformFeeAmount.
     andDo (ensure (\<not> (platformFeeAmount < 0 \<or> platformFeeAmount > b_totalPrice booking)) (Err ''INVALID_PLATFORM_FEE''))
    (let cur = toUpperCase paymentCurrency in
     andThen (gets (findPaymentByBooking (b_id booking))) (\<lambda>found.
     andThen (case found of
        Some payment \<Rightarrow> ret payment
      | None \<Rightarrow> createPayment (e_newPaymentId env)
          \<lparr>pp_bookingId = b_id booking, pp_rideId = b_rideId booking, pp_riderId = b_passengerId booking,
           pp_amountTotal = b_totalPrice booking,
           pp_fareAmount = major (cents (js_sub (b_totalPrice booking) platformFeeAmount)),
           pp_platformFeeAmount = platformFeeAmount, pp_currency = cur,
           pp_stripePaymentIntentId = Some intentId, pp_status = Some P_PAYMENT_PENDING\<rparr>) (\<lambda>payment.
     andDo (ensure (\<not> (p_rideId payment \<noteq> b_rideId booking \<or> p_riderId payment \<noteq> b_passengerId booking \<or>
               p_amountTotal payment \<noteq> b_totalPrice booking \<or> toUpperCase (p_currency payment) \<noteq> cur \<or>
               (p_stripePaymentIntentId payment \<noteq> None \<and> p_stripePaymentIntentId payment \<noteq> Some intentId)))
             (Err ''REQUEST_PAYMENT_RECORD_MISMATCH''))
    (andDo (whenM (p_stripePaymentIntentId payment = None)
        (\<lambda>w. let q = (\<lambda>p. p_id p = p_id payment \<and> p_stripePaymentIntentId p = None) in
           if count_where q (payments w) = 0 then (Inl (Err ''REQUEST_PAYMENT_LINK_CHANGED''), w)
           else (Inr (), w\<lparr>payments := update_where q (\<lambda>p. p\<lparr>p_stripePaymentIntentId := Some intentId\<rparr>) (payments w)\<rparr>)))
      (ret payment))))))))"

subsection \<open>Confirming the booking of a request\<close>

text \<open>
  \<open>new Date(`${date}T${time}:00Z`)\<close>: the ISO form HH:mm (24:00 is the end of the day); anything else is
  an invalid date, \<open>None\<close>, which is not \<open><= now\<close>.
\<close>

definition isoDeparture :: "time \<Rightarrow> string \<Rightarrow> time option" where
  "isoDeparture departureDate departureTime =
     (case split_on (CHR '':'') departureTime of
        [h, m] \<Rightarrow>
          if length h = 2 \<and> length m = 2 then
            (case (digits_value 0 h, digits_value 0 m) of
               (Some hours, Some minutes) \<Rightarrow>
                 if (hours \<le> 23 \<and> minutes \<le> 59) \<or> (hours = 24 \<and> minutes = 0)
                 then Some (utc_day departureDate * ms_per_day + hours * ms_per_hour + minutes * ms_per_minute)
                 else None
             | _ \<Rightarrow> None)
          else None
      | _ \<Rightarrow> None)"

definition confirmed_row :: "env \<Rightarrow> time \<times> time \<Rightarrow> booking_row \<Rightarrow> booking_row" where
  "confirmed_row env expiries b = b\<lparr>b_status := CONFIRMED, b_driverDecisionAt := Some (e_now env),
     b_driverDecisionDeadlineAt := None, b_pickupOtpHash := Some (e_hashOtp env (e_pickupOtp env)),
     b_dropOtpHash := Some (e_hashOtp env (e_dropOtp env)), b_pickupOtpExpiresAt := Some (fst expiries),
     b_dropOtpExpiresAt := Some (snd expiries), b_otpAttemptCount := 0\<rparr>"

abbreviation INVALID_DATE :: error where "INVALID_DATE \<equiv> Err ''INVALID_DATE''"

definition confirmRequestBooking :: "env \<Rightarrow> ident \<Rightarrow> (world, ident option) op" where
  "confirmRequestBooking env bookingId =
     andThen (gets (\<lambda>w. case findOfferByBooking bookingId w of None \<Rightarrow> None
               | Some f \<Rightarrow> Some (f, findRequest (of_requestId f) w, findRide (of_rideId f) w, findBooking bookingId w))) (\<lambda>found.
     case found of None \<Rightarrow> ret None
     | Some (f, request, ride, booking) \<Rightarrow>
         andThen (ofOption RECORD_NOT_FOUND request) (\<lambda>q. andThen (ofOption RECORD_NOT_FOUND ride) (\<lambda>r.
         andDo (ensure (\<not> (of_status f \<noteq> OFFER_SELECTED \<or> q_status q \<noteq> REQ_CHECKOUT_PENDING)) RECONCILIATION_REQUIRED)
        (andDo (ensure (\<not> (case isoDeparture (r_departureDate r) (r_departureTime r) of
                  None \<Rightarrow> False | Some departure \<Rightarrow> departure \<le> e_now env)) RECONCILIATION_REQUIRED)
        (andThen (ofOption (Err ''REQUEST_BOOKING_NOT_FOUND'') booking) (\<lambda>b.
         andDo (if b_stripePaymentIntentId b \<noteq> None then andDo (ensureRequestPayment env b) (ret ()) else ret ())
        (andThen (ofOption INVALID_DATE (bookingOtpExpiries (r_departureDate r) (r_departureTime r)
            (r_routeDurationSeconds r) (e_now env))) (\<lambda>expiries.
         andDo (updateBooking bookingId (confirmed_row env expiries))
        (andDo (updateRide (of_rideId f) (\<lambda>y. y\<lparr>r_status := RIDE_PUBLISHED\<rparr>))
        (andDo (updateOffers (\<lambda>y. of_id y = of_id f) (\<lambda>y. y\<lparr>of_status := OFFER_ACCEPTED\<rparr>))
        (andDo (updateRequests (\<lambda>y. q_id y = of_requestId f)
                  (\<lambda>y. y\<lparr>q_status := REQ_MATCHED, q_checkoutExpiresAt := None\<rparr>))
        (andDo (updateOffers (\<lambda>y. of_requestId y = of_requestId f \<and> of_status y = OFFER_OPEN)
                  (\<lambda>y. y\<lparr>of_status := OFFER_CLOSED\<rparr>))
         (ret (Some (of_id f)))))))))))))))"

end
