(* ===== verification/Booking_Flow.thy ===== *)
theory Booking_Flow
  imports Request_Booking
begin

text \<open>
  Payment, expiry, cancellation and withdrawal of bookings,
  \<open>src/src/modules/ride-booking/ride-booking.service.ts\<close>. Handlers that read a row and act on it later
  are split into the read and the rest (\<open>..._body\<close>), so that other handlers may run in between.
  Log lines and socket events, which cannot fail, are left out.
\<close>

subsection \<open>Statuses\<close>

definition ACTIVE_BOOKING_STATUSES :: "booking_status list" where
  "ACTIVE_BOOKING_STATUSES = [DRIVER_PENDING, CONFIRMED, IN_PROGRESS]"

definition WITHDRAWABLE_BOOKING_STATUSES :: "booking_status list" where
  "WITHDRAWABLE_BOOKING_STATUSES = [PAYMENT_PENDING, DRIVER_PENDING]"

definition CANCELLABLE_BOOKING_STATUSES :: "booking_status list" where
  "CANCELLABLE_BOOKING_STATUSES = [PAYMENT_PENDING, DRIVER_PENDING, CONFIRMED]"

definition PAYMENT_SETTLED_BOOKING_STATUSES :: "booking_status list" where
  "PAYMENT_SETTLED_BOOKING_STATUSES = [DRIVER_PENDING, CONFIRMED, WAITING_FOR_PICKUP, DRIVER_ARRIVED, OTP_PENDING,
     ONBOARD, DROP_PENDING, DRIVER_DROPPED, IN_PROGRESS, COMPLETED, DISPUTED]"

lemmas status_lists = ACTIVE_BOOKING_STATUSES_def WITHDRAWABLE_BOOKING_STATUSES_def
  CANCELLABLE_BOOKING_STATUSES_def PAYMENT_SETTLED_BOOKING_STATUSES_def

text \<open>
  The partial unique index \<open>RideBooking_active_rider_ride_key\<close>: a statement that makes a row active
  while the rider already has an active booking on that ride fails (P2002).
\<close>

definition active_index :: "booking_row list \<Rightarrow> bool" where
  "active_index bs \<longleftrightarrow> distinct (map (\<lambda>b. (b_rideId b, b_passengerId b))
     (filter (\<lambda>b. b_status b \<in> set ACTIVE_BOOKING_STATUSES) bs))"

definition checkActiveIndex :: "(world, unit) op" where
  "checkActiveIndex = andThen (gets (\<lambda>w. active_index (bookings w))) (\<lambda>ok. ensure ok UNIQUE_VIOLATION)"

definition amount_due :: "booking_row \<Rightarrow> jsnum" where
  "amount_due b = (case b_paymentAmount b of None \<Rightarrow> b_totalPrice b | Some a \<Rightarrow> a)"

definition toMajorUnits :: "int \<Rightarrow> jsnum" where
  "toMajorUnits amountMinor = js_toFixed2 (js_div (of_int amountMinor) 100)"

definition DRIVER_DECISION_WINDOW_MS :: int where "DRIVER_DECISION_WINDOW_MS = 60 * 60 * 1000"

subsection \<open>Jobs\<close>

definition enqueueDeadlineCheck :: "env \<Rightarrow> ident \<Rightarrow> int \<Rightarrow> (world, unit) op" where
  "enqueueDeadlineCheck env bookingId delayMs =
     andDo (enqueueJob env ''initial'' bookingId delayMs)
       (let reminderDelayMs = delayMs - 60 * 60 * 1000
        in whenM (reminderDelayMs > 0) (enqueueJob env ''reminder'' bookingId reminderDelayMs))"

definition enqueuePaymentExpiryCheck :: "env \<Rightarrow> ident \<Rightarrow> int \<Rightarrow> (world, unit) op" where
  "enqueuePaymentExpiryCheck env bookingId delayMs = enqueueJob env ''payment-expiry'' bookingId delayMs"

definition bookingPaymentWindowMs :: "env \<Rightarrow> int" where
  "bookingPaymentWindowMs env = e_paymentWindowMinutes env * 60 * 1000"

text \<open>The job with the old delay is removed first; failures are only logged.\<close>

definition reschedulePaymentExpiryCheck :: "env \<Rightarrow> ident \<Rightarrow> int \<Rightarrow> (world, unit) op" where
  "reschedulePaymentExpiryCheck env bookingId delayMs = bestEffort (
     andDo (enqueueJob env ''remove:payment-expiry'' bookingId 0)
    (andDo (enqueuePaymentExpiryCheck env bookingId delayMs)
     (updateBooking bookingId (\<lambda>b. b\<lparr>b_updatedAt := e_now env\<rparr>))))"

subsection \<open>Helpers around Stripe\<close>

definition recordProviderFeeForIntent :: "env \<Rightarrow> intent \<Rightarrow> ident \<Rightarrow> (world, unit) op" where
  "recordProviderFeeForIntent env intent bookingId = bestEffort (
     andThen (gets (findPaymentByBooking bookingId)) (\<lambda>payment.
     case (payment, i_latest_charge intent) of
       (Some p, Some chargeId) \<Rightarrow>
         (case e_balanceFee env chargeId of
            None \<Rightarrow> ret ()
          | Some (fee, cur) \<Rightarrow> recordProviderFeeExpense (p_id p) bookingId (major fee)
              (toUpperCase (case cur of Some c \<Rightarrow> if c = '''' then p_currency p else c | None \<Rightarrow> p_currency p)))
     | _ \<Rightarrow> ret ()))"

definition releaseUnpaidPaymentIntent :: "env \<Rightarrow> ident \<Rightarrow> (world, unit) op" where
  "releaseUnpaidPaymentIntent env paymentIntentId = bestEffort (cancelPaymentIntent env paymentIntentId)"

definition reconciliationIssue :: "ident \<Rightarrow> string \<Rightarrow> string \<Rightarrow> (world, unit) op" where
  "reconciliationIssue bookingId issueType severity = emit (IssueRecorded bookingId issueType severity)"

subsection \<open>The payment arrived\<close>

definition reserveSeatsForBooking :: "seats_input \<Rightarrow> bool \<Rightarrow> (world, unit) op" where
  "reserveSeatsForBooking i allowDraft =
     andDo (reserveRideSeats i)
    (andThen (gets (findRide (si_rideId i))) (\<lambda>ride.
     ensure (map_option r_status ride = Some (if allowDraft then RIDE_DRAFT else RIDE_PUBLISHED)) RIDE_NOT_FOUND))"

definition refundRideFullPayment :: "env \<Rightarrow> ident \<Rightarrow> intent \<Rightarrow> (world, unit) op" where
  "refundRideFullPayment env bookingId intent =
     andThen (updateBookings (\<lambda>b. b_id b = bookingId \<and> b_status b = PAYMENT_PENDING)
        (\<lambda>b. b\<lparr>b_status := RIDE_FULL_REFUNDED, b_stripePaymentIntentId := Some (i_id intent),
               b_paymentCapturedAt := Some (e_now env), b_refundPercent := Some 100\<rparr>)) (\<lambda>claimed.
     if claimed = 0 then ret ()
     else andThen (gets (\<lambda>w. case findBooking bookingId w of None \<Rightarrow> None
                 | Some b \<Rightarrow> map_option (\<lambda>r. (b, r)) (findRide (b_rideId b) w))) (\<lambda>found.
     case found of None \<Rightarrow> ret ()
     | Some (booking, ride) \<Rightarrow>
         let refundAmount = amount_due booking in
         andDo (tryCatch
           (andDo (refundPaymentIntent env (i_id intent) (Some (toMinorCurrencyUnits refundAmount)))
             (updateBooking bookingId (\<lambda>b. b\<lparr>b_refundedAt := Some (e_now env), b_refundAmount := Some refundAmount\<rparr>)))
           (\<lambda>_. reconciliationIssue bookingId ''STRIPE_MISMATCH'' ''CRITICAL''))
        (andDo (bestEffort
           (andDo (markBookingPaymentPaid bookingId (r_driverId ride))
           (andDo (markBookingPaymentRefunded (e_now env) bookingId (r_driverId ride) (Some refundAmount)) (ret ()))))
          (bestEffort (createNotification env (b_passengerId booking) ''booking.ride_full_refunded'')))))"

datatype claim = CLAIMED | ALREADY_APPLIED | RIDE_FULL

definition paid_row :: "env \<Rightarrow> intent \<Rightarrow> booking_row \<Rightarrow> booking_row" where
  "paid_row env intent b =
     b\<lparr>b_status := DRIVER_PENDING, b_stripePaymentIntentId := Some (i_id intent),
       b_stripeChargeId := i_latest_charge intent,
       b_paymentAmount := Some (toMajorUnits (if i_amount_received intent > 0 then i_amount_received intent else i_amount intent)),
       b_paymentCurrency := Some (toUpperCase (i_currency intent)), b_paymentCapturedAt := Some (e_now env),
       b_seatsReservedAt := Some (e_now env),
       b_driverDecisionDeadlineAt := Some (e_now env + DRIVER_DECISION_WINDOW_MS)\<rparr>"

text \<open>The transaction that flips the status and takes the seats.\<close>

definition claim_payment :: "env \<Rightarrow> intent \<Rightarrow> ident \<Rightarrow> (world, claim) op" where
  "claim_payment env intent bookingId =
     andThen (updateBookings (\<lambda>b. b_id b = bookingId \<and> b_status b = PAYMENT_PENDING) (paid_row env intent)) (\<lambda>updated.
     if updated = 0 then ret ALREADY_APPLIED
     else andDo checkActiveIndex
         (andThen (gets (\<lambda>w. case findBooking bookingId w of None \<Rightarrow> None
                 | Some b \<Rightarrow> map_option (\<lambda>r. (b, r)) (findRide (b_rideId b) w))) (\<lambda>found.
          andThen (ofOption RECORD_NOT_FOUND found) (\<lambda>(reserving, ride).
          andDo (confirmRequestBooking env bookingId)
         (andDo (reserveSeatsForBooking (seats_of reserving ride (Some bookingId)) False)
          (ret CLAIMED))))))"

definition claim_payment_tx :: "env \<Rightarrow> intent \<Rightarrow> ident \<Rightarrow> (world, claim) op" where
  "claim_payment_tx env intent bookingId =
     tryCatch (transaction (claim_payment env intent bookingId))
       (\<lambda>e. if e = INSUFFICIENT_SEATS \<or> e = RIDE_NOT_FOUND then ret RIDE_FULL else throw e)"

text \<open>What follows the claim: deadline, fee, payment state, notifications and the deadline job.\<close>

definition announce_paid_booking :: "env \<Rightarrow> intent \<Rightarrow> ident \<Rightarrow> (world, bool) op" where
  "announce_paid_booking env intent bookingId =
     andThen (gets (\<lambda>w. case findBooking bookingId w of None \<Rightarrow> None
               | Some b \<Rightarrow> map_option (\<lambda>r. (b, r)) (findRide (b_rideId b) w))) (\<lambda>found.
     case found of None \<Rightarrow> ret True
     | Some (booking, ride) \<Rightarrow>
         if b_status booking = CONFIRMED then
           andDo (markBookingPaymentPaid bookingId (r_driverId ride))
          (andDo (bestEffort (createNotification env (b_passengerId booking) ''ride_request.matched''))
          (andDo (bestEffort (createNotification env (r_driverId ride) ''ride_request.matched''))
           (ret True)))
         else
           andThen (ofSum (combineDepartureDateTimeUtc (r_departureDate ride) (r_departureTime ride))) (\<lambda>departureAt.
           let (decisionDeadlineAt, expiryHours) = calculateDeadline (b_responseExpiryOption booking) departureAt (e_now env) in
           andDo (updateBooking bookingId (\<lambda>b. b\<lparr>b_driverDecisionDeadlineAt := Some decisionDeadlineAt,
                    b_responseExpiryHours := Some expiryHours\<rparr>))
          (andDo (recordProviderFeeForIntent env intent bookingId)
          (andDo (tryCatch (andDo (markBookingPaymentPaid bookingId (r_driverId ride)) (ret ()))
                   (\<lambda>_. reconciliationIssue bookingId ''MISSING_WEBHOOK'' ''HIGH''))
          (andDo (bestEffort
             (andDo (createNotification env (r_driverId ride) ''booking.request.driver_decision'')
             (andDo (createNotification env (b_passengerId booking) ''booking.request.sent'')
              (enqueueDeadlineCheck env bookingId (max 0 (decisionDeadlineAt - e_now env))))))
           (ret True))))))"

definition applyStripePaymentSucceededToBooking :: "env \<Rightarrow> intent \<Rightarrow> (world, bool) op" where
  "applyStripePaymentSucceededToBooking env intent =
     (case i_bookingId intent of None \<Rightarrow> ret False
      | Some bookingId \<Rightarrow>
          andThen (claim_payment_tx env intent bookingId) (\<lambda>claimed.
          case claimed of
            ALREADY_APPLIED \<Rightarrow>
              andThen (gets (findOfferByBooking bookingId)) (\<lambda>accepted.
              case accepted of
                Some f \<Rightarrow> if of_status f = OFFER_ACCEPTED
                  then andDo (markBookingPaymentPaid bookingId (of_driverId f)) (ret False) else ret False
              | None \<Rightarrow> ret False)
          | RIDE_FULL \<Rightarrow> andDo (refundRideFullPayment env bookingId intent) (ret False)
          | CLAIMED \<Rightarrow> announce_paid_booking env intent bookingId))"

end
