(* ===== verification/Booking_Rider.thy ===== *)
theory Booking_Rider
  imports Booking_Flow
begin

text \<open>
  What a rider does with a booking, \<open>src/src/modules/ride-booking/ride-booking.service.ts\<close>: confirm or
  resume its payment, wait longer for the driver, cancel, withdraw, list; and the decision about an
  unpaid booking found when the rider books the same ride again.
\<close>

subsection \<open>Strings\<close>

definition is_space :: "char \<Rightarrow> bool" where
  "is_space c = (let n = of_char c :: nat in (9 \<le> n \<and> n \<le> 13) \<or> n = 32 \<or> n = 160)"

definition trim :: "string \<Rightarrow> string" where
  "trim s = rev (dropWhile is_space (rev (dropWhile is_space s)))"

text \<open>\<open>reason?.trim() || fallback\<close>.\<close>

definition trimmed_or :: "string option \<Rightarrow> string \<Rightarrow> string" where
  "trimmed_or reason fallback =
     (case reason of None \<Rightarrow> fallback | Some s \<Rightarrow> if trim s = '''' then fallback else trim s)"

subsection \<open>Reads\<close>

definition with_ride :: "world \<Rightarrow> booking_row option \<Rightarrow> (booking_row \<times> ride_row) option" where
  "with_ride w b = (case b of None \<Rightarrow> None | Some b \<Rightarrow> map_option (\<lambda>r. (b, r)) (findRide (b_rideId b) w))"

definition findOwnBooking :: "ident \<Rightarrow> ident \<Rightarrow> (booking_status \<Rightarrow> bool) \<Rightarrow> world \<Rightarrow> booking_row option" where
  "findOwnBooking passengerId bookingId p w =
     find (\<lambda>b. b_id b = bookingId \<and> b_passengerId b = passengerId \<and> p (b_status b)) (bookings w)"

definition getBookingById :: "ident \<Rightarrow> ident \<Rightarrow> world \<Rightarrow> booking_row option" where
  "getBookingById passengerId bookingId w = findOwnBooking passengerId bookingId (\<lambda>_. True) w"

subsection \<open>Failing an unpaid booking\<close>

definition failBookingAndReleaseSeats :: "ident \<Rightarrow> (world, unit) op" where
  "failBookingAndReleaseSeats bookingId = transaction (
     andThen (gets (\<lambda>w. with_ride w (findBooking bookingId w))) (\<lambda>existing.
     case existing of None \<Rightarrow> ret ()
     | Some (b, r) \<Rightarrow>
         andThen (updateBookings (\<lambda>y. b_id y = bookingId \<and> b_status y = PAYMENT_PENDING)
                    (\<lambda>y. y\<lparr>b_status := PAYMENT_FAILED\<rparr>)) (\<lambda>failed.
         if failed = 0 then ret ()
         else andDo (releaseBookingSeats bookingId (seats_of b r None)) (ret ()))))"

subsection \<open>Confirming and resuming a payment\<close>

fun resumable_intent :: "intent_status \<Rightarrow> bool" where
  "resumable_intent IS_requires_payment_method = True"
| "resumable_intent IS_requires_confirmation = True"
| "resumable_intent IS_requires_action = True"
| "resumable_intent IS_processing = True"
| "resumable_intent _ = False"

fun UNCONFIRMED_INTENT_STATUS_CODES :: "intent_status \<Rightarrow> error" where
  "UNCONFIRMED_INTENT_STATUS_CODES IS_requires_payment_method = PAYMENT_METHOD_REQUIRED"
| "UNCONFIRMED_INTENT_STATUS_CODES IS_requires_confirmation = PAYMENT_NOT_CONFIRMED"
| "UNCONFIRMED_INTENT_STATUS_CODES IS_requires_action = PAYMENT_REQUIRES_ACTION"
| "UNCONFIRMED_INTENT_STATUS_CODES IS_processing = PAYMENT_PROCESSING"
| "UNCONFIRMED_INTENT_STATUS_CODES IS_canceled = PAYMENT_CANCELLED"
| "UNCONFIRMED_INTENT_STATUS_CODES _ = PAYMENT_NOT_CONFIRMED"

definition retrieveIntent :: "env \<Rightarrow> ident \<Rightarrow> (world, intent) op" where
  "retrieveIntent env x = (case e_retrieve env x of Retrieved i \<Rightarrow> ret i
     | _ \<Rightarrow> throw PAYMENT_VERIFICATION_UNAVAILABLE)"

definition confirm_body :: "env \<Rightarrow> ident \<Rightarrow> ident \<Rightarrow> booking_row option \<Rightarrow> (world, booking_row option) op" where
  "confirm_body env passengerId bookingId found =
     (case found of None \<Rightarrow> ret None
      | Some booking \<Rightarrow>
          if b_status booking \<in> set PAYMENT_SETTLED_BOOKING_STATUSES then gets (getBookingById passengerId bookingId)
          else if b_status booking \<noteq> PAYMENT_PENDING then throw BOOKING_NOT_PAYABLE
          else if e_bypass env then throw PAYMENT_NOT_INITIALIZED
          else andThen (ofOption PAYMENT_NOT_INITIALIZED (b_stripePaymentIntentId booking)) (\<lambda>paymentIntentId.
               andThen (retrieveIntent env paymentIntentId) (\<lambda>intent.
               if i_status intent \<noteq> IS_succeeded then
                 andDo (whenM (i_status intent = IS_canceled) (failBookingAndReleaseSeats bookingId))
                   (throw (UNCONFIRMED_INTENT_STATUS_CODES (i_status intent)))
               else andDo (applyStripePaymentSucceededToBooking env intent)
                 (gets (getBookingById passengerId bookingId)))))"

definition confirmBookingPayment :: "env \<Rightarrow> ident \<Rightarrow> ident \<Rightarrow> (world, booking_row option) op" where
  "confirmBookingPayment env passengerId bookingId =
     andThen (gets (getBookingById passengerId bookingId)) (confirm_body env passengerId bookingId)"

text \<open>The second component says that the rider got a payable intent back.\<close>

definition resume_body :: "env \<Rightarrow> ident \<Rightarrow> ident \<Rightarrow> booking_row option \<Rightarrow> (world, booking_row option \<times> bool) op" where
  "resume_body env passengerId bookingId found =
     (case found of None \<Rightarrow> ret (None, False)
      | Some booking \<Rightarrow>
          if b_status booking \<in> set PAYMENT_SETTLED_BOOKING_STATUSES
          then gets (\<lambda>w. (getBookingById passengerId bookingId w, False))
          else if b_status booking \<noteq> PAYMENT_PENDING then throw BOOKING_NOT_PAYABLE
          else if e_bypass env then throw PAYMENT_NOT_INITIALIZED
          else andThen (ofOption PAYMENT_NOT_INITIALIZED (b_stripePaymentIntentId booking)) (\<lambda>paymentIntentId.
               andThen (retrieveIntent env paymentIntentId) (\<lambda>intent.
               if i_status intent = IS_succeeded then
                 andDo (applyStripePaymentSucceededToBooking env intent)
                   (gets (\<lambda>w. (getBookingById passengerId bookingId w, False)))
               else if \<not> resumable_intent (i_status intent) then
                 andDo (failBookingAndReleaseSeats bookingId) (throw PAYMENT_CANCELLED)
               else andThen (gets (getBookingById passengerId bookingId)) (\<lambda>resumable.
                 case resumable of None \<Rightarrow> ret (None, False)
                 | Some b \<Rightarrow> andDo (reschedulePaymentExpiryCheck env bookingId (bookingPaymentWindowMs env))
                     (ret (Some b, True))))))"

definition resumeBookingPayment :: "env \<Rightarrow> ident \<Rightarrow> ident \<Rightarrow> (world, booking_row option \<times> bool) op" where
  "resumeBookingPayment env passengerId bookingId =
     andThen (gets (getBookingById passengerId bookingId)) (resume_body env passengerId bookingId)"

subsection \<open>Booking again behind an unpaid booking\<close>

datatype reentry = NO_PENDING | REPLACE | APPLIED ident | RESUME ident ident string

text \<open>\<open>findFirst\<close> with \<open>orderBy: createdAt desc\<close>.\<close>

fun latest_booking :: "booking_row list \<Rightarrow> booking_row option" where
  "latest_booking [] = None"
| "latest_booking (b # bs) =
     (case latest_booking bs of None \<Rightarrow> Some b | Some c \<Rightarrow> if b_createdAt c > b_createdAt b then Some c else Some b)"

definition findPendingBooking :: "ident \<Rightarrow> ident \<Rightarrow> world \<Rightarrow> booking_row option" where
  "findPendingBooking passengerId rideId w = latest_booking
     (filter (\<lambda>b. b_rideId b = rideId \<and> b_passengerId b = passengerId \<and> b_status b = PAYMENT_PENDING) (bookings w))"

definition reentry_body :: "env \<Rightarrow> (booking_row \<times> ride_row) option \<Rightarrow> (world, reentry) op" where
  "reentry_body env pending =
     (case pending of None \<Rightarrow> ret NO_PENDING
      | Some (b, r) \<Rightarrow>
          if r_status r \<noteq> RIDE_PUBLISHED then andDo (failBookingAndReleaseSeats (b_id b)) (ret REPLACE)
          else (case b_stripePaymentIntentId b of
             None \<Rightarrow> andDo (failBookingAndReleaseSeats (b_id b)) (ret REPLACE)
           | Some x \<Rightarrow>
               (case e_retrieve env x of
                  ResourceMissing \<Rightarrow> andDo (failBookingAndReleaseSeats (b_id b)) (ret REPLACE)
                | StripeUnavailable \<Rightarrow> throw PAYMENT_VERIFICATION_UNAVAILABLE
                | Retrieved intent \<Rightarrow>
                    if i_status intent = IS_succeeded then
                      andDo (applyStripePaymentSucceededToBooking env intent) (ret (APPLIED (b_id b)))
                    else if resumable_intent (i_status intent) then
                      ret (RESUME (b_id b) (i_id intent) (toUpperCase (i_currency intent)))
                    else andDo (failBookingAndReleaseSeats (b_id b)) (ret REPLACE))))"

definition resolvePendingBookingReentry :: "env \<Rightarrow> ident \<Rightarrow> ident \<Rightarrow> (world, reentry) op" where
  "resolvePendingBookingReentry env passengerId rideId =
     andThen (gets (\<lambda>w. with_ride w (findPendingBooking passengerId rideId w))) (reentry_body env)"

subsection \<open>Waiting longer\<close>

definition EXTENDED_DEADLINE_MS :: int where "EXTENDED_DEADLINE_MS = 60 * 60 * 1000"

definition extend_body :: "env \<Rightarrow> ident \<Rightarrow> (booking_row \<times> ride_row) option \<Rightarrow> (world, time) op" where
  "extend_body env bookingId found =
     andThen (ofOption BOOKING_NOT_FOUND found) (\<lambda>(booking, ride).
     andDo (ensure (b_status booking = DRIVER_PENDING) BOOKING_NOT_DRIVER_PENDING)
    (andDo (ensure (\<not> (case b_driverDecisionDeadlineAt booking of None \<Rightarrow> True | Some d \<Rightarrow> d > e_now env)) DEADLINE_NOT_EXPIRED)
    (andDo (ensure (b_deadlineExtendedAt booking = None) ALREADY_EXTENDED)
    (let newDeadline = e_now env + EXTENDED_DEADLINE_MS in
     andDo (updateBooking bookingId (\<lambda>b. b\<lparr>b_driverDecisionDeadlineAt := Some newDeadline,
              b_deadlineExtendedAt := Some (e_now env)\<rparr>))
    (andDo (createNotification env (r_driverId ride) ''booking.rider.extended_wait'')
     (ret newDeadline))))))"

definition extendWaitForDriver :: "env \<Rightarrow> ident \<Rightarrow> ident \<Rightarrow> (world, time) op" where
  "extendWaitForDriver env passengerId bookingId =
     andThen (gets (\<lambda>w. with_ride w (findOwnBooking passengerId bookingId (\<lambda>s. s = DRIVER_PENDING) w)))
       (extend_body env bookingId)"

subsection \<open>Cancelling\<close>

record cancel_plan =
  cp_captured :: bool
  cp_deadlineExpired :: bool
  cp_refundPercent :: jsnum
  cp_refundAmount :: jsnum
  cp_reason :: string

definition payment_captured :: "booking_row \<Rightarrow> bool" where
  "payment_captured b \<longleftrightarrow> b_paymentCapturedAt b \<noteq> None \<and> b_stripePaymentIntentId b \<noteq> None"

definition cancel_plan_of :: "env \<Rightarrow> booking_row \<Rightarrow> time \<Rightarrow> string option \<Rightarrow> cancel_plan" where
  "cancel_plan_of env booking departureAt reason =
     (let isDeadlineExpired = (case b_driverDecisionDeadlineAt booking of None \<Rightarrow> False
            | Some d \<Rightarrow> d < e_now env \<and> b_status booking = DRIVER_PENDING);
          isPaymentCaptured = payment_captured booking;
          percent = (if isDeadlineExpired then 100
            else if isPaymentCaptured then getRiderRefundPercent departureAt (e_now env) else 0)
      in \<lparr>cp_captured = isPaymentCaptured, cp_deadlineExpired = isDeadlineExpired, cp_refundPercent = percent,
          cp_refundAmount = (if isPaymentCaptured then getRiderRefundAmount (amount_due booking) percent else 0),
          cp_reason = (if isDeadlineExpired then ''DRIVER_NO_RESPONSE'' else trimmed_or reason ''PASSENGER_CANCELLED'')\<rparr>)"

definition cancelled_row :: "env \<Rightarrow> cancel_plan \<Rightarrow> booking_row \<Rightarrow> booking_row" where
  "cancelled_row env plan b = b\<lparr>b_status := CANCELLED, b_cancelledAt := Some (e_now env),
     b_cancelledByRole := Some ''PASSENGER'', b_cancellationReason := Some (cp_reason plan),
     b_refundPercent := Some (cp_refundPercent plan), b_refundAmount := Some (cp_refundAmount plan)\<rparr>"

definition cancel_tx :: "env \<Rightarrow> ident \<Rightarrow> ident \<Rightarrow> cancel_plan \<Rightarrow> (world, unit) op" where
  "cancel_tx env passengerId bookingId plan = transaction (
     andThen (gets (\<lambda>w. with_ride w (findOwnBooking passengerId bookingId (\<lambda>s. s \<in> set CANCELLABLE_BOOKING_STATUSES) w))) (\<lambda>current.
     andThen (ofOption BOOKING_NOT_CANCELLABLE current) (\<lambda>(b, r).
     andDo (updateBooking bookingId (cancelled_row env plan))
    (andDo (releaseBookingSeats bookingId (seats_of b r None)) (ret ())))))"

record cancel_result =
  cr_refundPercent :: jsnum
  cr_refundAmount :: jsnum
  cr_refundInitiated :: bool

definition cancel_body ::
  "env \<Rightarrow> ident \<Rightarrow> ident \<Rightarrow> string option \<Rightarrow> bool \<times> (booking_row \<times> ride_row) option \<Rightarrow> (world, cancel_result) op" where
  "cancel_body env passengerId bookingId reason snapshot =
     (let (checkoutPending, found) = snapshot in
      if checkoutPending then throw REQUEST_CHECKOUT_PENDING
      else andThen (ofOption BOOKING_NOT_FOUND found) (\<lambda>(booking, ride).
        andThen (ofSum (combineDepartureDateTimeUtc (r_departureDate ride) (r_departureTime ride))) (\<lambda>departureAt.
        andDo (ensure (\<not> (b_status booking = CONFIRMED \<and> isConfirmedCancellationWindowClosed departureAt (e_now env)))
                 CANCELLATION_WINDOW_CLOSED)
       (let plan = cancel_plan_of env booking departureAt reason;
            refundAmount = cp_refundAmount plan in
        andDo (cancel_tx env passengerId bookingId plan)
       (andThen (case b_stripePaymentIntentId booking of
            None \<Rightarrow> ret False
          | Some x \<Rightarrow>
              if cp_captured plan \<and> refundAmount > 0 then
                andDo (refundPaymentIntent env x (Some (toMinorCurrencyUnits refundAmount)))
               (andDo (updateBooking bookingId (\<lambda>b. b\<lparr>b_refundedAt := Some (e_now env)\<rparr>)) (ret True))
              else if \<not> cp_captured plan then andDo (releaseUnpaidPaymentIntent env x) (ret False)
              else ret False) (\<lambda>refundInitiated.
        andDo (whenM (refundInitiated \<and> refundAmount > 0)
                (bestEffort (andDo (markBookingPaymentRefunded (e_now env) bookingId (r_driverId ride) (Some refundAmount)) (ret ()))))
       (andDo (createNotification env (r_driverId ride) ''booking.rider.cancelled'')
        (ret \<lparr>cr_refundPercent = cp_refundPercent plan, cr_refundAmount = refundAmount,
              cr_refundInitiated = refundInitiated\<rparr>))))))))"

definition cancel_read :: "ident \<Rightarrow> ident \<Rightarrow> world \<Rightarrow> bool \<times> (booking_row \<times> ride_row) option" where
  "cancel_read passengerId bookingId w =
     (\<exists>f \<in> set (offers w). of_bookingId f = Some bookingId \<and> of_status f = OFFER_SELECTED \<and>
        map_option q_riderId (findRequest (of_requestId f) w) = Some passengerId,
      with_ride w (findOwnBooking passengerId bookingId (\<lambda>s. s \<in> set CANCELLABLE_BOOKING_STATUSES) w))"

definition cancelBooking :: "env \<Rightarrow> ident \<Rightarrow> ident \<Rightarrow> string option \<Rightarrow> (world, cancel_result) op" where
  "cancelBooking env passengerId bookingId reason =
     andThen (gets (cancel_read passengerId bookingId)) (cancel_body env passengerId bookingId reason)"

subsection \<open>Withdrawing\<close>

definition withdrawn_row :: "env \<Rightarrow> string option \<Rightarrow> jsnum \<Rightarrow> booking_row \<Rightarrow> booking_row" where
  "withdrawn_row env reason refundAmount b =
     (let text = (case reason of None \<Rightarrow> ''RIDER_WITHDRAWN'' | Some s \<Rightarrow> s) in
      b\<lparr>b_status := CANCELLED, b_cancelledAt := Some (e_now env), b_cancelledByRole := Some ''PASSENGER'',
        b_cancellationReason := Some text, b_withdrawnAt := Some (e_now env), b_withdrawnReason := Some text,
        b_refundPercent := Some 100, b_refundAmount := Some refundAmount\<rparr>)"

definition withdraw_tx :: "env \<Rightarrow> ident \<Rightarrow> string option \<Rightarrow> booking_row \<Rightarrow> ride_row \<Rightarrow> (world, bool) op" where
  "withdraw_tx env bookingId reason booking ride = transaction (
     andThen (updateBookings (\<lambda>b. b_id b = bookingId \<and> b_status b \<in> set WITHDRAWABLE_BOOKING_STATUSES)
        (withdrawn_row env reason (amount_due booking))) (\<lambda>cancelled.
     if cancelled = 0 then ret False
     else andDo (releaseBookingSeats bookingId (seats_of booking ride None)) (ret True)))"

definition withdraw_body ::
  "env \<Rightarrow> ident \<Rightarrow> string option \<Rightarrow> (booking_row \<times> ride_row) option \<Rightarrow> (world, bool) op" where
  "withdraw_body env bookingId reason found =
     andThen (ofOption BOOKING_NOT_FOUND found) (\<lambda>(booking, ride).
     andThen (withdraw_tx env bookingId reason booking ride) (\<lambda>cancelled.
     andDo (ensure cancelled BOOKING_NOT_FOUND)
    (andThen (if e_bypass env then ret True
        else (case b_stripePaymentIntentId booking of
            None \<Rightarrow> ret False
          | Some x \<Rightarrow>
              if b_paymentCapturedAt booking = None then andDo (releaseUnpaidPaymentIntent env x) (ret False)
              else andDo (refundPaymentIntent env x (Some (toMinorCurrencyUnits (amount_due booking))))
                  (andDo (updateBooking bookingId (\<lambda>b. b\<lparr>b_refundedAt := Some (e_now env)\<rparr>)) (ret True)))) (\<lambda>refundInitiated.
     andDo (whenM refundInitiated (bestEffort
        (andDo (markBookingPaymentRefunded (e_now env) bookingId (r_driverId ride) (Some (amount_due booking))) (ret ()))))
    (andDo (createNotification env (r_driverId ride) ''booking.rider.withdrawn'')
     (ret refundInitiated))))))"

definition withdrawBooking :: "env \<Rightarrow> ident \<Rightarrow> ident \<Rightarrow> string option \<Rightarrow> (world, bool) op" where
  "withdrawBooking env passengerId bookingId reason =
     andThen (gets (\<lambda>w. with_ride w (findOwnBooking passengerId bookingId (\<lambda>s. s \<in> set WITHDRAWABLE_BOOKING_STATUSES) w)))
       (withdraw_body env bookingId reason)"

end
