(* ===== verification/Disputes.thy ===== *)
theory Disputes
  imports Booking_Rider Payout
begin

text \<open>
  Disputes about a booking: raising one, collecting its evidence, the rule engine, the administrator's
  plain resolution (\<open>src/src/modules/dispute/dispute.service.ts\<close>) and the settlement that moves money
  (\<open>src/src/modules/dispute/dispute-settlement.service.ts\<close>). Every write is a statement of its own.
\<close>

definition findDispute :: "ident \<Rightarrow> world \<Rightarrow> dispute_row option" where
  "findDispute x w = find (\<lambda>d. d_id d = x) (disputes w)"

definition updateDispute :: "ident \<Rightarrow> (dispute_row \<Rightarrow> dispute_row) \<Rightarrow> (world, unit) op" where
  "updateDispute x f = (\<lambda>w. if findDispute x w = None then (Inl RECORD_NOT_FOUND, w)
     else (Inr (), w\<lparr>disputes := update_where (\<lambda>d. d_id d = x) f (disputes w)\<rparr>))"

abbreviation DISPUTE_NOT_FOUND :: error where "DISPUTE_NOT_FOUND \<equiv> Err ''DISPUTE_NOT_FOUND''"

subsection \<open>Raising a dispute\<close>

record dispute_input =
  di_rideId :: ident
  di_bookingId :: ident
  di_raisedBy :: ident
  di_reason :: string
  di_description :: "string option"
  di_status :: dispute_status

definition createDispute :: "env \<Rightarrow> dispute_input \<Rightarrow> (world, ident) op" where
  "createDispute env params =
     andThen (gets (\<lambda>w. with_ride w (findBooking (di_bookingId params) w))) (\<lambda>found.
     andThen (ofOption BOOKING_NOT_FOUND found) (\<lambda>(booking, ride).
     andDo (ensure (b_rideId booking = di_rideId params) (Err ''BOOKING_RIDE_MISMATCH''))
    (andDo (ensure (\<not> (di_raisedBy params \<noteq> b_passengerId booking \<and> di_raisedBy params \<noteq> r_driverId ride))
              (Err ''FORBIDDEN_DISPUTE''))
    (andThen (gets (\<lambda>w. \<exists>d \<in> set (disputes w). d_bookingId d = di_bookingId params \<and>
        d_raisedBy d = di_raisedBy params \<and> open_dispute (d_status d))) (\<lambda>existing.
     andDo (ensure (\<not> existing) (Err ''DISPUTE_ALREADY_EXISTS''))
    (andDo (modify (\<lambda>w. w\<lparr>disputes := disputes w @
        [\<lparr>d_id = e_newDisputeId env, d_rideId = di_rideId params, d_bookingId = di_bookingId params,
          d_raisedBy = di_raisedBy params, d_reason = di_reason params, d_status = di_status params,
          d_resolution = None, d_resolvedBy = None, d_resolvedAt = None, d_description = di_description params,
          d_evidence = None, d_recommendation = None, d_riskScore = None\<rparr>]\<rparr>))
    (andDo (createNotification env
        (if di_raisedBy params = b_passengerId booking then r_driverId ride else b_passengerId booking) ''dispute.created'')
     (ret (e_newDisputeId env)))))))))"

subsection \<open>Evidence\<close>

fun str_includes :: "string \<Rightarrow> string \<Rightarrow> bool" where
  "str_includes [] pat = (pat = [])"
| "str_includes (c # cs) pat = (take (length pat) (c # cs) = pat \<or> str_includes cs pat)"

definition MANUAL_OVERRIDE_EVENT_HINTS :: "string list" where
  "MANUAL_OVERRIDE_EVENT_HINTS = [''MANUAL'', ''OVERRIDE'', ''FALLBACK'', ''SUPPORT'', ''DEV'']"

definition isManualOverrideEvent :: "ride_event \<Rightarrow> bool" where
  "isManualOverrideEvent e \<longleftrightarrow>
     (\<exists>hint \<in> set MANUAL_OVERRIDE_EVENT_HINTS. str_includes (toUpperCase (ev_eventType e)) hint) \<or> ev_override e"

definition evidence_of :: "world \<Rightarrow> dispute_row \<Rightarrow> booking_row \<Rightarrow> ride_row \<Rightarrow> dispute_evidence" where
  "evidence_of w dispute booking ride =
     (let events = filter (\<lambda>e. ev_rideId e = d_rideId dispute \<and> ev_bookingId e = Some (d_bookingId dispute)) (rideEvents w) in
      \<lparr>de_driverGpsCount = int (count_where (\<lambda>l. lo_rideId l = d_rideId dispute) (locations w)),
       de_riderGpsCount = int (count_where (\<lambda>e. ev_actorType e = ''RIDER'' \<and> ev_lat e \<noteq> None \<and> ev_lng e \<noteq> None) events),
       de_manualOverrideCount = int (count_where isManualOverrideEvent events),
       de_rideCompleted = (r_status ride = RIDE_COMPLETED), de_completedAt = (b_completedAt booking \<noteq> None),
       de_otpVerified = (b_pickupOtpVerifiedAt booking \<noteq> None),
       de_dropoffConfirmed = (b_dropoffConfirmedAt booking \<noteq> None),
       de_riderConfirmedDropoff = (b_riderDropoffConfirmedAt booking \<noteq> None),
       de_noShowMarked = (b_noShowMarkedAt booking \<noteq> None)\<rparr>)"

definition dispute_context :: "ident \<Rightarrow> world \<Rightarrow> (dispute_row \<times> booking_row \<times> ride_row) option" where
  "dispute_context disputeId w =
     (case findDispute disputeId w of None \<Rightarrow> None
      | Some d \<Rightarrow> (case (findBooking (d_bookingId d) w, findRide (d_rideId d) w) of
           (Some b, Some r) \<Rightarrow> Some (d, b, r) | _ \<Rightarrow> None))"

definition collectEvidence :: "ident \<Rightarrow> (world, dispute_evidence) op" where
  "collectEvidence disputeId =
     andThen (gets (dispute_context disputeId)) (\<lambda>found.
     andThen (ofOption DISPUTE_NOT_FOUND found) (\<lambda>(dispute, booking, ride).
     andThen (gets (\<lambda>w. evidence_of w dispute booking ride)) (\<lambda>evidence.
     andDo (updateDispute disputeId (\<lambda>d. d\<lparr>d_evidence := Some evidence, d_status := EVIDENCE_COLLECTED\<rparr>))
       (ret evidence))))"

subsection \<open>The rule engine\<close>

definition hasGpsSignals :: "dispute_evidence \<Rightarrow> bool" where
  "hasGpsSignals e \<longleftrightarrow> de_driverGpsCount e > 0 \<or> de_riderGpsCount e > 0"

definition hasStrongGpsSignals :: "dispute_evidence \<Rightarrow> bool" where
  "hasStrongGpsSignals e \<longleftrightarrow> de_driverGpsCount e > 0 \<and> de_riderGpsCount e > 0"

abbreviation hundredths :: "int \<Rightarrow> jsnum" where "hundredths n \<equiv> fl64 (of_int n / 100)"

definition risk_score :: "dispute_evidence \<Rightarrow> jsnum" where
  "risk_score e =
     (let s0 = 1 / 2;
          s1 = (if hasStrongGpsSignals e then js_sub s0 (hundredths 18)
                else if hasGpsSignals e then js_sub s0 (hundredths 8) else js_add s0 (hundredths 15));
          s2 = (if de_manualOverrideCount e > 0
                then js_add s1 (min (hundredths 20)
                  (js_add (hundredths 8) (js_mul (of_int (de_manualOverrideCount e)) (hundredths 3)))) else s1);
          s3 = (if de_otpVerified e then js_add s2 (hundredths 10) else s2);
          s4 = (if de_riderConfirmedDropoff e then js_sub s3 (hundredths 28) else s3);
          s5 = (if de_dropoffConfirmed e \<and> (de_rideCompleted e \<or> de_completedAt e) then js_sub s4 (hundredths 12) else s4);
          s6 = (if de_noShowMarked e \<and> de_otpVerified e then js_add s5 (1 / 4) else s5)
      in min 1 (max 0 (js_toFixed2 s6)))"

definition dispute_verdict :: "dispute_evidence \<Rightarrow> string \<times> dispute_status" where
  "dispute_verdict e =
     (let completed = de_rideCompleted e \<or> de_completedAt e in
      if de_noShowMarked e \<and> de_otpVerified e then (''REFUND_RIDER'', AUTO_RESOLVED_RIDER_REFUND)
      else if de_riderConfirmedDropoff e \<and> (completed \<or> de_dropoffConfirmed e \<or> hasStrongGpsSignals e)
        then (''PAYOUT_DRIVER'', AUTO_RESOLVED_DRIVER_PAYOUT)
      else if de_manualOverrideCount e > 0 \<and> \<not> hasStrongGpsSignals e then (''MANUAL_REVIEW'', NEEDS_MANUAL_REVIEW)
      else if \<not> hasGpsSignals e then (''MANUAL_REVIEW'', NEEDS_MANUAL_REVIEW)
      else if de_dropoffConfirmed e \<and> \<not> de_riderConfirmedDropoff e \<and> completed then (''MANUAL_REVIEW'', NEEDS_MANUAL_REVIEW)
      else (''MANUAL_REVIEW'', NEEDS_MANUAL_REVIEW))"

definition evaluateDispute :: "env \<Rightarrow> ident \<Rightarrow> (world, string \<times> jsnum \<times> dispute_status) op" where
  "evaluateDispute env disputeId =
     andThen (gets (findDispute disputeId)) (\<lambda>found.
     andThen (ofOption DISPUTE_NOT_FOUND found) (\<lambda>dispute.
     andThen (ofOption (Err ''EVIDENCE_NOT_COLLECTED'') (d_evidence dispute)) (\<lambda>evidence.
     let (recommendation, autoResolution) = dispute_verdict evidence;
         auto_resolved = autoResolution \<in> {AUTO_RESOLVED_RIDER_REFUND, AUTO_RESOLVED_DRIVER_PAYOUT} in
     andDo (updateDispute disputeId (\<lambda>d. d\<lparr>d_recommendation := Some recommendation,
         d_riskScore := Some (risk_score evidence), d_status := autoResolution,
         d_resolvedAt := (if auto_resolved then Some (e_now env) else d_resolvedAt d),
         d_resolution := (if auto_resolved then Some recommendation else d_resolution d)\<rparr>))
       (ret (recommendation, risk_score evidence, autoResolution)))))"

subsection \<open>The administrator's resolution\<close>

definition resolution_status :: "string \<Rightarrow> dispute_status" where
  "resolution_status resolution =
     (if resolution = ''REFUND'' then RESOLVED_REFUND else if resolution = ''PAYOUT'' then RESOLVED_PAYOUT
      else if resolution = ''SPLIT'' then RESOLVED_SPLIT else ESCALATED)"

definition resolveDispute :: "env \<Rightarrow> ident \<Rightarrow> string \<Rightarrow> ident \<Rightarrow> (world, unit) op" where
  "resolveDispute env disputeId resolution resolvedBy =
     andThen (gets (findDispute disputeId)) (\<lambda>found.
     andThen (ofOption DISPUTE_NOT_FOUND found) (\<lambda>_.
       updateDispute disputeId (\<lambda>d. d\<lparr>d_status := resolution_status resolution, d_resolution := Some resolution,
         d_resolvedBy := Some resolvedBy, d_resolvedAt := Some (e_now env)\<rparr>)))"

subsection \<open>Settlement\<close>

datatype settlement = SETTLE_REFUND | SETTLE_PAYOUT | SETTLE_SPLIT | SETTLE_ESCALATE

fun settleable :: "dispute_status \<Rightarrow> bool" where
  "settleable AUTO_RESOLVED_RIDER_REFUND = True"
| "settleable AUTO_RESOLVED_DRIVER_PAYOUT = True"
| "settleable s = open_dispute s"

definition clampRefundPercent :: "jsnum option \<Rightarrow> int \<Rightarrow> int" where
  "clampRefundPercent v fallback = (case v of None \<Rightarrow> fallback | Some x \<Rightarrow> min 100 (max 0 (js_round x)))"

fun show_nat :: "nat \<Rightarrow> string" where
  "show_nat n = (if n < 10 then [char_of (48 + n)] else show_nat (n div 10) @ [char_of (48 + n mod 10)])"

declare show_nat.simps [simp del]

text \<open>The numbers the settlement computes before it writes.\<close>

record settlement_plan =
  sp_refundPercent :: int
  sp_refundAmount :: jsnum
  sp_split :: refund_split
  sp_payoutAmount :: jsnum
  sp_text :: string

definition settled_total :: "booking_row \<Rightarrow> payment_row option \<Rightarrow> jsnum" where
  "settled_total booking payment = (case payment of Some p \<Rightarrow> p_amountTotal p | None \<Rightarrow> amount_due booking)"

definition refund_settlement :: "settlement \<Rightarrow> jsnum option \<Rightarrow> booking_row \<Rightarrow> payment_row option \<Rightarrow> settlement_plan" where
  "refund_settlement resolution percent booking payment =
     (let refundPercent = (if resolution = SETTLE_REFUND then 100 else clampRefundPercent percent 50);
          paymentAmount = settled_total booking payment;
          refundAmount = js_toFixed2 (js_div (js_mul paymentAmount (of_int refundPercent)) 100);
          split = resolveRefundSplit paymentAmount
            (case payment of Some p \<Rightarrow> p_fareAmount p | None \<Rightarrow> paymentAmount) refundAmount
      in \<lparr>sp_refundPercent = refundPercent, sp_refundAmount = refundAmount, sp_split = split,
          sp_payoutAmount = max 0 (js_toFixed2 (js_sub
            (case payment of Some p \<Rightarrow> netFareAmount p | None \<Rightarrow> paymentAmount) (fareRefundAmount split))),
          sp_text = (if resolution = SETTLE_SPLIT then ''SPLIT:'' @ show_nat (nat refundPercent) @ ''%_REFUND'' else ''REFUND'')\<rparr>)"

definition already_refunded :: "booking_row \<Rightarrow> bool" where
  "already_refunded b \<longleftrightarrow> b_refundedAt b \<noteq> None \<or> (case b_refundAmount b of None \<Rightarrow> False | Some a \<Rightarrow> a \<noteq> 0)"

definition updateOptionalPayment :: "payment_row option \<Rightarrow> (payment_row \<Rightarrow> payment_row) \<Rightarrow> (world, unit) op" where
  "updateOptionalPayment payment f = (case payment of None \<Rightarrow> ret () | Some p \<Rightarrow> updatePayment (p_id p) f)"

text \<open>The refund itself, issued only when the booking was never refunded before.\<close>

definition issue_settlement_refund ::
  "env \<Rightarrow> settlement \<Rightarrow> settlement_plan \<Rightarrow> booking_row \<Rightarrow> ride_row \<Rightarrow> payment_row option \<Rightarrow> (world, unit) op" where
  "issue_settlement_refund env resolution plan booking ride payment =
     andDo (updateBooking (b_id booking) (\<lambda>b. b\<lparr>b_refundAmount := Some (sp_refundAmount plan),
        b_refundPercent := Some (of_int (sp_refundPercent plan)),
        b_status := (if resolution = SETTLE_REFUND then CANCELLED else DISPUTED)\<rparr>))
    (andDo (updateOptionalPayment payment (\<lambda>p. p\<lparr>p_status := P_REFUND_PENDING\<rparr>))
    (andDo (case (b_stripePaymentIntentId booking, b_paymentCapturedAt booking) of
        (Some x, Some _) \<Rightarrow>
          andThen (refundPaymentIntent env x (Some (toMinorCurrencyUnits (sp_refundAmount plan)))) (\<lambda>refundId.
          updateBooking (b_id booking) (\<lambda>b. b\<lparr>b_refundId := Some refundId, b_refundedAt := Some (e_now env)\<rparr>))
      | _ \<Rightarrow> updateBooking (b_id booking) (\<lambda>b. b\<lparr>b_refundedAt := Some (e_now env)\<rparr>))
     (case payment of None \<Rightarrow> ret ()
      | Some p \<Rightarrow>
          andDo (recordRefund \<lparr>rr_paymentId = p_id p, rr_bookingId = b_id booking, rr_riderId = b_passengerId booking,
              rr_driverId = r_driverId ride, rr_refundAmount = sp_refundAmount plan,
              rr_fareRefundAmount = fareRefundAmount (sp_split plan), rr_feeRefundAmount = feeRefundAmount (sp_split plan),
              rr_currency = p_currency p\<rparr>)
            (updatePayment (p_id p) (\<lambda>q. q\<lparr>
               p_refundedFareAmount := js_add (p_refundedFareAmount q) (fareRefundAmount (sp_split plan)),
               p_refundedFeeAmount := js_add (p_refundedFeeAmount q) (feeRefundAmount (sp_split plan))\<rparr>)))))"

definition settle_refund ::
  "env \<Rightarrow> settlement \<Rightarrow> settlement_plan \<Rightarrow> booking_row \<Rightarrow> ride_row \<Rightarrow> payment_row option \<Rightarrow> (world, unit) op" where
  "settle_refund env resolution plan booking ride payment =
     andDo (whenM (sp_refundAmount plan > 0 \<and> \<not> already_refunded booking)
        (issue_settlement_refund env resolution plan booking ride payment))
       (updateOptionalPayment payment (\<lambda>p.
          if resolution = SETTLE_REFUND then p\<lparr>p_status := P_REFUNDED\<rparr>
          else p\<lparr>p_status := (if sp_payoutAmount plan > 0 then P_PAYOUT_ELIGIBLE else P_REFUNDED),
                 p_payoutEligibleAt := (if sp_payoutAmount plan > 0 then Some (e_now env) else None)\<rparr>))"

definition settle_payout :: "env \<Rightarrow> booking_row \<Rightarrow> payment_row option \<Rightarrow> (world, unit) op" where
  "settle_payout env booking payment =
     andDo (ensure (\<not> (already_refunded booking \<and> (case b_refundPercent booking of None \<Rightarrow> 0 | Some n \<Rightarrow> n) \<ge> 100))
        (Err ''BOOKING_ALREADY_REFUNDED''))
    (andDo (updateOptionalPayment payment (\<lambda>p. p\<lparr>p_status := P_PAYOUT_ELIGIBLE, p_payoutEligibleAt := Some (e_now env)\<rparr>))
     (updateBooking (b_id booking) (\<lambda>b. b\<lparr>b_status := (if b_status booking = DISPUTED then COMPLETED else b_status booking)\<rparr>)))"

fun final_dispute_status :: "settlement \<Rightarrow> dispute_status" where
  "final_dispute_status SETTLE_REFUND = RESOLVED_REFUND"
| "final_dispute_status SETTLE_PAYOUT = RESOLVED_PAYOUT"
| "final_dispute_status SETTLE_SPLIT = RESOLVED_SPLIT"
| "final_dispute_status SETTLE_ESCALATE = ESCALATED"

fun settlement_text :: "settlement \<Rightarrow> settlement_plan \<Rightarrow> string" where
  "settlement_text SETTLE_PAYOUT plan = ''PAYOUT''"
| "settlement_text SETTLE_ESCALATE plan = ''ESCALATE''"
| "settlement_text _ plan = sp_text plan"

definition settleDispute :: "env \<Rightarrow> ident \<Rightarrow> settlement \<Rightarrow> ident \<Rightarrow> jsnum option \<Rightarrow> (world, unit) op" where
  "settleDispute env disputeId resolution resolvedBy refundPercent =
     andThen (gets (\<lambda>w. case findDispute disputeId w of None \<Rightarrow> None
        | Some d \<Rightarrow> map_option (\<lambda>(b, r). (d, b, r, findPaymentByBooking (b_id b) w)) (with_ride w (findBooking (d_bookingId d) w)))) (\<lambda>found.
     andThen (ofOption DISPUTE_NOT_FOUND found) (\<lambda>(dispute, booking, ride, payment).
     andDo (ensure (settleable (d_status dispute)) (Err ''DISPUTE_ALREADY_RESOLVED''))
    (let plan = refund_settlement resolution refundPercent booking payment in
     andDo (case resolution of
         SETTLE_ESCALATE \<Rightarrow> ret ()
       | SETTLE_PAYOUT \<Rightarrow> settle_payout env booking payment
       | _ \<Rightarrow> settle_refund env resolution plan booking ride payment)
    (andDo (updateDispute disputeId (\<lambda>d. d\<lparr>d_status := final_dispute_status resolution,
        d_resolution := Some (settlement_text resolution plan), d_resolvedBy := Some resolvedBy,
        d_resolvedAt := (if resolution = SETTLE_ESCALATE then None else Some (e_now env))\<rparr>))
     (awaitAll [b_passengerId booking, r_driverId ride] (\<lambda>u. createNotification env u ''dispute.resolved''))))))"

end
