(* ===== verification/Ride_Events.thy ===== *)
theory Ride_Events
  imports Disputes
begin

text \<open>
  The audit trail of a ride and the driver's override of its steps: \<open>recordEvent\<close> of
  \<open>src/src/modules/ride-operations/ride-operations.service.ts\<close>, \<open>force-override.ts\<close> and
  \<open>force-override.effects.ts\<close>. The list of skipped checks, which only goes into the response, is left out.
\<close>

subsection \<open>Override\<close>

record event_input =
  ei_actionId :: ident
  ei_lat :: "jsnum option"
  ei_lng :: "jsnum option"
  ei_clientTimestamp :: time
  ei_force :: bool
  ei_overrideReason :: "string option"

record force_context =
  fc_forced :: bool
  fc_reason :: "string option"

definition createForceContext :: "bool \<Rightarrow> string option \<Rightarrow> force_context" where
  "createForceContext force overrideReason = \<lparr>fc_forced = force,
     fc_reason = (case overrideReason of None \<Rightarrow> None | Some s \<Rightarrow> if trim s = '''' then None else Some (trim s))\<rparr>"

abbreviation force_of :: "event_input \<Rightarrow> force_context" where
  "force_of input \<equiv> createForceContext (ei_force input) (ei_overrideReason input)"

definition assertOrForce :: "force_context \<Rightarrow> bool \<Rightarrow> error \<Rightarrow> (world, unit) op" where
  "assertOrForce force violated e = ensure (\<not> violated \<or> fc_forced force) e"

definition assertForceAllowedOnRide :: "force_context \<Rightarrow> ride_status \<Rightarrow> (world, unit) op" where
  "assertForceAllowedOnRide force rideStatus =
     ensure (\<not> (fc_forced force \<and> rideStatus \<noteq> RIDE_IN_PROGRESS)) (Err ''FORCE_REQUIRES_RIDE_IN_PROGRESS'')"

subsection \<open>Events\<close>

text \<open>An event whose \<open>actionId\<close> is known is not recorded twice. \<open>mark\<close>: the metadata says it was simulated.\<close>

definition recordEvent ::
  "ident \<Rightarrow> ident option \<Rightarrow> string \<Rightarrow> string \<Rightarrow> ident \<Rightarrow> event_input \<Rightarrow> validation_status \<Rightarrow> bool \<Rightarrow> bool \<Rightarrow> (world, unit) op" where
  "recordEvent rideId bookingId eventType actorType actorId input validationStatus mark forced =
     andThen (gets (\<lambda>w. \<exists>e \<in> set (rideEvents w). ev_actionId e = ei_actionId input)) (\<lambda>existing.
     if existing then ret ()
     else modify (\<lambda>w. w\<lparr>rideEvents := rideEvents w @ [\<lparr>ev_rideId = rideId, ev_bookingId = bookingId,
       ev_actionId = ei_actionId input, ev_eventType = eventType, ev_actorType = actorType, ev_actorId = actorId,
       ev_lat = ei_lat input, ev_lng = ei_lng input, ev_clientTimestamp = ei_clientTimestamp input,
       ev_validationStatus = (if forced then SUSPICIOUS else validationStatus), ev_override = (mark \<or> forced)\<rparr>]\<rparr>))"

definition HIGH_RISK_ACTIONS :: "string list" where
  "HIGH_RISK_ACTIONS = [''PICKUP_OTP_VERIFIED'', ''DROP_OTP_VERIFIED'', ''NO_SHOW_MARKED'']"

definition notifyForcedAction :: "env \<Rightarrow> ident \<Rightarrow> (world, unit) op" where
  "notifyForcedAction env passengerId = createNotification env passengerId ''booking.forced_action''"

definition openReviewDispute ::
  "env \<Rightarrow> force_context \<Rightarrow> string \<Rightarrow> ident \<Rightarrow> ident \<Rightarrow> ident \<Rightarrow> (world, unit) op" where
  "openReviewDispute env force action rideId bookingId actorId =
     whenM (action \<in> set HIGH_RISK_ACTIONS) (bestEffort (andDo (createDispute env
       \<lparr>di_rideId = rideId, di_bookingId = bookingId, di_raisedBy = actorId, di_reason = ''FORCED_'' @ action,
        di_description = fc_reason force, di_status = NEEDS_MANUAL_REVIEW\<rparr>) (ret ())))"

definition handleForcedAction ::
  "env \<Rightarrow> force_context \<Rightarrow> string \<Rightarrow> ident \<Rightarrow> ident \<Rightarrow> ident \<Rightarrow> ident \<Rightarrow> (world, unit) op" where
  "handleForcedAction env force action rideId bookingId passengerId actorId =
     whenM (fc_forced force)
       (andDo (bestEffort (notifyForcedAction env passengerId))
         (openReviewDispute env force action rideId bookingId actorId))"

end
