(* ===== verification/Driver_Booking.thy ===== *)
theory Driver_Booking
  imports Ride_Events
begin

text \<open>
  What a driver does with a booking, \<open>src/src/modules/driver-booking/driver-booking.service.ts\<close>: accept,
  reject, cancel after accepting, verify the pickup and the drop-off code, the last two with the
  driver's override (\<open>src/src/modules/ride-operations/force-override.ts\<close>).
\<close>

definition MAX_OTP_ATTEMPTS :: int where "MAX_OTP_ATTEMPTS = 5"
definition DRIVER_PENALTY_PERCENT :: int where "DRIVER_PENALTY_PERCENT = 50"

definition findUser :: "ident \<Rightarrow> world \<Rightarrow> user_row option" where
  "findUser x w = find (\<lambda>u. u_id u = x) (users w)"

definition fetchDriverBooking :: "ident \<Rightarrow> world \<Rightarrow> (booking_row \<times> ride_row) option" where
  "fetchDriverBooking bookingId w = with_ride w (findBooking bookingId w)"

definition requireDriverBooking :: "ident \<Rightarrow> (booking_row \<times> ride_row) option \<Rightarrow> (world, booking_row \<times> ride_row) op" where
  "requireDriverBooking driverId booking =
     andThen (ofOption BOOKING_NOT_FOUND booking) (\<lambda>(b, r).
     andDo (ensure (r_driverId r = driverId) FORBIDDEN_DRIVER) (ret (b, r)))"

definition assertDecisionWindowOpen :: "env \<Rightarrow> time option \<Rightarrow> (world, unit) op" where
  "assertDecisionWindowOpen env deadlineAt =
     (case deadlineAt of None \<Rightarrow> ret ()
      | Some d \<Rightarrow> ensure (\<not> d < e_now env) BOOKING_DECISION_DEADLINE_PASSED)"

subsection \<open>Accepting\<close>

definition accepted_row :: "env \<Rightarrow> time \<times> time \<Rightarrow> booking_row \<Rightarrow> booking_row" where
  "accepted_row env expiries b = b\<lparr>b_status := CONFIRMED, b_driverDecisionAt := Some (e_now env),
     b_pickupOtpHash := Some (e_hashOtp env (e_pickupOtp env)), b_dropOtpHash := Some (e_hashOtp env (e_dropOtp env)),
     b_pickupOtpExpiresAt := Some (fst expiries), b_dropOtpExpiresAt := Some (snd expiries), b_otpAttemptCount := 0\<rparr>"

definition accept_body ::
  "env \<Rightarrow> ident \<Rightarrow> ident \<Rightarrow> (booking_row \<times> ride_row) option \<times> bool \<Rightarrow> (world, unit) op" where
  "accept_body env driverId bookingId snapshot =
     andThen (requireDriverBooking driverId (fst snapshot)) (\<lambda>(booking, ride).
     andDo (ensure (snd snapshot) DRIVER_NOT_VERIFIED)
    (andDo (ensure (b_status booking = DRIVER_PENDING) BOOKING_NOT_DRIVER_PENDING)
    (andDo (assertDecisionWindowOpen env (b_driverDecisionDeadlineAt booking))
    (andThen (ofOption INVALID_DATE (bookingOtpExpiries (r_departureDate ride) (r_departureTime ride)
        (r_routeDurationSeconds ride) (e_now env))) (\<lambda>expiries.
     andThen (updateBookings (\<lambda>b. b_id b = bookingId \<and> b_status b = DRIVER_PENDING \<and> b_seatsReservedAt b \<noteq> None)
                (accepted_row env expiries)) (\<lambda>confirmed.
     andDo (ensure (confirmed \<noteq> 0) BOOKING_NOT_DRIVER_PENDING)
       (createNotification env (b_passengerId booking) ''booking.driver.accepted'')))))))"

definition accept_read :: "ident \<Rightarrow> world \<Rightarrow> (booking_row \<times> ride_row) option \<times> bool" where
  "accept_read bookingId w = (fetchDriverBooking bookingId w,
     (case fetchDriverBooking bookingId w of None \<Rightarrow> False
      | Some (b, r) \<Rightarrow> (case findUser (r_driverId r) w of None \<Rightarrow> False | Some u \<Rightarrow> u_dlVerified u)))"

definition acceptBooking :: "env \<Rightarrow> ident \<Rightarrow> ident \<Rightarrow> (world, unit) op" where
  "acceptBooking env driverId bookingId =
     andThen (gets (accept_read bookingId)) (accept_body env driverId bookingId)"

subsection \<open>Refusing and cancelling, with a full refund\<close>

text \<open>The refund both handlers issue before they write: the refund's id, and whether one was initiated.\<close>

definition driver_refund :: "env \<Rightarrow> booking_row \<Rightarrow> (world, ident option \<times> bool) op" where
  "driver_refund env booking =
     (case (e_bypass env, b_paymentCapturedAt booking, b_stripePaymentIntentId booking) of
        (False, Some _, Some x) \<Rightarrow>
          andThen (refundPaymentIntent env x (Some (toMinorCurrencyUnits (amount_due booking)))) (\<lambda>refundId.
          ret (Some refundId, True))
      | _ \<Rightarrow> ret (None, e_bypass env \<and> amount_due booking > 0))"

definition refunded_columns :: "env \<Rightarrow> jsnum \<Rightarrow> ident option \<times> bool \<Rightarrow> booking_row \<Rightarrow> booking_row" where
  "refunded_columns env fullRefundAmount refund b = b\<lparr>b_refundPercent := Some 100, b_refundAmount := Some fullRefundAmount,
     b_refundId := fst refund, b_refundedAt := (if snd refund then Some (e_now env) else b_refundedAt b)\<rparr>"

definition rejected_row :: "env \<Rightarrow> string \<Rightarrow> jsnum \<Rightarrow> ident option \<times> bool \<Rightarrow> booking_row \<Rightarrow> booking_row" where
  "rejected_row env reason fullRefundAmount refund b = refunded_columns env fullRefundAmount refund
     (b\<lparr>b_status := CANCELLED, b_driverDecisionAt := Some (e_now env), b_cancelledAt := Some (e_now env),
        b_cancelledByRole := Some ''DRIVER'', b_cancellationReason := Some ''DRIVER_REJECTED'',
        b_driverRejectionReason := Some reason\<rparr>)"

definition driver_cancelled_row :: "env \<Rightarrow> string \<Rightarrow> jsnum \<Rightarrow> ident option \<times> bool \<Rightarrow> booking_row \<Rightarrow> booking_row" where
  "driver_cancelled_row env reason fullRefundAmount refund b = refunded_columns env fullRefundAmount refund
     (b\<lparr>b_status := CANCELLED, b_cancelledAt := Some (e_now env),
        b_cancelledByRole := Some ''DRIVER'', b_cancellationReason := Some ''DRIVER_CANCELLED_AFTER_ACCEPT'',
        b_driverCancellationReason := Some reason, b_driverPenaltyAppliedAt := Some (e_now env),
        b_driverPenaltyValue := Some DRIVER_PENALTY_PERCENT\<rparr>)"

definition createPenalty :: "ident \<Rightarrow> ident \<Rightarrow> int \<Rightarrow> (world, unit) op" where
  "createPenalty driverId bookingId percent =
     modify (\<lambda>w. w\<lparr>penalties := penalties w @ [(driverId, bookingId, percent)]\<rparr>)"

text \<open>The transaction: the booking is read again and must still have the expected status.\<close>

definition driver_close_tx ::
  "ident \<Rightarrow> booking_status \<Rightarrow> error \<Rightarrow> (booking_row \<Rightarrow> booking_row) \<Rightarrow> (world, unit) op \<Rightarrow> (world, unit) op" where
  "driver_close_tx bookingId expected e f after = transaction (
     andThen (gets (fetchDriverBooking bookingId)) (\<lambda>current.
     andThen (ofOption BOOKING_NOT_FOUND current) (\<lambda>(b, r).
     andDo (ensure (b_status b = expected) e)
    (andDo (updateBooking bookingId f)
    (andDo (releaseBookingSeats bookingId (seats_of b r None)) after)))))"

definition sync_driver_refund :: "env \<Rightarrow> ident \<Rightarrow> ident \<Rightarrow> jsnum \<Rightarrow> bool \<Rightarrow> (world, unit) op" where
  "sync_driver_refund env bookingId driverId fullRefundAmount refundInitiated =
     whenM (refundInitiated \<and> fullRefundAmount > 0)
       (bestEffort (andDo (markBookingPaymentRefunded (e_now env) bookingId driverId (Some fullRefundAmount)) (ret ())))"

definition reject_body ::
  "env \<Rightarrow> ident \<Rightarrow> ident \<Rightarrow> string \<Rightarrow> (booking_row \<times> ride_row) option \<Rightarrow> (world, unit) op" where
  "reject_body env driverId bookingId reason found =
     andThen (requireDriverBooking driverId found) (\<lambda>(booking, ride).
     andDo (ensure (b_status booking = DRIVER_PENDING) BOOKING_NOT_DRIVER_PENDING)
    (andDo (assertDecisionWindowOpen env (b_driverDecisionDeadlineAt booking))
    (andThen (driver_refund env booking) (\<lambda>refund.
     andDo (driver_close_tx bookingId DRIVER_PENDING BOOKING_NOT_DRIVER_PENDING
              (rejected_row env reason (amount_due booking) refund) (ret ()))
    (andDo (sync_driver_refund env bookingId driverId (amount_due booking) (snd refund))
       (createNotification env (b_passengerId booking) ''booking.driver.rejected''))))))"

definition rejectBooking :: "env \<Rightarrow> ident \<Rightarrow> ident \<Rightarrow> string \<Rightarrow> (world, unit) op" where
  "rejectBooking env driverId bookingId reason =
     andThen (gets (fetchDriverBooking bookingId)) (reject_body env driverId bookingId reason)"

definition cancel_accepted_body ::
  "env \<Rightarrow> ident \<Rightarrow> ident \<Rightarrow> string \<Rightarrow> (booking_row \<times> ride_row) option \<Rightarrow> (world, unit) op" where
  "cancel_accepted_body env driverId bookingId reason found =
     andThen (requireDriverBooking driverId found) (\<lambda>(booking, ride).
     andDo (ensure (b_status booking = CONFIRMED) BOOKING_NOT_CONFIRMED)
    (andThen (driver_refund env booking) (\<lambda>refund.
     andDo (driver_close_tx bookingId CONFIRMED BOOKING_NOT_CONFIRMED
              (driver_cancelled_row env reason (amount_due booking) refund)
              (createPenalty driverId bookingId DRIVER_PENALTY_PERCENT))
    (andDo (sync_driver_refund env bookingId driverId (amount_due booking) (snd refund))
       (createNotification env (b_passengerId booking) ''booking.driver.cancelled'')))))"

definition cancelAfterAccept :: "env \<Rightarrow> ident \<Rightarrow> ident \<Rightarrow> string \<Rightarrow> (world, unit) op" where
  "cancelAfterAccept env driverId bookingId reason =
     andThen (gets (fetchDriverBooking bookingId)) (cancel_accepted_body env driverId bookingId reason)"

subsection \<open>One-time codes\<close>

definition isOtpValid :: "env \<Rightarrow> string \<Rightarrow> string \<Rightarrow> bool" where
  "isOtpValid env inputOtp storedHash \<longleftrightarrow> e_hashOtp env inputOtp = storedHash"

text \<open>A statement of its own, checked against the unique index of active bookings.\<close>

definition updateBookingIndexed :: "ident \<Rightarrow> (booking_row \<Rightarrow> booking_row) \<Rightarrow> (world, unit) op" where
  "updateBookingIndexed x f = transaction (andDo (updateBooking x f) checkActiveIndex)"

definition auditForcedOtp :: "env \<Rightarrow> force_context \<Rightarrow> ident \<Rightarrow> booking_row \<Rightarrow> string \<Rightarrow> (world, unit) op" where
  "auditForcedOtp env force driverId booking eventType = whenM (fc_forced force)
     (andDo (recordEvent (b_rideId booking) (Some (b_id booking)) eventType ''DRIVER'' driverId
        \<lparr>ei_actionId = e_newActionId env, ei_lat = None, ei_lng = None, ei_clientTimestamp = e_now env,
         ei_force = True, ei_overrideReason = fc_reason force\<rparr> VALID False True)
       (handleForcedAction env force eventType (b_rideId booking) (b_id booking) (b_passengerId booking) driverId))"

definition verify_pickup_body ::
  "env \<Rightarrow> ident \<Rightarrow> ident \<Rightarrow> string option \<Rightarrow> force_context \<Rightarrow> (booking_row \<times> ride_row) option \<Rightarrow> (world, unit) op" where
  "verify_pickup_body env driverId bookingId otp force found =
     andThen (requireDriverBooking driverId found) (\<lambda>(booking, ride).
     andDo (assertForceAllowedOnRide force (r_status ride))
    (andDo (assertOrForce force (b_status booking \<noteq> CONFIRMED) (Err ''INVALID_BOOKING_STATUS''))
    (andDo (assertOrForce force (b_pickupOtpHash booking = None \<or> b_pickupOtpExpiresAt booking = None) (Err ''PICKUP_OTP_NOT_AVAILABLE''))
    (andDo (assertOrForce force (case b_pickupOtpExpiresAt booking of None \<Rightarrow> False | Some t \<Rightarrow> t < e_now env) (Err ''PICKUP_OTP_EXPIRED''))
    (andDo (assertOrForce force (b_otpAttemptCount booking \<ge> MAX_OTP_ATTEMPTS) (Err ''OTP_ATTEMPT_LIMIT_EXCEEDED''))
    (let isValid = (case (b_pickupOtpHash booking, otp) of
            (Some h, Some code) \<Rightarrow> code \<noteq> '''' \<and> isOtpValid env code h | _ \<Rightarrow> False) in
     if \<not> isValid \<and> \<not> fc_forced force then
       andDo (updateBooking bookingId (\<lambda>b. b\<lparr>b_otpAttemptCount := b_otpAttemptCount b + 1\<rparr>)) (throw (Err ''INVALID_PICKUP_OTP''))
     else
       andDo (updateBookingIndexed bookingId (\<lambda>b. b\<lparr>b_status := IN_PROGRESS,
                b_pickupOtpVerifiedAt := Some (e_now env), b_otpAttemptCount := 0\<rparr>))
      (andDo (createNotification env (b_passengerId booking) ''booking.trip.started'')
        (auditForcedOtp env force driverId booking ''PICKUP_OTP_VERIFIED''))))))))"

definition verifyPickupOtp :: "env \<Rightarrow> ident \<Rightarrow> ident \<Rightarrow> string option \<Rightarrow> force_context \<Rightarrow> (world, unit) op" where
  "verifyPickupOtp env driverId bookingId otp force =
     andThen (gets (fetchDriverBooking bookingId)) (verify_pickup_body env driverId bookingId otp force)"

definition verify_drop_body ::
  "env \<Rightarrow> ident \<Rightarrow> ident \<Rightarrow> string option \<Rightarrow> force_context \<Rightarrow> (booking_row \<times> ride_row) option \<Rightarrow> (world, unit) op" where
  "verify_drop_body env driverId bookingId otp force found =
     andThen (requireDriverBooking driverId found) (\<lambda>(booking, ride).
     andDo (assertForceAllowedOnRide force (r_status ride))
    (andDo (assertOrForce force (b_status booking \<noteq> IN_PROGRESS) (Err ''INVALID_BOOKING_STATUS''))
    (andDo (assertOrForce force (b_dropOtpHash booking = None \<or> b_dropOtpExpiresAt booking = None) (Err ''DROP_OTP_NOT_AVAILABLE''))
    (andDo (assertOrForce force (case b_dropOtpExpiresAt booking of None \<Rightarrow> False | Some t \<Rightarrow> t < e_now env) (Err ''DROP_OTP_EXPIRED''))
    (andDo (assertOrForce force (b_otpAttemptCount booking \<ge> MAX_OTP_ATTEMPTS) (Err ''OTP_ATTEMPT_LIMIT_EXCEEDED''))
    (let isValid = (case (b_dropOtpHash booking, otp) of
            (Some h, Some code) \<Rightarrow> code \<noteq> '''' \<and> isOtpValid env code h | _ \<Rightarrow> False) in
     if \<not> isValid \<and> \<not> fc_forced force then
       andDo (updateBooking bookingId (\<lambda>b. b\<lparr>b_otpAttemptCount := b_otpAttemptCount b + 1\<rparr>)) (throw (Err ''INVALID_DROP_OTP''))
     else
       andDo (updateBookingIndexed bookingId (\<lambda>b. b\<lparr>b_status := COMPLETED,
                b_dropOtpVerifiedAt := Some (e_now env), b_otpAttemptCount := 0\<rparr>))
      (andDo (createNotification env (b_passengerId booking) ''booking.trip.completed'')
      (andDo (callModule env ''booking-completion-rewards'' bookingId)
        (auditForcedOtp env force driverId booking ''DROP_OTP_VERIFIED'')))))))))"

definition verifyDropOtp :: "env \<Rightarrow> ident \<Rightarrow> ident \<Rightarrow> string option \<Rightarrow> force_context \<Rightarrow> (world, unit) op" where
  "verifyDropOtp env driverId bookingId otp force =
     andThen (gets (fetchDriverBooking bookingId)) (verify_drop_body env driverId bookingId otp force)"

end
