(* ===== verification/Ride_Lifecycle.thy ===== *)
theory Ride_Lifecycle
  imports Booking_Rider
begin

text \<open>
  A driver's published ride, \<open>src/src/modules/publish-ride/publish-ride.service.ts\<close>: cancelling it with
  all its bookings, starting it and completing it.
\<close>

subsection \<open>Cancelling a ride\<close>

definition cancelRide_read :: "ident \<Rightarrow> ident \<Rightarrow> world \<Rightarrow> ride_row option" where
  "cancelRide_read driverId rideId w =
     find (\<lambda>r. r_id r = rideId \<and> r_driverId r = driverId \<and> r_status r = RIDE_PUBLISHED) (rides w)"

definition active_bookings :: "ident \<Rightarrow> world \<Rightarrow> booking_row list" where
  "active_bookings rideId w =
     filter (\<lambda>b. b_rideId b = rideId \<and> b_status b \<in> {DRIVER_PENDING, CONFIRMED}) (bookings w)"

definition ride_cancelled_row :: "env \<Rightarrow> booking_row \<Rightarrow> booking_row" where
  "ride_cancelled_row env b = b\<lparr>b_status := CANCELLED, b_cancelledAt := Some (e_now env),
     b_cancelledByRole := Some ''DRIVER'', b_cancellationReason := Some ''DRIVER_CANCELLED_RIDE'',
     b_refundPercent := Some 100, b_seatsReservedAt := None\<rparr>"

definition cancelRide_tx :: "env \<Rightarrow> ident \<Rightarrow> booking_row list \<Rightarrow> (world, unit) op" where
  "cancelRide_tx env rideId activeBookings = transaction (
     andDo (updateRide rideId (\<lambda>r. r\<lparr>r_status := RIDE_CANCELLED\<rparr>))
    (andDo (updateBookings (\<lambda>b. b_rideId b = rideId \<and> b_status b \<in> {CONFIRMED, DRIVER_PENDING}) (ride_cancelled_row env))
    (andDo (forEach activeBookings (\<lambda>booking.
              updateBooking (b_id booking) (\<lambda>b. b\<lparr>b_refundAmount := Some (amount_due booking)\<rparr>)))
     (if e_bypass env then ret ()
      else forEach activeBookings (\<lambda>booking.
        case (b_paymentCapturedAt booking, b_stripePaymentIntentId booking) of
          (Some _, Some x) \<Rightarrow>
            andDo (refundPaymentIntent env x (Some (toMinorCurrencyUnits (amount_due booking))))
              (updateBooking (b_id booking) (\<lambda>b. b\<lparr>b_refundedAt := Some (e_now env)\<rparr>))
        | _ \<Rightarrow> ret ())))))"

definition cancelRide_rest :: "env \<Rightarrow> ident \<Rightarrow> ident \<Rightarrow> booking_row list \<Rightarrow> (world, unit) op" where
  "cancelRide_rest env driverId rideId activeBookings =
     andDo (cancelRide_tx env rideId activeBookings)
    (andDo (forEach activeBookings (\<lambda>booking.
       whenM ((e_bypass env \<or> payment_captured booking) \<and> amount_due booking > 0)
         (bestEffort (andDo (markBookingPaymentRefunded (e_now env) (b_id booking) driverId (Some (amount_due booking))) (ret ())))))
     (awaitAll activeBookings (\<lambda>booking.
       createNotification env (b_passengerId booking) ''booking.cancelled.driver_cancelled_ride'')))"

definition cancelRide_body :: "env \<Rightarrow> ident \<Rightarrow> ident \<Rightarrow> ride_row option \<Rightarrow> (world, unit) op" where
  "cancelRide_body env driverId rideId ride =
     andThen (ofOption RIDE_NOT_FOUND_OR_CANNOT_CANCEL ride) (\<lambda>_.
     andThen (gets (active_bookings rideId)) (cancelRide_rest env driverId rideId))"

definition cancelRide :: "env \<Rightarrow> ident \<Rightarrow> ident \<Rightarrow> (world, unit) op" where
  "cancelRide env driverId rideId =
     andThen (gets (cancelRide_read driverId rideId)) (cancelRide_body env driverId rideId)"

subsection \<open>Starting a ride\<close>

text \<open>\<open>Date.UTC\<close> of the unchecked fields: an invalid date (\<open>None\<close>) is never too early.\<close>

definition uncheckedDepartureUtc :: "time \<Rightarrow> string \<Rightarrow> time option" where
  "uncheckedDepartureUtc departureDate departureTime =
     map_option (\<lambda>(hours, minutes). utc_day departureDate * ms_per_day + hours * ms_per_hour + minutes * ms_per_minute)
       (parse_departure_time departureTime)"

definition startRide_read :: "ident \<Rightarrow> ident \<Rightarrow> world \<Rightarrow> ride_row option" where
  "startRide_read driverId rideId w =
     find (\<lambda>r. r_id r = rideId \<and> r_driverId r = driverId \<and> r_status r = RIDE_PUBLISHED) (rides w)"

definition started_ride :: "env \<Rightarrow> ride_row \<Rightarrow> ride_row" where
  "started_ride env r = r\<lparr>r_status := RIDE_IN_PROGRESS, r_actualStartTime := Some (e_now env)\<rparr>"

definition startRide_tx :: "env \<Rightarrow> ident \<Rightarrow> (world, unit) op" where
  "startRide_tx env rideId = transaction (
     andDo (updateRide rideId (started_ride env))
    (andDo (updateBookings (\<lambda>b. b_rideId b = rideId \<and> b_status b = CONFIRMED) (\<lambda>b. b\<lparr>b_status := WAITING_FOR_PICKUP\<rparr>))
     (ret ())))"

definition startRide_body :: "env \<Rightarrow> ident \<Rightarrow> ride_row option \<Rightarrow> (world, unit) op" where
  "startRide_body env rideId found =
     andThen (ofOption (Err ''RIDE_NOT_FOUND_OR_CANNOT_START'') found) (\<lambda>ride.
     andDo (whenM (\<not> e_allowSimulation env)
        (case uncheckedDepartureUtc (r_departureDate ride) (r_departureTime ride) of None \<Rightarrow> ret ()
         | Some departureAt \<Rightarrow> ensure (\<not> isRideStartTooEarly (e_startEarlyLimitMinutes env) departureAt (e_now env)) (Err ''RIDE_TOO_EARLY'')))
       (startRide_tx env rideId))"

definition startRide :: "env \<Rightarrow> ident \<Rightarrow> ident \<Rightarrow> (world, unit) op" where
  "startRide env driverId rideId = andThen (gets (startRide_read driverId rideId)) (startRide_body env rideId)"

subsection \<open>Completing a ride\<close>

definition completeRide_read :: "ident \<Rightarrow> ident \<Rightarrow> world \<Rightarrow> ride_row option" where
  "completeRide_read driverId rideId w =
     find (\<lambda>r. r_id r = rideId \<and> r_driverId r = driverId \<and> r_status r = RIDE_IN_PROGRESS) (rides w)"

definition completeRide_tx :: "ident \<Rightarrow> (world, unit) op" where
  "completeRide_tx rideId = transaction (
     andDo (updateRide rideId (\<lambda>r. r\<lparr>r_status := RIDE_COMPLETED\<rparr>))
    (andDo (updateBookings (\<lambda>b. b_rideId b = rideId \<and> b_status b = IN_PROGRESS) (\<lambda>b. b\<lparr>b_status := COMPLETED\<rparr>))
     (ret ())))"

definition completeRide_body :: "env \<Rightarrow> ident \<Rightarrow> ride_row option \<Rightarrow> (world, unit) op" where
  "completeRide_body env rideId found =
     andThen (ofOption (Err ''RIDE_NOT_FOUND_OR_CANNOT_COMPLETE'') found) (\<lambda>_.
     andDo (completeRide_tx rideId)
    (andDo (callModule env ''ride-completion-rewards'' rideId)
    (andThen (gets (\<lambda>w. filter (\<lambda>b. b_rideId b = rideId \<and> b_status b = COMPLETED) (bookings w))) (\<lambda>completedBookings.
     andDo (awaitAll completedBookings (\<lambda>b. createNotification env (b_passengerId b) ''ride.completed''))
       (awaitAll completedBookings (\<lambda>b. callModule env ''booking-completion-rewards'' (b_id b)))))))"

definition completeRide :: "env \<Rightarrow> ident \<Rightarrow> ident \<Rightarrow> (world, unit) op" where
  "completeRide env driverId rideId = andThen (gets (completeRide_read driverId rideId)) (completeRide_body env rideId)"

subsection \<open>Statuses brought up to date when a driver lists rides\<close>

fun unstarted :: "ride_status \<Rightarrow> bool" where
  "unstarted RIDE_PUBLISHED = True" | "unstarted RIDE_SCHEDULED = True"
| "unstarted RIDE_READY_TO_START = True" | "unstarted _ = False"

fun blocks_expiry :: "booking_status \<Rightarrow> bool" where
  "blocks_expiry DRIVER_PENDING = True" | "blocks_expiry CONFIRMED = True"
| "blocks_expiry WAITING_FOR_PICKUP = True" | "blocks_expiry DRIVER_ARRIVED = True"
| "blocks_expiry OTP_PENDING = True" | "blocks_expiry ONBOARD = True"
| "blocks_expiry DROP_PENDING = True" | "blocks_expiry IN_PROGRESS = True" | "blocks_expiry _ = False"

text \<open>A ride with its bookings, as one query returns them.\<close>

definition with_bookings :: "world \<Rightarrow> ride_row \<Rightarrow> ride_row \<times> booking_row list" where
  "with_bookings w r = (r, filter (\<lambda>b. b_rideId b = r_id r) (bookings w))"

definition reconcile_read :: "env \<Rightarrow> ident \<Rightarrow> world \<Rightarrow> (ride_row \<times> booking_row list) list" where
  "reconcile_read env driverId w = map (with_bookings w) (filter (\<lambda>r. r_driverId r = driverId \<and> unstarted (r_status r) \<and>
     r_actualStartTime r = None \<and> r_departureDate r \<le> e_now env) (rides w))"

definition reconcile_ride :: "env \<Rightarrow> ident \<Rightarrow> ride_row \<times> booking_row list \<Rightarrow> (world, unit) op" where
  "reconcile_ride env driverId row =
     (let (ride, bs) = row in
      case e_rideZoneDeparture env (r_departureDate ride) (r_departureTime ride) of None \<Rightarrow> ret ()
      | Some departureAt \<Rightarrow>
          if e_now env < departureAt then ret ()
          else if e_now env \<ge> departureAt + e_overdueCancelAfterMinutes env * 60 * 1000 \<and>
                  \<not> (\<exists>b \<in> set bs. blocks_expiry (b_status b)) then
            andDo (updateRides (\<lambda>r. r_id r = r_id ride \<and> r_driverId r = driverId \<and> unstarted (r_status r) \<and> r_actualStartTime r = None)
              (\<lambda>r. r\<lparr>r_status := RIDE_EXPIRED\<rparr>)) (ret ())
          else if r_status ride \<in> {RIDE_PUBLISHED, RIDE_SCHEDULED} then
            andDo (updateRides (\<lambda>r. r_id r = r_id ride \<and> r_driverId r = driverId \<and> r_status r \<in> {RIDE_PUBLISHED, RIDE_SCHEDULED} \<and>
                r_actualStartTime r = None)
              (\<lambda>r. r\<lparr>r_status := RIDE_READY_TO_START\<rparr>)) (ret ())
          else ret ())"

definition reconcileDriverRideListStatuses :: "env \<Rightarrow> ident \<Rightarrow> (world, unit) op" where
  "reconcileDriverRideListStatuses env driverId =
     andThen (gets (reconcile_read env driverId)) (\<lambda>candidates. awaitAll candidates (reconcile_ride env driverId))"

end
