(* ===== verification/Maintenance.thy ===== *)
theory Maintenance
  imports Ride_Lifecycle
begin

text \<open>
  Rides that are overdue, \<open>src/src/queue/maintenance.queue.ts\<close>: promoted when the departure has passed,
  closed when nobody started them in time, reported when they run past their expected end. The open
  reconciliation issues about a ride are the pairs of \<open>rideIssues\<close>.
\<close>

definition getExpectedRideEnd :: "time \<Rightarrow> int option \<Rightarrow> time option" where
  "getExpectedRideEnd departureAt routeDurationSeconds =
     (case routeDurationSeconds of None \<Rightarrow> None | Some d \<Rightarrow> if d \<le> 0 then None else Some (departureAt + d * 1000))"

definition notifyRideStakeholders :: "env \<Rightarrow> ride_row \<Rightarrow> booking_row list \<Rightarrow> string \<Rightarrow> (world, unit) op" where
  "notifyRideStakeholders env ride bs type =
     andDo (createNotification env (r_driverId ride) type)
       (awaitAll bs (\<lambda>b. createNotification env (b_passengerId b) type))"

definition hasOpenRideIssue :: "string \<Rightarrow> ident \<Rightarrow> world \<Rightarrow> bool" where
  "hasOpenRideIssue issueType rideId w \<longleftrightarrow> (issueType, rideId) \<in> set (rideIssues w)"

definition createRideIssue :: "string \<Rightarrow> ident \<Rightarrow> (world, unit) op" where
  "createRideIssue issueType rideId = modify (\<lambda>w. w\<lparr>rideIssues := rideIssues w @ [(issueType, rideId)]\<rparr>)"

subsection \<open>A ride nobody started\<close>

definition overdue_cancelled_row :: "env \<Rightarrow> booking_row \<Rightarrow> booking_row" where
  "overdue_cancelled_row env b = b\<lparr>b_status := CANCELLED, b_cancelledAt := Some (e_now env),
     b_cancelledByRole := Some ''SYSTEM'', b_cancellationReason := Some ''RIDE_NOT_STARTED_IN_TIME'',
     b_refundPercent := Some 100\<rparr>"

definition close_booking :: "ride_row \<Rightarrow> booking_row \<Rightarrow> (world, unit) op" where
  "close_booking ride booking =
     andDo (updateBooking (b_id booking) (\<lambda>b. b\<lparr>b_refundAmount := Some (amount_due booking)\<rparr>))
    (andDo (releaseBookingSeats (b_id booking) (seats_of booking ride None)) (ret ()))"

definition close_overdue_tx :: "env \<Rightarrow> ride_row \<Rightarrow> booking_row list \<Rightarrow> (world, bool) op" where
  "close_overdue_tx env ride activeBookings = transaction (
     andThen (updateRides (\<lambda>r. r_id r = r_id ride \<and> unstarted (r_status r) \<and> r_actualStartTime r = None)
        (\<lambda>r. r\<lparr>r_status := (if activeBookings = [] then RIDE_EXPIRED else RIDE_CANCELLED)\<rparr>)) (\<lambda>updated.
     if updated = 0 then ret False
     else if activeBookings = [] then ret True
     else andDo (updateBookings (\<lambda>b. b_id b \<in> set (map b_id activeBookings)) (overdue_cancelled_row env))
         (andDo (forEach activeBookings (close_booking ride)) (ret True))))"

definition closeOverdueUnstartedRide :: "env \<Rightarrow> ride_row \<times> booking_row list \<Rightarrow> (world, bool) op" where
  "closeOverdueUnstartedRide env row =
     (let (ride, bs) = row; activeBookings = filter (\<lambda>b. blocks_expiry (b_status b)) bs in
      andThen (close_overdue_tx env ride activeBookings) (\<lambda>rideClosed.
      if \<not> rideClosed then ret False
      else if activeBookings = [] then
        andDo (createNotification env (r_driverId ride) ''ride.overdue.expired'')
       (andDo (createRideIssue ''OVERDUE_RIDE_EXPIRED'' (r_id ride)) (ret True))
      else
        andDo (notifyRideStakeholders env ride activeBookings ''ride.overdue.auto_cancelled'')
       (andDo (createRideIssue ''OVERDUE_RIDE_AUTO_CANCELLED'' (r_id ride)) (ret True))))"

subsection \<open>The check\<close>

definition promote_overdue :: "env \<Rightarrow> ride_row \<times> booking_row list \<Rightarrow> (world, unit) op" where
  "promote_overdue env row =
     (let (ride, bs) = row in
      andDo (updateRides (\<lambda>r. r_id r = r_id ride \<and> r_status r \<in> {RIDE_PUBLISHED, RIDE_SCHEDULED} \<and> r_actualStartTime r = None)
          (\<lambda>r. r\<lparr>r_status := RIDE_READY_TO_START\<rparr>))
     (andDo (notifyRideStakeholders env ride (filter (\<lambda>b. blocks_expiry (b_status b)) bs) ''ride.overdue.ready_to_start'')
     (andThen (gets (hasOpenRideIssue ''OVERDUE_RIDE_START'' (r_id ride))) (\<lambda>existingIssue.
       whenM (\<not> existingIssue) (createRideIssue ''OVERDUE_RIDE_START'' (r_id ride))))))"

definition report_overdue :: "env \<Rightarrow> ride_row \<times> booking_row list \<Rightarrow> (world, unit) op" where
  "report_overdue env row =
     (let (ride, bs) = row in
      andThen (gets (hasOpenRideIssue ''OVERDUE_RIDE_COMPLETION'' (r_id ride))) (\<lambda>existingIssue.
      whenM (\<not> existingIssue)
        (andDo (createRideIssue ''OVERDUE_RIDE_COMPLETION'' (r_id ride))
          (notifyRideStakeholders env ride (filter (\<lambda>b. blocks_expiry (b_status b)) bs) ''ride.overdue.in_progress''))))"

definition check_overdue :: "env \<Rightarrow> ride_row \<times> booking_row list \<Rightarrow> (world, unit) op" where
  "check_overdue env row =
     (let (ride, bs) = row; now = e_now env in
      case combineDepartureDateTimeUtc (r_departureDate ride) (r_departureTime ride) of Inl _ \<Rightarrow> ret ()
      | Inr departureAt \<Rightarrow>
          andDo (whenM (r_status ride \<in> {RIDE_PUBLISHED, RIDE_SCHEDULED} \<and> now \<ge> departureAt) (promote_overdue env row))
         (if unstarted (r_status ride) \<and> now \<ge> departureAt + e_overdueCancelAfterMinutes env * 60 * 1000 \<and>
             r_actualStartTime ride = None
          then andDo (closeOverdueUnstartedRide env row) (ret ())
          else (case getExpectedRideEnd departureAt (r_routeDurationSeconds ride) of None \<Rightarrow> ret ()
            | Some expectedEndAt \<Rightarrow>
                whenM (r_status ride = RIDE_IN_PROGRESS \<and>
                    now \<ge> expectedEndAt + e_overdueEndGraceMinutes env * 60 * 1000 \<and> r_actualEndTime ride = None)
                  (report_overdue env row))))"

definition overdue_read :: "env \<Rightarrow> world \<Rightarrow> (ride_row \<times> booking_row list) list" where
  "overdue_read env w = map (with_bookings w) (filter (\<lambda>r.
     (unstarted (r_status r) \<or> r_status r = RIDE_IN_PROGRESS) \<and> r_departureDate r \<le> e_now env) (rides w))"

definition runRideOverdueCheck :: "env \<Rightarrow> (world, unit) op" where
  "runRideOverdueCheck env = andThen (gets (overdue_read env)) (\<lambda>rows. forEach rows (check_overdue env))"

end
