(* ===== verification/Ride_Operations.thy ===== *)
theory Ride_Operations
  imports Driver_Booking Maintenance
begin

text \<open>
  The trip itself, \<open>src/src/modules/ride-operations/ride-operations.service.ts\<close>: starting, arriving, boarding,
  no-show, drop-off, finishing, the location of the driver, the simulated steps of development mode and
  the replay of actions queued offline. Distances on the globe are a parameter (\<open>e_distanceMeters\<close>).
\<close>

subsection \<open>Tables\<close>

fun RIDE_TRANSITIONS :: "ride_status \<Rightarrow> ride_status list" where
  "RIDE_TRANSITIONS RIDE_DRAFT = [RIDE_PUBLISHED]"
| "RIDE_TRANSITIONS RIDE_PUBLISHED = [RIDE_SCHEDULED, RIDE_READY_TO_START, RIDE_CANCELLED, RIDE_EXPIRED]"
| "RIDE_TRANSITIONS RIDE_SCHEDULED = [RIDE_READY_TO_START, RIDE_CANCELLED, RIDE_EXPIRED]"
| "RIDE_TRANSITIONS RIDE_READY_TO_START = [RIDE_IN_PROGRESS, RIDE_CANCELLED, RIDE_EXPIRED]"
| "RIDE_TRANSITIONS RIDE_IN_PROGRESS = [RIDE_COMPLETION_PENDING, RIDE_CANCELLED, RIDE_DISPUTED]"
| "RIDE_TRANSITIONS RIDE_COMPLETION_PENDING = [RIDE_COMPLETED, RIDE_DISPUTED]"
| "RIDE_TRANSITIONS RIDE_COMPLETED = [RIDE_DISPUTED]"
| "RIDE_TRANSITIONS RIDE_CANCELLED = []"
| "RIDE_TRANSITIONS RIDE_EXPIRED = []"
| "RIDE_TRANSITIONS RIDE_DISPUTED = []"

definition NON_TERMINAL_BOOKING_STATES :: "booking_status list" where
  "NON_TERMINAL_BOOKING_STATES = [DRIVER_PENDING, CONFIRMED, WAITING_FOR_PICKUP, DRIVER_ARRIVED, OTP_PENDING,
     ONBOARD, DROP_PENDING, DRIVER_DROPPED, IN_PROGRESS]"

definition GEOFENCE_RADIUS_METERS :: int where "GEOFENCE_RADIUS_METERS = 200"

definition assertRideTransition :: "ride_status \<Rightarrow> ride_status \<Rightarrow> (world, unit) op" where
  "assertRideTransition currentStatus targetStatus =
     ensure (targetStatus \<in> set (RIDE_TRANSITIONS currentStatus)) (Err ''INVALID_RIDE_STATE_TRANSITION'')"

subsection \<open>Places\<close>

definition resolvePickupPoint :: "booking_row \<Rightarrow> ride_row \<Rightarrow> meeting_place" where
  "resolvePickupPoint b r = (case b_pickupWaypointId b of None \<Rightarrow> AtOrigin
     | Some x \<Rightarrow> if x \<in> wp_id ` set (r_waypoints r) then AtWaypoint x else AtOrigin)"

definition resolveDropoffPoint :: "booking_row \<Rightarrow> ride_row \<Rightarrow> meeting_place" where
  "resolveDropoffPoint b r = (case b_dropoffWaypointId b of None \<Rightarrow> AtDestination
     | Some x \<Rightarrow> if x \<in> wp_id ` set (r_waypoints r) then AtWaypoint x else AtDestination)"

text \<open>No position given counts as in range.\<close>

definition geofenceValid :: "env \<Rightarrow> ident \<Rightarrow> meeting_place \<Rightarrow> event_input \<Rightarrow> bool" where
  "geofenceValid env rideId point input = (case (ei_lat input, ei_lng input) of
     (Some lat, Some lng) \<Rightarrow> e_distanceMeters env rideId point lat lng \<le> GEOFENCE_RADIUS_METERS | _ \<Rightarrow> True)"

definition geofence_status :: "env \<Rightarrow> ident \<Rightarrow> meeting_place \<Rightarrow> event_input \<Rightarrow> validation_status" where
  "geofence_status env rideId point input = (if geofenceValid env rideId point input then VALID else WARNING)"

definition createLocation :: "ident \<Rightarrow> ident \<Rightarrow> jsnum \<Rightarrow> jsnum \<Rightarrow> time \<Rightarrow> (world, unit) op" where
  "createLocation rideId driverId lat lng timestamp = modify (\<lambda>w. w\<lparr>locations := locations w @
     [\<lparr>lo_rideId = rideId, lo_driverId = driverId, lo_lat = lat, lo_lng = lng, lo_timestamp = timestamp\<rparr>]\<rparr>)"

definition locate_driver :: "env \<Rightarrow> ident \<Rightarrow> ident \<Rightarrow> event_input \<Rightarrow> (world, unit) op" where
  "locate_driver env rideId driverId input = (case (ei_lat input, ei_lng input) of
     (Some lat, Some lng) \<Rightarrow> createLocation rideId driverId lat lng (e_now env) | _ \<Rightarrow> ret ())"

subsection \<open>Starting\<close>

definition findRideWithBookings :: "(booking_row \<Rightarrow> bool) \<Rightarrow> ident \<Rightarrow> world \<Rightarrow> (ride_row \<times> booking_row list) option" where
  "findRideWithBookings p rideId w =
     map_option (\<lambda>r. (r, filter (\<lambda>b. b_rideId b = rideId \<and> p b) (bookings w))) (findRide rideId w)"

definition ops_start_read :: "ident \<Rightarrow> world \<Rightarrow> (ride_row \<times> booking_row list) option" where
  "ops_start_read = findRideWithBookings (\<lambda>b. b_status b \<in> {CONFIRMED, DRIVER_PENDING})"

definition ops_start_body ::
  "env \<Rightarrow> ident \<Rightarrow> ident \<Rightarrow> event_input \<Rightarrow> (ride_row \<times> booking_row list) option \<Rightarrow> (world, unit) op" where
  "ops_start_body env driverId rideId input found =
     andThen (ofOption RIDE_NOT_FOUND found) (\<lambda>(ride, bs).
     andDo (ensure (r_driverId ride = driverId) FORBIDDEN_DRIVER)
    (andDo (whenM (r_status ride \<noteq> RIDE_PUBLISHED \<and> r_status ride \<noteq> RIDE_READY_TO_START)
              (assertRideTransition (r_status ride) RIDE_IN_PROGRESS))
    (andDo (whenM (\<not> e_allowSimulation env)
        (andThen (ofSum (combineDepartureDateTimeUtc (r_departureDate ride) (r_departureTime ride))) (\<lambda>departureAt.
         ensure (\<not> isRideStartTooEarly (e_startEarlyLimitMinutes env) departureAt (e_now env)) (Err ''RIDE_TOO_EARLY''))))
    (andDo (updateRide rideId (started_ride env))
    (andDo (updateBookings (\<lambda>b. b_rideId b = rideId \<and> b_status b = CONFIRMED) (\<lambda>b. b\<lparr>b_status := WAITING_FOR_PICKUP\<rparr>))
    (andDo (recordEvent rideId None ''RIDE_STARTED'' ''DRIVER'' driverId input VALID False False)
       (forEach bs (\<lambda>b. andDo (bestEffort (callModule env ''tracking-link'' (b_id b)))
          (createNotification env (b_passengerId b) ''ride.started'')))))))))"

definition opsStartRide :: "env \<Rightarrow> ident \<Rightarrow> ident \<Rightarrow> event_input \<Rightarrow> (world, unit) op" where
  "opsStartRide env driverId rideId input =
     andThen (gets (ops_start_read rideId)) (ops_start_body env driverId rideId input)"

subsection \<open>At the pickup\<close>

definition driver_arrived_body ::
  "env \<Rightarrow> ident \<Rightarrow> ident \<Rightarrow> event_input \<Rightarrow> (booking_row \<times> ride_row) option \<Rightarrow> (world, unit) op" where
  "driver_arrived_body env driverId bookingId input found =
     andThen (requireDriverBooking driverId found) (\<lambda>(booking, ride).
     andDo (ensure (r_status ride = RIDE_IN_PROGRESS) (Err ''RIDE_NOT_IN_PROGRESS''))
    (let force = force_of input; now = e_now env in
     andDo (assertForceAllowedOnRide force (r_status ride))
    (andDo (assertOrForce force (b_status booking \<noteq> WAITING_FOR_PICKUP) (Err ''BOOKING_NOT_WAITING_FOR_PICKUP''))
    (andDo (updateBooking bookingId (\<lambda>b. b\<lparr>b_status := DRIVER_ARRIVED, b_driverArrivedAt := Some now, b_waitTimerStartedAt := Some now\<rparr>))
    (andDo (locate_driver env (b_rideId booking) driverId input)
    (andDo (recordEvent (b_rideId booking) (Some bookingId) ''DRIVER_ARRIVED'' ''DRIVER'' driverId input
        (geofence_status env (b_rideId booking) (resolvePickupPoint booking ride) input) False (fc_forced force))
    (andDo (handleForcedAction env force ''DRIVER_ARRIVED'' (b_rideId booking) (b_id booking) (b_passengerId booking) driverId)
       (createNotification env (b_passengerId booking) ''booking.driver_arrived''))))))))"

definition driverArrived :: "env \<Rightarrow> ident \<Rightarrow> ident \<Rightarrow> event_input \<Rightarrow> (world, unit) op" where
  "driverArrived env driverId bookingId input =
     andThen (gets (fetchDriverBooking bookingId)) (driver_arrived_body env driverId bookingId input)"

definition rider_arrived_body ::
  "env \<Rightarrow> ident \<Rightarrow> ident \<Rightarrow> event_input \<Rightarrow> (booking_row \<times> ride_row) option \<Rightarrow> (world, unit) op" where
  "rider_arrived_body env passengerId bookingId input found =
     andThen (ofOption BOOKING_NOT_FOUND found) (\<lambda>(booking, ride).
     andDo (ensure (b_passengerId booking = passengerId) (Err ''FORBIDDEN_PASSENGER''))
    (andDo (ensure (b_status booking \<in> {WAITING_FOR_PICKUP, DRIVER_ARRIVED}) (Err ''BOOKING_NOT_AT_PICKUP''))
    (andDo (recordEvent (b_rideId booking) (Some bookingId) ''RIDER_ARRIVED_AT_PICKUP'' ''RIDER'' passengerId input
        (geofence_status env (b_rideId booking) (resolvePickupPoint booking ride) input) False False)
       (createNotification env (r_driverId ride) ''booking.rider_arrived''))))"

definition riderArrivedAtPickup :: "env \<Rightarrow> ident \<Rightarrow> ident \<Rightarrow> event_input \<Rightarrow> (world, unit) op" where
  "riderArrivedAtPickup env passengerId bookingId input =
     andThen (gets (fetchDriverBooking bookingId)) (rider_arrived_body env passengerId bookingId input)"

definition board_body ::
  "env \<Rightarrow> ident \<Rightarrow> ident \<Rightarrow> string option \<Rightarrow> event_input \<Rightarrow> (booking_row \<times> ride_row) option \<Rightarrow> (world, unit) op" where
  "board_body env driverId bookingId otp input found =
     andThen (requireDriverBooking driverId found) (\<lambda>(booking, ride).
     let force = force_of input; now = e_now env in
     andDo (assertForceAllowedOnRide force (r_status ride))
    (andDo (assertOrForce force (b_status booking \<notin> {DRIVER_ARRIVED, WAITING_FOR_PICKUP}) (Err ''BOOKING_NOT_READY_FOR_OTP''))
    (andDo (assertOrForce force (b_pickupOtpHash booking = None) (Err ''PICKUP_OTP_NOT_AVAILABLE''))
    (andDo (assertOrForce force (case b_pickupOtpExpiresAt booking of None \<Rightarrow> False | Some t \<Rightarrow> t < now) (Err ''PICKUP_OTP_EXPIRED''))
    (andDo (assertOrForce force (b_otpAttemptCount booking \<ge> 5) (Err ''OTP_ATTEMPT_LIMIT_EXCEEDED''))
    (let isValid = (case (b_pickupOtpHash booking, otp) of
            (Some h, Some code) \<Rightarrow> code \<noteq> '''' \<and> isOtpValid env code h | _ \<Rightarrow> False) in
     if \<not> isValid \<and> \<not> fc_forced force then
       andDo (updateBooking bookingId (\<lambda>b. b\<lparr>b_otpAttemptCount := b_otpAttemptCount b + 1\<rparr>)) (throw (Err ''INVALID_PICKUP_OTP''))
     else
       andDo (updateBooking bookingId (\<lambda>b. b\<lparr>b_status := ONBOARD, b_pickupOtpVerifiedAt := Some now, b_onboardedAt := Some now\<rparr>))
      (andDo (recordEvent (b_rideId booking) (Some bookingId) ''PICKUP_OTP_VERIFIED'' ''DRIVER'' driverId input
          (if isValid then VALID else WARNING) False (fc_forced force))
      (andDo (handleForcedAction env force ''PICKUP_OTP_VERIFIED'' (b_rideId booking) bookingId (b_passengerId booking) driverId)
        (createNotification env (b_passengerId booking) ''booking.pickup_verified'')))))))))"

definition verifyPickupAndBoard :: "env \<Rightarrow> ident \<Rightarrow> ident \<Rightarrow> string option \<Rightarrow> event_input \<Rightarrow> (world, unit) op" where
  "verifyPickupAndBoard env driverId bookingId otp input =
     andThen (gets (fetchDriverBooking bookingId)) (board_body env driverId bookingId otp input)"

definition no_show_body ::
  "env \<Rightarrow> ident \<Rightarrow> ident \<Rightarrow> event_input \<Rightarrow> (booking_row \<times> ride_row) option \<Rightarrow> (world, unit) op" where
  "no_show_body env driverId bookingId input found =
     andThen (requireDriverBooking driverId found) (\<lambda>(booking, ride).
     let force = force_of input; now = e_now env in
     andDo (assertForceAllowedOnRide force (r_status ride))
    (andDo (assertOrForce force (b_status booking \<notin> {DRIVER_ARRIVED, WAITING_FOR_PICKUP}) (Err ''BOOKING_NOT_AT_PICKUP''))
    (andDo (assertOrForce force (case noShowAvailableAt (e_allowSimulation env) (b_waitTimerStartedAt booking) of None \<Rightarrow> False
        | Some availableAt \<Rightarrow> now < availableAt) (Err ''WAIT_TIME_NOT_ELAPSED''))
    (andDo (updateBooking bookingId (\<lambda>b. b\<lparr>b_status := NO_SHOW, b_noShowMarkedAt := Some now\<rparr>))
    (andDo (recordEvent (b_rideId booking) (Some bookingId) ''NO_SHOW_MARKED'' ''DRIVER'' driverId input VALID False (fc_forced force))
    (andDo (handleForcedAction env force ''NO_SHOW_MARKED'' (b_rideId booking) (b_id booking) (b_passengerId booking) driverId)
       (createNotification env (b_passengerId booking) ''booking.no_show'')))))))"

definition markNoShow :: "env \<Rightarrow> ident \<Rightarrow> ident \<Rightarrow> event_input \<Rightarrow> (world, unit) op" where
  "markNoShow env driverId bookingId input =
     andThen (gets (fetchDriverBooking bookingId)) (no_show_body env driverId bookingId input)"

subsection \<open>At the drop-off\<close>

definition dropoff_body ::
  "env \<Rightarrow> ident \<Rightarrow> ident \<Rightarrow> event_input \<Rightarrow> (booking_row \<times> ride_row) option \<Rightarrow> (world, unit) op" where
  "dropoff_body env driverId bookingId input found =
     andThen (requireDriverBooking driverId found) (\<lambda>(booking, ride).
     let force = force_of input; now = e_now env in
     andDo (assertForceAllowedOnRide force (r_status ride))
    (andDo (assertOrForce force (b_status booking \<notin> {ONBOARD, IN_PROGRESS}) (Err ''BOOKING_NOT_ONBOARD''))
    (andDo (updateBooking bookingId (\<lambda>b. b\<lparr>b_status := DROP_PENDING, b_dropoffConfirmedAt := Some now\<rparr>))
    (andDo (locate_driver env (b_rideId booking) driverId input)
    (andDo (recordEvent (b_rideId booking) (Some bookingId) ''DROPOFF_CONFIRMED_DRIVER'' ''DRIVER'' driverId input
        (geofence_status env (b_rideId booking) (resolveDropoffPoint booking ride) input) False (fc_forced force))
    (andDo (handleForcedAction env force ''DROPOFF_CONFIRMED_DRIVER'' (b_rideId booking) (b_id booking) (b_passengerId booking) driverId)
       (createNotification env (b_passengerId booking) ''booking.dropoff_pending'')))))))"

definition confirmDropoff :: "env \<Rightarrow> ident \<Rightarrow> ident \<Rightarrow> event_input \<Rightarrow> (world, unit) op" where
  "confirmDropoff env driverId bookingId input =
     andThen (gets (fetchDriverBooking bookingId)) (dropoff_body env driverId bookingId input)"

definition rider_dropoff_body ::
  "env \<Rightarrow> ident \<Rightarrow> ident \<Rightarrow> event_input \<Rightarrow> (booking_row \<times> ride_row) option \<Rightarrow> (world, unit) op" where
  "rider_dropoff_body env passengerId bookingId input found =
     andThen (ofOption BOOKING_NOT_FOUND found) (\<lambda>(booking, ride).
     andDo (ensure (b_passengerId booking = passengerId) (Err ''FORBIDDEN_PASSENGER''))
    (let force = force_of input; now = e_now env in
     andDo (assertForceAllowedOnRide force (r_status ride))
    (andDo (assertOrForce force (b_status booking \<noteq> DROP_PENDING) (Err ''BOOKING_NOT_DROP_PENDING''))
    (andDo (updateBooking bookingId (\<lambda>b. b\<lparr>b_status := COMPLETED, b_riderDropoffConfirmedAt := Some now, b_completedAt := Some now\<rparr>))
    (andDo (callModule env ''booking-completion-rewards'' bookingId)
    (andDo (recordEvent (b_rideId booking) (Some bookingId) ''DROPOFF_CONFIRMED_RIDER'' ''RIDER'' passengerId input VALID False (fc_forced force))
    (andDo (handleForcedAction env force ''DROPOFF_CONFIRMED_RIDER'' (b_rideId booking) bookingId (r_driverId ride) passengerId)
       (createNotification env (r_driverId ride) ''booking.dropoff_confirmed''))))))))"

definition riderConfirmDropoff :: "env \<Rightarrow> ident \<Rightarrow> ident \<Rightarrow> event_input \<Rightarrow> (world, unit) op" where
  "riderConfirmDropoff env passengerId bookingId input =
     andThen (gets (fetchDriverBooking bookingId)) (rider_dropoff_body env passengerId bookingId input)"

definition missed_pickup_body ::
  "ident \<Rightarrow> ident \<Rightarrow> event_input \<Rightarrow> (booking_row \<times> ride_row) option \<Rightarrow> (world, unit) op" where
  "missed_pickup_body passengerId bookingId input found =
     andThen (ofOption BOOKING_NOT_FOUND found) (\<lambda>(booking, ride).
     andDo (ensure (b_passengerId booking = passengerId) (Err ''FORBIDDEN_PASSENGER''))
    (andDo (ensure (b_status booking \<in> {WAITING_FOR_PICKUP, CONFIRMED}) (Err ''BOOKING_NOT_WAITING_FOR_PICKUP''))
    (andDo (updateBooking bookingId (\<lambda>b. b\<lparr>b_status := DRIVER_MISSED_PICKUP\<rparr>))
       (recordEvent (b_rideId booking) (Some bookingId) ''MISSED_PICKUP_REPORTED'' ''RIDER'' passengerId input VALID False False))))"

definition reportMissedPickup :: "ident \<Rightarrow> ident \<Rightarrow> event_input \<Rightarrow> (world, unit) op" where
  "reportMissedPickup passengerId bookingId input =
     andThen (gets (fetchDriverBooking bookingId)) (missed_pickup_body passengerId bookingId input)"

subsection \<open>Finishing\<close>

definition finish_read :: "ident \<Rightarrow> world \<Rightarrow> (ride_row \<times> booking_row list) option" where
  "finish_read = findRideWithBookings (\<lambda>_. True)"

definition finish_body ::
  "env \<Rightarrow> ident \<Rightarrow> ident \<Rightarrow> event_input \<Rightarrow> (ride_row \<times> booking_row list) option \<Rightarrow> (world, unit) op" where
  "finish_body env driverId rideId input found =
     andThen (ofOption RIDE_NOT_FOUND found) (\<lambda>(ride, bs).
     andDo (ensure (r_driverId ride = driverId) FORBIDDEN_DRIVER)
    (andDo (ensure (r_status ride = RIDE_IN_PROGRESS) (Err ''RIDE_NOT_IN_PROGRESS''))
    (let force = force_of input; nonTerminal = filter (\<lambda>b. b_status b \<in> set NON_TERMINAL_BOOKING_STATES) bs in
     andDo (assertForceAllowedOnRide force (r_status ride))
    (andDo (assertOrForce force (nonTerminal \<noteq> []) (Err ''BOOKINGS_NOT_ALL_TERMINAL''))
    (andDo (updateRide rideId (\<lambda>r. r\<lparr>r_status := RIDE_COMPLETED, r_actualEndTime := Some (e_now env)\<rparr>))
    (andDo (callModule env ''ride-completion-rewards'' rideId)
    (andDo (recordEvent rideId None ''RIDE_FINISHED'' ''DRIVER'' driverId input VALID False (fc_forced force))
       (forEach (if fc_forced force then nonTerminal else []) (\<lambda>b.
          handleForcedAction env force ''RIDE_FINISHED'' rideId (b_id b) (b_passengerId b) driverId)))))))))"

definition finishRide :: "env \<Rightarrow> ident \<Rightarrow> ident \<Rightarrow> event_input \<Rightarrow> (world, unit) op" where
  "finishRide env driverId rideId input =
     andThen (gets (finish_read rideId)) (finish_body env driverId rideId input)"

subsection \<open>Locations and simulated steps\<close>

definition submitLocation :: "ident \<Rightarrow> ident \<Rightarrow> jsnum \<Rightarrow> jsnum \<Rightarrow> time \<Rightarrow> (world, unit) op" where
  "submitLocation driverId rideId lat lng timestamp =
     andThen (gets (findRide rideId)) (\<lambda>found.
     andThen (ofOption RIDE_NOT_FOUND found) (\<lambda>ride.
     andDo (ensure (r_driverId ride = driverId) FORBIDDEN_DRIVER)
    (andDo (ensure (r_status ride = RIDE_IN_PROGRESS) (Err ''RIDE_NOT_IN_PROGRESS''))
     (createLocation rideId driverId lat lng timestamp))))"

fun latest_location :: "location_row list \<Rightarrow> location_row option" where
  "latest_location [] = None"
| "latest_location (l # ls) = (case latest_location ls of None \<Rightarrow> Some l
     | Some m \<Rightarrow> if lo_timestamp m > lo_timestamp l then Some m else Some l)"

definition getLatestLocation :: "ident \<Rightarrow> world \<Rightarrow> location_row option" where
  "getLatestLocation rideId w = latest_location (filter (\<lambda>l. lo_rideId l = rideId) (locations w))"

definition simulate_pickup_body ::
  "env \<Rightarrow> ident \<Rightarrow> ident \<Rightarrow> event_input \<Rightarrow> (booking_row \<times> ride_row) option \<Rightarrow> (world, unit) op" where
  "simulate_pickup_body env driverId bookingId input found =
     andDo (ensure (e_allowSimulation env) (Err ''DEV_SIMULATION_DISABLED''))
    (andThen (requireDriverBooking driverId found) (\<lambda>(booking, ride).
     andDo (ensure (r_status ride = RIDE_IN_PROGRESS) (Err ''RIDE_NOT_IN_PROGRESS''))
    (andDo (ensure (b_status booking \<in> {WAITING_FOR_PICKUP, DRIVER_ARRIVED}) (Err ''BOOKING_NOT_READY_FOR_OTP''))
    (let now = e_now env; first = (\<lambda>t. case t of None \<Rightarrow> Some now | Some t \<Rightarrow> Some t) in
     andDo (updateBooking bookingId (\<lambda>b. b\<lparr>b_status := ONBOARD, b_driverArrivedAt := first (b_driverArrivedAt booking),
         b_waitTimerStartedAt := first (b_waitTimerStartedAt booking), b_pickupOtpVerifiedAt := Some now, b_onboardedAt := Some now\<rparr>))
    (andDo (recordEvent (b_rideId booking) (Some bookingId) ''DEV_PICKUP_SIMULATED'' ''DRIVER'' driverId input WARNING True False)
       (createNotification env (b_passengerId booking) ''booking.pickup_simulated''))))))"

definition simulate_dropoff_body ::
  "env \<Rightarrow> ident \<Rightarrow> ident \<Rightarrow> event_input \<Rightarrow> (booking_row \<times> ride_row) option \<Rightarrow> (world, unit) op" where
  "simulate_dropoff_body env driverId bookingId input found =
     andDo (ensure (e_allowSimulation env) (Err ''DEV_SIMULATION_DISABLED''))
    (andThen (requireDriverBooking driverId found) (\<lambda>(booking, ride).
     andDo (ensure (r_status ride = RIDE_IN_PROGRESS) (Err ''RIDE_NOT_IN_PROGRESS''))
    (andDo (ensure (b_status booking \<in> {ONBOARD, DROP_PENDING}) (Err ''BOOKING_NOT_ONBOARD''))
    (let now = e_now env in
     andDo (updateBooking bookingId (\<lambda>b. b\<lparr>b_status := COMPLETED,
         b_dropoffConfirmedAt := (case b_dropoffConfirmedAt booking of None \<Rightarrow> Some now | Some t \<Rightarrow> Some t),
         b_riderDropoffConfirmedAt := Some now, b_completedAt := Some now\<rparr>))
    (andDo (callModule env ''booking-completion-rewards'' bookingId)
    (andDo (recordEvent (b_rideId booking) (Some bookingId) ''DEV_DROPOFF_SIMULATED'' ''DRIVER'' driverId input WARNING True False)
       (createNotification env (b_passengerId booking) ''booking.dropoff_simulated'')))))))"

definition devSimulatePickup :: "env \<Rightarrow> ident \<Rightarrow> ident \<Rightarrow> event_input \<Rightarrow> (world, unit) op" where
  "devSimulatePickup env driverId bookingId input =
     andThen (gets (fetchDriverBooking bookingId)) (simulate_pickup_body env driverId bookingId input)"

definition devSimulateDropoff :: "env \<Rightarrow> ident \<Rightarrow> ident \<Rightarrow> event_input \<Rightarrow> (world, unit) op" where
  "devSimulateDropoff env driverId bookingId input =
     andThen (gets (fetchDriverBooking bookingId)) (simulate_dropoff_body env driverId bookingId input)"

subsection \<open>Actions queued offline\<close>

record offline_action =
  oa_actionId :: ident
  oa_eventType :: string
  oa_rideId :: ident
  oa_bookingId :: "ident option"
  oa_lat :: "jsnum option"
  oa_lng :: "jsnum option"
  oa_clientTimestamp :: time
  oa_overrideReason :: "string option"

datatype sync_result = SYNC_PROCESSED | SYNC_DUPLICATE | SYNC_ERROR error

definition override_text :: "offline_action \<Rightarrow> string" where
  "override_text a = (case oa_overrideReason a of Some s \<Rightarrow> if s = '''' then ''Manual recovery requested'' else s
     | None \<Rightarrow> ''Manual recovery requested'')"

definition event_of_action :: "offline_action \<Rightarrow> event_input" where
  "event_of_action a = \<lparr>ei_actionId = oa_actionId a, ei_lat = oa_lat a, ei_lng = oa_lng a,
     ei_clientTimestamp = oa_clientTimestamp a, ei_force = True, ei_overrideReason = Some (override_text a)\<rparr>"

definition create_offline_event :: "offline_action \<Rightarrow> string \<Rightarrow> ident \<Rightarrow> validation_status \<Rightarrow> bool \<Rightarrow> (world, unit) op" where
  "create_offline_event a actorType actorId validation mark =
     modify (\<lambda>w. w\<lparr>rideEvents := rideEvents w @ [\<lparr>ev_rideId = oa_rideId a, ev_bookingId = oa_bookingId a,
       ev_actionId = oa_actionId a, ev_eventType = oa_eventType a, ev_actorType = actorType, ev_actorId = actorId,
       ev_lat = oa_lat a, ev_lng = oa_lng a, ev_clientTimestamp = oa_clientTimestamp a,
       ev_validationStatus = validation, ev_override = mark\<rparr>]\<rparr>)"

text \<open>The recovery step of a manual action, if there is one for this actor.\<close>

definition recovery_step :: "env \<Rightarrow> ident \<Rightarrow> string \<Rightarrow> offline_action \<Rightarrow> (world, unit) op option" where
  "recovery_step env actorId actorType a =
     (if actorType \<noteq> ''DRIVER'' then None
      else if oa_eventType a = ''MANUAL_START_RIDE'' then Some (opsStartRide env actorId (oa_rideId a) (event_of_action a))
      else if oa_eventType a = ''MANUAL_FINISH_RIDE'' then Some (finishRide env actorId (oa_rideId a) (event_of_action a))
      else (case oa_bookingId a of None \<Rightarrow> None
        | Some x \<Rightarrow>
            if oa_eventType a = ''MANUAL_DRIVER_ARRIVED'' then Some (driverArrived env actorId x (event_of_action a))
            else if oa_eventType a = ''MANUAL_PICKUP_APPROVAL'' then Some (verifyPickupAndBoard env actorId x None (event_of_action a))
            else if oa_eventType a = ''MANUAL_CONFIRM_DROPOFF'' then Some (confirmDropoff env actorId x (event_of_action a))
            else None))"

definition manual_action :: "env \<Rightarrow> ident \<Rightarrow> string \<Rightarrow> offline_action \<Rightarrow> (world, unit) op" where
  "manual_action env actorId actorType a =
     andThen (case recovery_step env actorId actorType a of None \<Rightarrow> ret False
        | Some step \<Rightarrow> tryCatch (andDo step (ret True)) (\<lambda>_. ret False)) (\<lambda>autoRepaired.
     andDo (whenM (\<not> autoRepaired) (create_offline_event a actorType actorId WARNING True))
       (emit (IssueRecorded (case oa_bookingId a of None \<Rightarrow> '''' | Some x \<Rightarrow> x) ''OFFLINE_MANUAL_RECOVERY''
          (if autoRepaired then ''LOW'' else ''HIGH''))))"

definition sync_actor :: "ident \<Rightarrow> offline_action \<Rightarrow> world \<Rightarrow> error + string" where
  "sync_actor actorId a w =
     (let booking = (case oa_bookingId a of None \<Rightarrow> None | Some x \<Rightarrow> findBooking x w) in
      case findRide (oa_rideId a) w of None \<Rightarrow> Inl (Err ''RIDE_OR_BOOKING_NOT_FOUND'')
      | Some ride \<Rightarrow>
          if (case booking of None \<Rightarrow> False | Some b \<Rightarrow> b_rideId b \<noteq> oa_rideId a) then Inl (Err ''RIDE_OR_BOOKING_NOT_FOUND'')
          else if r_driverId ride = actorId then Inr ''DRIVER''
          else if (case booking of None \<Rightarrow> False | Some b \<Rightarrow> b_passengerId b = actorId) then Inr ''RIDER''
          else Inl (Err ''FORBIDDEN_ACTOR''))"

definition sync_action :: "env \<Rightarrow> ident \<Rightarrow> offline_action \<Rightarrow> (world, sync_result) op" where
  "sync_action env actorId a =
     andThen (gets (\<lambda>w. \<exists>e \<in> set (rideEvents w). ev_actionId e = oa_actionId a)) (\<lambda>existing.
     if existing then ret SYNC_DUPLICATE
     else tryCatch
       (andThen (gets (sync_actor actorId a)) (\<lambda>actor. andThen (ofSum actor) (\<lambda>actorType.
        andDo (if take 7 (oa_eventType a) \<noteq> ''MANUAL_'' then create_offline_event a actorType actorId VALID False
          else manual_action env actorId actorType a) (ret SYNC_PROCESSED))))
       (\<lambda>e. ret (SYNC_ERROR e)))"

fun syncOfflineActions :: "env \<Rightarrow> ident \<Rightarrow> offline_action list \<Rightarrow> (world, (ident \<times> sync_result) list) op" where
  "syncOfflineActions env actorId [] = ret []"
| "syncOfflineActions env actorId (a # as) =
     andThen (sync_action env actorId a) (\<lambda>r.
     andThen (syncOfflineActions env actorId as) (\<lambda>rs. ret ((oa_actionId a, r) # rs)))"

end
