(* ===== verification/Deadlines.thy ===== *)
theory Deadlines
  imports Booking_Rider
begin

text \<open>
  Delayed jobs on bookings, \<open>src/src/queue/deadline.queue.ts\<close>: expiry of unpaid bookings, reminder,
  first deadline and the automatic cancellation after the extended one; the sweep of
  \<open>src/src/queue/maintenance.queue.ts\<close>, the periodic checker
  \<open>src/src/services/booking-deadline-checker.service.ts\<close> and the expiry of request checkouts in
  \<open>src/src/modules/ride-request/ride-request.service.ts\<close>.
\<close>

subsection \<open>Unpaid bookings\<close>

definition expire_tx :: "ident \<Rightarrow> booking_row \<Rightarrow> ride_row \<Rightarrow> (world, bool) op" where
  "expire_tx bookingId booking ride = transaction (
     andThen (updateBookings (\<lambda>b. b_id b = bookingId \<and> b_status b = PAYMENT_PENDING)
        (\<lambda>b. b\<lparr>b_status := PAYMENT_FAILED, b_cancellationReason := Some ''PAYMENT_NOT_COMPLETED''\<rparr>)) (\<lambda>claimed.
     if claimed = 0 then ret False
     else andDo (releaseBookingSeats bookingId (seats_of booking ride None)) (ret True)))"

definition expire_body :: "env \<Rightarrow> ident \<Rightarrow> (booking_row \<times> ride_row) option \<Rightarrow> (world, bool) op" where
  "expire_body env bookingId found =
     (case found of None \<Rightarrow> ret False
      | Some (booking, ride) \<Rightarrow>
          if b_status booking \<noteq> PAYMENT_PENDING then ret False
          else andThen (expire_tx bookingId booking ride) (\<lambda>expired.
            if \<not> expired then ret False
            else andDo (case b_stripePaymentIntentId booking of None \<Rightarrow> ret ()
                     | Some x \<Rightarrow> bestEffort (cancelPaymentIntent env x))
                (andDo (bestEffort (createNotification env (b_passengerId booking) ''booking.payment.expired''))
                 (ret True))))"

definition expireUnpaidBooking :: "env \<Rightarrow> ident \<Rightarrow> (world, bool) op" where
  "expireUnpaidBooking env bookingId =
     andThen (gets (\<lambda>w. with_ride w (findBooking bookingId w))) (expire_body env bookingId)"

definition runUnpaidBookingSweep :: "env \<Rightarrow> (world, unit) op" where
  "runUnpaidBookingSweep env =
     (let cutoff = e_now env - bookingPaymentWindowMs env * 2 in
      andThen (gets (\<lambda>w. take 200 (filter (\<lambda>b. b_status b = PAYMENT_PENDING \<and>
                 b_createdAt b < cutoff \<and> b_updatedAt b < cutoff) (bookings w)))) (\<lambda>stale.
      forEach stale (\<lambda>b. bestEffort (andDo (expireUnpaidBooking env (b_id b)) (ret ())))))"

subsection \<open>The driver does not answer\<close>

definition reminder_body :: "env \<Rightarrow> ident \<Rightarrow> (booking_row \<times> ride_row) option \<Rightarrow> (world, unit) op" where
  "reminder_body env bookingId found =
     (case found of None \<Rightarrow> ret ()
      | Some (booking, ride) \<Rightarrow>
          if b_status booking \<noteq> DRIVER_PENDING \<or> b_reminderSentAt booking \<noteq> None then ret ()
          else andDo (updateBooking bookingId (\<lambda>b. b\<lparr>b_reminderSentAt := Some (e_now env)\<rparr>))
                 (createNotification env (r_driverId ride) ''booking.driver.deadline_reminder''))"

definition handleDeadlineReminder :: "env \<Rightarrow> ident \<Rightarrow> (world, unit) op" where
  "handleDeadlineReminder env bookingId =
     andThen (gets (\<lambda>w. with_ride w (findBooking bookingId w))) (reminder_body env bookingId)"

definition initial_body :: "env \<Rightarrow> ident \<Rightarrow> (booking_row \<times> ride_row) option \<Rightarrow> (world, unit) op" where
  "initial_body env bookingId found =
     (case found of None \<Rightarrow> ret ()
      | Some (booking, ride) \<Rightarrow>
          if b_status booking \<noteq> DRIVER_PENDING \<or> b_deadlineExpiredNotifiedAt booking \<noteq> None then ret ()
          else andDo (updateBooking bookingId (\<lambda>b. b\<lparr>b_deadlineExpiredNotifiedAt := Some (e_now env)\<rparr>))
              (andDo (createNotification env (b_passengerId booking) ''booking.driver.deadline_expired'')
                 (enqueueJob env ''extended'' bookingId EXTENDED_DEADLINE_MS)))"

definition handleInitialDeadline :: "env \<Rightarrow> ident \<Rightarrow> (world, unit) op" where
  "handleInitialDeadline env bookingId =
     andThen (gets (\<lambda>w. with_ride w (findBooking bookingId w))) (initial_body env bookingId)"

definition auto_cancelled_row :: "env \<Rightarrow> jsnum \<Rightarrow> booking_row \<Rightarrow> booking_row" where
  "auto_cancelled_row env fullRefundAmount b = b\<lparr>b_status := CANCELLED, b_cancelledAt := Some (e_now env),
     b_autoCancelledAt := Some (e_now env), b_cancelledByRole := Some ''SYSTEM'',
     b_cancellationReason := Some ''DRIVER_NO_RESPONSE_EXTENDED'', b_refundPercent := Some 100,
     b_refundAmount := Some fullRefundAmount\<rparr>"

text \<open>The Stripe call is inside the transaction; its result is the refund id and whether one was initiated.\<close>

definition extended_tx :: "env \<Rightarrow> ident \<Rightarrow> booking_row \<Rightarrow> ride_row \<Rightarrow> (world, bool) op" where
  "extended_tx env bookingId booking ride = transaction (
     andDo (updateBooking bookingId (auto_cancelled_row env (amount_due booking)))
    (andDo (releaseBookingSeats bookingId (seats_of booking ride None))
    (andThen (case (e_bypass env, b_paymentCapturedAt booking, b_stripePaymentIntentId booking) of
         (False, Some _, Some x) \<Rightarrow>
           andThen (refundPaymentIntent env x (Some (toMinorCurrencyUnits (amount_due booking)))) (\<lambda>refundId.
           ret (Some refundId, True))
       | _ \<Rightarrow> ret (None, e_bypass env \<and> amount_due booking > 0)) (\<lambda>(refundId, refundInitiated).
     andDo (whenM (refundInitiated)
        (updateBooking bookingId (\<lambda>b. b\<lparr>b_refundId := refundId, b_refundedAt := Some (e_now env)\<rparr>)))
      (ret refundInitiated)))))"

definition extended_body :: "env \<Rightarrow> ident \<Rightarrow> (booking_row \<times> ride_row) option \<Rightarrow> (world, unit) op" where
  "extended_body env bookingId found =
     (case found of None \<Rightarrow> ret ()
      | Some (booking, ride) \<Rightarrow>
          if b_status booking \<noteq> DRIVER_PENDING \<or> b_autoCancelledAt booking \<noteq> None then ret ()
          else andDo (extended_tx env bookingId booking ride)
                 (createNotification env (b_passengerId booking) ''booking.cancelled.no_driver_response''))"

definition handleExtendedDeadline :: "env \<Rightarrow> ident \<Rightarrow> (world, unit) op" where
  "handleExtendedDeadline env bookingId =
     andThen (gets (\<lambda>w. with_ride w (findBooking bookingId w))) (extended_body env bookingId)"

datatype deadline_job = JOB_INITIAL | JOB_EXTENDED | JOB_REMINDER | JOB_PAYMENT_EXPIRY

fun deadlineWorker :: "env \<Rightarrow> deadline_job \<Rightarrow> ident \<Rightarrow> (world, unit) op" where
  "deadlineWorker env JOB_INITIAL bookingId = handleInitialDeadline env bookingId"
| "deadlineWorker env JOB_EXTENDED bookingId = handleExtendedDeadline env bookingId"
| "deadlineWorker env JOB_REMINDER bookingId = handleDeadlineReminder env bookingId"
| "deadlineWorker env JOB_PAYMENT_EXPIRY bookingId = andDo (expireUnpaidBooking env bookingId) (ret ())"

subsection \<open>The periodic checker\<close>

definition handleExpiredDeadline :: "env \<Rightarrow> booking_row \<Rightarrow> (world, unit) op" where
  "handleExpiredDeadline env booking =
     andDo (updateBooking (b_id booking) (\<lambda>b. b\<lparr>b_deadlineExpiredNotifiedAt := Some (e_now env)\<rparr>))
       (createNotification env (b_passengerId booking) ''booking.driver.deadline_expired'')"

definition auto_cancel_tx :: "env \<Rightarrow> booking_row \<Rightarrow> ride_row \<Rightarrow> ident option \<times> bool \<Rightarrow> (world, unit) op" where
  "auto_cancel_tx env booking ride refund = transaction (
     andDo (updateBooking (b_id booking) (\<lambda>b. (auto_cancelled_row env (amount_due booking) b)
        \<lparr>b_refundId := fst refund, b_refundedAt := (if snd refund then Some (e_now env) else b_refundedAt b)\<rparr>))
    (andDo (releaseBookingSeats (b_id booking) (seats_of booking ride None)) (ret ())))"

definition autoCancelBooking :: "env \<Rightarrow> booking_row \<times> ride_row \<Rightarrow> (world, unit) op" where
  "autoCancelBooking env row =
     (let (booking, ride) = row in
      andThen (case (e_bypass env, b_paymentCapturedAt booking, b_stripePaymentIntentId booking) of
          (False, Some _, Some x) \<Rightarrow>
            tryCatch (andThen (refundPaymentIntent env x (Some (toMinorCurrencyUnits (amount_due booking)))) (\<lambda>refundId.
              ret (Some refundId, True))) (\<lambda>_. ret (None, False))
        | _ \<Rightarrow> ret (None, e_bypass env \<and> amount_due booking > 0)) (\<lambda>refund.
      andDo (auto_cancel_tx env booking ride refund)
        (createNotification env (b_passengerId booking) ''booking.cancelled.no_driver_response'')))"

definition rows_with_ride :: "world \<Rightarrow> (booking_row \<Rightarrow> bool) \<Rightarrow> (booking_row \<times> ride_row) list" where
  "rows_with_ride w p = List.map_filter (\<lambda>b. with_ride w (Some b)) (filter p (bookings w))"

definition checkExpiredDeadlines :: "env \<Rightarrow> (world, nat \<times> nat) op" where
  "checkExpiredDeadlines env =
     andThen (gets (\<lambda>w. filter (\<lambda>b. b_status b = DRIVER_PENDING \<and> b_deadlineExpiredNotifiedAt b = None \<and>
        (case b_driverDecisionDeadlineAt b of None \<Rightarrow> False | Some d \<Rightarrow> d \<le> e_now env)) (bookings w))) (\<lambda>expiredBookings.
     andDo (forEach expiredBookings (handleExpiredDeadline env))
    (andThen (gets (\<lambda>w. rows_with_ride w (\<lambda>b. b_status b = DRIVER_PENDING \<and> b_deadlineExtendedAt b \<noteq> None \<and>
        b_autoCancelledAt b = None \<and>
        (case b_driverDecisionDeadlineAt b of None \<Rightarrow> False | Some d \<Rightarrow> d \<le> e_now env)))) (\<lambda>extendedExpiredBookings.
     andDo (forEach extendedExpiredBookings (autoCancelBooking env))
       (ret (length expiredBookings, length extendedExpiredBookings)))))"

subsection \<open>Request checkouts that ran out\<close>

text \<open>
  The transaction for one offer. \<open>booking\<close> and \<open>payment\<close> are the rows of the scan; the booking is
  released only when its payment snapshot is unchanged.
\<close>

definition same_payment_snapshot :: "world \<Rightarrow> booking_row \<Rightarrow> payment_row option \<Rightarrow> booking_row \<Rightarrow> bool" where
  "same_payment_snapshot w booking payment b \<longleftrightarrow>
     b_stripePaymentIntentId b = b_stripePaymentIntentId booking \<and>
     (case payment of
        Some p \<Rightarrow> (\<exists>y \<in> set (payments w). p_bookingId y = b_id b \<and> p_id y = p_id p \<and>
                    p_stripePaymentIntentId y = p_stripePaymentIntentId p)
      | None \<Rightarrow> \<not> (\<exists>y \<in> set (payments w). p_bookingId y = b_id b))"

definition checkout_release :: "env \<Rightarrow> booking_row \<Rightarrow> payment_row option \<Rightarrow> ride_row \<Rightarrow> (world, bool) op" where
  "checkout_release env booking payment ride =
     andThen (gets (\<lambda>w. same_payment_snapshot w booking payment)) (\<lambda>same.
     andThen (updateBookings (\<lambda>b. b_id b = b_id booking \<and> b_status b = PAYMENT_PENDING \<and> same b)
        (\<lambda>b. b\<lparr>b_status := CANCELLED, b_cancelledAt := Some (e_now env),
              b_cancellationReason := Some ''Ride request checkout expired''\<rparr>)) (\<lambda>updated.
     if updated \<noteq> 0 then andDo (releaseBookingSeats (b_id booking) (seats_of booking ride None)) (ret True)
     else ret (b_status booking \<in> {PAYMENT_FAILED, CANCELLED})))"

definition checkout_tx :: "env \<Rightarrow> offer_row \<Rightarrow> (booking_row \<times> payment_row option \<times> ride_row) option \<Rightarrow> (world, unit) op" where
  "checkout_tx env offer booking = transaction (
     andThen (case booking of None \<Rightarrow> ret True | Some (b, p, r) \<Rightarrow> checkout_release env b p r) (\<lambda>go.
     if \<not> go then ret ()
     else andThen (updateOffers (\<lambda>f. of_id f = of_id offer \<and> of_status f = OFFER_SELECTED) (\<lambda>f. f\<lparr>of_status := OFFER_EXPIRED\<rparr>)) (\<lambda>expired.
       if expired = 0 then ret ()
       else andDo (updateRide (of_rideId offer) (\<lambda>r. r\<lparr>r_status := RIDE_CANCELLED\<rparr>))
           (andDo (updateRequests (\<lambda>q. q_id q = of_requestId offer \<and> q_status q = REQ_CHECKOUT_PENDING)
                    (\<lambda>q. q\<lparr>q_status := REQ_OPEN, q_checkoutExpiresAt := None\<rparr>)) (ret ())))))"

text \<open>Nothing is released until Stripe shows that the intent cannot succeed.\<close>

definition expire_checkout ::
  "env \<Rightarrow> offer_row \<times> (booking_row \<times> payment_row option \<times> ride_row) option \<Rightarrow> (world, unit) op" where
  "expire_checkout env row =
     (let (offer, booking) = row;
          intentId = (case booking of None \<Rightarrow> None
            | Some (b, p, _) \<Rightarrow> (case b_stripePaymentIntentId b of Some x \<Rightarrow> Some x
                | None \<Rightarrow> (case p of None \<Rightarrow> None | Some p \<Rightarrow> p_stripePaymentIntentId p))) in
      (case intentId of None \<Rightarrow> checkout_tx env offer booking
       | Some x \<Rightarrow>
           (case e_retrieve env x of
              Retrieved intent \<Rightarrow>
                if i_status intent = IS_succeeded then andDo (applyStripePaymentSucceededToBooking env intent) (ret ())
                else andDo (whenM (i_status intent \<noteq> IS_canceled) (cancelPaymentIntent env x)) (checkout_tx env offer booking)
            | _ \<Rightarrow> throw STRIPE_CALL_FAILED)))"

definition pending_checkouts :: "env \<Rightarrow> world \<Rightarrow> (offer_row \<times> (booking_row \<times> payment_row option \<times> ride_row) option) list" where
  "pending_checkouts env w = map (\<lambda>f. (f, (case of_bookingId f of None \<Rightarrow> None
       | Some x \<Rightarrow> map_option (\<lambda>(b, r). (b, findPaymentByBooking x w, r)) (with_ride w (findBooking x w)))))
     (take 100 (filter (\<lambda>f. of_status f = OFFER_SELECTED \<and>
        (case findRequest (of_requestId f) w of None \<Rightarrow> False
         | Some q \<Rightarrow> (case q_checkoutExpiresAt q of None \<Rightarrow> False | Some t \<Rightarrow> t \<le> e_now env))) (offers w)))"

definition expireRequestCheckouts :: "env \<Rightarrow> (world, unit) op" where
  "expireRequestCheckouts env =
     andThen (gets (pending_checkouts env)) (\<lambda>pending.
     andDo (forEach pending (\<lambda>row. bestEffort (expire_checkout env row)))
    (andDo (updateRequests (\<lambda>q. q_status q = REQ_OPEN \<and> q_expiresAt q \<le> e_now env) (\<lambda>q. q\<lparr>q_status := REQ_EXPIRED\<rparr>))
    (andDo (updateOffers (\<lambda>f. of_status f = OFFER_OPEN \<and> of_expiresAt f \<le> e_now env) (\<lambda>f. f\<lparr>of_status := OFFER_EXPIRED\<rparr>))
     (ret ()))))"

end
