(* ===== verification/Webhook.thy ===== *)
theory Webhook
  imports Booking_Rider
begin

text \<open>
  The Stripe webhook, \<open>src/src/modules/payments/stripe.webhook.controller.ts\<close>: one handler per event
  type and the delivery, which stores the event's id before it processes it. The signature check is
  the SDK's; a delivery here is an event that passed it.
\<close>

record charge =
  ch_payment_intent :: "ident option"
  ch_latestRefund :: "ident option"
  ch_amount_refunded :: int
  ch_refunded :: bool

record refund =
  rf_id :: ident
  rf_payment_intent :: "ident option"
  rf_amount :: int
  rf_succeeded :: bool

datatype stripe_event =
    PaymentIntentSucceeded intent | PaymentIntentFailed intent | ChargeRefunded charge
  | RefundCreated refund | RefundUpdated refund | OtherEvent

definition applyPaymentIntentSucceeded :: "env \<Rightarrow> intent \<Rightarrow> (world, unit) op" where
  "applyPaymentIntentSucceeded env intent = andDo (applyStripePaymentSucceededToBooking env intent) (ret ())"

definition payment_failed_tx :: "ident \<Rightarrow> (world, booking_row option) op" where
  "payment_failed_tx bookingId = transaction (
     andThen (gets (\<lambda>w. with_ride w (findBooking bookingId w))) (\<lambda>found.
     case found of None \<Rightarrow> ret None
     | Some (b, r) \<Rightarrow>
         if b_status b \<noteq> PAYMENT_PENDING then ret None
         else andDo (updateBooking bookingId (\<lambda>b. b\<lparr>b_status := PAYMENT_FAILED\<rparr>))
             (andDo (releaseBookingSeats bookingId (seats_of b r None)) (ret (Some b)))))"

definition applyPaymentIntentFailed :: "env \<Rightarrow> intent \<Rightarrow> (world, unit) op" where
  "applyPaymentIntentFailed env intent =
     (case i_bookingId intent of None \<Rightarrow> ret ()
      | Some bookingId \<Rightarrow>
          andThen (gets (\<lambda>w. \<exists>f \<in> set (offers w). of_bookingId f = Some bookingId \<and> of_status f = OFFER_SELECTED)) (\<lambda>held.
          if held then ret ()
          else andThen (payment_failed_tx bookingId) (\<lambda>failedBooking.
            case failedBooking of None \<Rightarrow> ret ()
            | Some b \<Rightarrow> createNotification env (b_passengerId b) ''booking.payment.failed'')))"

definition first_booking_of_intent :: "ident \<Rightarrow> world \<Rightarrow> (booking_row \<times> ride_row) option" where
  "first_booking_of_intent x w = with_ride w (find (\<lambda>b. b_stripePaymentIntentId b = Some x) (bookings w))"

definition applyChargeRefunded :: "env \<Rightarrow> charge \<Rightarrow> (world, unit) op" where
  "applyChargeRefunded env ch =
     (case ch_payment_intent ch of None \<Rightarrow> ret ()
      | Some x \<Rightarrow>
          andDo (updateBookings (\<lambda>b. b_stripePaymentIntentId b = Some x)
             (\<lambda>b. b\<lparr>b_refundId := (case ch_latestRefund ch of None \<Rightarrow> b_refundId b | Some i \<Rightarrow> Some i),
                   b_refundAmount := Some (toMajorUnits (ch_amount_refunded ch)),
                   b_refundedAt := (if ch_refunded ch then Some (e_now env) else b_refundedAt b)\<rparr>))
         (if ch_refunded ch then
            andThen (gets (first_booking_of_intent x)) (\<lambda>found.
            case found of None \<Rightarrow> ret ()
            | Some (b, r) \<Rightarrow> andDo (markBookingPaymentRefunded (e_now env) (b_id b) (r_driverId r)
                (Some (toMajorUnits (ch_amount_refunded ch)))) (ret ()))
          else ret ()))"

definition applyRefundUpdated :: "env \<Rightarrow> refund \<Rightarrow> (world, unit) op" where
  "applyRefundUpdated env rf =
     (case rf_payment_intent rf of None \<Rightarrow> ret ()
      | Some x \<Rightarrow>
          andDo (updateBookings (\<lambda>b. b_stripePaymentIntentId b = Some x)
             (\<lambda>b. b\<lparr>b_refundId := Some (rf_id rf), b_refundAmount := Some (toMajorUnits (rf_amount rf)),
                   b_refundedAt := (if rf_succeeded rf then Some (e_now env) else b_refundedAt b)\<rparr>))
         (if rf_succeeded rf then
            andThen (gets (first_booking_of_intent x)) (\<lambda>found.
            case found of None \<Rightarrow> ret ()
            | Some (b, r) \<Rightarrow> andDo (markBookingPaymentRefunded (e_now env) (b_id b) (r_driverId r)
                (Some (toMajorUnits (rf_amount rf)))) (ret ()))
          else ret ()))"

fun processStripeEvent :: "env \<Rightarrow> stripe_event \<Rightarrow> (world, unit) op" where
  "processStripeEvent env (PaymentIntentSucceeded intent) = applyPaymentIntentSucceeded env intent"
| "processStripeEvent env (PaymentIntentFailed intent) = applyPaymentIntentFailed env intent"
| "processStripeEvent env (ChargeRefunded ch) = applyChargeRefunded env ch"
| "processStripeEvent env (RefundCreated rf) = applyRefundUpdated env rf"
| "processStripeEvent env (RefundUpdated rf) = applyRefundUpdated env rf"
| "processStripeEvent env OtherEvent = ret ()"

text \<open>The result says whether the delivery was answered as a duplicate.\<close>

definition handleStripeWebhook :: "env \<Rightarrow> ident \<Rightarrow> stripe_event \<Rightarrow> (world, bool) op" where
  "handleStripeWebhook env eventId event =
     andThen (gets (\<lambda>w. eventId \<in> set (webhookEvents w))) (\<lambda>existing.
     if existing then ret True
     else andDo (modify (\<lambda>w. w\<lparr>webhookEvents := webhookEvents w @ [eventId]\<rparr>))
         (andDo (processStripeEvent env event) (ret False)))"

end
