(* ===== verification/Booking_Create.thy ===== *)
theory Booking_Create
  imports Booking_Rider Segment_View
begin

text \<open>
  Creating a booking, \<open>src/src/modules/ride-booking/ride-booking.service.ts\<close>: the plan that validates
  everything without writing, the creation in bypass mode (paid at once, seats taken) and in Stripe
  mode (an unpaid booking behind a PaymentIntent, no seats), with the re-entry of a rider who has an
  unpaid booking on the ride, and the price preview.
\<close>

record create_input =
  ci_rideId :: ident
  ci_segment :: "(ident \<times> point_ref \<times> point_ref) option option"
  ci_seatsBooked :: int
  ci_pickupWaypointId :: "ident option"
  ci_dropoffWaypointId :: "ident option"
  ci_responseExpiryOption :: "string option"
  ci_requiresChildSeat :: bool
  ci_travelingWithChildUnderTwo :: bool
  ci_bringingOwnChildSeat :: bool

text \<open>\<open>ci_segment\<close>: no token given, a token that does not decode (\<open>Some None\<close>), or its contents.\<close>

definition validateBookingSeats :: "int \<Rightarrow> (world, unit) op" where
  "validateBookingSeats n =
     andDo (ensure (\<not> n < 1) MINIMUM_ONE_SEAT_REQUIRED) (ensure (\<not> n > MAX_SEATS_PER_BOOKING) MAXIMUM_SEATS_EXCEEDED)"

definition assertExplicitMeetingPointsSelected :: "ride_row \<Rightarrow> ident option \<Rightarrow> ident option \<Rightarrow> (world, unit) op" where
  "assertExplicitMeetingPointsSelected ride pickupWaypointId dropoffWaypointId =
     andDo (ensure (\<not> ((\<exists>p \<in> set (r_waypoints ride). wp_waypointType p = ''PICKUP'') \<and> pickupWaypointId = None)) PICKUP_POINT_REQUIRED)
       (ensure (\<not> ((\<exists>p \<in> set (r_waypoints ride). wp_waypointType p = ''DROPOFF'') \<and> dropoffWaypointId = None)) DROPOFF_POINT_REQUIRED)"

definition resolveRideFeeTerms :: "env \<Rightarrow> ident \<Rightarrow> world \<Rightarrow> jsnum \<times> jsnum" where
  "resolveRideFeeTerms env rideId w =
     (case map_of (feeSnapshots w) rideId of Some terms \<Rightarrow> terms | None \<Rightarrow> e_activeFeeTerms env)"

definition segment_refs :: "create_input \<Rightarrow> error + point_ref \<times> point_ref" where
  "segment_refs input =
     (case ci_segment input of
        Some None \<Rightarrow> Inl INVALID_BOOKING_SEGMENT
      | Some (Some (rideId, p, d)) \<Rightarrow> if rideId \<noteq> ci_rideId input then Inl INVALID_BOOKING_SEGMENT else Inr (p, d)
      | None \<Rightarrow> Inr (case ci_pickupWaypointId input of None \<Rightarrow> OriginRef | Some x \<Rightarrow> WaypointRef x,
                     case ci_dropoffWaypointId input of None \<Rightarrow> DestinationRef | Some x \<Rightarrow> WaypointRef x))"

text \<open>The point a booking is positioned at: by waypoint id, else by reference.\<close>

definition booked_point :: "segment_point list \<Rightarrow> ident option \<Rightarrow> point_ref \<Rightarrow> segment_point option" where
  "booked_point points waypointId fallback =
     (case find (\<lambda>p. pt_waypointId p = waypointId \<and> waypointId \<noteq> None) points of
        Some p \<Rightarrow> Some p
      | None \<Rightarrow> findPointByRef points (case waypointId of Some x \<Rightarrow> WaypointRef x | None \<Rightarrow> fallback))"

record booking_plan =
  bp_ride :: ride_row
  bp_departureAt :: time
  bp_pickupWaypointId :: "ident option"
  bp_dropoffWaypointId :: "ident option"
  bp_pickupPosition :: int
  bp_dropoffPosition :: int
  bp_segmentFare :: jsnum
  bp_priceBreakdown :: price_breakdown
  bp_decisionDeadlineAt :: time
  bp_expiryHours :: int

definition plan_of_view ::
  "env \<Rightarrow> create_input \<Rightarrow> jsnum \<times> jsnum \<Rightarrow> ride_row \<Rightarrow> time \<Rightarrow> segment_view \<Rightarrow> booking_plan option" where
  "plan_of_view env input feeTerms ride departureAt v =
     (let points = buildSegmentPoints ride in
      case (booked_point points (sv_pickupWaypointId v) OriginRef, booked_point points (sv_dropoffWaypointId v) DestinationRef) of
        (Some pickupPoint, Some dropPoint) \<Rightarrow>
          let (deadlineAt, hours) = (if e_bypass env then calculateDeadline (ci_responseExpiryOption input) departureAt (e_now env)
                 else (e_now env + DRIVER_DECISION_WINDOW_MS, js_round (of_int DRIVER_DECISION_WINDOW_MS / (60 * 60 * 1000))))
          in Some \<lparr>bp_ride = ride, bp_departureAt = departureAt, bp_pickupWaypointId = sv_pickupWaypointId v,
             bp_dropoffWaypointId = sv_dropoffWaypointId v, bp_pickupPosition = pt_position pickupPoint,
             bp_dropoffPosition = pt_position dropPoint, bp_segmentFare = sv_basePricePerSeat v,
             bp_priceBreakdown = calculateBookingPrice \<lparr>in_basePricePerSeat = sv_basePricePerSeat v,
               in_seatsBooked = ci_seatsBooked input, in_currency = Some (r_currency ride),
               in_serviceFeePercent = fst feeTerms, in_serviceFeeFlat = snd feeTerms\<rparr>,
             bp_decisionDeadlineAt = deadlineAt, bp_expiryHours = hours\<rparr>
      | _ \<Rightarrow> None)"

abbreviation UNDEFINED_PROPERTY :: error where "UNDEFINED_PROPERTY \<equiv> Err ''TypeError''"

definition resolveBookingPlan ::
  "env \<Rightarrow> ident \<Rightarrow> create_input \<Rightarrow> jsnum \<times> jsnum \<Rightarrow> bool \<Rightarrow> (world, booking_plan) op" where
  "resolveBookingPlan env passengerId input feeTerms forRequest =
     andThen (gets (\<lambda>w. find (\<lambda>r. r_id r = ci_rideId input \<and>
        r_status r = (if forRequest then RIDE_DRAFT else RIDE_PUBLISHED)) (rides w))) (\<lambda>found.
     andThen (ofOption RIDE_NOT_FOUND found) (\<lambda>ride.
     andThen (ofSum (combineDepartureDateTimeUtc (r_departureDate ride) (r_departureTime ride))) (\<lambda>departureAt.
     andDo (ensure (\<not> isBookingWindowClosed departureAt (e_now env)) BOOKING_WINDOW_CLOSED)
    (andDo (ensure (r_driverId ride \<noteq> passengerId) CANNOT_BOOK_OWN_RIDE)
    (andThen (gets (\<lambda>w. (passengerId, r_driverId ride) \<in> set (blocks w) \<or> (r_driverId ride, passengerId) \<in> set (blocks w))) (\<lambda>block.
     andDo (ensure (\<not> block) USER_BLOCKED)
    (andDo (validateBookingSeats (ci_seatsBooked input))
    (andThen (gets (\<lambda>w. \<exists>b \<in> set (bookings w). b_rideId b = ci_rideId input \<and> b_passengerId b = passengerId \<and>
        b_status b \<in> set ACTIVE_BOOKING_STATUSES)) (\<lambda>existingBooking.
     andDo (ensure (\<not> existingBooking) BOOKING_ALREADY_EXISTS)
    (andThen (gets (\<lambda>w. find (\<lambda>u. u_id u = passengerId) (users w))) (\<lambda>passenger.
     andDo (ensure (\<not> (r_femaleOnly ride \<and>
        (case passenger of None \<Rightarrow> True | Some u \<Rightarrow> u_gender u \<noteq> Some ''FEMALE''))) FEMALE_ONLY_RIDE)
    (andThen (ofSum (segment_refs input)) (\<lambda>(pickupRef, dropRef).
     andThen (ofOption INVALID_BOOKING_SEGMENT (resolveSegmentView (buildSegmentPoints ride) pickupRef dropRef)) (\<lambda>riderView.
     andDo (assertExplicitMeetingPointsSelected ride (sv_pickupWaypointId riderView) (sv_dropoffWaypointId riderView))
    (andDo (ensure (\<not> ci_seatsBooked input > r_availableSeats ride) INSUFFICIENT_SEATS)
     (ofOption UNDEFINED_PROPERTY (plan_of_view env input feeTerms ride departureAt riderView)))))))))))))))))"

subsection \<open>The rows written\<close>

definition new_booking :: "env \<Rightarrow> ident \<Rightarrow> create_input \<Rightarrow> booking_plan \<Rightarrow> booking_row" where
  "new_booking env passengerId input plan =
     (let price = bp_priceBreakdown plan; now = e_now env; paid = e_bypass env in
      \<lparr>b_id = e_newBookingId env, b_rideId = ci_rideId input, b_passengerId = passengerId,
       b_seatsBooked = ci_seatsBooked input, b_totalPrice = totalPrice price,
       b_pickupWaypointId = bp_pickupWaypointId plan, b_dropoffWaypointId = bp_dropoffWaypointId plan,
       b_segmentFare = Some (bp_segmentFare plan), b_serviceFeeAmount = Some (serviceFee price),
       b_serviceFeePercent = Some (serviceFeePercent price),
       b_pickupPosition = Some (bp_pickupPosition plan), b_dropoffPosition = Some (bp_dropoffPosition plan),
       b_status = (if paid then DRIVER_PENDING else PAYMENT_PENDING),
       b_seatsReservedAt = (if paid then Some now else None), b_stripePaymentIntentId = None,
       b_stripeChargeId = None, b_paymentAmount = (if paid then Some (totalPrice price) else None),
       b_paymentCurrency = Some (r_currency (bp_ride plan)), b_paymentCapturedAt = (if paid then Some now else None),
       b_refundId = None, b_refundedAt = None, b_refundAmount = None, b_refundPercent = None,
       b_driverDecisionDeadlineAt = Some (bp_decisionDeadlineAt plan), b_driverDecisionAt = None,
       b_deadlineExpiredNotifiedAt = None, b_deadlineExtendedAt = None, b_autoCancelledAt = None,
       b_cancelledAt = None, b_cancelledByRole = None, b_cancellationReason = None,
       b_driverRejectionReason = None, b_driverCancellationReason = None, b_driverPenaltyAppliedAt = None,
       b_driverPenaltyValue = None, b_pickupOtpHash = None, b_dropOtpHash = None, b_pickupOtpExpiresAt = None,
       b_dropOtpExpiresAt = None, b_pickupOtpVerifiedAt = None, b_dropOtpVerifiedAt = None, b_otpAttemptCount = 0,
       b_responseExpiryOption = ci_responseExpiryOption input, b_responseExpiryHours = Some (bp_expiryHours plan),
       b_withdrawnAt = None, b_withdrawnReason = None, b_reminderSentAt = None, b_createdAt = now,
       b_updatedAt = now, b_completedAt = None, b_driverArrivedAt = None, b_waitTimerStartedAt = None,
       b_onboardedAt = None, b_noShowMarkedAt = None, b_dropoffConfirmedAt = None, b_riderDropoffConfirmedAt = None\<rparr>)"

text \<open>\<open>rideBooking.create\<close>, with the unique columns and the partial unique index.\<close>

definition createBookingRow :: "booking_row \<Rightarrow> (world, booking_row) op" where
  "createBookingRow b =
     andThen (gets bookings) (\<lambda>bs.
     andDo (ensure (\<forall>y \<in> set bs. b_id y \<noteq> b_id b \<and>
        (b_stripePaymentIntentId b \<noteq> None \<longrightarrow> b_stripePaymentIntentId y \<noteq> b_stripePaymentIntentId b)) UNIQUE_VIOLATION)
    (andDo (modify (\<lambda>w. w\<lparr>bookings := bookings w @ [b]\<rparr>))
    (andDo checkActiveIndex (ret b))))"

definition linkOffer :: "ident \<Rightarrow> ident \<Rightarrow> (world, unit) op" where
  "linkOffer offerId bookingId =
     andThen (updateOffers (\<lambda>f. of_id f = offerId) (\<lambda>f. f\<lparr>of_bookingId := Some bookingId\<rparr>)) (\<lambda>n.
     ensure (n \<noteq> 0) RECORD_NOT_FOUND)"

definition seats_of_plan :: "create_input \<Rightarrow> booking_plan \<Rightarrow> seats_input" where
  "seats_of_plan input plan = \<lparr>si_rideId = ci_rideId input, si_seatsBooked = ci_seatsBooked input,
     si_pickupPosition = Some (bp_pickupPosition plan), si_dropoffPosition = Some (bp_dropoffPosition plan),
     si_totalSeats = r_totalSeats (bp_ride plan), si_bookingId = None\<rparr>"

definition payment_of_plan :: "booking_row \<Rightarrow> payment_split \<Rightarrow> string \<Rightarrow> ident option \<Rightarrow> payment_params" where
  "payment_of_plan b split cur paymentIntentId = \<lparr>pp_bookingId = b_id b, pp_rideId = b_rideId b,
     pp_riderId = b_passengerId b, pp_amountTotal = amountTotal split, pp_fareAmount = fareAmount split,
     pp_platformFeeAmount = platformFeeAmount split, pp_currency = cur,
     pp_stripePaymentIntentId = paymentIntentId, pp_status = Some P_PAYMENT_PENDING\<rparr>"

definition rename_unique :: "error \<Rightarrow> error" where
  "rename_unique e = (if e = UNIQUE_VIOLATION then BOOKING_ALREADY_EXISTS else e)"

subsection \<open>Bypass mode\<close>

definition create_bypass_tx ::
  "env \<Rightarrow> ident \<Rightarrow> create_input \<Rightarrow> jsnum \<times> jsnum \<Rightarrow> ident option \<Rightarrow> (world, booking_plan \<times> ident) op" where
  "create_bypass_tx env passengerId input feeTerms requestOfferId = transaction (
     andDo (case requestOfferId of None \<Rightarrow> ret ()
        | Some f \<Rightarrow> reserveRequestOffer env f passengerId (ci_rideId input) (ci_seatsBooked input))
    (andThen (resolveBookingPlan env passengerId input feeTerms (requestOfferId \<noteq> None)) (\<lambda>plan.
     andDo (reserveSeatsForBooking (seats_of_plan input plan) (requestOfferId \<noteq> None))
    (andThen (createBookingRow (new_booking env passengerId input plan)) (\<lambda>b.
     andDo (case requestOfferId of None \<Rightarrow> ret ()
        | Some f \<Rightarrow> andDo (linkOffer f (b_id b)) (andDo (confirmRequestBooking env (b_id b)) (ret ())))
    (andThen (ofSum (resolvePaymentSplit (bp_priceBreakdown plan))) (\<lambda>split.
     andThen (createPayment (e_newPaymentId env) (payment_of_plan b split (r_currency (bp_ride plan)) None)) (\<lambda>payment.
     ret (plan, p_id payment)))))))))"

definition create_bypass ::
  "env \<Rightarrow> ident \<Rightarrow> create_input \<Rightarrow> jsnum \<times> jsnum \<Rightarrow> ident option \<Rightarrow> (world, ident) op" where
  "create_bypass env passengerId input feeTerms requestOfferId =
     andThen (tryCatch (create_bypass_tx env passengerId input feeTerms requestOfferId) (\<lambda>e. throw (rename_unique e))) (\<lambda>(plan, paymentId).
     andDo (bestEffort (andDo (markPaymentPaid paymentId (r_driverId (bp_ride plan))) (ret ())))
    (if requestOfferId \<noteq> None then ret (e_newBookingId env)
     else andDo (bestEffort
         (andDo (createNotification env passengerId ''booking.request.sent'')
         (andDo (createNotification env (r_driverId (bp_ride plan)) ''booking.request.driver_decision'')
          (enqueueDeadlineCheck env (e_newBookingId env) (max 0 (bp_decisionDeadlineAt plan - e_now env))))))
       (ret (e_newBookingId env))))"

subsection \<open>Stripe mode\<close>

definition to_lower_char :: "char \<Rightarrow> char" where
  "to_lower_char c = (let n = of_char c :: nat in if 65 \<le> n \<and> n \<le> 90 then char_of (n + 32) else c)"

definition toLowerCase :: "string \<Rightarrow> string" where "toLowerCase = map to_lower_char"

definition createBookingPaymentIntent :: "env \<Rightarrow> ident \<Rightarrow> jsnum \<Rightarrow> string \<Rightarrow> (world, ident \<times> string) op" where
  "createBookingPaymentIntent env bookingId amountMajor cur =
     andDo (ensure (amountMajor > 0) (Err ''INVALID_PAYMENT_AMOUNT''))
    (let c = toLowerCase (if cur = '''' then ''inr'' else cur) in
     andDo (emit (StripeCreateIntent bookingId (cents amountMajor) c))
    (andThen (ofOption STRIPE_CALL_FAILED (e_createIntent env bookingId (cents amountMajor) c)) (\<lambda>(x, cur').
     ret (x, toUpperCase cur'))))"

definition create_stripe_tx ::
  "env \<Rightarrow> ident \<Rightarrow> create_input \<Rightarrow> jsnum \<times> jsnum \<Rightarrow> ident option \<Rightarrow> booking_plan \<Rightarrow> ident \<times> string \<Rightarrow> (world, booking_plan) op" where
  "create_stripe_tx env passengerId input feeTerms requestOfferId preflightPlan intent = transaction (
     andDo (case requestOfferId of None \<Rightarrow> ret ()
        | Some f \<Rightarrow> reserveRequestOffer env f passengerId (ci_rideId input) (ci_seatsBooked input))
    (andThen (resolveBookingPlan env passengerId input feeTerms (requestOfferId \<noteq> None)) (\<lambda>plan.
     andDo (ensure (totalPrice (bp_priceBreakdown plan) = totalPrice (bp_priceBreakdown preflightPlan)) BOOKING_PRICE_CHANGED)
    (andThen (createBookingRow ((new_booking env passengerId input plan)\<lparr>b_stripePaymentIntentId := Some (fst intent),
        b_paymentAmount := Some (totalPrice (bp_priceBreakdown plan)), b_paymentCurrency := Some (snd intent)\<rparr>)) (\<lambda>b.
     andThen (ofSum (resolvePaymentSplit (bp_priceBreakdown plan))) (\<lambda>split.
     andDo (createPayment (e_newPaymentId env) (payment_of_plan b split (snd intent) (Some (fst intent))))
    (andDo (case requestOfferId of None \<Rightarrow> ret () | Some f \<Rightarrow> linkOffer f (b_id b))
     (ret plan))))))))"

definition create_stripe ::
  "env \<Rightarrow> ident \<Rightarrow> create_input \<Rightarrow> jsnum \<times> jsnum \<Rightarrow> ident option \<Rightarrow> (world, ident) op" where
  "create_stripe env passengerId input feeTerms requestOfferId =
     andThen (resolveBookingPlan env passengerId input feeTerms (requestOfferId \<noteq> None)) (\<lambda>preflightPlan.
     andThen (tryCatch (createBookingPaymentIntent env (e_newBookingId env)
          (totalPrice (bp_priceBreakdown preflightPlan)) (r_currency (bp_ride preflightPlan)))
        (\<lambda>_. throw PAYMENT_INITIALIZATION_FAILED)) (\<lambda>intent.
     andThen (tryCatch (create_stripe_tx env passengerId input feeTerms requestOfferId preflightPlan intent)
        (\<lambda>e. andDo (bestEffort (cancelPaymentIntent env (fst intent))) (throw (rename_unique e)))) (\<lambda>plan.
     andDo (bestEffort (enqueuePaymentExpiryCheck env (e_newBookingId env) (bookingPaymentWindowMs env)))
    (andDo (bestEffort (createNotification env passengerId ''booking.payment.pending''))
     (ret (e_newBookingId env))))))"

subsection \<open>The handler\<close>

record create_snapshot =
  cs_account :: "user_row option"
  cs_feeTerms :: "jsnum \<times> jsnum"
  cs_pending :: "(booking_row \<times> ride_row) option"

definition create_read :: "env \<Rightarrow> ident \<Rightarrow> create_input \<Rightarrow> world \<Rightarrow> create_snapshot" where
  "create_read env passengerId input w = \<lparr>cs_account = find (\<lambda>u. u_id u = passengerId) (users w),
     cs_feeTerms = resolveRideFeeTerms env (ci_rideId input) w,
     cs_pending = with_ride w (findPendingBooking passengerId (ci_rideId input) w)\<rparr>"

text \<open>The result is the booking and whether it was there before.\<close>

definition create_after_reentry ::
  "env \<Rightarrow> ident \<Rightarrow> create_input \<Rightarrow> jsnum \<times> jsnum \<Rightarrow> ident option \<Rightarrow> reentry \<Rightarrow> (world, ident \<times> bool) op" where
  "create_after_reentry env passengerId input feeTerms requestOfferId re =
     (let fresh = andThen (create_stripe env passengerId input feeTerms requestOfferId) (\<lambda>x. ret (x, False)) in
      case re of
        RESUME x _ _ \<Rightarrow> andThen (gets (getBookingById passengerId x)) (\<lambda>existing.
          if existing \<noteq> None then andDo (reschedulePaymentExpiryCheck env x (bookingPaymentWindowMs env)) (ret (x, True))
          else fresh)
      | APPLIED x \<Rightarrow> andThen (gets (getBookingById passengerId x)) (\<lambda>existing.
          if existing \<noteq> None then ret (x, True) else fresh)
      | _ \<Rightarrow> fresh)"

definition create_body ::
  "env \<Rightarrow> ident \<Rightarrow> create_input \<Rightarrow> ident option \<Rightarrow> create_snapshot \<Rightarrow> (world, ident \<times> bool) op" where
  "create_body env passengerId input requestOfferId snapshot =
     andThen (ofOption (Err ''TOS_NOT_ACCEPTED'') (cs_account snapshot)) (\<lambda>account.
     andDo (ensure (u_tosAcceptedAt account \<noteq> None \<and> u_privacyAcceptedAt account \<noteq> None) TOS_NOT_ACCEPTED)
    (andDo (ensure (\<not> u_isBanned account) USER_BANNED)
    (andDo (ensure (\<not> (case u_dob account of None \<Rightarrow> True
        | Some dob \<Rightarrow> calculateAgeYears dob (e_now env) < MINIMUM_BOOKING_AGE_YEARS)) PASSENGER_TOO_YOUNG)
    (andDo (ensure (\<not> ((ci_travelingWithChildUnderTwo input \<or> ci_requiresChildSeat input) \<and>
        \<not> ci_bringingOwnChildSeat input)) CHILD_SEAT_ACK_REQUIRED)
    (if e_bypass env then
       andThen (create_bypass env passengerId input (cs_feeTerms snapshot) requestOfferId) (\<lambda>x. ret (x, False))
     else andThen (if requestOfferId \<noteq> None then ret NO_PENDING else reentry_body env (cs_pending snapshot))
       (create_after_reentry env passengerId input (cs_feeTerms snapshot) requestOfferId))))))"

definition createBooking :: "env \<Rightarrow> ident \<Rightarrow> create_input \<Rightarrow> ident option \<Rightarrow> (world, ident \<times> bool) op" where
  "createBooking env passengerId input requestOfferId =
     andThen (gets (create_read env passengerId input)) (create_body env passengerId input requestOfferId)"

end
