(* ===== verification/Booking_Rules.thy ===== *)
theory Booking_Rules
  imports Ride_Operations Deadlines Webhook Booking_Create
begin

text \<open>
  The invariant of the booking core and the rules that carry it through every handler. \<open>core\<close> joins the
  seat counters (\<open>capacity_for\<close> the rides that can be booked), the meaning of a status for the seats (\<open>hold_inv\<close>) and the ride of a
  selected offer (\<open>offer_inv\<close>). \<open>grows\<close> relates an earlier state to a later one by what never changes: a
  handler that acts on rows it read earlier relies on nothing else.
\<close>

subsection \<open>The invariant\<close>

text \<open>The ride states in which the counters are read: a booking can only be made on a draft that is
  offered or on a published ride.\<close>

fun bookable :: "ride_status \<Rightarrow> bool" where
  "bookable RIDE_DRAFT = True" | "bookable RIDE_PUBLISHED = True" | "bookable _ = False"

fun holds_seats :: "booking_status \<Rightarrow> bool" where
  "holds_seats DRIVER_PENDING = True" | "holds_seats CONFIRMED = True" | "holds_seats _ = False"

fun holds_none :: "booking_status \<Rightarrow> bool" where
  "holds_none PAYMENT_PENDING = True" | "holds_none PAYMENT_FAILED = True"
| "holds_none RIDE_FULL_REFUNDED = True" | "holds_none CANCELLED = True" | "holds_none _ = False"

definition hold_ok :: "booking_row \<Rightarrow> bool" where
  "hold_ok b \<longleftrightarrow> (holds_seats (b_status b) \<longrightarrow> b_seatsReservedAt b \<noteq> None) \<and>
     (holds_none (b_status b) \<longrightarrow> b_seatsReservedAt b = None)"

definition hold_inv :: "world \<Rightarrow> bool" where
  "hold_inv w \<longleftrightarrow> (\<forall>b \<in> set (bookings w). hold_ok b)"

definition offer_inv :: "world \<Rightarrow> bool" where
  "offer_inv w \<longleftrightarrow> distinct (map of_id (offers w)) \<and> distinct (map of_rideId (offers w)) \<and>
     (\<forall>f \<in> set (offers w). of_status f = OFFER_SELECTED \<longrightarrow>
        (\<exists>r \<in> set (rides w). r_id r = of_rideId f \<and> r_status r = RIDE_DRAFT))"

definition core :: "world \<Rightarrow> bool" where
  "core w \<longleftrightarrow> capacity_for bookable w \<and> hold_inv w \<and> offer_inv w"

text \<open>What never changes of a booking and of a ride.\<close>

definition booking_key :: "booking_row \<Rightarrow> ident \<times> ident \<times> int \<times> int option \<times> int option" where
  "booking_key b = (b_id b, b_rideId b, b_seatsBooked b, b_pickupPosition b, b_dropoffPosition b)"

definition ride_key :: "ride_row \<Rightarrow> ident \<times> int" where
  "ride_key r = (r_id r, r_totalSeats r)"

definition offer_key :: "offer_row \<Rightarrow> ident \<times> ident" where
  "offer_key f = (of_id f, of_rideId f)"

definition grows :: "world \<Rightarrow> world \<Rightarrow> bool" where
  "grows w w' \<longleftrightarrow> booking_key ` set (bookings w) \<subseteq> booking_key ` set (bookings w') \<and>
     ride_key ` set (rides w) \<subseteq> ride_key ` set (rides w') \<and>
     offer_key ` set (offers w) \<subseteq> offer_key ` set (offers w') \<and>
     r_id ` {r \<in> set (rides w). r_status r \<noteq> RIDE_DRAFT} \<subseteq> r_id ` {r \<in> set (rides w'). r_status r \<noteq> RIDE_DRAFT}"

lemma grows_refl [simp]: "grows w w"
  by (simp add: grows_def)

lemma grows_trans: "grows u v \<Longrightarrow> grows v w \<Longrightarrow> grows u w"
  unfolding grows_def by (elim conjE, intro conjI) (erule (1) subset_trans)+

definition live :: "world \<Rightarrow> world \<Rightarrow> bool" where
  "live u w \<longleftrightarrow> core w \<and> grows u w"

lemma live_step: "live u w \<Longrightarrow> (core w \<Longrightarrow> core w' \<and> grows w w') \<Longrightarrow> live u w'"
  unfolding live_def using grows_trans by blast

subsection \<open>Operations on other tables\<close>

definition booking_tables :: "world \<Rightarrow> booking_row list \<times> ride_row list \<times> segment_row list \<times> offer_row list" where
  "booking_tables w = (bookings w, rides w, segments w, offers w)"

lemma core_tables: "booking_tables w = booking_tables w' \<Longrightarrow> core w = core w'"
proof -
  assume e: "booking_tables w = booking_tables w'"
  then have "seat_view bookable w = seat_view bookable w'" by (simp add: booking_tables_def seat_view_def)
  then have "capacity_for bookable w = capacity_for bookable w'" by (rule capacity_inv_view)
  with e show ?thesis by (simp add: core_def booking_tables_def hold_inv_def offer_inv_def)
qed

lemma live_tables: "booking_tables w = booking_tables w' \<Longrightarrow> live u w = live u w'"
  using core_tables[of w w'] by (simp add: live_def grows_def booking_tables_def)

lemma tables_only_live: "tables_only (live u)"
  unfolding tables_only_def by (intro allI live_tables) (simp add: booking_tables_def)

definition framed :: "(world, 'a) op \<Rightarrow> bool" where
  "framed m \<longleftrightarrow> (\<forall>c. preserves (\<lambda>w. booking_tables w = c) m)"

lemma framed_live: "framed m \<Longrightarrow> preserves (live u) m"
proof (rule preservesI)
  fix w assume "framed m" "live u w"
  then have "booking_tables (snd (m w)) = booking_tables w"
    unfolding framed_def using preservesD[of "\<lambda>v. booking_tables v = booking_tables w" m w] by blast
  then show "live u (snd (m w))" using \<open>live u w\<close> live_tables by blast
qed

named_theorems framed_intros \<open>operations that leave bookings, rides, segments and offers alone\<close>

lemma framedI: "(\<And>w. booking_tables (snd (m w)) = booking_tables w) \<Longrightarrow> framed m"
  unfolding framed_def by (intro allI preservesI) simp

lemma framed_combinators [framed_intros]:
  "framed (ret a)" "framed (throw e)" "framed (gets f)" "framed (ensure b e)" "framed (ofOption e x)" "framed (ofSum y)"
  "framed m \<Longrightarrow> (\<And>a. framed (k a)) \<Longrightarrow> framed (andThen m k)"
  "framed m \<Longrightarrow> framed n' \<Longrightarrow> framed (andDo m n')"
  "framed m \<Longrightarrow> (\<And>e. framed (h e)) \<Longrightarrow> framed (tryCatch m h)"
  "framed n \<Longrightarrow> framed (bestEffort n)"
  "(b \<Longrightarrow> framed n) \<Longrightarrow> framed (whenM b n)"
  "(b \<Longrightarrow> framed m) \<Longrightarrow> (\<not> b \<Longrightarrow> framed m') \<Longrightarrow> framed (if b then m else m')"
  unfolding framed_def by (blast intro: hoare_intros)+

lemma framed_loops [framed_intros]:
  "(\<And>x. framed (g x)) \<Longrightarrow> framed (forEach xs g)" "(\<And>x. framed (g x)) \<Longrightarrow> framed (awaitAll xs g)"
  unfolding framed_def by (blast intro: preserves_forEach preserves_awaitAll)+

lemma framed_case_option [framed_intros]:
  "framed m \<Longrightarrow> (\<And>a. framed (k a)) \<Longrightarrow> framed (case x of None \<Rightarrow> m | Some a \<Rightarrow> k a)"
  by (cases x) simp_all

lemma framed_cases [framed_intros]:
  "(\<And>a b. framed (kp a b)) \<Longrightarrow> framed (case p of (a, b) \<Rightarrow> kp a b)"
  "framed m \<Longrightarrow> framed m' \<Longrightarrow> framed (case b of True \<Rightarrow> m | False \<Rightarrow> m')"
  "(\<And>i. framed (kr i)) \<Longrightarrow> framed mm \<Longrightarrow> framed mu \<Longrightarrow>
     framed (case v of Retrieved i \<Rightarrow> kr i | ResourceMissing \<Rightarrow> mm | StripeUnavailable \<Rightarrow> mu)"
  by (simp_all split: prod.split bool.split retrieved.split)

lemma framed_modify: "(\<And>w. booking_tables (f w) = booking_tables w) \<Longrightarrow> framed (modify f)"
  by (rule framedI) simp

lemma framed_external [framed_intros]:
  "framed (emit e)" "framed (refundPaymentIntent env x a)" "framed (cancelPaymentIntent env x)"
  "framed (createNotification env u ty)" "framed (enqueueJob env j x d)" "framed (callModule env j x)"
proof -
  show emit: "framed (emit e)" for e by (simp add: emit_def framed_modify booking_tables_def)
  show "framed (refundPaymentIntent env x a)" "framed (cancelPaymentIntent env x)"
    "framed (createNotification env u ty)" "framed (enqueueJob env j x d)" "framed (callModule env j x)"
    unfolding refundPaymentIntent_def cancelPaymentIntent_def createNotification_def enqueueJob_def callModule_def
    by (intro framed_intros emit)+
qed

lemma framed_updatePayment [framed_intros]: "framed (updatePayment x f)"
  by (rule framedI) (simp add: updatePayment_def booking_tables_def)

lemma framed_entries [framed_intros]: "framed (createEntries ls)" "framed (writeOutboxEvent ty x)"
  unfolding createEntries_def writeOutboxEvent_def by (simp_all add: framed_modify booking_tables_def)

lemma framed_marks [framed_intros]:
  "framed (markPaymentPaid x d)" "framed (markBookingPaymentPaid x d)" "framed (markRefunded now x d a)"
  "framed (markBookingPaymentRefunded now x d a)"
  unfolding mark_defs findPaymentOrThrow_def record_defs Let_def
  by (intro framed_intros)+

lemma framed_request_payment [framed_intros]:
  "framed (createPayment x q)" "framed (ensureRequestPayment env b)" "framed (recordProviderFeeExpense x y a c)"
proof -
  show c: "framed (createPayment x q)" for x q
    unfolding createPayment_def Let_def
    by (intro framed_intros framed_modify) (simp add: booking_tables_def)
  have l: "framed (\<lambda>w. if count_where q (payments w) = 0 then (Inl e, w)
      else (Inr (), w\<lparr>payments := update_where q f (payments w)\<rparr>))" for q e f
    by (rule framedI) (simp add: booking_tables_def)
  show "framed (ensureRequestPayment env b)"
    unfolding ensureRequestPayment_def Let_def by (intro framed_intros c l)
  show "framed (recordProviderFeeExpense x y a c)"
    unfolding recordProviderFeeExpense_def by (intro framed_intros)
qed

lemma framed_helpers [framed_intros]:
  "framed (recordProviderFeeForIntent env i x)" "framed (releaseUnpaidPaymentIntent env x)"
  "framed (reconciliationIssue x ty sv)" "framed (enqueueDeadlineCheck env x d)"
  "framed (enqueuePaymentExpiryCheck env x d)" "framed (retrieveIntent env x)"
  "framed (driver_refund env b)" "framed (sync_driver_refund env x dr a ini)"
  unfolding recordProviderFeeForIntent_def releaseUnpaidPaymentIntent_def reconciliationIssue_def
    enqueueDeadlineCheck_def enqueuePaymentExpiryCheck_def retrieveIntent_def driver_refund_def
    sync_driver_refund_def Let_def
  by (intro framed_intros)+

text \<open>Disputes and the trail of a ride.\<close>

lemma framed_updateDispute [framed_intros]: "framed (updateDispute x f)"
  by (rule framedI) (simp add: updateDispute_def booking_tables_def)

lemma framed_rows [framed_intros]:
  "framed (createLocation x d la lo t)" "framed (createRideIssue ty x)" "framed (create_offline_event a ty x v k)"
  "framed (recordEvent x y ty ac z i v k fo)"
  unfolding createLocation_def createRideIssue_def create_offline_event_def recordEvent_def
  by (intro framed_intros framed_modify; simp add: booking_tables_def)+

lemma framed_disputes [framed_intros]:
  "framed (createDispute env q)" "framed (collectEvidence x)" "framed (evaluateDispute env x)" "framed (resolveDispute env x rs d)"
  unfolding createDispute_def collectEvidence_def evaluateDispute_def resolveDispute_def Let_def
  by (intro framed_intros framed_modify; simp add: booking_tables_def)+

lemma framed_forced [framed_intros]:
  "framed (handleForcedAction env fo ty x y z d)" "framed (auditForcedOtp env fo d b ty)"
  "framed (notifyRideStakeholders env r bs ty)" "framed (locate_driver env x d i)"
  unfolding handleForcedAction_def notifyForcedAction_def openReviewDispute_def auditForcedOtp_def
    notifyRideStakeholders_def locate_driver_def prod.case
  by (intro framed_intros)+

subsection \<open>Updates of booking rows\<close>

text \<open>An update of rows that touches neither what the seats depend on nor the meaning of the status.\<close>

definition row_ok :: "(booking_row \<Rightarrow> bool) \<Rightarrow> (booking_row \<Rightarrow> booking_row) \<Rightarrow> bool" where
  "row_ok p f \<longleftrightarrow> (\<forall>b. p b \<longrightarrow> booking_view (f b) = booking_view b \<and> (hold_ok b \<longrightarrow> hold_ok (f b)))"

lemma booking_key_view: "booking_view b = booking_view b' \<Longrightarrow> booking_key b = booking_key b'"
  by (simp add: booking_view_def booking_key_def)

lemma rows_core:
  assumes "row_ok p f" "core w" "bookings w' = update_where p f (bookings w)"
    and "rides w' = rides w" "segments w' = segments w" "offers w' = offers w"
  shows "core w' \<and> grows w w'"
proof -
  have v: "map booking_view (bookings w') = map booking_view (bookings w)"
    unfolding assms(3) using assms(1) by (intro map_update_where) (simp add: row_ok_def)
  have "capacity_for bookable w'"
    using assms(2,4,5) v capacity_inv_view[of bookable w' w] by (simp add: core_def seat_view_def)
  moreover have "hold_inv w'"
    using assms(1,2) unfolding core_def hold_inv_def assms(3) set_update_where row_ok_def by auto
  moreover have "offer_inv w'" using assms(2,4,6) by (simp add: core_def offer_inv_def)
  moreover have "map booking_key (bookings w') = map booking_key (bookings w)"
    unfolding assms(3) using assms(1) by (intro map_update_where booking_key_view) (simp add: row_ok_def)
  then have "booking_key ` set (bookings w) = booking_key ` set (bookings w')" by (metis set_map)
  ultimately show ?thesis using assms(4,6) by (simp add: core_def grows_def)
qed

lemma live_updateBookings: "row_ok p f \<Longrightarrow> preserves (live u) (updateBookings p f)"
  by (rule preservesI, erule live_step, erule rows_core) (simp_all add: updateBookings_def)

lemma live_updateBooking:
  assumes "row_ok (\<lambda>b. b_id b = x) f"
  shows "preserves (live u) (updateBooking x f)"
proof (rule preservesI)
  fix w assume "live u w"
  then show "live u (snd (updateBooking x f w))"
  proof (cases "findBooking x w")
    case (Some b)
    have "core w \<Longrightarrow> core (snd (updateBooking x f w)) \<and> grows w (snd (updateBooking x f w))"
      by (rule rows_core[OF assms]) (simp_all add: updateBooking_def Some)
    with \<open>live u w\<close> show ?thesis by (rule live_step)
  qed (simp add: updateBooking_def)
qed

text \<open>Updates that leave status, seats and key alone.\<close>

lemma row_okI:
  "(\<And>b. p b \<Longrightarrow> booking_view (f b) = booking_view b \<and> b_status (f b) = b_status b) \<Longrightarrow> row_ok p f"
  unfolding row_ok_def hold_ok_def booking_view_def by fastforce

subsection \<open>Rows read earlier\<close>

text \<open>A booking and its ride as they were read in a state \<open>u\<close> that the current one grew from.\<close>

definition known :: "world \<Rightarrow> booking_row \<times> ride_row \<Rightarrow> bool" where
  "known u row \<longleftrightarrow> (case row of (b, r) \<Rightarrow> booking_key b \<in> booking_key ` set (bookings u) \<and>
     ride_key r \<in> ride_key ` set (rides u) \<and> r_id r = b_rideId b)"

lemma known_grows: "known u row \<Longrightarrow> grows u w \<Longrightarrow> known w row"
  by (auto simp: known_def grows_def)

lemma with_ride_known:
  assumes "with_ride w (Some b) = Some row" "b \<in> set (bookings w)"
  shows "known w row" "fst row = b"
  using assms by (auto simp: with_ride_def known_def dest: findRide_mem)

lemma findOwnBooking_mem: "findOwnBooking pid x p w = Some b \<Longrightarrow> b \<in> set (bookings w) \<and> b_id b = x \<and> p (b_status b)"
  unfolding findOwnBooking_def by (drule find_Some_mem) simp

lemma seat_inv_find:
  assumes "seat_inv P w"
  shows "b \<in> set (bookings w) \<Longrightarrow> findBooking (b_id b) w = Some b"
    "r \<in> set (rides w) \<Longrightarrow> findRide (r_id r) w = Some r"
  unfolding findBooking_def findRide_def using assms by (simp_all add: seat_inv_def find_key_unique)

lemma core_find_booking: "core w \<Longrightarrow> b \<in> set (bookings w) \<Longrightarrow> findBooking (b_id b) w = Some b"
  and core_find_ride: "core w \<Longrightarrow> r \<in> set (rides w) \<Longrightarrow> findRide (r_id r) w = Some r"
  unfolding core_def by (simp_all add: seat_inv_find[where P = bookable])

text \<open>The current rows behind them, for the seats indistinguishable from the ones read.\<close>

lemma known_current:
  assumes "known u (b0, r0)" "grows u w" "seat_inv P w"
  obtains b r where "findBooking (b_id b0) w = Some b" "findRide (b_rideId b) w = Some r"
    "booking_key b = booking_key b0" "seats_of b0 r0 y = seats_of b r y"
proof -
  have "booking_key b0 \<in> booking_key ` set (bookings w)" "ride_key r0 \<in> ride_key ` set (rides w)"
    using known_grows[OF assms(1,2)] by (simp_all add: known_def)
  then obtain b r where br: "b \<in> set (bookings w)" "booking_key b = booking_key b0"
    "r \<in> set (rides w)" "ride_key r = ride_key r0" by auto
  have "findBooking (b_id b0) w = Some b"
    using seat_inv_find(1)[OF assms(3) br(1)] br(2) by (simp add: booking_key_def)
  moreover have "r_id r = b_rideId b"
    using br assms(1) by (simp add: booking_key_def ride_key_def known_def)
  then have "findRide (b_rideId b) w = Some r" using seat_inv_find(2)[OF assms(3) br(3)] by simp
  moreover have "seats_of b0 r0 y = seats_of b r y"
    using br by (simp add: seats_of_def booking_key_def ride_key_def)
  ultimately show ?thesis using that br(2) by blast
qed

subsection \<open>Closing a booking\<close>

definition ride_fixed :: "ride_row \<Rightarrow> ident \<times> int \<times> ride_status" where
  "ride_fixed r = (r_id r, r_totalSeats r, r_status r)"

lemma release_tables:
  fixes y :: "ident option"
  assumes "findBooking x w = Some b" "findRide (b_rideId b) w = Some r" "distinct (map b_id (bookings w))"
  defines "w' \<equiv> snd (releaseBookingSeats x (seats_of b r y) w)"
  shows "bookings w' = update_where (\<lambda>z. b_id z = x) (\<lambda>z. z\<lparr>b_seatsReservedAt := None\<rparr>) (bookings w)"
    "offers w' = offers w" "map ride_fixed (rides w') = map ride_fixed (rides w)"
proof -
  note run = run_releaseBookingSeats[OF assms(1-3), of y]
  show "bookings w' = update_where (\<lambda>z. b_id z = x) (\<lambda>z. z\<lparr>b_seatsReservedAt := None\<rparr>) (bookings w)"
  proof (cases "b_seatsReservedAt b")
    case None
    then have "update_where (\<lambda>z. b_id z = b_id b) (\<lambda>z. z\<lparr>b_seatsReservedAt := None\<rparr>) (bookings w) = bookings w"
      using findBooking_mem[OF assms(1)] by (intro update_where_keep[OF assms(3)]) auto
    then show ?thesis using None run findBooking_mem[OF assms(1)] by (simp add: w'_def)
  qed (simp add: w'_def run Let_def)
  show "offers w' = offers w" by (simp add: w'_def run Let_def)
  have "map ride_fixed (update_where q (\<lambda>z. z\<lparr>r_availableSeats := a\<rparr>) rs) = map ride_fixed rs" for q a rs
    by (rule map_update_where) (simp add: ride_fixed_def)
  then show "map ride_fixed (rides w') = map ride_fixed (rides w)" by (simp add: w'_def run Let_def)
qed

lemma ride_fixed_sets:
  assumes "map ride_fixed rs' = map ride_fixed rs"
  shows "ride_key ` set rs' = ride_key ` set rs"
    "r_id ` {r \<in> set rs'. r_status r \<noteq> RIDE_DRAFT} = r_id ` {r \<in> set rs. r_status r \<noteq> RIDE_DRAFT}"
    "(\<exists>r \<in> set rs'. r_id r = x \<and> r_status r = RIDE_DRAFT) \<longleftrightarrow> (\<exists>r \<in> set rs. r_id r = x \<and> r_status r = RIDE_DRAFT)"
proof -
  have s: "ride_fixed ` set rs' = ride_fixed ` set rs" using assms by (metis set_map)
  have "ride_key ` X = (\<lambda>(a, b, c). (a, b)) ` ride_fixed ` X" for X
    by (auto simp: ride_key_def ride_fixed_def image_image)
  then show "ride_key ` set rs' = ride_key ` set rs" using s by simp
  have "r_id ` {r \<in> X. r_status r \<noteq> RIDE_DRAFT} = fst ` {t \<in> ride_fixed ` X. snd (snd t) \<noteq> RIDE_DRAFT}" for X
    by (force simp: ride_fixed_def)
  then show "r_id ` {r \<in> set rs'. r_status r \<noteq> RIDE_DRAFT} = r_id ` {r \<in> set rs. r_status r \<noteq> RIDE_DRAFT}" using s by simp
  have e: "(\<exists>r \<in> X. r_id r = x \<and> r_status r = RIDE_DRAFT) \<longleftrightarrow> (\<exists>t \<in> ride_fixed ` X. fst t = x \<and> snd (snd t) = RIDE_DRAFT)" for X
    by (auto simp: ride_fixed_def)
  then show "(\<exists>r \<in> set rs'. r_id r = x \<and> r_status r = RIDE_DRAFT) \<longleftrightarrow> (\<exists>r \<in> set rs. r_id r = x \<and> r_status r = RIDE_DRAFT)"
    unfolding e s ..
qed

lemma grows_fixed:
  assumes "booking_key ` set (bookings w) \<subseteq> booking_key ` set (bookings w')" "map ride_fixed (rides w') = map ride_fixed (rides w)"
    and "offer_key ` set (offers w) \<subseteq> offer_key ` set (offers w')"
  shows "grows w w'"
  using assms(1,3) ride_fixed_sets(1,2)[OF assms(2)] by (simp add: grows_def)

lemma offer_inv_fixed:
  assumes "offers w' = offers w" "map ride_fixed (rides w') = map ride_fixed (rides w)"
  shows "offer_inv w' = offer_inv w"
  using ride_fixed_sets(3)[OF assms(2)] by (simp add: offer_inv_def assms(1))

definition closes :: "(booking_row \<Rightarrow> booking_row) \<Rightarrow> bool" where
  "closes f \<longleftrightarrow> (\<forall>b. booking_view (f b) = booking_view b \<and> holds_none (b_status (f b)))"

lemma close_core:
  fixes y :: "ident option"
  assumes f: "closes f" and core: "core w" and b: "findBooking x w = Some b" and r: "findRide (b_rideId b) w = Some r"
    and w1: "booking_tables w1 = (update_where (\<lambda>z. b_id z = x \<and> p z) f (bookings w), rides w, segments w, offers w)"
    and p: "p b"
  defines "w2 \<equiv> snd (releaseBookingSeats x (seats_of b r y) w1)"
  shows "core w2 \<and> grows w w2"
proof -
  have cap: "capacity_for bookable w" and db: "distinct (map b_id (bookings w))" using core by (simp_all add: core_def seat_inv_def)
  have bm: "b \<in> set (bookings w)" "b_id b = x" using findBooking_mem[OF b] by simp_all
  have fv: "booking_view (f z) = booking_view z" "holds_none (b_status (f z))" for z using f by (simp_all add: closes_def)
  have fk: "b_id (f z) = b_id z" "b_rideId (f z) = b_rideId z" "booking_key (f z) = booking_key z" for z
    using fv(1)[of z] by (simp_all add: booking_view_def booking_key_def)
  have "update_where (\<lambda>z. b_id z = x \<and> p z) f (bookings w) = update_where (\<lambda>z. b_id z = x) f (bookings w)"
    unfolding update_where_def using db bm p by (intro map_cong) (auto dest: inj_onD simp: distinct_map)
  then have t: "bookings w1 = update_where (\<lambda>z. b_id z = x) f (bookings w)" "rides w1 = rides w"
      "segments w1 = segments w" "offers w1 = offers w"
    using w1 by (simp_all add: booking_tables_def)
  have v: "map booking_view (bookings w1) = map booking_view (bookings w)"
    unfolding t by (rule map_update_where) (rule fv(1))
  then have ids: "map b_id (bookings w1) = map b_id (bookings w)" by (rule map_view_booking_id)
  have "seat_view bookable w1 = seat_view bookable w" using v t by (simp add: seat_view_def)
  then have cap1: "capacity_for bookable w1" using cap capacity_inv_view by blast
  have b1: "findBooking x w1 = Some (f b)"
    using b bm unfolding findBooking_def t by (simp add: find_update_where fk)
  have r1: "findRide (b_rideId (f b)) w1 = Some r" using r by (simp add: findRide_def t fk)
  have so: "seats_of b r y = seats_of (f b) r y"
    using fv(1)[of b] by (simp add: seats_of_def booking_view_def)
  have cap2: "capacity_for bookable w2" unfolding w2_def so by (rule capacity_inv_release[OF cap1 b1 r1])
  note rt = release_tables[OF b1 r1 _, where y = y, folded so, folded w2_def]
  have d1: "distinct (map b_id (bookings w1))" using db ids by simp
  have bs: "bookings w2 = update_where (\<lambda>z. b_id z = x) (\<lambda>z. (f z)\<lparr>b_seatsReservedAt := None\<rparr>) (bookings w)"
    unfolding rt(1)[OF d1] t update_where_def by (simp add: fk)
  have hold: "hold_inv w2"
    unfolding hold_inv_def
  proof
    fix z' assume "z' \<in> set (bookings w2)"
    then obtain z where z: "z \<in> set (bookings w)" "z' = (if b_id z = x then (f z)\<lparr>b_seatsReservedAt := None\<rparr> else z)"
      unfolding bs set_update_where by auto
    show "hold_ok z'"
    proof (cases "b_id z = x")
      case True
      then show ?thesis using z fv(2)[of z] by (cases "b_status (f z)") (simp_all add: hold_ok_def)
    next
      case False
      then show ?thesis using z core by (simp add: core_def hold_inv_def)
    qed
  qed
  have off: "offer_inv w2"
    using core offer_inv_fixed[of w2 w] rt(2,3)[OF d1] t by (simp add: core_def)
  have "map booking_key (bookings w2) = map booking_key (bookings w)"
    unfolding bs by (rule map_update_where) (use fk(3) in \<open>simp add: booking_key_def\<close>)
  then have "booking_key ` set (bookings w) = booking_key ` set (bookings w2)" by (metis set_map)
  then have "grows w w2" using rt(2,3)[OF d1] t by (intro grows_fixed) simp_all
  then show ?thesis using cap2 hold off by (simp add: core_def)
qed

subsection \<open>Composing\<close>

lemma live_gets:
  assumes "\<And>w. live u w \<Longrightarrow> preserves (live w) (k (f w))"
  shows "preserves (live u) (andThen (gets f) k)"
proof (rule preservesI)
  fix w assume w: "live u w"
  then have "live w w" by (simp add: live_def)
  with assms[OF w] have "live w (snd (k (f w) w))" by (rule preservesD)
  with w show "live u (snd (andThen (gets f) k w))"
    using grows_trans[of u w] by (simp add: run_andThen live_def)
qed

lemma live_transaction: "preserves (live u) m \<Longrightarrow> preserves (live u) (transaction m)"
  by (rule preserves_world_transaction[OF tables_only_live]) (metis preservesD snd_conv)

lemma release_succeeds:
  assumes "findBooking x w = Some b" "findRide (b_rideId b) w = Some r" "distinct (map b_id (bookings w))"
  shows "\<exists>a. fst (releaseBookingSeats x (seats_of b r y) w) = Inr a"
  using run_releaseBookingSeats[OF assms, of y] by (auto simp: Let_def)

text \<open>Closing a booking read earlier, guarded by a condition on the current row or by nothing.\<close>

lemma live_close:
  assumes k0: "known u (b0, r0)" and x: "x = b_id b0" and f: "closes f"
    and m: "preserves (live u) m" and k: "\<And>a. preserves (live u) (k a)"
  shows "preserves (live u) (andThen (updateBookings (\<lambda>b. b_id b = x \<and> p b) f) (\<lambda>n.
    if n = 0 then m else andThen (releaseBookingSeats x (seats_of b0 r0 y)) k))"
proof (rule preservesI)
  fix w assume w: "live u w"
  then have core: "core w" and gr: "grows u w" by (simp_all add: live_def)
  obtain b r where br: "findBooking x w = Some b" "findRide (b_rideId b) w = Some r" "seats_of b0 r0 y = seats_of b r y"
    using known_current[OF k0 gr, of bookable] core x by (metis core_def)
  have db: "distinct (map b_id (bookings w))" using core by (simp add: core_def seat_inv_def)
  let ?q = "\<lambda>b. b_id b = x \<and> p b"
  let ?w1 = "w\<lparr>bookings := update_where ?q f (bookings w)\<rparr>"
  show "live u (snd (andThen (updateBookings ?q f) (\<lambda>n. if n = 0 then m else andThen (releaseBookingSeats x (seats_of b0 r0 y)) k) w))"
  proof (cases "count_where ?q (bookings w) = 0")
    case True
    then have "?w1 = w" using update_where_none[of ?q "bookings w" f] by simp
    then show ?thesis using preservesD[OF m w] True by (simp add: run_andThen updateBookings_def)
  next
    case False
    then obtain z where z: "z \<in> set (bookings w)" "b_id z = x" "p z" by (auto simp: count_where_0_iff)
    then have "z = b" using db findBooking_mem[OF br(1)] by (auto dest: inj_onD simp: distinct_map)
    with z have pb: "p b" by simp
    have "core (snd (releaseBookingSeats x (seats_of b r y) ?w1)) \<and> grows w (snd (releaseBookingSeats x (seats_of b r y) ?w1))"
      by (rule close_core[where p = p and f = f, OF f core br(1,2) _ pb]) (simp add: booking_tables_def)
    then have l: "live u (snd (releaseBookingSeats x (seats_of b r y) ?w1))" using w live_step by blast
    have "\<exists>a. fst (releaseBookingSeats x (seats_of b r y) ?w1) = Inr a"
    proof -
      have fb: "b_id (f z) = b_id z" "booking_view (f z) = booking_view z" for z
        using f by (simp_all add: closes_def booking_view_def)
      have "findBooking x ?w1 = Some (f b)"
        using br(1) pb findBooking_mem[OF br(1)] unfolding findBooking_def by (simp add: find_update_where fb(1))
      moreover have "findRide (b_rideId (f b)) ?w1 = Some r" "seats_of b r y = seats_of (f b) r y"
        using br(2) fb(2)[of b] by (simp_all add: findRide_def seats_of_def booking_view_def)
      moreover have "map b_id (update_where ?q f (bookings w)) = map b_id (bookings w)"
        by (rule map_update_where) (simp add: fb(1))
      then have "distinct (map b_id (bookings ?w1))" using db by simp
      ultimately show ?thesis using release_succeeds by metis
    qed
    then obtain a w2 where rel: "releaseBookingSeats x (seats_of b r y) ?w1 = (Inr a, w2)" by (metis prod.collapse)
    with l have "live u w2" by simp
    then show ?thesis using False br(3) rel preservesD[OF k] by (simp add: run_andThen updateBookings_def)
  qed
qed

lemma live_close_now:
  assumes k0: "known u (b0, r0)" and x: "x = b_id b0" and f: "closes f" and k: "\<And>a. preserves (live u) (k a)"
  shows "preserves (live u) (andDo (updateBooking x f) (andThen (releaseBookingSeats x (seats_of b0 r0 y)) k))"
proof (rule preservesI)
  let ?K = "andThen (releaseBookingSeats x (seats_of b0 r0 y)) k"
  fix w assume w: "live u w"
  show "live u (snd (andDo (updateBooking x f) ?K w))"
  proof (cases "findBooking x w")
    case None
    then show ?thesis using w by (simp add: run_andDo updateBooking_def)
  next
    case (Some b)
    have "count_where (\<lambda>b. b_id b = x \<and> True) (bookings w) \<noteq> 0"
      using findBooking_mem[OF Some] by (auto simp: count_where_0_iff)
    then have "andDo (updateBooking x f) ?K w =
        andThen (updateBookings (\<lambda>b. b_id b = x \<and> True) f) (\<lambda>n. if n = 0 then ret undefined else ?K) w"
      using Some by (simp add: run_andDo run_andThen updateBooking_def updateBookings_def)
    then show ?thesis
      using preservesD[OF live_close[where p = "\<lambda>_. True", OF k0 x f preserves_ret k] w] by simp
  qed
qed

lemmas live_close_do = live_close[where k = "\<lambda>_. n" for n, folded andDo_def]
  live_close_now[where k = "\<lambda>_. n" for n, folded andDo_def]

named_theorems live_intros \<open>operations that keep the invariant from any known state\<close>

lemmas [live_intros] = preserves_ret preserves_throw preserves_ensure preserves_ofOption preserves_ofSum
  preserves_andThen preserves_andDo preserves_tryCatch preserves_bestEffort preserves_whenM preserves_if
  preserves_case_option preserves_forEach preserves_awaitAll live_transaction

lemma live_framed [live_intros]: "framed m \<Longrightarrow> preserves (live u) m"
  by (rule framed_live)

lemma closes_rows:
  "closes (\<lambda>b. b\<lparr>b_status := PAYMENT_FAILED\<rparr>)" "closes (cancelled_row env plan)" "closes (withdrawn_row env reason a)"
  "closes (\<lambda>b. b\<lparr>b_status := PAYMENT_FAILED, b_cancellationReason := cr\<rparr>)"
  "closes (rejected_row env rs a rf)" "closes (driver_cancelled_row env rs a rf)" "closes (auto_cancelled_row env a)"
  "closes (\<lambda>b. (auto_cancelled_row env a b)\<lparr>b_refundId := ri, b_refundedAt := g b\<rparr>)"
  "closes (\<lambda>b. b\<lparr>b_status := CANCELLED, b_cancelledAt := ca, b_cancellationReason := cr\<rparr>)"
  by (simp_all add: closes_def booking_view_def cancelled_row_def withdrawn_row_def rejected_row_def
      driver_cancelled_row_def refunded_columns_def auto_cancelled_row_def Let_def)

lemma row_ok_marks:
  "row_ok p (\<lambda>b. b\<lparr>b_refundedAt := c1\<rparr>)" "row_ok p (\<lambda>b. b\<lparr>b_updatedAt := c2\<rparr>)"
  "row_ok p (\<lambda>b. b\<lparr>b_driverDecisionDeadlineAt := c3, b_deadlineExtendedAt := c4\<rparr>)"
  "row_ok p (\<lambda>b. b\<lparr>b_driverDecisionDeadlineAt := c3, b_responseExpiryHours := c5\<rparr>)"
  "row_ok p (\<lambda>b. b\<lparr>b_refundedAt := c1, b_refundAmount := c6\<rparr>)"
  "row_ok p (\<lambda>b. b\<lparr>b_refundId := c7, b_refundedAt := c1\<rparr>)"
  "row_ok p (\<lambda>b. b\<lparr>b_reminderSentAt := c8\<rparr>)" "row_ok p (\<lambda>b. b\<lparr>b_deadlineExpiredNotifiedAt := c9\<rparr>)"
  "row_ok p (\<lambda>b. b\<lparr>b_refundAmount := c6\<rparr>)"
  "row_ok p (\<lambda>b. b\<lparr>b_otpAttemptCount := g b\<rparr>)"
  "row_ok p (\<lambda>b. b\<lparr>b_refundId := g1 b, b_refundAmount := c6, b_refundedAt := g2 b\<rparr>)"
  by (rule row_okI; simp add: booking_view_def)+

lemmas live_marks [live_intros] = row_ok_marks[THEN live_updateBooking] row_ok_marks[THEN live_updateBookings]

lemma live_reschedule [live_intros]: "preserves (live u) (reschedulePaymentExpiryCheck env x d)"
  unfolding reschedulePaymentExpiryCheck_def by (intro live_intros framed_intros)

text \<open>Reading a booking with its ride inside a handler.\<close>

lemma live_gets_booking:
  assumes "\<And>w. preserves (live w) (k None)"
    and "\<And>w b r. known w (b, r) \<Longrightarrow> x = b_id b \<Longrightarrow> preserves (live w) (k (Some (b, r)))"
  shows "preserves (live u) (andThen (gets (\<lambda>w. with_ride w (findBooking x w))) k)"
proof (rule live_gets)
  fix w assume "live u w"
  show "preserves (live w) (k (with_ride w (findBooking x w)))"
  proof (cases "findBooking x w")
    case (Some b)
    show ?thesis
    proof (cases "with_ride w (Some b)")
      case (Some row)
      obtain r where row: "row = (b, r)" using Some by (auto simp: with_ride_def)
      have b: "b \<in> set (bookings w)" "x = b_id b" using findBooking_mem[OF \<open>findBooking x w = Some b\<close>] by simp_all
      have "known w (b, r)" using with_ride_known(1)[OF Some b(1)] row by simp
      from assms(2)[OF this b(2)] show ?thesis using \<open>findBooking x w = Some b\<close> Some row by simp
    qed (use assms(1) \<open>findBooking x w = Some b\<close> in simp)
  qed (use assms(1) in \<open>simp add: with_ride_def\<close>)
qed

lemma live_gets_own:
  assumes "\<And>w. preserves (live w) (k None)"
    and "\<And>w b r. known w (b, r) \<Longrightarrow> x = b_id b \<Longrightarrow> preserves (live w) (k (Some (b, r)))"
  shows "preserves (live u) (andThen (gets (\<lambda>w. with_ride w (findOwnBooking pid x p w))) k)"
proof (rule live_gets)
  fix w assume "live u w"
  show "preserves (live w) (k (with_ride w (findOwnBooking pid x p w)))"
  proof (cases "findOwnBooking pid x p w")
    case (Some b)
    show ?thesis
    proof (cases "with_ride w (Some b)")
      case (Some row)
      obtain r where row: "row = (b, r)" using Some by (auto simp: with_ride_def)
      have b: "b \<in> set (bookings w)" "x = b_id b" using findOwnBooking_mem[OF \<open>findOwnBooking pid x p w = Some b\<close>] by simp_all
      have "known w (b, r)" using with_ride_known(1)[OF Some b(1)] row by simp
      from assms(2)[OF this b(2)] show ?thesis using \<open>findOwnBooking pid x p w = Some b\<close> Some row by simp
    qed (use assms(1) \<open>findOwnBooking pid x p w = Some b\<close> in simp)
  qed (use assms(1) in \<open>simp add: with_ride_def\<close>)
qed

lemma andThen_ofOption:
  "andThen (ofOption e (Some a)) k = k a" "andThen (ofOption e None) k = throw e"
  by (simp_all add: ofOption_def)

lemmas row_cases = option.case prod.case andThen_ofOption fst_conv snd_conv

lemma live_ofOption: "(\<And>a. v = Some a \<Longrightarrow> preserves I (k a)) \<Longrightarrow> preserves I (andThen (ofOption e v) k)"
  by (cases v) (simp_all add: ofOption_def preserves_throw)

lemma live_fail [live_intros]: "preserves (live u) (failBookingAndReleaseSeats x)"
  unfolding failBookingAndReleaseSeats_def
  apply (intro live_transaction live_gets_booking; simp only: row_cases)
   apply (rule preserves_ret)
  apply (erule live_close_do(1), rule refl, (intro closes_rows live_intros)+)
  done

lemma live_payment_failed [live_intros]: "preserves (live u) (payment_failed_tx x)"
  unfolding payment_failed_tx_def
  apply (intro live_transaction live_gets_booking; simp only: row_cases)
   apply (rule preserves_ret)
  apply (intro preserves_if preserves_ret)
  apply (erule live_close_do(2), rule refl, (intro closes_rows live_intros)+)
  done

lemma live_cancel_tx [live_intros]: "preserves (live u) (cancel_tx env pid x plan)"
  unfolding cancel_tx_def
  apply (intro live_transaction live_gets_own; simp only: row_cases)
   apply (rule preserves_throw)
  apply (erule live_close_do(2), rule refl, (intro closes_rows live_intros)+)
  done

lemma live_withdraw_tx: "known u (b, r) \<Longrightarrow> x = b_id b \<Longrightarrow> preserves (live u) (withdraw_tx env x reason b r)"
  unfolding withdraw_tx_def
  by (intro live_transaction) (erule live_close_do(1), assumption, (intro closes_rows live_intros)+)

lemma live_expire_tx: "known u (b, r) \<Longrightarrow> x = b_id b \<Longrightarrow> preserves (live u) (expire_tx x b r)"
  unfolding expire_tx_def
  by (intro live_transaction) (erule live_close_do(1), assumption, (intro closes_rows live_intros)+)

lemma live_driver_close_tx:
  "closes f \<Longrightarrow> framed after \<Longrightarrow> preserves (live u) (driver_close_tx x expected e f after)"
  unfolding driver_close_tx_def fetchDriverBooking_def
  apply (intro live_transaction live_gets_booking; simp only: row_cases)
   apply (rule preserves_throw)
  apply (rule preserves_andDo, rule preserves_ensure)
  apply (erule live_close_do(2), rule refl, assumption, erule live_framed)
  done

end
