(* ===== verification/Booking_Claim.thy ===== *)
theory Booking_Claim
  imports Booking_Rules
begin

text \<open>
  The two transactions that take seats, and the invariant: the claim of a successful payment
  (\<open>claim_payment\<close>) and the creation of a booking (\<open>create_bypass_tx\<close>, \<open>create_stripe_tx\<close>), with the
  request offer they may go through.
\<close>

subsection \<open>Successful runs\<close>

lemma andThen_ok: "andThen m k w = (Inr a, w') \<longleftrightarrow> (\<exists>b w1. m w = (Inr b, w1) \<and> k b w1 = (Inr a, w'))"
  by (simp add: run_andThen split: prod.split sum.split)

lemma andDo_ok: "andDo m n w = (Inr a, w') \<longleftrightarrow> (\<exists>b w1. m w = (Inr b, w1) \<and> n w1 = (Inr a, w'))"
  by (simp add: run_andDo split: prod.split sum.split)

lemma if_ok: "(if c then m else n) w = (if c then m w else n w)"
  by simp

lemma ensure_ok: "ensure b e w = (Inr u, w') \<longleftrightarrow> b \<and> w' = w"
  by auto

lemma ofOption_ok: "ofOption e x w = (Inr a, w') \<longleftrightarrow> x = Some a \<and> w' = w"
  by (auto split: option.splits)

lemma ofSum_ok: "ofSum y w = (Inr a, w') \<longleftrightarrow> y = Inr a \<and> w' = w"
  by auto

lemma gets_ok: "gets f w = (Inr a, w') \<longleftrightarrow> a = f w \<and> w' = w"
  by auto

lemma ret_ok: "ret x w = (Inr a, w') \<longleftrightarrow> a = x \<and> w' = w"
  by auto

lemma throw_ok: "throw e w = (Inr a, w') \<longleftrightarrow> False"
  by auto

lemma updateBooking_ok: "updateBooking x f w = (Inr u, w') \<longleftrightarrow> findBooking x w \<noteq> None \<and>
    w' = w\<lparr>bookings := update_where (\<lambda>b. b_id b = x) f (bookings w)\<rparr>"
  by (auto simp: updateBooking_def)

lemma updateRide_ok: "updateRide x f w = (Inr u, w') \<longleftrightarrow> findRide x w \<noteq> None \<and>
    w' = w\<lparr>rides := update_where (\<lambda>r. r_id r = x) f (rides w)\<rparr>"
  by (auto simp: updateRide_def)

lemma updateOffers_ok: "updateOffers p f w = (Inr n, w') \<longleftrightarrow>
    n = count_where p (offers w) \<and> w' = w\<lparr>offers := update_where p f (offers w)\<rparr>"
  by (auto simp: updateOffers_def)

lemma updateRequests_ok: "updateRequests p f w = (Inr n, w') \<longleftrightarrow>
    n = count_where p (requests w) \<and> w' = w\<lparr>requests := update_where p f (requests w)\<rparr>"
  by (auto simp: updateRequests_def)

lemma updateBookings_ok: "updateBookings p f w = (Inr n, w') \<longleftrightarrow>
    n = count_where p (bookings w) \<and> w' = w\<lparr>bookings := update_where p f (bookings w)\<rparr>"
  by (auto simp: updateBookings_def)

lemma transaction_ok: "transaction m w = (Inr a, w') \<longleftrightarrow> m w = (Inr a, w')"
  by (simp add: run_transaction_eq split: prod.split sum.split)

lemmas ok_simps = andThen_ok andDo_ok ensure_ok ofOption_ok ofSum_ok gets_ok ret_ok throw_ok
  updateBooking_ok updateRide_ok updateOffers_ok updateRequests_ok updateBookings_ok

lemma framed_ok: "framed m \<Longrightarrow> m w = (Inr a, w') \<Longrightarrow> booking_tables w' = booking_tables w"
  unfolding framed_def using preservesD[of "\<lambda>v. booking_tables v = booking_tables w" m w] by fastforce

lemma framed_snd: "framed m \<Longrightarrow> booking_tables (snd (m w)) = booking_tables w"
  unfolding framed_def using preservesD[of "\<lambda>v. booking_tables v = booking_tables w" m w] by blast

lemma framed_booking: "framed m \<Longrightarrow> m w = (Inr a, w') \<Longrightarrow> bookings w' = bookings w"
  using framed_ok[of m w a w'] by (simp add: booking_tables_def)

lemma assert_ok: "assertOrForce fo v e w = (Inr u, w') \<longleftrightarrow> (\<not> v \<or> fc_forced fo) \<and> w' = w"
  "assertForceAllowedOnRide fo st w = (Inr u, w') \<longleftrightarrow> \<not> (fc_forced fo \<and> st \<noteq> RIDE_IN_PROGRESS) \<and> w' = w"
  by (auto simp: assertOrForce_def assertForceAllowedOnRide_def ensure_ok)

lemma requireDriver_ok: "requireDriverBooking d v w = (Inr row, w') \<longleftrightarrow> v = Some row \<and> r_driverId (snd row) = d \<and> w' = w"
  by (cases row; cases v) (auto simp: requireDriverBooking_def run_andThen run_andDo split: if_splits)

lemma andDo_okE:
  fixes m :: "(world, unit) op"
  shows "andDo m n w = (Inr a, w') \<Longrightarrow> (\<And>w1. m w = (Inr (), w1) \<Longrightarrow> n w1 = (Inr a, w') \<Longrightarrow> thesis) \<Longrightarrow> thesis"
  unfolding andDo_ok by auto

lemma guards_ok:
  "andDo (ensure c e) m w = (Inr a, w') \<longleftrightarrow> c \<and> m w = (Inr a, w')"
  "andDo (assertOrForce fo v e) m w = (Inr a, w') \<longleftrightarrow> (v \<longrightarrow> fc_forced fo) \<and> m w = (Inr a, w')"
  "andDo (assertForceAllowedOnRide fo st) m w = (Inr a, w') \<longleftrightarrow> (fc_forced fo \<longrightarrow> st = RIDE_IN_PROGRESS) \<and> m w = (Inr a, w')"
  "andThen (ofOption e x) k w = (Inr a, w') \<longleftrightarrow> (\<exists>y. x = Some y \<and> k y w = (Inr a, w'))"
  "andThen (gets f) k w = (Inr a, w') \<longleftrightarrow> k (f w) w = (Inr a, w')"
  by (auto simp: run_andThen run_andDo assertOrForce_def assertForceAllowedOnRide_def split: option.splits)

lemma booking_tables_iff: "booking_tables w' = booking_tables w \<longleftrightarrow>
    bookings w' = bookings w \<and> rides w' = rides w \<and> segments w' = segments w \<and> offers w' = offers w"
  by (simp add: booking_tables_def)

subsection \<open>Confirming the booking of a request\<close>

definition accept_offer :: "offer_row \<Rightarrow> offer_row list \<Rightarrow> offer_row list" where
  "accept_offer f os = update_where (\<lambda>y. of_requestId y = of_requestId f \<and> of_status y = OFFER_OPEN) (\<lambda>y. y\<lparr>of_status := OFFER_CLOSED\<rparr>)
     (update_where (\<lambda>y. of_id y = of_id f) (\<lambda>y. y\<lparr>of_status := OFFER_ACCEPTED\<rparr>) os)"

abbreviation publish_ride :: "ident \<Rightarrow> ride_row list \<Rightarrow> ride_row list" where
  "publish_ride x rs \<equiv> update_where (\<lambda>y. r_id y = x) (\<lambda>y. y\<lparr>r_status := RIDE_PUBLISHED\<rparr>) rs"

lemma confirm_tables:
  assumes "confirmRequestBooking env x w = (Inr res, w')"
  shows "w' = w \<or> (\<exists>f exps. f \<in> set (offers w) \<and> of_status f = OFFER_SELECTED \<and>
     bookings w' = update_where (\<lambda>b. b_id b = x) (confirmed_row env exps) (bookings w) \<and>
     rides w' = publish_ride (of_rideId f) (rides w) \<and> offers w' = accept_offer f (offers w) \<and> segments w' = segments w)"
proof (cases "findOfferByBooking x w")
  case None
  then show ?thesis using assms by (simp add: confirmRequestBooking_def ok_simps)
next
  case (Some f)
  have f: "f \<in> set (offers w)" using Some unfolding findOfferByBooking_def by (drule_tac find_Some_mem) simp
  obtain b exps u w1 where st: "of_status f = OFFER_SELECTED"
    and pay: "(if b_stripePaymentIntentId b \<noteq> None then andDo (ensureRequestPayment env b) (ret ()) else ret ()) w = (Inr u, w1)"
    and w': "bookings w' = update_where (\<lambda>b. b_id b = x) (confirmed_row env exps) (bookings w1)"
      "rides w' = publish_ride (of_rideId f) (rides w1)" "offers w' = accept_offer f (offers w1)" "segments w' = segments w1"
    using assms unfolding confirmRequestBooking_def andThen_ok gets_ok Some
    apply (simp only: option.case prod.case ok_simps)
    apply (elim exE conjE)
    apply (simp only: option.case prod.case ok_simps)
    apply (elim exE conjE)
    apply hypsubst
    apply (rule that)
         prefer 2 apply assumption
        apply (simp_all add: accept_offer_def)
    done
  have "framed (if b_stripePaymentIntentId b \<noteq> None then andDo (ensureRequestPayment env b) (ret ()) else ret ())"
    by (intro framed_intros)
  from framed_ok[OF this pay] w' have t: "bookings w' = update_where (\<lambda>b. b_id b = x) (confirmed_row env exps) (bookings w)"
     "rides w' = publish_ride (of_rideId f) (rides w)" "offers w' = accept_offer f (offers w)" "segments w' = segments w"
    by (simp_all add: booking_tables_iff)
  show ?thesis
    by (rule disjI2, rule exI[of _ f], rule exI[of _ exps]) (use f st t in simp)
qed

lemma accept_offer_keys: "map of_id (accept_offer f os) = map of_id os" "map of_rideId (accept_offer f os) = map of_rideId os"
  unfolding accept_offer_def by (subst map_update_where, simp, rule map_update_where, simp)+

lemma offer_keys_set:
  assumes "map of_id os' = map of_id os" "map of_rideId os' = map of_rideId os"
  shows "offer_key ` set os' = offer_key ` set os"
proof -
  have k: "map offer_key xs = zip (map of_id xs) (map of_rideId xs)" for xs
    by (simp add: zip_map_map zip_same_conv_map offer_key_def)
  then have "map offer_key os' = map offer_key os" using assms by simp
  then show ?thesis by (metis set_map)
qed

lemma accept_offer_selected:
  assumes "g' \<in> set (accept_offer f os)" "of_status g' = OFFER_SELECTED"
  shows "g' \<in> set os \<and> of_id g' \<noteq> of_id f"
  using assms unfolding accept_offer_def set_update_where by (auto split: if_splits)

lemma distinct_key_eq: "distinct (map k xs) \<Longrightarrow> a \<in> set xs \<Longrightarrow> b \<in> set xs \<Longrightarrow> k a = k b \<Longrightarrow> a = b"
  by (auto dest: inj_onD simp: distinct_map)

text \<open>A selected offer is accepted and its ride published.\<close>

lemma accept_offer_inv:
  assumes inv: "offer_inv w" and f: "f \<in> set (offers w)" and o: "offers w' = accept_offer f (offers w)"
    and r: "map ride_fixed (rides w') = map ride_fixed (publish_ride (of_rideId f) (rides w))"
  shows "offer_inv w'"
  unfolding offer_inv_def o accept_offer_keys
proof (intro conjI ballI impI)
  show d: "distinct (map of_id (offers w))" and d': "distinct (map of_rideId (offers w))"
    using inv by (simp_all add: offer_inv_def)
  fix g assume g: "g \<in> set (accept_offer f (offers w))" "of_status g = OFFER_SELECTED"
  from accept_offer_selected[OF g] have g1: "g \<in> set (offers w)" "of_id g \<noteq> of_id f" by simp_all
  then have ne: "of_rideId g \<noteq> of_rideId f" using distinct_key_eq[OF d' g1(1) f] by auto
  obtain s where s: "s \<in> set (rides w)" "r_id s = of_rideId g" "r_status s = RIDE_DRAFT"
    using inv g1 g(2) by (auto simp: offer_inv_def)
  then have "s \<in> set (publish_ride (of_rideId f) (rides w))" using ne by (force simp: set_update_where)
  with s have "\<exists>s \<in> set (publish_ride (of_rideId f) (rides w)). r_id s = of_rideId g \<and> r_status s = RIDE_DRAFT" by blast
  then show "\<exists>s \<in> set (rides w'). r_id s = of_rideId g \<and> r_status s = RIDE_DRAFT"
    using ride_fixed_sets(3)[OF r] by simp
qed

subsection \<open>Taking the seats of a booking\<close>

lemma reserve_frame:
  assumes "reserveRideSeats i w = (Inr u, w')"
  shows "bookings w' = bookings w \<and> offers w' = offers w \<and> map ride_fixed (rides w') = map ride_fixed (rides w)"
proof -
  have "map ride_fixed (update_where q (\<lambda>z. z\<lparr>r_availableSeats := a\<rparr>) rs) = map ride_fixed rs" for q a rs
    by (rule map_update_where) (simp add: ride_fixed_def)
  then show ?thesis using assms by (auto simp: run_reserveRideSeats updateRide_def split: if_splits)
qed

text \<open>
  The state \<open>w\<close> before the booking was marked; \<open>w2\<close> is it with the row marked and perhaps a draft
  ride published, and the seats are taken in \<open>w2\<close>.
\<close>

lemma taken_core:
  assumes cap: "capacity_for bookable w" and hold: "hold_inv w"
    and b: "findBooking x w = Some b" "b_seatsReservedAt b = None"
    and f: "same_seats b (f b)" "b_seatsReservedAt (f b) \<noteq> None" "hold_ok (f b)"
    and w2: "bookings w2 = update_where (\<lambda>y. b_id y = x) f (bookings w)" "segments w2 = segments w"
      "map (ride_view bookable) (rides w2) = map (ride_view bookable) (rides w)"
    and r: "findRide (b_rideId b) w2 = Some r"
    and run: "reserveRideSeats (seats_of b r (Some x)) w2 = (Inr u, w3)"
  shows "capacity_for bookable w3" "hold_inv w3" "booking_key ` set (bookings w3) = booking_key ` set (bookings w)"
proof -
  let ?w0 = "w2\<lparr>bookings := bookings w\<rparr>"
  have inv0: "capacity_for bookable ?w0"
    using cap capacity_inv_view[of bookable ?w0 w] w2 by (simp add: seat_view_def)
  have b0: "findBooking x ?w0 = Some b" using b by (simp add: findBooking_def)
  have r0: "findRide (b_rideId b) ?w0 = Some r" using r by (simp add: findRide_def)
  have "w2 = ?w0\<lparr>bookings := update_where (\<lambda>y. b_id y = x) f (bookings ?w0)\<rparr>"
    using w2(1) by (cases w2) simp
  with run have run0: "reserveRideSeats (seats_of b r (Some x)) (?w0\<lparr>bookings := update_where (\<lambda>y. b_id y = x) f (bookings ?w0)\<rparr>) = (Inr (), w3)"
    by simp
  show "capacity_for bookable w3" by (rule capacity_inv_reserve[where f = f, OF inv0 b0 r0 b(2) f(1,2) run0])
  have bs: "bookings w3 = update_where (\<lambda>y. b_id y = x) f (bookings w)"
    using reserve_frame[OF run] w2(1) by simp
  have db: "distinct (map b_id (bookings w))" using cap by (simp add: seat_inv_def)
  have uniq: "z = b" if "z \<in> set (bookings w)" "b_id z = x" for z
    using distinct_key_eq[OF db that(1)] findBooking_mem[OF b(1)] that(2) by simp
  show "hold_inv w3"
    unfolding hold_inv_def bs set_update_where
    using hold f(3) uniq by (auto simp: hold_inv_def)
  have "booking_key (f b) = booking_key b" using f(1) by (simp add: booking_key_def)
  then show "booking_key ` set (bookings w3) = booking_key ` set (bookings w)"
    unfolding bs set_update_where image_image using uniq by (intro image_cong) auto
qed

lemma publish_view:
  assumes "\<And>r. r \<in> set rs \<Longrightarrow> r_id r = x \<Longrightarrow> r_status r = RIDE_DRAFT"
  shows "map (ride_view bookable) (publish_ride x rs) = map (ride_view bookable) rs"
  using assms unfolding update_where_def by (auto simp: ride_view_def)

lemma offer_ride_draft:
  assumes "core w" "f \<in> set (offers w)" "of_status f = OFFER_SELECTED" "r \<in> set (rides w)" "r_id r = of_rideId f"
  shows "r_status r = RIDE_DRAFT"
proof -
  obtain s where s: "s \<in> set (rides w)" "r_id s = of_rideId f" "r_status s = RIDE_DRAFT"
    using assms(1-3) by (auto simp: core_def offer_inv_def)
  have "distinct (map r_id (rides w))" using assms(1) by (simp add: core_def seat_inv_def)
  from distinct_key_eq[OF this assms(4) s(1)] s assms(5) show ?thesis by simp
qed

text \<open>Publishing rides only adds to what does not change.\<close>

lemma grows_publish:
  assumes "booking_key ` set (bookings w) \<subseteq> booking_key ` set (bookings w')"
    and "map ride_fixed (rides w') = map ride_fixed (rides w) \<or> map ride_fixed (rides w') = map ride_fixed (publish_ride x (rides w))"
    and "offer_key ` set (offers w) \<subseteq> offer_key ` set (offers w')"
  shows "grows w w'"
proof -
  have p: "grows w (w\<lparr>rides := publish_ride x (rides w)\<rparr>)"
  proof -
    have k: "map ride_key (publish_ride x (rides w)) = map ride_key (rides w)"
      by (rule map_update_where) (simp add: ride_key_def)
    then have "ride_key ` set (rides w) = ride_key ` set (publish_ride x (rides w))" by (metis set_map)
    moreover have "r_id ` {r \<in> set (rides w). r_status r \<noteq> RIDE_DRAFT} \<subseteq> r_id ` {r \<in> set (publish_ride x (rides w)). r_status r \<noteq> RIDE_DRAFT}"
    proof
      fix y assume "y \<in> r_id ` {r \<in> set (rides w). r_status r \<noteq> RIDE_DRAFT}"
      then obtain r where r: "r \<in> set (rides w)" "r_status r \<noteq> RIDE_DRAFT" "y = r_id r" by auto
      let ?r = "if r_id r = x then r\<lparr>r_status := RIDE_PUBLISHED\<rparr> else r"
      have "?r \<in> set (publish_ride x (rides w))" using r(1) by (simp add: set_update_where)
      moreover have "r_status ?r \<noteq> RIDE_DRAFT" "r_id ?r = y" using r by simp_all
      ultimately show "y \<in> r_id ` {r \<in> set (publish_ride x (rides w)). r_status r \<noteq> RIDE_DRAFT}" by blast
    qed
    ultimately show ?thesis by (simp add: grows_def)
  qed
  from assms(2) show ?thesis
  proof
    assume "map ride_fixed (rides w') = map ride_fixed (rides w)"
    from grows_fixed[OF assms(1) this assms(3)] show ?thesis .
  next
    assume r: "map ride_fixed (rides w') = map ride_fixed (publish_ride x (rides w))"
    have "grows (w\<lparr>rides := publish_ride x (rides w)\<rparr>) w'"
      by (rule grows_fixed) (use assms(1,3) r in simp_all)
    with p show ?thesis by (rule grows_trans)
  qed
qed

subsection \<open>The claim of a payment\<close>

lemma update_one:
  assumes "distinct (map k xs)" "b \<in> set xs" "k b = x" "p b"
  shows "update_where (\<lambda>z. k z = x \<and> p z) f xs = update_where (\<lambda>z. k z = x) f xs"
  unfolding update_where_def using distinct_key_eq[OF assms(1)] assms(2-) by (intro map_cong) auto

lemma update_twice:
  assumes "\<And>z. k (f z) = k z"
  shows "update_where (\<lambda>z. k z = x) g (update_where (\<lambda>z. k z = x) f xs) = update_where (\<lambda>z. k z = x) (\<lambda>z. g (f z)) xs"
  using assms by (induction xs) auto

lemma paid_row_keys: "same_seats b (paid_row env i b)" "same_seats b (confirmed_row env exps (paid_row env i b))"
    "b_seatsReservedAt (paid_row env i b) \<noteq> None" "b_seatsReservedAt (confirmed_row env exps (paid_row env i b)) \<noteq> None"
    "hold_ok (paid_row env i b)" "hold_ok (confirmed_row env exps (paid_row env i b))"
  by (simp_all add: paid_row_def confirmed_row_def hold_ok_def)

lemma seats_of_cong:
  "same_seats b b' \<Longrightarrow> r_totalSeats r' = r_totalSeats r \<Longrightarrow> seats_of b r y = seats_of b' r' y"
  by (simp add: seats_of_def)

lemma publish_find:
  "find (\<lambda>r. r_id r = y) (publish_ride x rs) = map_option (\<lambda>r. if r_id r = x then r\<lparr>r_status := RIDE_PUBLISHED\<rparr> else r) (find (\<lambda>r. r_id r = y) rs)"
  by (rule find_update_where) simp

lemma claim_core:
  assumes core: "core w" and run: "claim_payment env i x w = (Inr c, w')"
  shows "core w' \<and> grows w w'"
proof (cases "count_where (\<lambda>b. b_id b = x \<and> b_status b = PAYMENT_PENDING) (bookings w) = 0")
  case True
  then have "w' = w" using run update_where_none[OF True] by (simp add: claim_payment_def andThen_ok updateBookings_ok)
  then show ?thesis using core by simp
next
  case False
  then obtain b where b: "b \<in> set (bookings w)" "b_id b = x" "b_status b = PAYMENT_PENDING"
    by (auto simp: count_where_0_iff)
  have cap: "capacity_for bookable w" and hold: "hold_inv w" and off: "offer_inv w"
    and db: "distinct (map b_id (bookings w))" using core by (simp_all add: core_def seat_inv_def)
  have fb: "findBooking x w = Some b" using core_find_booking[OF core b(1)] b(2) by simp
  have free: "b_seatsReservedAt b = None" using hold b by (simp add: hold_inv_def hold_ok_def)
  define w1 where "w1 = w\<lparr>bookings := update_where (\<lambda>z. b_id z = x) (paid_row env i) (bookings w)\<rparr>"
  have e: "update_where (\<lambda>z. b_id z = x \<and> b_status z = PAYMENT_PENDING) (paid_row env i) (bookings w) = bookings w1"
    using update_one[OF db b(1,2), where p = "\<lambda>z. b_status z = PAYMENT_PENDING"] b(3) by (simp add: w1_def)
  then have e1: "w\<lparr>bookings := update_where (\<lambda>z. b_id z = x \<and> b_status z = PAYMENT_PENDING) (paid_row env i) (bookings w)\<rparr> = w1"
    by (simp add: w1_def)
  have b1: "findBooking x w1 = Some (paid_row env i b)"
    using fb b(2) unfolding findBooking_def w1_def by (simp add: find_update_where paid_row_keys)
  obtain r u1 w2 u2 w3 where r: "findRide (b_rideId b) w1 = Some r"
    and conf: "confirmRequestBooking env x w1 = (Inr u1, w2)"
    and res: "reserveRideSeats (seats_of (paid_row env i b) r (Some x)) w2 = (Inr u2, w3)" and w': "w' = w3"
    using run False unfolding claim_payment_def checkActiveIndex_def reserveSeatsForBooking_def
    by (auto simp: andThen_ok andDo_ok ensure_ok ofOption_ok updateBookings_ok e1 b1 paid_row_keys simp del: run_simps)
      (auto simp: b1 paid_row_keys)
  have frame: "bookings w3 = bookings w2" "offers w3 = offers w2" "map ride_fixed (rides w3) = map ride_fixed (rides w2)"
    using reserve_frame[OF res] by simp_all
  from confirm_tables[OF conf] show ?thesis
  proof
    assume w2: "w2 = w1"
    have s: "seats_of (paid_row env i b) r (Some x) = seats_of b r (Some x)"
      by (rule seats_of_cong[symmetric]) (simp_all add: paid_row_keys)
    note t = taken_core[where f = "paid_row env i", OF cap hold fb free paid_row_keys(1,3,5) _ _ _ r res[unfolded w2 s]]
    have "capacity_for bookable w3" "hold_inv w3" "booking_key ` set (bookings w3) = booking_key ` set (bookings w)"
      by (rule t; simp add: w1_def)+
    moreover have "offer_inv w3" using off offer_inv_fixed[of w3 w] frame by (simp add: w2 w1_def)
    moreover have "grows w w3" by (rule grows_fixed) (use calculation(3) frame in \<open>simp_all add: w2 w1_def\<close>)
    ultimately show ?thesis by (simp add: core_def w')
  next
    assume "\<exists>f exps. f \<in> set (offers w1) \<and> of_status f = OFFER_SELECTED \<and>
      bookings w2 = update_where (\<lambda>b. b_id b = x) (confirmed_row env exps) (bookings w1) \<and>
      rides w2 = publish_ride (of_rideId f) (rides w1) \<and> offers w2 = accept_offer f (offers w1) \<and> segments w2 = segments w1"
    then obtain f exps where f: "f \<in> set (offers w)" "of_status f = OFFER_SELECTED"
      and t2: "bookings w2 = update_where (\<lambda>b. b_id b = x) (confirmed_row env exps) (bookings w1)"
        "rides w2 = publish_ride (of_rideId f) (rides w)" "offers w2 = accept_offer f (offers w)" "segments w2 = segments w"
      by (auto simp: w1_def)
    let ?g = "\<lambda>z. confirmed_row env exps (paid_row env i z)"
    have bs: "bookings w2 = update_where (\<lambda>b. b_id b = x) ?g (bookings w)"
      unfolding t2(1) w1_def by (simp add: update_twice paid_row_keys)
    have view: "map (ride_view bookable) (rides w2) = map (ride_view bookable) (rides w)"
      unfolding t2(2) using offer_ride_draft[OF core f] by (intro publish_view)
    obtain r2 where r2: "findRide (b_rideId b) w2 = Some r2" "r_totalSeats r2 = r_totalSeats r"
      using r by (auto simp: findRide_def t2(2) publish_find w1_def)
    have s: "seats_of (paid_row env i b) r (Some x) = seats_of b r2 (Some x)"
      by (rule seats_of_cong[symmetric]) (simp_all add: paid_row_keys r2(2))
    note t = taken_core[where f = ?g, OF cap hold fb free paid_row_keys(2,4,6) bs t2(4) view r2(1) res[unfolded s]]
    have "offer_inv w3" by (rule accept_offer_inv[OF off f(1)]) (use t2 frame in simp_all)
    moreover have "grows w w3" by (rule grows_publish[where x = "of_rideId f"]) (use t(3) t2 frame offer_keys_set[OF accept_offer_keys] in simp_all)
    ultimately show ?thesis using t by (simp add: core_def w')
  qed
qed

lemma live_transactionI:
  assumes "\<And>w a w'. core w \<Longrightarrow> m w = (Inr a, w') \<Longrightarrow> core w' \<and> grows w w'"
  shows "preserves (live u) (transaction m)"
  by (rule preserves_world_transaction[OF tables_only_live]) (use assms live_step in blast)

lemma live_claim_tx [live_intros]: "preserves (live u) (claim_payment_tx env i x)"
  unfolding claim_payment_tx_def
  by (intro preserves_tryCatch preserves_if preserves_ret preserves_throw live_transactionI claim_core)

subsection \<open>Selecting an offer\<close>

abbreviation select_offer :: "ident \<Rightarrow> offer_row list \<Rightarrow> offer_row list" where
  "select_offer x os \<equiv> update_where (\<lambda>y. of_id y = x \<and> of_status y = OFFER_OPEN) (\<lambda>y. y\<lparr>of_status := OFFER_SELECTED\<rparr>) os"

lemma overlap_check_ok:
  "assertDriverHasNoOverlappingRide d dt tm dur ex w = (Inr u, w') \<Longrightarrow> w' = w"
  by (auto simp: assertDriverHasNoOverlappingRide_def ok_simps split: if_splits)

lemma reserve_offer_tables:
  assumes "reserveRequestOffer env x pid rid seats w = (Inr u, w')"
  shows "(\<exists>f \<in> set (offers w). of_id f = x \<and> of_rideId f = rid) \<and> bookings w' = bookings w \<and> rides w' = rides w \<and>
    segments w' = segments w \<and> offers w' = select_offer x (offers w)"
proof -
  let ?found = "case findOffer x w of None \<Rightarrow> None
                | Some f \<Rightarrow> (case (findRequest (of_requestId f) w, findRide (of_rideId f) w) of
                     (Some q, Some r) \<Rightarrow> Some (f, q, r) | _ \<Rightarrow> None)"
  show ?thesis
  proof (cases ?found)
    case None
    then show ?thesis using assms by (simp add: reserveRequestOffer_def andThen_ok gets_ok Let_def)
  next
    case (Some t)
    obtain f q r where t: "t = (f, q, r)" by (cases t)
    have f: "findOffer x w = Some f" using Some t by (auto split: option.splits prod.splits)
    have fm: "f \<in> set (offers w) \<and> of_id f = x" using find_Some_mem[OF f[unfolded findOffer_def]] .
    have "of_rideId f = rid \<and> bookings w' = bookings w \<and> rides w' = rides w \<and> segments w' = segments w \<and>
        offers w' = select_offer x (offers w)"
      using assms unfolding reserveRequestOffer_def Let_def andThen_ok gets_ok
      by (auto simp: Some[simplified] t ok_simps simp del: run_simps dest!: overlap_check_ok)
    with fm show ?thesis by blast
  qed
qed

lemma select_core:
  assumes core: "core w" and run: "reserveRequestOffer env x pid rid seats w = (Inr u, w')"
    and r: "r \<in> set (rides w)" "r_id r = rid" "r_status r = RIDE_DRAFT"
  shows "core w' \<and> grows w w'"
proof -
  from reserve_offer_tables[OF run] obtain f where f: "f \<in> set (offers w)" "of_id f = x" "of_rideId f = rid"
    and t: "bookings w' = bookings w" "rides w' = rides w" "segments w' = segments w" "offers w' = select_offer x (offers w)"
    by blast
  have off: "offer_inv w" using core by (simp add: core_def)
  have keys: "map of_id (select_offer x (offers w)) = map of_id (offers w)"
    "map of_rideId (select_offer x (offers w)) = map of_rideId (offers w)" by (rule map_update_where, simp)+
  have "offer_inv w'"
    unfolding offer_inv_def t keys
  proof (intro conjI ballI impI)
    show d: "distinct (map of_id (offers w))" "distinct (map of_rideId (offers w))" using off by (simp_all add: offer_inv_def)
    fix g assume g: "g \<in> set (select_offer x (offers w))" "of_status g = OFFER_SELECTED"
    then obtain g0 where g0: "g0 \<in> set (offers w)" "of_id g = of_id g0" "of_rideId g = of_rideId g0"
      "of_id g0 = x \<or> of_status g0 = OFFER_SELECTED"
      unfolding set_update_where by (auto split: if_splits)
    show "\<exists>r \<in> set (rides w). r_id r = of_rideId g \<and> r_status r = RIDE_DRAFT"
    proof (cases "of_id g0 = x")
      case True
      then have "g0 = f" using distinct_key_eq[OF d(1) g0(1) f(1)] f(2) by simp
      then show ?thesis using r f(3) g0(3) by auto
    next
      case False
      then show ?thesis using off g0 by (auto simp: offer_inv_def)
    qed
  qed
  moreover have "capacity_for bookable w'" using core capacity_inv_view[of bookable w' w] t by (simp add: core_def seat_view_def)
  moreover have "hold_inv w'" using core t by (simp add: core_def hold_inv_def)
  ultimately show ?thesis using t offer_keys_set[OF keys] by (simp add: core_def grows_def)
qed

lemma link_core:
  assumes core: "core w" and run: "linkOffer x y w = (Inr u, w')"
  shows "core w' \<and> grows w w' \<and> bookings w' = bookings w"
proof -
  have t: "bookings w' = bookings w" "rides w' = rides w" "segments w' = segments w"
    "offers w' = update_where (\<lambda>f. of_id f = x) (\<lambda>f. f\<lparr>of_bookingId := Some y\<rparr>) (offers w)"
    using run by (auto simp: linkOffer_def ok_simps split: if_splits)
  have keys: "map of_id (offers w') = map of_id (offers w)" "map of_rideId (offers w') = map of_rideId (offers w)"
    unfolding t by (rule map_update_where, simp)+
  have "\<exists>g0 \<in> set (offers w). of_rideId g = of_rideId g0 \<and> of_status g0 = of_status g" if "g \<in> set (offers w')" for g
    using that unfolding t set_update_where by (auto split: if_splits)
  with keys have "offer_inv w'" using core t(2) unfolding core_def offer_inv_def by metis
  then show ?thesis using core capacity_inv_view[of bookable w' w] t(1-3) offer_keys_set[OF keys] by (simp add: core_def seat_view_def hold_inv_def grows_def)
qed

lemma confirm_core:
  assumes core: "core w" and b: "findBooking x w = Some b" "b_seatsReservedAt b \<noteq> None"
    and run: "confirmRequestBooking env x w = (Inr u, w')"
  shows "core w' \<and> grows w w'"
  using confirm_tables[OF run]
proof
  assume "w' = w"
  then show ?thesis using core by simp
next
  assume "\<exists>f exps. f \<in> set (offers w) \<and> of_status f = OFFER_SELECTED \<and>
     bookings w' = update_where (\<lambda>b. b_id b = x) (confirmed_row env exps) (bookings w) \<and>
     rides w' = publish_ride (of_rideId f) (rides w) \<and> offers w' = accept_offer f (offers w) \<and> segments w' = segments w"
  then obtain f exps where f: "f \<in> set (offers w)" "of_status f = OFFER_SELECTED"
    and t: "bookings w' = update_where (\<lambda>b. b_id b = x) (confirmed_row env exps) (bookings w)"
      "rides w' = publish_ride (of_rideId f) (rides w)" "offers w' = accept_offer f (offers w)" "segments w' = segments w"
    by blast
  have db: "distinct (map b_id (bookings w))" using core by (simp add: core_def seat_inv_def)
  let ?v = "w\<lparr>bookings := bookings w'\<rparr>"
  have "core ?v \<and> grows w ?v"
  proof (rule rows_core[where p = "\<lambda>z. b_id z = x \<and> b_seatsReservedAt z \<noteq> None" and f = "confirmed_row env exps"])
    show "row_ok (\<lambda>z. b_id z = x \<and> b_seatsReservedAt z \<noteq> None) (confirmed_row env exps)"
      by (simp add: row_ok_def confirmed_row_def booking_view_def hold_ok_def)
    show "bookings ?v = update_where (\<lambda>z. b_id z = x \<and> b_seatsReservedAt z \<noteq> None) (confirmed_row env exps) (bookings w)"
      using update_one[OF db, where p = "\<lambda>z. b_seatsReservedAt z \<noteq> None" and b = b and x = x] findBooking_mem[OF b(1)] b(2) t(1) by simp
  qed (use core in simp_all)
  then have v: "core ?v" "booking_key ` set (bookings w) \<subseteq> booking_key ` set (bookings w')" by (simp_all add: grows_def)
  have view: "map (ride_view bookable) (rides w') = map (ride_view bookable) (rides w)"
    unfolding t(2) using offer_ride_draft[OF core f] by (intro publish_view)
  have "capacity_for bookable w'" using v(1) capacity_inv_view[of bookable w' ?v] view t(4) by (simp add: core_def seat_view_def)
  moreover have "hold_inv w'" using v(1) by (simp add: core_def hold_inv_def)
  moreover have "offer_inv w'"
    by (rule accept_offer_inv[of w f]) (use core f t in \<open>simp_all add: core_def\<close>)
  moreover have "grows w w'" by (rule grows_publish[where x = "of_rideId f"]) (use v(2) t offer_keys_set[OF accept_offer_keys] in simp_all)
  ultimately show ?thesis by (simp add: core_def)
qed

subsection \<open>Adding a booking\<close>

lemma append_core:
  assumes core: "core w" and fresh: "\<forall>y \<in> set (bookings w). b_id y \<noteq> b_id b" and r: "b_rideId b \<in> r_id ` set (rides w)"
    and n: "1 \<le> b_seatsBooked b" and free: "b_seatsReservedAt b = None" and h: "hold_ok b"
  shows "core (w\<lparr>bookings := bookings w @ [b]\<rparr>) \<and> grows w (w\<lparr>bookings := bookings w @ [b]\<rparr>)"
proof -
  have fn: "findBooking (b_id b) w = None"
    unfolding findBooking_def find_key_None_iff using fresh by auto
  have "capacity_for bookable (w\<lparr>bookings := bookings w @ [b]\<rparr>)"
    by (rule capacity_inv_append) (use core fn r n free in \<open>simp_all add: core_def\<close>)
  then show ?thesis using core h by (auto simp: core_def hold_inv_def offer_inv_def grows_def)
qed

lemma reserve_append:
  assumes fresh: "\<forall>y \<in> set (bookings w). b_id y \<noteq> b_id b" and i: "si_bookingId i = None"
    and run: "reserveRideSeats i w = (Inr u, w1)"
  shows "reserveRideSeats (i\<lparr>si_bookingId := Some (b_id b)\<rparr>) (w\<lparr>bookings := bookings w @ [b]\<rparr>) =
    (Inr u, w1\<lparr>bookings := bookings w1 @ [b]\<rparr>)"
proof -
  have "heldSeats rid (Some (b_id b)) (w\<lparr>bookings := bookings w @ [b]\<rparr>) = heldSeats rid None w" for rid
    unfolding heldSeats_Some heldSeats_None sum_held_def using fresh by (auto intro!: sum_where_cong)
  moreover have "rangeOf (i\<lparr>si_bookingId := y\<rparr>) = rangeOf i" for y
    by (rule ext) (simp add: rangeOf_def split: option.split)
  ultimately show ?thesis
    using run i by (auto simp: run_reserveRideSeats updateRide_def findRide_def split: if_splits)
qed

text \<open>The seats are counted and taken before the row exists.\<close>

lemma reserve_then_append_core:
  assumes core: "core w" and fresh: "\<forall>y \<in> set (bookings w). b_id y \<noteq> b_id b"
    and r: "r \<in> set (rides w)" "r_id r = b_rideId b" and n: "1 \<le> b_seatsBooked b"
    and res: "b_seatsReservedAt b \<noteq> None" and h: "hold_ok b" and i: "i = seats_of b r None"
    and run: "reserveRideSeats i w = (Inr u, w1)"
  shows "core (w1\<lparr>bookings := bookings w1 @ [b]\<rparr>) \<and> grows w (w1\<lparr>bookings := bookings w1 @ [b]\<rparr>)"
proof -
  define b0 where "b0 = b\<lparr>b_status := PAYMENT_PENDING, b_seatsReservedAt := None\<rparr>"
  let ?wa = "w\<lparr>bookings := bookings w @ [b0]\<rparr>" and ?w2 = "w\<lparr>bookings := bookings w @ [b]\<rparr>"
    and ?w3 = "w1\<lparr>bookings := bookings w1 @ [b]\<rparr>"
  have b0: "same_seats b b0" "b_seatsReservedAt b0 = None" "hold_ok b0" by (simp_all add: b0_def hold_ok_def)
  have a: "core ?wa \<and> grows w ?wa"
    by (rule append_core) (use core fresh n b0 imageI[OF r(1), of r_id] r(2) in simp_all)
  have fr: "findRide (b_rideId b0) ?w2 = Some r"
    using core_find_ride[OF core r(1)] r(2) b0(1) by (simp add: findRide_def)
  have s: "i\<lparr>si_bookingId := Some (b_id b)\<rparr> = seats_of b0 r (Some (b_id b))"
    using i b0(1) by (simp add: seats_of_def)
  note run2 = reserve_append[OF fresh _ run, unfolded s]
  have up: "update_where (\<lambda>y. b_id y = b_id b) (\<lambda>_. b) (bookings w) = bookings w"
    using fresh by (intro update_where_none) (auto simp: count_where_0_iff)
  have app: "update_where p f (xs @ ys) = update_where p f xs @ update_where p f ys" for p f and xs ys :: "booking_row list"
    by (simp add: update_where_def)
  have cap: "capacity_for bookable ?wa" "hold_inv ?wa" using a by (simp_all add: core_def)
  have fb: "findBooking (b_id b) ?wa = Some b0" using core_find_booking[of ?wa b0] a b0(1) by simp
  have bs: "bookings ?w2 = update_where (\<lambda>y. b_id y = b_id b) (\<lambda>_. b) (bookings ?wa)" using up app b0(1) by simp
  have same: "same_seats b0 b" using b0(1) by simp
  have run3: "reserveRideSeats (seats_of b0 r (Some (b_id b))) ?w2 = (Inr u, ?w3)" by (rule run2) (simp add: i)
  note t = taken_core[where f = "\<lambda>_. b" and x = "b_id b", OF cap fb b0(2) same res h bs _ _ fr run3, simplified]
  have "offer_inv ?w3" "grows ?wa ?w3"
    using a reserve_frame[OF run] offer_inv_fixed[of ?w3 w] core t(3) by (auto simp: core_def intro!: grows_fixed)
  then show ?thesis using t(1,2) a grows_trans by (auto simp: core_def)
qed

lemma create_row_ok:
  assumes "createBookingRow b w = (Inr b', w')"
  shows "b' = b \<and> w' = w\<lparr>bookings := bookings w @ [b]\<rparr> \<and> (\<forall>y \<in> set (bookings w). b_id y \<noteq> b_id b)"
  using assms by (auto simp: createBookingRow_def checkActiveIndex_def ok_simps split: if_splits)

lemma resolve_plan_ok:
  assumes "resolveBookingPlan env pid input ft fr w = (Inr plan, w')"
  shows "w' = w \<and> bp_ride plan \<in> set (rides w) \<and> r_id (bp_ride plan) = ci_rideId input \<and>
    r_status (bp_ride plan) = (if fr then RIDE_DRAFT else RIDE_PUBLISHED) \<and> 1 \<le> ci_seatsBooked input"
proof -
  obtain ride dep v where ride: "find (\<lambda>r. r_id r = ci_rideId input \<and> r_status r = (if fr then RIDE_DRAFT else RIDE_PUBLISHED)) (rides w) = Some ride"
    and plan: "plan_of_view env input ft ride dep v = Some plan" and seats: "1 \<le> ci_seatsBooked input" and w': "w' = w"
    using assms unfolding resolveBookingPlan_def andThen_ok andDo_ok gets_ok ofOption_ok ensure_ok
      validateBookingSeats_def assertExplicitMeetingPointsSelected_def
    by (auto simp: ok_simps simp del: run_simps split: prod.splits)
  have "bp_ride plan = ride"
    using plan by (auto simp: plan_of_view_def Let_def split: option.splits if_splits prod.splits)
  then show ?thesis using find_Some_mem[OF ride] seats w' by simp
qed

subsection \<open>Creating a booking\<close>

lemma optional_offer_core:
  assumes core: "core w"
    and run: "(case requestOfferId of None \<Rightarrow> ret () | Some f \<Rightarrow> reserveRequestOffer env f pid (ci_rideId input) seats) w = (Inr u, w1)"
    and plan: "resolveBookingPlan env pid input ft (requestOfferId \<noteq> None) w1 = (Inr plan, w2)"
  shows "w2 = w1 \<and> core w1 \<and> grows w w1"
proof -
  note p = resolve_plan_ok[OF plan]
  show ?thesis
  proof (cases requestOfferId)
    case None
    then show ?thesis using run p core by simp
  next
    case (Some f)
    with run have r: "reserveRequestOffer env f pid (ci_rideId input) seats w = (Inr u, w1)" by simp
    have "rides w1 = rides w" using reserve_offer_tables[OF r] by blast
    then have "bp_ride plan \<in> set (rides w)" using p by simp
    from select_core[OF core r this] p Some show ?thesis by simp
  qed
qed

lemma new_booking_columns:
  "b_id (new_booking env pid input plan) = e_newBookingId env" "b_rideId (new_booking env pid input plan) = ci_rideId input"
  "b_seatsBooked (new_booking env pid input plan) = ci_seatsBooked input"
  "b_pickupPosition (new_booking env pid input plan) = Some (bp_pickupPosition plan)"
  "b_dropoffPosition (new_booking env pid input plan) = Some (bp_dropoffPosition plan)"
  "(b_seatsReservedAt (new_booking env pid input plan) \<noteq> None) = e_bypass env"
  "hold_ok (new_booking env pid input plan)"
  "b_status (new_booking env pid input plan) = (if e_bypass env then DRIVER_PENDING else PAYMENT_PENDING)"
  by (simp_all add: new_booking_def Let_def hold_ok_def)

lemma framed_tables_core: "booking_tables w' = booking_tables w \<Longrightarrow> core w \<Longrightarrow> core w' \<and> grows w w'"
  using core_tables[of w' w] by (simp add: grows_def booking_tables_iff)

lemma create_bypass_core:
  assumes mode: "e_bypass env" and core: "core w"
    and run: "create_bypass_tx env pid input ft requestOfferId w = (Inr a, w')"
  shows "core w' \<and> grows w w'"
proof -
  let ?b = "\<lambda>plan. new_booking env pid input plan"
  obtain u1 w1 plan w2 u2 w3 b w4 u3 w5 q w6 where
    a1: "(case requestOfferId of None \<Rightarrow> ret () | Some f \<Rightarrow> reserveRequestOffer env f pid (ci_rideId input) (ci_seatsBooked input)) w = (Inr u1, w1)"
    and a2: "resolveBookingPlan env pid input ft (requestOfferId \<noteq> None) w1 = (Inr plan, w2)"
    and a3: "reserveRideSeats (seats_of_plan input plan) w2 = (Inr u2, w3)"
    and a4: "createBookingRow (?b plan) w3 = (Inr b, w4)"
    and a5: "(case requestOfferId of None \<Rightarrow> ret ()
        | Some f \<Rightarrow> andDo (linkOffer f (b_id b)) (andDo (confirmRequestBooking env (b_id b)) (ret ()))) w4 = (Inr u3, w5)"
    and a6: "createPayment (e_newPaymentId env) q w5 = (Inr w6, w')"
    using run unfolding create_bypass_tx_def transaction_ok
    apply (simp only: andDo_ok andThen_ok reserveSeatsForBooking_def gets_ok ensure_ok ofSum_ok ret_ok)
    apply (elim exE conjE, hypsubst)
    apply (erule that, assumption+)
    done
  from optional_offer_core[OF core a1 a2] have w2: "w2 = w1" and c1: "core w1" "grows w w1" by simp_all
  from resolve_plan_ok[OF a2] have r: "bp_ride plan \<in> set (rides w1)" "r_id (bp_ride plan) = ci_rideId input" "1 \<le> ci_seatsBooked input"
    by simp_all
  from create_row_ok[OF a4] have b: "b = ?b plan" and w4: "w4 = w3\<lparr>bookings := bookings w3 @ [?b plan]\<rparr>"
    and fresh: "\<forall>y \<in> set (bookings w1). b_id y \<noteq> b_id (?b plan)"
    using reserve_frame[OF a3] w2 by simp_all
  have res: "b_seatsReservedAt (?b plan) \<noteq> None" using mode by (simp only: new_booking_columns)
  have c4: "core w4 \<and> grows w1 w4"
    unfolding w4
    by (rule reserve_then_append_core[OF c1(1) fresh r(1) _ _ res _ _ a3[unfolded w2]])
      (use r(2,3) in \<open>simp_all add: new_booking_columns seats_of_plan_def seats_of_def\<close>)
  have c5: "core w5 \<and> grows w4 w5"
  proof (cases requestOfferId)
    case None
    then show ?thesis using a5 c4 by simp
  next
    case (Some f)
    then obtain v u5 where l: "linkOffer f (b_id b) w4 = (Inr (), v)" and c: "confirmRequestBooking env (b_id b) v = (Inr u5, w5)"
      using a5 by (auto simp: ok_simps simp del: run_simps)
    from link_core[OF _ l] c4 have v: "core v" "grows w4 v" "bookings v = bookings w4" by auto
    have "findBooking (b_id b) v = Some (?b plan)"
      using core_find_booking[OF v(1), of "?b plan"] v(3) w4 b by simp
    from confirm_core[OF v(1) this res c] v(2) grows_trans show ?thesis by blast
  qed
  have "booking_tables w' = booking_tables w5" by (rule framed_ok[OF framed_request_payment(1) a6])
  from framed_tables_core[OF this] c5 have "core w' \<and> grows w5 w'" by simp
  with c1(2) c4 c5 show ?thesis using grows_trans by blast
qed

lemma create_stripe_core:
  assumes mode: "\<not> e_bypass env" and core: "core w"
    and run: "create_stripe_tx env pid input ft requestOfferId pre intent w = (Inr a, w')"
  shows "core w' \<and> grows w w'"
proof -
  let ?b = "\<lambda>plan. (new_booking env pid input plan)\<lparr>b_stripePaymentIntentId := Some (fst intent),
        b_paymentAmount := Some (totalPrice (bp_priceBreakdown plan)), b_paymentCurrency := Some (snd intent)\<rparr>"
  obtain u1 w1 plan w2 b w4 q p w5 u3 where
    a1: "(case requestOfferId of None \<Rightarrow> ret () | Some f \<Rightarrow> reserveRequestOffer env f pid (ci_rideId input) (ci_seatsBooked input)) w = (Inr u1, w1)"
    and a2: "resolveBookingPlan env pid input ft (requestOfferId \<noteq> None) w1 = (Inr plan, w2)"
    and a4: "createBookingRow (?b plan) w2 = (Inr b, w4)"
    and a5: "createPayment (e_newPaymentId env) q w4 = (Inr p, w5)"
    and a6: "(case requestOfferId of None \<Rightarrow> ret () | Some f \<Rightarrow> linkOffer f (b_id b)) w5 = (Inr u3, w')"
    using run unfolding create_stripe_tx_def transaction_ok
    apply (simp only: andDo_ok andThen_ok gets_ok ensure_ok ofSum_ok ret_ok)
    apply (elim exE conjE, hypsubst)
    apply (erule that, assumption+)
    done
  from optional_offer_core[OF core a1 a2] have w2: "w2 = w1" and c1: "core w1" "grows w w1" by simp_all
  from resolve_plan_ok[OF a2] have r: "bp_ride plan \<in> set (rides w1)" "r_id (bp_ride plan) = ci_rideId input" "1 \<le> ci_seatsBooked input"
    by simp_all
  from create_row_ok[OF a4] have w4: "w4 = w1\<lparr>bookings := bookings w1 @ [?b plan]\<rparr>"
    and fresh: "\<forall>y \<in> set (bookings w1). b_id y \<noteq> b_id (?b plan)" using w2 by simp_all
  have free: "b_seatsReservedAt (?b plan) = None" using mode new_booking_columns(6)[of env pid input plan] by simp
  have h: "hold_ok (?b plan)" using new_booking_columns(7)[of env pid input plan] by (simp add: hold_ok_def)
  have "b_rideId (?b plan) \<in> r_id ` set (rides w1)" using imageI[OF r(1), of r_id] r(2) by (simp add: new_booking_columns)
  from append_core[OF c1(1) fresh this _ free h] r(3) have c4: "core w4 \<and> grows w1 w4"
    unfolding w4 by (simp add: new_booking_columns)
  have "booking_tables w5 = booking_tables w4" by (rule framed_ok[OF framed_request_payment(1) a5])
  from framed_tables_core[OF this] c4 have c5: "core w5 \<and> grows w4 w5" by simp
  have "core w' \<and> grows w5 w'"
    using a6 c5 link_core[of w5] by (cases requestOfferId) auto
  with c1(2) c4 c5 show ?thesis using grows_trans by blast
qed

end
