(* ===== verification/Booking_Live.thy ===== *)
theory Booking_Live
  imports Booking_Claim
begin

text \<open>
  Every handler of the booking core keeps the invariant when it acts on rows read in an earlier state
  that the current one grew from: one rule per handler, in the order the theories define them.
\<close>

declare live_framed [live_intros del]

subsection \<open>The payment arrived\<close>

lemma preserves_case_claim [live_intros]:
  "preserves I m1 \<Longrightarrow> preserves I m2 \<Longrightarrow> preserves I m3 \<Longrightarrow>
   preserves I (case c of CLAIMED \<Rightarrow> m1 | ALREADY_APPLIED \<Rightarrow> m2 | RIDE_FULL \<Rightarrow> m3)"
  by (cases c) simp_all

lemma preserves_case_prod [live_intros]: "(\<And>a b. preserves I (k a b)) \<Longrightarrow> preserves I (case p of (a, b) \<Rightarrow> k a b)"
  by (cases p) simp

lemmas [live_intros] = preserves_gets

lemma row_ok_full_refund:
  "row_ok (\<lambda>b. b_id b = x \<and> b_status b = PAYMENT_PENDING) (\<lambda>b. b\<lparr>b_status := RIDE_FULL_REFUNDED, b_stripePaymentIntentId := c1,
     b_paymentCapturedAt := c2, b_refundPercent := c3\<rparr>)"
  by (simp add: row_ok_def booking_view_def hold_ok_def)

lemma live_refund_full [live_intros]: "preserves (live u) (refundRideFullPayment env x i)"
  unfolding refundRideFullPayment_def Let_def
  by (intro live_intros live_updateBookings[OF row_ok_full_refund]) (intro live_framed framed_intros)+

lemma live_announce [live_intros]: "preserves (live u) (announce_paid_booking env i x)"
  unfolding announce_paid_booking_def Let_def
  by (intro live_intros) (intro live_framed framed_intros)+

lemma live_apply [live_intros]: "preserves (live u) (applyStripePaymentSucceededToBooking env i)"
  unfolding applyStripePaymentSucceededToBooking_def
  by (intro live_intros) (intro live_framed framed_intros)+

subsection \<open>The rider\<close>

lemma live_confirm_body: "preserves (live u) (confirm_body env pid x found)"
  unfolding confirm_body_def
  by (intro live_intros) (intro live_framed framed_intros)+

lemma live_resume_body: "preserves (live u) (resume_body env pid x found)"
  unfolding resume_body_def
  by (intro live_intros) (intro live_framed framed_intros)+

lemma preserves_case_retrieved [live_intros]:
  "(\<And>i. preserves I (kr i)) \<Longrightarrow> preserves I mm \<Longrightarrow> preserves I mu \<Longrightarrow>
   preserves I (case v of Retrieved i \<Rightarrow> kr i | ResourceMissing \<Rightarrow> mm | StripeUnavailable \<Rightarrow> mu)"
  by (cases v) simp_all

lemma live_reentry_body [live_intros]: "preserves (live u) (reentry_body env pending)"
  unfolding reentry_body_def
  by (intro live_intros)

lemma live_extend_body: "preserves (live u) (extend_body env x found)"
  unfolding extend_body_def Let_def
  by (intro live_intros) (intro live_framed framed_intros)+

lemma live_cancel_body: "preserves (live u) (cancel_body env pid x reason snapshot)"
  unfolding cancel_body_def Let_def
  by (intro live_intros) (intro live_framed framed_intros)+

lemma live_withdraw_body:
  assumes "\<And>b r. found = Some (b, r) \<Longrightarrow> known u (b, r) \<and> x = b_id b"
  shows "preserves (live u) (withdraw_body env x reason found)"
proof (cases found)
  case (Some row)
  obtain b r where row: "row = (b, r)" by (cases row)
  have k: "known u (b, r)" "x = b_id b" using assms Some row by simp_all
  show ?thesis
    unfolding withdraw_body_def Some row andThen_ofOption prod.case
    by (intro live_intros live_withdraw_tx[OF k]) (intro live_framed framed_intros)+
qed (simp add: withdraw_body_def andThen_ofOption preserves_throw)

subsection \<open>The driver\<close>

lemma framed_requireDriver [framed_intros]: "framed (requireDriverBooking d v)" "framed (assertDecisionWindowOpen env t)"
  "framed (createPenalty d x n)" "framed (assertOrForce fo vi e)" "framed (assertForceAllowedOnRide fo st)" "framed (assertRideTransition st st')"
  unfolding requireDriverBooking_def assertDecisionWindowOpen_def assertOrForce_def assertForceAllowedOnRide_def
    assertRideTransition_def createPenalty_def ofOption_def
  by (intro framed_intros framed_modify; simp add: booking_tables_def)+

lemma row_ok_accepted:
  "row_ok (\<lambda>b. b_id b = x \<and> b_status b = DRIVER_PENDING \<and> b_seatsReservedAt b \<noteq> None) (accepted_row env exps)"
  by (simp add: row_ok_def booking_view_def hold_ok_def accepted_row_def)

lemma live_accept_body: "preserves (live u) (accept_body env d x snapshot)"
  unfolding accept_body_def
  by (intro live_intros live_updateBookings[OF row_ok_accepted]) (intro live_framed framed_intros)+

lemma live_reject_body: "preserves (live u) (reject_body env d x reason found)"
  unfolding reject_body_def
  by (intro live_intros live_driver_close_tx closes_rows) (intro live_framed framed_intros)+

lemma live_cancel_accepted_body: "preserves (live u) (cancel_accepted_body env d x reason found)"
  unfolding cancel_accepted_body_def
  by (intro live_intros live_driver_close_tx closes_rows) (intro live_framed framed_intros)+

lemma live_indexed:
  assumes "row_ok (\<lambda>b. b_id b = x) f"
  shows "preserves (live u) (updateBookingIndexed x f)"
  unfolding updateBookingIndexed_def checkActiveIndex_def
  by (intro live_intros live_updateBooking assms)

lemma row_ok_trip:
  "row_ok p (\<lambda>b. b\<lparr>b_status := IN_PROGRESS, b_pickupOtpVerifiedAt := c1, b_otpAttemptCount := c2\<rparr>)"
  "row_ok p (\<lambda>b. b\<lparr>b_status := COMPLETED, b_dropOtpVerifiedAt := c1, b_otpAttemptCount := c2\<rparr>)"
  by (simp_all add: row_ok_def booking_view_def hold_ok_def)

lemma live_verify_pickup_body: "preserves (live u) (verify_pickup_body env d x otp forced found)"
  unfolding verify_pickup_body_def Let_def
  by (intro live_intros live_indexed row_ok_trip) (intro live_framed framed_intros)+

lemma live_verify_drop_body: "preserves (live u) (verify_drop_body env d x otp forced found)"
  unfolding verify_drop_body_def Let_def
  by (intro live_intros live_indexed row_ok_trip) (intro live_framed framed_intros)+

subsection \<open>Jobs\<close>

lemma live_expire_body:
  assumes "\<And>b r. found = Some (b, r) \<Longrightarrow> known u (b, r) \<and> x = b_id b"
  shows "preserves (live u) (expire_body env x found)"
proof (cases found)
  case (Some row)
  obtain b r where row: "row = (b, r)" by (cases row)
  have k: "known u (b, r)" "x = b_id b" using assms Some row by simp_all
  show ?thesis
    unfolding expire_body_def Some row option.case prod.case
    by (intro live_intros live_expire_tx[OF k]) (intro live_framed framed_intros)+
qed (simp add: expire_body_def preserves_ret)

lemma live_reminder_body: "preserves (live u) (reminder_body env x found)"
  unfolding reminder_body_def
  by (intro live_intros) (intro live_framed framed_intros)+

lemma live_initial_body: "preserves (live u) (initial_body env x found)"
  unfolding initial_body_def
  by (intro live_intros) (intro live_framed framed_intros)+

lemma preserves_case_refund [live_intros]:
  "(\<And>t x. preserves I (k t x)) \<Longrightarrow> preserves I m \<Longrightarrow>
   preserves I (case (bp, cap, pin) of (False, Some t, Some x) \<Rightarrow> k t x | _ \<Rightarrow> m)"
  by (cases bp; cases cap; cases pin) simp_all

lemma live_extended_body:
  assumes "\<And>b r. found = Some (b, r) \<Longrightarrow> known u (b, r) \<and> x = b_id b"
  shows "preserves (live u) (extended_body env x found)"
proof (cases found)
  case (Some row)
  obtain b r where row: "row = (b, r)" by (cases row)
  have k: "known u (b, r)" "x = b_id b" using assms Some row by simp_all
  have tx: "preserves (live u) (extended_tx env x b r)"
    unfolding extended_tx_def
    by (intro live_transaction live_close_do(2)[OF k] closes_rows) (intro live_intros live_framed framed_intros)+
  show ?thesis
    unfolding extended_body_def Some row option.case prod.case
    by (intro live_intros tx) (intro live_framed framed_intros)+
qed (simp add: extended_body_def preserves_ret)

lemma live_auto_cancel:
  assumes "known u (b, r)"
  shows "preserves (live u) (autoCancelBooking env (b, r))"
proof -
  have tx: "preserves (live u) (auto_cancel_tx env b r ref)" for ref
    unfolding auto_cancel_tx_def
    by (intro live_transaction live_close_do(2)[OF assms refl] closes_rows) (intro live_intros)+
  show ?thesis
    unfolding autoCancelBooking_def Let_def prod.case
    by (intro live_intros tx) (intro live_framed framed_intros)+
qed

subsection \<open>Cancelling a ride\<close>

abbreviation move_rides :: "ident \<Rightarrow> ride_status \<Rightarrow> ride_row list \<Rightarrow> ride_row list" where
  "move_rides x st rs \<equiv> update_where (\<lambda>r. r_id r = x) (\<lambda>r. r\<lparr>r_status := st\<rparr>) rs"

definition moves_ride :: "(ride_row \<Rightarrow> ride_row) \<Rightarrow> bool" where
  "moves_ride g \<longleftrightarrow> (\<forall>r. r_id (g r) = r_id r \<and> r_totalSeats (g r) = r_totalSeats r \<and> \<not> bookable (r_status (g r)))"

lemma moves_status: "\<not> bookable st \<Longrightarrow> moves_ride (\<lambda>r. r\<lparr>r_status := st\<rparr>)"
  by (simp add: moves_ride_def)

lemma moves_not_draft: "moves_ride g \<Longrightarrow> r_status (g r) \<noteq> RIDE_DRAFT"
proof
  assume "moves_ride g" "r_status (g r) = RIDE_DRAFT"
  then have "\<not> bookable RIDE_DRAFT" unfolding moves_ride_def by metis
  then show False by simp
qed

lemma moved_rides_sets:
  assumes "moves_ride g"
  shows "r \<in> set (update_where p g rs) \<Longrightarrow> \<exists>s \<in> set rs. r_id s = r_id r \<and> r_totalSeats s = r_totalSeats r \<and>
     (bookable (r_status r) \<longrightarrow> r = s)"
  "map r_id (update_where p g rs) = map r_id rs"
  "ride_key ` set (update_where p g rs) = ride_key ` set rs"
proof -
  have g: "r_id (g r) = r_id r" "r_totalSeats (g r) = r_totalSeats r" "\<not> bookable (r_status (g r))" for r
    using assms by (simp_all add: moves_ride_def)
  show "r \<in> set (update_where p g rs) \<Longrightarrow> \<exists>s \<in> set rs. r_id s = r_id r \<and> r_totalSeats s = r_totalSeats r \<and>
     (bookable (r_status r) \<longrightarrow> r = s)"
    unfolding set_update_where using g by (auto split: if_splits)
  show "map r_id (update_where p g rs) = map r_id rs" by (rule map_update_where) (rule g)
  have "map ride_key (update_where p g rs) = map ride_key rs" by (rule map_update_where) (simp add: ride_key_def g)
  then show "ride_key ` set (update_where p g rs) = ride_key ` set rs" by (metis set_map)
qed

text \<open>A ride no selected offer depends on moves to a status in which it cannot be booked.\<close>

lemma move_ride_core:
  assumes core: "core w" and st: "moves_ride g" and p: "\<And>r. p r \<Longrightarrow> r_id r = x"
    and off: "\<forall>f \<in> set (offers w'). of_status f = OFFER_SELECTED \<longrightarrow> f \<in> set (offers w) \<and> of_rideId f \<noteq> x"
    and keys: "map of_id (offers w') = map of_id (offers w)" "map of_rideId (offers w') = map of_rideId (offers w)"
    and t: "bookings w' = bookings w" "segments w' = segments w" "rides w' = update_where p g (rides w)"
  shows "core w' \<and> grows w w'"
proof -
  have S: "seat_inv bookable w" and O: "occupancy_inv bookable w" and H: "hold_inv w" and F: "offer_inv w" using core by (simp_all add: core_def)
  have ids: "r_id ` set (rides w') = r_id ` set (rides w)" using moved_rides_sets(2)[OF st] t(3) by (metis set_map)
  have held: "sum_held q w' = sum_held q w" for q by (simp add: sum_held_def t)
  have "seat_inv bookable w'"
    unfolding seat_inv_def held t(1) ids
  proof (intro conjI ballI)
    show "distinct (map b_id (bookings w))" using S by (simp add: seat_inv_def)
    show "distinct (map r_id (rides w'))" using S t(3) moved_rides_sets(2)[OF st] by (simp add: seat_inv_def)
    show "1 \<le> b_seatsBooked b" "b_rideId b \<in> r_id ` set (rides w)" if "b \<in> set (bookings w)" for b
      using S that by (simp_all add: seat_inv_def)
    fix r assume "r \<in> set (rides w')"
    from moved_rides_sets(1)[OF st this[unfolded t(3)]] obtain s where s: "s \<in> set (rides w)" "r_id s = r_id r"
      "r_totalSeats s = r_totalSeats r" "bookable (r_status r) \<Longrightarrow> r = s" by blast
    show "sum_held (\<lambda>b. b_rideId b = r_id r) w \<le> r_totalSeats r" using seat_inv_held_le[OF S s(1)] s(2,3) by simp
    show "bookable (r_status r) \<longrightarrow> r_availableSeats r = r_totalSeats r - sum_held (\<lambda>b. b_rideId b = r_id r) w"
      using S s(1,4) by (auto simp: seat_inv_def)
  qed
  moreover have "occupancy_inv bookable w'"
    unfolding occupancy_inv_def held t(2)
  proof (intro ballI impI)
    fix s assume s: "s \<in> set (segments w)" "\<exists>r \<in> set (rides w'). r_id r = s_rideId s \<and> bookable (r_status r)"
    then obtain r where r: "r \<in> set (update_where p g (rides w))" "r_id r = s_rideId s" "bookable (r_status r)"
      using t(3) by auto
    from moved_rides_sets(1)[OF st r(1)] r(3) have "r \<in> set (rides w)" by blast
    then show "s_occupiedSeats s = sum_held (covers s) w" using O s(1) r(2,3) unfolding occupancy_inv_def by blast
  qed
  moreover have "hold_inv w'" using H by (simp add: hold_inv_def t)
  moreover have "offer_inv w'"
    unfolding offer_inv_def keys
  proof (intro conjI ballI impI)
    show "distinct (map of_id (offers w))" "distinct (map of_rideId (offers w))" using F by (simp_all add: offer_inv_def)
    fix f assume "f \<in> set (offers w')" "of_status f = OFFER_SELECTED"
    with off have f: "f \<in> set (offers w)" "of_rideId f \<noteq> x" "of_status f = OFFER_SELECTED" by simp_all
    then obtain r where r: "r \<in> set (rides w)" "r_id r = of_rideId f" "r_status r = RIDE_DRAFT" using F by (auto simp: offer_inv_def)
    have "\<not> p r" using p[of r] r(2) f(2) by auto
    then have "r \<in> set (rides w')" using r(1) unfolding t(3) set_update_where by (intro image_eqI[of _ _ r]) simp_all
    then show "\<exists>r \<in> set (rides w'). r_id r = of_rideId f \<and> r_status r = RIDE_DRAFT" using r by blast
  qed
  moreover have "r_id ` {r \<in> set (rides w). r_status r \<noteq> RIDE_DRAFT} \<subseteq> r_id ` {r \<in> set (rides w'). r_status r \<noteq> RIDE_DRAFT}"
  proof
    fix y assume "y \<in> r_id ` {r \<in> set (rides w). r_status r \<noteq> RIDE_DRAFT}"
    then obtain r where r: "r \<in> set (rides w)" "r_status r \<noteq> RIDE_DRAFT" "y = r_id r" by auto
    let ?r = "if p r then g r else r"
    have "?r \<in> set (rides w')" using r(1) by (simp add: set_update_where t(3))
    moreover have "r_status ?r \<noteq> RIDE_DRAFT" using r(2) moves_not_draft[OF st] by simp
    moreover have "r_id ?r = y" using r(3) st by (simp add: moves_ride_def)
    ultimately show "y \<in> r_id ` {r \<in> set (rides w'). r_status r \<noteq> RIDE_DRAFT}" by blast
  qed
  ultimately show ?thesis
    using offer_keys_set[OF keys] moved_rides_sets(3)[OF st] by (simp add: core_def grows_def t)
qed

text \<open>The bookings of a cancelled ride give their seats back without touching the counters.\<close>

lemma clear_core:
  assumes core: "core w" and x: "\<forall>r \<in> set (rides w). r_id r = x \<longrightarrow> \<not> bookable (r_status r)"
    and f: "\<And>b. same_seats b (f b) \<and> b_seatsReservedAt (f b) = None \<and> \<not> holds_seats (b_status (f b))"
    and t: "bookings w' = update_where (\<lambda>b. b_rideId b = x \<and> p b) f (bookings w)" "rides w' = rides w"
      "segments w' = segments w" "offers w' = offers w"
  shows "core w' \<and> grows w w'"
proof -
  have S: "seat_inv bookable w" and O: "occupancy_inv bookable w" and H: "hold_inv w" using core by (simp_all add: core_def)
  let ?p = "\<lambda>b. b_rideId b = x \<and> p b"
  have ids: "map b_id (bookings w') = map b_id (bookings w)"
    and kk: "map booking_key (bookings w') = map booking_key (bookings w)"
    unfolding t(1) using f by (auto intro!: map_update_where simp: booking_key_def)
  have same: "sum_held q w' = sum_held q w" if "\<And>b. q (f b) = q b" "\<And>b. q b \<Longrightarrow> b_rideId b \<noteq> x" for q
  proof -
    have "sum_where (\<lambda>b. b_seatsReservedAt b \<noteq> None \<and> q b) b_seatsBooked (update_where ?p f bs) =
        sum_where (\<lambda>b. b_seatsReservedAt b \<noteq> None \<and> q b) b_seatsBooked bs" for bs
      using that f by (induction bs) auto
    then show ?thesis by (simp add: sum_held_def t(1))
  qed
  have le: "sum_where (\<lambda>b. b_seatsReservedAt b \<noteq> None \<and> b_rideId b = y) b_seatsBooked (update_where ?p f bs)
      \<le> sum_where (\<lambda>b. b_seatsReservedAt b \<noteq> None \<and> b_rideId b = y) b_seatsBooked bs"
    if "\<forall>b \<in> set bs. 1 \<le> b_seatsBooked b" for y bs
    using that f by (induction bs) auto
  have "seat_inv bookable w'"
    unfolding seat_inv_def t(2) ids
  proof (intro conjI ballI)
    show "distinct (map b_id (bookings w))" "distinct (map r_id (rides w))" using S by (simp_all add: seat_inv_def)
    show "1 \<le> b_seatsBooked b" "b_rideId b \<in> r_id ` set (rides w)" if "b \<in> set (bookings w')" for b
      using that S f unfolding t(1) set_update_where seat_inv_def by auto
    fix r assume r: "r \<in> set (rides w)"
    have "sum_held (\<lambda>b. b_rideId b = r_id r) w' \<le> sum_held (\<lambda>b. b_rideId b = r_id r) w"
      unfolding sum_held_def t(1) by (rule le) (use S in \<open>simp add: seat_inv_def\<close>)
    then show "sum_held (\<lambda>b. b_rideId b = r_id r) w' \<le> r_totalSeats r" using seat_inv_held_le[OF S r] by simp
    show "bookable (r_status r) \<longrightarrow> r_availableSeats r = r_totalSeats r - sum_held (\<lambda>b. b_rideId b = r_id r) w'"
    proof
      assume n: "bookable (r_status r)"
      then have "r_id r \<noteq> x" using x r by auto
      then have "sum_held (\<lambda>b. b_rideId b = r_id r) w' = sum_held (\<lambda>b. b_rideId b = r_id r) w" by (intro same) (auto simp: f)
      then show "r_availableSeats r = r_totalSeats r - sum_held (\<lambda>b. b_rideId b = r_id r) w'"
        using S r n by (simp add: seat_inv_def)
    qed
  qed
  moreover have "occupancy_inv bookable w'"
    unfolding occupancy_inv_def t(2,3)
  proof (intro ballI impI)
    fix s assume s: "s \<in> set (segments w)" "\<exists>r \<in> set (rides w). r_id r = s_rideId s \<and> bookable (r_status r)"
    then have "s_rideId s \<noteq> x" using x by auto
    then have "sum_held (covers s) w' = sum_held (covers s) w"
      using covers_ride covers_same f by (intro same) metis+
    then show "s_occupiedSeats s = sum_held (covers s) w'" using O s unfolding occupancy_inv_def by simp
  qed
  moreover have "hold_inv w'"
    using H f unfolding hold_inv_def t(1) set_update_where by (auto simp: hold_ok_def)
  moreover have "booking_key ` set (bookings w') = booking_key ` set (bookings w)" using kk by (metis set_map)
  ultimately show ?thesis using core by (simp add: core_def offer_inv_def grows_def t)
qed

text \<open>A ride that was not a draft when it was read.\<close>

definition published :: "world \<Rightarrow> ident \<Rightarrow> bool" where
  "published u x \<longleftrightarrow> x \<in> r_id ` {r \<in> set (rides u). r_status r \<noteq> RIDE_DRAFT}"

lemma published_grows: "published u x \<Longrightarrow> grows u w \<Longrightarrow> published w x"
  by (auto simp: published_def grows_def)

lemma published_not_offered:
  assumes "core w" "published w x" "f \<in> set (offers w)" "of_status f = OFFER_SELECTED"
  shows "of_rideId f \<noteq> x"
proof
  assume e: "of_rideId f = x"
  from assms(2) obtain r where r: "r \<in> set (rides w)" "r_status r \<noteq> RIDE_DRAFT" "x = r_id r" by (auto simp: published_def)
  from offer_ride_draft[OF assms(1,3,4) r(1)] e r show False by simp
qed

lemma ball_update_where: "(\<forall>r \<in> set (update_where p f rs). P r) \<longleftrightarrow> (\<forall>r \<in> set rs. P (if p r then f r else r))"
  by (induction rs) auto

lemma live_cancelRide_tx:
  assumes "published u x"
  shows "preserves (live u) (cancelRide_tx env x bs)"
  unfolding cancelRide_tx_def
proof (rule preserves_world_transaction[OF tables_only_live])
  let ?C = "andDo (forEach bs (\<lambda>booking. updateBooking (b_id booking) (\<lambda>b. b\<lparr>b_refundAmount := Some (amount_due booking)\<rparr>)))
     (if e_bypass env then ret ()
      else forEach bs (\<lambda>booking.
        case (b_paymentCapturedAt booking, b_stripePaymentIntentId booking) of
          (Some _, Some x) \<Rightarrow>
            andDo (refundPaymentIntent env x (Some (toMinorCurrencyUnits (amount_due booking))))
              (updateBooking (b_id booking) (\<lambda>b. b\<lparr>b_refundedAt := Some (e_now env)\<rparr>))
        | _ \<Rightarrow> ret ()))"
  let ?p = "\<lambda>b. b_rideId b = x \<and> b_status b \<in> {CONFIRMED, DRIVER_PENDING}"
  fix w a w'
  assume lw: "live u w" and run: "andDo (updateRide x (\<lambda>r. r\<lparr>r_status := RIDE_CANCELLED\<rparr>))
      (andDo (updateBookings ?p (ride_cancelled_row env)) ?C) w = (Inr a, w')"
  then have core: "core w" and gr: "grows u w" by (simp_all add: live_def)
  obtain w1 w2 where w1: "w1 = w\<lparr>rides := move_rides x RIDE_CANCELLED (rides w)\<rparr>"
    and w2: "w2 = w1\<lparr>bookings := update_where ?p (ride_cancelled_row env) (bookings w1)\<rparr>" and c: "?C w2 = (Inr a, w')"
    using run unfolding andDo_ok[of "updateRide _ _"] andDo_ok[of "updateBookings _ _"] updateRide_ok updateBookings_ok by blast
  have c1: "core w1 \<and> grows w w1"
    by (rule move_ride_core[OF core, where x = x and p = "\<lambda>r. r_id r = x" and g = "\<lambda>r. r\<lparr>r_status := RIDE_CANCELLED\<rparr>"])
      (use published_not_offered[OF core published_grows[OF assms gr]] in \<open>simp_all add: w1 moves_status\<close>)
  have can: "\<forall>r \<in> set (rides w1). r_id r = x \<longrightarrow> \<not> bookable (r_status r)"
    by (simp add: w1 ball_update_where)
  have row: "same_seats b (ride_cancelled_row env b) \<and> b_seatsReservedAt (ride_cancelled_row env b) = None \<and>
      \<not> holds_seats (b_status (ride_cancelled_row env b))" for b by (simp add: ride_cancelled_row_def)
  have t: "bookings w2 = update_where ?p (ride_cancelled_row env) (bookings w1)" "rides w2 = rides w1"
      "segments w2 = segments w1" "offers w2 = offers w1" unfolding w2 by simp_all
  note c2 = clear_core[OF conjunct1[OF c1] can row t]
  have "preserves (live w2) ?C"
    by (intro live_intros) (intro live_framed framed_intros)+
  from preservesD[OF this, of w2] c c2 have "live w2 w'" by (simp add: live_def)
  moreover have "grows u w2" using c1 c2 gr grows_trans by blast
  ultimately show "live u w'" using grows_trans by (auto simp: live_def)
qed

lemma live_cancelRide_rest:
  assumes "published u x"
  shows "preserves (live u) (cancelRide_rest env d x bs)"
  unfolding cancelRide_rest_def
  by (intro live_intros live_cancelRide_tx[OF assms]) (intro live_framed framed_intros)+

lemma live_cancelRide_body:
  assumes "\<And>r. found = Some r \<Longrightarrow> published u x"
  shows "preserves (live u) (cancelRide_body env d x found)"
proof (cases found)
  case None
  then show ?thesis by (simp add: cancelRide_body_def andThen_ofOption preserves_throw)
next
  case (Some r)
  show ?thesis
    unfolding cancelRide_body_def Some andThen_ofOption
    by (intro preserves_andThen preserves_gets live_cancelRide_rest assms[OF Some])
qed

subsection \<open>Request checkouts\<close>

lemma framed_requests [framed_intros]: "framed (updateRequests p f)"
  by (rule framedI) (simp add: updateRequests_def booking_tables_def)

lemma if_neq_swap: "(if n \<noteq> (0::nat) then a else b) = (if n = 0 then b else a)"
  by simp

lemma live_checkout_release:
  assumes "known u (b, r)"
  shows "preserves (live u) (checkout_release env b p r)"
  unfolding checkout_release_def if_neq_swap
  by (intro preserves_andThen[OF preserves_gets] live_close_do(1)[OF assms refl] closes_rows preserves_ret)

text \<open>The offer of the scan, a selected one, and what expiring it leaves.\<close>

lemma expire_offer_core:
  assumes core: "core w" and o: "offer_key f0 \<in> offer_key ` set (offers w)"
    and n: "count_where (\<lambda>f. of_id f = of_id f0 \<and> of_status f = OFFER_SELECTED) (offers w) \<noteq> 0"
    and w': "w' = w\<lparr>offers := update_where (\<lambda>f. of_id f = of_id f0 \<and> of_status f = OFFER_SELECTED) (\<lambda>f. f\<lparr>of_status := OFFER_EXPIRED\<rparr>) (offers w),
      rides := move_rides (of_rideId f0) RIDE_CANCELLED (rides w)\<rparr>"
  shows "core w' \<and> grows w w'"
proof (rule move_ride_core[OF core, where x = "of_rideId f0" and p = "\<lambda>r. r_id r = of_rideId f0" and g = "\<lambda>r. r\<lparr>r_status := RIDE_CANCELLED\<rparr>"])
  have F: "distinct (map of_id (offers w))" "distinct (map of_rideId (offers w))" using core by (simp_all add: core_def offer_inv_def)
  obtain f where f: "f \<in> set (offers w)" "of_id f = of_id f0" "of_rideId f = of_rideId f0"
    using o by (auto simp: offer_key_def)
  obtain f2 where f2: "f2 \<in> set (offers w)" "of_id f2 = of_id f0" "of_status f2 = OFFER_SELECTED"
    using n by (auto simp: count_where_0_iff)
  have "f2 = f" using distinct_key_eq[OF F(1) f2(1) f(1)] f f2 by simp
  then have fs: "of_status f = OFFER_SELECTED" using f2 by simp
  show "\<forall>g \<in> set (offers w'). of_status g = OFFER_SELECTED \<longrightarrow> g \<in> set (offers w) \<and> of_rideId g \<noteq> of_rideId f0"
  proof (intro ballI impI)
    fix g assume g: "g \<in> set (offers w')" "of_status g = OFFER_SELECTED"
    then have g1: "g \<in> set (offers w)" "of_id g \<noteq> of_id f0" unfolding w' by (auto simp: set_update_where split: if_splits)
    then have "g \<noteq> f" using f by auto
    then have "of_rideId g \<noteq> of_rideId f" using distinct_key_eq[OF F(2) g1(1) f(1)] by blast
    then show "g \<in> set (offers w) \<and> of_rideId g \<noteq> of_rideId f0" using g1 f by simp
  qed
  show "map of_id (offers w') = map of_id (offers w)" "map of_rideId (offers w') = map of_rideId (offers w)"
    unfolding w' by (simp, rule map_update_where, simp)+
qed (simp_all add: w' moves_status)

lemma live_expire_offer:
  assumes o: "offer_key f0 \<in> offer_key ` set (offers u)" and m: "preserves (live u) m"
  shows "preserves (live u) (andThen (updateOffers (\<lambda>f. of_id f = of_id f0 \<and> of_status f = OFFER_SELECTED) (\<lambda>f. f\<lparr>of_status := OFFER_EXPIRED\<rparr>)) (\<lambda>expired.
     if expired = 0 then ret ()
     else andDo (updateRide (of_rideId f0) (\<lambda>r. r\<lparr>r_status := RIDE_CANCELLED\<rparr>)) m))"
proof (rule preservesI)
  let ?q = "\<lambda>f. of_id f = of_id f0 \<and> of_status f = OFFER_SELECTED"
  let ?M = "andThen (updateOffers ?q (\<lambda>f. f\<lparr>of_status := OFFER_EXPIRED\<rparr>)) (\<lambda>expired.
     if expired = 0 then ret () else andDo (updateRide (of_rideId f0) (\<lambda>r. r\<lparr>r_status := RIDE_CANCELLED\<rparr>)) m)"
  fix w assume lw: "live u w"
  then have core: "core w" and gr: "grows u w" by (simp_all add: live_def)
  show "live u (snd (?M w))"
  proof (cases "count_where ?q (offers w) = 0")
    case True
    then have "w\<lparr>offers := update_where ?q (\<lambda>f. f\<lparr>of_status := OFFER_EXPIRED\<rparr>) (offers w)\<rparr> = w" by (simp add: update_where_none)
    then show ?thesis using True lw by (simp add: run_andThen updateOffers_def)
  next
    case False
    have ow: "offer_key f0 \<in> offer_key ` set (offers w)" using o gr by (auto simp: grows_def)
    define w' where "w' = w\<lparr>offers := update_where ?q (\<lambda>f. f\<lparr>of_status := OFFER_EXPIRED\<rparr>) (offers w), rides := move_rides (of_rideId f0) RIDE_CANCELLED (rides w)\<rparr>"
    have l: "live u w'" by (rule live_step[OF lw]) (rule expire_offer_core[OF _ ow False w'_def])
    obtain f2 where "f2 \<in> set (offers w)" "of_id f2 = of_id f0" "of_status f2 = OFFER_SELECTED"
      using False by (auto simp: count_where_0_iff)
    moreover obtain f where "f \<in> set (offers w)" "of_id f = of_id f0" "of_rideId f = of_rideId f0"
      using ow by (auto simp: offer_key_def)
    ultimately have "of_rideId f2 = of_rideId f0" "f2 \<in> set (offers w)" "of_status f2 = OFFER_SELECTED"
      using distinct_key_eq[of of_id "offers w" f2 f] core by (auto simp: core_def offer_inv_def)
    then obtain r where "r \<in> set (rides w)" "r_id r = of_rideId f0" using core by (auto simp: core_def offer_inv_def)
    then have "findRide (of_rideId f0) (w\<lparr>offers := os\<rparr>) = Some r" for os
      using core_find_ride[OF core, of r] by (simp add: findRide_def)
    then have "?M w = m w'" using False by (simp add: run_andThen run_andDo updateOffers_def updateRide_def w'_def)
    then show ?thesis using preservesD[OF m l] by simp
  qed
qed

definition known_checkout :: "world \<Rightarrow> offer_row \<times> (booking_row \<times> payment_row option \<times> ride_row) option \<Rightarrow> bool" where
  "known_checkout u row \<longleftrightarrow> offer_key (fst row) \<in> offer_key ` set (offers u) \<and>
     (\<forall>b p r. snd row = Some (b, p, r) \<longrightarrow> known u (b, r))"

lemma live_checkout_tx:
  assumes "known_checkout u (f, bk)"
  shows "preserves (live u) (checkout_tx env f bk)"
proof -
  have o: "offer_key f \<in> offer_key ` set (offers u)" using assms by (simp add: known_checkout_def)
  have rel: "preserves (live u) (checkout_release env b p r)" if "bk = Some (b, p, r)" for b p r
    using assms that by (intro live_checkout_release) (simp add: known_checkout_def)
  have first: "preserves (live u) (case bk of None \<Rightarrow> ret True | Some (b, p, r) \<Rightarrow> checkout_release env b p r)"
    using rel by (auto split: option.split prod.split simp: preserves_ret)
  show ?thesis
    unfolding checkout_tx_def
    by (intro live_transaction preserves_andThen first preserves_if preserves_ret live_expire_offer o)
      (intro live_intros live_framed framed_intros)+
qed

lemma live_expire_checkout:
  assumes "known_checkout u row"
  shows "preserves (live u) (expire_checkout env row)"
proof -
  obtain f bk where row: "row = (f, bk)" by (cases row)
  have tx: "preserves (live u) (checkout_tx env f bk)" using assms row by (intro live_checkout_tx) simp
  show ?thesis
    unfolding expire_checkout_def Let_def row prod.case
    by (intro live_intros tx) (intro live_framed framed_intros)+
qed

definition checkouts_body ::
  "env \<Rightarrow> (offer_row \<times> (booking_row \<times> payment_row option \<times> ride_row) option) list \<Rightarrow> (world, unit) op" where
  "checkouts_body env pending =
     andDo (forEach pending (\<lambda>row. bestEffort (expire_checkout env row)))
    (andDo (updateRequests (\<lambda>q. q_status q = REQ_OPEN \<and> q_expiresAt q \<le> e_now env) (\<lambda>q. q\<lparr>q_status := REQ_EXPIRED\<rparr>))
    (andDo (updateOffers (\<lambda>f. of_status f = OFFER_OPEN \<and> of_expiresAt f \<le> e_now env) (\<lambda>f. f\<lparr>of_status := OFFER_EXPIRED\<rparr>))
     (ret ())))"

lemma expireRequestCheckouts_split: "expireRequestCheckouts env = andThen (gets (pending_checkouts env)) (checkouts_body env)"
  unfolding expireRequestCheckouts_def checkouts_body_def ..

lemma live_expire_open_offers:
  "preserves (live u) (updateOffers (\<lambda>f. of_status f = OFFER_OPEN \<and> c f) (\<lambda>f. f\<lparr>of_status := OFFER_EXPIRED\<rparr>))"
proof (rule preservesI, erule live_step)
  fix w assume core: "core w"
  let ?q = "\<lambda>f. of_status f = OFFER_OPEN \<and> c f" and ?f = "\<lambda>f. f\<lparr>of_status := OFFER_EXPIRED\<rparr>"
  let ?os = "update_where ?q ?f (offers w)"
  have keys: "map of_id ?os = map of_id (offers w)" "map of_rideId ?os = map of_rideId (offers w)"
    by (rule map_update_where, simp)+
  have "\<forall>f \<in> set ?os. of_status f = OFFER_SELECTED \<longrightarrow> f \<in> set (offers w)"
    by (auto simp: set_update_where)
  then have "offer_inv (w\<lparr>offers := ?os\<rparr>)" using core keys by (simp add: core_def offer_inv_def)
  then show "core (snd (updateOffers ?q ?f w)) \<and> grows w (snd (updateOffers ?q ?f w))"
    using core capacity_inv_view[of bookable "w\<lparr>offers := ?os\<rparr>" w] offer_keys_set[OF keys]
    by (simp add: updateOffers_def core_def seat_view_def hold_inv_def grows_def)
qed

lemma live_checkouts_body:
  assumes "\<And>row. row \<in> set pending \<Longrightarrow> known_checkout u row"
  shows "preserves (live u) (checkouts_body env pending)"
  unfolding checkouts_body_def
  by (intro live_intros live_expire_checkout assms live_expire_open_offers) (assumption | intro live_framed framed_intros)+

lemma pending_checkouts_known:
  assumes "row \<in> set (pending_checkouts env w)"
  shows "known_checkout w row"
proof -
  from assms obtain f where f: "f \<in> set (offers w)" and row: "row = (f, (case of_bookingId f of None \<Rightarrow> None
       | Some x \<Rightarrow> map_option (\<lambda>(b, r). (b, findPaymentByBooking x w, r)) (with_ride w (findBooking x w))))"
    unfolding pending_checkouts_def by (auto dest: in_set_takeD)
  have "known w (b, r)" if "with_ride w (findBooking x w) = Some (b, r)" for x b r
  proof (cases "findBooking x w")
    case (Some c)
    then show ?thesis using with_ride_known(1)[of w c "(b, r)"] that findBooking_mem[OF Some] by simp
  qed (use that in \<open>simp add: with_ride_def\<close>)
  then show ?thesis using f by (auto simp: row known_checkout_def split: option.splits)
qed

subsection \<open>Sweeps\<close>

lemma live_expireUnpaidBooking [live_intros]: "preserves (live u) (expireUnpaidBooking env x)"
  unfolding expireUnpaidBooking_def
  by (intro live_gets_booking live_expire_body) simp_all

lemma live_sweep: "preserves (live u) (runUnpaidBookingSweep env)"
  unfolding runUnpaidBookingSweep_def Let_def
  by (intro live_intros)

lemma rows_with_ride_known:
  assumes "row \<in> set (rows_with_ride w p)"
  shows "known w row"
proof -
  obtain b where b: "b \<in> set (bookings w)" "with_ride w (Some b) = Some row"
    using assms by (auto simp: rows_with_ride_def List.map_filter_def)
  from with_ride_known(1)[OF b(2,1)] show ?thesis .
qed

lemma live_handleExpired: "preserves (live u) (handleExpiredDeadline env b)"
  unfolding handleExpiredDeadline_def
  by (intro live_intros) (intro live_framed framed_intros)+

lemma live_checker: "preserves (live u) (checkExpiredDeadlines env)"
proof -
  have second: "preserves (live w) (forEach rows (autoCancelBooking env))"
    if "\<And>row. row \<in> set rows \<Longrightarrow> known w row" for w rows
    by (intro preserves_forEach) (metis live_auto_cancel prod.exhaust that)
  show ?thesis
    unfolding checkExpiredDeadlines_def
    apply (rule preserves_andThen, rule preserves_gets)
    apply (rule preserves_andDo, rule preserves_forEach, rule live_handleExpired)
    apply (rule live_gets)
    apply (rule preserves_andDo, rule second, erule rows_with_ride_known)
    apply (rule preserves_ret)
    done
qed

subsection \<open>The webhook\<close>

lemma framed_modify_events [framed_intros]: "framed (modify (\<lambda>w. w\<lparr>webhookEvents := f (webhookEvents w)\<rparr>))"
  by (rule framed_modify) (simp add: booking_tables_def)

lemma live_processStripeEvent [live_intros]: "preserves (live u) (processStripeEvent env ev)"
proof (cases ev)
  case (PaymentIntentSucceeded i)
  then show ?thesis by (simp only: processStripeEvent.simps applyPaymentIntentSucceeded_def) (intro live_intros)
next
  case (PaymentIntentFailed i)
  then show ?thesis
    by (simp only: processStripeEvent.simps applyPaymentIntentFailed_def)
      (intro live_intros; intro live_framed framed_intros)
next
  case (ChargeRefunded c)
  then show ?thesis
    by (simp only: processStripeEvent.simps applyChargeRefunded_def)
      (intro live_intros; intro live_framed framed_intros)
next
  case (RefundCreated r)
  then show ?thesis
    by (simp only: processStripeEvent.simps applyRefundUpdated_def)
      (intro live_intros; intro live_framed framed_intros)
next
  case (RefundUpdated r)
  then show ?thesis
    by (simp only: processStripeEvent.simps applyRefundUpdated_def)
      (intro live_intros; intro live_framed framed_intros)
qed (simp add: preserves_ret)

lemma live_webhook: "preserves (live u) (handleStripeWebhook env x ev)"
  unfolding handleStripeWebhook_def
  by (intro live_intros) (intro live_framed framed_intros)+

subsection \<open>Creating\<close>

lemma live_resolve_plan [live_intros]: "preserves (live u) (resolveBookingPlan env pid input ft fr)"
proof (rule framed_live)
  show "framed (resolveBookingPlan env pid input ft fr)"
    unfolding resolveBookingPlan_def validateBookingSeats_def assertExplicitMeetingPointsSelected_def
    by (intro framed_intros)
qed

lemma live_transaction_whole:
  assumes "t = transaction m" "\<And>w a w'. core w \<Longrightarrow> t w = (Inr a, w') \<Longrightarrow> core w' \<and> grows w w'"
  shows "preserves (live u) t"
  using assms(2) unfolding assms(1) transaction_ok by (rule live_transactionI)

lemma live_create_bypass: 
  assumes "e_bypass env"
  shows "preserves (live u) (create_bypass env pid input ft f)"
proof -
  have tx: "preserves (live u) (create_bypass_tx env pid input ft f)"
    by (rule live_transaction_whole[OF create_bypass_tx_def create_bypass_core[OF assms]])
  show ?thesis
    unfolding create_bypass_def
    by (intro live_intros tx) (intro live_framed framed_intros)+
qed

lemma framed_create_intent [framed_intros]: "framed (createBookingPaymentIntent env x a c)"
  unfolding createBookingPaymentIntent_def Let_def
  by (intro framed_intros)

lemma live_create_stripe: 
  assumes "\<not> e_bypass env"
  shows "preserves (live u) (create_stripe env pid input ft f)"
proof -
  have tx: "preserves (live u) (create_stripe_tx env pid input ft f plan intent)" for plan intent
    by (rule live_transaction_whole[OF create_stripe_tx_def create_stripe_core[OF assms]])
  show ?thesis
    unfolding create_stripe_def
    by (intro live_intros tx) (intro live_framed framed_intros)+
qed

lemma preserves_case_reentry:
  "preserves I m1 \<Longrightarrow> preserves I m2 \<Longrightarrow> (\<And>x. preserves I (k1 x)) \<Longrightarrow> (\<And>x y z. preserves I (k2 x y z)) \<Longrightarrow>
   preserves I (case re of NO_PENDING \<Rightarrow> m1 | REPLACE \<Rightarrow> m2 | APPLIED x \<Rightarrow> k1 x | RESUME x y z \<Rightarrow> k2 x y z)"
  by (cases re) simp_all

lemma live_create_body: "preserves (live u) (create_body env pid input f snapshot)"
proof (cases "e_bypass env")
  case True
  then show ?thesis
    unfolding create_body_def
    by (simp only: if_True) (intro live_intros live_create_bypass)
next
  case False
  have "preserves (live u) (create_after_reentry env pid input ft f re)" for ft re
    unfolding create_after_reentry_def Let_def
    by (intro preserves_case_reentry live_intros live_create_stripe False)
  then show ?thesis
    unfolding create_body_def using False
    by (simp only: if_False) (intro live_intros; assumption)
qed

end
