(* ===== verification/Trip_Live.thy ===== *)
theory Trip_Live
  imports Booking_Live
begin

text \<open>
  The rules of \<open>Booking_Rules\<close> for the trip: starting, completing and closing rides, and every step of
  a booking on the road. A ride moves only to statuses in which it cannot be booked, so its seat
  counters are no longer read, and the bookings keep their seats.
\<close>

subsection \<open>Moving a ride\<close>

lemma live_updateRides:
  assumes "published u x" "moves_ride g" "\<And>r. p r \<Longrightarrow> r_id r = x"
  shows "preserves (live u) (updateRides p g)"
proof (rule preservesI)
  fix w assume lw: "live u w"
  then have core: "core w" and gr: "grows u w" by (simp_all add: live_def)
  have "core (snd (updateRides p g w)) \<and> grows w (snd (updateRides p g w))"
    by (rule move_ride_core[OF core assms(2,3)])
      (use published_not_offered[OF core published_grows[OF assms(1) gr]] in \<open>simp_all add: updateRides_def\<close>)
  with lw show "live u (snd (updateRides p g w))" by (rule live_step)
qed

lemma live_updateRide:
  assumes "published u x" "moves_ride g"
  shows "preserves (live u) (updateRide x g)"
proof (rule preservesI)
  fix w assume w: "live u w"
  have "snd (updateRide x g w) = w \<or> snd (updateRide x g w) = snd (updateRides (\<lambda>r. r_id r = x) g w)"
    by (simp add: updateRide_def updateRides_def)
  then show "live u (snd (updateRide x g w))"
    using w preservesD[OF live_updateRides[OF assms, of "\<lambda>r. r_id r = x"] w] by auto
qed

lemma moves_rows: "moves_ride (started_ride env)"
  "moves_ride (\<lambda>r. r\<lparr>r_status := RIDE_COMPLETED\<rparr>)" "moves_ride (\<lambda>r. r\<lparr>r_status := RIDE_EXPIRED\<rparr>)"
  "moves_ride (\<lambda>r. r\<lparr>r_status := RIDE_READY_TO_START\<rparr>)"
  "moves_ride (\<lambda>r. r\<lparr>r_status := RIDE_COMPLETED, r_actualEndTime := t\<rparr>)"
  "moves_ride (\<lambda>r. r\<lparr>r_status := (if c then RIDE_EXPIRED else RIDE_CANCELLED)\<rparr>)"
  by (simp_all add: moves_ride_def started_ride_def)

lemma row_ok_status:
  "row_ok p (\<lambda>b. b\<lparr>b_status := WAITING_FOR_PICKUP\<rparr>)" "row_ok p (\<lambda>b. b\<lparr>b_status := COMPLETED\<rparr>)"
  "row_ok p (\<lambda>b. b\<lparr>b_status := DRIVER_MISSED_PICKUP\<rparr>)"
  "row_ok p (\<lambda>b. b\<lparr>b_status := DRIVER_ARRIVED, b_driverArrivedAt := c1, b_waitTimerStartedAt := c2\<rparr>)"
  "row_ok p (\<lambda>b. b\<lparr>b_status := ONBOARD, b_pickupOtpVerifiedAt := c1, b_onboardedAt := c2\<rparr>)"
  "row_ok p (\<lambda>b. b\<lparr>b_status := NO_SHOW, b_noShowMarkedAt := c1\<rparr>)"
  "row_ok p (\<lambda>b. b\<lparr>b_status := DROP_PENDING, b_dropoffConfirmedAt := c1\<rparr>)"
  "row_ok p (\<lambda>b. b\<lparr>b_status := COMPLETED, b_riderDropoffConfirmedAt := c1, b_completedAt := c2\<rparr>)"
  "row_ok p (\<lambda>b. b\<lparr>b_status := ONBOARD, b_driverArrivedAt := c1, b_waitTimerStartedAt := c2, b_pickupOtpVerifiedAt := c3, b_onboardedAt := c4\<rparr>)"
  "row_ok p (\<lambda>b. b\<lparr>b_status := COMPLETED, b_dropoffConfirmedAt := c1, b_riderDropoffConfirmedAt := c2, b_completedAt := c3\<rparr>)"
  by (simp_all add: row_ok_def booking_view_def hold_ok_def)

lemmas live_status [live_intros] = row_ok_status[THEN live_updateBooking] row_ok_status[THEN live_updateBookings]

lemma live_ensure: "(b \<Longrightarrow> preserves I m) \<Longrightarrow> preserves I (andDo (ensure b e) m)"
  by (cases b) (simp_all add: ensure_def preserves_throw)

subsection \<open>Starting, completing, listing\<close>

lemma published_found: "findRide x w = Some r \<Longrightarrow> r_status r \<noteq> RIDE_DRAFT \<Longrightarrow> grows w u \<Longrightarrow> published u x"
  using findRide_mem[of x w r] published_grows[of w x u] by (auto simp: published_def)

lemma live_startRide_body:
  assumes "\<And>r. found = Some r \<Longrightarrow> published u x"
  shows "preserves (live u) (startRide_body env x found)"
proof (cases found)
  case (Some r)
  have tx: "preserves (live u) (startRide_tx env x)"
    unfolding startRide_tx_def
    by (intro live_intros live_updateRide[OF assms[OF Some]] moves_rows)
  show ?thesis
    unfolding startRide_body_def Some row_cases
    by (intro live_intros tx)
qed (simp add: startRide_body_def row_cases preserves_throw)

lemma live_completeRide_body:
  assumes "\<And>r. found = Some r \<Longrightarrow> published u x"
  shows "preserves (live u) (completeRide_body env x found)"
proof (cases found)
  case (Some r)
  have tx: "preserves (live u) (completeRide_tx x)"
    unfolding completeRide_tx_def
    by (intro live_intros live_updateRide[OF assms[OF Some]] moves_rows)
  show ?thesis
    unfolding completeRide_body_def Some row_cases
    by (intro live_intros tx) (intro live_framed framed_intros)+
qed (simp add: completeRide_body_def row_cases preserves_throw)

text \<open>A row of a scan over published rides.\<close>

definition scanned :: "world \<Rightarrow> ride_row \<times> booking_row list \<Rightarrow> bool" where
  "scanned u row \<longleftrightarrow> published u (r_id (fst row)) \<and> (\<forall>b \<in> set (snd row). known u (b, fst row))"

lemma scanned_grows: "scanned w row \<Longrightarrow> grows w u \<Longrightarrow> scanned u row"
  using published_grows known_grows by (auto simp: scanned_def)

lemma scanned_with_bookings:
  assumes "r \<in> set (rides w)" "r_status r \<noteq> RIDE_DRAFT"
  shows "scanned w (with_bookings w r)"
  using assms by (auto simp: scanned_def published_def with_bookings_def known_def)

lemma live_reconcile_ride:
  assumes "scanned u row"
  shows "preserves (live u) (reconcile_ride env d row)"
proof -
  obtain r bs where row: "row = (r, bs)" by (cases row)
  have p: "published u (r_id r)" using assms row by (simp add: scanned_def)
  show ?thesis
    unfolding reconcile_ride_def row prod.case Let_def
    by (intro live_intros live_updateRides[OF p] moves_rows) (elim conjE; assumption)+
qed

subsection \<open>Closing a ride nobody started\<close>

text \<open>In between, the bookings in \<open>S\<close> are cancelled and still hold seats.\<close>

definition core_except :: "ident set \<Rightarrow> world \<Rightarrow> bool" where
  "core_except S w \<longleftrightarrow> capacity_for bookable w \<and> offer_inv w \<and>
     (\<forall>b \<in> set (bookings w). if b_id b \<in> S then b_status b = CANCELLED else hold_ok b)"

lemma core_except_empty: "core_except {} w = core w"
  by (auto simp: core_except_def core_def hold_inv_def)

lemma rows_except:
  assumes "core_except S w" "bookings w' = update_where p f (bookings w)"
    and "rides w' = rides w" "segments w' = segments w" "offers w' = offers w"
    and f: "\<And>b. booking_view (f b) = booking_view b"
      "\<And>b. p b \<Longrightarrow> b \<in> set (bookings w) \<Longrightarrow>
        if b_id b \<in> S' then b_status (f b) = CANCELLED else b_id b \<notin> S \<and> (hold_ok b \<longrightarrow> hold_ok (f b))"
    and S: "\<And>b. \<not> p b \<Longrightarrow> b \<in> set (bookings w) \<Longrightarrow> b_id b \<in> S' \<longleftrightarrow> b_id b \<in> S"
  shows "core_except S' w' \<and> grows w w'"
proof -
  have v: "map booking_view (bookings w') = map booking_view (bookings w)"
    unfolding assms(2) by (intro map_update_where f(1))
  have "capacity_for bookable w'"
    using assms(1,3,4) v capacity_inv_view[of bookable w' w] by (simp add: core_except_def seat_view_def)
  moreover have "offer_inv w'" using assms(1,3,5) by (simp add: core_except_def offer_inv_def)
  moreover have "\<forall>b \<in> set (bookings w'). if b_id b \<in> S' then b_status b = CANCELLED else hold_ok b"
    unfolding assms(2) ball_update_where
  proof
    fix b assume b: "b \<in> set (bookings w)"
    then have h: "if b_id b \<in> S then b_status b = CANCELLED else hold_ok b" using assms(1) by (simp add: core_except_def)
    have "b_id (f b) = b_id b" using f(1)[of b] by (simp add: booking_view_def)
    then show "if b_id (if p b then f b else b) \<in> S' then b_status (if p b then f b else b) = CANCELLED
        else hold_ok (if p b then f b else b)"
      using h f(2)[OF _ b] S[OF _ b] by (cases "p b") (auto split: if_splits)
  qed
  moreover have "map booking_key (bookings w') = map booking_key (bookings w)"
    unfolding assms(2) by (intro map_update_where booking_key_view f(1))
  then have "booking_key ` set (bookings w) = booking_key ` set (bookings w')" by (metis set_map)
  ultimately show ?thesis using assms(3,5) by (simp add: core_except_def grows_def)
qed

lemma release_except:
  fixes y :: "ident option"
  assumes k: "known u (b0, r0)" "grows u w" and I: "core_except (insert (b_id b0) S) w"
    and run: "releaseBookingSeats (b_id b0) (seats_of b0 r0 y) w = (Inr a, w')"
  shows "core_except S w' \<and> grows w w'"
proof -
  have cap: "capacity_for bookable w" and db: "distinct (map b_id (bookings w))" and off: "offer_inv w"
    using I by (simp_all add: core_except_def seat_inv_def)
  obtain b r where br: "findBooking (b_id b0) w = Some b" "findRide (b_rideId b) w = Some r" "seats_of b0 r0 y = seats_of b r y"
    using known_current[OF k, of bookable] cap by metis
  have w': "w' = snd (releaseBookingSeats (b_id b0) (seats_of b r y) w)" using run br(3) by simp
  note t = release_tables[OF br(1,2) db, where y = y, folded w']
  have "capacity_for bookable w'" unfolding w' by (rule capacity_inv_release[OF cap br(1,2)])
  moreover have "offer_inv w'" using off offer_inv_fixed[OF t(2,3)] by simp
  moreover have "\<forall>b \<in> set (bookings w'). if b_id b \<in> S then b_status b = CANCELLED else hold_ok b"
    unfolding t(1) ball_update_where
  proof
    fix c assume "c \<in> set (bookings w)"
    then have "if b_id c \<in> insert (b_id b0) S then b_status c = CANCELLED else hold_ok c" using I by (simp add: core_except_def)
    then show "if b_id (if b_id c = b_id b0 then c\<lparr>b_seatsReservedAt := None\<rparr> else c) \<in> S
        then b_status (if b_id c = b_id b0 then c\<lparr>b_seatsReservedAt := None\<rparr> else c) = CANCELLED
        else hold_ok (if b_id c = b_id b0 then c\<lparr>b_seatsReservedAt := None\<rparr> else c)"
      by (auto simp: hold_ok_def split: if_splits)
  qed
  moreover have "map booking_key (bookings w') = map booking_key (bookings w)"
    unfolding t(1) by (rule map_update_where) (simp add: booking_key_def)
  then have "booking_key ` set (bookings w) = booking_key ` set (bookings w')" by (metis set_map)
  then have "grows w w'" using t(2,3) by (intro grows_fixed) simp_all
  ultimately show ?thesis by (simp add: core_except_def)
qed

lemma close_booking_except:
  assumes k: "known u (b, r)" "grows u w" and I: "core_except (insert (b_id b) S) w"
    and run: "close_booking r b w = (Inr a, w')"
  shows "core_except S w' \<and> grows w w'"
proof -
  define w1 where "w1 = w\<lparr>bookings := update_where (\<lambda>z. b_id z = b_id b) (\<lambda>z. z\<lparr>b_refundAmount := Some (amount_due b)\<rparr>) (bookings w)\<rparr>"
  from run obtain v where rel: "releaseBookingSeats (b_id b) (seats_of b r None) w1 = (Inr v, w')"
    unfolding close_booking_def w1_def by (auto simp: ok_simps)
  have 1: "core_except (insert (b_id b) S) w1 \<and> grows w w1"
    by (rule rows_except[where p = "\<lambda>z. b_id z = b_id b" and f = "\<lambda>z. z\<lparr>b_refundAmount := Some (amount_due b)\<rparr>", OF I, unfolded w1_def[symmetric]])
      (use I in \<open>simp_all add: w1_def booking_view_def core_except_def\<close>)
  have "grows u w1" using k(2) 1 grows_trans by blast
  from release_except[OF k(1) this conjunct1[OF 1] rel] show ?thesis using 1 grows_trans by blast
qed

lemma close_bookings_except:
  assumes "\<And>b. b \<in> set bs \<Longrightarrow> known u (b, r)" "grows u w" "core_except (set (map b_id bs)) w"
    and "forEach bs (close_booking r) w = (Inr a, w')"
  shows "core w' \<and> grows w w'"
  using assms
proof (induction bs arbitrary: w)
  case Nil
  then show ?case by (simp add: core_except_empty ok_simps)
next
  case (Cons b bs)
  obtain v w1 where b: "close_booking r b w = (Inr v, w1)" and bs: "forEach bs (close_booking r) w1 = (Inr a, w')"
    using Cons.prems(4) by (auto simp: ok_simps)
  have I: "core_except (insert (b_id b) (set (map b_id bs))) w" using Cons.prems(3) by simp
  have 1: "core_except (set (map b_id bs)) w1 \<and> grows w w1"
    by (rule close_booking_except[OF _ Cons.prems(2) I b]) (simp add: Cons.prems(1))
  have "grows u w1" using Cons.prems(2) 1 grows_trans by blast
  from Cons.IH[OF _ this conjunct1[OF 1] bs] Cons.prems(1) show ?case using 1 grows_trans by (meson list.set_intros(2))
qed

lemma live_close_overdue_tx:
  assumes p: "published u (r_id r)" and k: "\<And>b. b \<in> set bs \<Longrightarrow> known u (b, r)"
  shows "preserves (live u) (close_overdue_tx env r bs)"
  unfolding close_overdue_tx_def
proof (rule preserves_world_transaction[OF tables_only_live])
  let ?p = "\<lambda>q. r_id q = r_id r \<and> unstarted (r_status q) \<and> r_actualStartTime q = None"
    and ?g = "\<lambda>q. q\<lparr>r_status := (if bs = [] then RIDE_EXPIRED else RIDE_CANCELLED)\<rparr>"
  let ?C = "andDo (updateBookings (\<lambda>b. b_id b \<in> set (map b_id bs)) (overdue_cancelled_row env))
         (andDo (forEach bs (close_booking r)) (ret True))"
  fix w a w'
  assume lw: "live u w" and run: "andThen (updateRides ?p ?g) (\<lambda>updated. if updated = 0 then ret False
     else if bs = [] then ret True else ?C) w = (Inr a, w')"
  define w1 where "w1 = w\<lparr>rides := update_where ?p ?g (rides w)\<rparr>"
  have "live u (snd (updateRides ?p ?g w))"
    by (rule preservesD[OF live_updateRides[OF p moves_rows(6)] lw]) simp
  then have l1: "live u w1" by (simp add: updateRides_def w1_def)
  have cases: "w' = w1 \<or> ?C w1 = (Inr a, w')"
    using run by (simp add: run_andThen updateRides_def w1_def split: if_splits) 
  show "live u w'"
  proof (cases "w' = w1")
    case False
    then have "?C w1 = (Inr a, w')" using cases by blast
    then obtain v where c: "forEach bs (close_booking r) (w1\<lparr>bookings := update_where (\<lambda>b. b_id b \<in> set (map b_id bs)) (overdue_cancelled_row env) (bookings w1)\<rparr>) = (Inr v, w')"
      by (auto simp: ok_simps)
    let ?w2 = "w1\<lparr>bookings := update_where (\<lambda>b. b_id b \<in> set (map b_id bs)) (overdue_cancelled_row env) (bookings w1)\<rparr>"
    have c1: "core_except {} w1" using l1 by (simp add: core_except_empty live_def)
    have 2: "core_except (set (map b_id bs)) ?w2 \<and> grows w1 ?w2"
      by (rule rows_except[where p = "\<lambda>b. b_id b \<in> set (map b_id bs)" and f = "overdue_cancelled_row env", OF c1]) (simp_all add: overdue_cancelled_row_def booking_view_def)
    have "grows u ?w2" using l1 2 grows_trans unfolding live_def by blast
    from close_bookings_except[OF k this conjunct1[OF 2] c] have "core w' \<and> grows ?w2 w'" .
    then show ?thesis using \<open>grows u ?w2\<close> grows_trans unfolding live_def by blast
  qed (use l1 in simp)
qed

lemma live_check_overdue:
  assumes "scanned u row"
  shows "preserves (live u) (check_overdue env row)"
proof -
  obtain r bs where row: "row = (r, bs)" by (cases row)
  have p: "published u (r_id r)" and k: "\<And>b. b \<in> set bs \<Longrightarrow> known u (b, r)" using assms row by (simp_all add: scanned_def)
  have tx: "preserves (live u) (close_overdue_tx env r (filter q bs))" for q
    by (rule live_close_overdue_tx[OF p]) (simp add: k)
  have close: "preserves (live u) (closeOverdueUnstartedRide env row)"
    unfolding closeOverdueUnstartedRide_def row prod.case Let_def
    by (intro live_intros tx) (intro live_framed framed_intros)+
  have promote: "preserves (live u) (promote_overdue env row)"
    unfolding promote_overdue_def row Let_def prod.case
    by (intro live_intros live_updateRides[OF p] moves_rows) ((elim conjE, assumption) | (intro live_framed framed_intros))+
  have report: "preserves (live u) (report_overdue env row)"
    unfolding report_overdue_def row Let_def prod.case
    by (intro live_intros) (intro live_framed framed_intros)+
  show ?thesis
    unfolding check_overdue_def Let_def
    apply (subst row, subst prod.case)
    apply (cases "combineDepartureDateTimeUtc (r_departureDate r) (r_departureTime r)")
     apply (simp_all only: sum.case)
     apply (rule preserves_ret)
    apply (intro live_intros close promote report)
    done
qed

subsection \<open>On the road\<close>

lemma live_ops_start_body:
  assumes "\<And>r bs. found = Some (r, bs) \<Longrightarrow> r_status r \<noteq> RIDE_DRAFT \<Longrightarrow> published u x"
  shows "preserves (live u) (ops_start_body env d x input found)"
proof (cases found)
  case (Some row)
  obtain r bs where row: "row = (r, bs)" by (cases row)
  have guard: "andDo (whenM (r_status r \<noteq> RIDE_PUBLISHED \<and> r_status r \<noteq> RIDE_READY_TO_START)
      (assertRideTransition (r_status r) RIDE_IN_PROGRESS)) m =
    andDo (ensure (r_status r \<in> {RIDE_PUBLISHED, RIDE_READY_TO_START}) (Err ''INVALID_RIDE_STATE_TRANSITION'')) m" for m
    by (cases "r_status r") (simp_all add: whenM_def assertRideTransition_def ensure_def)
  have p: "published u x" if "r_status r \<in> {RIDE_PUBLISHED, RIDE_READY_TO_START}"
    by (rule assms[of r bs]) (use that in \<open>auto simp: Some row\<close>)
  show ?thesis
    unfolding ops_start_body_def Some row row_cases guard
    by (rule preserves_andDo, rule preserves_ensure, rule live_ensure, intro live_intros live_updateRide[OF p] moves_rows)
      (assumption | intro live_framed framed_intros)+
qed (simp add: ops_start_body_def row_cases preserves_throw)

lemma framed_geofence [framed_intros]: "framed (locate_driver env x d i)"
  by (rule framed_forced)

lemma live_driver_arrived_body: "preserves (live u) (driver_arrived_body env d x input found)"
  unfolding driver_arrived_body_def Let_def
  by (intro live_intros) (intro live_framed framed_intros)+

lemma live_rider_arrived_body: "preserves (live u) (rider_arrived_body env d x input found)"
  unfolding rider_arrived_body_def Let_def
  by (intro live_intros) (intro live_framed framed_intros)+

lemma live_board_body: "preserves (live u) (board_body env d x otp input found)"
  unfolding board_body_def Let_def
  by (intro live_intros) (intro live_framed framed_intros)+

lemma live_no_show_body: "preserves (live u) (no_show_body env d x input found)"
  unfolding no_show_body_def Let_def
  by (intro live_intros) (intro live_framed framed_intros)+

lemma live_dropoff_body: "preserves (live u) (dropoff_body env d x input found)"
  unfolding dropoff_body_def Let_def
  by (intro live_intros) (intro live_framed framed_intros)+

lemma live_rider_dropoff_body: "preserves (live u) (rider_dropoff_body env d x input found)"
  unfolding rider_dropoff_body_def Let_def
  by (intro live_intros) (intro live_framed framed_intros)+

lemma live_missed_pickup_body: "preserves (live u) (missed_pickup_body d x input found)"
  unfolding missed_pickup_body_def Let_def
  by (intro live_intros) (intro live_framed framed_intros)+

lemma live_simulate_pickup_body: "preserves (live u) (simulate_pickup_body env d x input found)"
  unfolding simulate_pickup_body_def Let_def
  by (intro live_intros) (intro live_framed framed_intros)+

lemma live_simulate_dropoff_body: "preserves (live u) (simulate_dropoff_body env d x input found)"
  unfolding simulate_dropoff_body_def Let_def
  by (intro live_intros) (intro live_framed framed_intros)+

lemmas live_trip_bodies = live_driver_arrived_body live_rider_arrived_body live_board_body live_no_show_body live_dropoff_body live_rider_dropoff_body live_missed_pickup_body live_simulate_pickup_body live_simulate_dropoff_body

lemma live_finish_body:
  assumes "\<And>r bs. found = Some (r, bs) \<Longrightarrow> r_status r \<noteq> RIDE_DRAFT \<Longrightarrow> published u x"
  shows "preserves (live u) (finish_body env d x input found)"
proof (cases found)
  case (Some row)
  obtain r bs where row: "row = (r, bs)" by (cases row)
  have p: "published u x" if "r_status r = RIDE_IN_PROGRESS"
    by (rule assms[of r bs]) (use that in \<open>simp_all add: Some row\<close>)
  show ?thesis
    unfolding finish_body_def Some row row_cases Let_def
    by (rule preserves_andDo, rule preserves_ensure, rule live_ensure, intro live_intros live_updateRide[OF p] moves_rows)
      (assumption | intro live_framed framed_intros)+
qed (simp add: finish_body_def row_cases preserves_throw)

subsection \<open>Actions queued offline\<close>

lemma found_published:
  assumes "findRideWithBookings p x w = Some (r, bs)" "r_status r \<noteq> RIDE_DRAFT" "grows w u"
  shows "published u x"
  using assms published_found[of x w r u] by (auto simp: findRideWithBookings_def)

lemma live_opsStartRide [live_intros]: "preserves (live u) (opsStartRide env d x input)"
  unfolding opsStartRide_def ops_start_read_def
  by (rule live_gets, rule live_ops_start_body, erule found_published) simp_all

lemma live_finishRide [live_intros]: "preserves (live u) (finishRide env d x input)"
  unfolding finishRide_def finish_read_def
  by (rule live_gets, rule live_finish_body, erule found_published) simp_all

lemma live_trip_steps [live_intros]:
  "preserves (live u) (driverArrived env d x input)" "preserves (live u) (verifyPickupAndBoard env d x otp input)"
  "preserves (live u) (confirmDropoff env d x input)"
  unfolding driverArrived_def verifyPickupAndBoard_def confirmDropoff_def
  by (intro preserves_andThen preserves_gets live_trip_bodies)+

lemma live_recovery: "recovery_step env d ty a = Some m \<Longrightarrow> preserves (live u) m"
  unfolding recovery_step_def by (auto split: if_splits option.splits intro: live_intros)

lemma live_sync_action: "preserves (live u) (sync_action env d a)"
  unfolding sync_action_def manual_action_def
  by (intro live_intros) (erule live_recovery | intro live_framed framed_intros)+

lemma live_sync: "preserves (live u) (syncOfflineActions env d as)"
proof (induction as)
  case (Cons a as)
  then show ?case unfolding syncOfflineActions.simps by (intro preserves_andThen live_sync_action preserves_ret)
qed (simp only: syncOfflineActions.simps preserves_ret)

lemma framed_submitLocation [framed_intros]: "framed (submitLocation d x la lo t)"
  unfolding submitLocation_def by (intro framed_intros)

end
