(* ===== verification/Booking_Machine.thy ===== *)
theory Booking_Machine
  imports Trip_Live
begin

text \<open>
  The booking service as one machine: requests, jobs and webhook deliveries arrive at any time, read
  their rows, and act on them later, with other handlers acting in between. \<open>interleaving\<close> is the
  contract under which an invariant survives every such schedule; it is interpreted on the handlers of
  the booking core.
\<close>

subsection \<open>Schedules\<close>

datatype 'c move = Arrive 'c | Act nat

text \<open>The state and the pending continuations.\<close>

type_synonym 's machine = "'s \<times> ('s, unit) op list"

fun move_step :: "('c \<Rightarrow> 's \<Rightarrow> ('s, unit) op) \<Rightarrow> 'c move \<Rightarrow> 's machine \<Rightarrow> 's machine" where
  "move_step start (Arrive c) (s, pool) = (s, pool @ [start c s])"
| "move_step start (Act i) (s, pool) =
     (if i < length pool then (snd ((pool ! i) s), take i pool @ drop (Suc i) pool) else (s, pool))"

fun run_schedule :: "('c \<Rightarrow> 's \<Rightarrow> ('s, unit) op) \<Rightarrow> 'c move list \<Rightarrow> 's machine \<Rightarrow> 's machine" where
  "run_schedule start [] m = m"
| "run_schedule start (x # xs) m = run_schedule start xs (move_step start x m)"

inductive turn :: "('c \<Rightarrow> 's \<Rightarrow> ('s, unit) op) \<Rightarrow> 's machine \<Rightarrow> 's machine \<Rightarrow> bool" for start where
  arrive: "turn start (s, pool) (s, pool @ [start c s])"
| act: "turn start (s, pool1 @ k # pool2) (snd (k s), pool1 @ pool2)"

lemma move_step_turn: "move_step start x m = m \<or> turn start m (move_step start x m)"
proof (cases m)
  case (Pair s pool)
  show ?thesis
  proof (cases x)
    case (Act i)
    then show ?thesis
      using Pair turn.act[of start s "take i pool" "pool ! i" "drop (Suc i) pool"]
      by (cases "i < length pool") (simp_all add: id_take_nth_drop[symmetric])
  qed (simp add: Pair turn.arrive)
qed

lemma turn_move_step: "turn start m m' \<Longrightarrow> \<exists>x. m' = move_step start x m"
proof (induction rule: turn.induct)
  case (arrive s pool c)
  show ?case by (rule exI[of _ "Arrive c"]) simp
next
  case (act s pool1 k pool2)
  show ?case by (rule exI[of _ "Act (length pool1)"]) (simp add: nth_append)
qed

lemma run_schedule_append: "run_schedule start (xs @ ys) m = run_schedule start ys (run_schedule start xs m)"
  by (induction xs arbitrary: m) simp_all

lemma run_schedule_turns: "(turn start)\<^sup>*\<^sup>* m (run_schedule start xs m)"
proof (induction xs arbitrary: m)
  case (Cons x xs)
  have "(turn start)\<^sup>*\<^sup>* m (move_step start x m)" using move_step_turn[of start x m] by auto
  then show ?case using Cons[of "move_step start x m"] by simp
qed simp

lemma turns_run_schedule: "(turn start)\<^sup>*\<^sup>* m m' \<Longrightarrow> \<exists>xs. m' = run_schedule start xs m"
proof (induction rule: rtranclp_induct)
  case base
  show ?case by (rule exI[of _ "[]"]) simp
next
  case (step m1 m2)
  then obtain xs x where "m1 = run_schedule start xs m" "m2 = move_step start x m1"
    using turn_move_step by blast
  then have "m2 = run_schedule start (xs @ [x]) m" by (simp add: run_schedule_append)
  then show ?case ..
qed

subsection \<open>The contract\<close>

text \<open>
  \<open>le\<close> is what every handler guarantees to the others and may rely on: an invariant survives if a
  handler that read its rows in \<open>s\<close> keeps it from any later state.
\<close>

locale interleaving =
  fixes start :: "'c \<Rightarrow> 's \<Rightarrow> ('s, unit) op" and I :: "'s \<Rightarrow> bool" and le :: "'s \<Rightarrow> 's \<Rightarrow> bool"
  assumes refl: "le s s" and trans: "le s t \<Longrightarrow> le t v \<Longrightarrow> le s v"
    and keeps: "I s \<Longrightarrow> le s t \<Longrightarrow> preserves (\<lambda>v. I v \<and> le t v) (start c s)"
begin

definition pending_ok :: "'s machine \<Rightarrow> bool" where
  "pending_ok m \<longleftrightarrow> I (fst m) \<and>
     (\<forall>k \<in> set (snd m). \<forall>t. le (fst m) t \<longrightarrow> preserves (\<lambda>v. I v \<and> le t v) k)"

lemma pending_start: "I s \<Longrightarrow> pending_ok (s, [])"
  by (simp add: pending_ok_def)

lemma pending_later:
  assumes "pending_ok (s, pool)" "I s'" "le s s'" "set pool' \<subseteq> set pool"
  shows "pending_ok (s', pool')"
proof -
  have "preserves (\<lambda>v. I v \<and> le t v) k" if "k \<in> set pool'" "le s' t" for k t
    using assms(1,4) that trans[OF assms(3) that(2)] by (auto simp: pending_ok_def)
  then show ?thesis using assms(2) by (simp add: pending_ok_def)
qed

lemma turn_ok:
  assumes "turn start m m'" "pending_ok m"
  shows "pending_ok m' \<and> le (fst m) (fst m')"
  using assms(1)
proof (cases rule: turn.cases)
  case (arrive s pool c)
  then show ?thesis using assms(2) keeps[of s _ c] refl by (auto simp: pending_ok_def)
next
  case (act s pool1 k pool2)
  have "preserves (\<lambda>v. I v \<and> le s v) k" "I s" using assms(2) refl by (auto simp: act pending_ok_def)
  then have s': "I (snd (k s)) \<and> le s (snd (k s))" using preservesD[of "\<lambda>v. I v \<and> le s v" k s] refl by simp
  have "pending_ok (s, pool1 @ k # pool2)" using assms(2) act by simp
  then have "pending_ok (snd (k s), pool1 @ pool2)"
    by (rule pending_later) (use s' in auto)
  then show ?thesis using s' act by simp
qed

lemma turns_ok:
  assumes "(turn start)\<^sup>*\<^sup>* m m'" "pending_ok m"
  shows "pending_ok m' \<and> le (fst m) (fst m')"
  using assms
proof (induction rule: rtranclp_induct)
  case (step m1 m2)
  then show ?case using turn_ok[of m1 m2] trans by blast
qed (simp add: refl)

lemma schedule_keeps:
  assumes "I s"
  shows "I (fst (run_schedule start xs (s, [])))" "le s (fst (run_schedule start xs (s, [])))"
  using turns_ok[OF run_schedule_turns pending_start[OF assms], of xs] by (simp_all add: pending_ok_def)

end

subsection \<open>The calls of the booking core\<close>

datatype call =
    CreateBooking ident create_input "ident option"
  | ConfirmPayment ident ident | ResumePayment ident ident
  | ExtendWait ident ident | CancelBooking ident ident "string option" | WithdrawBooking ident ident "string option"
  | AcceptBooking ident ident | RejectBooking ident ident string | CancelAfterAccept ident ident string
  | VerifyPickup ident ident "string option" force_context | VerifyDrop ident ident "string option" force_context
  | CancelRide ident ident | StartRide ident ident | CompleteRide ident ident | ListRides ident
  | OpsStartRide ident ident event_input | DriverArrived ident ident event_input | RiderArrived ident ident event_input
  | Board ident ident "string option" event_input | MarkNoShow ident ident event_input
  | ConfirmDropoff ident ident event_input | RiderConfirmDropoff ident ident event_input
  | ReportMissedPickup ident ident event_input | FinishRide ident ident event_input
  | SimulatePickup ident ident event_input | SimulateDropoff ident ident event_input
  | SubmitLocation ident ident jsnum jsnum time | SyncOffline ident "offline_action list"
  | CreateDispute dispute_input | CollectEvidence ident | EvaluateDispute ident | ResolveDispute ident string ident
  | OverdueCheck
  | DeadlineJob deadline_job ident | UnpaidSweep | DeadlineCheck | RequestCheckouts
  | Webhook ident stripe_event

abbreviation discard :: "('s, 'a) op \<Rightarrow> ('s, unit) op" where "discard m \<equiv> andDo m (ret ())"

fun start_job :: "env \<Rightarrow> deadline_job \<Rightarrow> ident \<Rightarrow> (booking_row \<times> ride_row) option \<Rightarrow> (world, unit) op" where
  "start_job env JOB_INITIAL x found = initial_body env x found"
| "start_job env JOB_EXTENDED x found = extended_body env x found"
| "start_job env JOB_REMINDER x found = reminder_body env x found"
| "start_job env JOB_PAYMENT_EXPIRY x found = discard (expire_body env x found)"

text \<open>What a call still has to do once it has read its rows in \<open>w\<close>.\<close>

fun start_call :: "env \<times> call \<Rightarrow> world \<Rightarrow> (world, unit) op" where
  "start_call (env, CreateBooking pid input f) w = discard (create_body env pid input f (create_read env pid input w))"
| "start_call (env, ConfirmPayment pid x) w = discard (confirm_body env pid x (getBookingById pid x w))"
| "start_call (env, ResumePayment pid x) w = discard (resume_body env pid x (getBookingById pid x w))"
| "start_call (env, ExtendWait pid x) w =
     discard (extend_body env x (with_ride w (findOwnBooking pid x (\<lambda>s. s = DRIVER_PENDING) w)))"
| "start_call (env, CancelBooking pid x reason) w = discard (cancel_body env pid x reason (cancel_read pid x w))"
| "start_call (env, WithdrawBooking pid x reason) w = discard (withdraw_body env x reason
     (with_ride w (findOwnBooking pid x (\<lambda>s. s \<in> set WITHDRAWABLE_BOOKING_STATUSES) w)))"
| "start_call (env, AcceptBooking d x) w = accept_body env d x (accept_read x w)"
| "start_call (env, RejectBooking d x reason) w = reject_body env d x reason (fetchDriverBooking x w)"
| "start_call (env, CancelAfterAccept d x reason) w = cancel_accepted_body env d x reason (fetchDriverBooking x w)"
| "start_call (env, VerifyPickup d x otp forced) w = verify_pickup_body env d x otp forced (fetchDriverBooking x w)"
| "start_call (env, VerifyDrop d x otp forced) w = verify_drop_body env d x otp forced (fetchDriverBooking x w)"
| "start_call (env, CancelRide d x) w = cancelRide_body env d x (cancelRide_read d x w)"
| "start_call (env, StartRide d x) w = startRide_body env x (startRide_read d x w)"
| "start_call (env, CompleteRide d x) w = completeRide_body env x (completeRide_read d x w)"
| "start_call (env, ListRides d) w = awaitAll (reconcile_read env d w) (reconcile_ride env d)"
| "start_call (env, OpsStartRide d x input) w = ops_start_body env d x input (ops_start_read x w)"
| "start_call (env, DriverArrived d x input) w = driver_arrived_body env d x input (fetchDriverBooking x w)"
| "start_call (env, RiderArrived pid x input) w = rider_arrived_body env pid x input (fetchDriverBooking x w)"
| "start_call (env, Board d x otp input) w = board_body env d x otp input (fetchDriverBooking x w)"
| "start_call (env, MarkNoShow d x input) w = no_show_body env d x input (fetchDriverBooking x w)"
| "start_call (env, ConfirmDropoff d x input) w = dropoff_body env d x input (fetchDriverBooking x w)"
| "start_call (env, RiderConfirmDropoff pid x input) w = rider_dropoff_body env pid x input (fetchDriverBooking x w)"
| "start_call (env, ReportMissedPickup pid x input) w = missed_pickup_body pid x input (fetchDriverBooking x w)"
| "start_call (env, FinishRide d x input) w = finish_body env d x input (finish_read x w)"
| "start_call (env, SimulatePickup d x input) w = simulate_pickup_body env d x input (fetchDriverBooking x w)"
| "start_call (env, SimulateDropoff d x input) w = simulate_dropoff_body env d x input (fetchDriverBooking x w)"
| "start_call (env, SubmitLocation d x lat lng t) w = submitLocation d x lat lng t"
| "start_call (env, SyncOffline d as) w = discard (syncOfflineActions env d as)"
| "start_call (env, CreateDispute q) w = discard (createDispute env q)"
| "start_call (env, CollectEvidence x) w = discard (collectEvidence x)"
| "start_call (env, EvaluateDispute x) w = discard (evaluateDispute env x)"
| "start_call (env, ResolveDispute x rs who) w = resolveDispute env x rs who"
| "start_call (env, OverdueCheck) w = forEach (overdue_read env w) (check_overdue env)"
| "start_call (env, DeadlineJob job x) w = start_job env job x (with_ride w (findBooking x w))"
| "start_call (env, UnpaidSweep) w = runUnpaidBookingSweep env"
| "start_call (env, DeadlineCheck) w = discard (checkExpiredDeadlines env)"
| "start_call (env, RequestCheckouts) w = checkouts_body env (pending_checkouts env w)"
| "start_call (env, Webhook x ev) w = discard (handleStripeWebhook env x ev)"

lemma run_gets: "andThen (gets f) k w = k (f w) w"
  and discard_gets: "discard (andThen (gets f) k) w = discard (k (f w)) w"
  by (simp_all add: run_andThen run_andDo)

text \<open>Undisturbed, a call is its handler.\<close>

lemma serve_rider:
  "start_call (env, CreateBooking pid input f) w w = discard (createBooking env pid input f) w"
  "start_call (env, ConfirmPayment pid x) w w = discard (confirmBookingPayment env pid x) w"
  "start_call (env, ResumePayment pid x) w w = discard (resumeBookingPayment env pid x) w"
  "start_call (env, ExtendWait pid x) w w = discard (extendWaitForDriver env pid x) w"
  "start_call (env, CancelBooking pid x reason) w w = discard (cancelBooking env pid x reason) w"
  "start_call (env, WithdrawBooking pid x reason) w w = discard (withdrawBooking env pid x reason) w"
  unfolding createBooking_def confirmBookingPayment_def resumeBookingPayment_def extendWaitForDriver_def cancelBooking_def withdrawBooking_def start_call.simps
  by (rule discard_gets[symmetric] run_gets[symmetric])+

lemma serve_driver:
  "start_call (env, AcceptBooking d x) w w = acceptBooking env d x w"
  "start_call (env, RejectBooking d x rs) w w = rejectBooking env d x rs w"
  "start_call (env, CancelAfterAccept d x rs) w w = cancelAfterAccept env d x rs w"
  "start_call (env, VerifyPickup d x otp forced) w w = verifyPickupOtp env d x otp forced w"
  "start_call (env, VerifyDrop d x otp forced) w w = verifyDropOtp env d x otp forced w"
  "start_call (env, CancelRide d x) w w = cancelRide env d x w"
  unfolding acceptBooking_def rejectBooking_def cancelAfterAccept_def verifyPickupOtp_def verifyDropOtp_def cancelRide_def start_call.simps
  by (rule discard_gets[symmetric] run_gets[symmetric])+

lemma serve_trip:
  "start_call (env, StartRide d x) w w = startRide env d x w"
  "start_call (env, CompleteRide d x) w w = completeRide env d x w"
  "start_call (env, ListRides d) w w = reconcileDriverRideListStatuses env d w"
  "start_call (env, OpsStartRide d x i) w w = opsStartRide env d x i w"
  "start_call (env, DriverArrived d x i) w w = driverArrived env d x i w"
  "start_call (env, RiderArrived d x i) w w = riderArrivedAtPickup env d x i w"
  "start_call (env, Board d x otp i) w w = verifyPickupAndBoard env d x otp i w"
  "start_call (env, MarkNoShow d x i) w w = markNoShow env d x i w"
  "start_call (env, ConfirmDropoff d x i) w w = confirmDropoff env d x i w"
  "start_call (env, RiderConfirmDropoff d x i) w w = riderConfirmDropoff env d x i w"
  "start_call (env, ReportMissedPickup d x i) w w = reportMissedPickup d x i w"
  "start_call (env, FinishRide d x i) w w = finishRide env d x i w"
  "start_call (env, SimulatePickup d x i) w w = devSimulatePickup env d x i w"
  "start_call (env, SimulateDropoff d x i) w w = devSimulateDropoff env d x i w"
  "start_call (env, OverdueCheck) w w = runRideOverdueCheck env w"
  unfolding startRide_def completeRide_def reconcileDriverRideListStatuses_def opsStartRide_def driverArrived_def riderArrivedAtPickup_def verifyPickupAndBoard_def markNoShow_def confirmDropoff_def riderConfirmDropoff_def reportMissedPickup_def finishRide_def devSimulatePickup_def devSimulateDropoff_def runRideOverdueCheck_def start_call.simps
  by (rule discard_gets[symmetric] run_gets[symmetric])+

lemma serve_jobs:
  "start_call (env, DeadlineJob job x) w w = deadlineWorker env job x w"
  "start_call (env, RequestCheckouts) w w = expireRequestCheckouts env w"
proof -
  show "start_call (env, DeadlineJob job x) w w = deadlineWorker env job x w"
    unfolding start_call.simps
  proof (cases job)
    case JOB_INITIAL
    show "start_job env job x (with_ride w (findBooking x w)) w = deadlineWorker env job x w"
      unfolding JOB_INITIAL start_job.simps deadlineWorker.simps handleInitialDeadline_def run_gets ..
  next
    case JOB_EXTENDED
    show "start_job env job x (with_ride w (findBooking x w)) w = deadlineWorker env job x w"
      unfolding JOB_EXTENDED start_job.simps deadlineWorker.simps handleExtendedDeadline_def run_gets ..
  next
    case JOB_REMINDER
    show "start_job env job x (with_ride w (findBooking x w)) w = deadlineWorker env job x w"
      unfolding JOB_REMINDER start_job.simps deadlineWorker.simps handleDeadlineReminder_def run_gets ..
  next
    case JOB_PAYMENT_EXPIRY
    show "start_job env job x (with_ride w (findBooking x w)) w = deadlineWorker env job x w"
      unfolding JOB_PAYMENT_EXPIRY start_job.simps deadlineWorker.simps expireUnpaidBooking_def
      by (rule discard_gets[symmetric])
  qed
  show "start_call (env, RequestCheckouts) w w = expireRequestCheckouts env w"
    unfolding start_call.simps expireRequestCheckouts_split by (rule run_gets[symmetric])
qed

lemma live_discard: "preserves I m \<Longrightarrow> preserves I (discard m)"
  by (intro preserves_andDo preserves_ret)

lemma known_checkout_grows:
  assumes "known_checkout u row" "grows u w"
  shows "known_checkout w row"
proof -
  have "offer_key (fst row) \<in> offer_key ` set (offers w)"
    using assms unfolding known_checkout_def grows_def by (elim conjE) (erule subsetD)
  then show ?thesis using assms(1) known_grows[OF _ assms(2)] by (auto simp: known_checkout_def)
qed

lemma known_found:
  assumes "with_ride w found = Some (b, r)" "\<And>b. found = Some b \<Longrightarrow> b \<in> set (bookings w) \<and> b_id b = x" "grows w u"
  shows "known u (b, r) \<and> x = b_id b"
proof -
  obtain b' where b': "found = Some b'" using assms(1) by (auto simp: with_ride_def split: option.splits)
  then have "known w (b, r)" "b = b'"
    using with_ride_known[of w b' "(b, r)"] assms(1,2) by simp_all
  then show ?thesis using known_grows[OF _ assms(3)] assms(2)[OF b'] by simp
qed

lemma live_start_job:
  assumes "grows w u"
  shows "preserves (live u) (start_job env job x (with_ride w (findBooking x w)))"
proof -
  have k: "known u (b, r) \<and> x = b_id b" if "with_ride w (findBooking x w) = Some (b, r)" for b r
    using that findBooking_mem assms by (rule known_found)
  show ?thesis
  proof (cases job)
    case JOB_INITIAL
    show ?thesis unfolding JOB_INITIAL start_job.simps by (rule live_initial_body)
  next
    case JOB_EXTENDED
    show ?thesis unfolding JOB_EXTENDED start_job.simps by (rule live_extended_body[OF k])
  next
    case JOB_REMINDER
    show ?thesis unfolding JOB_REMINDER start_job.simps by (rule live_reminder_body)
  next
    case JOB_PAYMENT_EXPIRY
    show ?thesis unfolding JOB_PAYMENT_EXPIRY start_job.simps by (rule live_discard[OF live_expire_body[OF k]])
  qed
qed

lemmas live_bodies = live_create_body live_confirm_body live_resume_body live_extend_body live_cancel_body
  live_accept_body live_reject_body live_cancel_accepted_body live_verify_pickup_body live_verify_drop_body
  live_sweep live_checker live_webhook live_trip_bodies live_sync

lemma cancelRide_read_published: "cancelRide_read d x w = Some r \<Longrightarrow> grows w u \<Longrightarrow> published u x"
  unfolding cancelRide_read_def by (drule find_Some_mem, rule published_grows[rotated], assumption) (auto simp: published_def)

lemma published_mem: "r \<in> set (rides w) \<Longrightarrow> r_status r \<noteq> RIDE_DRAFT \<Longrightarrow> grows w u \<Longrightarrow> published u (r_id r)"
  by (rule published_grows[of w]) (auto simp: published_def)

lemma scanned_rows:
  assumes "\<And>r. q r \<Longrightarrow> r_status r \<noteq> RIDE_DRAFT" "row \<in> set (map (with_bookings w) (filter q (rides w)))" "grows w u"
  shows "scanned u row"
  using assms(1,2) by (intro scanned_grows[OF _ assms(3)]) (auto intro!: scanned_with_bookings)

lemma live_start_call:
  assumes "core w" and w: "grows w u"
  shows "preserves (live u) (start_call (env, c) w)"
proof (cases c)
  case (WithdrawBooking pid x reason)
  have k: "known u (b, r) \<and> x = b_id b"
    if "with_ride w (findOwnBooking pid x (\<lambda>s. s \<in> set WITHDRAWABLE_BOOKING_STATUSES) w) = Some (b, r)" for b r
    using that _ w by (rule known_found) (blast dest: findOwnBooking_mem)
  show ?thesis unfolding WithdrawBooking start_call.simps by (rule live_discard[OF live_withdraw_body[OF k]])
next
  case (RequestCheckouts)
  then show ?thesis
    using known_checkout_grows[OF pending_checkouts_known w] by (simp add: live_checkouts_body)
next
  case (CancelRide d x)
  then show ?thesis
    using cancelRide_read_published[OF _ w] by (simp add: live_cancelRide_body)
next
  case (StartRide d x)
  have "published u x" if "startRide_read d x w = Some r" for r
    using that w unfolding startRide_read_def by (auto dest!: find_Some_mem intro: published_mem)
  then show ?thesis unfolding StartRide start_call.simps by (rule live_startRide_body)
next
  case (CompleteRide d x)
  have "published u x" if "completeRide_read d x w = Some r" for r
    using that w unfolding completeRide_read_def by (auto dest!: find_Some_mem intro: published_mem)
  then show ?thesis unfolding CompleteRide start_call.simps by (rule live_completeRide_body)
next
  case (ListRides d)
  have "scanned u row" if "row \<in> set (reconcile_read env d w)" for row
    by (rule scanned_rows[OF _ that[unfolded reconcile_read_def] w]) auto
  then show ?thesis unfolding ListRides start_call.simps by (intro preserves_awaitAll live_reconcile_ride)
next
  case (OverdueCheck)
  have "scanned u row" if "row \<in> set (overdue_read env w)" for row
    by (rule scanned_rows[OF _ that[unfolded overdue_read_def] w]) auto
  then show ?thesis unfolding OverdueCheck start_call.simps by (intro preserves_forEach live_check_overdue)
next
  case (OpsStartRide d x input)
  show ?thesis unfolding OpsStartRide start_call.simps ops_start_read_def
    by (rule live_ops_start_body) (rule found_published[OF _ _ w])
next
  case (FinishRide d x input)
  show ?thesis unfolding FinishRide start_call.simps finish_read_def
    by (rule live_finish_body) (rule found_published[OF _ _ w])
next
  case (SubmitLocation d x lat lng t)
  show ?thesis unfolding SubmitLocation start_call.simps by (intro framed_live framed_intros)
next
  case (CreateDispute q)
  show ?thesis unfolding CreateDispute start_call.simps by (intro framed_live framed_intros)
next
  case (CollectEvidence x)
  show ?thesis unfolding CollectEvidence start_call.simps by (intro framed_live framed_intros)
next
  case (EvaluateDispute x)
  show ?thesis unfolding EvaluateDispute start_call.simps by (intro framed_live framed_intros)
next
  case (ResolveDispute x rs who)
  show ?thesis unfolding ResolveDispute start_call.simps by (intro framed_live framed_intros)
next
  case (DeadlineJob job x)
  then show ?thesis using live_start_job[OF w] by simp
qed (simp_all only: start_call.simps, (rule live_bodies | rule live_discard[OF live_create_body] | rule live_discard, rule live_bodies)+)

interpretation booking: interleaving start_call core grows
proof
  show "grows w w" for w by simp
  show "grows u v \<Longrightarrow> grows v w \<Longrightarrow> grows u w" for u v w by (rule grows_trans)
  show "core w \<Longrightarrow> grows w u \<Longrightarrow> preserves (\<lambda>v. core v \<and> grows u v) (start_call c w)" for w u c
    using live_start_call[of w u "fst c" "snd c"] by (simp add: live_def[abs_def])
qed

end
