(* ===== verification/Booking_Safety.thy ===== *)
theory Booking_Safety
  imports Booking_Machine
begin

text \<open>
  What holds of the booking core however requests, jobs and webhooks interleave: seats are never
  oversold, a status says whether seats are held, and rows keep their identity.
\<close>

subsection \<open>From the invariant\<close>

lemma sum_where_imp:
  assumes "\<And>b. b \<in> set bs \<Longrightarrow> p b \<Longrightarrow> q b" "\<And>b. b \<in> set bs \<Longrightarrow> 0 \<le> (f b :: int)"
  shows "sum_where p f bs \<le> sum_where q f bs"
  using assms by (induction bs) (auto simp: add_increasing intro: add_mono)

lemma core_held_le:
  assumes "core w" "r \<in> set (rides w)"
  shows "sum_where (\<lambda>b. b_rideId b = r_id r \<and> holds_seats (b_status b)) b_seatsBooked (bookings w) \<le> r_totalSeats r"
proof -
  have inv: "seat_inv bookable w" "hold_inv w" using assms by (simp_all add: core_def)
  have "sum_where (\<lambda>b. b_rideId b = r_id r \<and> holds_seats (b_status b)) b_seatsBooked (bookings w)
      \<le> sum_held (\<lambda>b. b_rideId b = r_id r) w"
    unfolding sum_held_def
  proof (rule sum_where_imp)
    fix b assume b: "b \<in> set (bookings w)"
    show "0 \<le> b_seatsBooked b" using inv b unfolding seat_inv_def by force
    show "b_rideId b = r_id r \<and> holds_seats (b_status b) \<Longrightarrow> b_seatsReservedAt b \<noteq> None \<and> b_rideId b = r_id r"
      using inv b by (simp add: hold_inv_def hold_ok_def)
  qed
  also have "\<dots> \<le> r_totalSeats r" using inv(1) assms(2) by (rule seat_inv_held_le)
  finally show ?thesis .
qed

lemma core_available:
  assumes "core w" "r \<in> set (rides w)" "bookable (r_status r)"
  shows "r_availableSeats r = r_totalSeats r - sum_held (\<lambda>b. b_rideId b = r_id r) w"
  using assms by (simp add: core_def seat_inv_def)

abbreviation run_calls_interleaved :: "(env \<times> call) move list \<Rightarrow> world \<Rightarrow> world" where
  "run_calls_interleaved moves w \<equiv> fst (run_schedule start_call moves (w, []))"

lemma sample_core: "core sample_world"
  using sample_world_inv
  by (simp add: core_def seat_inv_def occupancy_inv_def hold_inv_def offer_inv_def hold_ok_def sample_defs)

text \<open>The driver accepts while the rider withdraws: both read the pending booking, the driver acts first.\<close>

definition race :: "(env \<times> call) move list" where
  "race = [Arrive (sample_env, AcceptBooking ''d1'' ''b2''),
     Arrive (sample_env, WithdrawBooking ''u2'' ''b2'' None), Act 0, Act 0]"

lemma race_result:
  "map (\<lambda>r. (r_id r, r_availableSeats r)) (rides (run_calls_interleaved race sample_world)) = [(''r1'', 2)]"
  "map (\<lambda>b. (b_id b, b_status b)) (bookings (run_calls_interleaved race sample_world)) =
     [(''b1'', PAYMENT_PENDING), (''b2'', CONFIRMED)]"
  unfolding race_def run_schedule.simps move_step.simps start_call.simps by code_simp+

lemma race_members:
  "hd (rides (run_calls_interleaved race sample_world)) \<in> set (rides (run_calls_interleaved race sample_world))"
  "hd (bookings (run_calls_interleaved race sample_world)) \<in> set (bookings (run_calls_interleaved race sample_world))"
  using race_result by (auto intro!: hd_in_set)

subsection \<open>Properties\<close>

text \<open>
  C1. No oversell: whatever calls of the booking machine (bookings, payments, decisions, trips, disputes up to their
  resolution, jobs and webhooks) arrive and in whatever order they read and act, on every ride the seats of the
  bookings waiting for the driver or confirmed never exceed its seats, and the counter of free seats of a ride
  that can be booked is exact.
\<close>

theorem interleaved_calls_never_oversell:
  assumes "core w" and "w' = run_calls_interleaved moves w" and "r \<in> set (rides w')"
  shows "sum_where (\<lambda>b. b_rideId b = r_id r \<and> holds_seats (b_status b)) b_seatsBooked (bookings w') \<le> r_totalSeats r \<and>
    (bookable (r_status r) \<longrightarrow>
       r_availableSeats r = r_totalSeats r - sum_held (\<lambda>b. b_rideId b = r_id r) w' \<and> 0 \<le> r_availableSeats r)"
proof -
  have c: "core w'" unfolding assms(2) by (rule booking.schedule_keeps(1)[OF assms(1)])
  then have "sum_held (\<lambda>b. b_rideId b = r_id r) w' \<le> r_totalSeats r"
    using assms(3) by (intro seat_inv_held_le[of bookable]) (simp_all add: core_def)
  then show ?thesis using core_held_le[OF c assms(3)] core_available[OF c assms(3)] by simp
qed

theorem interleaved_calls_never_oversell_witness:
  "let r = hd (rides (run_calls_interleaved race sample_world)) in
     sum_where (\<lambda>b. b_rideId b = r_id r \<and> holds_seats (b_status b)) b_seatsBooked
       (bookings (run_calls_interleaved race sample_world)) \<le> r_totalSeats r"
  using interleaved_calls_never_oversell[OF sample_core refl race_members(1)] unfolding Let_def by (rule conjunct1)

text \<open>
  C2. A status says whether seats are held: under every interleaving of the calls of the booking machine a booking that waits
  for the driver or is confirmed holds its seats, and one that is unpaid, failed, cancelled or refunded because the ride was
  full holds none. Two calls are not among them, because they cancel a booking and leave its seats held:
  \<open>settleDispute\<close> (dispute-settlement.service.ts) and the refund by an administrator (admin.service.ts).
\<close>

theorem status_says_whether_seats_are_held:
  assumes "core w" and "w' = run_calls_interleaved moves w" and "b \<in> set (bookings w')"
  shows "(holds_seats (b_status b) \<longrightarrow> b_seatsReservedAt b \<noteq> None) \<and>
    (holds_none (b_status b) \<longrightarrow> b_seatsReservedAt b = None)"
proof -
  have "core w'" unfolding assms(2) by (rule booking.schedule_keeps(1)[OF assms(1)])
  then show ?thesis using assms(3) by (simp add: core_def hold_inv_def hold_ok_def)
qed

theorem status_says_whether_seats_are_held_witness:
  "b_seatsReservedAt (hd (bookings (run_calls_interleaved race sample_world))) = None"
proof -
  have "b_status (hd (bookings (run_calls_interleaved race sample_world))) = PAYMENT_PENDING"
    using race_result(2) by (cases "bookings (run_calls_interleaved race sample_world)") auto
  then show ?thesis using status_says_whether_seats_are_held[OF sample_core refl race_members(2)] by simp
qed

text \<open>
  C3. Nothing a handler read becomes wrong: under every interleaving of the calls of the booking machine bookings and rides are never deleted, a
  booking keeps its ride, seats and positions, a ride its capacity, and no ride becomes a draft again.
\<close>

theorem rows_keep_their_identity:
  assumes "core w" and "w' = run_calls_interleaved moves w"
  shows "booking_key ` set (bookings w) \<subseteq> booking_key ` set (bookings w') \<and>
    ride_key ` set (rides w) \<subseteq> ride_key ` set (rides w') \<and>
    (\<forall>r \<in> set (rides w). r_status r \<noteq> RIDE_DRAFT \<longrightarrow>
       (\<exists>r' \<in> set (rides w'). r_id r' = r_id r \<and> r_status r' \<noteq> RIDE_DRAFT))"
proof -
  have g: "grows w w'" unfolding assms(2) by (rule booking.schedule_keeps(2)[OF assms(1)])
  have "\<exists>r' \<in> set (rides w'). r_id r' = r_id r \<and> r_status r' \<noteq> RIDE_DRAFT"
    if "r \<in> set (rides w)" "r_status r \<noteq> RIDE_DRAFT" for r
    using published_grows[OF _ g, of "r_id r"] that by (auto simp: published_def)
  then show ?thesis using g by (simp add: grows_def)
qed

theorem rows_keep_their_identity_witness:
  "booking_key sample_booking \<in> booking_key ` set (bookings (run_calls_interleaved race sample_world))"
  using conjunct1[OF rows_keep_their_identity[OF sample_core refl, of race]]
  by (rule subsetD) (simp add: sample_world_def)

end
