(* ===== verification/Outbox_Progress.thy ===== *)
theory Outbox_Progress
  imports Payout
begin

text \<open>
  Progress of the outbox worker (\<open>processOutboxEvents\<close>): a round touches exactly the events it selected,
  an attempt that fails counts, and so an event the worker can reach is settled when it has been tried \<open>MAX_RETRIES\<close>
  times at most, whatever its handler does and whatever else happens to the tables in between.
\<close>

subsection \<open>One attempt\<close>

text \<open>What an attempt may leave behind: a settled event, or one more retry, due after the back-off.\<close>

definition settled :: "outbox_row \<Rightarrow> bool" where
  "settled e \<longleftrightarrow> o_status e = OUTBOX_PROCESSED \<or> o_status e = OUTBOX_FAILED"

definition retried :: "time \<Rightarrow> outbox_row \<Rightarrow> outbox_row \<Rightarrow> bool" where
  "retried now e e' \<longleftrightarrow> o_status e' = OUTBOX_PENDING \<and> o_retryCount e' = o_retryCount e + 1 \<and>
     o_retryCount e' < MAX_RETRIES \<and> o_nextRetryAt e' = Some (now + RETRY_DELAY_MS * 2 ^ nat (o_retryCount e'))"

definition attempted :: "time \<Rightarrow> outbox_row \<Rightarrow> outbox_row \<Rightarrow> bool" where
  "attempted now e e' \<longleftrightarrow> o_id e' = o_id e \<and> (settled e' \<or> retried now e e')"

lemma preserves_outbox_handler:
  assumes "outbox_handler now ty = Some h"
  shows "preserves (\<lambda>w. outbox w = c) (h x)"
proof -
  have u: "preserves (\<lambda>w. outbox w = c) (updatePayment y f)" for y f
    by (rule preservesI) (simp add: updatePayment_def)
  have m: "preserves (\<lambda>w. outbox w = c) (markHeldInEscrow y)" "preserves (\<lambda>w. outbox w = c) (markPayoutEligible now y)" for y
    unfolding markHeldInEscrow_def markPayoutEligible_def findPaymentOrThrow_def assertTransition_def updatePaymentRow_def
    by (intro hoare_intros u)+
  from assms consider
      "h = (\<lambda>payload. case payload of None \<Rightarrow> throw RECORD_NOT_FOUND | Some x \<Rightarrow> andDo (markHeldInEscrow x) (ret ()))"
    | "h = (\<lambda>payload. case payload of None \<Rightarrow> ret () | Some x \<Rightarrow> andDo (markPayoutEligible now x) (ret ()))"
    by (auto simp: outbox_handler_def split: if_splits)
  then show ?thesis by cases (simp_all only:, (intro hoare_intros m)+)
qed

lemma update_where_id: "update_where p f (update_where p g es) = update_where p (\<lambda>e. f (g e)) es"
  if "\<And>e. p (g e) = p e" for p :: "outbox_row \<Rightarrow> bool"
  using that by (induction es) simp_all

text \<open>An attempt never throws, and rewrites the rows with the event's id.\<close>

lemma processOutboxEvent_row:
  shows "\<exists>r f. fst (processOutboxEvent now event w) = Inr r \<and>
    outbox (snd (processOutboxEvent now event w)) = update_where (\<lambda>e. o_id e = o_id event) f (outbox w) \<and>
    attempted now event (f event) \<and> (\<forall>e. o_id (f e) = o_id e)"
proof -
  define w1 where "w1 = w\<lparr>outbox := update_where (\<lambda>e. o_id e = o_id event) (\<lambda>e. e\<lparr>o_status := OUTBOX_PROCESSING\<rparr>) (outbox w)\<rparr>"
  show ?thesis
  proof (cases "outbox_handler now (o_eventType event)")
    case None
    then show ?thesis
      by (auto simp: processOutboxEvent_def updateOutbox_def run_andDo update_where_id attempted_def settled_def
        intro!: exI[of _ "\<lambda>e. e\<lparr>o_status := OUTBOX_FAILED, o_processedAt := Some now\<rparr>"])
  next
    case (Some h)
    obtain v w2 where h: "h (o_paymentId event) w1 = (v, w2)" by (cases "h (o_paymentId event) w1")
    have o2: "outbox w2 = outbox w1"
      using preservesD[OF preserves_outbox_handler[OF Some, of "outbox w1" "o_paymentId event"], of w1] h by simp
    show ?thesis
    proof (cases v)
      case (Inr u)
      then show ?thesis
        using Some h o2 unfolding w1_def
        by (auto simp: processOutboxEvent_def updateOutbox_def run_andDo run_tryCatch update_where_id attempted_def settled_def
          intro!: exI[of _ "\<lambda>e. e\<lparr>o_status := OUTBOX_PROCESSED, o_processedAt := Some now\<rparr>"])
    next
      case (Inl er)
      let ?n = "o_retryCount event + 1"
      show ?thesis
      proof (cases "?n \<ge> MAX_RETRIES")
        case True
        then show ?thesis
          using Some h o2 Inl unfolding w1_def
          by (auto simp: processOutboxEvent_def updateOutbox_def run_andDo run_tryCatch Let_def update_where_id attempted_def settled_def
            intro!: exI[of _ "\<lambda>e. e\<lparr>o_status := OUTBOX_FAILED, o_retryCount := ?n, o_processedAt := Some now\<rparr>"])
      next
        case False
        then show ?thesis
          using Some h o2 Inl unfolding w1_def
          by (auto simp: processOutboxEvent_def updateOutbox_def run_andDo run_tryCatch Let_def update_where_id attempted_def retried_def
            intro!: exI[of _ "\<lambda>e. e\<lparr>o_status := OUTBOX_PENDING, o_retryCount := ?n,
              o_nextRetryAt := Some (now + RETRY_DELAY_MS * 2 ^ nat ?n)\<rparr>"])
      qed
    qed
  qed
qed

subsection \<open>One round\<close>

text \<open>The events of a round are rows of the table; the others keep their row.\<close>

definition round_row :: "time \<Rightarrow> outbox_row list \<Rightarrow> outbox_row \<Rightarrow> outbox_row \<Rightarrow> bool" where
  "round_row now es e e' \<longleftrightarrow> (if e \<in> set es then attempted now e e' else e' = e)"

lemma distinct_map_update_where:
  "(\<And>e. k (f e) = k e) \<Longrightarrow> map k (update_where p f es) = map k es"
  by (rule map_update_where)

lemma processEvents_rows:
  assumes "distinct (map o_id (outbox w))" "distinct es" "set es \<subseteq> set (outbox w)"
  shows "\<exists>r. fst (processEvents now es w) = Inr r \<and>
    list_all2 (round_row now es) (outbox w) (outbox (snd (processEvents now es w)))"
  using assms
proof (induction es arbitrary: w)
  case Nil
  then show ?case by (simp add: round_row_def list_all2_refl)
next
  case (Cons e es)
  obtain r f where e: "fst (processOutboxEvent now e w) = Inr r"
      "outbox (snd (processOutboxEvent now e w)) = update_where (\<lambda>d. o_id d = o_id e) f (outbox w)"
      "attempted now e (f e)" "\<forall>d. o_id (f d) = o_id d"
    using processOutboxEvent_row by blast
  define w1 where "w1 = snd (processOutboxEvent now e w)"
  have run: "processOutboxEvent now e w = (Inr r, w1)" by (simp add: w1_def e(1)[symmetric])
  have o1: "outbox w1 = update_where (\<lambda>d. o_id d = o_id e) f (outbox w)" by (simp add: w1_def e(2))
  have keys: "map o_id (outbox w1) = map o_id (outbox w)" unfolding o1 by (rule map_update_where) (simp add: e(4))
  have only: "o_id d = o_id e \<longleftrightarrow> d = e" if "d \<in> set (outbox w)" for d
    using Cons.prems that by (auto simp: distinct_map inj_on_def)
  have sub: "set es \<subseteq> set (outbox w1)"
  proof
    fix d assume d: "d \<in> set es"
    then have "d \<noteq> e" "d \<in> set (outbox w)" using Cons.prems by auto
    then show "d \<in> set (outbox w1)" unfolding o1 set_update_where using only[of d] by force
  qed
  obtain q where q: "fst (processEvents now es w1) = Inr q"
      "list_all2 (round_row now es) (outbox w1) (outbox (snd (processEvents now es w1)))"
    using Cons.IH[of w1] Cons.prems keys sub by auto
  obtain w2 where w2: "processEvents now es w1 = (Inr q, w2)"
    using q(1) by (cases "processEvents now es w1") simp
  have rows: "list_all2 (round_row now (e # es)) (outbox w) (outbox w2)"
  proof (rule list_all2_all_nthI)
    have len: "length (outbox w1) = length (outbox w)" by (simp add: o1)
    show "length (outbox w) = length (outbox w2)" using list_all2_lengthD[OF q(2)] w2 len by simp
    fix i assume i: "i < length (outbox w)"
    let ?d = "outbox w ! i"
    have nth1: "outbox w1 ! i = (if o_id ?d = o_id e then f ?d else ?d)" using i by (simp add: o1 update_where_def)
    have r1: "round_row now es (outbox w1 ! i) (outbox w2 ! i)"
      using list_all2_nthD[OF q(2), of i] i len w2 by simp
    show "round_row now (e # es) ?d (outbox w2 ! i)"
    proof (cases "?d = e")
      case True
      then have fe: "outbox w1 ! i = f e" using nth1 by simp
      have "f e \<notin> set es"
      proof
        assume m: "f e \<in> set es"
        then have "f e \<in> set (outbox w)" using Cons.prems(3) by auto
        then have "f e = e" using only[of "f e"] e(4) by simp
        then show False using m Cons.prems(2) by simp
      qed
      then show ?thesis using r1 fe e(3) True by (simp add: round_row_def)
    next
      case False
      have "?d \<in> set (outbox w)" using i by simp
      then have "outbox w1 ! i = ?d" using nth1 only False by simp
      then show ?thesis using r1 False by (simp add: round_row_def)
    qed
  qed
  show ?case using run w2 rows by (cases q) (simp add: run_andThen)
qed

lemma dueEvents_set: "set (dueEvents now k w) \<subseteq> set (outbox w)"
  by (auto simp: dueEvents_def dest: in_set_takeD)

lemma dueEvents_distinct: "distinct (map o_id (outbox w)) \<Longrightarrow> distinct (dueEvents now k w)"
  unfolding dueEvents_def by (intro distinct_take distinct_filter) (simp add: distinct_map)

lemma worker_round:
  assumes "distinct (map o_id (outbox w))"
  shows "list_all2 (round_row now (dueEvents now k w)) (outbox w) (outbox (snd (processOutboxEvents now k w)))"
proof -
  obtain r where r: "fst (processEvents now (dueEvents now k w) w) = Inr r"
      "list_all2 (round_row now (dueEvents now k w)) (outbox w) (outbox (snd (processEvents now (dueEvents now k w) w)))"
    using processEvents_rows[OF assms dueEvents_distinct[OF assms] dueEvents_set] by blast
  then show ?thesis
    by (cases r; cases "processEvents now (dueEvents now k w) w") (simp add: processOutboxEvents_def run_andThen)
qed

text \<open>The batch is taken in order, so an event with fewer than \<open>k\<close> pending ones before it is selected as soon as it is due.\<close>

definition due :: "time \<Rightarrow> outbox_row \<Rightarrow> bool" where
  "due now e \<longleftrightarrow> o_status e = OUTBOX_PENDING \<and> (case o_nextRetryAt e of None \<Rightarrow> True | Some t \<Rightarrow> t \<le> now)"

definition pending_before :: "nat \<Rightarrow> outbox_row list \<Rightarrow> nat" where
  "pending_before i es = length (filter (\<lambda>e. o_status e = OUTBOX_PENDING) (take i es))"

lemma take_filter_member:
  "i < length xs \<Longrightarrow> p (xs ! i) \<Longrightarrow> length (filter p (take i xs)) < k \<Longrightarrow> xs ! i \<in> set (take k (filter p xs))"
proof (induction xs arbitrary: i k)
  case (Cons x xs)
  then obtain k' where k: "k = Suc k'" by (cases k) simp_all
  show ?case
  proof (cases i)
    case 0
    then show ?thesis using Cons.prems k by simp
  next
    case (Suc j)
    then show ?thesis using Cons.prems Cons.IH[of j k] Cons.IH[of j k'] k by (cases "p x") simp_all
  qed
qed simp

lemma filter_length_mono: "(\<And>x. x \<in> set xs \<Longrightarrow> p x \<Longrightarrow> q x) \<Longrightarrow> length (filter p xs) \<le> length (filter q xs)"
  by (induction xs) (auto intro: le_SucI)

lemma due_selected:
  assumes "pending_before i (outbox w) < k" "i < length (outbox w)" "due now (outbox w ! i)"
  shows "outbox w ! i \<in> set (dueEvents now k w)"
proof -
  let ?p = "\<lambda>e. o_status e = OUTBOX_PENDING \<and> (case o_nextRetryAt e of None \<Rightarrow> True | Some t \<Rightarrow> t \<le> now)"
  have "length (filter ?p (take i (outbox w))) \<le> pending_before i (outbox w)"
    unfolding pending_before_def by (rule filter_length_mono) simp
  then show ?thesis unfolding dueEvents_def using assms by (intro take_filter_member) (simp_all add: due_def)
qed

lemma not_due_not_selected: "\<not> due now e \<Longrightarrow> e \<notin> set (dueEvents now k w)"
  by (auto simp: due_def dueEvents_def dest: in_set_takeD)

text \<open>A round settles events or leaves them pending: no event becomes pending.\<close>

lemma pending_before_rows:
  assumes "list_all2 (round_row now (dueEvents now k w)) es es'"
  shows "pending_before i es' \<le> pending_before i es"
proof -
  have still: "o_status e = OUTBOX_PENDING" if "round_row now (dueEvents now k w) e e'" "o_status e' = OUTBOX_PENDING" for e e'
    using that not_due_not_selected[of now e k w] by (cases "due now e") (auto simp: round_row_def due_def)
  show ?thesis using assms unfolding pending_before_def
    by (induction es es' arbitrary: i rule: list_all2_induct) (auto simp: take_Cons split: nat.splits dest: still intro: le_SucI)
qed

subsection \<open>Rounds\<close>

text \<open>
  Rounds of the worker at given times, each followed by whatever the other services do: they append events
  and leave the rows that are there alone.
\<close>

definition appends :: "(world \<Rightarrow> world) \<Rightarrow> bool" where
  "appends g \<longleftrightarrow> (\<forall>w. \<exists>es. outbox (g w) = outbox w @ es \<and>
     (distinct (map o_id (outbox w)) \<longrightarrow> distinct (map o_id (outbox w @ es))))"

fun worker_rounds :: "nat \<Rightarrow> (time \<times> (world \<Rightarrow> world)) list \<Rightarrow> world \<Rightarrow> world" where
  "worker_rounds k [] w = w"
| "worker_rounds k ((now, g) # rs) w = worker_rounds k rs (g (snd (processOutboxEvents now k w)))"

text \<open>The worker is called again within \<open>gap\<close>, however often.\<close>

fun polled :: "time \<Rightarrow> time \<Rightarrow> (time \<times> (world \<Rightarrow> world)) list \<Rightarrow> bool" where
  "polled gap p [] = True"
| "polled gap p ((now, g) # rs) = (p \<le> now \<and> now \<le> p + gap \<and> polled gap now rs)"

abbreviation last_round :: "time \<Rightarrow> (time \<times> (world \<Rightarrow> world)) list \<Rightarrow> time" where
  "last_round t rs \<equiv> last (t # map fst rs)"

definition LONGEST_BACKOFF :: time where "LONGEST_BACKOFF = RETRY_DELAY_MS * 2 ^ nat (MAX_RETRIES - 1)"

lemma backoff_bounded:
  assumes "0 \<le> n" "n < MAX_RETRIES"
  shows "RETRY_DELAY_MS * 2 ^ nat n \<le> LONGEST_BACKOFF"
proof -
  have "(2::int) ^ nat n \<le> 2 ^ nat (MAX_RETRIES - 1)"
    using assms by (intro power_increasing) (auto simp: MAX_RETRIES_def)
  then show ?thesis by (simp add: LONGEST_BACKOFF_def RETRY_DELAY_MS_def)
qed

text \<open>
  The event is settled, or the attempts it has left, each after the longest back-off and a wait for the next round, end by \<open>T\<close>.
\<close>

definition on_track :: "time \<Rightarrow> time \<Rightarrow> time \<Rightarrow> outbox_row \<Rightarrow> bool" where
  "on_track gap p T e \<longleftrightarrow> settled e \<or>
     (\<exists>t. due t e \<and> 0 \<le> o_retryCount e \<and> o_retryCount e < MAX_RETRIES \<and>
        max p t + (MAX_RETRIES - o_retryCount e) * (LONGEST_BACKOFF + gap) \<le> T)"

lemma due_later: "due t e \<Longrightarrow> t \<le> now \<Longrightarrow> due now e"
  by (auto simp: due_def split: option.splits)

lemma on_track_round:
  assumes "distinct (map o_id (outbox w))" "pending_before i (outbox w) < k" "i < length (outbox w)"
    and "on_track gap p T (outbox w ! i)" "p \<le> now" "now \<le> p + gap"
  shows "on_track gap now T (outbox (snd (processOutboxEvents now k w)) ! i)"
proof -
  let ?e = "outbox w ! i" and ?e' = "outbox (snd (processOutboxEvents now k w)) ! i"
  have row: "round_row now (dueEvents now k w) ?e ?e'"
    using list_all2_nthD[OF worker_round[OF assms(1)] assms(3)] .
  show ?thesis
  proof (cases "settled ?e")
    case True
    then have "?e \<notin> set (dueEvents now k w)" by (auto simp: settled_def dueEvents_def dest: in_set_takeD)
    then show ?thesis using row True by (simp add: round_row_def on_track_def)
  next
    case False
    then obtain t where e: "due t ?e" "0 \<le> o_retryCount ?e" "o_retryCount ?e < MAX_RETRIES"
      "max p t + (MAX_RETRIES - o_retryCount ?e) * (LONGEST_BACKOFF + gap) \<le> T"
      using assms(4) by (auto simp: on_track_def)
    show ?thesis
    proof (cases "due now ?e")
      case True
      then have "attempted now ?e ?e'" using due_selected[OF assms(2,3)] row by (simp add: round_row_def)
      then consider "settled ?e'" | "retried now ?e ?e'" by (auto simp: attempted_def)
      then show ?thesis
      proof cases
        case 2
        then have d: "due (now + LONGEST_BACKOFF) ?e'" "0 \<le> o_retryCount ?e'" "o_retryCount ?e' < MAX_RETRIES"
          "o_retryCount ?e' = o_retryCount ?e + 1"
          using e(2) backoff_bounded[of "o_retryCount ?e + 1"] by (simp_all add: retried_def due_def)
        have "(MAX_RETRIES - o_retryCount ?e) * (LONGEST_BACKOFF + gap) =
            (MAX_RETRIES - o_retryCount ?e') * (LONGEST_BACKOFF + gap) + (LONGEST_BACKOFF + gap)"
          unfolding d(4) by (simp add: algebra_simps)
        moreover have "0 \<le> LONGEST_BACKOFF" by (simp add: LONGEST_BACKOFF_def RETRY_DELAY_MS_def)
        ultimately have "max now (now + LONGEST_BACKOFF) + (MAX_RETRIES - o_retryCount ?e') * (LONGEST_BACKOFF + gap) \<le> T"
          using e(4) assms(6) by linarith
        then show ?thesis using d(1-3) unfolding on_track_def by blast
      qed (simp add: on_track_def)
    next
      case False
      then have "?e' = ?e" using row not_due_not_selected[OF False] by (simp add: round_row_def)
      moreover have "now < t" using False due_later[OF e(1)] by (metis not_less)
      then have "max now t \<le> max p t" by simp
      then have "max now t + (MAX_RETRIES - o_retryCount ?e) * (LONGEST_BACKOFF + gap) \<le> T" using e(4) by linarith
      ultimately show ?thesis using e(1-3) unfolding on_track_def by metis
    qed
  qed
qed

lemma rounds_settle:
  assumes "distinct (map o_id (outbox w))" "pending_before i (outbox w) < k" "i < length (outbox w)"
    and "on_track gap p T (outbox w ! i)" "polled gap p rs" "\<forall>(now, g) \<in> set rs. appends g" "0 \<le> gap" "T \<le> last_round p rs"
  shows "settled (outbox (worker_rounds k rs w) ! i)"
  using assms
proof (induction rs arbitrary: w p)
  case Nil
  let ?e = "outbox w ! i"
  show ?case
  proof (rule ccontr)
    assume "\<not> settled (outbox (worker_rounds k [] w) ! i)"
    then obtain t where e: "o_retryCount ?e < MAX_RETRIES" "max p t + (MAX_RETRIES - o_retryCount ?e) * (LONGEST_BACKOFF + gap) \<le> T"
      using Nil.prems(4) by (auto simp: on_track_def)
    have "0 < LONGEST_BACKOFF + gap" using Nil.prems(7) by (simp add: LONGEST_BACKOFF_def RETRY_DELAY_MS_def MAX_RETRIES_def)
    then have "0 < (MAX_RETRIES - o_retryCount ?e) * (LONGEST_BACKOFF + gap)" using e(1) by simp
    moreover have "T \<le> p" using Nil.prems(8) by simp
    ultimately show False using e(2) by linarith
  qed
next
  case (Cons r rs)
  obtain now g where r: "r = (now, g)" by (cases r)
  define w1 where "w1 = snd (processOutboxEvents now k w)"
  have rows: "list_all2 (round_row now (dueEvents now k w)) (outbox w) (outbox w1)"
    unfolding w1_def by (rule worker_round[OF Cons.prems(1)])
  have "map o_id (outbox w1) = map o_id (outbox w)"
  proof (rule nth_equalityI)
    show "length (map o_id (outbox w1)) = length (map o_id (outbox w))" using list_all2_lengthD[OF rows] by simp
    fix j assume "j < length (map o_id (outbox w1))"
    then show "map o_id (outbox w1) ! j = map o_id (outbox w) ! j"
      using list_all2_nthD2[OF rows, of j] list_all2_lengthD[OF rows]
      by (auto simp: round_row_def attempted_def split: if_splits)
  qed
  then have d1: "distinct (map o_id (outbox w1))" using Cons.prems(1) by simp
  have "appends g" using Cons.prems(6) r by auto
  then obtain es where es: "outbox (g w1) = outbox w1 @ es" "distinct (map o_id (outbox (g w1)))"
    using d1 unfolding appends_def by metis
  have i1: "i < length (outbox w1)" using Cons.prems(3) list_all2_lengthD[OF rows] by simp
  have p1: "pending_before i (outbox (g w1)) < k"
    using pending_before_rows[OF rows, of i] Cons.prems(2) i1 by (simp add: es(1) pending_before_def)
  have "on_track gap now T (outbox w1 ! i)"
    unfolding w1_def using Cons.prems r by (intro on_track_round[of w i k gap p]) simp_all
  then have "on_track gap now T (outbox (g w1) ! i)" using i1 by (simp add: es(1) nth_append)
  then have "settled (outbox (worker_rounds k rs (g w1)) ! i)"
    using Cons.prems r es(2) p1 i1 by (intro Cons.IH[of _ now]) (simp_all add: es(1))
  then show ?case using r by (simp add: w1_def)
qed

subsection \<open>Property\<close>

text \<open>
  C5. Every outbox event is settled: an event that is due and has fewer than a batch of pending events before it is
  processed or given up for good once the worker has been called for \<open>MAX_RETRIES\<close> times the longest back-off plus the
  greatest pause between its calls, however often it is called in that time, whatever the handler of the event does, whatever the
  other events do, and whatever the other services append in between.
\<close>

theorem outbox_event_settles:
  assumes "distinct (map o_id (outbox w))" and "i < length (outbox w)" and "pending_before i (outbox w) < batchSize"
    and "due t (outbox w ! i)"
    and "0 \<le> o_retryCount (outbox w ! i)" and "o_retryCount (outbox w ! i) < MAX_RETRIES"
    and "polled gap t rounds" and "\<forall>(now, g) \<in> set rounds. appends g" and "0 \<le> gap"
    and "t + MAX_RETRIES * (LONGEST_BACKOFF + gap) \<le> last_round t rounds"
  shows "o_status (outbox (worker_rounds batchSize rounds w) ! i) \<in> {OUTBOX_PROCESSED, OUTBOX_FAILED}"
proof -
  let ?r = "o_retryCount (outbox w ! i)" and ?T = "t + MAX_RETRIES * (LONGEST_BACKOFF + gap)"
  have "(MAX_RETRIES - ?r) * (LONGEST_BACKOFF + gap) \<le> MAX_RETRIES * (LONGEST_BACKOFF + gap)"
    using assms(5,9) by (intro mult_right_mono) (simp_all add: LONGEST_BACKOFF_def RETRY_DELAY_MS_def)
  then have "on_track gap t ?T (outbox w ! i)" unfolding on_track_def using assms(4-6) by (intro disjI2 exI[of _ t]) simp
  from rounds_settle[OF assms(1,3,2) this assms(7,8,9,10)] show ?thesis by (simp add: settled_def)
qed

text \<open>
  Two events, one of them for a payment that does not exist, in a batch of two; a round every sixteen minutes for eleven rounds.
\<close>

definition outbox_world :: world where
  "outbox_world = snd (andDo (writeOutboxEvent ''payment.paid'' (Some ''missing''))
     (writeOutboxEvent ''payment.paid'' (Some ''p1'')) paid_world)"

definition regular_rounds :: "(time \<times> (world \<Rightarrow> world)) list" where
  "regular_rounds = map (\<lambda>n. (LONGEST_BACKOFF * int n, \<lambda>w. w\<lparr>trace := []\<rparr>)) [0 ..< 11]"

theorem outbox_event_settles_witness:
  "o_status (outbox (worker_rounds 2 regular_rounds outbox_world) ! 1) \<in> {OUTBOX_PROCESSED, OUTBOX_FAILED}"
proof (rule outbox_event_settles[where t = 0 and gap = LONGEST_BACKOFF])
  show "distinct (map o_id (outbox outbox_world))" "1 < length (outbox outbox_world)" "pending_before 1 (outbox outbox_world) < 2"
    "due 0 (outbox outbox_world ! 1)"
    "0 \<le> o_retryCount (outbox outbox_world ! 1)" "o_retryCount (outbox outbox_world ! 1) < MAX_RETRIES"
    by (simp_all add: outbox_world_def writeOutboxEvent_def paid_world_def sample_world_def run_andDo due_def MAX_RETRIES_def pending_before_def)
  show "polled LONGEST_BACKOFF 0 regular_rounds" "0 + MAX_RETRIES * (LONGEST_BACKOFF + LONGEST_BACKOFF) \<le> last_round 0 regular_rounds"
    "0 \<le> LONGEST_BACKOFF"
    by (simp_all add: regular_rounds_def upt_rec MAX_RETRIES_def LONGEST_BACKOFF_def RETRY_DELAY_MS_def)
  show "\<forall>(now, g) \<in> set regular_rounds. appends g" by (auto simp: regular_rounds_def appends_def)
qed

end
