(* ===== verification/Dispute_Money.thy ===== *)
theory Dispute_Money
  imports Disputes
begin

text \<open>
  What a settlement of a dispute does to the books and to the seats when it meets a booking that has moved
  on: the settlement writes statuses directly, past the transition table and past the seat counters.
\<close>

subsection \<open>Settling in the driver's favour\<close>

definition settled_dispute :: "env \<Rightarrow> settlement \<Rightarrow> string \<Rightarrow> ident \<Rightarrow> dispute_row \<Rightarrow> dispute_row" where
  "settled_dispute env resolution txt resolvedBy d = d\<lparr>d_status := final_dispute_status resolution,
     d_resolution := Some txt, d_resolvedBy := Some resolvedBy,
     d_resolvedAt := (if resolution = SETTLE_ESCALATE then None else Some (e_now env))\<rparr>"

text \<open>The two closing notifications only reach the trace.\<close>

lemma snd_createNotification: "snd (createNotification env u ty w) = w\<lparr>trace := trace w @ [Notified u ty]\<rparr>"
  by (simp add: createNotification_def run_andDo)

lemma snd_notify_all: "\<exists>es. snd (awaitAll us (\<lambda>u. createNotification env u ty) w) = w\<lparr>trace := trace w @ es\<rparr>"
proof (induction us arbitrary: w)
  case Nil
  show ?case by (intro exI[of _ "[]"]) simp
next
  case (Cons u us)
  obtain v w1 where v: "createNotification env u ty w = (v, w1)" by (cases "createNotification env u ty w")
  then have w1: "w1 = w\<lparr>trace := trace w @ [Notified u ty]\<rparr>" using snd_createNotification[of env u ty w] by simp
  obtain es where "snd (awaitAll us (\<lambda>u. createNotification env u ty) w1) = w1\<lparr>trace := trace w1 @ es\<rparr>" using Cons by blast
  then show ?case using v w1 by (intro exI[of _ "Notified u ty # es"]) (auto split: sum.splits)
qed

record settlement_case =
  sc_dispute :: dispute_row
  sc_booking :: booking_row
  sc_ride :: ride_row
  sc_payment :: payment_row

text \<open>The rows a settlement reads.\<close>

definition settlement_rows :: "ident \<Rightarrow> world \<Rightarrow> settlement_case \<Rightarrow> bool" where
  "settlement_rows x w c \<longleftrightarrow> findDispute x w = Some (sc_dispute c) \<and>
     findBooking (d_bookingId (sc_dispute c)) w = Some (sc_booking c) \<and>
     findRide (b_rideId (sc_booking c)) w = Some (sc_ride c) \<and>
     findPaymentByBooking (b_id (sc_booking c)) w = Some (sc_payment c)"

definition eligible_now :: "env \<Rightarrow> payment_row \<Rightarrow> payment_row" where
  "eligible_now env p = p\<lparr>p_status := P_PAYOUT_ELIGIBLE, p_payoutEligibleAt := Some (e_now env)\<rparr>"

lemma findPayment_of_booking:
  assumes "distinct (map p_id (payments w))" "findPaymentByBooking x w = Some p"
  shows "findPayment (p_id p) w = Some p" "p \<in> set (payments w)" "p_bookingId p = x"
proof -
  show p: "p \<in> set (payments w)" "p_bookingId p = x" using find_Some_mem[OF assms(2)[unfolded findPaymentByBooking_def]] by simp_all
  show "findPayment (p_id p) w = Some p" unfolding findPayment_def by (rule find_key_unique[OF assms(1) p(1)])
qed

lemma settle_payout_run:
  assumes rows: "settlement_rows x w c" and d: "distinct (map p_id (payments w))"
    and "settleable (d_status (sc_dispute c))" and "\<not> already_refunded (sc_booking c)"
  shows "\<exists>es s. snd (settleDispute env x SETTLE_PAYOUT who pct w) = w\<lparr>
    payments := update_where (\<lambda>q. p_id q = p_id (sc_payment c)) (eligible_now env) (payments w),
    bookings := update_where (\<lambda>b. b_id b = b_id (sc_booking c)) (\<lambda>b. b\<lparr>b_status := s\<rparr>) (bookings w),
    disputes := update_where (\<lambda>d. d_id d = x) (settled_dispute env SETTLE_PAYOUT ''PAYOUT'' who) (disputes w),
    trace := trace w @ es\<rparr>"
proof -
  note f = rows[unfolded settlement_rows_def]
  have b: "findBooking (b_id (sc_booking c)) w = Some (sc_booking c)" using f findBooking_mem[of _ w] by auto
  have p: "findPayment (p_id (sc_payment c)) w = Some (sc_payment c)" using findPayment_of_booking[OF d] f by blast
  define s where "s = (if b_status (sc_booking c) = DISPUTED then COMPLETED else b_status (sc_booking c))"
  define w1 where "w1 = w\<lparr>
    payments := update_where (\<lambda>q. p_id q = p_id (sc_payment c)) (eligible_now env) (payments w),
    bookings := update_where (\<lambda>b. b_id b = b_id (sc_booking c)) (\<lambda>b. b\<lparr>b_status := s\<rparr>) (bookings w),
    disputes := update_where (\<lambda>d. d_id d = x) (settled_dispute env SETTLE_PAYOUT ''PAYOUT'' who) (disputes w)\<rparr>"
  obtain es where es: "snd (awaitAll [b_passengerId (sc_booking c), r_driverId (sc_ride c)]
      (\<lambda>u. createNotification env u ''dispute.resolved'') w1) = w1\<lparr>trace := trace w1 @ es\<rparr>"
    using snd_notify_all by blast
  have "snd (settleDispute env x SETTLE_PAYOUT who pct w) =
      snd (awaitAll [b_passengerId (sc_booking c), r_driverId (sc_ride c)] (\<lambda>u. createNotification env u ''dispute.resolved'') w1)"
    using f assms(3,4) b p
    by (simp add: settleDispute_def run_andThen run_andDo with_ride_def settle_payout_def updateOptionalPayment_def
        updatePayment_def updateBooking_def updateDispute_def findBooking_def findDispute_def Let_def w1_def s_def
        settled_dispute_def[abs_def] eligible_now_def[abs_def] del: awaitAll.simps split del: if_split)
  then show ?thesis using es by (intro exI[of _ es] exI[of _ s]) (simp add: w1_def)
qed

text \<open>The settled payment is payable, with every column that decides its amount unchanged.\<close>

lemma settled_payment_payable:
  assumes rows: "settlement_rows x w c" and bk: "books w" and st: "captured (p_status (sc_payment c))"
    and "settleable (d_status (sc_dispute c))" and "\<not> already_refunded (sc_booking c)"
    and only: "\<forall>e \<in> set (disputes w). d_bookingId e = d_bookingId (sc_dispute c) \<and> open_dispute (d_status e) \<longrightarrow> d_id e = x"
    and w'_def: "w' = snd (settleDispute env x SETTLE_PAYOUT who pct w)"
  shows "books w'" "ledger w' = ledger w" "eligible_now env (sc_payment c) \<in> set (filter (payable (r_driverId (sc_ride c)) w') (payments w'))"
proof -
  let ?p = "sc_payment c" and ?b = "sc_booking c" and ?d = "sc_dispute c"
  have d: "distinct (map p_id (payments w))" using bk by (simp add: books_def)
  note f = rows[unfolded settlement_rows_def]
  have p: "findPayment (p_id ?p) w = Some ?p" "?p \<in> set (payments w)" "p_bookingId ?p = b_id ?b"
    using findPayment_of_booking[OF d] f by blast+
  obtain es s where w': "w' = w\<lparr>
    payments := update_where (\<lambda>q. p_id q = p_id ?p) (eligible_now env) (payments w),
    bookings := update_where (\<lambda>b. b_id b = b_id ?b) (\<lambda>b. b\<lparr>b_status := s\<rparr>) (bookings w),
    disputes := update_where (\<lambda>d. d_id d = x) (settled_dispute env SETTLE_PAYOUT ''PAYOUT'' who) (disputes w),
    trace := trace w @ es\<rparr>"
    using settle_payout_run[OF rows d assms(4,5)] unfolding w'_def by blast
  show l: "ledger w' = ledger w" by (simp add: w')
  have "tied w ?p" using bk p(2) by (simp add: books_def)
  then have "tied w (eligible_now env ?p)" using st by (simp add: tied_def eligible_now_def cents_row_def)
  then have "tied w' (eligible_now env ?p)" using tied_cong[OF l] by simp
  then show "books w'"
    using p by (intro books_update[where es = "[]", OF bk p(1)]) (simp_all add: w' eligible_now_def[abs_def])
  have bid: "b_id ?b = d_bookingId ?d" using f findBooking_mem[of _ w] by auto
  have "findBooking (b_id ?b) w' = Some (?b\<lparr>b_status := s\<rparr>)"
    using f bid by (simp add: w' findBooking_def find_update_where)
  moreover have "findRide (b_rideId ?b) w' = Some (sc_ride c)" using f by (simp add: w' findRide_def)
  ultimately have drv: "driver_of_payment w' (eligible_now env ?p) = Some (r_driverId (sc_ride c))"
    using p(3) by (simp add: driver_of_payment_def eligible_now_def)
  have "\<not> (d_bookingId e = b_id ?b \<and> open_dispute (d_status e))" if "e \<in> set (disputes w')" for e
    using that only bid by (auto simp: w' set_update_where settled_dispute_def split: if_splits)
  then have "\<not> hasOpenDisputeForBooking (b_id ?b) w'"
    unfolding hasOpenDisputeForBooking_def using count_where_0_iff[of _ "disputes w'"] by auto
  then have "payable (r_driverId (sc_ride c)) w' (eligible_now env ?p)"
    using drv p(3) by (simp add: payable_def) (simp add: eligible_now_def)
  moreover have "eligible_now env ?p \<in> set (payments w')"
    using p(2) by (auto simp: w' set_update_where)
  ultimately show "eligible_now env ?p \<in> set (filter (payable (r_driverId (sc_ride c)) w') (payments w'))" by simp
qed

lemma transfer_again:
  assumes "books w" "ps = filter (payable d w) (payments w)" "p \<in> set ps" "ledger w' = ledger w @ map (transfer_entry d) ps"
  shows "driver_account (p_id p) w' = driver_account (p_id p) w - (cents (p_fareAmount p) - cents (p_refundedFareAmount p))"
proof -
  note f = payable_facts[OF assms(1,2)]
  have "cents (netFareAmount p) = cents (p_fareAmount p) - cents (p_refundedFareAmount p)"
    using f(2)[OF assms(3)] by (intro netFareAmount_cents) (simp add: tied_def)
  moreover have "sum_where (\<lambda>l. l_paymentId l = p_id p \<and> l_accountType l = ACC_DRIVER) signed_cents (map (transfer_entry d) ps)
      = signed_cents (transfer_entry d p)"
    by (rule sum_where_entry_map[OF f(1) assms(3)]) (simp_all add: transfer_entry_def)
  moreover have "signed_cents (transfer_entry d p) = - cents (netFareAmount p)" by (simp add: transfer_entry_def signed_cents_def)
  ultimately show ?thesis
    unfolding driver_account_def using book_append[of "\<lambda>l. l_accountType l = ACC_DRIVER" "p_id p" w "map (transfer_entry d) ps"] assms(4)
    by (simp add: book_def)
qed

subsection \<open>Properties\<close>

text \<open>
  C9. A settlement can pay a driver twice: when the payment of the disputed booking has already been paid out,
  settling the dispute with PAYOUT makes it eligible again, and the next payout transfers the same fare a second
  time, leaving the driver's account of that payment overdrawn by it.
\<close>

theorem settled_payout_pays_twice:
  assumes "settlement_rows x w c" and "books w" and "p_status (sc_payment c) = P_PAYOUT_COMPLETED"
    and "driver_account (p_id (sc_payment c)) w = 0"
    and "settleable (d_status (sc_dispute c))" and "\<not> already_refunded (sc_booking c)"
    and "\<forall>e \<in> set (disputes w). d_bookingId e = d_bookingId (sc_dispute c) \<and> open_dispute (d_status e) \<longrightarrow> d_id e = x"
    and "pe_account penv (r_driverId (sc_ride c)) = Some (Some a, True)" and "\<forall>n. pe_transfer penv (r_driverId (sc_ride c)) n \<noteq> None"
    and "w1 = snd (settleDispute env x SETTLE_PAYOUT who pct w)"
  shows "case processDriverPayout penv (r_driverId (sc_ride c)) w1 of (Inr (PAID_OUT t amount), w2) \<Rightarrow>
      driver_account (p_id (sc_payment c)) w2 = - (cents (p_fareAmount (sc_payment c)) - cents (p_refundedFareAmount (sc_payment c)))
    | _ \<Rightarrow> False"
proof -
  let ?d = "r_driverId (sc_ride c)" and ?p = "eligible_now env (sc_payment c)"
  let ?ps = "filter (payable ?d w1) (payments w1)"
  have "captured (p_status (sc_payment c))" using assms(3) by simp
  note facts = settled_payment_payable[OF assms(1,2) this assms(5-7,10)]
  obtain t where "pe_transfer penv ?d (cents (payout_total ?ps)) = Some t" using assms(9) by blast
  then have ok: "pe_mock penv \<or> (\<exists>a t. pe_account penv ?d = Some (Some a, True) \<and> pe_transfer penv ?d (cents (payout_total ?ps)) = Some t)"
    using assms(8) by blast
  have ne: "?ps \<noteq> []" by (rule notI) (use facts(3) in simp)
  obtain tr w2 where run: "processDriverPayout penv ?d w1 = (Inr (PAID_OUT tr (payout_total ?ps)), w2)"
    and l: "ledger w2 = ledger w1 @ map (transfer_entry ?d) ?ps"
    by (rule payout_success[OF facts(1) refl ne ok])
  have "driver_account (p_id ?p) w1 = 0"
    using assms(4) facts(2) by (simp add: driver_account_def book_def eligible_now_def)
  then have "driver_account (p_id ?p) w2 = - (cents (p_fareAmount ?p) - cents (p_refundedFareAmount ?p))"
    using transfer_again[OF facts(1) refl facts(3) l] by simp
  then show ?thesis using run by (simp add: eligible_now_def)
qed

definition dispute_sample :: dispute_row where
  "dispute_sample = \<lparr>d_id = ''x1'', d_rideId = ''r1'', d_bookingId = ''b1'', d_raisedBy = ''d1'', d_reason = ''NO_PAYOUT'',
     d_status = DISPUTE_OPEN, d_resolution = None, d_resolvedBy = None, d_resolvedAt = None, d_description = None,
     d_evidence = None, d_recommendation = None, d_riskScore = None\<rparr>"

text \<open>The sample payment, paid out, with a dispute raised afterwards.\<close>

definition paid_out_world :: world where
  "paid_out_world = payout_world\<lparr>payments := [sample_payment\<lparr>p_status := P_PAYOUT_COMPLETED\<rparr>],
     ledger := ledger payout_world @ [transfer_entry ''d1'' sample_payment], disputes := [dispute_sample]\<rparr>"

definition paid_out_case :: settlement_case where
  "paid_out_case = \<lparr>sc_dispute = dispute_sample, sc_booking = sample_booking, sc_ride = sample_ride,
     sc_payment = sample_payment\<lparr>p_status := P_PAYOUT_COMPLETED\<rparr>\<rparr>"

lemma paid_out_facts:
  "settlement_rows ''x1'' paid_out_world paid_out_case" "books paid_out_world" "driver_account ''p1'' paid_out_world = 0"
proof -
  show "settlement_rows ''x1'' paid_out_world paid_out_case"
    by (simp add: settlement_rows_def paid_out_world_def paid_out_case_def payout_world_def paid_world_def sample_payment_def
        dispute_sample_def findDispute_def findBooking_def findRide_def findPaymentByBooking_def sample_defs)
  have l: "ledger payout_world = ledger paid_world" by (simp add: payout_world_def)
  have n: "cents (netFareAmount sample_payment) = 1000" by (subst netFareAmount_cents) (simp_all add: sample_payment_def cents_row_def)
  show "books paid_out_world"
    by (simp add: paid_out_world_def l books_def paid_world_def sample_payment_def tied_def cents_row_def book_def received_entries_def
      received_of_def signed_cents_def transfer_entry_def)
  show "driver_account ''p1'' paid_out_world = 0"
    unfolding paid_out_world_def l
    by (simp add: driver_account_def book_def paid_world_def received_entries_def received_of_def signed_cents_def
        transfer_entry_def n) (simp add: sample_payment_def)
qed

theorem settled_payout_pays_twice_witness:
  "case processDriverPayout payout_sample_env ''d1'' (snd (settleDispute sample_env ''x1'' SETTLE_PAYOUT ''admin'' None paid_out_world)) of
     (Inr (PAID_OUT t amount), w2) \<Rightarrow> driver_account ''p1'' w2 = - 1000 | _ \<Rightarrow> False"
proof -
  have r: "r_driverId (sc_ride paid_out_case) = ''d1''" "p_id (sc_payment paid_out_case) = ''p1''"
    "cents (p_fareAmount (sc_payment paid_out_case)) = 1000" "cents (p_refundedFareAmount (sc_payment paid_out_case)) = 0"
    by (simp_all add: paid_out_case_def sample_ride_def sample_payment_amounts)
  have "case processDriverPayout payout_sample_env (r_driverId (sc_ride paid_out_case))
      (snd (settleDispute sample_env ''x1'' SETTLE_PAYOUT ''admin'' None paid_out_world)) of (Inr (PAID_OUT t amount), w2) \<Rightarrow>
      driver_account (p_id (sc_payment paid_out_case)) w2 =
        - (cents (p_fareAmount (sc_payment paid_out_case)) - cents (p_refundedFareAmount (sc_payment paid_out_case)))
    | _ \<Rightarrow> False"
    by (rule settled_payout_pays_twice[OF paid_out_facts(1,2), where a = "''acct1''" and env = sample_env])
      (simp_all add: r(2) paid_out_facts(3), simp_all add: paid_out_case_def dispute_sample_def sample_booking_def already_refunded_def
        paid_out_world_def payout_sample_env_def)
  then show ?thesis unfolding r by (simp only: diff_0_right)
qed

end
