(* ===== verification/Completion_Payout.thy ===== *)
theory Completion_Payout
  imports Trip_Live
begin

text \<open>
  Which ways of completing a booking lead to a payout: the eligibility sweep reads \<open>completedAt\<close>, which only
  the rider's confirmation (and its simulation) sets.
\<close>

definition undated :: "ident \<Rightarrow> world \<Rightarrow> bool" where
  "undated x w \<longleftrightarrow> (\<forall>b \<in> set (bookings w). b_id b = x \<longrightarrow> b_completedAt b = None)"

definition keeps_date :: "(booking_row \<Rightarrow> booking_row) \<Rightarrow> bool" where
  "keeps_date f \<longleftrightarrow> (\<forall>b. b_completedAt (f b) = b_completedAt b \<and> b_id (f b) = b_id b)"

lemma undated_update_where: "keeps_date f \<Longrightarrow> bookings w' = update_where p f (bookings w) \<Longrightarrow> undated x w \<Longrightarrow> undated x w'"
  by (auto simp: undated_def keeps_date_def set_update_where)

subsection \<open>What a successful completion writes\<close>

definition completed_by_code :: "env \<Rightarrow> booking_row \<Rightarrow> booking_row" where
  "completed_by_code env b = b\<lparr>b_status := COMPLETED, b_dropOtpVerifiedAt := Some (e_now env), b_otpAttemptCount := 0\<rparr>"

lemma indexed_ok: "updateBookingIndexed x f w = (Inr u, w') \<Longrightarrow> findBooking x w \<noteq> None \<and>
   w' = w\<lparr>bookings := update_where (\<lambda>b. b_id b = x) f (bookings w)\<rparr>"
  unfolding updateBookingIndexed_def checkActiveIndex_def transaction_ok by (simp only: ok_simps) blast

lemma verifyDropOtp_ok:
  assumes "verifyDropOtp env d x otp force w = (Inr (), w')"
  shows "bookings w' = update_where (\<lambda>b. b_id b = x) (completed_by_code env) (bookings w)"
proof -
  from assms obtain b valid where
    "(if \<not> valid \<and> \<not> fc_forced force then
        andDo (updateBooking x (\<lambda>b. b\<lparr>b_otpAttemptCount := b_otpAttemptCount b + 1\<rparr>)) (throw (Err ''INVALID_DROP_OTP''))
      else andDo (updateBookingIndexed x (completed_by_code env))
        (andDo (createNotification env (b_passengerId b) ''booking.trip.completed'')
        (andDo (callModule env ''booking-completion-rewards'' x)
          (auditForcedOtp env force d b ''DROP_OTP_VERIFIED'')))) w = (Inr (), w')"
    unfolding verifyDropOtp_def verify_drop_body_def Let_def completed_by_code_def[abs_def]
    by (simp only: ok_simps requireDriver_ok assert_ok) (auto simp only: ok_simps assert_ok prod.case split: prod.splits)
  then obtain w1 where 1: "updateBookingIndexed x (completed_by_code env) w = (Inr (), w1)"
    and 2: "andDo (createNotification env (b_passengerId b) ''booking.trip.completed'')
      (andDo (callModule env ''booking-completion-rewards'' x)
        (auditForcedOtp env force d b ''DROP_OTP_VERIFIED'')) w1 = (Inr (), w')"
    unfolding if_ok by (auto simp only: andDo_ok[of "updateBooking x f" for f] throw_ok split: if_splits elim!: andDo_okE[of "updateBookingIndexed x f" for f])
  have "bookings w' = bookings w1" using 2 by (rule framed_booking[rotated]) (intro framed_intros)
  then show ?thesis using indexed_ok[OF 1] by simp
qed

lemma completeRide_ok:
  assumes "completeRide env d x w = (Inr (), w')"
  shows "bookings w' = update_where (\<lambda>b. b_rideId b = x \<and> b_status b = IN_PROGRESS) (\<lambda>b. b\<lparr>b_status := COMPLETED\<rparr>) (bookings w)"
proof -
  from assms obtain w1 where 1: "completeRide_tx x w = (Inr (), w1)"
    and 2: "andDo (callModule env ''ride-completion-rewards'' x)
      (andThen (gets (\<lambda>w. filter (\<lambda>b. b_rideId b = x \<and> b_status b = COMPLETED) (bookings w))) (\<lambda>completedBookings.
       andDo (awaitAll completedBookings (\<lambda>b. createNotification env (b_passengerId b) ''ride.completed''))
         (awaitAll completedBookings (\<lambda>b. callModule env ''booking-completion-rewards'' (b_id b))))) w1 = (Inr (), w')"
    unfolding completeRide_def completeRide_body_def
    by (auto simp only: andThen_ok[of "gets (completeRide_read d x)"] andThen_ok[of "ofOption e v" for e v] gets_ok ofOption_ok
        elim!: andDo_okE[of "completeRide_tx x"])
  have "bookings w' = bookings w1" using 2 by (rule framed_booking[rotated]) (intro framed_intros)
  moreover have "bookings w1 = update_where (\<lambda>b. b_rideId b = x \<and> b_status b = IN_PROGRESS) (\<lambda>b. b\<lparr>b_status := COMPLETED\<rparr>) (bookings w)"
    using 1 unfolding completeRide_tx_def transaction_ok by (simp only: ok_simps) (elim exE conjE, simp)
  ultimately show ?thesis by simp
qed

lemma riderConfirmDropoff_ok:
  assumes "riderConfirmDropoff env pid x input w = (Inr (), w')" and "\<not> ei_force input"
  shows "\<exists>b. findBooking x w = Some b \<and> b_status b = DROP_PENDING \<and>
    bookings w' = update_where (\<lambda>b. b_id b = x) (\<lambda>b. b\<lparr>b_status := COMPLETED, b_riderDropoffConfirmedAt := Some (e_now env),
      b_completedAt := Some (e_now env)\<rparr>) (bookings w) \<and> disputes w' = disputes w \<and> payments w' = payments w"
proof -
  let ?f = "\<lambda>b. b\<lparr>b_status := COMPLETED, b_riderDropoffConfirmedAt := Some (e_now env), b_completedAt := Some (e_now env)\<rparr>"
  have nf: "\<not> fc_forced (force_of input)" using assms(2) by (simp add: createForceContext_def)
  from assms(1) obtain b r w1 where b: "with_ride w (findBooking x w) = Some (b, r)" "b_status b = DROP_PENDING"
    and 1: "updateBooking x ?f w = (Inr (), w1)"
    and 2: "andDo (callModule env ''booking-completion-rewards'' x)
      (andDo (recordEvent (b_rideId b) (Some x) ''DROPOFF_CONFIRMED_RIDER'' ''RIDER'' pid input VALID False (fc_forced (force_of input)))
      (andDo (handleForcedAction env (force_of input) ''DROPOFF_CONFIRMED_RIDER'' (b_rideId b) x (r_driverId r) pid)
        (createNotification env (r_driverId r) ''booking.dropoff_confirmed''))) w1 = (Inr (), w')"
    unfolding riderConfirmDropoff_def rider_dropoff_body_def Let_def fetchDriverBooking_def
    by (auto simp only: guards_ok nf prod.case split_paired_Ex elim!: andDo_okE[of "updateBooking x ?f"])
  have "preserves (\<lambda>v. bookings v = bookings w1 \<and> disputes v = disputes w1 \<and> payments v = payments w1)
      (andDo (callModule env ''booking-completion-rewards'' x)
      (andDo (recordEvent (b_rideId b) (Some x) ''DROPOFF_CONFIRMED_RIDER'' ''RIDER'' pid input VALID False (fc_forced (force_of input)))
      (andDo (handleForcedAction env (force_of input) ''DROPOFF_CONFIRMED_RIDER'' (b_rideId b) x (r_driverId r) pid)
        (createNotification env (r_driverId r) ''booking.dropoff_confirmed''))))"
    unfolding recordEvent_def handleForcedAction_def
    by (intro hoare_intros preserves_external preserves_modify) (simp_all add: tables_only_def nf)
  from preservesD[OF this, of w1] have "bookings w' = bookings w1 \<and> disputes w' = disputes w1 \<and> payments w' = payments w1"
    using 2 by simp
  moreover have "findBooking x w = Some b" using b(1) by (auto simp: with_ride_def split: option.splits)
  ultimately show ?thesis using 1 b(2) by (auto simp: updateBooking_ok)
qed

subsection \<open>The eligibility sweep\<close>

text \<open>A payment of the booking in escrow or already released, in a state whose bookings and disputes are fixed.\<close>

definition due_for_release :: "booking_row list \<Rightarrow> dispute_row list \<Rightarrow> ident \<Rightarrow> ident \<Rightarrow> world \<Rightarrow> bool" where
  "due_for_release bs ds x y w \<longleftrightarrow> bookings w = bs \<and> disputes w = ds \<and>
     (\<exists>p. findPayment y w = Some p \<and> p_bookingId p = x \<and> p_status p \<in> {P_HELD_IN_ESCROW, P_PAYOUT_ELIGIBLE})"

lemma due_outbox: "preserves (due_for_release bs ds x y) (updateOutbox i f)"
  unfolding updateOutbox_def by (rule preserves_modify) (simp add: due_for_release_def findPayment_def)

lemma due_guarded:
  assumes "\<And>p. p_id (f p) = p_id p \<and> p_bookingId (f p) = p_bookingId p \<and> p_status (f p) = s"
    and "s \<in> {P_HELD_IN_ESCROW, P_PAYOUT_ELIGIBLE}"
  shows "preserves (due_for_release bs ds x y) (guarded z s f)"
proof (rule preservesI)
  fix w assume w: "due_for_release bs ds x y w"
  then obtain p where p: "findPayment y w = Some p" "p_bookingId p = x" "p_status p \<in> {P_HELD_IN_ESCROW, P_PAYOUT_ELIGIBLE}"
    by (auto simp: due_for_release_def)
  let ?w' = "w\<lparr>payments := update_where (\<lambda>q. p_id q = z) f (payments w)\<rparr>"
  have "due_for_release bs ds x y ?w'"
  proof (cases "y = z")
    case True
    then have "findPayment y ?w' = Some (f p)" using findPayment_update[where f = f and x = z and w = w] assms(1) p(1) by simp
    then show ?thesis using w assms p by (simp add: due_for_release_def)
  next
    case False
    then have "findPayment y ?w' = Some p" using findPayment_update_other[where f = f and x = z and w = w and y = y] assms(1) p(1) by simp
    then show ?thesis using w p by (simp add: due_for_release_def)
  qed
  then show "due_for_release bs ds x y (snd (guarded z s f w))"
    using w run_guarded[where f = f and x = z and target = s and w = w] assms(1) by (auto split: option.splits)
qed

lemma due_outbox_event: "preserves (due_for_release bs ds x y) (processOutboxEvent now e)"
proof -
  have m: "preserves (due_for_release bs ds x y) (markHeldInEscrow z)" "preserves (due_for_release bs ds x y) (markPayoutEligible now z)" for z
    unfolding guarded_helpers guarded_def[symmetric] by (rule due_guarded; simp)+
  have h: "preserves (due_for_release bs ds x y) (h z)" if "outbox_handler now ty = Some h" for ty h z
    using that by (cases z) (auto simp: outbox_handler_def split: if_splits intro!: hoare_intros m)
  show ?thesis
    unfolding processOutboxEvent_def Let_def by (intro hoare_intros due_outbox h)
qed

lemma due_outbox_events: "preserves (due_for_release bs ds x y) (processOutboxEvents now k)"
proof -
  have "preserves (due_for_release bs ds x y) (processEvents now es)" for es
  proof (induction es)
    case Nil
    show ?case unfolding processEvents.simps by (rule preserves_ret)
  next
    case (Cons e es)
    show ?case unfolding processEvents.simps by (intro hoare_intros preserves_case_prod due_outbox_event Cons)
  qed
  then show ?thesis unfolding processOutboxEvents_def by (intro hoare_intros preserves_case_prod)
qed

lemma processOutboxEvents_returns: "\<exists>r w'. processOutboxEvents now k w = (Inr r, w')"
proof -
  have e: "\<exists>r w'. processOutboxEvent now e w = (Inr r, w')" for e w
    by (auto simp: processOutboxEvent_def updateOutbox_def run_andDo run_tryCatch Let_def split: option.split prod.split sum.split)
  have "\<exists>r w'. processEvents now es w = (Inr r, w')" for es w
  proof (induction es arbitrary: w)
    case (Cons a es)
    obtain r w1 where "processOutboxEvent now a w = (Inr r, w1)" using e by blast
    moreover obtain q w2 where "processEvents now es w1 = (Inr q, w2)" using Cons by blast
    ultimately show ?case by (cases q) (simp add: run_andThen)
  qed simp
  then obtain r w' where "processEvents now (dueEvents now k w) w = (Inr r, w')" by blast
  then show ?thesis by (cases r) (simp add: processOutboxEvents_def run_andThen)
qed

definition released :: "time \<Rightarrow> payment_row \<Rightarrow> payment_row" where
  "released now p = p\<lparr>p_status := P_PAYOUT_ELIGIBLE, p_payoutEligibleAt := Some now\<rparr>"

lemma run_release:
  assumes "\<forall>p \<in> set ps. findPayment (p_id p) w \<noteq> None"
  shows "forEach ps (\<lambda>p. updatePayment (p_id p) (released now)) w =
    (Inr (), w\<lparr>payments := update_where (\<lambda>q. p_id q \<in> p_id ` set ps) (released now) (payments w)\<rparr>)"
  using assms
proof (induction ps arbitrary: w)
  case Nil
  have "update_where (\<lambda>y. False) f rows = rows" for f :: "payment_row \<Rightarrow> payment_row" and rows by (induction rows) auto
  then show ?case by simp
next
  case (Cons p ps)
  let ?w1 = "w\<lparr>payments := update_where (\<lambda>q. p_id q = p_id p) (released now) (payments w)\<rparr>"
  have step: "updatePayment (p_id p) (released now) w = (Inr (), ?w1)" using Cons.prems by (auto simp: updatePayment_def)
  have "findPayment (p_id q) ?w1 \<noteq> None" if "q \<in> set ps" for q
    using Cons.prems that findPayment_update_other[of "released now" "p_id q" "p_id p" w]
      findPayment_update[of "p_id p" "released now" w] by (cases "p_id q = p_id p") (auto simp: released_def)
  then have ih: "forEach ps (\<lambda>p. updatePayment (p_id p) (released now)) ?w1 =
      (Inr (), ?w1\<lparr>payments := update_where (\<lambda>q. p_id q \<in> p_id ` set ps) (released now) (payments ?w1)\<rparr>)"
    using Cons.IH by blast
  have "update_where (\<lambda>q. p_id q \<in> p_id ` set ps) (released now) (update_where (\<lambda>q. p_id q = p_id p) (released now) rows) =
      update_where (\<lambda>q. p_id q \<in> p_id ` set (p # ps)) (released now) rows" for rows
    by (induction rows) (auto simp: released_def)
  then show ?case using step ih by (simp add: run_andDo)
qed

lemma sweep_releases:
  assumes "due_for_release bs ds x y w"
    and "\<And>v p. bookings v = bs \<Longrightarrow> disputes v = ds \<Longrightarrow> p_bookingId p = x \<Longrightarrow> p_status p = P_HELD_IN_ESCROW \<Longrightarrow>
      eligible_for_release (now - delay * 60 * 1000) v p"
  shows "\<exists>q. findPayment y (snd (checkAndMarkEligible delay now w)) = Some q \<and> p_bookingId q = x \<and> p_status q = P_PAYOUT_ELIGIBLE"
proof -
  obtain r w1 where 1: "processOutboxEvents now 50 w = (Inr r, w1)" using processOutboxEvents_returns by blast
  then have d1: "due_for_release bs ds x y w1" using preservesD[OF due_outbox_events assms(1), of now 50] by simp
  then obtain p where p: "findPayment y w1 = Some p" "p_bookingId p = x" "p_status p \<in> {P_HELD_IN_ESCROW, P_PAYOUT_ELIGIBLE}"
    by (auto simp: due_for_release_def)
  let ?ps = "filter (eligible_for_release (now - delay * 60 * 1000) w1) (payments w1)"
  have found: "\<forall>q \<in> set ?ps. findPayment (p_id q) w1 \<noteq> None"
    unfolding findPayment_def using find_key_None_iff[of p_id _ "payments w1"] by auto
  have run: "snd (checkAndMarkEligible delay now w) =
      w1\<lparr>payments := update_where (\<lambda>q. p_id q \<in> p_id ` set ?ps) (released now) (payments w1)\<rparr>"
    using run_release[OF found, of now] 1
    by (simp add: checkAndMarkEligible_def run_andThen run_andDo Let_def released_def[abs_def])
  have "find (\<lambda>q. p_id q = y) (update_where (\<lambda>q. p_id q \<in> p_id ` set ?ps) (released now) (payments w1)) =
      map_option (\<lambda>q. if p_id q \<in> p_id ` set ?ps then released now q else q) (find (\<lambda>q. p_id q = y) (payments w1))"
    by (rule find_update_where) (simp add: released_def)
  then have f: "findPayment y (snd (checkAndMarkEligible delay now w)) =
      Some (if p_id p \<in> p_id ` set ?ps then released now p else p)"
    using p(1) unfolding run findPayment_def by simp
  have "p \<in> set ?ps" if "p_status p = P_HELD_IN_ESCROW"
    using assms(2)[of w1 p] d1 p that find_Some_mem[OF p(1)[unfolded findPayment_def]] by (simp add: due_for_release_def)
  then show ?thesis using f p(2,3) by (auto simp: released_def)
qed

subsection \<open>Properties\<close>

text \<open>
  C6. A confirmed drop-off gets paid: once the rider confirms the drop-off of a booking whose payment is in escrow,
  with no open dispute about it, the next eligibility sweep after the delay makes the payment eligible for payout,
  whatever the outbox of that sweep holds.
\<close>

theorem rider_confirmation_releases_payment:
  assumes "riderConfirmDropoff env pid x input w = (Inr (), w1)" and "\<not> ei_force input"
    and "findPayment y w = Some p" and "p_bookingId p = x" and "p_status p = P_HELD_IN_ESCROW"
    and "\<not> hasOpenDisputeForBooking x w" and "e_now env + delay * 60 * 1000 < now"
  shows "\<exists>q. findPayment y (snd (checkAndMarkEligible delay now w1)) = Some q \<and> p_bookingId q = x \<and>
    p_status q = P_PAYOUT_ELIGIBLE"
proof -
  obtain b where b: "findBooking x w = Some b"
    and bs: "bookings w1 = update_where (\<lambda>b. b_id b = x) (\<lambda>b. b\<lparr>b_status := COMPLETED, b_riderDropoffConfirmedAt := Some (e_now env),
      b_completedAt := Some (e_now env)\<rparr>) (bookings w)"
    and t: "disputes w1 = disputes w" "payments w1 = payments w"
    using riderConfirmDropoff_ok[OF assms(1,2)] by auto
  have b1: "find (\<lambda>b. b_id b = x) (bookings w1) = Some (b\<lparr>b_status := COMPLETED, b_riderDropoffConfirmedAt := Some (e_now env),
      b_completedAt := Some (e_now env)\<rparr>)"
    using b findBooking_mem[OF b] unfolding findBooking_def bs by (simp add: find_update_where)
  show ?thesis
  proof (rule sweep_releases)
    show "due_for_release (bookings w1) (disputes w) x y w1"
      using assms(3-5) t by (simp add: due_for_release_def findPayment_def)
    show "eligible_for_release (now - delay * 60 * 1000) v q"
      if "bookings v = bookings w1" "disputes v = disputes w" "p_bookingId q = x" "p_status q = P_HELD_IN_ESCROW" for v q
      using that b1 assms(6,7) findBooking_mem[OF b]
      by (simp add: eligible_for_release_def findBooking_def hasOpenDisputeForBooking_def)
  qed
qed

text \<open>The sample booking waiting for the rider's confirmation, its payment in escrow.\<close>

definition dropoff_world :: world where
  "dropoff_world = sample_world\<lparr>bookings := [sample_booking\<lparr>b_status := DROP_PENDING, b_seatsReservedAt := Some 5\<rparr>],
     payments := [sample_payment\<lparr>p_status := P_HELD_IN_ESCROW\<rparr>]\<rparr>"

definition plain_input :: event_input where
  "plain_input = \<lparr>ei_actionId = ''e1'', ei_lat = None, ei_lng = None, ei_clientTimestamp = 0, ei_force = False, ei_overrideReason = None\<rparr>"

lemma dropoff_confirmed: "fst (riderConfirmDropoff sample_env ''u1'' ''b1'' plain_input dropoff_world) = Inr ()"
  by (simp add: riderConfirmDropoff_def rider_dropoff_body_def fetchDriverBooking_def with_ride_def findBooking_def findRide_def
      dropoff_world_def sample_defs sample_env_def plain_input_def run_andThen run_andDo assertForceAllowedOnRide_def assertOrForce_def
      createForceContext_def updateBooking_def callModule_def recordEvent_def handleForcedAction_def createNotification_def whenM_def Let_def)

theorem rider_confirmation_releases_payment_witness:
  "\<exists>q. findPayment ''p1'' (snd (checkAndMarkEligible 60 5000000
     (snd (riderConfirmDropoff sample_env ''u1'' ''b1'' plain_input dropoff_world)))) = Some q \<and> p_bookingId q = ''b1'' \<and>
     p_status q = P_PAYOUT_ELIGIBLE"
proof (rule rider_confirmation_releases_payment)
  show "riderConfirmDropoff sample_env ''u1'' ''b1'' plain_input dropoff_world =
      (Inr (), snd (riderConfirmDropoff sample_env ''u1'' ''b1'' plain_input dropoff_world))"
    by (rule prod_eqI) (simp_all add: dropoff_confirmed)
  show "findPayment ''p1'' dropoff_world = Some (sample_payment\<lparr>p_status := P_HELD_IN_ESCROW\<rparr>)"
    by (simp add: findPayment_def dropoff_world_def sample_payment_def)
qed (simp_all add: plain_input_def sample_payment_def sample_env_def hasOpenDisputeForBooking_def dropoff_world_def sample_world_def)

text \<open>
  C10. Completing a booking by the drop-off code, or all bookings of a ride by completing the ride, never leads to a
  payout: both set the status but not \<open>completedAt\<close>, so the booking counts as completed and yet no eligibility
  sweep, however late, selects its payment.
\<close>

theorem completion_without_date_is_never_released:
  assumes "findBooking x w = Some b" and "b_completedAt b = None"
    and "verifyDropOtp env d x otp force w = (Inr (), w') \<or>
      completeRide env d (b_rideId b) w = (Inr (), w') \<and> b_status b = IN_PROGRESS"
    and "p_bookingId p = x"
  shows "(\<exists>b'. findBooking x w' = Some b' \<and> b_status b' = COMPLETED) \<and> \<not> eligible_for_release cutoff w' p"
proof -
  have "\<exists>b'. findBooking x w' = Some b' \<and> b_status b' = COMPLETED \<and> b_completedAt b' = None"
  proof (rule disjE[OF assms(3)])
    assume "verifyDropOtp env d x otp force w = (Inr (), w')"
    then show ?thesis
      using assms(1,2) findBooking_mem[OF assms(1)] unfolding findBooking_def
      by (simp add: verifyDropOtp_ok find_update_where completed_by_code_def)
  next
    assume "completeRide env d (b_rideId b) w = (Inr (), w') \<and> b_status b = IN_PROGRESS"
    then show ?thesis
      using assms(1,2) unfolding findBooking_def
      by (auto simp: completeRide_ok find_update_where)
  qed
  then show ?thesis using assms(4) by (auto simp: eligible_for_release_def)
qed

definition code_world :: world where
  "code_world = dropoff_world\<lparr>bookings := [sample_booking\<lparr>b_status := IN_PROGRESS, b_seatsReservedAt := Some 5,
     b_dropOtpHash := Some ''#42'', b_dropOtpExpiresAt := Some 2000000\<rparr>]\<rparr>"

lemma code_accepted: "fst (verifyDropOtp sample_env ''d1'' ''b1'' (Some ''42'') \<lparr>fc_forced = False, fc_reason = None\<rparr> code_world) = Inr ()"
  by (simp add: verifyDropOtp_def verify_drop_body_def fetchDriverBooking_def with_ride_def findBooking_def findRide_def requireDriverBooking_def
      code_world_def dropoff_world_def sample_defs sample_env_def run_andThen run_andDo assertForceAllowedOnRide_def assertOrForce_def
      updateBookingIndexed_def transaction_def run_transaction checkActiveIndex_def active_index_def MAX_OTP_ATTEMPTS_def isOtpValid_def
      updateBooking_def callModule_def createNotification_def whenM_def auditForcedOtp_def Let_def)

theorem completion_without_date_is_never_released_witness:
  "\<not> eligible_for_release 99999999999 (snd (verifyDropOtp sample_env ''d1'' ''b1'' (Some ''42'')
     \<lparr>fc_forced = False, fc_reason = None\<rparr> code_world)) (sample_payment\<lparr>p_status := P_HELD_IN_ESCROW\<rparr>)"
proof (rule conjunct2[OF completion_without_date_is_never_released])
  let ?run = "verifyDropOtp sample_env ''d1'' ''b1'' (Some ''42'') \<lparr>fc_forced = False, fc_reason = None\<rparr> code_world"
  have "?run = (Inr (), snd ?run)" by (rule prod_eqI) (simp_all add: code_accepted)
  then show "?run = (Inr (), snd ?run) \<or> completeRide sample_env ''d1'' (b_rideId (hd (bookings code_world))) code_world = (Inr (), snd ?run) \<and>
      b_status (hd (bookings code_world)) = IN_PROGRESS" ..
  show "findBooking ''b1'' code_world = Some (hd (bookings code_world))" "b_completedAt (hd (bookings code_world)) = None"
    by (simp_all add: findBooking_def code_world_def sample_booking_def)
qed (simp add: sample_payment_def)

end
