(* ===== verification/Decisions.thy ===== *)
theory Decisions
  imports Booking_Live
begin

text \<open>
  What a driver's acceptance and a rider's change of mind do exactly: the conditions of an acceptance and the
  one row it writes, and the two ways out of a booking that waits for the driver, compared.
\<close>

subsection \<open>Accepting\<close>

definition may_accept :: "env \<Rightarrow> ident \<Rightarrow> ident \<Rightarrow> world \<Rightarrow> booking_row \<Rightarrow> ride_row \<Rightarrow> time \<times> time \<Rightarrow> bool" where
  "may_accept env d x w b r expiries \<longleftrightarrow>
     findBooking x w = Some b \<and> findRide (b_rideId b) w = Some r \<and> r_driverId r = d \<and>
     (\<exists>u. findUser d w = Some u \<and> u_dlVerified u) \<and>
     b_status b = DRIVER_PENDING \<and> b_seatsReservedAt b \<noteq> None \<and>
     (\<forall>t. b_driverDecisionDeadlineAt b = Some t \<longrightarrow> e_now env \<le> t) \<and>
     bookingOtpExpiries (r_departureDate r) (r_departureTime r) (r_routeDurationSeconds r) (e_now env) = Some expiries"

lemma accept_count:
  assumes "distinct (map b_id (bookings w))" "findBooking x w = Some b"
  shows "count_where (\<lambda>b. b_id b = x \<and> b_status b = s \<and> b_seatsReservedAt b \<noteq> None) (bookings w) = 0 \<longleftrightarrow>
    \<not> (b_status b = s \<and> b_seatsReservedAt b \<noteq> None)"
proof -
  have "b \<in> set (bookings w)" "b_id b = x" using findBooking_mem[OF assms(2)] by simp_all
  then show ?thesis
    using distinct_key_eq[OF assms(1)] unfolding count_where_0_iff by metis
qed

lemma update_pending_only:
  assumes "distinct (map b_id (bookings w))" "findBooking x w = Some b" "p b"
  shows "update_where (\<lambda>b. b_id b = x \<and> p b) f (bookings w) = update_where (\<lambda>b. b_id b = x) f (bookings w)"
proof -
  have "b \<in> set (bookings w)" "b_id b = x" using findBooking_mem[OF assms(2)] by simp_all
  then show ?thesis
    unfolding update_where_def using assms(3) distinct_key_eq[OF assms(1)] by (intro map_cong) metis+
qed

lemma fetch_iff: "fetchDriverBooking x w = Some (b, r) \<longleftrightarrow> findBooking x w = Some b \<and> findRide (b_rideId b) w = Some r"
  by (auto simp: fetchDriverBooking_def with_ride_def split: option.splits)

lemma decision_window_ok: "andDo (assertDecisionWindowOpen env t) m w = (Inr a, w') \<longleftrightarrow>
  (\<forall>d. t = Some d \<longrightarrow> e_now env \<le> d) \<and> m w = (Inr a, w')"
  by (auto simp: assertDecisionWindowOpen_def run_andDo split: option.splits)

lemma require_then_ok: "andThen (requireDriverBooking d v) k w = (Inr a, w') \<longleftrightarrow>
  (\<exists>b r. v = Some (b, r) \<and> r_driverId r = d \<and> k (b, r) w = (Inr a, w'))"
  by (cases v) (auto simp: requireDriverBooking_def run_andThen run_andDo split: if_splits)

lemma notify_ok: "createNotification env u ty w = (Inr a, w') \<longleftrightarrow> e_notify env u ty \<and> w' = w\<lparr>trace := trace w @ [Notified u ty]\<rparr>"
  by (auto simp: createNotification_def run_andDo)

lemma updateBookings_then_ok: "andThen (updateBookings p f) k w = (Inr a, w') \<longleftrightarrow>
  k (count_where p (bookings w)) (w\<lparr>bookings := update_where p f (bookings w)\<rparr>) = (Inr a, w')"
  by (simp add: updateBookings_def run_andThen)

lemma run_decision_window: "assertDecisionWindowOpen env t w =
  (if \<forall>d. t = Some d \<longrightarrow> e_now env \<le> d then Inr () else fst (assertDecisionWindowOpen env t w), w)"
  by (auto simp: assertDecisionWindowOpen_def run_andDo split: option.splits)

lemma decision_window_closed: "\<not> (\<forall>d. t = Some d \<longrightarrow> e_now env \<le> d) \<Longrightarrow> \<exists>e. assertDecisionWindowOpen env t w = (Inl e, w)"
  by (auto simp: assertDecisionWindowOpen_def run_andDo split: option.splits)

lemma run_updateBookings: "updateBookings p f w = (Inr (count_where p (bookings w)), w\<lparr>bookings := update_where p f (bookings w)\<rparr>)"
  by (simp add: updateBookings_def run_andThen run_andDo)

text \<open>
  C8. What accepting does on every branch. If the caller drives the ride and is verified, the booking waits for the driver and
  holds its seats, the decision deadline has not passed, and the departure can be read, then the booking is confirmed with two
  fresh codes and nothing else in the tables changes; the call returns, or fails when the notification fails, with the
  booking confirmed all the same. In every other case it fails and writes nothing.
\<close>

theorem acceptBooking_exactly:
  assumes "distinct (map b_id (bookings w))"
  shows "(\<forall>b r expiries. may_accept env d x w b r expiries \<longrightarrow> acceptBooking env d x w =
      (if e_notify env (b_passengerId b) ''booking.driver.accepted'' then Inr () else Inl SIDE_EFFECT_FAILED,
       w\<lparr>bookings := update_where (\<lambda>b. b_id b = x) (accepted_row env expiries) (bookings w),
         trace := trace w @ [Notified (b_passengerId b) ''booking.driver.accepted'']\<rparr>)) \<and>
    ((\<forall>b r expiries. \<not> may_accept env d x w b r expiries) \<longrightarrow> (\<exists>e. acceptBooking env d x w = (Inl e, w)))"
proof (intro conjI allI impI)
  fix b r expiries assume "may_accept env d x w b r expiries"
  note f = this[unfolded may_accept_def]
  let ?p = "\<lambda>b. b_id b = x \<and> b_status b = DRIVER_PENDING \<and> b_seatsReservedAt b \<noteq> None"
  have read: "accept_read x w = (Some (b, r), True)" using f fetch_iff[of x w b r] by (auto simp: accept_read_def)
  have c: "count_where ?p (bookings w) \<noteq> 0" using accept_count[OF assms, of x b DRIVER_PENDING] f by simp
  have up: "update_where ?p g (bookings w) = update_where (\<lambda>b. b_id b = x) g (bookings w)" for g
    using update_pending_only[OF assms, of x b "\<lambda>b. b_status b = DRIVER_PENDING \<and> b_seatsReservedAt b \<noteq> None"] f by simp
  show "acceptBooking env d x w =
      (if e_notify env (b_passengerId b) ''booking.driver.accepted'' then Inr () else Inl SIDE_EFFECT_FAILED,
       w\<lparr>bookings := update_where (\<lambda>b. b_id b = x) (accepted_row env expiries) (bookings w),
         trace := trace w @ [Notified (b_passengerId b) ''booking.driver.accepted'']\<rparr>)"
    using f c run_decision_window[of env "b_driverDecisionDeadlineAt b" w]
    by (simp add: acceptBooking_def accept_body_def run_andThen run_andDo read requireDriverBooking_def run_updateBookings up
      createNotification_def del: not_None_eq)
next
  assume no: "\<forall>b r expiries. \<not> may_accept env d x w b r expiries"
  show "\<exists>e. acceptBooking env d x w = (Inl e, w)"
  proof (cases "fetchDriverBooking x w")
    case None
    then show ?thesis by (simp add: acceptBooking_def accept_body_def run_andThen accept_read_def requireDriverBooking_def)
  next
    case (Some q)
    obtain b r where q: "fetchDriverBooking x w = Some (b, r)" using Some by (cases q) simp
    then have f: "findBooking x w = Some b" "findRide (b_rideId b) w = Some r" by (simp_all add: fetch_iff)
    let ?v = "\<exists>u. findUser d w = Some u \<and> u_dlVerified u" and ?n = "bookingOtpExpiries (r_departureDate r) (r_departureTime r) (r_routeDurationSeconds r) (e_now env)"
    let ?p = "\<lambda>b. b_id b = x \<and> b_status b = DRIVER_PENDING \<and> b_seatsReservedAt b \<noteq> None"
    have read: "accept_read x w = (Some (b, r), case findUser (r_driverId r) w of None \<Rightarrow> False | Some u \<Rightarrow> u_dlVerified u)"
      by (simp add: accept_read_def q)
    have open_or: "(\<forall>t. b_driverDecisionDeadlineAt b = Some t \<longrightarrow> e_now env \<le> t) \<or>
        (\<exists>e. assertDecisionWindowOpen env (b_driverDecisionDeadlineAt b) w = (Inl e, w))" using decision_window_closed by blast
    have seatless: "b_seatsReservedAt b = None" if "r_driverId r = d" "?v" "b_status b = DRIVER_PENDING"
      "\<forall>t. b_driverDecisionDeadlineAt b = Some t \<longrightarrow> e_now env \<le> t" "?n = Some expiries" for expiries
      using no[rule_format, of b r expiries] f that unfolding may_accept_def by blast
    have none: "count_where ?p (bookings w) = 0" if "r_driverId r = d" "?v" "b_status b = DRIVER_PENDING"
      "\<forall>t. b_driverDecisionDeadlineAt b = Some t \<longrightarrow> e_now env \<le> t" "?n = Some expiries" for expiries
      using accept_count[OF assms f(1), of DRIVER_PENDING] seatless[OF that] by simp
    consider "r_driverId r \<noteq> d" | "r_driverId r = d" "\<not> ?v" | "r_driverId r = d" "?v" "b_status b \<noteq> DRIVER_PENDING"
      | "r_driverId r = d" "?v" "b_status b = DRIVER_PENDING" "\<exists>e. assertDecisionWindowOpen env (b_driverDecisionDeadlineAt b) w = (Inl e, w)"
      | "r_driverId r = d" "?v" "b_status b = DRIVER_PENDING" "\<forall>t. b_driverDecisionDeadlineAt b = Some t \<longrightarrow> e_now env \<le> t"
      using open_or by blast
    then show ?thesis
    proof cases
      case 5
      then have w: "assertDecisionWindowOpen env (b_driverDecisionDeadlineAt b) w = (Inr (), w)"
        using run_decision_window[of env "b_driverDecisionDeadlineAt b" w] by simp
      show ?thesis
      proof (cases ?n)
        case None
        then show ?thesis using 5(1-3) w
          by (auto simp: acceptBooking_def accept_body_def run_andThen run_andDo read requireDriverBooking_def)
      next
        case (Some expiries)
        have "update_where ?p g (bookings w) = bookings w" for g by (rule update_where_none[OF none[OF 5 Some]])
        then show ?thesis using 5(1-3) w Some none[OF 5 Some]
          by (auto simp: acceptBooking_def accept_body_def run_andThen run_andDo read requireDriverBooking_def run_updateBookings simp del: not_None_eq)
      qed
    qed (auto simp: acceptBooking_def accept_body_def run_andThen run_andDo read requireDriverBooking_def split: option.splits)
  qed
qed

text \<open>The driver of the sample ride accepts the pending booking \<open>b2\<close>; with the notification failing, it is confirmed as well.\<close>

theorem acceptBooking_exactly_witness:
  "fst (acceptBooking sample_env ''d1'' ''b2'' sample_world) = Inr () \<and>
   fst (acceptBooking (sample_env\<lparr>e_notify := \<lambda>_ _. False\<rparr>) ''d1'' ''b2'' sample_world) = Inl SIDE_EFFECT_FAILED"
proof -
  have d: "distinct (map b_id (bookings sample_world))" by (simp add: sample_defs)
  let ?b = "bookings sample_world ! 1"
  have m: "may_accept (sample_env\<lparr>e_notify := n\<rparr>) ''d1'' ''b2'' sample_world ?b sample_ride (145800000, 216000000)" for n
    by (simp add: may_accept_def findBooking_def findRide_def findUser_def sample_defs sample_env_def) code_simp
  have "sample_env = sample_env\<lparr>e_notify := \<lambda>_ _. True\<rparr>" by (simp add: sample_env_def)
  moreover have "fst (acceptBooking (sample_env\<lparr>e_notify := n\<rparr>) ''d1'' ''b2'' sample_world) =
      (if n (b_passengerId ?b) ''booking.driver.accepted'' then Inr () else Inl SIDE_EFFECT_FAILED)" for n
    using conjunct1[OF acceptBooking_exactly[OF d, of "sample_env\<lparr>e_notify := n\<rparr>" "''d1''" "''b2''"]] m[of n] by simp
  ultimately show ?thesis by metis
qed

subsection \<open>Cancelling and withdrawing\<close>

lemma cancelBooking_ok:
  assumes "cancelBooking env pid x reason w = (Inr cr, w')"
  shows "\<exists>b r departureAt. with_ride w (findOwnBooking pid x (\<lambda>s. s \<in> set CANCELLABLE_BOOKING_STATUSES) w) = Some (b, r) \<and>
    cr_refundPercent cr = cp_refundPercent (cancel_plan_of env b departureAt reason) \<and>
    cr_refundAmount cr = cp_refundAmount (cancel_plan_of env b departureAt reason)"
proof -
  have ofS: "andThen (ofSum y) k w = (Inr a, w') \<longleftrightarrow> (\<exists>v. y = Inr v \<and> k v w = (Inr a, w'))"
    for y :: "error + int" and k and a :: cancel_result
    by (cases y) (auto simp: run_andThen)
  from assms obtain b r departureAt where b: "with_ride w (findOwnBooking pid x (\<lambda>s. s \<in> set CANCELLABLE_BOOKING_STATUSES) w) = Some (b, r)"
    and rest: "andDo (cancel_tx env pid x (cancel_plan_of env b departureAt reason))
       (andThen (case b_stripePaymentIntentId b of
            None \<Rightarrow> ret False
          | Some y \<Rightarrow>
              if cp_captured (cancel_plan_of env b departureAt reason) \<and> cp_refundAmount (cancel_plan_of env b departureAt reason) > 0 then
                andDo (refundPaymentIntent env y (Some (toMinorCurrencyUnits (cp_refundAmount (cancel_plan_of env b departureAt reason)))))
               (andDo (updateBooking x (\<lambda>b. b\<lparr>b_refundedAt := Some (e_now env)\<rparr>)) (ret True))
              else if \<not> cp_captured (cancel_plan_of env b departureAt reason) then andDo (releaseUnpaidPaymentIntent env y) (ret False)
              else ret False) (\<lambda>refundInitiated.
        andDo (whenM (refundInitiated \<and> cp_refundAmount (cancel_plan_of env b departureAt reason) > 0)
                (bestEffort (andDo (markBookingPaymentRefunded (e_now env) x (r_driverId r)
                   (Some (cp_refundAmount (cancel_plan_of env b departureAt reason)))) (ret ()))))
       (andDo (createNotification env (r_driverId r) ''booking.rider.cancelled'')
        (ret \<lparr>cr_refundPercent = cp_refundPercent (cancel_plan_of env b departureAt reason),
              cr_refundAmount = cp_refundAmount (cancel_plan_of env b departureAt reason),
              cr_refundInitiated = refundInitiated\<rparr>)))) w = (Inr cr, w')"
    unfolding cancelBooking_def cancel_body_def cancel_read_def Let_def
    by (auto simp only: guards_ok if_ok ofS throw_ok prod.case split_paired_Ex split: if_splits)
  have "cr_refundPercent cr = cp_refundPercent (cancel_plan_of env b departureAt reason) \<and>
      cr_refundAmount cr = cp_refundAmount (cancel_plan_of env b departureAt reason)"
    using rest unfolding andDo_ok andThen_ok ret_ok by auto
  then show ?thesis using b by blast
qed

text \<open>The refund recorded on a booking row.\<close>

definition refund_on_row :: "ident \<Rightarrow> jsnum \<Rightarrow> jsnum \<Rightarrow> world \<Rightarrow> bool" where
  "refund_on_row x percent amount w \<longleftrightarrow>
     (\<exists>b. findBooking x w = Some b \<and> b_refundPercent b = Some percent \<and> b_refundAmount b = Some amount)"

definition keeps_refund :: "(booking_row \<Rightarrow> booking_row) \<Rightarrow> bool" where
  "keeps_refund f \<longleftrightarrow> (\<forall>b. b_id (f b) = b_id b \<and> b_refundPercent (f b) = b_refundPercent b \<and> b_refundAmount (f b) = b_refundAmount b)"

lemma refund_update_where:
  assumes "keeps_refund f" "refund_on_row x n a w" "bookings w' = update_where p f (bookings w)"
  shows "refund_on_row x n a w'"
proof -
  obtain b where b: "findBooking x w = Some b" "b_refundPercent b = Some n" "b_refundAmount b = Some a"
    using assms(2) by (auto simp: refund_on_row_def)
  have "findBooking x w' = Some (if p b then f b else b)"
    using b(1) assms(1) unfolding findBooking_def assms(3) by (simp add: find_update_where keeps_refund_def)
  then show ?thesis using b assms(1) by (simp add: refund_on_row_def keeps_refund_def)
qed

lemma refund_tables: "bookings w' = bookings w \<Longrightarrow> refund_on_row x n a w' = refund_on_row x n a w"
  by (simp add: refund_on_row_def findBooking_def)

lemma refund_release: "preserves (refund_on_row x n a) (releaseBookingSeats y i)"
proof -
  have b: "preserves (refund_on_row x n a) (updateBookings p (\<lambda>b. b\<lparr>b_seatsReservedAt := None\<rparr>))" for p
    by (rule preservesI, rule refund_update_where[where f = "\<lambda>b. b\<lparr>b_seatsReservedAt := None\<rparr>"])
      (simp_all add: updateBookings_def keeps_refund_def)
  have s: "preserves (refund_on_row x n a) (updateSegments p f)" "preserves (refund_on_row x n a) (updateRide z g)" for p f z g
    by (rule preservesI, simp add: updateSegments_def updateRide_def refund_on_row_def findBooking_def)+
  show ?thesis
    unfolding releaseBookingSeats_def releaseSegmentSeats_def lockRideForSeats_def recomputeAvailableSeats_def Let_def
    by (intro hoare_intros b s preserves_case_prod)
qed

lemma refund_framed: "framed m \<Longrightarrow> preserves (refund_on_row x n a) m"
  using framed_snd[of m] by (intro preservesI) (simp add: refund_on_row_def findBooking_def booking_tables_def)

lemma withdrawBooking_refund:
  assumes "withdrawBooking env pid x reason w = (Inr ok, w')"
    and "findOwnBooking pid x (\<lambda>s. s \<in> set WITHDRAWABLE_BOOKING_STATUSES) w = Some b" and "distinct (map b_id (bookings w))"
  shows "refund_on_row x 100 (amount_due b) w'"
proof -
  have m: "b \<in> set (bookings w)" "b_id b = x" "b_status b \<in> set WITHDRAWABLE_BOOKING_STATUSES"
    using findOwnBooking_mem[OF assms(2)] by simp_all
  have fb: "findBooking x w = Some b" using find_key_unique[OF assms(3) m(1)] m(2) by (simp add: findBooking_def)
  have w0: "withdraw_body env x reason (with_ride w (Some b)) w = (Inr ok, w')"
    using assms(1,2) unfolding withdrawBooking_def guards_ok by simp
  have "with_ride w (Some b) \<noteq> None"
  proof
    assume "with_ride w (Some b) = None"
    then show False using w0 unfolding withdraw_body_def guards_ok by simp
  qed
  then obtain r where "with_ride w (Some b) = Some (b, r)" by (auto simp: with_ride_def)
  then have run: "withdraw_body env x reason (Some (b, r)) w = (Inr ok, w')" using w0 by simp
  obtain w1 c where 1: "withdraw_tx env x reason b r w = (Inr c, w1)" "c"
    and 2: "andThen (if e_bypass env then ret True
        else (case b_stripePaymentIntentId b of
            None \<Rightarrow> ret False
          | Some y \<Rightarrow>
              if b_paymentCapturedAt b = None then andDo (releaseUnpaidPaymentIntent env y) (ret False)
              else andDo (refundPaymentIntent env y (Some (toMinorCurrencyUnits (amount_due b))))
                  (andDo (updateBooking x (\<lambda>b. b\<lparr>b_refundedAt := Some (e_now env)\<rparr>)) (ret True)))) (\<lambda>refundInitiated.
     andDo (whenM refundInitiated (bestEffort
        (andDo (markBookingPaymentRefunded (e_now env) x (r_driverId r) (Some (amount_due b))) (ret ()))))
    (andDo (createNotification env (r_driverId r) ''booking.rider.withdrawn'')
     (ret refundInitiated))) w1 = (Inr ok, w')" (is "andThen ?refund ?rest w1 = _")
    using run unfolding withdraw_body_def guards_ok prod.case
    by (auto simp only: option.inject prod.inject prod.case andThen_ok[of "withdraw_tx env x reason b r"] guards_ok)
  let ?w0 = "w\<lparr>bookings := update_where (\<lambda>b. b_id b = x \<and> b_status b \<in> set WITHDRAWABLE_BOOKING_STATUSES)
      (withdrawn_row env reason (amount_due b)) (bookings w)\<rparr>"
  have "findBooking x ?w0 = Some (withdrawn_row env reason (amount_due b) b)"
    using fb m unfolding findBooking_def by (simp add: find_update_where withdrawn_row_def Let_def)
  then have "refund_on_row x 100 (amount_due b) ?w0" by (simp add: refund_on_row_def withdrawn_row_def Let_def)
  moreover have "andDo (releaseBookingSeats x (seats_of b r None)) (ret True) ?w0 = (Inr c, w1)"
    using 1 unfolding withdraw_tx_def transaction_ok updateBookings_then_ok if_ok by (auto simp: ret_ok split: if_splits)
  then have "w1 = snd (releaseBookingSeats x (seats_of b r None) ?w0)"
    using snd_andDo_ret[of "releaseBookingSeats x (seats_of b r None)" True ?w0] by simp
  ultimately have i1: "refund_on_row x 100 (amount_due b) w1" using preservesD[OF refund_release] by blast
  have k: "keeps_refund (\<lambda>b. b\<lparr>b_refundedAt := Some (e_now env)\<rparr>)" by (simp add: keeps_refund_def)
  have u: "preserves (refund_on_row x 100 (amount_due b)) (updateBooking x (\<lambda>b. b\<lparr>b_refundedAt := Some (e_now env)\<rparr>))"
  proof (rule preservesI)
    fix v assume "refund_on_row x 100 (amount_due b) v"
    with k have "refund_on_row x 100 (amount_due b) (v\<lparr>bookings := update_where (\<lambda>b. b_id b = x) (\<lambda>b. b\<lparr>b_refundedAt := Some (e_now env)\<rparr>) (bookings v)\<rparr>)"
      by (rule refund_update_where) simp
    then show "refund_on_row x 100 (amount_due b) (snd (updateBooking x (\<lambda>b. b\<lparr>b_refundedAt := Some (e_now env)\<rparr>) v))"
      using \<open>refund_on_row x 100 (amount_due b) v\<close> by (simp add: updateBooking_def)
  qed
  have "preserves (refund_on_row x 100 (amount_due b)) (andThen ?refund ?rest)"
    by (intro hoare_intros u) (intro refund_framed framed_intros)+
  from preservesD[OF this i1] show ?thesis using 2 by simp
qed

lemma find_only:
  assumes "q b" "b \<in> set bs" "\<And>y. y \<in> set bs \<Longrightarrow> q y \<Longrightarrow> y = b"
  shows "find q bs = Some b"
proof (cases "find q bs")
  case None
  then show ?thesis using assms(1,2) by (auto simp: find_None_iff)
next
  case (Some y)
  then show ?thesis using find_Some_mem[OF Some] assms(3)[of y] by simp
qed

text \<open>
  C11. Two ways out of the same booking: a rider whose paid booking still waits for the driver is refunded half or
  nothing when cancelling it, and everything when withdrawing it.
\<close>

theorem withdrawing_beats_cancelling:
  assumes "distinct (map b_id (bookings w))" and "findOwnBooking pid x (\<lambda>s. s = DRIVER_PENDING) w = Some b"
    and "payment_captured b" and "\<forall>t. b_driverDecisionDeadlineAt b = Some t \<longrightarrow> e_now env \<le> t"
    and "cancelBooking env pid x reason w = (Inr cr, w1)" and "withdrawBooking env pid x reason w = (Inr ok, w2)"
  shows "cr_refundPercent cr \<in> {0, 50} \<and>
    (\<exists>b2. findBooking x w2 = Some b2 \<and> b_refundPercent b2 = Some 100 \<and> b_refundAmount b2 = Some (amount_due b))"
proof -
  have m: "b \<in> set (bookings w)" "b_id b = x" "b_status b = DRIVER_PENDING" "b_passengerId b = pid"
    using find_Some_mem[OF assms(2)[unfolded findOwnBooking_def]] by simp_all
  have own: "findOwnBooking pid x p w = Some b" if "p DRIVER_PENDING" for p
  proof -
    show ?thesis
      unfolding findOwnBooking_def
    proof (rule find_only)
      show "b_id b = x \<and> b_passengerId b = pid \<and> p (b_status b)" using m(2-4) that by simp
      show "b \<in> set (bookings w)" by (rule m(1))
      fix y assume "y \<in> set (bookings w)" "b_id y = x \<and> b_passengerId y = pid \<and> p (b_status y)"
      then show "y = b" using distinct_key_eq[OF assms(1) _ m(1)] m(2) by simp
    qed
  qed
  obtain c r dep where c: "with_ride w (findOwnBooking pid x (\<lambda>s. s \<in> set CANCELLABLE_BOOKING_STATUSES) w) = Some (c, r)"
    and p: "cr_refundPercent cr = cp_refundPercent (cancel_plan_of env c dep reason)"
    using cancelBooking_ok[OF assms(5)] by blast
  have "DRIVER_PENDING \<in> set CANCELLABLE_BOOKING_STATUSES" by (simp add: status_lists)
  then have "findOwnBooking pid x (\<lambda>s. s \<in> set CANCELLABLE_BOOKING_STATUSES) w = Some b" by (rule own)
  from c[unfolded this] have "c = b" by (auto simp: with_ride_def)
  then have "cr_refundPercent cr \<in> {0, 50}"
    using p assms(3,4) m by (auto simp: cancel_plan_of_def getRiderRefundPercent_def Let_def split: option.splits)
  moreover have "refund_on_row x 100 (amount_due b) w2"
    by (rule withdrawBooking_refund[OF assms(6) own assms(1)]) (simp add: status_lists)
  ultimately show ?thesis by (simp add: refund_on_row_def)
qed

text \<open>The sample booking, paid, waiting for the driver; the ride leaves more than three hours later.\<close>

definition waiting_world :: world where
  "waiting_world = sample_world\<lparr>bookings := [sample_booking\<lparr>b_status := DRIVER_PENDING, b_seatsReservedAt := Some 5,
     b_paymentCapturedAt := Some 6, b_stripePaymentIntentId := Some ''pi1''\<rparr>]\<rparr>"

lemma waiting_runs:
  "\<not> isl (fst (cancelBooking sample_env ''u1'' ''b1'' None waiting_world))"
  "\<not> isl (fst (withdrawBooking sample_env ''u1'' ''b1'' None waiting_world))"
  by code_simp+

lemma run_eta: "\<not> isl (fst r) \<Longrightarrow> r = (Inr (projr (fst r)), snd r)"
  by (cases r) (auto simp: isl_def split: sum.splits)

theorem withdrawing_beats_cancelling_witness:
  "cr_refundPercent (projr (fst (cancelBooking sample_env ''u1'' ''b1'' None waiting_world))) \<in> {0, 50} \<and>
   refund_on_row ''b1'' 100 (amount_due (hd (bookings waiting_world))) (snd (withdrawBooking sample_env ''u1'' ''b1'' None waiting_world))"
  unfolding refund_on_row_def
proof (rule withdrawing_beats_cancelling[OF _ _ _ _ run_eta[OF waiting_runs(1)] run_eta[OF waiting_runs(2)]])
  show "findOwnBooking ''u1'' ''b1'' (\<lambda>s. s = DRIVER_PENDING) waiting_world = Some (hd (bookings waiting_world))"
    by (simp add: findOwnBooking_def waiting_world_def sample_booking_def)
qed (simp_all add: waiting_world_def sample_booking_def payment_captured_def)

end
