(* ===== verification/Webhook_Once.thy ===== *)
theory Webhook_Once
  imports Webhook
begin

text \<open>
  Deliveries of Stripe events as a stream: each event id is processed at its first delivery and never again,
  whatever that first processing did.
\<close>

subsection \<open>Processing leaves the log of deliveries alone\<close>

definition logged :: "ident list \<Rightarrow> world \<Rightarrow> bool" where
  "logged c w \<longleftrightarrow> webhookEvents w = c"

named_theorems logged_intros \<open>operations that leave the delivered event ids alone\<close>

lemma logged_modify: "(\<And>w. webhookEvents (f w) = webhookEvents w) \<Longrightarrow> preserves (logged c) (modify f)"
  by (rule preserves_modify) (simp add: logged_def)

lemma logged_tables_only: "tables_only (logged c)"
  by (simp add: tables_only_def logged_def)

lemma logged_rows [logged_intros]:
  "preserves (logged c) (updateBookings p fb)" "preserves (logged c) (updateBooking x fb)" "preserves (logged c) (updateRide x fr)"
  "preserves (logged c) (updatePayment x fp)" "preserves (logged c) (updateSegments ps fs)"
  "preserves (logged c) (updateRequests pq fq)" "preserves (logged c) (updateOffers po fo)"
  by (rule preservesI, simp add: store_defs updateRequests_def updateOffers_def logged_def)+

lemma logged_transaction [logged_intros]: "preserves (logged c) m \<Longrightarrow> preserves (logged c) (transaction m)"
  by (rule preserves_world_transaction[OF logged_tables_only]) (use preservesD[of "logged c" m] in fastforce)

lemmas [logged_intros] = preserves_external[OF logged_tables_only] preserves_emit[OF logged_tables_only]

lemma logged_cases [logged_intros]:
  "(\<And>a b. preserves I (k a b)) \<Longrightarrow> preserves I (case p of (a, b) \<Rightarrow> k a b)"
  "preserves I m1 \<Longrightarrow> preserves I m2 \<Longrightarrow> preserves I m3 \<Longrightarrow> preserves I (case cl of CLAIMED \<Rightarrow> m1 | ALREADY_APPLIED \<Rightarrow> m2 | RIDE_FULL \<Rightarrow> m3)"
  by (cases p, simp) (cases cl, simp_all)

lemma logged_ledger [logged_intros]:
  "preserves (logged c) (createEntries ls)" "preserves (logged c) (writeOutboxEvent ty x)" "preserves (logged c) (createPayment y q)"
proof -
  show "preserves (logged c) (createEntries ls)" "preserves (logged c) (writeOutboxEvent ty x)"
    unfolding createEntries_def writeOutboxEvent_def by (simp_all add: logged_modify)
  show "preserves (logged c) (createPayment y q)"
    unfolding createPayment_def Let_def by (intro hoare_intros logged_modify) simp
qed

lemma logged_payments [logged_intros]:
  "preserves (logged c) (markBookingPaymentPaid x d)" "preserves (logged c) (markBookingPaymentRefunded now x d a)"
  "preserves (logged c) (recordProviderFeeExpense x y am cu)"
  unfolding mark_defs findPaymentOrThrow_def record_defs Let_def recordProviderFeeExpense_def
  by (intro hoare_intros logged_intros)+

lemma logged_seats [logged_intros]: "preserves (logged c) (reserveRideSeats i)" "preserves (logged c) (releaseBookingSeats x i)"
  unfolding reserveRideSeats_def releaseBookingSeats_def releaseSegmentSeats_def recomputeAvailableSeats_def lockRideForSeats_def Let_def
  by (intro hoare_intros logged_intros)+

lemma logged_request [logged_intros]: "preserves (logged c) (confirmRequestBooking env x)"
proof -
  have l: "preserves (logged c) (\<lambda>w. if count_where q (payments w) = 0 then (Inl e, w)
      else (Inr (), w\<lparr>payments := update_where q f (payments w)\<rparr>))" for q e f
    by (rule preservesI) (simp add: logged_def)
  show ?thesis
    unfolding confirmRequestBooking_def ensureRequestPayment_def Let_def
    by (intro hoare_intros logged_intros l)
qed

lemma logged_apply [logged_intros]: "preserves (logged c) (applyStripePaymentSucceededToBooking env i)"
  unfolding applyStripePaymentSucceededToBooking_def claim_payment_tx_def claim_payment_def checkActiveIndex_def
    reserveSeatsForBooking_def refundRideFullPayment_def announce_paid_booking_def recordProviderFeeForIntent_def
    reconciliationIssue_def enqueueDeadlineCheck_def Let_def
  by (intro hoare_intros logged_intros)

lemma logged_process: "preserves (logged c) (processStripeEvent env ev)"
  by (cases ev; simp only: processStripeEvent.simps applyPaymentIntentSucceeded_def applyPaymentIntentFailed_def payment_failed_tx_def
      applyChargeRefunded_def applyRefundUpdated_def; intro hoare_intros logged_intros)

subsection \<open>Streams of deliveries\<close>

type_synonym delivery = "env \<times> ident \<times> stripe_event"

fun deliver :: "delivery list \<Rightarrow> world \<Rightarrow> world" where
  "deliver [] w = w"
| "deliver ((env, x, ev) # ds) w = deliver ds (snd (handleStripeWebhook env x ev w))"

text \<open>The deliveries whose id was not seen before.\<close>

fun first_deliveries :: "ident set \<Rightarrow> delivery list \<Rightarrow> delivery list" where
  "first_deliveries seen [] = []"
| "first_deliveries seen ((env, x, ev) # ds) =
     (if x \<in> seen then first_deliveries seen ds else (env, x, ev) # first_deliveries (insert x seen) ds)"

lemma redelivery_ignored: "x \<in> set (webhookEvents w) \<Longrightarrow> handleStripeWebhook env x ev w = (Inr True, w)"
  by (simp add: handleStripeWebhook_def run_andThen)

lemma delivery_logged: "webhookEvents (snd (handleStripeWebhook env x ev w)) =
  (if x \<in> set (webhookEvents w) then webhookEvents w else webhookEvents w @ [x])"
proof (cases "x \<in> set (webhookEvents w)")
  case False
  let ?w1 = "w\<lparr>webhookEvents := webhookEvents w @ [x]\<rparr>"
  have "logged (webhookEvents ?w1) (snd (processStripeEvent env ev ?w1))"
    by (rule preservesD[OF logged_process]) (simp add: logged_def)
  then show ?thesis using False by (simp add: handleStripeWebhook_def run_andThen[of "gets f" for f] run_andDo[of "modify f" for f] logged_def)
qed (simp add: redelivery_ignored)

text \<open>
  C7. Each Stripe event takes effect once: whatever events are delivered, in whatever order and however often, the
  outcome is that of processing the first delivery of each id that is not yet logged; a later delivery of an id,
  even after a first one that failed, changes nothing.
\<close>

theorem webhook_stream_equals_first_deliveries:
  "deliver ds w = deliver (first_deliveries (set (webhookEvents w)) ds) w"
proof (induction ds arbitrary: w)
  case (Cons d ds)
  obtain env x ev where d: "d = (env, x, ev)" by (cases d)
  show ?case
    using Cons[of "snd (handleStripeWebhook env x ev w)"] delivery_logged[of env x ev w] redelivery_ignored[of x w env ev]
    by (cases "x \<in> set (webhookEvents w)") (simp_all add: d)
qed simp

end
