(* ===== verification/Trip_Refinement.thy ===== *)
theory Trip_Refinement
  imports Booking_Machine Completion_Payout
begin

text \<open>
  The trip as an abstract machine over the statuses of the bookings, and the proof that every handler of a trip
  implements it: a call that is not forced either leaves all statuses alone or makes exactly the move of the
  abstract machine, and a call that succeeds makes it.
\<close>

subsection \<open>The abstract machine\<close>

datatype trip_event =
    PICKUP_CODE | DROP_CODE | DEPART | ARRIVE | BOARD | LEAVE_BEHIND | MISS | DROP_OFF | CONFIRM | FINISH
  | PICKUP_SIMULATED | DROP_SIMULATED

fun trip_sources :: "trip_event \<Rightarrow> booking_status list" where
  "trip_sources PICKUP_CODE = [CONFIRMED]"
| "trip_sources DROP_CODE = [IN_PROGRESS]"
| "trip_sources DEPART = [CONFIRMED]"
| "trip_sources ARRIVE = [WAITING_FOR_PICKUP]"
| "trip_sources BOARD = [WAITING_FOR_PICKUP, DRIVER_ARRIVED]"
| "trip_sources LEAVE_BEHIND = [WAITING_FOR_PICKUP, DRIVER_ARRIVED]"
| "trip_sources MISS = [WAITING_FOR_PICKUP, CONFIRMED]"
| "trip_sources DROP_OFF = [ONBOARD, IN_PROGRESS]"
| "trip_sources CONFIRM = [DROP_PENDING]"
| "trip_sources FINISH = [IN_PROGRESS]"
| "trip_sources PICKUP_SIMULATED = [WAITING_FOR_PICKUP, DRIVER_ARRIVED]"
| "trip_sources DROP_SIMULATED = [ONBOARD, DROP_PENDING]"

fun trip_target :: "trip_event \<Rightarrow> booking_status" where
  "trip_target PICKUP_CODE = IN_PROGRESS" | "trip_target DROP_CODE = COMPLETED"
| "trip_target DEPART = WAITING_FOR_PICKUP" | "trip_target ARRIVE = DRIVER_ARRIVED"
| "trip_target BOARD = ONBOARD" | "trip_target LEAVE_BEHIND = NO_SHOW"
| "trip_target MISS = DRIVER_MISSED_PICKUP" | "trip_target DROP_OFF = DROP_PENDING"
| "trip_target CONFIRM = COMPLETED" | "trip_target FINISH = COMPLETED"
| "trip_target PICKUP_SIMULATED = ONBOARD" | "trip_target DROP_SIMULATED = COMPLETED"

definition trip_step :: "trip_event \<Rightarrow> booking_status \<Rightarrow> booking_status option" where
  "trip_step e s = (if s \<in> set (trip_sources e) then Some (trip_target e) else None)"

definition step_or_stay :: "trip_event \<Rightarrow> booking_status \<Rightarrow> booking_status" where
  "step_or_stay e s = (case trip_step e s of None \<Rightarrow> s | Some s' \<Rightarrow> s')"

text \<open>The abstraction: the status of every booking.\<close>

definition statuses :: "booking_row list \<Rightarrow> (ident \<times> booking_status) list" where
  "statuses bs = map (\<lambda>b. (b_id b, b_status b)) bs"

definition spec_move :: "trip_event \<Rightarrow> (booking_row \<Rightarrow> bool) \<Rightarrow> booking_row list \<Rightarrow> (ident \<times> booking_status) list" where
  "spec_move e p bs = map (\<lambda>b. (b_id b, if p b then step_or_stay e (b_status b) else b_status b)) bs"

text \<open>Which call is which event, on which bookings.\<close>

fun event_of_call :: "call \<Rightarrow> trip_event option" where
  "event_of_call (VerifyPickup d x otp f) = Some PICKUP_CODE"
| "event_of_call (VerifyDrop d x otp f) = Some DROP_CODE"
| "event_of_call (StartRide d x) = Some DEPART"
| "event_of_call (OpsStartRide d x i) = Some DEPART"
| "event_of_call (DriverArrived d x i) = Some ARRIVE"
| "event_of_call (Board d x otp i) = Some BOARD"
| "event_of_call (MarkNoShow d x i) = Some LEAVE_BEHIND"
| "event_of_call (ReportMissedPickup d x i) = Some MISS"
| "event_of_call (ConfirmDropoff d x i) = Some DROP_OFF"
| "event_of_call (RiderConfirmDropoff d x i) = Some CONFIRM"
| "event_of_call (CompleteRide d x) = Some FINISH"
| "event_of_call (SimulatePickup d x i) = Some PICKUP_SIMULATED"
| "event_of_call (SimulateDropoff d x i) = Some DROP_SIMULATED"
| "event_of_call _ = None"

text \<open>The booking a call is about; \<open>None\<close> when it is about all bookings of a ride.\<close>

fun trip_booking :: "call \<Rightarrow> ident option" where
  "trip_booking (VerifyPickup d x otp f) = Some x" | "trip_booking (VerifyDrop d x otp f) = Some x"
| "trip_booking (DriverArrived d x i) = Some x" | "trip_booking (Board d x otp i) = Some x"
| "trip_booking (MarkNoShow d x i) = Some x" | "trip_booking (ReportMissedPickup d x i) = Some x"
| "trip_booking (ConfirmDropoff d x i) = Some x" | "trip_booking (RiderConfirmDropoff d x i) = Some x"
| "trip_booking (SimulatePickup d x i) = Some x" | "trip_booking (SimulateDropoff d x i) = Some x"
| "trip_booking _ = None"

fun in_scope :: "call \<Rightarrow> booking_row \<Rightarrow> bool" where
  "in_scope (StartRide d x) b = (b_rideId b = x)"
| "in_scope (OpsStartRide d x i) b = (b_rideId b = x)"
| "in_scope (CompleteRide d x) b = (b_rideId b = x)"
| "in_scope c b = (trip_booking c = Some (b_id b))"

fun unforced :: "call \<Rightarrow> bool" where
  "unforced (VerifyPickup d x otp f) = (\<not> fc_forced f)" | "unforced (VerifyDrop d x otp f) = (\<not> fc_forced f)"
| "unforced (DriverArrived d x i) = (\<not> ei_force i)" | "unforced (Board d x otp i) = (\<not> ei_force i)"
| "unforced (MarkNoShow d x i) = (\<not> ei_force i)" | "unforced (ConfirmDropoff d x i) = (\<not> ei_force i)"
| "unforced (RiderConfirmDropoff d x i) = (\<not> ei_force i)"
| "unforced _ = True"

subsection \<open>Handlers that write statuses once\<close>

definition keeps :: "(world, 'a) op \<Rightarrow> bool" where
  "keeps m \<longleftrightarrow> (\<forall>w. bookings (snd (m w)) = bookings w)"

text \<open>From bookings \<open>bs\<close> the handler ends in \<open>bs\<close> or in \<open>goal\<close>, and in \<open>goal\<close>, with \<open>en\<close>, when it returns.\<close>

definition moves :: "booking_row list \<Rightarrow> (ident \<times> booking_status) list \<Rightarrow> bool \<Rightarrow> (world, 'a) op \<Rightarrow> bool" where
  "moves bs goal en m \<longleftrightarrow> (\<forall>w. bookings w = bs \<longrightarrow>
     (case m w of (Inl e, w') \<Rightarrow> statuses (bookings w') = statuses bs \<or> statuses (bookings w') = goal
      | (Inr a, w') \<Rightarrow> statuses (bookings w') = goal \<and> en))"

named_theorems trip_intros \<open>rules for handlers that write statuses once\<close>

lemma keeps_framed: "framed m \<Longrightarrow> keeps m"
  unfolding keeps_def using framed_snd[of m] by (simp add: booking_tables_def)

lemma keeps_updateRide: "keeps (updateRide x f)"
  by (simp add: keeps_def updateRide_def)

lemma moves_first:
  assumes "keeps m" "\<And>a. moves bs goal en (k a)"
  shows "moves bs goal en (andThen m k)"
  unfolding moves_def
proof (intro allI impI)
  fix w :: world assume w: "bookings w = bs"
  obtain v w1 where m: "m w = (v, w1)" by (cases "m w")
  then have w1: "bookings w1 = bs" using assms(1) w unfolding keeps_def by (metis snd_conv)
  show "case andThen m k w of (Inl e, w') \<Rightarrow> statuses (bookings w') = statuses bs \<or> statuses (bookings w') = goal
      | (Inr a, w') \<Rightarrow> statuses (bookings w') = goal \<and> en"
  proof (cases v)
    case (Inr a)
    then show ?thesis using m w1 assms(2)[of a] by (simp add: run_andThen moves_def)
  qed (simp add: run_andThen m w1)
qed

lemma moves_first_do: "keeps m \<Longrightarrow> moves bs goal en n \<Longrightarrow> moves bs goal en (andDo m n)"
  by (simp add: andDo_def moves_first)

lemma moves_throw [trip_intros]: "moves bs goal en (throw e)"
  by (simp add: moves_def)

lemma moves_guards [trip_intros]:
  "(c \<Longrightarrow> moves bs goal en m) \<Longrightarrow> moves bs goal en (andDo (ensure c e) m)"
  "((v \<longrightarrow> fc_forced fo) \<Longrightarrow> moves bs goal en m) \<Longrightarrow> moves bs goal en (andDo (assertOrForce fo v e) m)"
  "moves bs goal en m \<Longrightarrow> moves bs goal en (andDo (assertForceAllowedOnRide fo st) m)"
  "(\<And>y. s = Inr y \<Longrightarrow> moves bs goal en (ks y)) \<Longrightarrow> moves bs goal en (andThen (ofSum s) ks)"
  by (auto simp: moves_def run_andThen run_andDo assertOrForce_def assertForceAllowedOnRide_def split: option.split sum.split)

text \<open>A handler opens by taking its pair of rows apart.\<close>

lemma moves_read [trip_intros]:
  "(\<And>b r. v = Some (b, r) \<Longrightarrow> moves bs goal en (k b r)) \<Longrightarrow> moves bs goal en (andThen (requireDriverBooking d v) (\<lambda>(b, r). k b r))"
  "(\<And>y z. v' = Some (y, z) \<Longrightarrow> moves bs goal en (k' y z)) \<Longrightarrow> moves bs goal en (andThen (ofOption e v') (\<lambda>(y, z). k' y z))"
  by (cases v; cases v'; auto simp: moves_def requireDriverBooking_def run_andThen run_andDo split: prod.split sum.split)+

lemma moves_found:
  "(\<And>y. v = Some y \<Longrightarrow> moves bs goal en (k y)) \<Longrightarrow> moves bs goal en (andThen (ofOption e v) k)"
  by (cases v) (auto simp: moves_def run_andThen)

lemma moves_whenM [trip_intros]:
  "keeps n \<Longrightarrow> moves bs goal en m \<Longrightarrow> moves bs goal en (andDo (whenM c n) m)"
  by (rule moves_first_do) (simp_all add: whenM_def keeps_def)

lemma moves_if [trip_intros]:
  "(c \<Longrightarrow> moves bs goal en m) \<Longrightarrow> (\<not> c \<Longrightarrow> moves bs goal en n) \<Longrightarrow> moves bs goal en (if c then m else n)"
  by simp

text \<open>The write itself; what follows leaves bookings alone.\<close>

lemma moves_then_keeps:
  assumes "moves bs goal en m" "keeps n"
  shows "moves bs goal en (andDo m n)"
  unfolding moves_def
proof (intro allI impI)
  fix w :: world assume w: "bookings w = bs"
  obtain v w1 where m: "m w = (v, w1)" by (cases "m w")
  then have 1: "case v of Inl e \<Rightarrow> statuses (bookings w1) = statuses bs \<or> statuses (bookings w1) = goal
      | Inr a \<Rightarrow> statuses (bookings w1) = goal \<and> en"
    using assms(1) w unfolding moves_def by (metis (no_types, lifting) case_prod_conv)
  have "bookings (snd (n w1)) = bookings w1" using assms(2) by (simp add: keeps_def)
  then show "case andDo m n w of (Inl e, w') \<Rightarrow> statuses (bookings w') = statuses bs \<or> statuses (bookings w') = goal
      | (Inr a, w') \<Rightarrow> statuses (bookings w') = goal \<and> en"
    using 1 m by (cases v; cases "n w1") (auto simp: run_andDo split: sum.split)
qed

lemma moves_updateBooking:
  assumes "statuses (update_where (\<lambda>b. b_id b = x) f bs) = goal" "en"
  shows "moves bs goal en (updateBooking x f)"
  using assms by (simp add: moves_def updateBooking_def)

lemma moves_updateBookings:
  assumes "statuses (update_where p f bs) = goal" "en"
  shows "moves bs goal en (updateBookings p f)"
  using assms by (simp add: moves_def updateBookings_def)

lemma moves_indexed:
  assumes "statuses (update_where (\<lambda>b. b_id b = x) f bs) = goal" "en"
  shows "moves bs goal en (updateBookingIndexed x f)"
  using assms
  by (auto simp: moves_def updateBookingIndexed_def checkActiveIndex_def run_transaction_eq run_andDo run_andThen rollback_def updateBooking_def)

lemma moves_counted:
  assumes "\<And>b. b_id (f b) = b_id b \<and> b_status (f b) = b_status b"
  shows "moves bs goal en (andDo (updateBooking x f) (throw e))"
proof -
  have "statuses (update_where (\<lambda>b. b_id b = x) f bs) = statuses bs"
    unfolding statuses_def using assms by (intro map_update_where) simp
  then show ?thesis by (simp add: moves_def updateBooking_def run_andDo)
qed

lemma moves_transaction:
  assumes "moves bs goal en m"
  shows "moves bs goal en (transaction m)"
  using assms by (auto simp: moves_def run_transaction_eq rollback_def split: sum.splits prod.splits)

subsection \<open>The handlers of one booking\<close>

definition trip_goal :: "trip_event \<Rightarrow> ident \<Rightarrow> booking_row list \<Rightarrow> (ident \<times> booking_status) list" where
  "trip_goal e x bs = spec_move e (\<lambda>b. b_id b = x) bs"

definition enabled :: "trip_event \<Rightarrow> ident \<Rightarrow> booking_row list \<Rightarrow> bool" where
  "enabled e x bs \<longleftrightarrow> (\<exists>b \<in> set bs. b_id b = x \<and> trip_step e (b_status b) \<noteq> None)"

text \<open>A row read from \<open>bs\<close>.\<close>

definition row_of :: "booking_row list \<Rightarrow> ident \<Rightarrow> booking_row \<Rightarrow> bool" where
  "row_of bs x b \<longleftrightarrow> distinct (map b_id bs) \<and> b \<in> set bs \<and> b_id b = x"

lemma single_goal:
  assumes "row_of bs x b" "b_status b \<in> set (trip_sources e)"
    and "\<And>b. b_id (f b) = b_id b \<and> b_status (f b) = trip_target e"
  shows "statuses (update_where (\<lambda>b. b_id b = x) f bs) = trip_goal e x bs" "enabled e x bs"
proof -
  have r: "distinct (map b_id bs)" "b \<in> set bs" "b_id b = x" using assms(1) by (simp_all add: row_of_def)
  have "y = b" if "y \<in> set bs" "b_id y = x" for y
    using distinct_key_eq[OF r(1) that(1) r(2)] that(2) r(3) by simp
  then show "statuses (update_where (\<lambda>b. b_id b = x) f bs) = trip_goal e x bs"
    unfolding statuses_def trip_goal_def spec_move_def update_where_def map_map
    using assms(2,3) by (intro map_cong) (auto simp: step_or_stay_def trip_step_def)
  show "enabled e x bs" using r assms(2) by (auto simp: enabled_def trip_step_def)
qed

lemma moves_write:
  assumes "row_of bs x b" "b_status b \<in> set (trip_sources e)"
    and "\<And>b. b_id (f b) = b_id b \<and> b_status (f b) = trip_target e" and "keeps n"
  shows "moves bs (trip_goal e x bs) (enabled e x bs) (andDo (updateBooking x f) n)"
    "moves bs (trip_goal e x bs) (enabled e x bs) (andDo (updateBookingIndexed x f) n)"
  using single_goal[OF assms(1-3)] assms(4) by (auto intro!: moves_then_keeps moves_updateBooking moves_indexed)


lemma fetched: "fetchDriverBooking x w = Some (b, r) \<Longrightarrow> distinct (map b_id (bookings w)) \<Longrightarrow> row_of (bookings w) x b"
  using findBooking_mem[of x w b] by (auto simp: row_of_def fetchDriverBooking_def with_ride_def split: option.splits)

lemma unforced_of: "\<not> ei_force i \<Longrightarrow> fc_forced (force_of i) = False"
  by (simp add: createForceContext_def)

lemma moves_arrived:
  assumes "\<not> ei_force i" and mv: "\<And>b r. found = Some (b, r) \<Longrightarrow> row_of bs x b"
  shows "moves bs (trip_goal ARRIVE x bs) (enabled ARRIVE x bs) (driver_arrived_body env d x i found)"
  unfolding driver_arrived_body_def Let_def
  by (((rule moves_counted, simp; fail) | (rule moves_write, erule mv) | rule trip_intros | (rule keeps_framed, intro framed_intros; fail)
     | (auto simp: createForceContext_def assms(1); fail))+)

lemma moves_board:
  assumes "\<not> ei_force i" and mv: "\<And>b r. found = Some (b, r) \<Longrightarrow> row_of bs x b"
  shows "moves bs (trip_goal BOARD x bs) (enabled BOARD x bs) (board_body env d x otp i found)"
  unfolding board_body_def Let_def
  by (((rule moves_counted, simp; fail) | (rule moves_write, erule mv) | rule trip_intros | (rule keeps_framed, intro framed_intros; fail)
     | (auto simp: createForceContext_def assms(1); fail))+)

lemma moves_no_show:
  assumes "\<not> ei_force i" and mv: "\<And>b r. found = Some (b, r) \<Longrightarrow> row_of bs x b"
  shows "moves bs (trip_goal LEAVE_BEHIND x bs) (enabled LEAVE_BEHIND x bs) (no_show_body env d x i found)"
  unfolding no_show_body_def Let_def
  by (((rule moves_counted, simp; fail) | (rule moves_write, erule mv) | rule trip_intros | (rule keeps_framed, intro framed_intros; fail)
     | (auto simp: createForceContext_def assms(1); fail))+)

lemma moves_dropoff:
  assumes "\<not> ei_force i" and mv: "\<And>b r. found = Some (b, r) \<Longrightarrow> row_of bs x b"
  shows "moves bs (trip_goal DROP_OFF x bs) (enabled DROP_OFF x bs) (dropoff_body env d x i found)"
  unfolding dropoff_body_def Let_def
  by (((rule moves_counted, simp; fail) | (rule moves_write, erule mv) | rule trip_intros | (rule keeps_framed, intro framed_intros; fail)
     | (auto simp: createForceContext_def assms(1); fail))+)

lemma moves_rider_dropoff:
  assumes "\<not> ei_force i" and mv: "\<And>b r. found = Some (b, r) \<Longrightarrow> row_of bs x b"
  shows "moves bs (trip_goal CONFIRM x bs) (enabled CONFIRM x bs) (rider_dropoff_body env d x i found)"
  unfolding rider_dropoff_body_def Let_def
  by (((rule moves_counted, simp; fail) | (rule moves_write, erule mv) | rule trip_intros | (rule keeps_framed, intro framed_intros; fail)
     | (auto simp: createForceContext_def assms(1); fail))+)

lemma moves_missed:
  assumes mv: "\<And>b r. found = Some (b, r) \<Longrightarrow> row_of bs x b"
  shows "moves bs (trip_goal MISS x bs) (enabled MISS x bs) (missed_pickup_body d x i found)"
  unfolding missed_pickup_body_def Let_def
  by (((rule moves_counted, simp; fail) | (rule moves_write, erule mv) | rule trip_intros | (rule keeps_framed, intro framed_intros; fail)
     | (auto; fail))+)

lemma moves_sim_pickup:
  assumes mv: "\<And>b r. found = Some (b, r) \<Longrightarrow> row_of bs x b"
  shows "moves bs (trip_goal PICKUP_SIMULATED x bs) (enabled PICKUP_SIMULATED x bs) (simulate_pickup_body env d x i found)"
  unfolding simulate_pickup_body_def Let_def
  by (((rule moves_counted, simp; fail) | (rule moves_write, erule mv) | rule trip_intros | (rule keeps_framed, intro framed_intros; fail)
     | (auto; fail))+)

lemma moves_sim_drop:
  assumes mv: "\<And>b r. found = Some (b, r) \<Longrightarrow> row_of bs x b"
  shows "moves bs (trip_goal DROP_SIMULATED x bs) (enabled DROP_SIMULATED x bs) (simulate_dropoff_body env d x i found)"
  unfolding simulate_dropoff_body_def Let_def
  by (((rule moves_counted, simp; fail) | (rule moves_write, erule mv) | rule trip_intros | (rule keeps_framed, intro framed_intros; fail)
     | (auto; fail))+)

lemma moves_pickup:
  assumes "\<not> fc_forced fo" and mv: "\<And>b r. found = Some (b, r) \<Longrightarrow> row_of bs x b"
  shows "moves bs (trip_goal PICKUP_CODE x bs) (enabled PICKUP_CODE x bs) (verify_pickup_body env d x otp fo found)"
  unfolding verify_pickup_body_def Let_def
  by (((rule moves_counted, simp; fail) | (rule moves_write, erule mv) | rule trip_intros | (rule keeps_framed, intro framed_intros; fail)
     | (auto simp: assms(1); fail))+)

lemma moves_drop:
  assumes "\<not> fc_forced fo" and mv: "\<And>b r. found = Some (b, r) \<Longrightarrow> row_of bs x b"
  shows "moves bs (trip_goal DROP_CODE x bs) (enabled DROP_CODE x bs) (verify_drop_body env d x otp fo found)"
  unfolding verify_drop_body_def Let_def
  by (((rule moves_counted, simp; fail) | (rule moves_write, erule mv) | rule trip_intros | (rule keeps_framed, intro framed_intros; fail)
     | (auto simp: assms(1); fail))+)

subsection \<open>The handlers of a whole ride\<close>

definition ride_goal :: "trip_event \<Rightarrow> ident \<Rightarrow> booking_row list \<Rightarrow> (ident \<times> booking_status) list" where
  "ride_goal e x bs = spec_move e (\<lambda>b. b_rideId b = x) bs"

lemma moves_ride_wide:
  assumes "\<And>b. b_id (f b) = b_id b \<and> b_status (f b) = trip_target e" "trip_sources e = [s]" "keeps n"
  shows "moves bs (ride_goal e x bs) True (andDo (updateBookings (\<lambda>b. b_rideId b = x \<and> b_status b = s) f) n)"
proof -
  have "statuses (update_where (\<lambda>b. b_rideId b = x \<and> b_status b = s) f bs) = ride_goal e x bs"
    unfolding statuses_def ride_goal_def spec_move_def update_where_def map_map
    using assms(1,2) by (intro map_cong) (auto simp: step_or_stay_def trip_step_def)
  then show ?thesis by (intro moves_then_keeps moves_updateBookings assms(3)) simp_all
qed

lemma keeps_rest: "keeps (ret v)"
  by (rule keeps_framed) (intro framed_intros)

lemma moves_startRide:
  "moves bs (ride_goal DEPART x bs) True (startRide_body env x found)"
proof -
  have "moves bs (ride_goal DEPART x bs) True (startRide_tx env x)"
    unfolding startRide_tx_def
    by (intro moves_transaction moves_first_do keeps_updateRide moves_ride_wide keeps_rest) simp_all
  then show ?thesis unfolding startRide_body_def
    by (intro moves_found moves_whenM) (intro keeps_framed framed_intros)
qed

lemma moves_completeRide:
  "moves bs (ride_goal FINISH x bs) True (completeRide_body env x found)"
proof -
  have "moves bs (ride_goal FINISH x bs) True (completeRide_tx x)"
    unfolding completeRide_tx_def
    by (intro moves_transaction moves_first_do keeps_updateRide moves_ride_wide keeps_rest) simp_all
  then show ?thesis unfolding completeRide_body_def
    by (intro moves_found moves_then_keeps) (assumption | intro keeps_framed framed_intros)+
qed

lemma moves_ops_start:
  "moves bs (ride_goal DEPART x bs) True (ops_start_body env d x i found)"
  unfolding ops_start_body_def
  by (((rule moves_first_do, rule keeps_updateRide) | (rule moves_ride_wide) | rule trip_intros
     | (rule keeps_framed, intro framed_intros; fail) | (simp; fail))+)

subsection \<open>Refinement\<close>

lemma moves_one:
  assumes "distinct (map b_id (bookings w))" "trip_booking c = Some x" "event_of_call c = Some e" "unforced c"
  shows "moves (bookings w) (trip_goal e x (bookings w)) (enabled e x (bookings w)) (start_call (env, c) w)"
  using assms
  by (cases c) (auto intro!: moves_arrived moves_board moves_no_show moves_dropoff moves_rider_dropoff moves_missed
      moves_sim_pickup moves_sim_drop moves_pickup moves_drop fetched)

lemma moves_all:
  assumes "trip_booking c = None" "event_of_call c = Some e"
  shows "\<exists>x. in_scope c = (\<lambda>b. b_rideId b = x)
    \<and> moves (bookings w) (ride_goal e x (bookings w)) True (start_call (env, c) w)"
  using assms
  by (cases c) (auto simp: fun_eq_iff intro!: exI moves_startRide moves_completeRide moves_ops_start)

lemma scope_of: "trip_booking c = Some x \<Longrightarrow> event_of_call c = Some e \<Longrightarrow> in_scope c = (\<lambda>b. b_id b = x)"
  by (cases c) (auto simp: fun_eq_iff)

lemma movesD:
  "moves (bookings w) goal en m \<Longrightarrow> m w = (r, w') \<Longrightarrow>
     (statuses (bookings w') = statuses (bookings w) \<or> statuses (bookings w') = goal) \<and>
     (isl r \<or> statuses (bookings w') = goal \<and> en)"
  unfolding moves_def by (cases r) fastforce+

definition refines_trip :: "call \<Rightarrow> trip_event \<Rightarrow> world \<Rightarrow> (error + unit) \<times> world \<Rightarrow> bool" where
  "refines_trip c e w out \<longleftrightarrow>
     (let before = statuses (bookings w); moved = spec_move e (in_scope c) (bookings w); after = statuses (bookings (snd out)) in
      (after = before \<or> after = moved) \<and> (isl (fst out) \<or> after = moved) \<and>
      (case trip_booking c of Some x \<Rightarrow> isl (fst out) \<or> enabled e x (bookings w) | None \<Rightarrow> True))"

text \<open>
  C4. Every trip handler (both sets of code checks, starting and completing a ride, arriving, boarding, no-show,
  missed pickup, drop-off, the rider's confirmation, the simulated steps) implements the abstract trip machine: a
  call that is not forced leaves the status of every booking alone or moves exactly the bookings in its scope along
  the machine; when it returns normally it did move, and the machine allowed the event.
\<close>

theorem trip_calls_refine:
  assumes "distinct (map b_id (bookings w))" "event_of_call c = Some e" "unforced c"
  shows "refines_trip c e w (start_call (env, c) w w)"
proof -
  obtain r w' where run: "start_call (env, c) w w = (r, w')" by (cases "start_call (env, c) w w")
  show ?thesis
  proof (cases "trip_booking c")
    case None
    then obtain x where sc: "in_scope c = (\<lambda>b. b_rideId b = x)"
      and mv: "moves (bookings w) (ride_goal e x (bookings w)) True (start_call (env, c) w)"
      using moves_all[OF None assms(2)] by blast
    show ?thesis using None sc run movesD[OF mv run]
      by (cases r) (simp_all add: refines_trip_def ride_goal_def)
  next
    case (Some x)
    then show ?thesis
      using movesD[OF moves_one[OF assms(1) Some assms(2,3)] run] scope_of[OF Some assms(2)] run
      by (cases r) (simp_all add: refines_trip_def trip_goal_def)
  qed
qed

theorem trip_calls_refine_witness:
  "statuses (bookings (snd (start_call (sample_env, RiderConfirmDropoff ''u1'' ''b1'' plain_input) dropoff_world dropoff_world)))
     = [(''b1'', COMPLETED)]"
proof -
  let ?c = "RiderConfirmDropoff ''u1'' ''b1'' plain_input"
  have "refines_trip ?c CONFIRM dropoff_world (start_call (sample_env, ?c) dropoff_world dropoff_world)"
    by (rule trip_calls_refine) (simp_all add: dropoff_world_def plain_input_def)
  moreover have "\<not> isl (fst (start_call (sample_env, ?c) dropoff_world dropoff_world))"
    using dropoff_confirmed by (simp add: riderConfirmDropoff_def run_andThen)
  moreover have "spec_move CONFIRM (in_scope ?c) (bookings dropoff_world) = [(''b1'', COMPLETED)]"
    by (simp add: spec_move_def step_or_stay_def trip_step_def dropoff_world_def sample_booking_def)
  ultimately show ?thesis by (simp only: refines_trip_def Let_def) simp
qed

end
