(* ===== verification/Rewards.thy ===== *)
theory Rewards
  imports Booking_Rider
begin

text \<open>
  Referrals, reward campaigns and the reward wallet, \<open>src/src/modules/rewards/rewards.service.ts\<close>. The state is
  the part of the database the service touches; bookings and rides are only read. SHA-256, the text of a number,
  the collations and the random identifiers are parameters.
\<close>

subsection \<open>Rows\<close>

datatype json = JNull | JBool bool | JNum jsnum | JStr string | JArr "json list" | JObj "(string \<times> json) list"

record reward_user =
  ru_id :: ident
  ru_email :: "string option"
  ru_referralCode :: "string option"
  ru_referredBy :: "ident option"

record reward_campaign =
  rc_id :: ident
  rc_code :: string
  rc_name :: string
  rc_audience :: string
  rc_triggerType :: string
  rc_thresholdCount :: int
  rc_rewardAmount :: jsnum
  rc_currency :: string
  rc_active :: bool
  rc_repeatable :: bool
  rc_description :: "string option"
  rc_terms :: "string option"
  rc_metadataJson :: "json option"
  rc_startsAt :: "time option"
  rc_endsAt :: "time option"
  rc_createdById :: "ident option"
  rc_updatedById :: "ident option"
  rc_createdAt :: time
  rc_updatedAt :: time

record reward_referral =
  rf_referrerUserId :: ident
  rf_referredUserId :: ident
  rf_referralCode :: "string option"
  rf_qualificationType :: "string option"
  rf_qualificationSourceId :: "string option"
  rf_status :: string
  rf_firstQualifiedAt :: "time option"
  rf_rewardedAt :: "time option"

record wallet_entry =
  we_id :: ident
  we_userId :: ident
  we_walletType :: string
  we_entryType :: string
  we_direction :: string
  we_amount :: jsnum
  we_currency :: string
  we_sourceType :: string
  we_sourceId :: string
  we_campaignId :: "ident option"
  we_referralId :: "ident option"
  we_description :: "string option"
  we_metadataJson :: "json option"
  we_idempotencyKey :: string
  we_createdById :: "ident option"
  we_previousHash :: "string option"
  we_entryHash :: "string option"
  we_reversalOfEntryId :: "ident option"
  we_createdAt :: time

record rewards_db =
  rd_users :: "reward_user list"
  rd_campaigns :: "reward_campaign list"
  rd_entries :: "wallet_entry list"
  rd_referrals :: "reward_referral list"
  rd_bookings :: "booking_row list"
  rd_rides :: "ride_row list"
  rd_sent :: "(ident \<times> string) list"

text \<open>
  \<open>re_uuids k\<close> is the result of the \<open>k\<close>-th \<open>randomUUID()\<close>, \<open>re_rowId n\<close> the identifier the database gives to
  row \<open>n\<close> of a table. \<open>re_usableAfterConflict\<close>: whether the database accepts further statements in a transaction
  one of whose statements failed on a unique index.
\<close>

record rewards_env =
  re_enabled :: bool
  re_now :: time
  re_sha256 :: "string \<Rightarrow> string"
  re_numText :: "jsnum \<Rightarrow> string"
  re_fixed2 :: "jsnum \<Rightarrow> string"
  re_localeLess :: "string \<Rightarrow> string \<Rightarrow> bool"
  re_textLess :: "string \<Rightarrow> string \<Rightarrow> bool"
  re_uuids :: "nat \<Rightarrow> string"
  re_rowId :: "nat \<Rightarrow> ident"
  re_usableAfterConflict :: bool
  re_notify :: "ident \<Rightarrow> bool"
  re_mail :: "string \<Rightarrow> bool"

abbreviation REWARDS_DISABLED :: error where "REWARDS_DISABLED \<equiv> Err ''REWARDS_DISABLED''"
abbreviation USER_NOT_FOUND :: error where "USER_NOT_FOUND \<equiv> Err ''USER_NOT_FOUND''"
abbreviation UNIQUE_VIOLATION :: error where "UNIQUE_VIOLATION \<equiv> Err ''P2002''"

definition assertRewardsEnabled :: "rewards_env \<Rightarrow> (rewards_db, unit) op" where
  "assertRewardsEnabled env = ensure (re_enabled env) REWARDS_DISABLED"

definition findRewardUser :: "ident \<Rightarrow> rewards_db \<Rightarrow> reward_user option" where
  "findRewardUser userId db = find (\<lambda>u. ru_id u = userId) (rd_users db)"

subsection \<open>Order\<close>

text \<open>\<open>findFirst\<close> with an \<open>orderBy\<close>, and \<open>findMany\<close> with one; \<open>before x y\<close> is the order.\<close>

fun first_by :: "('a \<Rightarrow> 'a \<Rightarrow> bool) \<Rightarrow> 'a list \<Rightarrow> 'a option" where
  "first_by before [] = None"
| "first_by before (x # xs) =
     (case first_by before xs of None \<Rightarrow> Some x | Some y \<Rightarrow> if before y x then Some y else Some x)"

fun insert_by :: "('a \<Rightarrow> 'a \<Rightarrow> bool) \<Rightarrow> 'a \<Rightarrow> 'a list \<Rightarrow> 'a list" where
  "insert_by before x [] = [x]"
| "insert_by before x (y # ys) = (if before y x then y # insert_by before x ys else x # y # ys)"

definition order_by :: "('a \<Rightarrow> 'a \<Rightarrow> bool) \<Rightarrow> 'a list \<Rightarrow> 'a list" where
  "order_by before xs = foldr (insert_by before) xs []"

lemma first_by_mem: "first_by before xs = Some x \<Longrightarrow> x \<in> set xs"
  by (induction xs arbitrary: x) (auto split: option.splits if_splits)

lemma first_by_None [simp]: "first_by before xs = None \<longleftrightarrow> xs = []"
  by (cases xs) (auto split: option.splits)

lemma set_insert_by [simp]: "set (insert_by before x ys) = insert x (set ys)"
  by (induction ys) auto

lemma set_order_by [simp]: "set (order_by before xs) = set xs"
  by (induction xs) (simp_all add: order_by_def)

subsection \<open>Campaigns\<close>

definition within_campaign_dates :: "time \<Rightarrow> reward_campaign \<Rightarrow> bool" where
  "within_campaign_dates now c \<longleftrightarrow>
     (case rc_startsAt c of None \<Rightarrow> True | Some t \<Rightarrow> t \<le> now) \<and> (case rc_endsAt c of None \<Rightarrow> True | Some t \<Rightarrow> now \<le> t)"

definition activeCampaignWhere :: "string \<Rightarrow> string \<Rightarrow> time \<Rightarrow> reward_campaign \<Rightarrow> bool" where
  "activeCampaignWhere triggerType audience now c \<longleftrightarrow> rc_triggerType c = triggerType \<and> rc_audience c = audience \<and>
     rc_active c \<and> within_campaign_dates now c"

definition visibleCampaignWhere :: "time \<Rightarrow> reward_campaign \<Rightarrow> bool" where
  "visibleCampaignWhere now c \<longleftrightarrow> rc_active c \<and> within_campaign_dates now c"

definition newest_campaign_first :: "reward_campaign \<Rightarrow> reward_campaign \<Rightarrow> bool" where
  "newest_campaign_first c d \<longleftrightarrow> rc_updatedAt d < rc_updatedAt c \<or>
     (rc_updatedAt d = rc_updatedAt c \<and> rc_createdAt d < rc_createdAt c)"

definition firstActiveCampaign :: "rewards_env \<Rightarrow> string \<Rightarrow> string \<Rightarrow> rewards_db \<Rightarrow> reward_campaign option" where
  "firstActiveCampaign env triggerType audience db =
     first_by newest_campaign_first (filter (activeCampaignWhere triggerType audience (re_now env)) (rd_campaigns db))"

definition shouldGrantCampaignAtCount :: "reward_campaign \<Rightarrow> int \<Rightarrow> bool" where
  "shouldGrantCampaignAtCount campaign occurrenceCount =
     (let threshold = max 1 (if rc_thresholdCount campaign = 0 then 1 else rc_thresholdCount campaign) in
      if rc_repeatable campaign then occurrenceCount mod threshold = 0 else occurrenceCount = threshold)"

subsection \<open>Normalisation\<close>

definition normalizeWalletType :: "string option \<Rightarrow> string" where
  "normalizeWalletType value =
     (if toUpperCase (case value of None \<Rightarrow> '''' | Some s \<Rightarrow> s) = ''DRIVER'' then ''DRIVER'' else ''RIDER'')"

definition normalizeCurrency :: "string option \<Rightarrow> string" where
  "normalizeCurrency cur =
     (let value = toUpperCase (trim (case cur of None \<Rightarrow> ''EUR'' | Some s \<Rightarrow> if s = '''' then ''EUR'' else s)) in
      if length value = 3 then value else ''EUR'')"

definition walletDirection :: "jsnum \<Rightarrow> string" where
  "walletDirection amount = (if amount \<ge> 0 then ''CREDIT'' else ''DEBIT'')"

subsection \<open>The hash of an entry\<close>

fun join_with :: "string \<Rightarrow> string list \<Rightarrow> string" where
  "join_with sep [] = ''''"
| "join_with sep [x] = x"
| "join_with sep (x # y # ys) = x @ sep @ join_with sep (y # ys)"

fun stringifyForHash :: "rewards_env \<Rightarrow> json \<Rightarrow> string" where
  "stringifyForHash env JNull = ''''"
| "stringifyForHash env (JStr s) = s"
| "stringifyForHash env (JNum n) = re_numText env n"
| "stringifyForHash env (JBool b) = (if b then ''true'' else ''false'')"
| "stringifyForHash env (JArr vs) = ''['' @ join_with '','' (map (stringifyForHash env) vs) @ '']''"
| "stringifyForHash env (JObj kvs) =
     ''{'' @ join_with ''|'' (map (\<lambda>(k, t). k @ '':'' @ t)
        (order_by (\<lambda>l r. re_localeLess env (fst l) (fst r)) (map (\<lambda>(k, v). (k, stringifyForHash env v)) kvs))) @ ''}''"

text \<open>\<open>x || ''\<close>.\<close>

abbreviation or_empty :: "string option \<Rightarrow> string" where "or_empty x \<equiv> case_option '''' (\<lambda>s. s) x"

text \<open>The hash reads every column of the row but the two that the database fills in and the hashes.\<close>

definition computeRewardEntryHash :: "rewards_env \<Rightarrow> string option \<Rightarrow> wallet_entry \<Rightarrow> string" where
  "computeRewardEntryHash env previousHash e = re_sha256 env (join_with ''|''
     [or_empty previousHash, we_userId e, we_walletType e, we_entryType e, we_direction e, re_fixed2 env (we_amount e),
      we_currency e, we_sourceType e, we_sourceId e, or_empty (we_campaignId e), or_empty (we_referralId e),
      or_empty (we_description e), stringifyForHash env (case we_metadataJson e of None \<Rightarrow> JNull | Some j \<Rightarrow> j),
      or_empty (we_reversalOfEntryId e), or_empty (we_createdById e), we_idempotencyKey e])"

subsection \<open>Referral codes\<close>

definition generateReferralCode :: "string \<Rightarrow> string" where
  "generateReferralCode uuid = ''DLV-'' @ toUpperCase (take 8 (filter (\<lambda>c. c \<noteq> CHR ''-'') uuid))"

definition updateRewardUser :: "ident \<Rightarrow> (reward_user \<Rightarrow> reward_user) \<Rightarrow> (rewards_db, unit) op" where
  "updateRewardUser userId f = modify (\<lambda>db. db\<lparr>rd_users := update_where (\<lambda>u. ru_id u = userId) f (rd_users db)\<rparr>)"

text \<open>The remaining attempts, as the identifiers they draw.\<close>

fun assign_code :: "rewards_env \<Rightarrow> ident \<Rightarrow> string list \<Rightarrow> (rewards_db, string) op" where
  "assign_code env userId [] = throw (Err ''REFERRAL_CODE_GENERATION_FAILED'')"
| "assign_code env userId (uuid # uuids) =
     (let referralCode = generateReferralCode uuid in
      andThen (gets (\<lambda>db. \<exists>u \<in> set (rd_users db). ru_id u \<noteq> userId \<and> ru_referralCode u = Some referralCode)) (\<lambda>conflict.
      if \<not> conflict then
        andDo (updateRewardUser userId (\<lambda>u. u\<lparr>ru_referralCode := Some referralCode\<rparr>)) (ret referralCode)
      else if re_usableAfterConflict env then assign_code env userId uuids
      else throw (Err ''TRANSACTION_ABORTED'')))"

definition ensureReferralCodeInternal :: "rewards_env \<Rightarrow> ident \<Rightarrow> (rewards_db, string) op" where
  "ensureReferralCodeInternal env userId =
     andThen (gets (findRewardUser userId)) (\<lambda>found.
     andThen (ofOption USER_NOT_FOUND found) (\<lambda>user.
     case ru_referralCode user of
       Some code \<Rightarrow> if code \<noteq> '''' then ret code else assign_code env userId (map (re_uuids env) [0..<5])
     | None \<Rightarrow> assign_code env userId (map (re_uuids env) [0..<5])))"

definition rewards_transaction :: "(rewards_db, 'a) op \<Rightarrow> (rewards_db, 'a) op" where
  "rewards_transaction = transactionOf (\<lambda>s s'. s)"

definition ensureUserReferralCode :: "rewards_env \<Rightarrow> ident \<Rightarrow> (rewards_db, string option) op" where
  "ensureUserReferralCode env userId =
     (if \<not> re_enabled env then ret None
      else andThen (rewards_transaction (ensureReferralCodeInternal env userId)) (\<lambda>code. ret (Some code)))"

definition upsertReferral :: "ident \<Rightarrow> (reward_referral \<Rightarrow> reward_referral) \<Rightarrow> reward_referral \<Rightarrow> (rewards_db, unit) op" where
  "upsertReferral referredUserId f row = modify (\<lambda>db. db\<lparr>rd_referrals :=
     (if \<exists>r \<in> set (rd_referrals db). rf_referredUserId r = referredUserId
      then update_where (\<lambda>r. rf_referredUserId r = referredUserId) f (rd_referrals db)
      else rd_referrals db @ [row])\<rparr>)"

definition new_referral :: "ident \<Rightarrow> ident \<Rightarrow> string option \<Rightarrow> reward_referral" where
  "new_referral referrerId referredId code = \<lparr>rf_referrerUserId = referrerId, rf_referredUserId = referredId, rf_referralCode = code,
     rf_qualificationType = None, rf_qualificationSourceId = None, rf_status = ''PENDING'', rf_firstQualifiedAt = None, rf_rewardedAt = None\<rparr>"

definition ensureReferralRecord :: "ident \<Rightarrow> ident \<Rightarrow> string \<Rightarrow> (rewards_db, unit) op" where
  "ensureReferralRecord referredUserId referrerUserId referralCode =
     upsertReferral referredUserId
       (\<lambda>r. if referralCode = '''' then r\<lparr>rf_referrerUserId := referrerUserId\<rparr>
            else r\<lparr>rf_referrerUserId := referrerUserId, rf_referralCode := Some referralCode\<rparr>)
       (new_referral referrerUserId referredUserId (if referralCode = '''' then None else Some referralCode))"

datatype attach_result = ATTACHED | NOT_ATTACHED string

definition attachReferralCodeToUser :: "rewards_env \<Rightarrow> ident \<Rightarrow> string \<Rightarrow> (rewards_db, attach_result) op" where
  "attachReferralCodeToUser env userId referralCode =
     (if \<not> re_enabled env then ret (NOT_ATTACHED ''REWARDS_DISABLED'') else
      let normalized = toUpperCase (trim referralCode) in
      andDo (ensure (normalized \<noteq> '''') (Err ''REFERRAL_CODE_REQUIRED''))
     (rewards_transaction
       (andThen (gets (findRewardUser userId)) (\<lambda>found.
        andThen (ofOption USER_NOT_FOUND found) (\<lambda>user.
        if ru_referredBy user \<noteq> None \<and> ru_referredBy user \<noteq> Some '''' then ret (NOT_ATTACHED ''REFERRAL_ALREADY_SET'') else
        andThen (gets (\<lambda>db. find (\<lambda>u. ru_referralCode u = Some normalized) (rd_users db))) (\<lambda>referrer.
        case referrer of None \<Rightarrow> ret (NOT_ATTACHED ''REFERRER_NOT_FOUND'')
        | Some referrer \<Rightarrow>
            if ru_id referrer = userId then ret (NOT_ATTACHED ''REFERRAL_SELF'') else
            andDo (updateRewardUser userId (\<lambda>u. u\<lparr>ru_referredBy := Some (ru_id referrer)\<rparr>))
           (andDo (ensureReferralRecord userId (ru_id referrer) normalized)
              (ret ATTACHED))))))))"

subsection \<open>The wallet\<close>

record wallet_total =
  wt_walletType :: string
  wt_currency :: string
  wt_balance :: jsnum
  wt_credited :: jsnum
  wt_debited :: jsnum

definition add_to_total :: "wallet_entry \<Rightarrow> wallet_total \<Rightarrow> wallet_total" where
  "add_to_total e t = (if we_direction e = ''DEBIT''
     then t\<lparr>wt_balance := js_sub (wt_balance t) (we_amount e), wt_debited := js_add (wt_debited t) (we_amount e)\<rparr>
     else t\<lparr>wt_balance := js_add (wt_balance t) (we_amount e), wt_credited := js_add (wt_credited t) (we_amount e)\<rparr>)"

text \<open>The map of the totals, as an association list in the order of insertion.\<close>

fun add_entry :: "wallet_entry \<Rightarrow> wallet_total list \<Rightarrow> wallet_total list" where
  "add_entry e [] = [add_to_total e
     \<lparr>wt_walletType = we_walletType e, wt_currency = we_currency e, wt_balance = 0, wt_credited = 0, wt_debited = 0\<rparr>]"
| "add_entry e (t # ts) = (if wt_walletType t @ '':'' @ wt_currency t = we_walletType e @ '':'' @ we_currency e
     then add_to_total e t # ts else t # add_entry e ts)"

definition walletTotals :: "rewards_env \<Rightarrow> wallet_entry list \<Rightarrow> wallet_total list" where
  "walletTotals env entries = order_by (\<lambda>l r. re_localeLess env (wt_walletType l) (wt_walletType r) \<or>
       (wt_walletType l = wt_walletType r \<and> re_localeLess env (wt_currency l) (wt_currency r)))
     (fold add_entry entries [])"

definition loadWalletEntries :: "ident \<Rightarrow> rewards_db \<Rightarrow> wallet_entry list" where
  "loadWalletEntries userId db =
     order_by (\<lambda>l r. we_createdAt r < we_createdAt l) (filter (\<lambda>e. we_userId e = userId) (rd_entries db))"

definition loadLatestRewardEntry :: "rewards_env \<Rightarrow> ident \<Rightarrow> string \<Rightarrow> rewards_db \<Rightarrow> wallet_entry option" where
  "loadLatestRewardEntry env userId walletType db =
     first_by (\<lambda>l r. we_createdAt r < we_createdAt l \<or> (we_createdAt l = we_createdAt r \<and> re_textLess env (we_id r) (we_id l)))
       (filter (\<lambda>e. we_userId e = userId \<and> we_walletType e = walletType) (rd_entries db))"

text \<open>Truthiness of a nullable text column.\<close>

definition filled :: "string option \<Rightarrow> bool" where "filled x \<longleftrightarrow> x \<noteq> None \<and> x \<noteq> Some ''''"

text \<open>The result is the identifier of the broken entry, if any.\<close>

fun verify_entries :: "rewards_env \<Rightarrow> (string \<Rightarrow> string option) \<Rightarrow> wallet_entry list \<Rightarrow> ident option" where
  "verify_entries env chain [] = None"
| "verify_entries env chain (e # es) =
     (if \<not> filled (we_entryHash e) \<or> \<not> filled (we_previousHash e) then verify_entries env chain es else
      let walletKey = we_userId e @ '':'' @ we_walletType e; expectedPrevious = chain walletKey in
      if we_previousHash e \<noteq> expectedPrevious \<or> we_entryHash e \<noteq> Some (computeRewardEntryHash env expectedPrevious e)
      then Some (we_id e)
      else verify_entries env (chain(walletKey := we_entryHash e)) es)"

definition verifyRewardLedgerChain :: "rewards_env \<Rightarrow> ident \<Rightarrow> rewards_db \<Rightarrow> ident option" where
  "verifyRewardLedgerChain env userId db = verify_entries env (\<lambda>_. None)
     (order_by (\<lambda>l r. re_textLess env (we_walletType l) (we_walletType r) \<or> (we_walletType l = we_walletType r \<and>
          (we_createdAt l < we_createdAt r \<or> (we_createdAt l = we_createdAt r \<and> re_textLess env (we_id l) (we_id r)))))
       (filter (\<lambda>e. we_userId e = userId) (rd_entries db)))"

record wallet_view =
  wv_userId :: ident
  wv_referralCode :: "string option"
  wv_referredBy :: "ident option"
  wv_totals :: "wallet_total list"
  wv_campaigns :: "reward_campaign list"
  wv_brokenEntryId :: "ident option"
  wv_history :: "wallet_entry list"

definition getRewardWallet :: "rewards_env \<Rightarrow> ident \<Rightarrow> (rewards_db, wallet_view) op" where
  "getRewardWallet env userId =
     andDo (assertRewardsEnabled env)
    (andThen (gets (\<lambda>db. (findRewardUser userId db, loadWalletEntries userId db,
        order_by newest_campaign_first (filter (visibleCampaignWhere (re_now env)) (rd_campaigns db))))) (\<lambda>(found, entries, campaigns).
     andThen (ofOption USER_NOT_FOUND found) (\<lambda>user.
     andThen (case ru_referralCode user of Some code \<Rightarrow> ret (Some code) | None \<Rightarrow> ensureUserReferralCode env (ru_id user)) (\<lambda>code.
     andThen (gets (verifyRewardLedgerChain env (ru_id user))) (\<lambda>broken.
     ret \<lparr>wv_userId = ru_id user, wv_referralCode = code, wv_referredBy = ru_referredBy user,
       wv_totals = walletTotals env entries, wv_campaigns = campaigns, wv_brokenEntryId = broken, wv_history = entries\<rparr>)))))"

definition listRewardCampaigns :: "rewards_env \<Rightarrow> (rewards_db, reward_campaign list) op" where
  "listRewardCampaigns env = andDo (assertRewardsEnabled env)
     (gets (\<lambda>db. order_by (\<lambda>c d. (rc_active c \<and> \<not> rc_active d) \<or> (rc_active c = rc_active d \<and> rc_updatedAt d < rc_updatedAt c))
        (rd_campaigns db)))"

record campaign_input =
  ci_id :: "ident option"
  ci_code :: string
  ci_name :: string
  ci_audience :: string
  ci_triggerType :: string
  ci_thresholdCount :: "int option"
  ci_rewardAmount :: jsnum
  ci_currency :: "string option"
  ci_active :: "bool option"
  ci_repeatable :: "bool option"
  ci_description :: "string option"
  ci_terms :: "string option"
  ci_startsAt :: "time option"
  ci_endsAt :: "time option"
  ci_metadataJson :: "json option"

text \<open>The columns both branches write.\<close>

definition campaign_data :: "rewards_env \<Rightarrow> campaign_input \<Rightarrow> ident option \<Rightarrow> reward_campaign \<Rightarrow> reward_campaign" where
  "campaign_data env input adminId c = c\<lparr>rc_code := toUpperCase (trim (ci_code input)), rc_name := trim (ci_name input),
     rc_audience := normalizeWalletType (Some (ci_audience input)), rc_triggerType := toUpperCase (trim (ci_triggerType input)),
     rc_thresholdCount := (case ci_thresholdCount input of None \<Rightarrow> 1 | Some n \<Rightarrow> n), rc_rewardAmount := ci_rewardAmount input,
     rc_currency := normalizeCurrency (ci_currency input), rc_active := (case ci_active input of None \<Rightarrow> True | Some b \<Rightarrow> b),
     rc_repeatable := (case ci_repeatable input of None \<Rightarrow> False | Some b \<Rightarrow> b), rc_description := ci_description input,
     rc_terms := ci_terms input, rc_startsAt := ci_startsAt input, rc_endsAt := ci_endsAt input, rc_updatedById := adminId,
     rc_metadataJson := (case ci_metadataJson input of None \<Rightarrow> rc_metadataJson c | Some j \<Rightarrow> Some j), rc_updatedAt := re_now env\<rparr>"

definition blank_campaign :: "rewards_env \<Rightarrow> ident \<Rightarrow> ident option \<Rightarrow> reward_campaign" where
  "blank_campaign env x adminId = \<lparr>rc_id = x, rc_code = '''', rc_name = '''', rc_audience = '''', rc_triggerType = '''', rc_thresholdCount = 1,
     rc_rewardAmount = 0, rc_currency = ''EUR'', rc_active = True, rc_repeatable = False, rc_description = None, rc_terms = None,
     rc_metadataJson = None, rc_startsAt = None, rc_endsAt = None, rc_createdById = adminId, rc_updatedById = None,
     rc_createdAt = re_now env, rc_updatedAt = re_now env\<rparr>"

definition upsertRewardCampaign :: "rewards_env \<Rightarrow> campaign_input \<Rightarrow> ident option \<Rightarrow> (rewards_db, unit) op" where
  "upsertRewardCampaign env input adminId =
     andDo (assertRewardsEnabled env)
    (let target = (if filled (ci_id input) then ci_id input else None) in
     andThen (gets rd_campaigns) (\<lambda>campaigns.
     andDo (ensure (target = None \<or> target \<in> Some ` rc_id ` set campaigns) RECORD_NOT_FOUND)
    (andDo (ensure (\<forall>c \<in> set campaigns. Some (rc_id c) \<noteq> target \<longrightarrow> rc_code c \<noteq> toUpperCase (trim (ci_code input))) UNIQUE_VIOLATION)
       (modify (\<lambda>db. db\<lparr>rd_campaigns := (case target of
           Some x \<Rightarrow> update_where (\<lambda>c. rc_id c = x) (campaign_data env input adminId) campaigns
         | None \<Rightarrow> campaigns @ [campaign_data env input adminId (blank_campaign env (re_rowId env (length campaigns)) adminId)])\<rparr>)))))"

subsection \<open>Granting\<close>

record grant_input =
  gi_userId :: ident
  gi_walletType :: string
  gi_entryType :: string
  gi_amount :: jsnum
  gi_currency :: "string option"
  gi_sourceType :: string
  gi_sourceId :: string
  gi_campaignId :: "ident option"
  gi_referralId :: "ident option"
  gi_description :: "string option"
  gi_metadataJson :: "json option"
  gi_createdById :: "ident option"
  gi_reversalOfEntryId :: "ident option"
  gi_idempotencyKey :: string

text \<open>The row of a grant before it is hashed.\<close>

definition unhashed_entry :: "rewards_env \<Rightarrow> grant_input \<Rightarrow> string option \<Rightarrow> ident \<Rightarrow> wallet_entry" where
  "unhashed_entry env input previousHash x = \<lparr>we_id = x, we_userId = gi_userId input,
     we_walletType = normalizeWalletType (Some (gi_walletType input)), we_entryType = gi_entryType input,
     we_direction = walletDirection (gi_amount input), we_amount = \<bar>gi_amount input\<bar>, we_currency = normalizeCurrency (gi_currency input),
     we_sourceType = gi_sourceType input, we_sourceId = gi_sourceId input, we_campaignId = gi_campaignId input,
     we_referralId = gi_referralId input, we_description = gi_description input, we_metadataJson = gi_metadataJson input,
     we_idempotencyKey = gi_idempotencyKey input, we_createdById = gi_createdById input, we_previousHash = previousHash,
     we_entryHash = None, we_reversalOfEntryId = gi_reversalOfEntryId input, we_createdAt = re_now env\<rparr>"

definition grantWalletEntry :: "rewards_env \<Rightarrow> grant_input \<Rightarrow> (rewards_db, wallet_entry \<times> bool) op" where
  "grantWalletEntry env input =
     andThen (gets (\<lambda>db. find (\<lambda>e. we_idempotencyKey e = gi_idempotencyKey input) (rd_entries db))) (\<lambda>existing.
     case existing of Some entry \<Rightarrow> ret (entry, False)
     | None \<Rightarrow>
       andThen (gets (loadLatestRewardEntry env (gi_userId input) (normalizeWalletType (Some (gi_walletType input))))) (\<lambda>latest.
       andThen (gets (\<lambda>db. re_rowId env (length (rd_entries db)))) (\<lambda>x.
       let previousHash = (case latest of None \<Rightarrow> None | Some l \<Rightarrow> we_entryHash l);
           row = unhashed_entry env input previousHash x;
           created = row\<lparr>we_entryHash := Some (computeRewardEntryHash env previousHash row)\<rparr> in
       andDo (modify (\<lambda>db. db\<lparr>rd_entries := rd_entries db @ [created]\<rparr>)) (ret (created, True)))))"

definition maybeSendRewardNotification :: "rewards_env \<Rightarrow> ident \<Rightarrow> string option \<Rightarrow> (rewards_db, unit) op" where
  "maybeSendRewardNotification env userId email =
     andDo (modify (\<lambda>db. db\<lparr>rd_sent := rd_sent db @ [(userId, ''reward.wallet.updated'')]\<rparr>))
    (andDo (ensure (re_notify env userId) SIDE_EFFECT_FAILED)
       (case email of None \<Rightarrow> ret () | Some m \<Rightarrow>
          whenM (m \<noteq> '''') (bestEffort (andDo (modify (\<lambda>db. db\<lparr>rd_sent := rd_sent db @ [(m, ''mail'')]\<rparr>))
             (ensure (re_mail env m) SIDE_EFFECT_FAILED)))))"

datatype award = GRANTED wallet_entry | NOT_GRANTED string

text \<open>\<open>{ ...a, ...b }\<close>: a later key replaces the value of an earlier one.\<close>

definition spread_into :: "json option \<Rightarrow> (string \<times> json) list \<Rightarrow> json" where
  "spread_into old new = JObj ((case old of Some (JObj kvs) \<Rightarrow> map (\<lambda>(k, v). (k, case map_of new k of None \<Rightarrow> v | Some v' \<Rightarrow> v')) kvs | _ \<Rightarrow> [])
     @ filter (\<lambda>(k, v). k \<notin> (case old of Some (JObj kvs) \<Rightarrow> fst ` set kvs | _ \<Rightarrow> {})) new)"

record award_input =
  ai_userId :: ident
  ai_walletType :: string
  ai_triggerType :: string
  ai_sourceType :: string
  ai_sourceId :: string
  ai_description :: string
  ai_idempotencyKey :: string
  ai_occurrenceCount :: int
  ai_metadataJson :: "json option"

definition awardCampaignReward :: "rewards_env \<Rightarrow> award_input \<Rightarrow> (rewards_db, award) op" where
  "awardCampaignReward env input =
     andThen (gets (firstActiveCampaign env (ai_triggerType input) (normalizeWalletType (Some (ai_walletType input))))) (\<lambda>found.
     case found of None \<Rightarrow> ret (NOT_GRANTED ''CAMPAIGN_NOT_CONFIGURED'')
     | Some campaign \<Rightarrow>
       let occurrenceCount = max 1 (ai_occurrenceCount input) in
       if \<not> shouldGrantCampaignAtCount campaign occurrenceCount then ret (NOT_GRANTED ''THRESHOLD_NOT_REACHED'') else
       andThen (grantWalletEntry env \<lparr>gi_userId = ai_userId input, gi_walletType = ai_walletType input,
          gi_entryType = (if ai_triggerType input = ''MANUAL'' then ''MANUAL_CREDIT'' else ''CAMPAIGN_CREDIT''),
          gi_amount = rc_rewardAmount campaign, gi_currency = Some (rc_currency campaign), gi_sourceType = ai_sourceType input,
          gi_sourceId = ai_sourceId input, gi_campaignId = Some (rc_id campaign), gi_referralId = None,
          gi_description = Some (ai_description input), gi_metadataJson = Some (spread_into (ai_metadataJson input)
            [(''campaignCode'', JStr (rc_code campaign)), (''triggerType'', JStr (rc_triggerType campaign)),
             (''audience'', JStr (rc_audience campaign)), (''occurrenceCount'', JNum (of_int occurrenceCount))]),
          gi_createdById = None, gi_reversalOfEntryId = None, gi_idempotencyKey = ai_idempotencyKey input\<rparr>) (\<lambda>(entry, created).
       ret (if created then GRANTED entry else NOT_GRANTED ''ALREADY_GRANTED'')))"

record manual_input =
  mi_userId :: ident
  mi_amount :: jsnum
  mi_currency :: "string option"
  mi_walletType :: "string option"
  mi_reason :: string
  mi_sourceType :: "string option"
  mi_sourceId :: "string option"
  mi_metadataJson :: "json option"

definition manual_key :: "rewards_env \<Rightarrow> manual_input \<Rightarrow> string" where
  "manual_key env input = ''manual:'' @ mi_userId input @ '':'' @
     toUpperCase (trim (if filled (mi_sourceType input) then the (mi_sourceType input) else ''MANUAL'')) @ '':'' @
     trim (if filled (mi_sourceId input) then the (mi_sourceId input) else re_uuids env 0) @ '':'' @
     re_numText env (mi_amount input) @ '':'' @ normalizeCurrency (mi_currency input)"

definition manual_grant :: "rewards_env \<Rightarrow> manual_input \<Rightarrow> ident option \<Rightarrow> grant_input" where
  "manual_grant env input adminId = \<lparr>gi_userId = mi_userId input, gi_walletType = normalizeWalletType (mi_walletType input),
     gi_entryType = (if mi_amount input \<ge> 0 then ''MANUAL_CREDIT'' else ''DEBIT''), gi_amount = \<bar>mi_amount input\<bar>,
     gi_currency = mi_currency input,
     gi_sourceType = toUpperCase (trim (if filled (mi_sourceType input) then the (mi_sourceType input) else ''MANUAL'')),
     gi_sourceId = trim (if filled (mi_sourceId input) then the (mi_sourceId input) else re_uuids env 0), gi_campaignId = None,
     gi_referralId = None, gi_description = Some (mi_reason input), gi_metadataJson = mi_metadataJson input, gi_createdById = adminId,
     gi_reversalOfEntryId = None, gi_idempotencyKey = manual_key env input\<rparr>"

definition grantManualReward :: "rewards_env \<Rightarrow> manual_input \<Rightarrow> ident option \<Rightarrow> (rewards_db, wallet_entry \<times> bool) op" where
  "grantManualReward env input adminId =
     andDo (assertRewardsEnabled env)
    (andThen (gets (findRewardUser (mi_userId input))) (\<lambda>found.
     andThen (ofOption USER_NOT_FOUND found) (\<lambda>user.
     andThen (grantWalletEntry env (manual_grant env input adminId)) (\<lambda>(entry, created).
     andDo (whenM created (maybeSendRewardNotification env (ru_id user) (ru_email user)))
       (ret (entry, created))))))"

definition reverseRewardEntry ::
  "rewards_env \<Rightarrow> ident \<Rightarrow> string \<Rightarrow> json option \<Rightarrow> ident option \<Rightarrow> (rewards_db, wallet_entry \<times> bool) op" where
  "reverseRewardEntry env entryId reason metadataJson adminId =
     andDo (assertRewardsEnabled env)
    (andThen (gets (\<lambda>db. find (\<lambda>e. we_id e = entryId) (rd_entries db))) (\<lambda>found.
     andThen (ofOption (Err ''ENTRY_NOT_FOUND'') found) (\<lambda>original.
     grantWalletEntry env \<lparr>gi_userId = we_userId original, gi_walletType = we_walletType original, gi_entryType = ''REVERSAL'',
       gi_amount = (if we_direction original = ''DEBIT'' then we_amount original else - we_amount original),
       gi_currency = Some (we_currency original), gi_sourceType = ''REVERSAL'', gi_sourceId = we_id original, gi_campaignId = None,
       gi_referralId = None, gi_description = Some reason, gi_metadataJson = Some (spread_into metadataJson
         [(''reversedEntryId'', JStr (we_id original)), (''reversedEntryType'', JStr (we_entryType original))]),
       gi_createdById = adminId, gi_reversalOfEntryId = Some (we_id original), gi_idempotencyKey = ''reversal:'' @ we_id original\<rparr>)))"

subsection \<open>Completion\<close>

definition count_text :: "rewards_env \<Rightarrow> nat \<Rightarrow> string" where "count_text env n = re_numText env (of_nat n)"

definition rewarded :: "rewards_env \<Rightarrow> ident \<Rightarrow> string \<Rightarrow> ident \<Rightarrow> reward_referral \<Rightarrow> reward_referral" where
  "rewarded env referrerId qualification sourceId r = r\<lparr>rf_referrerUserId := referrerId, rf_status := ''REWARDED'',
     rf_qualificationType := Some qualification, rf_qualificationSourceId := Some sourceId, rf_firstQualifiedAt := Some (re_now env),
     rf_rewardedAt := Some (re_now env)\<rparr>"

text \<open>The referral grant of a first completion, shared by the rider's and the driver's handler.\<close>

definition award_referral ::
  "rewards_env \<Rightarrow> ident \<Rightarrow> string option \<Rightarrow> ident \<Rightarrow> string \<Rightarrow> string \<Rightarrow> string \<Rightarrow> string \<Rightarrow> ident \<Rightarrow> string \<Rightarrow> (rewards_db, string list) op" where
  "award_referral env userId ownCode referredBy wallet trigger description qualification sourceId key =
     andThen (gets (\<lambda>db. find (\<lambda>r. rf_referredUserId r = userId) (rd_referrals db))) (\<lambda>referral.
     let referrerId = (case referral of Some r \<Rightarrow> rf_referrerUserId r | None \<Rightarrow> referredBy) in
     andThen (awardCampaignReward env \<lparr>ai_userId = referrerId, ai_walletType = wallet, ai_triggerType = trigger,
        ai_sourceType = ''REFERRAL'', ai_sourceId = sourceId, ai_description = description, ai_idempotencyKey = key @ sourceId,
        ai_occurrenceCount = 1, ai_metadataJson = Some (JObj [(''referredUserId'', JStr userId), (''referrerUserId'', JStr referrerId)])\<rparr>) (\<lambda>grant.
     case grant of NOT_GRANTED _ \<Rightarrow> ret []
     | GRANTED _ \<Rightarrow>
       andDo (upsertReferral userId (rewarded env referrerId qualification sourceId)
                (rewarded env referrerId qualification sourceId (new_referral referrerId userId ownCode)))
         (ret [trigger])))"

definition booking_milestone :: "rewards_env \<Rightarrow> booking_row \<Rightarrow> nat \<Rightarrow> award_input" where
  "booking_milestone env b completedCount = \<lparr>ai_userId = b_passengerId b, ai_walletType = ''RIDER'', ai_triggerType = ''RIDER_COMPLETION_MILESTONE'',
     ai_sourceType = ''BOOKING'', ai_sourceId = b_id b, ai_description = ''Reward for completing '' @ count_text env completedCount @
       '' ride booking'' @ (if completedCount = 1 then '''' else ''s'') @ ''.'', ai_idempotencyKey = ''booking-milestone:'' @ b_id b,
     ai_occurrenceCount = int completedCount, ai_metadataJson = Some (JObj [(''completedCount'', JNum (of_nat completedCount))])\<rparr>"

datatype completion_result = DISABLED | NOT_PROCESSED string | PROCESSED "string list"

definition awardBookingCompletionRewards :: "rewards_env \<Rightarrow> ident \<Rightarrow> (rewards_db, completion_result) op" where
  "awardBookingCompletionRewards env bookingId =
     (if \<not> re_enabled env then ret DISABLED else
      andThen (gets (\<lambda>db. case find (\<lambda>b. b_id b = bookingId) (rd_bookings db) of None \<Rightarrow> None
          | Some b \<Rightarrow> map_option (\<lambda>u. (b, u)) (findRewardUser (b_passengerId b) db))) (\<lambda>found.
      case found of None \<Rightarrow> ret (NOT_PROCESSED ''BOOKING_NOT_COMPLETED'')
      | Some (booking, passenger) \<Rightarrow>
        if b_status booking \<noteq> COMPLETED then ret (NOT_PROCESSED ''BOOKING_NOT_COMPLETED'') else
        andThen (gets (\<lambda>db. count_where (\<lambda>b. b_passengerId b = b_passengerId booking \<and> b_status b = COMPLETED) (rd_bookings db))) (\<lambda>completedCount.
        andThen (if 0 < completedCount then awardCampaignReward env (booking_milestone env booking completedCount) else ret (NOT_GRANTED '''')) (\<lambda>milestone.
        andThen (if completedCount = 1 \<and> filled (ru_referredBy passenger)
          then award_referral env (b_passengerId booking) (ru_referralCode passenger) (the (ru_referredBy passenger)) ''RIDER''
                 ''RIDER_REFERRAL_BOOKING_COMPLETION'' ''Referral reward for a rider completing their first booking.''
                 ''BOOKING_COMPLETED'' (b_id booking) ''referral-booking:''
          else ret []) (\<lambda>referral.
        let grants = (case milestone of GRANTED _ \<Rightarrow> [''rider_milestone''] | NOT_GRANTED _ \<Rightarrow> []) @ map (\<lambda>_. ''rider_referral'') referral in
        andDo (whenM (grants \<noteq> []) (maybeSendRewardNotification env (b_passengerId booking) (ru_email passenger)))
          (ret (PROCESSED grants)))))))"

definition ride_milestone :: "rewards_env \<Rightarrow> ride_row \<Rightarrow> nat \<Rightarrow> award_input" where
  "ride_milestone env r completedRideCount = \<lparr>ai_userId = r_driverId r, ai_walletType = ''DRIVER'', ai_triggerType = ''DRIVER_COMPLETION_MILESTONE'',
     ai_sourceType = ''RIDE'', ai_sourceId = r_id r, ai_description = ''Reward for completing '' @ count_text env completedRideCount @
       '' published ride'' @ (if completedRideCount = 1 then '''' else ''s'') @ ''.'', ai_idempotencyKey = ''driver-milestone:'' @ r_id r,
     ai_occurrenceCount = int completedRideCount, ai_metadataJson = Some (JObj [(''completedRideCount'', JNum (of_nat completedRideCount))])\<rparr>"

definition awardRideCompletionRewards :: "rewards_env \<Rightarrow> ident \<Rightarrow> (rewards_db, completion_result) op" where
  "awardRideCompletionRewards env rideId =
     (if \<not> re_enabled env then ret DISABLED else
      andThen (gets (\<lambda>db. case find (\<lambda>r. r_id r = rideId) (rd_rides db) of None \<Rightarrow> None
          | Some r \<Rightarrow> map_option (\<lambda>u. (r, u)) (findRewardUser (r_driverId r) db))) (\<lambda>found.
      case found of None \<Rightarrow> ret (NOT_PROCESSED ''RIDE_NOT_COMPLETED'')
      | Some (ride, driver) \<Rightarrow>
        if r_status ride \<noteq> RIDE_COMPLETED then ret (NOT_PROCESSED ''RIDE_NOT_COMPLETED'') else
        andThen (gets (\<lambda>db. count_where (\<lambda>r. r_driverId r = r_driverId ride \<and> r_status r = RIDE_COMPLETED) (rd_rides db))) (\<lambda>completedRideCount.
        andThen (awardCampaignReward env (ride_milestone env ride completedRideCount)) (\<lambda>milestone.
        andThen (if completedRideCount = 1 \<and> filled (ru_referredBy driver)
          then award_referral env (r_driverId ride) (ru_referralCode driver) (the (ru_referredBy driver)) ''DRIVER''
                 ''DRIVER_REFERRAL_RIDE_COMPLETION'' ''Referral reward for a driver completing their first ride.''
                 ''RIDE_COMPLETED'' (r_id ride) ''referral-ride:''
          else ret []) (\<lambda>referral.
        let grants = (case milestone of GRANTED _ \<Rightarrow> [''driver_milestone''] | NOT_GRANTED _ \<Rightarrow> []) @ map (\<lambda>_. ''driver_referral'') referral in
        andDo (whenM (grants \<noteq> []) (maybeSendRewardNotification env (r_driverId ride) (ru_email driver)))
          (ret (PROCESSED grants)))))))"

end
