(* ===== verification/Reward_Wallet.thy ===== *)
theory Reward_Wallet
  imports Rewards "HOL-Library.Sublist"
begin

text \<open>
  What the reward wallet guarantees: its rows stay well formed and are only ever appended, an idempotency key pays
  once, nobody refers himself. And two things it does not do: verify its hash chain, and debit.
\<close>

subsection \<open>Calls\<close>

datatype reward_call =
    EnsureCode ident | AttachCode ident string | GetWallet ident | ListCampaigns
  | UpsertCampaign campaign_input "ident option" | GrantManual manual_input "ident option"
  | ReverseEntry ident string "json option" "ident option" | AwardBooking ident | AwardRide ident

fun serve_reward :: "rewards_env \<times> reward_call \<Rightarrow> (rewards_db, unit) op" where
  "serve_reward (env, EnsureCode x) = andDo (ensureUserReferralCode env x) (ret ())"
| "serve_reward (env, AttachCode x c) = andDo (attachReferralCodeToUser env x c) (ret ())"
| "serve_reward (env, GetWallet x) = andDo (getRewardWallet env x) (ret ())"
| "serve_reward (env, ListCampaigns) = andDo (listRewardCampaigns env) (ret ())"
| "serve_reward (env, UpsertCampaign i a) = upsertRewardCampaign env i a"
| "serve_reward (env, GrantManual i a) = andDo (grantManualReward env i a) (ret ())"
| "serve_reward (env, ReverseEntry x r m a) = andDo (reverseRewardEntry env x r m a) (ret ())"
| "serve_reward (env, AwardBooking x) = andDo (awardBookingCompletionRewards env x) (ret ())"
| "serve_reward (env, AwardRide x) = andDo (awardRideCompletionRewards env x) (ret ())"

subsection \<open>Well-formed wallets\<close>

definition entry_typed :: "wallet_entry \<Rightarrow> bool" where
  "entry_typed e \<longleftrightarrow> we_walletType e \<in> {''RIDER'', ''DRIVER''} \<and> we_direction e \<in> {''CREDIT'', ''DEBIT''} \<and>
     0 \<le> we_amount e \<and> length (we_currency e) = 3"

text \<open>No two users share a referral code.\<close>

definition codes_unique :: "reward_user list \<Rightarrow> bool" where
  "codes_unique us \<longleftrightarrow> (\<forall>u \<in> set us. \<forall>v \<in> set us. \<forall>c \<in> set_option (ru_referralCode u).
     ru_referralCode v = Some c \<longrightarrow> ru_id u = ru_id v)"

lemma codes_uniqueD:
  assumes "codes_unique us" "u \<in> set us" "v \<in> set us" "ru_referralCode u = Some c" "ru_referralCode v = Some c"
  shows "ru_id u = ru_id v"
proof -
  have "c \<in> set_option (ru_referralCode u)" using assms(4) by simp
  then show ?thesis by (rule assms(1)[unfolded codes_unique_def, THEN bspec, THEN bspec, THEN bspec, THEN mp, OF assms(2,3) _ assms(5)])
qed

definition referrals_ok :: "reward_user list \<Rightarrow> bool" where
  "referrals_ok us \<longleftrightarrow> distinct (map ru_id us) \<and> (\<forall>u \<in> set us. ru_referredBy u \<noteq> Some (ru_id u)) \<and> codes_unique us"

definition rewards_typed :: "rewards_db \<Rightarrow> bool" where
  "rewards_typed db \<longleftrightarrow> distinct (map we_idempotencyKey (rd_entries db)) \<and> (\<forall>e \<in> set (rd_entries db). entry_typed e) \<and>
     referrals_ok (rd_users db)"

definition wallet_live :: "rewards_db \<Rightarrow> rewards_db \<Rightarrow> bool" where
  "wallet_live old db \<longleftrightarrow> rewards_typed db \<and> prefix (rd_entries old) (rd_entries db)"

lemma normalizeWalletType_cases: "normalizeWalletType v \<in> {''RIDER'', ''DRIVER''}"
  by (simp add: normalizeWalletType_def)

lemma normalizeCurrency_length: "length (normalizeCurrency c) = 3"
  by (simp add: normalizeCurrency_def Let_def)

lemma granted_typed: "entry_typed ((unhashed_entry env input h x)\<lparr>we_entryHash := Some k\<rparr>)"
  using normalizeWalletType_cases[of "Some (gi_walletType input)"] normalizeCurrency_length[of "gi_currency input"]
  by (simp add: entry_typed_def unhashed_entry_def walletDirection_def)

text \<open>Writes of other tables.\<close>

named_theorems reward_intros \<open>operations that keep the wallets well formed\<close>

lemma live_other_tables [reward_intros]:
  "preserves (wallet_live old) (modify (\<lambda>db. db\<lparr>rd_sent := f db\<rparr>))"
  "preserves (wallet_live old) (modify (\<lambda>db. db\<lparr>rd_referrals := g db\<rparr>))"
  "preserves (wallet_live old) (modify (\<lambda>db. db\<lparr>rd_campaigns := h db\<rparr>))"
  by (auto intro!: preserves_modify simp: wallet_live_def rewards_typed_def)

lemma live_grant [reward_intros]: "preserves (wallet_live old) (grantWalletEntry env input)"
proof (rule preservesI)
  fix db :: rewards_db assume live: "wallet_live old db"
  show "wallet_live old (snd (grantWalletEntry env input db))"
  proof (cases "find (\<lambda>e. we_idempotencyKey e = gi_idempotencyKey input) (rd_entries db)")
    case None
    then have "gi_idempotencyKey input \<notin> we_idempotencyKey ` set (rd_entries db)" by (simp add: find_key_None_iff)
    then show ?thesis using live None granted_typed
      by (simp add: grantWalletEntry_def run_andThen run_andDo wallet_live_def rewards_typed_def Let_def)
        (simp add: unhashed_entry_def)
  qed (simp add: grantWalletEntry_def run_andThen live)
qed

text \<open>Writing a fresh code, or another user as referrer, keeps the users well formed.\<close>

definition with_code :: "ident \<Rightarrow> string \<Rightarrow> reward_user \<Rightarrow> reward_user" where
  "with_code x c u = (if ru_id u = x then u\<lparr>ru_referralCode := Some c\<rparr> else u)"

definition with_referrer :: "ident \<Rightarrow> ident \<Rightarrow> reward_user \<Rightarrow> reward_user" where
  "with_referrer x y u = (if ru_id u = x then u\<lparr>ru_referredBy := Some y\<rparr> else u)"

lemma with_simps [simp]:
  "ru_id (with_code x c u) = ru_id u" "ru_referredBy (with_code x c u) = ru_referredBy u"
  "ru_referralCode (with_code x c u) = (if ru_id u = x then Some c else ru_referralCode u)"
  "ru_id (with_referrer x y u) = ru_id u" "ru_referralCode (with_referrer x y u) = ru_referralCode u"
  "ru_referredBy (with_referrer x y u) = (if ru_id u = x then Some y else ru_referredBy u)"
  by (simp_all add: with_code_def with_referrer_def)

lemma distinct_with: "(\<And>u. ru_id (f u) = ru_id u) \<Longrightarrow> distinct (map ru_id us) \<Longrightarrow> distinct (map ru_id (map f us))"
  by (simp add: o_def)

lemma referrals_ok_code:
  assumes "referrals_ok us" and fresh: "\<And>u. u \<in> set us \<Longrightarrow> ru_id u \<noteq> x \<Longrightarrow> ru_referralCode u \<noteq> Some c"
  shows "referrals_ok (map (with_code x c) us)"
  unfolding referrals_ok_def
proof (intro conjI)
  show "distinct (map ru_id (map (with_code x c) us))" using assms(1) by (intro distinct_with) (simp_all add: referrals_ok_def)
  show "\<forall>u \<in> set (map (with_code x c) us). ru_referredBy u \<noteq> Some (ru_id u)" using assms(1) by (simp add: referrals_ok_def)
  show "codes_unique (map (with_code x c) us)"
    unfolding codes_unique_def
  proof (intro ballI impI)
    fix u' v' c'
    assume "u' \<in> set (map (with_code x c) us)" "v' \<in> set (map (with_code x c) us)"
    then obtain u v where u: "u \<in> set us" "u' = with_code x c u" and v: "v \<in> set us" "v' = with_code x c v" by auto
    assume "c' \<in> set_option (ru_referralCode u')" "ru_referralCode v' = Some c'"
    then have c: "ru_referralCode (with_code x c u) = Some c'" "ru_referralCode (with_code x c v) = Some c'"
      using u v by simp_all
    have "ru_id u = ru_id v" if "ru_id u \<noteq> x" "ru_id v \<noteq> x"
      using u(1) v(1) c that codes_uniqueD[of us u v c'] assms(1)[unfolded referrals_ok_def] by simp
    then show "ru_id u' = ru_id v'"
      using c fresh[OF u(1)] fresh[OF v(1)] u v by (cases "ru_id u = x"; cases "ru_id v = x") simp_all
  qed
qed

lemma referrals_ok_referrer: "referrals_ok us \<Longrightarrow> y \<noteq> x \<Longrightarrow> referrals_ok (map (with_referrer x y) us)"
proof -
  have "codes_unique (map (with_referrer x y) us) = codes_unique us"
    by (simp only: codes_unique_def set_map ball_simps with_simps)
  moreover assume "referrals_ok us" "y \<noteq> x"
  ultimately show ?thesis
    unfolding referrals_ok_def using distinct_with[of "with_referrer x y" us] by simp
qed

lemma update_code: "update_where (\<lambda>u. ru_id u = x) (\<lambda>u. u\<lparr>ru_referralCode := Some c\<rparr>) us = map (with_code x c) us"
  and update_referrer: "update_where (\<lambda>u. ru_id u = x) (\<lambda>u. u\<lparr>ru_referredBy := Some y\<rparr>) us = map (with_referrer x y) us"
  by (simp_all add: update_where_def with_code_def with_referrer_def)

lemma wallet_live_users: "wallet_live old db \<Longrightarrow> referrals_ok us \<Longrightarrow> wallet_live old (db\<lparr>rd_users := us\<rparr>)"
  by (simp add: wallet_live_def rewards_typed_def)

lemma wallet_live_ok: "wallet_live old db \<Longrightarrow> referrals_ok (rd_users db)"
  by (simp add: wallet_live_def rewards_typed_def)

lemma live_assign_code [reward_intros]: "preserves (wallet_live old) (assign_code env x uuids)"
proof (induction uuids)
  case (Cons uuid uuids)
  show ?case
  proof (rule preservesI)
    fix db assume live: "wallet_live old db"
    let ?c = "generateReferralCode uuid"
    have "wallet_live old (db\<lparr>rd_users := map (with_code x ?c) (rd_users db)\<rparr>)"
      if "\<not> (\<exists>u \<in> set (rd_users db). ru_id u \<noteq> x \<and> ru_referralCode u = Some ?c)"
      by (rule wallet_live_users[OF live], rule referrals_ok_code[OF wallet_live_ok[OF live]]) (use that in blast)
    then show "wallet_live old (snd (assign_code env x (uuid # uuids) db))"
      using preservesD[OF Cons live] live
      by (simp add: run_andThen run_andDo updateRewardUser_def update_code Let_def)
  qed
qed (simp only: assign_code.simps preserves_throw)

lemma live_referred:
  assumes "wallet_live old db" "y \<noteq> x"
  shows "wallet_live old (db\<lparr>rd_users := update_where (\<lambda>u. ru_id u = x) (\<lambda>u. u\<lparr>ru_referredBy := Some y\<rparr>) (rd_users db)\<rparr>)"
  unfolding update_referrer
  by (rule wallet_live_users[OF assms(1)], rule referrals_ok_referrer[OF wallet_live_ok[OF assms(1)] assms(2)])

lemma live_reward_transaction [reward_intros]:
  "preserves (wallet_live old) m \<Longrightarrow> preserves (wallet_live old) (rewards_transaction m)"
  unfolding rewards_transaction_def
  by (rule preserves_transaction) (auto dest: preservesD[of "wallet_live old" m])

lemma live_code [reward_intros]:
  "preserves (wallet_live old) (ensureReferralCodeInternal env x)"
  "preserves (wallet_live old) (ensureUserReferralCode env x)"
  unfolding ensureReferralCodeInternal_def ensureUserReferralCode_def
  by (intro hoare_intros reward_intros)+

lemma live_referral_row [reward_intros]:
  "preserves (wallet_live old) (upsertReferral x f row)" "preserves (wallet_live old) (ensureReferralRecord x y c)"
  unfolding ensureReferralRecord_def upsertReferral_def by (rule reward_intros)+

lemma live_attach [reward_intros]: "preserves (wallet_live old) (attachReferralCodeToUser env x c)"
proof -
  have "preserves (wallet_live old) (updateRewardUser x (\<lambda>u. u\<lparr>ru_referredBy := Some y\<rparr>))" if "y \<noteq> x" for y
    unfolding updateRewardUser_def using live_referred[OF _ that] by (rule preserves_modify)
  then show ?thesis unfolding attachReferralCodeToUser_def Let_def
    by (intro hoare_intros reward_intros) (simp_all add: preserves_ret)
qed

lemma preserves_case_award [reward_intros]:
  "(\<And>e. preserves I (m e)) \<Longrightarrow> (\<And>s. preserves I (n s)) \<Longrightarrow> preserves I (case a of GRANTED e \<Rightarrow> m e | NOT_GRANTED s \<Rightarrow> n s)"
  by (cases a) simp_all

lemma preserves_reward_pair [reward_intros]:
  "(\<And>a b. preserves I (k a b)) \<Longrightarrow> preserves I (case p of (a, b) \<Rightarrow> k a b)"
  by (cases p) simp

lemma live_award [reward_intros]:
  "preserves (wallet_live old) (maybeSendRewardNotification env x m)"
  "preserves (wallet_live old) (awardCampaignReward env i)"
  unfolding maybeSendRewardNotification_def awardCampaignReward_def Let_def
  by (intro hoare_intros reward_intros)+

lemma live_award_referral [reward_intros]:
  "preserves (wallet_live old) (award_referral env x own y wallet tr d q src key)"
  unfolding award_referral_def Let_def by (intro hoare_intros reward_intros)

lemma live_services [reward_intros]:
  "preserves (wallet_live old) (getRewardWallet env x)"
  "preserves (wallet_live old) (listRewardCampaigns env)"
  "preserves (wallet_live old) (upsertRewardCampaign env ci adm)"
  "preserves (wallet_live old) (grantManualReward env mi adm)"
  "preserves (wallet_live old) (reverseRewardEntry env x r m adm)"
  "preserves (wallet_live old) (awardBookingCompletionRewards env x)"
  "preserves (wallet_live old) (awardRideCompletionRewards env x)"
  unfolding getRewardWallet_def listRewardCampaigns_def upsertRewardCampaign_def grantManualReward_def reverseRewardEntry_def
    awardBookingCompletionRewards_def awardRideCompletionRewards_def assertRewardsEnabled_def Let_def
  by (intro hoare_intros reward_intros)+

lemma live_serve: "preserves (wallet_live old) (serve_reward c)"
  by (cases c rule: serve_reward.cases) (simp_all only: serve_reward.simps, (intro hoare_intros reward_intros)+)

interpretation rewards: service serve_reward "wallet_live old" for old
  by unfold_locales (rule live_serve)

subsection \<open>Samples\<close>

definition plain_rewards :: rewards_env where
  "plain_rewards = \<lparr>re_enabled = True, re_now = 100, re_sha256 = (\<lambda>s. CHR ''h'' # s), re_numText = (\<lambda>_. ''n''), re_fixed2 = (\<lambda>_. ''0.00''),
     re_localeLess = (\<lambda>_ _. False), re_textLess = (\<lambda>_ _. False), re_uuids = (\<lambda>_. ''1234-5678''), re_rowId = (\<lambda>n. replicate n CHR ''e''),
     re_usableAfterConflict = False, re_notify = (\<lambda>_. True), re_mail = (\<lambda>_. True)\<rparr>"

definition rewards_world :: rewards_db where
  "rewards_world = \<lparr>rd_users = [\<lparr>ru_id = ''u1'', ru_email = None, ru_referralCode = None, ru_referredBy = None\<rparr>],
     rd_campaigns = [], rd_entries = [], rd_referrals = [], rd_bookings = [sample_booking\<lparr>b_status := COMPLETED\<rparr>], rd_rides = [], rd_sent = []\<rparr>"

definition plain_manual :: "jsnum \<Rightarrow> string \<Rightarrow> manual_input" where
  "plain_manual a src = \<lparr>mi_userId = ''u1'', mi_amount = a, mi_currency = None, mi_walletType = None, mi_reason = ''goodwill'',
     mi_sourceType = None, mi_sourceId = Some src, mi_metadataJson = None\<rparr>"

abbreviation plain_grant :: "string \<Rightarrow> grant_input" where
  "plain_grant src \<equiv> manual_grant plain_rewards (plain_manual 5 src) None"

lemma rewards_world_typed: "rewards_typed rewards_world"
  by (simp add: rewards_typed_def rewards_world_def referrals_ok_def codes_unique_def)

lemmas reward_run = grantManualReward_def grantWalletEntry_def maybeSendRewardNotification_def assertRewardsEnabled_def
  manual_grant_def plain_manual_def plain_rewards_def rewards_world_def unhashed_entry_def loadLatestRewardEntry_def
  findRewardUser_def run_andThen run_andDo whenM_def Let_def

lemma debit_run: "\<exists>e. fst (grantManualReward plain_rewards (plain_manual (-5) ''x'') None rewards_world) = Inr (e, True)"
  by (simp add: reward_run)

lemma keys_differ: "manual_key plain_rewards (plain_manual 5 ''x'') \<noteq> manual_key plain_rewards (plain_manual 5 ''y'')"
  by code_simp

text \<open>
  C24. Whatever rewards are granted, reversed, adjusted by hand or earned by completions, in any order and with any
  campaigns, the wallets stay well formed: entries are only appended, carry a known wallet, a direction, an amount
  that is not negative and a three-letter currency, no idempotency key is booked twice (a completed booking or ride
  is rewarded once, an entry reversed once), nobody refers himself and no two users share a referral code.
\<close>

theorem reward_wallets_well_formed:
  assumes "rewards_typed db"
  shows "rewards_typed (run_calls serve_reward cs db) \<and> prefix (rd_entries db) (rd_entries (run_calls serve_reward cs db))"
proof -
  have "wallet_live db db" using assms by (simp add: wallet_live_def)
  then have "wallet_live db (run_calls serve_reward cs db)" by (rule rewards.run_keeps)
  then show ?thesis by (simp add: wallet_live_def)
qed

theorem reward_wallets_well_formed_witness:
  "rewards_typed (run_calls serve_reward [(plain_rewards, GrantManual (plain_manual 5 ''x'') None), (plain_rewards, AwardBooking ''b1'')] rewards_world)"
  using reward_wallets_well_formed[OF rewards_world_typed] by blast

subsection \<open>The hash chain\<close>

text \<open>The map of the last hashes starts empty, and an entry without a previous hash does not enter it.\<close>

lemma verify_entries_empty:
  "verify_entries env (\<lambda>_. None) es = None \<longleftrightarrow> (\<forall>e \<in> set es. \<not> (filled (we_entryHash e) \<and> filled (we_previousHash e)))"
  by (induction es) (auto simp: Let_def filled_def)

lemma verifyRewardLedgerChain_iff:
  "verifyRewardLedgerChain env x db = None \<longleftrightarrow>
     (\<forall>e \<in> set (rd_entries db). we_userId e = x \<longrightarrow> \<not> (filled (we_entryHash e) \<and> filled (we_previousHash e)))"
  by (auto simp: verifyRewardLedgerChain_def verify_entries_empty)

lemma grantWalletEntry_created:
  assumes "grantWalletEntry env input db = (Inr (e, True), db')"
  shows "rd_entries db' = rd_entries db @ [e]"
    and "\<exists>x h k. e = (unhashed_entry env input h x)\<lparr>we_entryHash := Some k\<rparr> \<and>
      h = (case loadLatestRewardEntry env (gi_userId input) (normalizeWalletType (Some (gi_walletType input))) db of
             None \<Rightarrow> None | Some l \<Rightarrow> we_entryHash l) \<and>
      k = computeRewardEntryHash env h (unhashed_entry env input h x)"
  using assms
  by (auto simp: grantWalletEntry_def run_andThen run_andDo Let_def split: option.splits)

text \<open>
  C25. The integrity check of the ledger rejects every genuine chain: once a second entry is booked into a wallet,
  linked to the first as the service links it, the check reports the user's ledger as broken, now and after any
  further calls, although nothing was tampered with.
\<close>

theorem integrity_check_rejects_genuine_chain:
  assumes "grantWalletEntry env input db = (Inr (e, True), db')" and "rewards_typed db"
    and "loadLatestRewardEntry env (gi_userId input) (normalizeWalletType (Some (gi_walletType input))) db = Some l"
    and "filled (we_entryHash l)" and "\<forall>s. re_sha256 env s \<noteq> ''''"
  shows "verifyRewardLedgerChain env' (gi_userId input) (run_calls serve_reward cs db') \<noteq> None"
proof -
  obtain x k where e: "e = (unhashed_entry env input (we_entryHash l) x)\<lparr>we_entryHash := Some k\<rparr>"
    and k: "k = computeRewardEntryHash env (we_entryHash l) (unhashed_entry env input (we_entryHash l) x)"
    using grantWalletEntry_created(2)[OF assms(1)] assms(3) by auto
  have "filled (we_entryHash e) \<and> filled (we_previousHash e)" "we_userId e = gi_userId input"
    using assms(4,5) k by (simp_all add: e unhashed_entry_def filled_def computeRewardEntryHash_def)
  moreover have "e \<in> set (rd_entries (run_calls serve_reward cs db'))"
  proof -
    have "wallet_live db' (snd (grantWalletEntry env input db))"
      using preservesD[OF live_grant, of db db env input] assms(1,2) by (simp add: wallet_live_def)
    then have "wallet_live db' db'" using assms(1) by simp
    then have "wallet_live db' (run_calls serve_reward cs db')" by (rule rewards.run_keeps)
    moreover have "e \<in> set (rd_entries db')" using grantWalletEntry_created(1)[OF assms(1)] by simp
    ultimately show ?thesis unfolding wallet_live_def by (auto dest: set_mono_prefix)
  qed
  ultimately show ?thesis unfolding verifyRewardLedgerChain_iff by blast
qed

abbreviation first_grant :: "(error + wallet_entry \<times> bool) \<times> rewards_db" where
  "first_grant \<equiv> grantWalletEntry plain_rewards (plain_grant ''x'') rewards_world"

abbreviation second_grant :: "(error + wallet_entry \<times> bool) \<times> rewards_db" where
  "second_grant \<equiv> grantWalletEntry plain_rewards (plain_grant ''y'') (snd first_grant)"

lemma first_granted:
  "\<exists>l. rd_entries (snd first_grant) = [l] \<and> we_idempotencyKey l = gi_idempotencyKey (plain_grant ''x'') \<and> we_userId l = ''u1'' \<and>
     we_walletType l = ''RIDER'' \<and> filled (we_entryHash l)"
  by (simp add: grantWalletEntry_def rewards_world_def run_andThen run_andDo Let_def loadLatestRewardEntry_def)
    (simp add: unhashed_entry_def manual_grant_def plain_manual_def filled_def computeRewardEntryHash_def plain_rewards_def normalizeWalletType_def
      toUpperCase_def to_upper_char_def)

lemma second_granted: "\<exists>e. second_grant = (Inr (e, True), snd second_grant)"
proof -
  obtain l where l: "rd_entries (snd first_grant) = [l]" "we_idempotencyKey l = gi_idempotencyKey (plain_grant ''x'')"
    using first_granted by blast
  have "gi_idempotencyKey (plain_grant ''x'') \<noteq> gi_idempotencyKey (plain_grant ''y'')"
    using keys_differ by (simp add: manual_grant_def)
  then show ?thesis using l by (simp add: grantWalletEntry_def run_andThen run_andDo Let_def)
qed

theorem integrity_check_rejects_genuine_chain_witness:
  "verifyRewardLedgerChain plain_rewards ''u1'' (snd second_grant) \<noteq> None"
proof -
  obtain l where l: "rd_entries (snd first_grant) = [l]" "we_userId l = ''u1''" "we_walletType l = ''RIDER''" "filled (we_entryHash l)"
    using first_granted by blast
  obtain e where e: "second_grant = (Inr (e, True), snd second_grant)" using second_granted by blast
  have u: "gi_userId (plain_grant ''y'') = ''u1''" by (simp add: manual_grant_def plain_manual_def)
  have "rewards_typed (snd first_grant)"
    using preservesD[OF live_grant, of rewards_world rewards_world plain_rewards "plain_grant ''x''"] rewards_world_typed
    by (simp add: wallet_live_def)
  moreover have "normalizeWalletType (Some (gi_walletType (plain_grant ''y''))) = ''RIDER''"
    by (simp add: manual_grant_def plain_manual_def normalizeWalletType_def toUpperCase_def to_upper_char_def)
  then have "loadLatestRewardEntry plain_rewards (gi_userId (plain_grant ''y''))
      (normalizeWalletType (Some (gi_walletType (plain_grant ''y'')))) (snd first_grant) = Some l"
    using l u by (simp add: loadLatestRewardEntry_def)
  ultimately show ?thesis
    using integrity_check_rejects_genuine_chain[OF e _ _ l(4), of plain_rewards "[]"] u by (simp add: plain_rewards_def)
qed

subsection \<open>Debiting by hand\<close>

text \<open>
  C26. An administrator's debit is booked as a credit: for a negative amount the new entry says DEBIT in its type but
  CREDIT in its direction, so it raises the balance of the wallet by the amount instead of lowering it.
\<close>

theorem manual_debit_credits_the_wallet:
  assumes "grantManualReward env input adminId db = (Inr (e, True), db')" and "mi_amount input < 0"
  shows "rd_entries db' = rd_entries db @ [e] \<and> we_entryType e = ''DEBIT'' \<and> we_direction e = ''CREDIT'' \<and>
    wt_balance (add_to_total e t) = js_add (wt_balance t) \<bar>mi_amount input\<bar> \<and> wt_debited (add_to_total e t) = wt_debited t"
proof -
  obtain db1 where g: "grantWalletEntry env (manual_grant env input adminId) db = (Inr (e, True), db1)"
    and "rd_entries db' = rd_entries db1"
    using assms(1)
    by (auto simp: grantManualReward_def maybeSendRewardNotification_def assertRewardsEnabled_def run_andThen run_andDo
        whenM_def bestEffort_def run_tryCatch split: if_splits option.splits prod.splits sum.splits)
  then show ?thesis
    using grantWalletEntry_created[OF g] assms(2)
    by (auto simp: manual_grant_def unhashed_entry_def walletDirection_def add_to_total_def)
qed

theorem manual_debit_credits_the_wallet_witness:
  "\<exists>e. rd_entries (snd (grantManualReward plain_rewards (plain_manual (-5) ''x'') None rewards_world)) = [e] \<and>
     we_entryType e = ''DEBIT'' \<and> we_direction e = ''CREDIT''"
proof -
  obtain e where e: "grantManualReward plain_rewards (plain_manual (-5) ''x'') None rewards_world =
      (Inr (e, True), snd (grantManualReward plain_rewards (plain_manual (-5) ''x'') None rewards_world))"
    using debit_run by (metis prod.collapse)
  show ?thesis using manual_debit_credits_the_wallet[OF e] by (simp add: rewards_world_def plain_manual_def)
qed

end
