(* ===== verification/Ratings.thy ===== *)
theory Ratings
  imports Booking_Rider
begin

text \<open>
  Ratings of a booking by its two parties, \<open>src/src/modules/ratings/ratings.service.ts\<close>: who may rate, and the
  running statistics of the rated user. The theorem: the statistics are those of the ratings.
\<close>

subsection \<open>Rows\<close>

record rating_row =
  gr_id :: ident
  gr_bookingId :: ident
  gr_rideId :: ident
  gr_raterId :: ident
  gr_rateeId :: ident
  gr_stars :: int
  gr_reviewText :: "string option"

record rating_stats =
  gs_userId :: ident
  gs_totalRatings :: int
  gs_totalStars :: int
  gs_averageRating :: jsnum

record ratings_db =
  gd_ratings :: "rating_row list"
  gd_stats :: "rating_stats list"
  gd_bookings :: "booking_row list"
  gd_rides :: "ride_row list"

record rating_input =
  gi_stars :: jsnum
  gi_reviewText :: "string option"

subsection \<open>Who may rate\<close>

definition rateableBookingStatuses :: "booking_status list" where
  "rateableBookingStatuses = [COMPLETED, NO_SHOW, DRIVER_MISSED_PICKUP]"

definition acceptedBookingStatuses :: "booking_status list" where
  "acceptedBookingStatuses = [CONFIRMED, WAITING_FOR_PICKUP, DRIVER_ARRIVED, OTP_PENDING, IN_PROGRESS, ONBOARD,
     DROP_PENDING, DRIVER_DROPPED, DISPUTED]"

definition isBookingRateable :: "booking_status \<Rightarrow> ride_status \<Rightarrow> bool" where
  "isBookingRateable bookingStatus rideStatus \<longleftrightarrow> bookingStatus \<in> set rateableBookingStatuses \<or>
     (rideStatus = RIDE_COMPLETED \<and> bookingStatus \<in> set acceptedBookingStatuses)"

subsection \<open>Rating\<close>

definition round2 :: "jsnum \<Rightarrow> jsnum" where "round2 value = js_toFixed2 value"

definition isInteger :: "jsnum \<Rightarrow> bool" where "isInteger x \<longleftrightarrow> of_int \<lfloor>x\<rfloor> = x"

definition first_stats :: "ident \<Rightarrow> int \<Rightarrow> rating_stats" where
  "first_stats rateeId stars =
     \<lparr>gs_userId = rateeId, gs_totalRatings = 1, gs_totalStars = stars, gs_averageRating = round2 (of_int stars)\<rparr>"

definition next_stats :: "int \<Rightarrow> rating_stats \<Rightarrow> rating_stats" where
  "next_stats stars s = (let totalRatings = gs_totalRatings s + 1; totalStars = gs_totalStars s + stars in
     s\<lparr>gs_totalRatings := totalRatings, gs_totalStars := totalStars,
       gs_averageRating := round2 (js_div (of_int totalStars) (of_int totalRatings))\<rparr>)"

definition rating_tx :: "rating_row \<Rightarrow> (ratings_db, rating_row) op" where
  "rating_tx rating = transactionOf (\<lambda>s s'. s)
    (andThen (gets (\<lambda>db. \<exists>g \<in> set (gd_ratings db). gr_bookingId g = gr_bookingId rating \<and> gr_raterId g = gr_raterId rating)) (\<lambda>duplicate.
     andDo (ensure (\<not> duplicate) (Err ''RATING_ALREADY_SUBMITTED''))
    (andDo (modify (\<lambda>db. db\<lparr>gd_ratings := gd_ratings db @ [rating]\<rparr>))
    (andThen (gets (\<lambda>db. find (\<lambda>s. gs_userId s = gr_rateeId rating) (gd_stats db))) (\<lambda>existingStats.
     andDo (case existingStats of
        None \<Rightarrow> modify (\<lambda>db. db\<lparr>gd_stats := gd_stats db @ [first_stats (gr_rateeId rating) (gr_stars rating)]\<rparr>)
      | Some s \<Rightarrow> modify (\<lambda>db. db\<lparr>gd_stats := update_where (\<lambda>s. gs_userId s = gr_rateeId rating)
           (\<lambda>_. next_stats (gr_stars rating) s) (gd_stats db)\<rparr>))
       (ret rating))))))"

text \<open>\<open>newId\<close> is the identifier the database gives to the new row.\<close>

definition submitBookingRating :: "ident \<Rightarrow> ident \<Rightarrow> ident \<Rightarrow> rating_input \<Rightarrow> (ratings_db, rating_row) op" where
  "submitBookingRating newId raterId bookingId input =
     andDo (ensure (\<not> (\<not> isInteger (gi_stars input) \<or> gi_stars input < 1 \<or> gi_stars input > 5)) (Err ''INVALID_RATING_VALUE''))
    (andThen (gets (\<lambda>db. case find (\<lambda>b. b_id b = bookingId) (gd_bookings db) of None \<Rightarrow> None
        | Some b \<Rightarrow> map_option (\<lambda>r. (b, r)) (find (\<lambda>r. r_id r = b_rideId b) (gd_rides db)))) (\<lambda>found.
     andThen (ofOption BOOKING_NOT_FOUND found) (\<lambda>(booking, ride).
     andDo (ensure (isBookingRateable (b_status booking) (r_status ride)) (Err ''BOOKING_NOT_COMPLETED''))
    (let isPassenger = (b_passengerId booking = raterId); isDriver = (r_driverId ride = raterId) in
     andDo (ensure (isPassenger \<or> isDriver) (Err ''NOT_BOOKING_PARTICIPANT''))
    (let rateeId = (if isPassenger then r_driverId ride else b_passengerId booking) in
     andDo (ensure (rateeId \<noteq> raterId) (Err ''SELF_RATING_NOT_ALLOWED''))
    (andThen (gets (\<lambda>db. \<exists>g \<in> set (gd_ratings db). gr_bookingId g = bookingId \<and> gr_raterId g = raterId)) (\<lambda>existing.
     andDo (ensure (\<not> existing) (Err ''RATING_ALREADY_SUBMITTED''))
       (rating_tx \<lparr>gr_id = newId, gr_bookingId = b_id booking, gr_rideId = b_rideId booking, gr_raterId = raterId,
          gr_rateeId = rateeId, gr_stars = \<lfloor>gi_stars input\<rfloor>,
          gr_reviewText = (case gi_reviewText input of None \<Rightarrow> None | Some t \<Rightarrow> if trim t = '''' then None else Some (trim t))\<rparr>))))))))"

subsection \<open>The statistics\<close>

definition rating_ok :: "rating_row \<Rightarrow> bool" where
  "rating_ok g \<longleftrightarrow> 1 \<le> gr_stars g \<and> gr_stars g \<le> 5 \<and> gr_rateeId g \<noteq> gr_raterId g"

definition received :: "ident \<Rightarrow> rating_row list \<Rightarrow> int list" where
  "received u gs = map gr_stars (filter (\<lambda>g. gr_rateeId g = u) gs)"

text \<open>What the statistics of a user should be, \<open>None\<close> without ratings.\<close>

definition stats_of :: "ident \<Rightarrow> rating_row list \<Rightarrow> rating_stats option" where
  "stats_of u gs = (if received u gs = [] then None else
     Some \<lparr>gs_userId = u, gs_totalRatings = int (length (received u gs)), gs_totalStars = sum_list (received u gs),
       gs_averageRating = round2 (js_div (of_int (sum_list (received u gs))) (of_nat (length (received u gs))))\<rparr>)"

definition ratings_books :: "ratings_db \<Rightarrow> bool" where
  "ratings_books db \<longleftrightarrow> distinct (map (\<lambda>g. (gr_bookingId g, gr_raterId g)) (gd_ratings db)) \<and>
     (\<forall>g \<in> set (gd_ratings db). rating_ok g) \<and> distinct (map gs_userId (gd_stats db)) \<and>
     (\<forall>u. find (\<lambda>s. gs_userId s = u) (gd_stats db) = stats_of u (gd_ratings db))"

lemma received_append [simp]: "received u (gs @ [g]) = received u gs @ (if gr_rateeId g = u then [gr_stars g] else [])"
  by (simp add: received_def)

lemma stats_of_first: "rating_ok g \<Longrightarrow> received (gr_rateeId g) gs = [] \<Longrightarrow>
    stats_of (gr_rateeId g) (gs @ [g]) = Some (first_stats (gr_rateeId g) (gr_stars g))"
  by (simp add: stats_of_def first_stats_def js_div_def fl64_of_int rating_ok_def)

lemma stats_of_next:
  "stats_of (gr_rateeId g) gs = Some s \<Longrightarrow> stats_of (gr_rateeId g) (gs @ [g]) = Some (next_stats (gr_stars g) s)"
  by (auto simp: stats_of_def next_stats_def Let_def add.commute split: if_splits)

lemma stats_of_user: "stats_of u gs = Some s \<Longrightarrow> gs_userId s = u"
  by (auto simp: stats_of_def split: if_splits)

lemma stats_of_other: "gr_rateeId g \<noteq> u \<Longrightarrow> stats_of u (gs @ [g]) = stats_of u gs"
  by (simp add: stats_of_def)

lemma find_append_one: "find p (xs @ [x]) = (case find p xs of Some y \<Rightarrow> Some y | None \<Rightarrow> if p x then Some x else None)"
  by (induction xs) auto

lemma next_stats_user [simp]: "gs_userId (next_stats n s) = gs_userId s"
  by (simp add: next_stats_def Let_def)

lemma books_after_rating:
  assumes books: "ratings_books db" and g: "rating_ok g"
    and new: "(gr_bookingId g, gr_raterId g) \<notin> (\<lambda>g. (gr_bookingId g, gr_raterId g)) ` set (gd_ratings db)"
    and stats: "stats' = (case find (\<lambda>s. gs_userId s = gr_rateeId g) (gd_stats db) of
        None \<Rightarrow> gd_stats db @ [first_stats (gr_rateeId g) (gr_stars g)]
      | Some s \<Rightarrow> update_where (\<lambda>s. gs_userId s = gr_rateeId g) (\<lambda>_. next_stats (gr_stars g) s) (gd_stats db))"
  shows "ratings_books (db\<lparr>gd_ratings := gd_ratings db @ [g], gd_stats := stats'\<rparr>)"
proof -
  let ?u = "gr_rateeId g" and ?gs = "gd_ratings db" and ?ss = "gd_stats db"
  have b: "distinct (map gs_userId ?ss)" "find (\<lambda>s. gs_userId s = u) ?ss = stats_of u ?gs" for u
    using books by (simp_all add: ratings_books_def)
  have d: "distinct (map gs_userId stats')" and f: "find (\<lambda>s. gs_userId s = u) stats' = stats_of u (?gs @ [g])" for u
  proof -
    show "distinct (map gs_userId stats')"
    proof (cases "find (\<lambda>s. gs_userId s = ?u) ?ss")
      case None
      have "gr_rateeId g \<notin> gs_userId ` set ?ss" using None by (simp add: find_key_None_iff)
      then show ?thesis using None b(1) by (simp add: stats first_stats_def)
    next
      case (Some s)
      then have "gs_userId s = ?u" by (auto dest: find_Some_mem)
      then have "map gs_userId stats' = map gs_userId ?ss"
        unfolding stats using Some by (simp, intro map_update_where) simp
      then show ?thesis using b(1) by simp
    qed
    show "find (\<lambda>s. gs_userId s = u) stats' = stats_of u (?gs @ [g])"
    proof (cases "find (\<lambda>s. gs_userId s = ?u) ?ss")
      case None
      then have "received ?u ?gs = []" using b(2)[of ?u] by (simp add: stats_of_def split: if_splits)
      then show ?thesis
        using None b(2)[of u] stats_of_first[OF g] stats_of_other[of g u ?gs]
        by (cases "u = ?u") (auto simp: stats find_append_one first_stats_def split: option.split)
    next
      case (Some s)
      then have s: "gs_userId s = ?u" by (auto dest: find_Some_mem)
      have "find (\<lambda>s. gs_userId s = u) stats' = map_option (\<lambda>y. if gs_userId y = ?u then next_stats (gr_stars g) s else y)
          (find (\<lambda>s. gs_userId s = u) ?ss)"
        unfolding stats using Some s by (simp, intro find_update_where) simp
      then have eq: "find (\<lambda>s. gs_userId s = u) stats' =
          map_option (\<lambda>y. if gs_userId y = ?u then next_stats (gr_stars g) s else y) (stats_of u ?gs)"
        by (simp only: b(2))
      have st: "stats_of ?u ?gs = Some s" using Some by (simp only: b(2))
      show ?thesis
      proof (cases "u = ?u")
        case True
        then show ?thesis using eq st s stats_of_next[OF st] by simp
      next
        case False
        then have "map_option (\<lambda>y. if gs_userId y = ?u then next_stats (gr_stars g) s else y) (stats_of u ?gs) = stats_of u ?gs"
          by (cases "stats_of u ?gs") (auto dest: stats_of_user)
        then show ?thesis using eq stats_of_other[of g u ?gs] False by simp
      qed
    qed
  qed
  show ?thesis using books g new d f by (auto simp: ratings_books_def)
qed

lemma rating_tx_books:
  assumes "rating_ok g" "ratings_books db"
  shows "ratings_books (snd (rating_tx g db))"
proof (cases "\<exists>h \<in> set (gd_ratings db). gr_bookingId h = gr_bookingId g \<and> gr_raterId h = gr_raterId g")
  case True
  then show ?thesis using assms by (simp add: rating_tx_def run_transaction run_andThen run_andDo)
next
  case False
  then have new: "(gr_bookingId g, gr_raterId g) \<notin> (\<lambda>g. (gr_bookingId g, gr_raterId g)) ` set (gd_ratings db)" by force
  have "snd (rating_tx g db) = db\<lparr>gd_ratings := gd_ratings db @ [g], gd_stats :=
      (case find (\<lambda>s. gs_userId s = gr_rateeId g) (gd_stats db) of
         None \<Rightarrow> gd_stats db @ [first_stats (gr_rateeId g) (gr_stars g)]
       | Some s \<Rightarrow> update_where (\<lambda>s. gs_userId s = gr_rateeId g) (\<lambda>_. next_stats (gr_stars g) s) (gd_stats db))\<rparr>"
    using False by (simp add: rating_tx_def run_transaction run_andThen run_andDo split: option.split)
  then show ?thesis using books_after_rating[OF assms(2,1) new refl] by simp
qed

lemma integer_stars: "isInteger x \<Longrightarrow> \<not> x < 1 \<Longrightarrow> \<not> x > 5 \<Longrightarrow> 1 \<le> \<lfloor>x\<rfloor> \<and> \<lfloor>x\<rfloor> \<le> 5"
  unfolding isInteger_def by linarith

lemma preserves_guarded_if: "(b \<Longrightarrow> preserves I m) \<Longrightarrow> preserves I (andDo (ensure b e) m)"
  by (cases b) (simp_all add: ensure_def preserves_throw)

lemma submit_books: "preserves ratings_books (submitBookingRating newId raterId bookingId input)"
proof -
  have "preserves ratings_books (rating_tx g)" if "rating_ok g" for g
    using rating_tx_books[OF that] by (rule preservesI)
  then show ?thesis
    unfolding submitBookingRating_def Let_def
    by (intro preserves_guarded_if preserves_andThen preserves_gets preserves_ofOption)
      (auto simp: rating_ok_def integer_stars split: prod.split intro!: preserves_guarded_if preserves_andThen preserves_gets)
qed

definition serve_rating :: "ident \<times> ident \<times> ident \<times> rating_input \<Rightarrow> (ratings_db, rating_row) op" where
  "serve_rating c = (case c of (newId, raterId, bookingId, input) \<Rightarrow> submitBookingRating newId raterId bookingId input)"

interpretation ratings: service serve_rating ratings_books
  by unfold_locales (auto simp: serve_rating_def submit_books split: prod.split)

text \<open>
  C27. The statistics shown for a user are those of the ratings he received: after any sequence of submissions,
  accepted or refused, every rating has one to five stars and another person as author, a booking is rated at most
  once by each party, and for every user the number of ratings, the sum of stars and the rounded average stored are
  exactly those of the stored ratings.
\<close>

theorem rating_statistics_exact:
  assumes "ratings_books db"
  shows "ratings_books (run_calls serve_rating cs db)"
  using assms by (rule ratings.run_keeps)

definition ratings_world :: ratings_db where
  "ratings_world = \<lparr>gd_ratings = [], gd_stats = [], gd_bookings = [sample_booking\<lparr>b_status := COMPLETED\<rparr>], gd_rides = [sample_ride]\<rparr>"

theorem rating_statistics_exact_witness:
  "find (\<lambda>s. gs_userId s = ''d1'') (gd_stats (run_calls serve_rating [(''g1'', ''u1'', ''b1'', \<lparr>gi_stars = 4, gi_reviewText = None\<rparr>)] ratings_world))
     = stats_of ''d1'' (gd_ratings (run_calls serve_rating [(''g1'', ''u1'', ''b1'', \<lparr>gi_stars = 4, gi_reviewText = None\<rparr>)] ratings_world))"
proof -
  have "ratings_books ratings_world" by (simp add: ratings_books_def ratings_world_def stats_of_def received_def)
  from rating_statistics_exact[OF this] show ?thesis unfolding ratings_books_def by blast
qed

end
