(* ===== verification/Polyline.thy ===== *)
theory Polyline
  imports Js_Number "HOL-Library.Word"
begin

unbundle bit_operations_syntax

text \<open>
  Encoded routes, \<open>src/src/modules/publish-ride/draft-ride.service.ts\<close>: \<open>decodePolyline\<close> and the encoder of the
  mock routes. The bitwise operators of JavaScript work on 32-bit integers, here \<open>32 word\<close>; a string is its list of
  code units. The loops are recursions that may not end (\<open>None\<close>); that they end on every input is proved.
\<close>

subsection \<open>JavaScript\<close>

text \<open>\<open>ToInt32\<close>; \<open>NaN\<close>, here \<open>None\<close>, counts as 0.\<close>

definition toInt32 :: "int option \<Rightarrow> 32 word" where
  "toInt32 x = (case x of None \<Rightarrow> 0 | Some n \<Rightarrow> word_of_int n)"

text \<open>\<open>a << n\<close>, \<open>a >> n\<close>: the count is taken modulo 32, the shift right keeps the sign.\<close>

definition js_shl :: "32 word \<Rightarrow> nat \<Rightarrow> 32 word" where "js_shl a n = push_bit (n mod 32) a"
definition js_shr :: "32 word \<Rightarrow> nat \<Rightarrow> 32 word" where "js_shr a n = signed_drop_bit (n mod 32) a"

definition charCodeAt :: "int list \<Rightarrow> nat \<Rightarrow> int option" where
  "charCodeAt s i = (if i < length s then Some (s ! i) else None)"

definition fromCharCode :: "int \<Rightarrow> int" where "fromCharCode n = n mod 65536"

subsection \<open>Decoding\<close>

text \<open>The \<open>do\<close>-\<open>while\<close> loop: the value read and the next index.\<close>

partial_function (option) decode_value :: "int list \<Rightarrow> nat \<Rightarrow> nat \<Rightarrow> 32 word \<Rightarrow> (32 word \<times> nat) option" where
  "decode_value encoded index shift result =
     (let byte = map_option (\<lambda>c. c - 63) (charCodeAt encoded index);
          result' = result OR js_shl (toInt32 byte AND 0x1f) shift in
      if (case byte of None \<Rightarrow> False | Some b \<Rightarrow> 0x20 \<le> b) then decode_value encoded (index + 1) (shift + 5) result'
      else Some (result', index + 1))"

definition decode_delta :: "32 word \<Rightarrow> int" where
  "decode_delta result = sint (if result AND 1 \<noteq> 0 then NOT (js_shr result 1) else js_shr result 1)"

partial_function (option) decode_points :: "int list \<Rightarrow> nat \<Rightarrow> int \<Rightarrow> int \<Rightarrow> (jsnum \<times> jsnum) list option" where
  "decode_points encoded index lat lng =
     (if index < length encoded then
        Option.bind (decode_value encoded index 0 0) (\<lambda>(result, i).
        Option.bind (decode_value encoded i 0 0) (\<lambda>(result', i').
        let lat' = lat + decode_delta result; lng' = lng + decode_delta result' in
        Option.bind (decode_points encoded i' lat' lng') (\<lambda>points.
        Some ((js_div (of_int lat') 100000, js_div (of_int lng') 100000) # points))))
      else Some [])"

definition decodePolyline :: "int list \<Rightarrow> (jsnum \<times> jsnum) list option" where
  "decodePolyline encoded = decode_points encoded 0 0 0"

subsection \<open>Encoding\<close>

partial_function (option) encodeUnsignedNumber :: "32 word \<Rightarrow> int list option" where
  "encodeUnsignedNumber num =
     (if 0x20 \<le> sint num then
        Option.bind (encodeUnsignedNumber (js_shr num 5)) (\<lambda>rest.
        Some (fromCharCode (sint (0x20 OR (num AND 0x1f)) + 63) # rest))
      else Some [fromCharCode (sint num + 63)])"

definition encodeSignedNumber :: "int \<Rightarrow> int list option" where
  "encodeSignedNumber num =
     (let sgn_num = js_shl (toInt32 (Some num)) 1 in
      encodeUnsignedNumber (if num < 0 then NOT sgn_num else sgn_num))"

definition to_e5 :: "jsnum \<Rightarrow> int" where "to_e5 x = js_round (js_mul x 100000)"

fun encode_points :: "int \<Rightarrow> int \<Rightarrow> (jsnum \<times> jsnum) list \<Rightarrow> int list option" where
  "encode_points prevLat prevLng [] = Some []"
| "encode_points prevLat prevLng ((lat, lng) # points) =
     Option.bind (encodeSignedNumber (to_e5 lat - prevLat)) (\<lambda>a.
     Option.bind (encodeSignedNumber (to_e5 lng - prevLng)) (\<lambda>b.
     Option.bind (encode_points (to_e5 lat) (to_e5 lng) points) (\<lambda>rest. Some (a @ b @ rest))))"

definition mockEncodePolyline :: "(jsnum \<times> jsnum) list \<Rightarrow> int list option" where
  "mockEncodePolyline points = encode_points 0 0 points"

subsection \<open>Termination\<close>

text \<open>Past the end of the string \<open>charCodeAt\<close> is \<open>NaN\<close>, which ends the loop.\<close>

lemma decode_value_returns: "\<exists>r i. decode_value s index shift result = Some (r, i) \<and> index < i"
proof (induction "length s - index" arbitrary: index shift result rule: less_induct)
  case less
  show ?case
  proof (cases "index < length s \<and> 0x20 \<le> s ! index - 63")
    case True
    then have "length s - (index + 1) < length s - index" by auto
    from less[OF this] obtain r i where
      "decode_value s (index + 1) (shift + 5) (result OR js_shl (toInt32 (Some (s ! index - 63)) AND 0x1f) shift) = Some (r, i)"
      "index + 1 < i" by blast
    then have "decode_value s index shift result = Some (r, i)"
      using True by (subst decode_value.simps) (simp add: charCodeAt_def Let_def)
    then show ?thesis using \<open>index + 1 < i\<close> by auto
  next
    case False
    then show ?thesis by (subst decode_value.simps) (auto simp: charCodeAt_def Let_def)
  qed
qed

lemma decode_points_returns:
  "\<exists>points. decode_points s index lat lng = Some points \<and> 2 * length points + index \<le> max index (length s + 1)"
proof (induction "length s - index" arbitrary: index lat lng rule: less_induct)
  case less
  show ?case
  proof (cases "index < length s")
    case True
    obtain r i where 1: "decode_value s index 0 0 = Some (r, i)" "index < i" using decode_value_returns by blast
    obtain r' i' where 2: "decode_value s i 0 0 = Some (r', i')" "i < i'" using decode_value_returns by blast
    have "length s - i' < length s - index" using True 1(2) 2(2) by linarith
    from less[OF this] obtain points where
      3: "decode_points s i' (lat + decode_delta r) (lng + decode_delta r') = Some points"
         "2 * length points + i' \<le> max i' (length s + 1)" by blast
    show ?thesis
      using True 1 2 3 by (subst decode_points.simps) (simp add: Let_def)
  next
    case False
    then show ?thesis by (subst decode_points.simps) simp
  qed
qed

lemma js_shr_sint: "sint (js_shr w n) = sint w div 2 ^ (n mod 32)"
  by (simp add: js_shr_def sint_signed_drop_bit_eq drop_bit_eq_div)

lemma encodeUnsignedNumber_returns: "\<exists>s. encodeUnsignedNumber num = Some s"
proof (induction "nat (sint num)" arbitrary: num rule: less_induct)
  case less
  show ?case
  proof (cases "0x20 \<le> sint num")
    case True
    then have "nat (sint (js_shr num 5)) < nat (sint num)" by (simp add: js_shr_sint)
    from less[OF this] True show ?thesis by (subst encodeUnsignedNumber.simps) auto
  next
    case False
    then show ?thesis by (subst encodeUnsignedNumber.simps) simp
  qed
qed

lemma encode_points_returns: "\<exists>s. encode_points a b points = Some s"
proof (induction points arbitrary: a b)
  case (Cons p points)
  obtain lat lng where p: "p = (lat, lng)" by (cases p)
  have "\<exists>s. encodeSignedNumber n = Some s" for n
    unfolding encodeSignedNumber_def Let_def by (rule encodeUnsignedNumber_returns)
  then obtain s t where "encodeSignedNumber (to_e5 lat - a) = Some s" "encodeSignedNumber (to_e5 lng - b) = Some t" by blast
  then show ?case using Cons[of "to_e5 lat" "to_e5 lng"] by (auto simp: p)
qed simp

subsection \<open>Round trip\<close>

text \<open>One value: the code units appended to what was read before them are read back as its bits.\<close>

lemma low_bits: "(w :: 32 word) AND 0x1f = take_bit 5 w"
  by (simp add: take_bit_eq_mask mask_eq_decr_exp)

lemma split_bits: "push_bit n (take_bit 5 w) OR push_bit (n + 5) (drop_bit 5 w) = push_bit n (w :: 32 word)"
proof (rule bit_word_eqI)
  fix m assume "m < LENGTH(32)"
  show "bit (push_bit n (take_bit 5 w) OR push_bit (n + 5) (drop_bit 5 w)) m = bit (push_bit n w) m"
  proof (cases "m < n + 5")
    case False
    then have "5 + (m - (n + 5)) = m - n" by simp
    then show ?thesis using False \<open>m < LENGTH(32)\<close> by (auto simp: bit_simps)
  qed (auto simp: bit_simps)
qed

lemma small_sint:
  assumes "uint w < 2 ^ 31" shows "sint (w :: 32 word) = uint w"
proof -
  have "- (2 ^ 31) \<le> uint w" by (rule order.trans[of _ 0]) simp_all
  then have "signed_take_bit 31 (uint w) = uint w" using assms by (rule signed_take_bit_int_eq_self)
  then show ?thesis by (simp add: sint_uint)
qed

lemma shr_small:
  assumes "uint w < 2 ^ 31" shows "js_shr w 5 = drop_bit 5 (w :: 32 word)"
proof -
  have "uint w div 2 ^ 31 = 0" using assms by (simp add: div_pos_pos_trivial)
  then have "\<not> bit (uint w) 31" by (simp add: bit_iff_odd)
  then have "\<not> bit w 31" by (simp add: bit_uint_iff)
  then show ?thesis unfolding js_shr_def by (intro bit_word_eqI) (auto simp: bit_simps dest: bit_imp_le_length)
qed

lemma uint_drop5: "uint (drop_bit 5 (w :: 32 word)) = uint w div 32"
  by (simp add: drop_bit_eq_div uint_div)

lemma uint_take5: "uint (w AND 0x1f) = uint (w :: 32 word) mod 32"
  by (simp add: low_bits take_bit_eq_mod uint_mod)

lemma or_32: "sint (0x20 OR (w AND 0x1f) :: 32 word) = 32 + uint w mod 32"
proof -
  have "(0x20 OR (w AND 0x1f)) = (0x20 :: 32 word) + (w AND 0x1f)"
  proof (rule disjunctive_add[symmetric])
    show "\<not> bit (0x20 :: 32 word) n \<or> \<not> bit (w AND 0x1f) n" for n
    proof -
      have "bit (2 ^ 5 :: 32 word) n \<longrightarrow> n = 5" unfolding bit_exp_iff by blast
      moreover have "bit (w AND 0x1f) n \<longrightarrow> n < 5" by (simp add: low_bits bit_simps)
      ultimately show ?thesis by auto
    qed
  qed
  moreover have "uint (0x20 + (w AND 0x1f)) = 32 + uint w mod 32"
    by (subst uint_add_lem[THEN iffD1]) (use pos_mod_bound[of 32 "uint w"] in \<open>simp_all add: uint_take5\<close>)
  ultimately show ?thesis using pos_mod_bound[of 32 "uint w"] by (simp add: small_sint)
qed

lemma toInt32_low: "uint v < 32 \<Longrightarrow> toInt32 (Some (uint (v :: 32 word))) AND 0x1f = v"
  by (simp add: toInt32_def low_bits take_bit_eq_mod word_uint_eq_iff uint_mod)

lemma toInt32_chunk: "toInt32 (Some (32 + uint (w :: 32 word) mod 32)) AND 0x1f = w AND 0x1f"
proof -
  have m: "0 \<le> uint w mod 32" "uint w mod 32 < 32" by simp_all
  then have "(32 + uint w mod 32) mod 2 ^ 32 = 32 + uint w mod 32" by (intro mod_pos_pos_trivial) simp_all
  then have "uint (word_of_int (32 + uint w mod 32) :: 32 word) = 32 + uint w mod 32" by (subst uint_word_of_int) simp
  then show ?thesis by (simp add: toInt32_def low_bits take_bit_eq_mod word_uint_eq_iff uint_mod)
qed

lemma nth_middle: "(pre @ c # post) ! length pre = c"
  by simp

text \<open>\<open>shift\<close> bits were read before and \<open>k\<close> are left.\<close>

lemma decode_encoded:
  assumes "encodeUnsignedNumber w = Some cs" "uint w < 2 ^ k" "shift + k \<le> 31"
  shows "decode_value (pre @ cs @ post) (length pre) shift r = Some (r OR push_bit shift w, length pre + length cs)"
  using assms
proof (induction k arbitrary: w cs shift r pre rule: less_induct)
  case (less k)
  have "(2::int) ^ k \<le> 2 ^ 31" using less.prems(3) by (intro power_increasing) simp_all
  then have w: "uint w < 2 ^ 31" using less.prems(2) by linarith
  have sh: "shift mod 32 = shift" using less.prems(3) by simp
  show ?case
  proof (cases "0x20 \<le> sint w")
    case True
    then have big: "32 \<le> uint w" using w by (simp add: small_sint)
    obtain rest where rest: "encodeUnsignedNumber (drop_bit 5 w) = Some rest"
      and cs: "cs = fromCharCode (sint (0x20 OR (w AND 0x1f)) + 63) # rest"
      using less.prems(1) True w by (subst (asm) encodeUnsignedNumber.simps) (auto simp: shr_small bind_eq_Some_conv)
    have k: "5 < k"
    proof (rule ccontr)
      assume "\<not> 5 < k"
      then have "(2::int) ^ k \<le> 2 ^ 5" by (intro power_increasing) simp_all
      then show False using big less.prems(2) by simp
    qed
    have c: "cs = (95 + uint w mod 32) # rest"
      using pos_mod_bound[of 32 "uint w"] by (simp add: cs or_32 fromCharCode_def)
    have "uint (drop_bit 5 w) < 2 ^ (k - 5)"
    proof -
      have "(2::int) ^ k = 32 * 2 ^ (k - 5)" using k power_add[of "2::int" 5 "k - 5"] by simp
      then show ?thesis using less.prems(2) by (simp add: uint_drop5)
    qed
    moreover have "k - 5 < k" "shift + 5 + (k - 5) \<le> 31" using k less.prems(3) by simp_all
    ultimately have "decode_value ((pre @ [95 + uint w mod 32]) @ rest @ post) (length (pre @ [95 + uint w mod 32])) (shift + 5)
        (r OR push_bit shift (take_bit 5 w)) =
        Some ((r OR push_bit shift (take_bit 5 w)) OR push_bit (shift + 5) (drop_bit 5 w), length (pre @ [95 + uint w mod 32]) + length rest)"
      using rest by (intro less.IH) simp_all
    moreover have "(r OR push_bit shift (take_bit 5 w)) OR push_bit (shift + 5) (drop_bit 5 w) = r OR push_bit shift w"
      using split_bits[of shift w] by (simp add: or.assoc)
    ultimately show ?thesis
      using toInt32_chunk[of w]
      by (subst decode_value.simps) (simp add: c charCodeAt_def nth_append Let_def js_shl_def sh low_bits add.commute)
  next
    case False
    then have small: "uint w < 32" using w by (simp add: small_sint)
    then have "cs = [uint w + 63]" using less.prems(1) False w
      by (subst (asm) encodeUnsignedNumber.simps) (simp add: small_sint fromCharCode_def)
    then show ?thesis using toInt32_low[OF small] small
      by (subst decode_value.simps) (simp add: low_bits charCodeAt_def nth_append Let_def js_shl_def sh)
  qed
qed

text \<open>The sign in the lowest bit.\<close>

definition zigzag :: "int \<Rightarrow> 32 word" where
  "zigzag n = (let s = js_shl (toInt32 (Some n)) 1 in if n < 0 then NOT s else s)"

lemma js_shl_1_uint: "0 \<le> n \<Longrightarrow> n < 2 ^ 30 \<Longrightarrow> uint (js_shl (toInt32 (Some n)) 1) = 2 * n"
proof -
  assume n: "0 \<le> n" "n < 2 ^ 30"
  have "push_bit 1 (word_of_int n :: 32 word) = word_of_int (2 * n)" by simp
  then have "uint (js_shl (toInt32 (Some n)) 1) = (2 * n) mod 2 ^ 32"
    unfolding js_shl_def toInt32_def by (simp only: option.case mod_less) (subst uint_word_of_int, simp)
  then show ?thesis using n by simp
qed

lemma zigzag_uint:
  assumes "- (2 ^ 29) \<le> n" "n < 2 ^ 29"
  shows "uint (zigzag n) = (if n < 0 then - 2 * n - 1 else 2 * n)"
proof (cases "n < 0")
  case False
  then show ?thesis using assms js_shl_1_uint[of n] by (simp add: zigzag_def)
next
  case True
  have "NOT (js_shl (toInt32 (Some n)) 1) = word_of_int (- 2 * n - 1)"
    by (simp add: js_shl_def toInt32_def not_eq_complement)
  moreover have "uint (word_of_int (- 2 * n - 1) :: 32 word) = - 2 * n - 1"
    using True assms by (subst uint_word_of_int) simp
  ultimately show ?thesis using True by (simp add: zigzag_def)
qed

lemma decode_zigzag:
  assumes "- (2 ^ 29) \<le> n" "n < 2 ^ 29"
  shows "decode_delta (zigzag n) = n"
proof -
  let ?z = "zigzag n"
  have u: "uint ?z = (if n < 0 then - 2 * n - 1 else 2 * n)" using assms by (rule zigzag_uint)
  then have "uint ?z < 2 ^ 31" using assms by (simp split: if_splits)
  then have s: "sint (js_shr ?z 1) = uint ?z div 2" by (simp add: js_shr_sint small_sint)
  have odd: "(?z AND 1 \<noteq> 0) = (n < 0)"
  proof -
    have "?z AND 1 = ?z mod 2" by (simp add: and_one_eq)
    then have "(?z AND 1 \<noteq> 0) = (uint ?z mod 2 \<noteq> 0)" by (simp only: word_uint_eq_iff uint_mod) simp
    then show ?thesis using u by (cases "n < 0") (simp_all add: mod_eq_0_iff_dvd)
  qed
  have not: "sint (NOT w) = - sint w - 1" if "- (2 ^ 30) \<le> sint w" "sint w < 2 ^ 30" for w :: "32 word"
  proof -
    have "NOT w = word_of_int (- sint w - 1)" by (simp add: not_eq_complement)
    then show ?thesis using that by (simp only: sint_sbintrunc') (simp add: signed_take_bit_int_eq_self)
  qed
  show ?thesis
  proof (cases "n < 0")
    case True
    then have "sint (js_shr ?z 1) = - n - 1" using s u by simp
    then show ?thesis using True odd assms not[of "js_shr ?z 1"] by (simp add: decode_delta_def)
  qed (use s u odd in \<open>simp add: decode_delta_def\<close>)
qed

lemma encodeSignedNumber_zigzag: "encodeSignedNumber n = encodeUnsignedNumber (zigzag n)"
  by (simp add: encodeSignedNumber_def zigzag_def Let_def)

lemma encodeUnsignedNumber_Cons: "encodeUnsignedNumber w = Some cs \<Longrightarrow> cs \<noteq> []"
  by (subst (asm) encodeUnsignedNumber.simps) (auto simp: bind_eq_Some_conv split: if_splits)

lemma decode_signed:
  assumes "encodeSignedNumber n = Some cs" "- (2 ^ 29) \<le> n" "n < 2 ^ 29"
  shows "\<exists>w. decode_value (pre @ cs @ post) (length pre) 0 0 = Some (w, length (pre @ cs)) \<and> decode_delta w = n"
proof -
  have "uint (zigzag n) < 2 ^ 30" using zigzag_uint[OF assms(2,3)] assms(2,3) by (simp split: if_splits)
  then have "decode_value (pre @ cs @ post) (length pre) 0 0 = Some (0 OR push_bit 0 (zigzag n), length pre + length cs)"
    using assms(1) by (intro decode_encoded[where k = 30]) (simp_all add: encodeSignedNumber_zigzag)
  then show ?thesis using decode_zigzag[OF assms(2,3)] by simp
qed

definition rounded :: "jsnum \<times> jsnum \<Rightarrow> jsnum \<times> jsnum" where
  "rounded p = (js_div (of_int (to_e5 (fst p))) 100000, js_div (of_int (to_e5 (snd p))) 100000)"

definition encodable :: "int \<Rightarrow> bool" where "encodable k \<longleftrightarrow> \<bar>k\<bar> < 2 ^ 28"

lemma encodable_diff: "encodable a \<Longrightarrow> encodable b \<Longrightarrow> - (2 ^ 29) \<le> a - b \<and> a - b < 2 ^ 29"
  by (auto simp: encodable_def)

lemma decode_encode_points:
  assumes "encode_points a b points = Some cs" "encodable a" "encodable b"
    and "\<forall>p \<in> set points. encodable (to_e5 (fst p)) \<and> encodable (to_e5 (snd p))"
  shows "decode_points (pre @ cs) (length pre) a b = Some (map rounded points)"
  using assms
proof (induction points arbitrary: a b cs pre)
  case Nil
  then show ?case by (subst decode_points.simps) simp
next
  case (Cons p points)
  let ?lat = "to_e5 (fst p)" and ?lng = "to_e5 (snd p)"
  obtain s t rest where st: "encodeSignedNumber (?lat - a) = Some s" "encodeSignedNumber (?lng - b) = Some t"
    and rest: "encode_points ?lat ?lng points = Some rest" and cs: "cs = s @ t @ rest"
    using Cons.prems(1) by (cases p) (auto simp: bind_eq_Some_conv)
  have e: "encodable ?lat" "encodable ?lng" using Cons.prems(4) by simp_all
  obtain w where w: "decode_value (pre @ s @ t @ rest) (length pre) 0 0 = Some (w, length (pre @ s))" "decode_delta w = ?lat - a"
    using decode_signed[OF st(1), of pre "t @ rest"] encodable_diff[OF e(1) Cons.prems(2)] by auto
  obtain v where v: "decode_value ((pre @ s) @ t @ rest) (length (pre @ s)) 0 0 = Some (v, length ((pre @ s) @ t))" "decode_delta v = ?lng - b"
    using decode_signed[OF st(2), of "pre @ s" rest] encodable_diff[OF e(2) Cons.prems(3)] by auto
  have "decode_points ((pre @ s @ t) @ rest) (length (pre @ s @ t)) ?lat ?lng = Some (map rounded points)"
    using rest e Cons.prems(4) by (intro Cons.IH) simp_all
  moreover have "s \<noteq> []" using st(1) encodeUnsignedNumber_Cons by (simp add: encodeSignedNumber_zigzag)
  ultimately show ?case using w v by (subst decode_points.simps) (simp add: cs Let_def rounded_def)
qed

subsection \<open>Coordinates\<close>

lemma e5_close:
  assumes "\<bar>x\<bar> \<le> 180" shows "\<bar>of_int (to_e5 x) - x * 100000\<bar> \<le> 501 / 1000"
proof -
  have "\<bar>js_mul x 100000 - x * 100000\<bar> \<le> \<bar>x * 100000\<bar> / 2 ^ 53"
    unfolding js_mul_def by (rule fl64_relative_error)
  also have "\<dots> \<le> 1 / 1000" using assms by (simp add: abs_mult)
  finally have "\<bar>js_mul x 100000 - x * 100000\<bar> \<le> 1 / 1000" .
  moreover have "\<bar>of_int (to_e5 x) - js_mul x 100000\<bar> \<le> 1 / 2"
    unfolding to_e5_def js_round_def by linarith
  ultimately show ?thesis by linarith
qed

lemma e5_bound:
  assumes "\<bar>x\<bar> \<le> 180" shows "\<bar>of_int (to_e5 x) :: rat\<bar> \<le> 18000001"
  using e5_close[OF assms] assms by linarith

lemma e5_encodable:
  assumes "\<bar>x\<bar> \<le> 180" shows "encodable (to_e5 x)"
proof -
  have "\<bar>to_e5 x\<bar> \<le> 18000001" using e5_bound[OF assms] by linarith
  then show ?thesis by (simp add: encodable_def)
qed

lemma rounded_close:
  assumes "\<bar>x\<bar> \<le> 180" shows "\<bar>js_div (of_int (to_e5 x)) 100000 - x\<bar> \<le> 1 / 100000"
proof -
  let ?k = "of_int (to_e5 x) :: rat"
  have "\<bar>js_div ?k 100000 - ?k / 100000\<bar> \<le> \<bar>?k / 100000\<bar> / 2 ^ 53"
    unfolding js_div_def by (rule fl64_relative_error)
  also have "\<dots> \<le> 1 / 100000000" using e5_bound[OF assms] by simp
  finally have "\<bar>js_div ?k 100000 - ?k / 100000\<bar> \<le> 1 / 100000000" .
  moreover have "\<bar>?k / 100000 - x\<bar> \<le> 502 / 100000000" using e5_close[OF assms] by linarith
  ultimately show ?thesis by linarith
qed

definition near :: "jsnum \<times> jsnum \<Rightarrow> jsnum \<times> jsnum \<Rightarrow> bool" where
  "near p q \<longleftrightarrow> \<bar>fst q - fst p\<bar> \<le> 1 / 100000 \<and> \<bar>snd q - snd p\<bar> \<le> 1 / 100000"

text \<open>
  C28. The loops of the route codec end: decoding returns for every string whatsoever, also one that stops in the
  middle of a number or is no polyline, with at most one point per two characters, and encoding returns for every
  list of points, also where the 32-bit arithmetic wraps around.
\<close>

theorem polyline_loops_end:
  "(\<exists>points. decodePolyline s = Some points \<and> 2 * length points \<le> length s + 1) \<and> (\<exists>t. mockEncodePolyline ps = Some t)"
  unfolding decodePolyline_def mockEncodePolyline_def
  using decode_points_returns[of s 0 0 0] encode_points_returns[of 0 0 ps] by simp

text \<open>
  C29. A route survives encoding: for points on the earth, decoding what the encoder returns gives the same points,
  in order, each coordinate within one hundred-thousandth of a degree.
\<close>

theorem polyline_roundtrip:
  assumes "\<forall>(lat, lng) \<in> set points. \<bar>lat\<bar> \<le> 90 \<and> \<bar>lng\<bar> \<le> 180" and "mockEncodePolyline points = Some s"
  shows "\<exists>decoded. decodePolyline s = Some decoded \<and> list_all2 near points decoded"
proof -
  have p: "\<bar>fst p\<bar> \<le> 180" "\<bar>snd p\<bar> \<le> 180" if "p \<in> set points" for p
    using assms(1) that by (cases p; fastforce)+
  have "decode_points ([] @ s) (length ([] :: int list)) 0 0 = Some (map rounded points)"
    using assms(2) p by (intro decode_encode_points) (simp_all add: mockEncodePolyline_def e5_encodable, simp_all add: encodable_def)
  moreover have "near q (rounded q)" if "q \<in> set points" for q
    unfolding near_def rounded_def fst_conv snd_conv using rounded_close[OF p(1)[OF that]] rounded_close[OF p(2)[OF that]] by (rule conjI)
  then have "list_all2 near points (map rounded points)" by (simp add: list_all2_conv_all_nth)
  ultimately show ?thesis by (auto simp: decodePolyline_def)
qed

theorem polyline_roundtrip_witness:
  "\<exists>s decoded. mockEncodePolyline [(577 / 10, 247 / 10), (-1 / 3, 0)] = Some s \<and> decodePolyline s = Some decoded \<and>
     list_all2 near [(577 / 10, 247 / 10), (-1 / 3, 0)] decoded"
proof -
  obtain s where s: "mockEncodePolyline [(577 / 10, 247 / 10), (-1 / 3, 0)] = Some s"
    using encode_points_returns unfolding mockEncodePolyline_def by blast
  show ?thesis using polyline_roundtrip[OF _ s] s by simp
qed

end
