(* ===== verification/Pricing_Admin.thy ===== *)
theory Pricing_Admin
  imports Effects Js_Number
begin

text \<open>
  Prices per seat and the administration of the rates: \<open>src/src/modules/pricing/pricing.calculator.ts\<close> and
  \<open>pricing.service.ts\<close>. A configuration holds the rates of a region; the prices of a ride follow from its distance.
\<close>

subsection \<open>Rows\<close>

record pricing_config =
  pc_id :: ident
  pc_regionCode :: string
  pc_currency :: string
  pc_minRatePerKm :: jsnum
  pc_recommendedRatePerKm :: jsnum
  pc_maxRatePerKm :: jsnum
  pc_minimumSeatPrice :: jsnum
  pc_roundingStrategy :: string
  pc_serviceFeePercent :: jsnum
  pc_serviceFeeFlat :: jsnum
  pc_active :: bool
  pc_validFrom :: time
  pc_validTo :: "time option"
  pc_createdBy :: "ident option"
  pc_createdAt :: time

record pricing_snapshot =
  ps_rideId :: ident
  ps_pricingVersion :: string
  ps_regionCode :: string
  ps_currency :: string
  ps_distanceKm :: jsnum
  ps_minRatePerKm :: jsnum
  ps_recommendedRatePerKm :: jsnum
  ps_maxRatePerKm :: jsnum
  ps_minimumSeatPrice :: jsnum
  ps_recommendedPricePerSeat :: jsnum
  ps_minAllowedPricePerSeat :: jsnum
  ps_maxAllowedPricePerSeat :: jsnum
  ps_selectedPricePerSeat :: jsnum
  ps_roundingStrategy :: string
  ps_serviceFeePercent :: jsnum
  ps_serviceFeeFlat :: jsnum

record pricing_db =
  pd_configs :: "pricing_config list"
  pd_snapshots :: "pricing_snapshot list"

subsection \<open>The calculator\<close>

definition applyRounding :: "jsnum \<Rightarrow> string \<Rightarrow> jsnum" where
  "applyRounding amount strategy =
     (if strategy = ''NEAREST_EURO'' then of_int (js_round amount)
      else if strategy = ''NEAREST_HALF_EURO'' then js_div (of_int (js_round (js_mul amount 2))) 2
      else js_div (of_int (js_round (js_mul amount 100))) 100)"

record price_calculation =
  pk_distanceKm :: jsnum
  pk_recommendedPricePerSeat :: jsnum
  pk_minAllowedPricePerSeat :: jsnum
  pk_maxAllowedPricePerSeat :: jsnum
  pk_config :: pricing_config

definition seat_price :: "pricing_config \<Rightarrow> jsnum \<Rightarrow> jsnum \<Rightarrow> jsnum" where
  "seat_price c distanceKm rate = max (pc_minimumSeatPrice c) (applyRounding (js_mul distanceKm rate) (pc_roundingStrategy c))"

definition calculatePrice :: "jsnum \<Rightarrow> pricing_config \<Rightarrow> price_calculation" where
  "calculatePrice distanceKm c = \<lparr>pk_distanceKm = distanceKm,
     pk_recommendedPricePerSeat = seat_price c distanceKm (pc_recommendedRatePerKm c),
     pk_minAllowedPricePerSeat = seat_price c distanceKm (pc_minRatePerKm c),
     pk_maxAllowedPricePerSeat = seat_price c distanceKm (pc_maxRatePerKm c), pk_config = c\<rparr>"

definition validateDriverPrice :: "jsnum \<Rightarrow> price_calculation \<Rightarrow> bool" where
  "validateDriverPrice selectedPrice calculation \<longleftrightarrow> \<not> selectedPrice < pk_minAllowedPricePerSeat calculation"

text \<open>The triples are \<open>fromPosition\<close>, \<open>toPosition\<close>, \<open>distanceKm\<close>.\<close>

definition calculateSegmentPrices ::
  "jsnum \<Rightarrow> jsnum \<Rightarrow> (int \<times> int \<times> jsnum) list \<Rightarrow> jsnum \<Rightarrow> string \<Rightarrow> (int \<times> int \<times> jsnum \<times> jsnum) list" where
  "calculateSegmentPrices totalDistanceKm selectedPricePerSeat segs minimumSeatPrice roundingStrategy =
     (let ratePerKm = js_div selectedPricePerSeat totalDistanceKm in
      map (\<lambda>(a, b, d). (a, b, d, max minimumSeatPrice (applyRounding (js_mul d ratePerKm) roundingStrategy))) segs)"

subsection \<open>Reading the rates\<close>

definition DEFAULT_REGION :: string where "DEFAULT_REGION = ''BALTIC''"

definition DEFAULT_BALTIC_PRICING_CONFIG :: "time \<Rightarrow> pricing_config" where
  "DEFAULT_BALTIC_PRICING_CONFIG now = \<lparr>pc_id = ''default-baltic-distance-pricing'', pc_regionCode = DEFAULT_REGION, pc_currency = ''EUR'',
     pc_minRatePerKm = fl64 (6 / 100), pc_recommendedRatePerKm = fl64 (8 / 100), pc_maxRatePerKm = fl64 (12 / 100),
     pc_minimumSeatPrice = 3, pc_roundingStrategy = ''NEAREST_EURO'', pc_serviceFeePercent = 20, pc_serviceFeeFlat = 0,
     pc_active = True, pc_validFrom = now, pc_validTo = None, pc_createdBy = Some ''system'', pc_createdAt = now\<rparr>"

text \<open>The first row of an order given by keys, compared from the left; equal keys keep the table's order.\<close>

fun best_by :: "('a \<Rightarrow> int list) \<Rightarrow> 'a list \<Rightarrow> 'a option" where
  "best_by key [] = None"
| "best_by key (x # xs) = (case best_by key xs of None \<Rightarrow> Some x
     | Some y \<Rightarrow> if lexordp (<) (key x) (key y) then Some y else Some x)"

definition config_valid_at :: "time \<Rightarrow> pricing_config \<Rightarrow> bool" where
  "config_valid_at now c \<longleftrightarrow> pc_active c \<and> pc_validFrom c \<le> now \<and> (case pc_validTo c of None \<Rightarrow> True | Some t \<Rightarrow> now < t)"

definition getActivePricingConfig :: "time \<Rightarrow> string \<Rightarrow> pricing_db \<Rightarrow> pricing_config option" where
  "getActivePricingConfig now regionCode db =
     best_by (\<lambda>c. [pc_validFrom c]) (filter (\<lambda>c. pc_regionCode c = regionCode \<and> config_valid_at now c) (pd_configs db))"

abbreviation PRICING_CONFIG_NOT_FOUND :: error where "PRICING_CONFIG_NOT_FOUND \<equiv> Err ''PRICING_CONFIG_NOT_FOUND''"

abbreviation region_or_default :: "string option \<Rightarrow> string" where
  "region_or_default r \<equiv> (case r of None \<Rightarrow> DEFAULT_REGION | Some s \<Rightarrow> if s = '''' then DEFAULT_REGION else s)"

definition getPricePreview :: "time \<Rightarrow> jsnum \<Rightarrow> string option \<Rightarrow> (pricing_db, price_calculation) op" where
  "getPricePreview now distanceKm region =
     andThen (gets (getActivePricingConfig now (region_or_default region))) (\<lambda>found.
     andThen (ofOption PRICING_CONFIG_NOT_FOUND found) (\<lambda>c. ret (calculatePrice distanceKm c)))"

definition snapshot_row :: "ident \<Rightarrow> string \<Rightarrow> jsnum \<Rightarrow> jsnum \<Rightarrow> price_calculation \<Rightarrow> pricing_snapshot" where
  "snapshot_row rideId regionCode distanceKm selectedPricePerSeat k =
     (let c = pk_config k in \<lparr>ps_rideId = rideId, ps_pricingVersion = ''DISTANCE_RATE_V1'', ps_regionCode = regionCode,
        ps_currency = pc_currency c, ps_distanceKm = distanceKm, ps_minRatePerKm = pc_minRatePerKm c,
        ps_recommendedRatePerKm = pc_recommendedRatePerKm c, ps_maxRatePerKm = pc_maxRatePerKm c,
        ps_minimumSeatPrice = pc_minimumSeatPrice c, ps_recommendedPricePerSeat = pk_recommendedPricePerSeat k,
        ps_minAllowedPricePerSeat = pk_minAllowedPricePerSeat k, ps_maxAllowedPricePerSeat = pk_maxAllowedPricePerSeat k,
        ps_selectedPricePerSeat = selectedPricePerSeat, ps_roundingStrategy = pc_roundingStrategy c,
        ps_serviceFeePercent = pc_serviceFeePercent c, ps_serviceFeeFlat = pc_serviceFeeFlat c\<rparr>)"

text \<open>The unique index on \<open>rideId\<close> refuses a second snapshot of a ride.\<close>

definition validateAndSnapshotPricing :: "time \<Rightarrow> ident \<Rightarrow> jsnum \<Rightarrow> jsnum \<Rightarrow> string option \<Rightarrow> (pricing_db, bool) op" where
  "validateAndSnapshotPricing now rideId distanceKm selectedPricePerSeat region =
     andThen (getPricePreview now distanceKm region) (\<lambda>calculation.
     if \<not> validateDriverPrice selectedPricePerSeat calculation then ret False else
     andThen (gets (\<lambda>db. rideId \<in> ps_rideId ` set (pd_snapshots db))) (\<lambda>taken.
     andDo (ensure (\<not> taken) (Err ''P2002''))
    (andDo (modify (\<lambda>db. db\<lparr>pd_snapshots := pd_snapshots db @
         [snapshot_row rideId (region_or_default region) distanceKm selectedPricePerSeat calculation]\<rparr>))
       (ret True))))"

definition ensureDefaultPricingConfig :: "time \<Rightarrow> (pricing_db, pricing_config) op" where
  "ensureDefaultPricingConfig now =
     andThen (gets (\<lambda>db. best_by (\<lambda>c. [if pc_active c then 1 else 0, pc_validFrom c, pc_createdAt c])
        (filter (\<lambda>c. pc_regionCode c = DEFAULT_REGION) (pd_configs db)))) (\<lambda>existing.
     case existing of Some c \<Rightarrow> ret c
     | None \<Rightarrow>
        let c = DEFAULT_BALTIC_PRICING_CONFIG now in
        andThen (gets (\<lambda>db. pc_id c \<in> pc_id ` set (pd_configs db))) (\<lambda>taken.
        andDo (ensure (\<not> taken) (Err ''P2002''))
       (andDo (modify (\<lambda>db. db\<lparr>pd_configs := pd_configs db @ [c]\<rparr>)) (ret c))))"

datatype fee_source = SNAPSHOT | ACTIVE_CONFIG | DEFAULT

record service_fee_terms =
  ft_serviceFeePercent :: jsnum
  ft_serviceFeeFlat :: jsnum
  ft_source :: fee_source

definition resolveActiveFeeTerms :: "time \<Rightarrow> string option \<Rightarrow> (pricing_db, service_fee_terms) op" where
  "resolveActiveFeeTerms now region =
     andThen (gets (getActivePricingConfig now (region_or_default region))) (\<lambda>config.
     case config of
       Some c \<Rightarrow> ret \<lparr>ft_serviceFeePercent = pc_serviceFeePercent c, ft_serviceFeeFlat = pc_serviceFeeFlat c, ft_source = ACTIVE_CONFIG\<rparr>
     | None \<Rightarrow>
        andThen (tryCatch (ensureDefaultPricingConfig now) (\<lambda>_. ret (DEFAULT_BALTIC_PRICING_CONFIG now))) (\<lambda>c.
        ret \<lparr>ft_serviceFeePercent = pc_serviceFeePercent c, ft_serviceFeeFlat = pc_serviceFeeFlat c, ft_source = DEFAULT\<rparr>))"

definition snapshot_terms :: "pricing_snapshot \<Rightarrow> service_fee_terms" where
  "snapshot_terms s = \<lparr>ft_serviceFeePercent = ps_serviceFeePercent s, ft_serviceFeeFlat = ps_serviceFeeFlat s, ft_source = SNAPSHOT\<rparr>"

definition resolveRideFeeTerms :: "time \<Rightarrow> ident \<Rightarrow> (pricing_db, service_fee_terms) op" where
  "resolveRideFeeTerms now rideId =
     andThen (gets (\<lambda>db. find (\<lambda>s. ps_rideId s = rideId) (pd_snapshots db))) (\<lambda>snapshot.
     case snapshot of Some s \<Rightarrow> ret (snapshot_terms s) | None \<Rightarrow> resolveActiveFeeTerms now None)"

definition resolveFeeTermsForRides :: "time \<Rightarrow> ident list \<Rightarrow> (pricing_db, ident \<rightharpoonup> service_fee_terms) op" where
  "resolveFeeTermsForRides now rideIds =
     (if rideIds = [] then ret Map.empty else
      andThen (gets (\<lambda>db. map_of (map (\<lambda>s. (ps_rideId s, snapshot_terms s)) (filter (\<lambda>s. ps_rideId s \<in> set rideIds) (pd_snapshots db))))) (\<lambda>terms.
      if card (dom terms) < length rideIds then
        andThen (resolveActiveFeeTerms now None) (\<lambda>fallback.
        ret (\<lambda>x. if x \<in> set rideIds \<and> terms x = None then Some fallback else terms x))
      else ret terms))"

subsection \<open>Administration\<close>

record pricing_input =
  pi_regionCode :: "string option"
  pi_currency :: "string option"
  pi_minRatePerKm :: "jsnum option"
  pi_recommendedRatePerKm :: "jsnum option"
  pi_maxRatePerKm :: "jsnum option"
  pi_minimumSeatPrice :: "jsnum option"
  pi_roundingStrategy :: "string option"
  pi_serviceFeePercent :: "jsnum option"
  pi_serviceFeeFlat :: "jsnum option"
  pi_active :: "bool option"
  pi_validFrom :: "time option"
  pi_validTo :: "time option option"
  pi_createdBy :: "ident option"

definition assertPricingBounds :: "jsnum \<Rightarrow> jsnum \<Rightarrow> jsnum \<Rightarrow> (pricing_db, unit) op" where
  "assertPricingBounds minRatePerKm recommendedRatePerKm maxRatePerKm =
     andDo (ensure (\<not> minRatePerKm > recommendedRatePerKm) (Err ''INVALID_PRICING_CONFIG''))
       (ensure (\<not> recommendedRatePerKm > maxRatePerKm) (Err ''INVALID_PRICING_CONFIG''))"

text \<open>
  \<open>rank\<close> is the place of a text in the database's collation; several sort keys are stable sorts, the last key first.
\<close>

definition getActiveConfigs :: "(string \<Rightarrow> int) \<Rightarrow> time \<Rightarrow> (pricing_db, pricing_config list) op" where
  "getActiveConfigs rank now =
     andDo (ensureDefaultPricingConfig now) (gets (\<lambda>db. sort_key (\<lambda>c. rank (pc_regionCode c)) (filter pc_active (pd_configs db))))"

definition listPricingConfigs :: "(string \<Rightarrow> int) \<Rightarrow> time \<Rightarrow> (pricing_db, pricing_config list) op" where
  "listPricingConfigs rank now = andDo (ensureDefaultPricingConfig now) (gets (\<lambda>db.
     sort_key (\<lambda>c. rank (pc_regionCode c)) (sort_key (\<lambda>c. - pc_validFrom c) (sort_key (\<lambda>c. - pc_createdAt c) (pd_configs db)))))"

abbreviation or_else :: "'a option \<Rightarrow> 'a \<Rightarrow> 'a" where "or_else x d \<equiv> (case x of None \<Rightarrow> d | Some y \<Rightarrow> y)"

definition deactivate :: "(pricing_config \<Rightarrow> bool) \<Rightarrow> time \<Rightarrow> (pricing_db, unit) op" where
  "deactivate p t = modify (\<lambda>db. db\<lparr>pd_configs := update_where (\<lambda>c. pc_active c \<and> p c)
     (\<lambda>c. c\<lparr>pc_active := False, pc_validTo := Some t\<rparr>) (pd_configs db)\<rparr>)"

text \<open>The complete input of a creation, and the row it makes; \<open>newId\<close> is the identifier the database gives.\<close>

definition created_config :: "time \<Rightarrow> ident \<Rightarrow> pricing_input \<Rightarrow> pricing_config" where
  "created_config now newId i = \<lparr>pc_id = newId, pc_regionCode = or_else (pi_regionCode i) '''', pc_currency = or_else (pi_currency i) '''',
     pc_minRatePerKm = or_else (pi_minRatePerKm i) 0, pc_recommendedRatePerKm = or_else (pi_recommendedRatePerKm i) 0,
     pc_maxRatePerKm = or_else (pi_maxRatePerKm i) 0, pc_minimumSeatPrice = or_else (pi_minimumSeatPrice i) 0,
     pc_roundingStrategy = or_else (pi_roundingStrategy i) '''', pc_serviceFeePercent = or_else (pi_serviceFeePercent i) 0,
     pc_serviceFeeFlat = or_else (pi_serviceFeeFlat i) 0, pc_active = or_else (pi_active i) True,
     pc_validFrom = or_else (pi_validFrom i) now, pc_validTo = (if or_else (pi_active i) True then None else or_else (pi_validTo i) None),
     pc_createdBy = pi_createdBy i, pc_createdAt = now\<rparr>"

definition createPricingConfig :: "time \<Rightarrow> ident \<Rightarrow> pricing_input \<Rightarrow> (pricing_db, pricing_config) op" where
  "createPricingConfig now newId input =
     (let c = created_config now newId input in
      andDo (assertPricingBounds (pc_minRatePerKm c) (pc_recommendedRatePerKm c) (pc_maxRatePerKm c))
        (transactionOf (\<lambda>s s'. s)
          (andDo (whenM (pc_active c) (deactivate (\<lambda>d. pc_regionCode d = pc_regionCode c) (pc_validFrom c)))
          (andDo (modify (\<lambda>db. db\<lparr>pd_configs := pd_configs db @ [c]\<rparr>)) (ret c)))))"

definition updated_config :: "pricing_input \<Rightarrow> pricing_config \<Rightarrow> pricing_config" where
  "updated_config i c = c\<lparr>pc_regionCode := or_else (pi_regionCode i) (pc_regionCode c), pc_currency := or_else (pi_currency i) (pc_currency c),
     pc_minRatePerKm := or_else (pi_minRatePerKm i) (pc_minRatePerKm c),
     pc_recommendedRatePerKm := or_else (pi_recommendedRatePerKm i) (pc_recommendedRatePerKm c),
     pc_maxRatePerKm := or_else (pi_maxRatePerKm i) (pc_maxRatePerKm c),
     pc_minimumSeatPrice := or_else (pi_minimumSeatPrice i) (pc_minimumSeatPrice c),
     pc_roundingStrategy := or_else (pi_roundingStrategy i) (pc_roundingStrategy c),
     pc_serviceFeePercent := or_else (pi_serviceFeePercent i) (pc_serviceFeePercent c),
     pc_serviceFeeFlat := or_else (pi_serviceFeeFlat i) (pc_serviceFeeFlat c), pc_active := or_else (pi_active i) (pc_active c),
     pc_validFrom := or_else (pi_validFrom i) (pc_validFrom c),
     pc_validTo := (if pi_active i = Some True then None else or_else (pi_validTo i) (pc_validTo c)),
     pc_createdBy := (case pi_createdBy i of None \<Rightarrow> pc_createdBy c | Some a \<Rightarrow> Some a)\<rparr>"

definition updatePricingConfig :: "ident \<Rightarrow> pricing_input \<Rightarrow> (pricing_db, unit) op" where
  "updatePricingConfig x input =
     andThen (gets (\<lambda>db. find (\<lambda>c. pc_id c = x) (pd_configs db))) (\<lambda>found.
     andThen (ofOption PRICING_CONFIG_NOT_FOUND found) (\<lambda>existing.
     let c = updated_config input existing in
     andDo (assertPricingBounds (pc_minRatePerKm c) (pc_recommendedRatePerKm c) (pc_maxRatePerKm c))
       (transactionOf (\<lambda>s s'. s)
         (andDo (whenM (pc_active c) (deactivate (\<lambda>d. pc_regionCode d = pc_regionCode c \<and> pc_id d \<noteq> x) (pc_validFrom c)))
           (modify (\<lambda>db. db\<lparr>pd_configs := update_where (\<lambda>d. pc_id d = x) (updated_config input) (pd_configs db)\<rparr>))))))"

subsection \<open>Doubles in order\<close>

lemma round_half_even_mono: "x \<le> y \<Longrightarrow> round_half_even x \<le> round_half_even y"
proof -
  assume xy: "x \<le> y"
  have b: "round_half_even z = \<lfloor>z\<rfloor> \<or> round_half_even z = \<lfloor>z\<rfloor> + 1" for z
    by (simp add: round_half_even_def Let_def)
  show ?thesis
  proof (cases "\<lfloor>x\<rfloor> = \<lfloor>y\<rfloor>")
    case True
    then show ?thesis using xy by (auto simp: round_half_even_def Let_def)
  next
    case False
    then have "\<lfloor>x\<rfloor> + 1 \<le> \<lfloor>y\<rfloor>" using floor_mono[OF xy] by linarith
    then show ?thesis using b[of x] b[of y] by linarith
  qed
qed

lemma fl64_pos: "0 < x \<Longrightarrow> fl64 x = of_int (round_half_even (x / power_int 2 (fl_exponent x))) * power_int 2 (fl_exponent x)"
  by (simp add: fl64_def Let_def)

lemma fl64_mono:
  assumes "0 \<le> x" "x \<le> y" shows "fl64 x \<le> fl64 y"
proof (cases "x = 0")
  case True
  then show ?thesis using fl64_relative_error[of y] assms(2) by (simp add: abs_if split: if_splits)
next
  case False
  then have x: "0 < x" and y: "0 < y" using assms by linarith+
  define a b :: rat where "a = power_int 2 (fl_exponent x)" and "b = power_int 2 (fl_exponent y)"
  have p: "0 < a" "0 < b" by (simp_all add: a_def b_def)
  have bx: "2 ^ 52 * a \<le> x" "x < 2 ^ 53 * a" and by': "2 ^ 52 * b \<le> y" "y < 2 ^ 53 * b"
    using fl_exponent_bounds[of x] fl_exponent_bounds[of y] x y p by (simp_all add: a_def b_def field_simps)
  show ?thesis
  proof (cases "fl_exponent x = fl_exponent y")
    case True
    then have "x / a \<le> y / a" and "b = a" using assms(2) p by (simp_all add: a_def b_def divide_right_mono)
    then have "round_half_even (x / a) \<le> round_half_even (y / b)" by (simp add: round_half_even_mono)
    then show ?thesis using p \<open>b = a\<close> by (simp add: fl64_pos x y mult_right_mono flip: a_def b_def)
  next
    case False
    have "\<not> fl_exponent y < fl_exponent x"
    proof
      assume "fl_exponent y < fl_exponent x"
      then have "power_int 2 (fl_exponent y + 1) \<le> (power_int 2 (fl_exponent x) :: rat)" by (intro power_int_increasing) simp_all
      then have "b * 2 \<le> a" by (simp add: a_def b_def power_int_add)
      then show False using bx(1) by'(2) assms(2) by simp
    qed
    then have "power_int 2 (fl_exponent x + 1) \<le> (power_int 2 (fl_exponent y) :: rat)" using False by (intro power_int_increasing) simp_all
    then have ab: "a * 2 \<le> b" by (simp add: a_def b_def power_int_add)
    have "round_half_even (x / a) \<le> round_half_even (of_int (2 ^ 53))"
      using bx(2) p by (intro round_half_even_mono) (simp add: field_simps)
    then have "of_int (round_half_even (x / a)) \<le> (of_int (2 ^ 53) :: rat)"
      by (simp only: round_half_even_of_int of_int_le_iff)
    then have "fl64 x \<le> of_int (2 ^ 53) * a" unfolding fl64_pos[OF x] a_def[symmetric]
      using p by (rule_tac mult_right_mono) simp_all
    also have "\<dots> \<le> of_int (2 ^ 52) * b" using ab by simp
    also have "\<dots> \<le> fl64 y"
    proof -
      have "round_half_even (of_int (2 ^ 52)) \<le> round_half_even (y / b)"
        using by'(1) p by (intro round_half_even_mono) (simp add: field_simps)
      then have "of_int (2 ^ 52) \<le> (of_int (round_half_even (y / b)) :: rat)"
        by (simp only: round_half_even_of_int of_int_le_iff)
      then show ?thesis unfolding fl64_pos[OF y] b_def[symmetric]
        using p by (rule_tac mult_right_mono) simp_all
    qed
    finally show ?thesis .
  qed
qed

lemma js_round_nonneg: "0 \<le> x \<Longrightarrow> 0 \<le> js_round x"
  unfolding js_round_def by linarith

lemma fl64_nonneg: "0 \<le> x \<Longrightarrow> 0 \<le> fl64 x"
  using fl64_mono[of 0 x] by simp

lemma applyRounding_mono:
  assumes "0 \<le> x" "x \<le> y" shows "applyRounding x s \<le> applyRounding y s"
proof -
  have "js_div (of_int (js_round (js_mul x k))) k \<le> js_div (of_int (js_round (js_mul y k))) k" if "0 < k" for k
    unfolding js_div_def js_mul_def using assms that
    by (intro fl64_mono divide_right_mono) (simp_all add: fl64_mono fl64_nonneg js_round_nonneg js_round_mono mult_right_mono)
  then show ?thesis using js_round_mono[OF assms(2)] by (simp add: applyRounding_def)
qed

lemma calculatePrice_simps [simp]:
  "pk_minAllowedPricePerSeat (calculatePrice d c) = seat_price c d (pc_minRatePerKm c)"
  "pk_recommendedPricePerSeat (calculatePrice d c) = seat_price c d (pc_recommendedRatePerKm c)"
  "pk_maxAllowedPricePerSeat (calculatePrice d c) = seat_price c d (pc_maxRatePerKm c)"
  "pk_config (calculatePrice d c) = c"
  by (simp_all add: calculatePrice_def)

lemma seat_price_mono: "0 \<le> d \<Longrightarrow> 0 \<le> r \<Longrightarrow> r \<le> q \<Longrightarrow> seat_price c d r \<le> seat_price c d q"
  unfolding seat_price_def js_mul_def
  by (intro max.mono order_refl applyRounding_mono fl64_nonneg fl64_mono mult_nonneg_nonneg mult_left_mono) simp_all

text \<open>What the administration keeps of a row: the rates it accepts are ordered.\<close>

definition rates_ordered :: "pricing_config \<Rightarrow> bool" where
  "rates_ordered c \<longleftrightarrow> pc_minRatePerKm c \<le> pc_recommendedRatePerKm c \<and> pc_recommendedRatePerKm c \<le> pc_maxRatePerKm c"

lemma calculatePrice_ordered:
  assumes "rates_ordered c" "0 \<le> pc_minRatePerKm c" "0 \<le> d"
  shows "pc_minimumSeatPrice c \<le> pk_minAllowedPricePerSeat (calculatePrice d c)
    \<and> pk_minAllowedPricePerSeat (calculatePrice d c) \<le> pk_recommendedPricePerSeat (calculatePrice d c)
    \<and> pk_recommendedPricePerSeat (calculatePrice d c) \<le> pk_maxAllowedPricePerSeat (calculatePrice d c)"
  using assms by (auto simp: rates_ordered_def intro!: seat_price_mono) (simp add: seat_price_def)

lemma calculatePrice_ordered_in_distance:
  assumes "0 \<le> pc_recommendedRatePerKm c" "0 \<le> d" "d \<le> e"
  shows "pk_recommendedPricePerSeat (calculatePrice d c) \<le> pk_recommendedPricePerSeat (calculatePrice e c)"
  using assms unfolding calculatePrice_simps seat_price_def js_mul_def
  by (intro max.mono order_refl applyRounding_mono fl64_nonneg fl64_mono mult_nonneg_nonneg mult_right_mono) simp_all

subsection \<open>The table of configurations\<close>

definition one_active :: "pricing_config list \<Rightarrow> bool" where
  "one_active cs \<longleftrightarrow> (\<forall>c \<in> set cs. \<forall>d \<in> set cs. pc_active c \<and> pc_active d \<and> pc_regionCode c = pc_regionCode d \<longrightarrow> pc_id c = pc_id d)"

definition pricing_wf :: "pricing_db \<Rightarrow> bool" where
  "pricing_wf db \<longleftrightarrow> distinct (map pc_id (pd_configs db)) \<and> (\<forall>c \<in> set (pd_configs db). rates_ordered c) \<and> one_active (pd_configs db)"

lemma pricing_wfD:
  assumes "pricing_wf db"
  shows "distinct (map pc_id (pd_configs db))" "c \<in> set (pd_configs db) \<Longrightarrow> rates_ordered c"
    "c \<in> set (pd_configs db) \<Longrightarrow> d \<in> set (pd_configs db) \<Longrightarrow> pc_active c \<Longrightarrow> pc_active d \<Longrightarrow>
       pc_regionCode c = pc_regionCode d \<Longrightarrow> pc_id c = pc_id d"
  using assms unfolding pricing_wf_def one_active_def by blast+

lemma pricing_wfI:
  assumes "distinct (map pc_id (pd_configs db))" "\<And>c. c \<in> set (pd_configs db) \<Longrightarrow> rates_ordered c"
    "\<And>c d. c \<in> set (pd_configs db) \<Longrightarrow> d \<in> set (pd_configs db) \<Longrightarrow> pc_active c \<Longrightarrow> pc_active d \<Longrightarrow>
       pc_regionCode c = pc_regionCode d \<Longrightarrow> pc_id c = pc_id d"
  shows "pricing_wf db"
  using assms unfolding pricing_wf_def one_active_def by blast

abbreviation retired :: "(pricing_config \<Rightarrow> bool) \<Rightarrow> time \<Rightarrow> pricing_config list \<Rightarrow> pricing_config list" where
  "retired p t cs \<equiv> update_where (\<lambda>c. pc_active c \<and> p c) (\<lambda>c. c\<lparr>pc_active := False, pc_validTo := Some t\<rparr>) cs"

lemma in_retired:
  assumes "c \<in> set (retired p t cs)"
  obtains d where "d \<in> set cs" "rates_ordered c = rates_ordered d" "pc_active c \<Longrightarrow> c = d \<and> \<not> p d"
proof -
  from assms obtain d where d: "d \<in> set cs" and
    c: "c = (if pc_active d \<and> p d then d\<lparr>pc_active := False, pc_validTo := Some t\<rparr> else d)" by (auto simp: set_update_where)
  show thesis by (rule that[OF d]) (simp_all add: c rates_ordered_def split: if_splits)
qed

lemma retired_map_ids: "map pc_id (retired p t cs) = map pc_id cs"
  by (rule map_update_where) simp

lemma retired_ids: "pc_id ` set (retired p t cs) = pc_id ` set cs"
  by (metis list.set_map retired_map_ids)

lemma pricing_wf_retired:
  assumes "pricing_wf db" shows "pricing_wf (db\<lparr>pd_configs := retired p t (pd_configs db)\<rparr>)"
proof (rule pricing_wfI)
  show "distinct (map pc_id (pd_configs (db\<lparr>pd_configs := retired p t (pd_configs db)\<rparr>)))"
    using pricing_wfD(1)[OF assms] by (simp add: retired_map_ids)
next
  fix c assume "c \<in> set (pd_configs (db\<lparr>pd_configs := retired p t (pd_configs db)\<rparr>))"
  then have "c \<in> set (retired p t (pd_configs db))" by simp
  then show "rates_ordered c" by (rule in_retired) (simp add: pricing_wfD(2)[OF assms])
next
  fix c d assume "c \<in> set (pd_configs (db\<lparr>pd_configs := retired p t (pd_configs db)\<rparr>))"
    "d \<in> set (pd_configs (db\<lparr>pd_configs := retired p t (pd_configs db)\<rparr>))"
    and a: "pc_active c" "pc_active d" "pc_regionCode c = pc_regionCode d"
  then have "c \<in> set (retired p t (pd_configs db))" "d \<in> set (retired p t (pd_configs db))" by simp_all
  then have "c \<in> set (pd_configs db)" "d \<in> set (pd_configs db)" using a(1,2) by (metis in_retired)+
  then show "pc_id c = pc_id d" using a by (rule pricing_wfD(3)[OF assms])
qed

lemma pricing_wf_insert:
  assumes wf: "pricing_wf db" and new: "pc_id c \<notin> pc_id ` set (pd_configs db)" "rates_ordered c"
    and alone: "\<And>d. pc_active c \<Longrightarrow> d \<in> set (pd_configs db) \<Longrightarrow> pc_active d \<Longrightarrow> pc_regionCode d \<noteq> pc_regionCode c"
  shows "pricing_wf (db\<lparr>pd_configs := pd_configs db @ [c]\<rparr>)"
proof (rule pricing_wfI)
  show "distinct (map pc_id (pd_configs (db\<lparr>pd_configs := pd_configs db @ [c]\<rparr>)))"
    using pricing_wfD(1)[OF wf] new(1) by simp
next
  fix x assume "x \<in> set (pd_configs (db\<lparr>pd_configs := pd_configs db @ [c]\<rparr>))"
  then show "rates_ordered x" using new(2) pricing_wfD(2)[OF wf] by auto
next
  fix x y assume "x \<in> set (pd_configs (db\<lparr>pd_configs := pd_configs db @ [c]\<rparr>))"
    "y \<in> set (pd_configs (db\<lparr>pd_configs := pd_configs db @ [c]\<rparr>))"
    and a: "pc_active x" "pc_active y" "pc_regionCode x = pc_regionCode y"
  then have m: "x \<in> set (pd_configs db) \<or> x = c" "y \<in> set (pd_configs db) \<or> y = c" by auto
  show "pc_id x = pc_id y"
    using m alone[of x] alone[of y] pricing_wfD(3)[OF wf _ _ a] a by fastforce
qed

lemma run_assertPricingBounds:
  "assertPricingBounds a b c s = (if a \<le> b \<and> b \<le> c then (Inr (), s) else (Inl (Err ''INVALID_PRICING_CONFIG''), s))"
  by (simp add: assertPricingBounds_def run_defs)

lemma createPricingConfig_wf:
  assumes "pricing_wf db" "newId \<notin> pc_id ` set (pd_configs db)"
  shows "pricing_wf (snd (createPricingConfig now newId input db))"
proof -
  let ?c = "created_config now newId input"
  have i: "pc_id ?c = newId" by (simp add: created_config_def)
  have "pricing_wf (db\<lparr>pd_configs := pd_configs db @ [?c]\<rparr>)" if "rates_ordered ?c" "\<not> pc_active ?c"
    using assms i that by (intro pricing_wf_insert) simp_all
  moreover have "pricing_wf (db\<lparr>pd_configs := retired (\<lambda>d. pc_regionCode d = pc_regionCode ?c) t (pd_configs db) @ [?c]\<rparr>)"
    if "rates_ordered ?c" for t
  proof -
    let ?p = "\<lambda>d. pc_regionCode d = pc_regionCode ?c"
    have "pricing_wf (db\<lparr>pd_configs := retired ?p t (pd_configs db)\<rparr>
        \<lparr>pd_configs := pd_configs (db\<lparr>pd_configs := retired ?p t (pd_configs db)\<rparr>) @ [?c]\<rparr>)"
    proof (rule pricing_wf_insert[OF pricing_wf_retired[OF assms(1)]])
      show "pc_id ?c \<notin> pc_id ` set (pd_configs (db\<lparr>pd_configs := retired ?p t (pd_configs db)\<rparr>))"
        using assms(2) i by (simp add: retired_ids)
      fix d assume "d \<in> set (pd_configs (db\<lparr>pd_configs := retired ?p t (pd_configs db)\<rparr>))" "pc_active d"
      then have "d \<in> set (retired ?p t (pd_configs db))" by simp
      then show "pc_regionCode d \<noteq> pc_regionCode ?c" by (rule in_retired) (use \<open>pc_active d\<close> in blast)
    qed (rule that)
    then show ?thesis by simp
  qed
  ultimately show ?thesis using assms(1)
    by (simp add: createPricingConfig_def Let_def run_defs run_assertPricingBounds deactivate_def rates_ordered_def)
qed

lemma ensureDefaultPricingConfig_wf:
  assumes "pricing_wf db" shows "pricing_wf (snd (ensureDefaultPricingConfig now db))"
proof -
  let ?c = "DEFAULT_BALTIC_PRICING_CONFIG now"
  have "rates_ordered ?c" by (simp add: rates_ordered_def DEFAULT_BALTIC_PRICING_CONFIG_def fl64_mono)
  moreover have none: "best_by k xs = None \<longleftrightarrow> xs = []" for k and xs :: "pricing_config list"
    by (cases xs) (simp_all split: option.splits)
  moreover have "pc_regionCode ?c = DEFAULT_REGION" by (simp add: DEFAULT_BALTIC_PRICING_CONFIG_def)
  ultimately show ?thesis using assms pricing_wf_insert[OF assms, of ?c]
    by (auto simp: ensureDefaultPricingConfig_def run_defs Let_def none filter_empty_conv split: option.splits)
qed

lemma pricing_wf_replace:
  assumes wf: "pricing_wf db" and e: "e \<in> set (pd_configs db)" and f: "pc_id (f e) = pc_id e" "rates_ordered (f e)"
    and alone: "\<And>d. pc_active (f e) \<Longrightarrow> d \<in> set (pd_configs db) \<Longrightarrow> pc_active d \<Longrightarrow> pc_id d \<noteq> pc_id e \<Longrightarrow>
      pc_regionCode d \<noteq> pc_regionCode (f e)"
  shows "pricing_wf (db\<lparr>pd_configs := update_where (\<lambda>d. pc_id d = pc_id e) f (pd_configs db)\<rparr>)"
proof -
  let ?u = "\<lambda>d. if pc_id d = pc_id e then f d else d"
  have only: "d = e" if "d \<in> set (pd_configs db)" "pc_id d = pc_id e" for d
    using pricing_wfD(1)[OF wf] e that by (meson inj_onD distinct_map)
  have rows: "c = f e \<or> c \<in> set (pd_configs db) \<and> pc_id c \<noteq> pc_id e"
    if "c \<in> set (update_where (\<lambda>d. pc_id d = pc_id e) f (pd_configs db))" for c
    using that by (auto simp: set_update_where split: if_splits dest: only)
  have "map (pc_id \<circ> ?u) (pd_configs db) = map pc_id (pd_configs db)" using only f(1) by (intro map_cong) auto
  then have ids: "map pc_id (update_where (\<lambda>d. pc_id d = pc_id e) f (pd_configs db)) = map pc_id (pd_configs db)"
    by (simp add: update_where_def)
  show ?thesis
  proof (rule pricing_wfI)
    fix c assume "c \<in> set (pd_configs (db\<lparr>pd_configs := update_where (\<lambda>d. pc_id d = pc_id e) f (pd_configs db)\<rparr>))"
    then show "rates_ordered c" using rows[of c] f(2) pricing_wfD(2)[OF wf] by auto
  next
    fix c d assume "c \<in> set (pd_configs (db\<lparr>pd_configs := update_where (\<lambda>d. pc_id d = pc_id e) f (pd_configs db)\<rparr>))"
      "d \<in> set (pd_configs (db\<lparr>pd_configs := update_where (\<lambda>d. pc_id d = pc_id e) f (pd_configs db)\<rparr>))"
      and a: "pc_active c" "pc_active d" "pc_regionCode c = pc_regionCode d"
    then have "c = f e \<or> c \<in> set (pd_configs db) \<and> pc_id c \<noteq> pc_id e" "d = f e \<or> d \<in> set (pd_configs db) \<and> pc_id d \<noteq> pc_id e"
      using rows[of c] rows[of d] by simp_all
    then show "pc_id c = pc_id d"
      using a alone[of c] alone[of d] pricing_wfD(3)[OF wf _ _ a] by metis
  qed (use ids pricing_wfD(1)[OF wf] in simp)
qed

lemma updated_config_id [simp]: "pc_id (updated_config i c) = pc_id c"
  by (simp add: updated_config_def)

lemma updatePricingConfig_wf:
  assumes wf: "pricing_wf db" shows "pricing_wf (snd (updatePricingConfig x input db))"
proof (cases "find (\<lambda>c. pc_id c = x) (pd_configs db)")
  case None
  then show ?thesis using wf by (simp add: updatePricingConfig_def run_defs)
next
  case (Some e)
  then have e: "e \<in> set (pd_configs db)" and x: "pc_id e = x" by (auto dest: find_Some_mem)
  let ?c = "updated_config input e"
  let ?p = "\<lambda>d. pc_regionCode d = pc_regionCode ?c \<and> pc_id d \<noteq> pc_id e"
  let ?db = "db\<lparr>pd_configs := retired ?p (pc_validFrom ?c) (pd_configs db)\<rparr>"
  have 1: "pricing_wf (db\<lparr>pd_configs := update_where (\<lambda>d. pc_id d = pc_id e) (updated_config input) (pd_configs db)\<rparr>)"
    if "rates_ordered ?c" "\<not> pc_active ?c" using that by (intro pricing_wf_replace[OF wf e]) simp_all
  have e': "e \<in> set (pd_configs ?db)" using e by (force simp: set_update_where)
  have 2: "pricing_wf (?db\<lparr>pd_configs := update_where (\<lambda>d. pc_id d = pc_id e) (updated_config input) (pd_configs ?db)\<rparr>)"
    if "rates_ordered ?c"
  proof (rule pricing_wf_replace[where f = "updated_config input", OF pricing_wf_retired[OF wf] e' _ that])
    fix d assume "d \<in> set (pd_configs ?db)" and d: "pc_active d" "pc_id d \<noteq> pc_id e"
    then have "d \<in> set (retired ?p (pc_validFrom ?c) (pd_configs db))" by simp
    then show "pc_regionCode d \<noteq> pc_regionCode ?c" by (rule in_retired) (use d in blast)
  qed simp
  show ?thesis using wf 1 2 x Some
    by (simp add: updatePricingConfig_def Let_def run_defs run_assertPricingBounds deactivate_def rates_ordered_def)
qed

text \<open>Every operation of the administration, in any order, from an empty table.\<close>

inductive pricing_step :: "pricing_db \<Rightarrow> pricing_db \<Rightarrow> bool" where
  step_create: "newId \<notin> pc_id ` set (pd_configs db) \<Longrightarrow> pricing_step db (snd (createPricingConfig now newId input db))"
| step_update: "pricing_step db (snd (updatePricingConfig x input db))"
| step_ensure: "pricing_step db (snd (ensureDefaultPricingConfig now db))"

lemma pricing_step_wf: "pricing_step db db' \<Longrightarrow> pricing_wf db \<Longrightarrow> pricing_wf db'"
  by (erule pricing_step.cases) (simp_all add: createPricingConfig_wf updatePricingConfig_wf ensureDefaultPricingConfig_wf)

lemma pricing_reachable_wf:
  assumes "pricing_step\<^sup>*\<^sup>* \<lparr>pd_configs = [], pd_snapshots = snaps\<rparr> db" shows "pricing_wf db"
  using assms
proof (induction rule: rtranclp_induct)
  case base
  then show ?case by (simp add: pricing_wf_def one_active_def)
next
  case (step db db')
  then show ?case by (blast intro: pricing_step_wf)
qed

text \<open>
  A configuration scheduled for later retires the one in force at once: until its start the region has no valid
  rates, and every price preview fails.
\<close>

lemma getActivePricingConfig_None:
  assumes "\<And>c. c \<in> set (pd_configs db) \<Longrightarrow> pc_regionCode c = r \<Longrightarrow> \<not> config_valid_at now c"
  shows "getActivePricingConfig now r db = None"
proof -
  have "filter (\<lambda>c. pc_regionCode c = r \<and> config_valid_at now c) (pd_configs db) = []" using assms by (simp add: filter_empty_conv)
  then show ?thesis by (simp add: getActivePricingConfig_def)
qed

lemma scheduled_config_leaves_no_rates:
  assumes made: "createPricingConfig now newId input db = (Inr c, db')" and c: "pc_active c" "t < pc_validFrom c"
  shows "getActivePricingConfig t (pc_regionCode c) db' = None"
proof -
  have db': "pd_configs db' = retired (\<lambda>d. pc_regionCode d = pc_regionCode c) (pc_validFrom c) (pd_configs db) @ [c]"
    using made c(1) by (auto simp: createPricingConfig_def Let_def run_defs run_assertPricingBounds deactivate_def split: if_splits)
  show ?thesis
  proof (rule getActivePricingConfig_None)
    fix d assume d: "d \<in> set (pd_configs db')" and r: "pc_regionCode d = pc_regionCode c"
    show "\<not> config_valid_at t d"
    proof
      assume v: "config_valid_at t d"
      then have "d \<noteq> c" using c by (auto simp: config_valid_at_def)
      then have "d \<in> set (retired (\<lambda>d. pc_regionCode d = pc_regionCode c) (pc_validFrom c) (pd_configs db))" using d db' by simp
      then show False by (rule in_retired) (use v r in \<open>auto simp: config_valid_at_def\<close>)
    qed
  qed
qed

theorem scheduled_rates_stop_pricing:
  assumes "createPricingConfig now newId input db = (Inr c, db')" "pc_active c" "t < pc_validFrom c" "pc_regionCode c \<noteq> ''''"
  shows "getPricePreview t distanceKm (Some (pc_regionCode c)) db' = (Inl PRICING_CONFIG_NOT_FOUND, db')"
  using scheduled_config_leaves_no_rates[OF assms(1-3)] assms(4) by (simp add: getPricePreview_def run_defs)

text \<open>
  C22. Whatever configurations the administration creates, updates or seeds, in any order, a price preview gives
  ordered prices: never below the seat minimum, the minimum at most the recommendation, the recommendation at most
  the maximum, and the configuration it uses is the only active one of its region.
\<close>

theorem pricing_rates_in_order:
  assumes "pricing_step\<^sup>*\<^sup>* \<lparr>pd_configs = [], pd_snapshots = []\<rparr> db"
    and "getPricePreview now distanceKm region db = (Inr k, db')" and "0 \<le> distanceKm" "0 \<le> pc_minRatePerKm (pk_config k)"
  shows "pc_minimumSeatPrice (pk_config k) \<le> pk_minAllowedPricePerSeat k
    \<and> pk_minAllowedPricePerSeat k \<le> pk_recommendedPricePerSeat k
    \<and> pk_recommendedPricePerSeat k \<le> pk_maxAllowedPricePerSeat k
    \<and> (\<forall>d \<in> set (pd_configs db). pc_active d \<and> pc_regionCode d = region_or_default region \<longrightarrow> d = pk_config k)"
proof -
  have wf: "pricing_wf db" by (rule pricing_reachable_wf[OF assms(1)])
  from assms(2) obtain c where c: "getActivePricingConfig now (region_or_default region) db = Some c" and k: "k = calculatePrice distanceKm c"
    by (auto simp: getPricePreview_def run_andThen split: option.splits)
  have best: "best_by q xs = Some y \<Longrightarrow> y \<in> set xs" for q xs and y :: pricing_config
    by (induction xs arbitrary: y) (auto split: option.splits if_splits)
  have m: "c \<in> set (pd_configs db)" "pc_regionCode c = region_or_default region" "pc_active c"
    using best[OF c[unfolded getActivePricingConfig_def]] by (auto simp: config_valid_at_def)
  have u: "d = c" if "d \<in> set (pd_configs db)" "pc_active d" "pc_regionCode d = region_or_default region" for d
  proof -
    have "pc_regionCode d = pc_regionCode c" using that(3) m(2) by simp
    then have "pc_id d = pc_id c" by (rule pricing_wfD(3)[OF wf that(1) m(1) that(2) m(3)])
    then show ?thesis using pricing_wfD(1)[OF wf] that(1) m(1) by (meson inj_onD distinct_map)
  qed
  show ?thesis using calculatePrice_ordered[OF pricing_wfD(2)[OF wf m(1)], of distanceKm] assms(3,4) u by (simp add: k)
qed

theorem pricing_rates_in_order_witness:
  "\<exists>db. \<exists>k :: price_calculation. pricing_step\<^sup>*\<^sup>* \<lparr>pd_configs = [], pd_snapshots = []\<rparr> db \<and> pk_config k \<in> set (pd_configs db) \<and>
     3 \<le> pk_minAllowedPricePerSeat k \<and> pk_minAllowedPricePerSeat k \<le> pk_recommendedPricePerSeat k"
proof -
  let ?e = "\<lparr>pd_configs = [], pd_snapshots = []\<rparr>"
  let ?db = "snd (ensureDefaultPricingConfig 5 ?e)"
  let ?k = "calculatePrice 100 (DEFAULT_BALTIC_PRICING_CONFIG 5)"
  have 1: "pricing_step\<^sup>*\<^sup>* ?e ?db" by (intro r_into_rtranclp step_ensure)
  have db: "?db = \<lparr>pd_configs = [DEFAULT_BALTIC_PRICING_CONFIG 5], pd_snapshots = []\<rparr>"
    by (simp add: ensureDefaultPricingConfig_def run_defs Let_def)
  have 2: "getPricePreview 10 100 None ?db = (Inr ?k, ?db)"
    unfolding db by (simp add: getPricePreview_def run_defs getActivePricingConfig_def config_valid_at_def DEFAULT_BALTIC_PRICING_CONFIG_def)
  have 3: "0 \<le> pc_minRatePerKm (pk_config ?k)" "pc_minimumSeatPrice (pk_config ?k) = 3"
    by (simp_all add: DEFAULT_BALTIC_PRICING_CONFIG_def fl64_nonneg)
  have 4: "pk_config ?k \<in> set (pd_configs ?db)" by (simp add: db)
  have "3 \<le> pk_minAllowedPricePerSeat ?k \<and> pk_minAllowedPricePerSeat ?k \<le> pk_recommendedPricePerSeat ?k"
    using pricing_rates_in_order[OF 1 2 _ 3(1)] 3(2) by simp
  then show ?thesis using 1 4 by (intro exI[of _ ?db] exI[of _ ?k] conjI) simp_all
qed

end
