(* ===== verification/Name_Match.thy ===== *)
theory Name_Match
  imports Booking_Rules
begin

text \<open>
  Comparing an identity document with a profile: \<open>src/src/utils/nameMatch.ts\<close>. A text is its list of UTF-16 code
  units. The Unicode tables behind \<open>normalize('NFD')\<close>, \<open>toLowerCase\<close> and \<open>toUpperCase\<close> and the parsing of free date
  texts are parameters (\<open>unicode\<close>); everything the source itself decides is written out.
\<close>

type_synonym jstext = "int list"

definition units :: "string \<Rightarrow> jstext" where "units s = map of_char s"

record unicode =
  uc_nfd :: "jstext \<Rightarrow> jstext"
  uc_lower :: "jstext \<Rightarrow> jstext"
  uc_upper :: "jstext \<Rightarrow> jstext"
  uc_parseDate :: "jstext \<Rightarrow> time option"

subsection \<open>JavaScript texts\<close>

text \<open>The code units matched by \<open>\s\<close>, which are also those \<open>trim\<close> removes.\<close>

definition js_space :: "int \<Rightarrow> bool" where
  "js_space c \<longleftrightarrow> 9 \<le> c \<and> c \<le> 13 \<or> c = 32 \<or> c = 160 \<or> c = 0x1680 \<or> 0x2000 \<le> c \<and> c \<le> 0x200a \<or>
     c = 0x2028 \<or> c = 0x2029 \<or> c = 0x202f \<or> c = 0x205f \<or> c = 0x3000 \<or> c = 0xfeff"

definition js_trim :: "jstext \<Rightarrow> jstext" where
  "js_trim s = rev (dropWhile js_space (rev (dropWhile js_space s)))"

definition js_digit :: "int \<Rightarrow> bool" where "js_digit c \<longleftrightarrow> 48 \<le> c \<and> c \<le> 57"

text \<open>\<open>split(/\s+/)\<close>.\<close>

function split_spaces :: "jstext \<Rightarrow> jstext list" where
  "split_spaces s = (let r = dropWhile (\<lambda>c. \<not> js_space c) s in
     takeWhile (\<lambda>c. \<not> js_space c) s # (if r = [] then [] else split_spaces (dropWhile js_space r)))"
  by auto
termination
proof (relation "measure length")
  fix s x :: jstext assume x: "x = dropWhile (\<lambda>c. \<not> js_space c) s" "x \<noteq> []"
  obtain c y where y: "x = c # y" using x(2) by (meson neq_Nil_conv)
  have "js_space c" using x hd_dropWhile[of "\<lambda>c. \<not> js_space c" s] y by (metis list.sel(1))
  then have "length (dropWhile js_space x) \<le> length y" using length_dropWhile_le[of js_space y] by (simp add: y)
  also have "length y < length x" by (simp add: y)
  also have "length x \<le> length s" using length_dropWhile_le x(1) by metis
  finally show "(dropWhile js_space x, s) \<in> measure length" by simp
qed simp

declare split_spaces.simps [simp del]

fun join_with :: "'a list \<Rightarrow> 'a list list \<Rightarrow> 'a list" where
  "join_with sep [] = []"
| "join_with sep [x] = x"
| "join_with sep (x # y # ys) = x @ sep @ join_with sep (y # ys)"

text \<open>\<open>String(n)\<close> of an integer and \<open>padStart\<close> with zeros.\<close>

fun nat_text :: "nat \<Rightarrow> jstext" where
  "nat_text n = (if n < 10 then [48 + int n] else nat_text (n div 10) @ [48 + int (n mod 10)])"

definition int_text :: "int \<Rightarrow> jstext" where
  "int_text n = (if n < 0 then 45 # nat_text (nat (- n)) else nat_text (nat n))"

definition pad_zeros :: "nat \<Rightarrow> jstext \<Rightarrow> jstext" where
  "pad_zeros k s = replicate (k - length s) 48 @ s"

subsection \<open>Names\<close>

definition normalizeName :: "unicode \<Rightarrow> jstext \<Rightarrow> jstext list" where
  "normalizeName u input =
     filter (\<lambda>token. 2 \<le> length token) (split_spaces
       (map (\<lambda>c. if 97 \<le> c \<and> c \<le> 122 \<or> js_digit c \<or> js_space c then c else 32)
         (uc_lower u (filter (\<lambda>c. \<not> (0x300 \<le> c \<and> c \<le> 0x36f)) (uc_nfd u input)))))"

text \<open>An absent or empty name, \<open>!name\<close>.\<close>

abbreviation no_text :: "jstext option \<Rightarrow> bool" where "no_text x \<equiv> x = None \<or> x = Some []"

text \<open>The loop over the entered tokens: the count of those found, \<open>None\<close> at the early return.\<close>

fun count_overlap :: "jstext list \<Rightarrow> jstext set \<Rightarrow> nat \<Rightarrow> nat option" where
  "count_overlap [] verified overlap = Some overlap"
| "count_overlap (token # tokens) verified overlap =
     (if token \<in> verified then count_overlap tokens verified (overlap + 1) else None)"

definition namesMatch :: "unicode \<Rightarrow> jstext option \<Rightarrow> jstext option \<Rightarrow> bool" where
  "namesMatch u enteredName verifiedName =
     (if no_text enteredName \<or> no_text verifiedName then False else
      let enteredTokens = normalizeName u (the enteredName); verifiedTokens = set (normalizeName u (the verifiedName)) in
      if length enteredTokens < 2 \<or> card verifiedTokens < 2 then False else
      (case count_overlap enteredTokens verifiedTokens 0 of None \<Rightarrow> False | Some overlap \<Rightarrow> 2 \<le> overlap))"

definition exactNamesMatch :: "unicode \<Rightarrow> jstext option \<Rightarrow> jstext option \<Rightarrow> bool" where
  "exactNamesMatch u enteredName verifiedName =
     (if no_text enteredName \<or> no_text verifiedName then False else
      let entered = normalizeName u (the enteredName); verified = normalizeName u (the verifiedName) in
      if length entered = 0 \<or> length verified = 0 then False else
      join_with [32] entered = join_with [32] verified)"

subsection \<open>Dates of birth\<close>

text \<open>\<open>Date\<close> (\<open>None\<close>: invalid), text, \<open>{ day, month, year }\<close> or nothing.\<close>

datatype dob_input = DOB_ABSENT | DOB_DATE "time option" | DOB_TEXT jstext | DOB_PARTS "int option" "int option" "int option"

text \<open>\<open>toISOString().slice(0, 10)\<close>: years outside 0..9999 have a sign and six digits.\<close>

definition iso_day :: "time \<Rightarrow> jstext" where
  "iso_day t = (let (y, m, d) = utc_ymd t in
     take 10 ((if 0 \<le> y \<and> y \<le> 9999 then pad_zeros 4 (nat_text (nat y))
               else (if y < 0 then 45 else 43) # pad_zeros 6 (nat_text (nat \<bar>y\<bar>)))
       @ [45] @ pad_zeros 2 (nat_text (nat m)) @ [45] @ pad_zeros 2 (nat_text (nat d))))"

text \<open>\<open>/^(\d{4})-(\d{2})-(\d{2})/\<close>.\<close>

definition ymd_prefix :: "jstext \<Rightarrow> jstext option" where
  "ymd_prefix s = (if 10 \<le> length s \<and> list_all (\<lambda>i. js_digit (s ! i)) [0, 1, 2, 3, 5, 6, 8, 9] \<and> s ! 4 = 45 \<and> s ! 7 = 45
     then Some (take 10 s) else None)"

definition falsy_part :: "int option \<Rightarrow> bool" where "falsy_part p \<longleftrightarrow> p = None \<or> p = Some 0"

definition toYmd :: "unicode \<Rightarrow> dob_input \<Rightarrow> jstext option" where
  "toYmd u input = (case input of
     DOB_ABSENT \<Rightarrow> None
   | DOB_DATE d \<Rightarrow> map_option iso_day d
   | DOB_TEXT s \<Rightarrow>
       if s = [] then None else
       (case ymd_prefix (js_trim s) of Some p \<Rightarrow> Some p | None \<Rightarrow> map_option iso_day (uc_parseDate u s))
   | DOB_PARTS day month year \<Rightarrow>
       if falsy_part year \<or> falsy_part month \<or> falsy_part day then None
       else Some (pad_zeros 4 (int_text (the year)) @ [45] @ pad_zeros 2 (int_text (the month)) @ [45] @ pad_zeros 2 (int_text (the day))))"

definition datesOfBirthMatch :: "unicode \<Rightarrow> dob_input \<Rightarrow> dob_input \<Rightarrow> bool option" where
  "datesOfBirthMatch u entered verified =
     (case (toYmd u entered, toYmd u verified) of (Some a, Some b) \<Rightarrow> Some (a = b) | _ \<Rightarrow> None)"

subsection \<open>Gender\<close>

datatype binary_gender = MALE | FEMALE

definition normalizeGender :: "unicode \<Rightarrow> jstext option \<Rightarrow> binary_gender option" where
  "normalizeGender u input =
     (if no_text input then None else
      let value = uc_upper u (js_trim (the input)) in
      if value = units ''M'' \<or> value = units ''MALE'' then Some MALE
      else if value = units ''F'' \<or> value = units ''FEMALE'' then Some FEMALE else None)"

definition gendersMatch :: "unicode \<Rightarrow> jstext option \<Rightarrow> jstext option \<Rightarrow> bool option" where
  "gendersMatch u entered verified =
     (case (normalizeGender u entered, normalizeGender u verified) of (Some a, Some b) \<Rightarrow> Some (a = b) | _ \<Rightarrow> None)"

subsection \<open>Identities\<close>

record identity_fields =
  id_name :: "jstext option"
  id_dob :: dob_input
  id_gender :: "jstext option"

record identity_match =
  im_nameMatch :: bool
  im_dobMatch :: "bool option"
  im_genderMatch :: "bool option"
  im_overall :: bool

definition matchIdentity :: "unicode \<Rightarrow> identity_fields \<Rightarrow> identity_fields \<Rightarrow> identity_match" where
  "matchIdentity u entered verified =
     (let nameMatch = namesMatch u (id_name entered) (id_name verified);
          dobMatch = datesOfBirthMatch u (id_dob entered) (id_dob verified);
          genderMatch = gendersMatch u (id_gender entered) (id_gender verified) in
      \<lparr>im_nameMatch = nameMatch, im_dobMatch = dobMatch, im_genderMatch = genderMatch,
       im_overall = (nameMatch \<and> dobMatch \<noteq> Some False \<and> genderMatch \<noteq> Some False)\<rparr>)"

definition matchIdentityStrict :: "unicode \<Rightarrow> identity_fields \<Rightarrow> identity_fields \<Rightarrow> identity_match" where
  "matchIdentityStrict u entered verified =
     (let nameMatch = exactNamesMatch u (id_name entered) (id_name verified);
          dobMatch = (datesOfBirthMatch u (id_dob entered) (id_dob verified) = Some True);
          genderMatch = (gendersMatch u (id_gender entered) (id_gender verified) = Some True) in
      \<lparr>im_nameMatch = nameMatch, im_dobMatch = Some dobMatch, im_genderMatch = Some genderMatch,
       im_overall = (nameMatch \<and> dobMatch \<and> genderMatch)\<rparr>)"

subsection \<open>Tokens\<close>

lemma split_spaces_pieces: "t \<in> set (split_spaces s) \<Longrightarrow> set t \<subseteq> set s \<and> (\<forall>c \<in> set t. \<not> js_space c)"
proof (induction s rule: split_spaces.induct)
  case (1 s)
  let ?r = "dropWhile (\<lambda>c. \<not> js_space c) s"
  have r: "set (dropWhile js_space ?r) \<subseteq> set s" by (meson set_dropWhileD subsetI)
  have h: "set (takeWhile (\<lambda>c. \<not> js_space c) s) \<subseteq> set s" by (meson set_takeWhileD subsetI)
  from "1.prems" consider "t = takeWhile (\<lambda>c. \<not> js_space c) s" | "?r \<noteq> []" "t \<in> set (split_spaces (dropWhile js_space ?r))"
    by (subst (asm) split_spaces.simps) (auto simp: Let_def split: if_splits)
  then show ?case
  proof cases
    case 1
    then show ?thesis using h by (auto dest: set_takeWhileD)
  next
    case 2
    then have "set t \<subseteq> set (dropWhile js_space ?r) \<and> (\<forall>c \<in> set t. \<not> js_space c)" by (intro "1.IH"[OF refl])
    then show ?thesis using r by blast
  qed
qed

lemma normalizeName_tokens:
  "t \<in> set (normalizeName u s) \<Longrightarrow> 2 \<le> length t \<and> (\<forall>c \<in> set t. 97 \<le> c \<and> c \<le> 122 \<or> js_digit c)"
proof -
  let ?f = "\<lambda>c. if 97 \<le> c \<and> c \<le> 122 \<or> js_digit c \<or> js_space c then c else 32"
  assume "t \<in> set (normalizeName u s)"
  then obtain xs where t: "2 \<le> length t" "t \<in> set (split_spaces (map ?f xs))" by (auto simp: normalizeName_def)
  have "97 \<le> c \<and> c \<le> 122 \<or> js_digit c" if "c \<in> set t" for c
  proof -
    have "\<not> js_space c" "c \<in> ?f ` set xs" using split_spaces_pieces[OF t(2)] that by auto
    moreover have "js_space 32" by (simp add: js_space_def)
    ultimately show ?thesis by (auto split: if_splits)
  qed
  then show ?thesis using t(1) by blast
qed

lemma append_sep_eq: "c \<notin> set x \<Longrightarrow> c \<notin> set a \<Longrightarrow> x @ c # p = a @ c # q \<longleftrightarrow> x = a \<and> p = q"
proof (induction x arbitrary: a)
  case Nil
  then show ?case by (cases a) auto
next
  case (Cons y ys)
  then show ?case by (cases a) auto
qed

text \<open>Tokens hold no blank, so joining them loses nothing.\<close>

lemma join_with_eq:
  assumes "\<forall>t \<in> set xs \<union> set ys. t \<noteq> [] \<and> c \<notin> set t"
  shows "join_with [c] xs = join_with [c] ys \<longleftrightarrow> xs = ys"
  using assms
proof (induction "[c]" xs arbitrary: ys rule: join_with.induct)
  case 1
  then show ?case by (cases "([c], ys)" rule: join_with.cases) auto
next
  case (2 x)
  have "c \<notin> set x" "x \<noteq> []" using 2 by auto
  then show ?case using 2 by (cases "([c], ys)" rule: join_with.cases) (auto simp: Cons_eq_append_conv)
next
  case (3 x y xs)
  have x: "c \<notin> set x" "x \<noteq> []" using 3 by auto
  show ?case
  proof (cases "([c], ys)" rule: join_with.cases)
    case (3 s a b bs)
    have a: "c \<notin> set a" using "3.prems" 3 by auto
    have split: "x @ c # p = a @ c # q \<longleftrightarrow> x = a \<and> p = q" for p q
      using x(1) a by (rule append_sep_eq)
    show ?thesis using 3 "3.hyps"[of "b # bs"] "3.prems" split by auto
  qed (use x "3.prems" in auto)
qed

lemma exactNamesMatch_iff:
  "exactNamesMatch u a b \<longleftrightarrow> \<not> no_text a \<and> \<not> no_text b \<and> normalizeName u (the a) \<noteq> [] \<and>
     normalizeName u (the a) = normalizeName u (the b)"
proof -
  have "join_with [32] (normalizeName u x) = join_with [32] (normalizeName u y) \<longleftrightarrow> normalizeName u x = normalizeName u y" for x y
  proof (rule join_with_eq, intro ballI conjI)
    fix t assume "t \<in> set (normalizeName u x) \<union> set (normalizeName u y)"
    then have t: "2 \<le> length t" "\<forall>c \<in> set t. 97 \<le> c \<and> c \<le> 122 \<or> js_digit c" using normalizeName_tokens by blast+
    show "t \<noteq> []" using t(1) by auto
    show "32 \<notin> set t" using t(2) by (auto simp: js_digit_def)
  qed
  then show ?thesis by (auto simp: exactNamesMatch_def Let_def)
qed

lemma count_overlap_eq: "count_overlap ts v n = (if set ts \<subseteq> v then Some (n + length ts) else None)"
  by (induction ts arbitrary: n) auto

lemma namesMatch_iff:
  "namesMatch u a b \<longleftrightarrow> \<not> no_text a \<and> \<not> no_text b \<and> set (normalizeName u (the a)) \<subseteq> set (normalizeName u (the b)) \<and>
     2 \<le> length (normalizeName u (the a)) \<and> 2 \<le> card (set (normalizeName u (the b)))"
  by (auto simp: namesMatch_def Let_def count_overlap_eq)

end
