(* ===== verification/Licences.thy ===== *)
theory Licences
  imports Name_Match Effects
begin

text \<open>
  Driving licences: the rows of \<open>DlVerification\<close>, Veriff's webhooks and the recovery of missed decisions
  (\<open>src/src/modules/dl-verification/dl-verification.service.ts\<close>). Veriff itself, HMAC-SHA256, JSON texts, new
  identifiers and the clock are parameters (\<open>licence_env\<close>); the signature check, the reading of a decision and every
  write are written out. Calls run one at a time, each against the rows it finds.
\<close>

subsection \<open>Rows\<close>

datatype dl_status = DL_PENDING | DL_APPROVED | DL_DECLINED | DL_RESUBMISSION_REQUESTED | DL_EXPIRED | DL_IDENTITY_MISMATCH | DL_SUPERSEDED

text \<open>JSON values; an object has each key once.\<close>

datatype json = JNull | JBool bool | JNum jsnum | JStr jstext | JArr "json list" | JObj "(jstext \<times> json) list"

record dl_row =
  dl_id :: jstext
  dl_userId :: jstext
  dl_veriffSessionId :: jstext
  dl_veriffSessionUrl :: jstext
  dl_status :: dl_status
  dl_decisionCode :: "int option"
  dl_reasonCode :: "jstext option"
  dl_decisionPayload :: "json option"
  dl_verifiedName :: "jstext option"
  dl_verifiedDob :: "jstext option"
  dl_verifiedGender :: "jstext option"
  dl_nameMatch :: "bool option"
  dl_dobMatch :: "bool option"
  dl_genderMatch :: "bool option"
  dl_submittedAt :: "time option"
  dl_documentImageKey :: "jstext option"
  dl_declineReason :: "jstext option"
  dl_reviewedById :: "jstext option"
  dl_reviewedAt :: "time option"
  dl_createdAt :: time
  dl_updatedAt :: time

record lic_user =
  lu_id :: jstext
  lu_firstName :: "jstext option"
  lu_lastName :: "jstext option"
  lu_email :: "jstext option"
  lu_phone :: "jstext option"
  lu_dob :: "time option"
  lu_gender :: "jstext option"
  lu_dlVerified :: bool
  lu_stripeOnboardingComplete :: bool

text \<open>\<open>ld_notices\<close>: the notifications created, by user and type.\<close>

record lic_db =
  ld_users :: "lic_user list"
  ld_rows :: "dl_row list"
  ld_notices :: "(jstext \<times> string) list"

text \<open>
  \<open>le_get path session\<close> is Veriff's answer to a signed GET: the raw text and the signature header, or the failure.
  \<open>le_newSession\<close> is its answer to the creation of a session: its id and url.
\<close>

record licence_env =
  le_now :: time
  le_newId :: jstext
  le_unicode :: unicode
  le_webhookSecret :: "jstext option"
  le_sharedSecret :: "jstext option"
  le_apiKey :: "jstext option"
  le_callbackUrl :: jstext
  le_hmac :: "jstext \<Rightarrow> jstext \<Rightarrow> int list"
  le_parseJson :: "jstext \<Rightarrow> json option"
  le_numberOf :: "jstext \<Rightarrow> jsnum option"
  le_parseTime :: "jstext \<Rightarrow> time option"
  le_get :: "jstext \<Rightarrow> jstext \<Rightarrow> (jstext \<times> jstext option) option"
  le_newSession :: "json \<Rightarrow> (jstext \<times> jstext) option"

type_synonym 'a lic = "(lic_db, 'a) op"

text \<open>\<open>{ success: false, reason }\<close> or the data of a success.\<close>

datatype 'a outcome = Refused string | Succeeded 'a

subsection \<open>Tables\<close>

definition lic_user_by_id :: "jstext \<Rightarrow> lic_db \<Rightarrow> lic_user option" where
  "lic_user_by_id x db = find (\<lambda>v. lu_id v = x) (ld_users db)"

definition row_by_session :: "jstext \<Rightarrow> lic_db \<Rightarrow> dl_row option" where
  "row_by_session x db = find (\<lambda>r. dl_veriffSessionId r = x) (ld_rows db)"

text \<open>Every update moves \<open>updatedAt\<close>.\<close>

definition update_rows :: "licence_env \<Rightarrow> (dl_row \<Rightarrow> bool) \<Rightarrow> (dl_row \<Rightarrow> dl_row) \<Rightarrow> unit lic" where
  "update_rows env p f = modify (\<lambda>db. db\<lparr>ld_rows := update_where p (\<lambda>r. (f r)\<lparr>dl_updatedAt := le_now env\<rparr>) (ld_rows db)\<rparr>)"

text \<open>\<open>update\<close> of one user refuses an absent row.\<close>

definition set_verified :: "jstext \<Rightarrow> bool \<Rightarrow> unit lic" where
  "set_verified userId v =
     andThen (gets (lic_user_by_id userId)) (\<lambda>found.
     andDo (ensure (found \<noteq> None) (Err ''P2025''))
       (modify (\<lambda>db. db\<lparr>ld_users := update_where (\<lambda>u. lu_id u = userId) (\<lambda>u. u\<lparr>lu_dlVerified := v\<rparr>) (ld_users db)\<rparr>)))"

definition pending_row :: "licence_env \<Rightarrow> jstext \<Rightarrow> jstext \<Rightarrow> jstext \<Rightarrow> dl_row" where
  "pending_row env userId sessionId url = \<lparr>dl_id = le_newId env, dl_userId = userId, dl_veriffSessionId = sessionId,
     dl_veriffSessionUrl = url, dl_status = DL_PENDING, dl_decisionCode = None, dl_reasonCode = None, dl_decisionPayload = None,
     dl_verifiedName = None, dl_verifiedDob = None, dl_verifiedGender = None, dl_nameMatch = None, dl_dobMatch = None,
     dl_genderMatch = None, dl_submittedAt = None, dl_documentImageKey = None, dl_declineReason = None, dl_reviewedById = None,
     dl_reviewedAt = None, dl_createdAt = le_now env, dl_updatedAt = le_now env\<rparr>"

text \<open>The unique index on the session and the foreign key on the user.\<close>

definition create_row :: "dl_row \<Rightarrow> dl_row lic" where
  "create_row r =
     andThen (gets (\<lambda>db. (row_by_session (dl_veriffSessionId r) db, lic_user_by_id (dl_userId r) db))) (\<lambda>(taken, owner).
     andDo (ensure (taken = None) (Err ''P2002''))
    (andDo (ensure (owner \<noteq> None) (Err ''P2003''))
    (andDo (modify (\<lambda>db. db\<lparr>ld_rows := ld_rows db @ [r]\<rparr>)) (ret r))))"

definition manual_prefix :: jstext where "manual_prefix = units ''manual:''"

definition startsWith :: "jstext \<Rightarrow> jstext \<Rightarrow> bool" where "startsWith s p \<longleftrightarrow> take (length p) s = p"

definition manualSessionId :: "jstext \<Rightarrow> jstext" where "manualSessionId userId = manual_prefix @ userId"

definition is_veriff_row :: "dl_row \<Rightarrow> bool" where
  "is_veriff_row r \<longleftrightarrow> dl_documentImageKey r = None \<and> \<not> startsWith (dl_veriffSessionId r) manual_prefix"

definition hasApprovedVerification :: "jstext \<Rightarrow> lic_db \<Rightarrow> bool" where
  "hasApprovedVerification userId db \<longleftrightarrow>
     list_ex (\<lambda>r. dl_userId r = userId \<and> dl_status r = DL_APPROVED \<and> is_veriff_row r) (ld_rows db)"

text \<open>\<open>orderBy: { updatedAt: 'desc' }\<close>; equal times keep the table's order.\<close>

definition newest_first :: "dl_row list \<Rightarrow> dl_row list" where "newest_first rs = sort_key (\<lambda>r. - dl_updatedAt r) rs"

definition findPendingVeriffSession :: "jstext \<Rightarrow> lic_db \<Rightarrow> dl_row option" where
  "findPendingVeriffSession userId db =
     (case newest_first (filter (\<lambda>r. dl_userId r = userId \<and> dl_status r = DL_PENDING \<and> is_veriff_row r) (ld_rows db)) of
        [] \<Rightarrow> None | r # _ \<Rightarrow> Some r)"

subsection \<open>Signatures\<close>

definition text_or_empty :: "jstext option \<Rightarrow> jstext" where "text_or_empty x = (case x of None \<Rightarrow> [] | Some s \<Rightarrow> s)"

definition getVeriffWebhookSecrets :: "licence_env \<Rightarrow> jstext list" where
  "getVeriffWebhookSecrets env =
     remdups (filter (\<lambda>s. s \<noteq> []) (map (\<lambda>s. js_trim (text_or_empty s)) [le_webhookSecret env, le_sharedSecret env]))"

definition hex_digit :: "int \<Rightarrow> int option" where
  "hex_digit c = (if 48 \<le> c \<and> c \<le> 57 then Some (c - 48) else if 97 \<le> c \<and> c \<le> 102 then Some (c - 87)
     else if 65 \<le> c \<and> c \<le> 70 then Some (c - 55) else None)"

text \<open>\<open>Buffer.from(signature, 'hex')\<close> of an even number of hexadecimal digits.\<close>

fun from_hex :: "jstext \<Rightarrow> int list" where
  "from_hex (a # b # rest) = (case (hex_digit a, hex_digit b) of (Some x, Some y) \<Rightarrow> (16 * x + y) # from_hex rest | _ \<Rightarrow> [])"
| "from_hex _ = []"

definition is_hex_sha256 :: "jstext \<Rightarrow> bool" where
  "is_hex_sha256 s \<longleftrightarrow> length s = 64 \<and> list_all (\<lambda>c. hex_digit c \<noteq> None) s"

definition validateWebhookSignature :: "licence_env \<Rightarrow> jstext \<Rightarrow> jstext \<Rightarrow> bool" where
  "validateWebhookSignature env payload signature =
     (let secrets = getVeriffWebhookSecrets env in
      if secrets = [] then False
      else if \<not> is_hex_sha256 signature then False
      else (let provided = from_hex signature in
        foldl (\<lambda>matched secret. let expected = le_hmac env secret payload in
           if length provided \<noteq> length expected then matched else provided = expected \<or> matched) False secrets))"

subsection \<open>Reading a payload\<close>

definition isRecord :: "json \<Rightarrow> bool" where
  "isRecord j \<longleftrightarrow> (case j of JArr _ \<Rightarrow> True | JObj _ \<Rightarrow> True | _ \<Rightarrow> False)"

text \<open>\<open>j.name\<close>; \<open>None\<close> is \<open>undefined\<close>.\<close>

definition json_field :: "string \<Rightarrow> json \<Rightarrow> json option" where
  "json_field name j = (case j of JObj kvs \<Rightarrow> map_of kvs (units name) | _ \<Rightarrow> None)"

definition record_field :: "string \<Rightarrow> json \<Rightarrow> json option" where
  "record_field name j = (case json_field name j of Some v \<Rightarrow> if isRecord v then Some v else None | None \<Rightarrow> None)"

definition text_field :: "string \<Rightarrow> json \<Rightarrow> jstext option" where
  "text_field name j = (case json_field name j of Some (JStr s) \<Rightarrow> Some s | _ \<Rightarrow> None)"

definition extractVeriffField :: "json option \<Rightarrow> jstext" where
  "extractVeriffField v = (case v of
     Some (JStr s) \<Rightarrow> js_trim s
   | Some (JObj kvs) \<Rightarrow> (case text_field ''value'' (JObj kvs) of Some s \<Rightarrow> js_trim s | None \<Rightarrow> [])
   | _ \<Rightarrow> [])"

definition extractDecisionStatus :: "json \<Rightarrow> jstext option" where
  "extractDecisionStatus body =
     (case record_field ''verification'' body of None \<Rightarrow> None | Some v \<Rightarrow> text_field ''status'' v)"

text \<open>\<open>[a, b].filter(Boolean).join(' ').trim() || null\<close>.\<close>

definition none_if_empty :: "jstext \<Rightarrow> jstext option" where "none_if_empty s = (if s = [] then None else Some s)"

definition full_name :: "jstext option \<Rightarrow> jstext option \<Rightarrow> jstext option" where
  "full_name a b = none_if_empty (js_trim (join_with [32] (filter (\<lambda>s. s \<noteq> []) [text_or_empty a, text_or_empty b])))"

definition TERMINAL_DECISION_STATUSES :: "jstext list" where
  "TERMINAL_DECISION_STATUSES = map units [''approved'', ''declined'', ''resubmission_requested'', ''expired'']"

text \<open>
  \<open>statusMap[status] || 'DECLINED'\<close>. The names an object inherits do not give a status of the enumeration, so the update
  that follows is rejected (\<open>None\<close>).
\<close>

definition inherited_names :: "jstext list" where
  "inherited_names = map units [''constructor'', ''toString'', ''valueOf'', ''toLocaleString'', ''hasOwnProperty'', ''isPrototypeOf'',
     ''propertyIsEnumerable'', ''__proto__'', ''__defineGetter__'', ''__defineSetter__'', ''__lookupGetter__'', ''__lookupSetter__'']"

definition map_status :: "jstext \<Rightarrow> dl_status option" where
  "map_status status =
     (if status = units ''approved'' then Some DL_APPROVED
      else if status = units ''declined'' then Some DL_DECLINED
      else if status = units ''resubmission_requested'' then Some DL_RESUBMISSION_REQUESTED
      else if status = units ''expired'' then Some DL_EXPIRED
      else if status \<in> set inherited_names then None else Some DL_DECLINED)"

text \<open>\<open>Number(code)\<close> of a number or text; the integer column rejects anything that is not a 32-bit integer.\<close>

definition decision_code :: "licence_env \<Rightarrow> json option \<Rightarrow> error + int option" where
  "decision_code env code =
     (let stored = (\<lambda>n. case n of None \<Rightarrow> Inl (Err ''PrismaClientValidationError'')
        | Some q \<Rightarrow> if q = of_int \<lfloor>q\<rfloor> \<and> \<bar>q\<bar> < 2 ^ 31 then Inr (Some \<lfloor>q\<rfloor>) else Inl (Err ''PrismaClientValidationError'')) in
      case code of Some (JNum q) \<Rightarrow> stored (Some q) | Some (JStr s) \<Rightarrow> stored (le_numberOf env s) | _ \<Rightarrow> Inr None)"

subsection \<open>The decision webhook\<close>

record decision_facts =
  df_name :: "jstext option"
  df_dob :: "jstext option"
  df_gender :: "jstext option"
  df_match :: "identity_match option"

definition decision_facts_of :: "licence_env \<Rightarrow> lic_user option \<Rightarrow> json option \<Rightarrow> dl_status \<Rightarrow> decision_facts" where
  "decision_facts_of env driver person mapped =
     (let field = (\<lambda>name. case person of None \<Rightarrow> None | Some p \<Rightarrow> json_field name p);
          verifiedName = full_name (Some (extractVeriffField (field ''firstName''))) (Some (extractVeriffField (field ''lastName'')));
          verifiedDob = none_if_empty (extractVeriffField (field ''dateOfBirth''));
          verifiedGender = none_if_empty (extractVeriffField (field ''gender''));
          driverName = (case driver of None \<Rightarrow> None | Some d \<Rightarrow> full_name (lu_firstName d) (lu_lastName d)) in
      \<lparr>df_name = verifiedName, df_dob = verifiedDob, df_gender = verifiedGender,
       df_match = (if mapped = DL_APPROVED then Some (matchIdentityStrict (le_unicode env)
         \<lparr>id_name = driverName, id_dob = (case driver of None \<Rightarrow> DOB_ABSENT | Some d \<Rightarrow> (case lu_dob d of None \<Rightarrow> DOB_ABSENT | Some t \<Rightarrow> DOB_DATE (Some t))),
          id_gender = (case driver of None \<Rightarrow> None | Some d \<Rightarrow> lu_gender d)\<rparr>
         \<lparr>id_name = verifiedName, id_dob = (case verifiedDob of None \<Rightarrow> DOB_ABSENT | Some s \<Rightarrow> DOB_TEXT s), id_gender = verifiedGender\<rparr>)
        else None)\<rparr>)"

definition decided :: "jstext \<Rightarrow> dl_status \<Rightarrow> int option \<Rightarrow> jstext option \<Rightarrow> json \<Rightarrow> decision_facts \<Rightarrow> dl_row \<Rightarrow> dl_row" where
  "decided userId status code reasonCode body f r = r\<lparr>dl_userId := userId, dl_status := status, dl_decisionCode := code,
     dl_reasonCode := reasonCode, dl_decisionPayload := Some body, dl_verifiedName := df_name f, dl_verifiedDob := df_dob f,
     dl_verifiedGender := df_gender f, dl_nameMatch := map_option im_nameMatch (df_match f),
     dl_dobMatch := Option.bind (df_match f) im_dobMatch, dl_genderMatch := Option.bind (df_match f) im_genderMatch\<rparr>"

text \<open>The transaction after an approval.\<close>

definition approve_user :: "licence_env \<Rightarrow> jstext \<Rightarrow> jstext \<Rightarrow> unit lic" where
  "approve_user env userId sessionId = transactionOf (\<lambda>s s'. s)
     (andDo (set_verified userId True)
       (update_rows env (\<lambda>r. dl_userId r = userId \<and> dl_status r = DL_PENDING \<and> dl_veriffSessionId r \<noteq> sessionId)
         (\<lambda>r. r\<lparr>dl_status := DL_SUPERSEDED\<rparr>)))"

definition handle_verification :: "licence_env \<Rightarrow> json \<Rightarrow> json \<Rightarrow> jstext \<Rightarrow> dl_status outcome lic" where
  "handle_verification env body verification sessionId =
     (let status = text_or_empty (text_field ''status'' verification);
          reasonCode = text_field ''reasonCode'' verification;
          vendorData = js_trim (text_or_empty (text_field ''vendorData'' verification)) in
      andThen (gets (row_by_session sessionId)) (\<lambda>found.
      andThen (gets (\<lambda>db. if vendorData = [] then None else lic_user_by_id vendorData db)) (\<lambda>vendorUser.
      let userId = (case vendorUser of Some v \<Rightarrow> lu_id v | None \<Rightarrow> (case found of Some r \<Rightarrow> dl_userId r | None \<Rightarrow> [])) in
      if userId = [] then ret (Refused ''SESSION_NOT_FOUND'') else
      andDo (whenM (found = None) (andDo (create_row (pending_row env userId sessionId [])) (ret ())))
     (andThen (gets (lic_user_by_id userId)) (\<lambda>driver.
      andThen (ofOption (Err ''PrismaClientValidationError'') (map_status status)) (\<lambda>mapped.
      andThen (ofSum (decision_code env (json_field ''code'' verification))) (\<lambda>code.
      andDo (update_rows env (\<lambda>r. dl_veriffSessionId r = sessionId)
              (decided userId mapped code reasonCode body (decision_facts_of env driver (json_field ''person'' verification) mapped)))
     (andDo (whenM (mapped = DL_APPROVED) (approve_user env userId sessionId))
       (ret (Succeeded mapped))))))))))"

definition handleWebhookDecision :: "licence_env \<Rightarrow> json \<Rightarrow> dl_status outcome lic" where
  "handleWebhookDecision env body =
     (case record_field ''verification'' body of
        None \<Rightarrow> ret (Refused ''INVALID_PAYLOAD'')
      | Some verification \<Rightarrow>
          (case text_field ''id'' verification of
             None \<Rightarrow> ret (Refused ''INVALID_PAYLOAD'')
           | Some sessionId \<Rightarrow>
               if sessionId = [] then ret (Refused ''INVALID_PAYLOAD'') else handle_verification env body verification sessionId))"

subsection \<open>The event webhook\<close>

text \<open>The answer carries the action; \<open>reason\<close> is empty when the row was stamped.\<close>

definition handleWebhookEvent :: "licence_env \<Rightarrow> json \<Rightarrow> (string \<times> jstext) outcome lic" where
  "handleWebhookEvent env body =
     (if \<not> isRecord body then ret (Refused ''INVALID_PAYLOAD'') else
      let sessionId = text_or_empty (text_field ''id'' body); action = text_or_empty (text_field ''action'' body) in
      if sessionId = [] then ret (Refused ''INVALID_PAYLOAD'')
      else if action \<noteq> units ''submitted'' then ret (Succeeded (''IGNORED_ACTION'', action))
      else
        let p = (\<lambda>r. dl_veriffSessionId r = sessionId \<and> dl_submittedAt r = None) in
        andThen (gets (\<lambda>db. count_where p (ld_rows db))) (\<lambda>n.
        andDo (update_rows env p (\<lambda>r. r\<lparr>dl_submittedAt := Some (le_now env)\<rparr>))
          (ret (Succeeded (if n = 0 then ''NO_MATCHING_SESSION'' else [], action)))))"

subsection \<open>Recovering missed decisions\<close>

text \<open>A read of Veriff's API, which leaves the rows alone: \<open>None\<close> is any of its exceptions.\<close>

definition fetchSignedVeriffText :: "licence_env \<Rightarrow> jstext \<Rightarrow> jstext \<Rightarrow> json option" where
  "fetchSignedVeriffText env path sessionId =
     (case le_get env path sessionId of
        None \<Rightarrow> None
      | Some (rawBody, responseSignature) \<Rightarrow>
          (case responseSignature of None \<Rightarrow> None
           | Some s \<Rightarrow> if validateWebhookSignature env rawBody s then le_parseJson env rawBody else None))"

abbreviation session_path :: "jstext \<Rightarrow> string \<Rightarrow> jstext" where
  "session_path sessionId s \<equiv> units ''/sessions/'' @ sessionId @ units s"

text \<open>An unreadable \<open>createdTime\<close> counts as 0; the language leaves the order of a sort by \<open>NaN\<close> open.\<close>

definition attempt_time :: "licence_env \<Rightarrow> json \<Rightarrow> time" where
  "attempt_time env attempt = (case text_field ''createdTime'' attempt of None \<Rightarrow> 0
     | Some s \<Rightarrow> (case le_parseTime env s of None \<Rightarrow> 0 | Some t \<Rightarrow> t))"

definition latest_attempt :: "licence_env \<Rightarrow> json list \<Rightarrow> json option" where
  "latest_attempt env verifications =
     find (\<lambda>a. text_or_empty (text_field ''status'' a) \<in> set TERMINAL_DECISION_STATUSES)
       (sort_key (\<lambda>a. - attempt_time env a) (filter (\<lambda>a. isRecord a \<and> text_field ''status'' a \<noteq> None) verifications))"

definition copied :: "string \<Rightarrow> json \<Rightarrow> (jstext \<times> json) list" where
  "copied name j = (case json_field name j of None \<Rightarrow> [] | Some v \<Rightarrow> [(units name, v)])"

definition fallback_body :: "jstext \<Rightarrow> jstext \<Rightarrow> json \<Rightarrow> json option \<Rightarrow> json" where
  "fallback_body sessionId userId attempt person = JObj [(units ''verification'', JObj (
     [(units ''id'', JStr sessionId), (units ''status'', JStr (text_or_empty (text_field ''status'' attempt))),
      (units ''code'', case json_field ''code'' attempt of Some (JNum q) \<Rightarrow> JNum q | _ \<Rightarrow> JNull)] @
     (case text_field ''reasonCode'' attempt of None \<Rightarrow> [] | Some s \<Rightarrow> [(units ''reasonCode'', JStr s)]) @
     [(units ''vendorData'', JStr userId)] @
     (case person of None \<Rightarrow> [] | Some p \<Rightarrow> [(units ''person'',
        JObj (copied ''firstName'' p @ copied ''lastName'' p @ copied ''dateOfBirth'' p @ copied ''gender'' p))])))]"

text \<open>The outer \<open>None\<close> is an exception, the inner one \<open>null\<close>.\<close>

definition attempt_payload :: "licence_env \<Rightarrow> jstext \<Rightarrow> jstext \<Rightarrow> json \<Rightarrow> json option option" where
  "attempt_payload env sessionId userId attempt =
     (if text_field ''status'' attempt = Some (units ''approved'') then
        Option.bind (fetchSignedVeriffText env (session_path sessionId ''/person'') sessionId) (\<lambda>personBody.
          case record_field ''person'' personBody of
            None \<Rightarrow> Some None
          | Some p \<Rightarrow> Some (Some (fallback_body sessionId userId attempt (Some p))))
      else Some (Some (fallback_body sessionId userId attempt None)))"

definition buildFallbackDecisionPayload :: "licence_env \<Rightarrow> jstext \<Rightarrow> jstext \<Rightarrow> json option option" where
  "buildFallbackDecisionPayload env sessionId userId =
     Option.bind (fetchSignedVeriffText env (session_path sessionId ''/attempts'') sessionId) (\<lambda>attemptsBody.
       let attempt = (case json_field ''verifications'' attemptsBody of
             Some (JArr verifications) \<Rightarrow> latest_attempt env verifications | _ \<Rightarrow> None) in
       case attempt of None \<Rightarrow> Some None | Some a \<Rightarrow> attempt_payload env sessionId userId a)"

record recovery_counts =
  rc_scanned :: nat
  rc_updated :: nat
  rc_skipped :: nat

text \<open>The decision to process, \<open>None\<close> when there is none yet or reading it failed.\<close>

definition missed_decision :: "licence_env \<Rightarrow> dl_row \<Rightarrow> json option" where
  "missed_decision env r =
     Option.bind (fetchSignedVeriffText env (session_path (dl_veriffSessionId r) ''/decision'') (dl_veriffSessionId r)) (\<lambda>parsed.
       case extractDecisionStatus parsed of
         None \<Rightarrow> Option.bind (buildFallbackDecisionPayload env (dl_veriffSessionId r) (dl_userId r)) (\<lambda>fallback. fallback)
       | Some s \<Rightarrow> if s = [] then Option.bind (buildFallbackDecisionPayload env (dl_veriffSessionId r) (dl_userId r)) (\<lambda>fallback. fallback)
           else if s \<notin> set TERMINAL_DECISION_STATUSES then None else Some parsed)"

text \<open>One row of the loop: whether it was updated.\<close>

definition recover_row :: "licence_env \<Rightarrow> dl_row \<Rightarrow> bool lic" where
  "recover_row env r =
     (if startsWith (dl_veriffSessionId r) manual_prefix then ret False
      else case missed_decision env r of
        None \<Rightarrow> ret False
      | Some body \<Rightarrow> tryCatch (andThen (handleWebhookDecision env body) (\<lambda>result.
          case result of Succeeded _ \<Rightarrow> ret True | Refused _ \<Rightarrow> ret False)) (\<lambda>_. ret False))"

fun recover_rows :: "licence_env \<Rightarrow> dl_row list \<Rightarrow> recovery_counts \<Rightarrow> recovery_counts lic" where
  "recover_rows env [] counts = ret counts"
| "recover_rows env (r # rs) counts = andThen (recover_row env r) (\<lambda>updated.
     recover_rows env rs (if updated then counts\<lparr>rc_updated := rc_updated counts + 1\<rparr> else counts\<lparr>rc_skipped := rc_skipped counts + 1\<rparr>))"

definition VERIFF_DECISION_RECOVERY_LIMIT :: nat where "VERIFF_DECISION_RECOVERY_LIMIT = 50"

definition VERIFF_DECISION_RECOVERY_MIN_AGE_MINUTES :: int where "VERIFF_DECISION_RECOVERY_MIN_AGE_MINUTES = 5"

definition recovery_candidates :: "licence_env \<Rightarrow> jstext option \<Rightarrow> bool \<Rightarrow> nat option \<Rightarrow> lic_db \<Rightarrow> dl_row list" where
  "recovery_candidates env userId includeFresh limit db =
     (let cutoff = le_now env - VERIFF_DECISION_RECOVERY_MIN_AGE_MINUTES * 60 * 1000 in
      take (case limit of None \<Rightarrow> VERIFF_DECISION_RECOVERY_LIMIT | Some n \<Rightarrow> n) (sort_key dl_updatedAt (filter (\<lambda>r.
        (no_text userId \<or> userId = Some (dl_userId r)) \<and> dl_status r = DL_PENDING \<and> is_veriff_row r \<and>
        (includeFresh \<or> dl_updatedAt r \<le> cutoff)) (ld_rows db))))"

definition recoverPendingVeriffDecisions :: "licence_env \<Rightarrow> jstext option \<Rightarrow> bool \<Rightarrow> nat option \<Rightarrow> recovery_counts lic" where
  "recoverPendingVeriffDecisions env userId includeFresh limit =
     (if no_text (le_apiKey env) \<or> no_text (le_sharedSecret env) then ret \<lparr>rc_scanned = 0, rc_updated = 0, rc_skipped = 0\<rparr>
      else andThen (gets (recovery_candidates env userId includeFresh limit)) (\<lambda>candidates.
        recover_rows env candidates \<lparr>rc_scanned = length candidates, rc_updated = 0, rc_skipped = 0\<rparr>))"

fun normalize_rows :: "licence_env \<Rightarrow> dl_row list \<Rightarrow> nat \<Rightarrow> nat lic" where
  "normalize_rows env [] updated = ret updated"
| "normalize_rows env (r # rs) updated =
     (case dl_decisionPayload r of
        None \<Rightarrow> normalize_rows env rs updated
      | Some body \<Rightarrow>
          if extractDecisionStatus body \<noteq> Some (units ''approved'') then normalize_rows env rs updated
          else andThen (handleWebhookDecision env body) (\<lambda>result.
            normalize_rows env rs (case result of Succeeded _ \<Rightarrow> updated + 1 | Refused _ \<Rightarrow> updated)))"

definition normalizeLegacyApprovedMismatchRows :: "licence_env \<Rightarrow> jstext \<Rightarrow> nat lic" where
  "normalizeLegacyApprovedMismatchRows env userId =
     andThen (gets (\<lambda>db. take 20 (newest_first (filter (\<lambda>r. dl_userId r = userId \<and> dl_status r = DL_IDENTITY_MISMATCH \<and> is_veriff_row r) (ld_rows db)))))
       (\<lambda>rows. normalize_rows env rows 0)"

definition recoverPendingVeriffDecisionsForUser :: "licence_env \<Rightarrow> jstext \<Rightarrow> (recovery_counts \<times> nat) lic" where
  "recoverPendingVeriffDecisionsForUser env userId =
     andThen (recoverPendingVeriffDecisions env (Some userId) True (Some 20)) (\<lambda>recovered.
     andThen (normalizeLegacyApprovedMismatchRows env userId) (\<lambda>normalized. ret (recovered, normalized)))"

definition reconcilePendingVeriffSessionsForUser :: "licence_env \<Rightarrow> jstext \<Rightarrow> (recovery_counts \<times> nat) option lic" where
  "reconcilePendingVeriffSessionsForUser env userId =
     tryCatch (andThen (recoverPendingVeriffDecisionsForUser env userId) (\<lambda>c. ret (Some c))) (\<lambda>_. ret None)"

end
