(* ===== verification/Licence_Review.thy ===== *)
theory Licence_Review
  imports Licences
begin

text \<open>
  Opening a Veriff session and reading the state of a licence (\<open>dl-verification.service.ts\<close>), the manual review by an
  administrator (\<open>dl-review.service.ts\<close>) and the administrator's demand for a Veriff check (\<open>admin.service.ts\<close>,
  \<open>requireVeriffForUser\<close>).
\<close>

subsection \<open>Opening a session\<close>

record session_options =
  so_userId :: jstext
  so_firstName :: jstext
  so_lastName :: jstext
  so_email :: "jstext option"
  so_phoneNumber :: "jstext option"
  so_idNumber :: "jstext option"
  so_fullName :: "jstext option"
  so_documentNumber :: "jstext option"
  so_documentCountry :: "jstext option"
  so_documentValidFrom :: "jstext option"
  so_documentValidUntil :: "jstext option"
  so_fullAddress :: "jstext option"
  so_callback :: "jstext option"
  so_endUserId :: "jstext option"
  so_consents :: "(jstext \<times> bool) list"
  so_tag :: "jstext option"

record session_data =
  sd_verificationId :: jstext
  sd_sessionId :: jstext
  sd_sessionUrl :: jstext

definition row_data :: "dl_row \<Rightarrow> session_data" where
  "row_data r = \<lparr>sd_verificationId = dl_id r, sd_sessionId = dl_veriffSessionId r, sd_sessionUrl = dl_veriffSessionUrl r\<rparr>"

definition resolveCallbackUrl :: "licence_env \<Rightarrow> jstext option \<Rightarrow> jstext option" where
  "resolveCallbackUrl env requested =
     find (\<lambda>c. c \<noteq> [] \<and> startsWith c (units ''https://'')) [text_or_empty requested, le_callbackUrl env]"

text \<open>\<open>...(x && { name: x })\<close>.\<close>

definition optional_entry :: "string \<Rightarrow> jstext option \<Rightarrow> (jstext \<times> json) list" where
  "optional_entry name x = (if no_text x then [] else [(units name, JStr (the x))])"

definition session_payload :: "licence_env \<Rightarrow> session_options \<Rightarrow> lic_user \<Rightarrow> jstext \<Rightarrow> binary_gender \<Rightarrow> json" where
  "session_payload env opts profile profileDob profileGender =
     (let email = (case so_email opts of Some e \<Rightarrow> Some e | None \<Rightarrow> lu_email profile);
          phone = (case so_phoneNumber opts of Some p \<Rightarrow> Some p | None \<Rightarrow> lu_phone profile);
          person = [(units ''firstName'', JStr (so_firstName opts)), (units ''lastName'', JStr (so_lastName opts)),
            (units ''dateOfBirth'', JStr profileDob), (units ''gender'', JStr (units (if profileGender = MALE then ''M'' else ''F'')))]
            @ optional_entry ''idNumber'' (so_idNumber opts) @ optional_entry ''phoneNumber'' phone
            @ optional_entry ''email'' email @ optional_entry ''fullName'' (so_fullName opts);
          document = optional_entry ''country'' (so_documentCountry opts) @ optional_entry ''number'' (so_documentNumber opts)
            @ optional_entry ''validFrom'' (so_documentValidFrom opts) @ optional_entry ''validUntil'' (so_documentValidUntil opts) in
      JObj [(units ''verification'', JObj (
        optional_entry ''callback'' (resolveCallbackUrl env (so_callback opts))
        @ [(units ''person'', JObj person)]
        @ (if document = [] then [] else [(units ''document'', JObj ((units ''type'', JStr (units ''DRIVERS_LICENSE'')) # document))])
        @ (if no_text (so_fullAddress opts) then [] else [(units ''address'', JObj (optional_entry ''fullAddress'' (so_fullAddress opts)))])
        @ [(units ''vendorData'', JStr (so_userId opts))]
        @ optional_entry ''endUserId'' (so_endUserId opts)
        @ (if so_consents opts = [] then [] else [(units ''consents'', JArr (map (\<lambda>(t, a).
             JObj [(units ''type'', JStr t), (units ''approved'', JBool a)]) (so_consents opts)))])
        @ optional_entry ''tag'' (so_tag opts)))])"

text \<open>The request and the row it makes, with \<open>catch\<close> around both.\<close>

definition open_session :: "licence_env \<Rightarrow> jstext \<Rightarrow> json \<Rightarrow> session_data outcome lic" where
  "open_session env userId payload = tryCatch
     (andThen (ofOption (Err ''VERIFF'') (le_newSession env payload)) (\<lambda>(sessionId, sessionUrl).
      andThen (create_row (pending_row env userId sessionId sessionUrl)) (\<lambda>r. ret (Succeeded (row_data r)))))
     (\<lambda>_. ret (Refused ''VERIFF_API_ERROR''))"

definition createVeriffSession :: "licence_env \<Rightarrow> session_options \<Rightarrow> session_data outcome lic" where
  "createVeriffSession env opts =
     (let userId = so_userId opts in
      andDo (reconcilePendingVeriffSessionsForUser env userId)
     (andThen (gets (hasApprovedVerification userId)) (\<lambda>approved.
      if approved then ret (Refused ''ALREADY_VERIFIED'') else
      andThen (gets (findPendingVeriffSession userId)) (\<lambda>pending.
      case pending of Some r \<Rightarrow> ret (Succeeded (row_data r))
      | None \<Rightarrow>
        andThen (gets (lic_user_by_id userId)) (\<lambda>found.
        case found of None \<Rightarrow> ret (Refused ''PROFILE_INCOMPLETE'')
        | Some profile \<Rightarrow>
          let profileName = full_name (lu_firstName profile) (lu_lastName profile);
              profileDob = map_option iso_day (lu_dob profile);
              profileGender = normalizeGender (le_unicode env) (lu_gender profile) in
          if profileName = None \<or> no_text (lu_firstName profile) \<or> no_text (lu_lastName profile) \<or> profileDob = None \<or> profileGender = None
          then ret (Refused ''PROFILE_INCOMPLETE'')
          else if \<not> exactNamesMatch (le_unicode env) (Some (so_firstName opts @ [32] @ so_lastName opts)) profileName
          then ret (Refused ''NAME_DOES_NOT_MATCH_PROFILE'')
          else open_session env userId (session_payload env opts profile (the profileDob) (the profileGender)))))))"

text \<open>\<open>meanwhile\<close> is what other calls do between the read and the write.\<close>

definition registerVeriffSession :: "licence_env \<Rightarrow> (lic_db \<Rightarrow> lic_db) \<Rightarrow> jstext \<Rightarrow> jstext \<Rightarrow> jstext \<Rightarrow> session_data outcome lic" where
  "registerVeriffSession env meanwhile userId sessionId sessionUrl =
     andThen (gets (hasApprovedVerification userId)) (\<lambda>approved.
     if approved then ret (Refused ''ALREADY_VERIFIED'') else
     andThen (gets (row_by_session sessionId)) (\<lambda>existing.
     case existing of
       Some r \<Rightarrow> if dl_userId r \<noteq> userId then ret (Refused ''SESSION_OWNED_BY_ANOTHER_USER'') else ret (Succeeded (row_data r))
     | None \<Rightarrow>
        andDo (modify meanwhile)
       (tryCatch (andThen (create_row (pending_row env userId sessionId sessionUrl)) (\<lambda>r. ret (Succeeded (row_data r))))
         (\<lambda>e. if e \<noteq> Err ''P2002'' then ret (Refused ''REGISTER_FAILED'') else
            andThen (gets (row_by_session sessionId)) (\<lambda>raced.
            case raced of
              Some r \<Rightarrow> if dl_userId r = userId then ret (Succeeded (row_data r)) else ret (Refused ''SESSION_OWNED_BY_ANOTHER_USER'')
            | None \<Rightarrow> ret (Refused ''SESSION_OWNED_BY_ANOTHER_USER''))))))"

definition getVerificationStatus :: "licence_env \<Rightarrow> jstext \<Rightarrow> dl_row option lic" where
  "getVerificationStatus env userId =
     andDo (reconcilePendingVeriffSessionsForUser env userId)
       (gets (\<lambda>db. case newest_first (filter (\<lambda>r. dl_userId r = userId \<and> dl_status r \<noteq> DL_SUPERSEDED) (ld_rows db)) of
          [] \<Rightarrow> None | r # _ \<Rightarrow> Some r))"

subsection \<open>Manual review\<close>

definition hasDlDocumentOnFile :: "jstext \<Rightarrow> lic_db \<Rightarrow> bool" where
  "hasDlDocumentOnFile userId db \<longleftrightarrow> list_ex (\<lambda>r. dl_userId r = userId \<and> dl_documentImageKey r \<noteq> None) (ld_rows db)"

definition isVerifiedElsewhere :: "jstext \<Rightarrow> lic_db \<Rightarrow> bool" where
  "isVerifiedElsewhere userId db \<longleftrightarrow>
     list_ex (\<lambda>r. dl_userId r = userId \<and> dl_status r = DL_APPROVED \<and> dl_veriffSessionId r \<noteq> manualSessionId userId) (ld_rows db)"

text \<open>The payload of a review, without its time, its author and its reason.\<close>

definition review_payload :: "string \<Rightarrow> json" where
  "review_payload action = JObj [(units ''source'', JStr (units ''MANUAL_REVIEW'')), (units ''action'', JStr (units action))]"

definition submitted_fields :: "jstext \<Rightarrow> dl_row \<Rightarrow> dl_row" where
  "submitted_fields documentImageKey r = r\<lparr>dl_status := DL_PENDING, dl_documentImageKey := Some documentImageKey,
     dl_declineReason := None, dl_reviewedById := None, dl_reviewedAt := None, dl_decisionPayload := Some (review_payload ''SUBMITTED'')\<rparr>"

definition manualSessionUrl :: "jstext \<Rightarrow> jstext" where
  "manualSessionUrl userId = units ''https://manual-review.local/dl/'' @ userId"

definition submitDlDocument :: "licence_env \<Rightarrow> jstext \<Rightarrow> jstext \<Rightarrow> unit lic" where
  "submitDlDocument env userId documentImageKey =
     andThen (gets (lic_user_by_id userId)) (\<lambda>found.
     andThen (ofOption (Err ''USER_NOT_FOUND'') found) (\<lambda>user.
     andDo (ensure (\<not> lu_dlVerified user) (Err ''ALREADY_VERIFIED''))
    (andThen (gets (isVerifiedElsewhere userId)) (\<lambda>elsewhere.
     andDo (ensure (\<not> elsewhere) (Err ''ALREADY_VERIFIED''))
    (andThen (gets (row_by_session (manualSessionId userId))) (\<lambda>existing.
     case existing of
       None \<Rightarrow> andDo (create_row (submitted_fields documentImageKey (pending_row env userId (manualSessionId userId) (manualSessionUrl userId)))) (ret ())
     | Some _ \<Rightarrow> update_rows env (\<lambda>r. dl_veriffSessionId r = manualSessionId userId) (submitted_fields documentImageKey)))))))"

definition loadPendingRow :: "jstext \<Rightarrow> dl_row lic" where
  "loadPendingRow userId =
     andThen (gets (row_by_session (manualSessionId userId))) (\<lambda>found.
     andThen (ofOption (Err ''DL_SUBMISSION_NOT_FOUND'') found) (\<lambda>r.
     andDo (ensure (\<not> no_text (dl_documentImageKey r)) (Err ''DL_DOCUMENT_MISSING''))
    (andDo (ensure (dl_status r \<noteq> DL_SUPERSEDED) (Err ''DL_SUBMISSION_SUPERSEDED''))
    (andThen (gets (isVerifiedElsewhere userId)) (\<lambda>elsewhere.
     andDo (ensure (\<not> elsewhere) (Err ''DL_VERIFIED_ELSEWHERE'')) (ret r))))))"

text \<open>Creating the notification never fails the decision.\<close>

definition notify_decision :: "jstext \<Rightarrow> string \<Rightarrow> unit lic" where
  "notify_decision userId type = modify (\<lambda>db. db\<lparr>ld_notices := ld_notices db @ [(userId, type)]\<rparr>)"

definition approved_fields :: "licence_env \<Rightarrow> jstext option \<Rightarrow> lic_user \<Rightarrow> dl_row \<Rightarrow> dl_row" where
  "approved_fields env adminId user r = r\<lparr>dl_status := DL_APPROVED, dl_declineReason := None, dl_reviewedById := adminId,
     dl_reviewedAt := Some (le_now env), dl_verifiedName := full_name (lu_firstName user) (lu_lastName user),
     dl_verifiedDob := map_option iso_day (lu_dob user), dl_verifiedGender := lu_gender user, dl_nameMatch := Some True,
     dl_dobMatch := Some True, dl_genderMatch := Some True, dl_decisionPayload := Some (review_payload ''APPROVED'')\<rparr>"

text \<open>The answer is \<open>alreadyApproved\<close>.\<close>

definition approveDlDocument :: "licence_env \<Rightarrow> jstext \<Rightarrow> jstext option \<Rightarrow> bool lic" where
  "approveDlDocument env userId adminId =
     andDo (loadPendingRow userId)
    (andThen (gets (lic_user_by_id userId)) (\<lambda>found.
     andThen (ofOption (Err ''USER_NOT_FOUND'') found) (\<lambda>user.
     let p = (\<lambda>r. dl_veriffSessionId r = manualSessionId userId \<and> dl_status r \<noteq> DL_APPROVED) in
     andThen (transactionOf (\<lambda>s s'. s)
       (andThen (gets (\<lambda>db. count_where p (ld_rows db))) (\<lambda>n.
        andDo (update_rows env p (approved_fields env adminId user))
       (andDo (set_verified userId True) (ret (0 < n)))))) (\<lambda>transitioned.
     if \<not> transitioned then ret True
     else andDo (notify_decision userId ''verification.licence.approved'') (ret False)))))"

definition rejected_fields :: "licence_env \<Rightarrow> dl_status \<Rightarrow> string \<Rightarrow> jstext \<Rightarrow> jstext option \<Rightarrow> dl_row \<Rightarrow> dl_row" where
  "rejected_fields env status action reason adminId r = r\<lparr>dl_status := status, dl_declineReason := Some reason, dl_reviewedById := adminId,
     dl_reviewedAt := Some (le_now env), dl_nameMatch := Some False, dl_dobMatch := Some False, dl_genderMatch := Some False,
     dl_decisionPayload := Some (review_payload action)\<rparr>"

text \<open>The two rejections differ in the status and in the words sent.\<close>

definition reject_document :: "licence_env \<Rightarrow> dl_status \<Rightarrow> string \<Rightarrow> string \<Rightarrow> jstext \<Rightarrow> jstext \<Rightarrow> jstext option \<Rightarrow> unit lic" where
  "reject_document env status action notice userId reason adminId =
     andDo (loadPendingRow userId)
    (andThen (gets (lic_user_by_id userId)) (\<lambda>found.
     andDo (ensure (found \<noteq> None) (Err ''USER_NOT_FOUND''))
    (andDo (transactionOf (\<lambda>s s'. s)
       (andDo (update_rows env (\<lambda>r. dl_veriffSessionId r = manualSessionId userId) (rejected_fields env status action reason adminId))
         (set_verified userId False)))
       (notify_decision userId notice))))"

definition declineDlDocument :: "licence_env \<Rightarrow> jstext \<Rightarrow> jstext \<Rightarrow> jstext option \<Rightarrow> unit lic" where
  "declineDlDocument env userId reason adminId =
     reject_document env DL_DECLINED ''DECLINED'' ''verification.licence.declined'' userId reason adminId"

definition requestDlResubmission :: "licence_env \<Rightarrow> jstext \<Rightarrow> jstext \<Rightarrow> jstext option \<Rightarrow> unit lic" where
  "requestDlResubmission env userId reason adminId =
     reject_document env DL_RESUBMISSION_REQUESTED ''RESUBMISSION_REQUESTED'' ''verification.licence.resubmission_requested'' userId reason adminId"

text \<open>The rows of a page and the count of all.\<close>

definition listDlReviewQueue :: "dl_status option \<Rightarrow> int option \<Rightarrow> int option \<Rightarrow> lic_db \<Rightarrow> dl_row list \<times> nat \<times> int \<times> int \<times> int" where
  "listDlReviewQueue status page limit db =
     (let p = max 1 (case page of None \<Rightarrow> 1 | Some n \<Rightarrow> n);
          l = min 100 (max 1 (case limit of None \<Rightarrow> 20 | Some n \<Rightarrow> n));
          rows = filter (\<lambda>r. dl_documentImageKey r \<noteq> None \<and>
            (case status of Some s \<Rightarrow> dl_status r = s | None \<Rightarrow> dl_status r \<noteq> DL_SUPERSEDED)) (ld_rows db);
          total = length rows in
      (take (nat l) (drop (nat ((p - 1) * l)) (sort_key dl_updatedAt rows)), total, p, l, max 1 (- ((- int total) div l))))"

subsection \<open>Demanding a Veriff check\<close>

definition requireVeriffForUser :: "licence_env \<Rightarrow> jstext \<Rightarrow> unit lic" where
  "requireVeriffForUser env userId =
     andThen (gets (lic_user_by_id userId)) (\<lambda>found.
     andDo (ensure (found \<noteq> None) (Err ''USER_NOT_FOUND''))
    (andThen (gets (row_by_session (manualSessionId userId))) (\<lambda>manual.
     andThen (gets (hasApprovedVerification userId)) (\<lambda>approved.
     andDo (ensure (\<not> approved) (Err ''ALREADY_VERIFF_VERIFIED''))
    (andDo (transactionOf (\<lambda>s s'. s)
       (andDo (whenM (map_option dl_status manual = Some DL_APPROVED)
          (update_rows env (\<lambda>r. dl_veriffSessionId r = manualSessionId userId) (\<lambda>r. r\<lparr>dl_status := DL_SUPERSEDED,
             dl_decisionPayload := Some (JObj [(units ''source'', JStr (units ''ADMIN'')), (units ''action'', JStr (units ''REQUIRE_VERIFF''))])\<rparr>)))
         (set_verified userId False)))
       (notify_decision userId ''verification.veriff.required''))))))"

definition syncUserVeriffStatus :: "licence_env \<Rightarrow> jstext \<Rightarrow> (recovery_counts \<times> nat) lic" where
  "syncUserVeriffStatus env userId =
     andThen (gets (lic_user_by_id userId)) (\<lambda>found.
     andDo (ensure (found \<noteq> None) (Err ''USER_NOT_FOUND'')) (recoverPendingVeriffDecisionsForUser env userId))"

end
