(* ===== verification/Licence_Trail.thy ===== *)
theory Licence_Trail
  imports Licence_Review
begin

text \<open>
  What the licence calls keep: sessions are unique, and the driver an approved row speaks for, its owner or the user its manual
  key names, is a verified driver. Veriff's own session ids are UUIDs, so they never carry the prefix of the manual rows; the
  ids that users register may.
\<close>

subsection \<open>The invariant\<close>

definition decision_ok :: "json \<Rightarrow> bool" where
  "decision_ok body \<longleftrightarrow> (case record_field ''verification'' body of None \<Rightarrow> True
     | Some v \<Rightarrow> (case text_field ''id'' v of None \<Rightarrow> True | Some s \<Rightarrow> \<not> startsWith s manual_prefix))"

text \<open>The driver a row speaks for.\<close>

definition holder :: "dl_row \<Rightarrow> jstext" where
  "holder r = (if startsWith (dl_veriffSessionId r) manual_prefix then drop (length manual_prefix) (dl_veriffSessionId r) else dl_userId r)"

definition row_ok :: "lic_user list \<Rightarrow> dl_row \<Rightarrow> bool" where
  "row_ok us r \<longleftrightarrow> (\<exists>v \<in> set us. lu_id v = dl_userId r) \<and>
     (dl_status r = DL_APPROVED \<longrightarrow> (\<exists>v \<in> set us. lu_id v = holder r \<and> lu_dlVerified v)) \<and>
     (dl_documentImageKey r \<noteq> None \<longrightarrow> startsWith (dl_veriffSessionId r) manual_prefix) \<and>
     (case dl_decisionPayload r of None \<Rightarrow> True | Some b \<Rightarrow> decision_ok b)"

definition licence_inv :: "lic_db \<Rightarrow> bool" where
  "licence_inv db \<longleftrightarrow> distinct (map lu_id (ld_users db)) \<and> distinct (map dl_veriffSessionId (ld_rows db)) \<and>
     list_all (row_ok (ld_users db)) (ld_rows db)"

lemma holder_simps:
  "\<not> startsWith (dl_veriffSessionId r) manual_prefix \<Longrightarrow> holder r = dl_userId r"
  "dl_veriffSessionId r = manualSessionId x \<Longrightarrow> holder r = x"
  "startsWith (dl_veriffSessionId r) manual_prefix \<Longrightarrow> dl_veriffSessionId r = manualSessionId (holder r)"
  by (auto simp: holder_def manualSessionId_def startsWith_def) (metis append_take_drop_id)

lemma holder_fields [simp]:
  "holder (r\<lparr>dl_status := st\<rparr>) = holder r" "holder (r\<lparr>dl_decisionPayload := b\<rparr>) = holder r"
  "holder (r\<lparr>dl_updatedAt := t\<rparr>) = holder r" "holder (r\<lparr>dl_submittedAt := u\<rparr>) = holder r"
  by (simp_all add: holder_def)

lemma row_ok_updatedAt [simp]: "row_ok us (r\<lparr>dl_updatedAt := t\<rparr>) = row_ok us r"
  by (simp add: row_ok_def)

lemma licence_invD:
  assumes "licence_inv db"
  shows "distinct (map lu_id (ld_users db))" "distinct (map dl_veriffSessionId (ld_rows db))"
    "r \<in> set (ld_rows db) \<Longrightarrow> row_ok (ld_users db) r"
  using assms by (simp_all add: licence_inv_def list_all_iff)

lemma licence_inv_notices [simp]: "licence_inv (db\<lparr>ld_notices := n\<rparr>) = licence_inv db"
  by (simp add: licence_inv_def)

abbreviation updated_rows :: "licence_env \<Rightarrow> (dl_row \<Rightarrow> bool) \<Rightarrow> (dl_row \<Rightarrow> dl_row) \<Rightarrow> dl_row list \<Rightarrow> dl_row list" where
  "updated_rows env p f rs \<equiv> update_where p (\<lambda>r. (f r)\<lparr>dl_updatedAt := le_now env\<rparr>) rs"

abbreviation flagged :: "jstext \<Rightarrow> bool \<Rightarrow> lic_user list \<Rightarrow> lic_user list" where
  "flagged x v us \<equiv> update_where (\<lambda>u. lu_id u = x) (\<lambda>u. u\<lparr>lu_dlVerified := v\<rparr>) us"

lemma inv_update_rows:
  assumes inv: "licence_inv db"
    and f: "\<And>r. r \<in> set (ld_rows db) \<Longrightarrow> p r \<Longrightarrow> row_ok (ld_users db) (f r) \<and> dl_veriffSessionId (f r) = dl_veriffSessionId r"
  shows "licence_inv (db\<lparr>ld_rows := updated_rows env p f (ld_rows db)\<rparr>)"
proof -
  have "map dl_veriffSessionId (updated_rows env p f (ld_rows db)) = map dl_veriffSessionId (ld_rows db)"
    using f by (simp add: update_where_def)
  moreover have "list_all (row_ok (ld_users db)) (updated_rows env p f (ld_rows db))"
    using f licence_invD(3)[OF inv] by (auto simp: list_all_iff set_update_where)
  ultimately show ?thesis using licence_invD(1,2)[OF inv] by (simp add: licence_inv_def)
qed

lemma flagged_ids [simp]: "map lu_id (flagged x v us) = map lu_id us"
  by (rule map_update_where) simp

lemma flagged_owner:
  "(\<exists>u \<in> set (flagged x v us). lu_id u = y \<and> (b \<longrightarrow> lu_dlVerified u)) \<longleftrightarrow>
   (if y = x then (\<exists>u \<in> set us. lu_id u = y) \<and> (b \<longrightarrow> v) else \<exists>u \<in> set us. lu_id u = y \<and> (b \<longrightarrow> lu_dlVerified u))"
proof -
  have "(\<exists>u \<in> set (flagged x v us). lu_id u = y \<and> (b \<longrightarrow> lu_dlVerified u)) \<longleftrightarrow>
    (\<exists>u \<in> set us. lu_id u = y \<and> (b \<longrightarrow> (if lu_id u = x then v else lu_dlVerified u)))"
    unfolding set_update_where by (induction us) auto
  then show ?thesis by (cases "y = x") (simp_all cong: conj_cong)
qed

lemma flagged_known: "(\<exists>u \<in> set (flagged x v us). lu_id u = y) \<longleftrightarrow> (\<exists>u \<in> set us. lu_id u = y)"
  using flagged_owner[of x v us y False] by auto

lemma flagged_verified:
  "(\<exists>u \<in> set (flagged x v us). lu_id u = y \<and> lu_dlVerified u) \<longleftrightarrow>
   (if y = x then v \<and> (\<exists>u \<in> set us. lu_id u = y) else \<exists>u \<in> set us. lu_id u = y \<and> lu_dlVerified u)"
  using flagged_owner[of x v us y True] by auto

lemma inv_flag_True: "licence_inv db \<Longrightarrow> licence_inv (db\<lparr>ld_users := flagged x True (ld_users db)\<rparr>)"
  unfolding licence_inv_def list_all_iff row_ok_def by (auto simp: flagged_known flagged_verified)

lemma inv_flag_False:
  "licence_inv db \<Longrightarrow> (\<And>r. r \<in> set (ld_rows db) \<Longrightarrow> holder r = x \<Longrightarrow> dl_status r \<noteq> DL_APPROVED) \<Longrightarrow>
   licence_inv (db\<lparr>ld_users := flagged x False (ld_users db)\<rparr>)"
  unfolding licence_inv_def list_all_iff row_ok_def by (simp add: flagged_known flagged_verified)

lemma inv_insert_row:
  "licence_inv db \<Longrightarrow> row_by_session (dl_veriffSessionId r) db = None \<Longrightarrow> row_ok (ld_users db) r \<Longrightarrow>
   licence_inv (db\<lparr>ld_rows := ld_rows db @ [r]\<rparr>)"
  by (auto simp: licence_inv_def row_by_session_def find_None_iff)

lemma user_found: "lic_user_by_id x db = Some v \<Longrightarrow> v \<in> set (ld_users db) \<and> lu_id v = x"
  unfolding lic_user_by_id_def by (rule find_Some_mem)

lemma row_found: "row_by_session x db = Some r \<Longrightarrow> r \<in> set (ld_rows db) \<and> dl_veriffSessionId r = x"
  unfolding row_by_session_def by (rule find_Some_mem)

lemma known_owner: "licence_inv db \<Longrightarrow> r \<in> set (ld_rows db) \<Longrightarrow> lic_user_by_id (dl_userId r) db \<noteq> None"
  using licence_invD(3)[of db r] by (auto simp: row_ok_def lic_user_by_id_def find_None_iff)

lemma create_row_inv:
  assumes "licence_inv db" "\<And>v. v \<in> set (ld_users db) \<Longrightarrow> lu_id v = dl_userId r \<Longrightarrow> row_ok (ld_users db) r"
  shows "licence_inv (snd (create_row r db))"
  using assms inv_insert_row[of db r]
  by (auto simp: create_row_def run_defs split: prod.splits dest!: user_found)

lemma pending_row_ok:
  "v \<in> set us \<Longrightarrow> lu_id v = x \<Longrightarrow> row_ok us (pending_row env x s url)"
  by (auto simp: row_ok_def pending_row_def)

subsection \<open>Decisions\<close>

lemma decided_simps [simp]:
  "dl_userId (decided x st c rc b f r) = x" "dl_status (decided x st c rc b f r) = st"
  "dl_veriffSessionId (decided x st c rc b f r) = dl_veriffSessionId r"
  "dl_documentImageKey (decided x st c rc b f r) = dl_documentImageKey r"
  "dl_decisionPayload (decided x st c rc b f r) = Some b"
  by (simp_all add: decided_def)

lemma decided_ok:
  assumes "row_ok us r" "\<not> startsWith (dl_veriffSessionId r) manual_prefix" "decision_ok b"
    and "\<exists>v \<in> set us. lu_id v = x \<and> (st = DL_APPROVED \<longrightarrow> lu_dlVerified v)"
  shows "row_ok us (decided x st c rc b f r)"
proof -
  have "holder (decided x st c rc b f r) = x" using assms(2) by (subst holder_simps(1)) simp_all
  then show ?thesis using assms by (auto simp: row_ok_def)
qed

lemma run_set_verified:
  "set_verified x v db = (if lic_user_by_id x db = None then (Inl (Err ''P2025''), db)
     else (Inr (), db\<lparr>ld_users := flagged x v (ld_users db)\<rparr>))"
  by (simp add: set_verified_def run_defs)

lemma run_update_rows: "update_rows env p f db = (Inr (), db\<lparr>ld_rows := updated_rows env p f (ld_rows db)\<rparr>)"
  by (simp add: update_rows_def)

lemma run_approve_user:
  assumes "lic_user_by_id x db \<noteq> None"
  shows "approve_user env x s db = (Inr (), db\<lparr>ld_users := flagged x True (ld_users db), ld_rows :=
    updated_rows env (\<lambda>r. dl_userId r = x \<and> dl_status r = DL_PENDING \<and> dl_veriffSessionId r \<noteq> s) (\<lambda>r. r\<lparr>dl_status := DL_SUPERSEDED\<rparr>) (ld_rows db)\<rparr>)"
  using assms by (simp add: approve_user_def run_defs run_set_verified run_update_rows)

lemma superseded_ok: "row_ok us r \<Longrightarrow> st \<noteq> DL_APPROVED \<Longrightarrow> row_ok us (r\<lparr>dl_status := st\<rparr>)"
  by (auto simp: row_ok_def)

lemma decide_inv:
  assumes inv: "licence_inv db" and x: "lic_user_by_id x db = Some v" and s: "\<not> startsWith s manual_prefix" and b: "decision_ok b"
  shows "licence_inv (snd (andDo (update_rows env (\<lambda>r. dl_veriffSessionId r = s) (decided x st c rc b f))
    (andDo (whenM (st = DL_APPROVED) (approve_user env x s)) (ret y)) db))"
proof (cases "st = DL_APPROVED")
  case False
  have v: "v \<in> set (ld_users db)" "lu_id v = x" using user_found[OF x] by auto
  have "licence_inv (db\<lparr>ld_rows := updated_rows env (\<lambda>r. dl_veriffSessionId r = s) (decided x st c rc b f) (ld_rows db)\<rparr>)"
    using s b v False by (intro inv_update_rows[OF inv] conjI decided_ok licence_invD(3)[OF inv]) auto
  then show ?thesis using False by (simp add: run_defs run_update_rows)
next
  case True
  let ?db1 = "db\<lparr>ld_users := flagged x True (ld_users db)\<rparr>"
  have v: "v \<in> set (ld_users db)" "lu_id v = x" using user_found[OF x] by auto
  have i1: "licence_inv ?db1" by (rule inv_flag_True[OF inv])
  have o: "\<exists>u \<in> set (ld_users ?db1). lu_id u = x \<and> lu_dlVerified u" using v flagged_owner[of x True "ld_users db" x True] by auto
  let ?db2 = "?db1\<lparr>ld_rows := updated_rows env (\<lambda>r. dl_veriffSessionId r = s) (decided x st c rc b f) (ld_rows ?db1)\<rparr>"
  have i2: "licence_inv ?db2"
  proof (intro inv_update_rows[OF i1] conjI decided_ok licence_invD(3)[OF i1])
    show "\<exists>u \<in> set (ld_users ?db1). lu_id u = x \<and> (st = DL_APPROVED \<longrightarrow> lu_dlVerified u)" using o by blast
  qed (use s b in simp_all)
  let ?q = "\<lambda>r. dl_userId r = x \<and> dl_status r = DL_PENDING \<and> dl_veriffSessionId r \<noteq> s"
  have "licence_inv (?db2\<lparr>ld_rows := updated_rows env ?q (\<lambda>r. r\<lparr>dl_status := DL_SUPERSEDED\<rparr>) (ld_rows ?db2)\<rparr>)"
    by (intro inv_update_rows[OF i2] conjI superseded_ok licence_invD(3)[OF i2]) simp_all
  moreover have "lic_user_by_id x (db\<lparr>ld_rows := rs\<rparr>) \<noteq> None" for rs using x by (simp add: lic_user_by_id_def)
  ultimately show ?thesis using True by (simp add: run_andDo whenM_def run_update_rows run_approve_user)
qed

lemma decision_okD: "decision_ok b \<Longrightarrow> record_field ''verification'' b = Some v \<Longrightarrow> text_field ''id'' v = Some s \<Longrightarrow> \<not> startsWith s manual_prefix"
  by (simp add: decision_ok_def)

lemma handle_verification_inv:
  assumes inv: "licence_inv db" and b: "decision_ok body" and s: "\<not> startsWith s manual_prefix"
  shows "licence_inv (snd (handle_verification env body ver s db))"
proof -
  define found where "found = row_by_session s db"
  define vendorData where "vendorData = js_trim (text_or_empty (text_field ''vendorData'' ver))"
  define vendorUser where "vendorUser = (if vendorData = [] then None else lic_user_by_id vendorData db)"
  define x where "x = (case vendorUser of Some v \<Rightarrow> lu_id v | None \<Rightarrow> (case found of Some r \<Rightarrow> dl_userId r | None \<Rightarrow> []))"
  show ?thesis
  proof (cases "x = []")
    case True
    then show ?thesis using inv
      by (simp add: handle_verification_def Let_def run_andThen flip: found_def vendorData_def vendorUser_def x_def)
  next
    case False
    have "lic_user_by_id x db \<noteq> None"
    proof (cases vendorUser)
      case None
      then obtain r where "found = Some r" "x = dl_userId r" using False x_def by (cases found) auto
      then have "r \<in> set (ld_rows db)" using row_found[of s db r] by (simp add: found_def)
      then show ?thesis using known_owner[OF inv] \<open>x = dl_userId r\<close> by simp
    next
      case (Some v)
      then have "lic_user_by_id vendorData db = Some v" by (auto simp: vendorUser_def split: if_splits)
      then show ?thesis using Some by (auto simp: x_def dest: user_found)
    qed
    then obtain v where x: "lic_user_by_id x db = Some v" by blast
    define db1 where "db1 = snd (whenM (found = None) (andDo (create_row (pending_row env x s [])) (ret ())) db)"
    have created: "create_row (pending_row env x s []) db = (Inr (pending_row env x s []), db\<lparr>ld_rows := ld_rows db @ [pending_row env x s []]\<rparr>)"
      if "found = None" using that x by (simp add: create_row_def run_defs found_def pending_row_def)
    have run1: "whenM (found = None) (andDo (create_row (pending_row env x s [])) (ret ())) db = (Inr (), db1)"
      using created by (cases found) (simp_all add: db1_def whenM_def run_andDo)
    have inv1: "licence_inv db1"
    proof (cases "found = None")
      case True
      have "row_ok (ld_users db) (pending_row env x s [])" using user_found[OF x] by (auto intro: pending_row_ok)
      then show ?thesis using True created inv_insert_row[OF inv, of "pending_row env x s []"]
        by (simp add: db1_def whenM_def run_andDo found_def pending_row_def)
    qed (use inv in \<open>auto simp: db1_def whenM_def\<close>)
    have x1: "lic_user_by_id x db1 = Some v"
      using created x by (cases found) (simp_all add: db1_def whenM_def run_andDo lic_user_by_id_def)
    show ?thesis using inv1 False run1 x1
      by (auto simp: handle_verification_def Let_def run_andThen run_andDo[of "whenM (found = None) _"]
        found_def[symmetric] vendorData_def[symmetric] vendorUser_def[symmetric] x_def[symmetric]
        split: option.splits sum.splits intro: decide_inv[OF inv1 x1 s b])
  qed
qed

lemma handleWebhookDecision_inv:
  assumes "licence_inv db" "decision_ok body" shows "licence_inv (snd (handleWebhookDecision env body db))"
  using assms handle_verification_inv[OF assms] decision_okD[OF assms(2)]
  by (auto simp: handleWebhookDecision_def split: option.splits)

lemma handleWebhookEvent_inv:
  assumes "licence_inv db" shows "licence_inv (snd (handleWebhookEvent env body db))"
proof -
  have "licence_inv (db\<lparr>ld_rows := updated_rows env p (\<lambda>r. r\<lparr>dl_submittedAt := t\<rparr>) (ld_rows db)\<rparr>)" for p t
    using licence_invD(3)[OF assms] by (intro inv_update_rows[OF assms] conjI) (simp_all add: row_ok_def)
  then show ?thesis using assms by (simp add: handleWebhookEvent_def Let_def run_defs run_update_rows)
qed

subsection \<open>Recovery\<close>

text \<open>Veriff's session ids are UUIDs: no session it opens and no decision it reports carries the manual prefix.\<close>

definition veriff_ids_ok :: "licence_env \<Rightarrow> bool" where
  "veriff_ids_ok env \<longleftrightarrow> (\<forall>s j. le_parseJson env s = Some j \<longrightarrow> decision_ok j) \<and>
     (\<forall>p s url. le_newSession env p = Some (s, url) \<longrightarrow> \<not> startsWith s manual_prefix)"

lemma handleWebhookDecision_preserves: "decision_ok body \<Longrightarrow> preserves licence_inv (handleWebhookDecision env body)"
  by (intro preservesI handleWebhookDecision_inv)

lemma units_eq_iff [simp]: "units a = units b \<longleftrightarrow> a = b"
  unfolding units_def by (simp add: inj_map_eq_map inj_def)

lemma fallback_body_ok: "\<not> startsWith s manual_prefix \<Longrightarrow> decision_ok (fallback_body s x attempt person)"
  by (simp add: decision_ok_def record_field_def json_field_def text_field_def fallback_body_def isRecord_def)

lemma bind_some: "Option.bind m k = Some y \<Longrightarrow> \<exists>x. k x = Some y"
  by (cases m) auto

lemma missed_decision_ok:
  assumes env: "veriff_ids_ok env" and s: "\<not> startsWith (dl_veriffSessionId r) manual_prefix" and m: "missed_decision env r = Some body"
  shows "decision_ok body"
proof -
  have fetched: "fetchSignedVeriffText env p x = Some j \<Longrightarrow> decision_ok j" for p x j
    using env by (auto simp: fetchSignedVeriffText_def veriff_ids_ok_def split: option.splits if_splits)
  have fallback: "decision_ok j" if "buildFallbackDecisionPayload env (dl_veriffSessionId r) y = Some (Some j)" for y j
  proof -
    have one: "decision_ok j" if ap: "attempt_payload env (dl_veriffSessionId r) y a = Some (Some j)" for a
    proof (cases "text_field ''status'' a = Some (units ''approved'')")
      case True
      from bind_some[OF ap[unfolded attempt_payload_def if_P[OF True]]]
      obtain body where "(case record_field ''person'' body of None \<Rightarrow> Some None
          | Some p \<Rightarrow> Some (Some (fallback_body (dl_veriffSessionId r) y a (Some p)))) = Some (Some j)" by (rule exE)
      then show ?thesis using fallback_body_ok[OF s] by (cases "record_field ''person'' body") auto
    next
      case False
      then show ?thesis using ap fallback_body_ok[OF s] by (auto simp: attempt_payload_def)
    qed
    from that obtain attempt where "(case attempt of None \<Rightarrow> Some None | Some a \<Rightarrow> attempt_payload env (dl_veriffSessionId r) y a) = Some (Some j)"
      unfolding buildFallbackDecisionPayload_def bind_eq_Some_conv Let_def by blast
    then show ?thesis using one by (cases attempt) auto
  qed
  let ?fb = "Option.bind (buildFallbackDecisionPayload env (dl_veriffSessionId r) (dl_userId r)) (\<lambda>fallback. fallback)"
  from m obtain parsed where p: "fetchSignedVeriffText env (session_path (dl_veriffSessionId r) ''/decision'') (dl_veriffSessionId r) = Some parsed"
    and q: "(case extractDecisionStatus parsed of None \<Rightarrow> ?fb | Some s \<Rightarrow> if s = [] then ?fb
       else if s \<notin> set TERMINAL_DECISION_STATUSES then None else Some parsed) = Some body"
    unfolding missed_decision_def bind_eq_Some_conv by blast
  have fb: "decision_ok body" if "?fb = Some body"
    using that fallback unfolding bind_eq_Some_conv by blast
  show ?thesis
  proof (cases "extractDecisionStatus parsed")
    case None
    then show ?thesis using q fb by simp
  next
    case (Some s)
    show ?thesis
    proof (cases "s = []")
      case True
      then show ?thesis using q Some fb by simp
    next
      case False
      then have "body = parsed" using q by (simp add: Some split: if_splits)
      then show ?thesis using fetched[OF p] by simp
    qed
  qed
qed

lemma recover_row_preserves: "veriff_ids_ok env \<Longrightarrow> preserves licence_inv (recover_row env r)"
  unfolding recover_row_def
  by (auto intro!: hoare_intros handleWebhookDecision_preserves missed_decision_ok split: option.splits outcome.splits)

lemma recover_rows_preserves: "veriff_ids_ok env \<Longrightarrow> preserves licence_inv (recover_rows env rs counts)"
  by (induction rs arbitrary: counts) (auto intro!: hoare_intros recover_row_preserves)

lemma normalize_rows_preserves:
  "\<forall>r \<in> set rs. case dl_decisionPayload r of None \<Rightarrow> True | Some b \<Rightarrow> decision_ok b \<Longrightarrow> preserves licence_inv (normalize_rows env rs n)"
  by (induction rs arbitrary: n)
    (auto intro!: hoare_intros handleWebhookDecision_preserves split: option.splits outcome.splits)

lemma recovery_preserves:
  assumes "veriff_ids_ok env"
  shows "preserves licence_inv (recoverPendingVeriffDecisions env x fresh limit)"
    and "preserves licence_inv (normalizeLegacyApprovedMismatchRows env y)"
proof -
  show "preserves licence_inv (recoverPendingVeriffDecisions env x fresh limit)"
    unfolding recoverPendingVeriffDecisions_def using assms by (auto intro!: hoare_intros recover_rows_preserves)
  show "preserves licence_inv (normalizeLegacyApprovedMismatchRows env y)"
  proof (rule preservesI)
    fix db assume inv: "licence_inv db"
    let ?rows = "take 20 (newest_first (filter (\<lambda>r. dl_userId r = y \<and> dl_status r = DL_IDENTITY_MISMATCH \<and> is_veriff_row r) (ld_rows db)))"
    have "r \<in> set (ld_rows db)" if "r \<in> set ?rows" for r
      using that by (auto simp: newest_first_def dest!: in_set_takeD)
    moreover have "case dl_decisionPayload r of None \<Rightarrow> True | Some b \<Rightarrow> decision_ok b" if "r \<in> set (ld_rows db)" for r
      using licence_invD(3)[OF inv that] unfolding row_ok_def by blast
    ultimately have "preserves licence_inv (normalize_rows env ?rows 0)" by (intro normalize_rows_preserves ballI) blast
    then have "licence_inv (snd (normalize_rows env ?rows 0 db))" using inv by (rule preservesD)
    then show "licence_inv (snd (normalizeLegacyApprovedMismatchRows env y db))"
      by (simp add: normalizeLegacyApprovedMismatchRows_def run_andThen)
  qed
qed

lemma reconcile_preserves:
  "veriff_ids_ok env \<Longrightarrow> preserves licence_inv (recoverPendingVeriffDecisionsForUser env x)"
  "veriff_ids_ok env \<Longrightarrow> preserves licence_inv (reconcilePendingVeriffSessionsForUser env x)"
  unfolding reconcilePendingVeriffSessionsForUser_def recoverPendingVeriffDecisionsForUser_def
  by (intro hoare_intros recovery_preserves | simp)+

subsection \<open>Sessions\<close>

lemma pending_row_owner: "dl_userId (pending_row env x s url) = x"
  by (simp add: pending_row_def)

lemma create_pending_preserves: "preserves licence_inv (create_row (pending_row env x s url))"
  by (intro preservesI create_row_inv) (auto intro: pending_row_ok simp: pending_row_owner)

lemma createVeriffSession_preserves:
  assumes "veriff_ids_ok env" shows "preserves licence_inv (createVeriffSession env opts)"
proof -
  have open_ok: "preserves licence_inv (open_session env x p)" for x p
  proof (cases "le_newSession env p")
    case None
    then show ?thesis by (auto simp: open_session_def ofOption_def intro!: hoare_intros)
  next
    case (Some q)
    moreover obtain s url where "q = (s, url)" by (cases q)
    ultimately show ?thesis by (auto simp: open_session_def ofOption_def intro!: hoare_intros create_pending_preserves)
  qed
  show ?thesis unfolding createVeriffSession_def Let_def
    by (intro hoare_intros reconcile_preserves(2) assms open_ok)
qed

lemma registerVeriffSession_preserves:
  assumes "\<And>db. licence_inv db \<Longrightarrow> licence_inv (meanwhile db)"
  shows "preserves licence_inv (registerVeriffSession env meanwhile x s url)"
  unfolding registerVeriffSession_def
  by (intro hoare_intros create_pending_preserves preserves_modify assms)

lemma getVerificationStatus_preserves: "veriff_ids_ok env \<Longrightarrow> preserves licence_inv (getVerificationStatus env x)"
  unfolding getVerificationStatus_def by (intro hoare_intros reconcile_preserves(2))

subsection \<open>Reviews\<close>

lemma run_loadPendingRow:
  "loadPendingRow x db = (case row_by_session (manualSessionId x) db of
     None \<Rightarrow> (Inl (Err ''DL_SUBMISSION_NOT_FOUND''), db)
   | Some r \<Rightarrow> if no_text (dl_documentImageKey r) then (Inl (Err ''DL_DOCUMENT_MISSING''), db)
       else if dl_status r = DL_SUPERSEDED then (Inl (Err ''DL_SUBMISSION_SUPERSEDED''), db)
       else if isVerifiedElsewhere x db then (Inl (Err ''DL_VERIFIED_ELSEWHERE''), db) else (Inr r, db))"
  by (simp add: loadPendingRow_def run_andThen run_andDo split: option.split)

lemma loadPendingRow_cases:
  obtains (stop) e where "loadPendingRow x db = (Inl e, db)"
  | (go) r where "loadPendingRow x db = (Inr r, db)" "row_by_session (manualSessionId x) db = Some r" "\<not> isVerifiedElsewhere x db"
proof (cases "row_by_session (manualSessionId x) db")
  case None
  then show ?thesis using that by (simp add: run_loadPendingRow)
next
  case (Some r)
  show ?thesis
  proof (cases "no_text (dl_documentImageKey r) \<or> dl_status r = DL_SUPERSEDED \<or> isVerifiedElsewhere x db")
    case True
    then have "\<exists>e. loadPendingRow x db = (Inl e, db)" using Some unfolding run_loadPendingRow by auto
    then show ?thesis using that(1) by blast
  next
    case False
    then show ?thesis using that(2)[of r] Some unfolding run_loadPendingRow by auto
  qed
qed

lemma submitted_ok:
  "row_ok us r \<Longrightarrow> startsWith (dl_veriffSessionId r) manual_prefix \<Longrightarrow> row_ok us (submitted_fields k r)"
  and rejected_ok: "row_ok us r \<Longrightarrow> st \<noteq> DL_APPROVED \<Longrightarrow> row_ok us (rejected_fields env st a reason adm r)"
  and approved_ok: "row_ok us r \<Longrightarrow> \<exists>v \<in> set us. lu_id v = holder r \<and> lu_dlVerified v \<Longrightarrow> row_ok us (approved_fields env adm user r)"
  by (auto simp: row_ok_def submitted_fields_def rejected_fields_def approved_fields_def review_payload_def decision_ok_def
    record_field_def json_field_def holder_def)

lemma field_sessions [simp]:
  "dl_veriffSessionId (submitted_fields k r) = dl_veriffSessionId r" "dl_userId (submitted_fields k r) = dl_userId r"
  "dl_veriffSessionId (rejected_fields env st a reason adm r) = dl_veriffSessionId r" "dl_status (rejected_fields env st a reason adm r) = st"
  "dl_userId (rejected_fields env st a reason adm r) = dl_userId r"
  "dl_veriffSessionId (approved_fields env adm user r) = dl_veriffSessionId r"
  by (simp_all add: submitted_fields_def rejected_fields_def approved_fields_def)

lemma manual_session_prefix [simp]: "startsWith (manualSessionId x) manual_prefix"
  by (simp add: manualSessionId_def startsWith_def)

lemma submitDlDocument_preserves: "preserves licence_inv (submitDlDocument env x k)"
proof (rule preservesI)
  fix db assume inv: "licence_inv db"
  show "licence_inv (snd (submitDlDocument env x k db))"
  proof (cases "lic_user_by_id x db")
    case None
    then show ?thesis using inv by (simp add: submitDlDocument_def run_andThen)
  next
    case (Some v)
    let ?r = "submitted_fields k (pending_row env x (manualSessionId x) (manualSessionUrl x))"
    have new: "licence_inv (snd (create_row ?r db))"
    proof (rule create_row_inv[OF inv])
      show "row_ok (ld_users db) ?r"
        using user_found[OF Some] by (auto simp: row_ok_def submitted_fields_def pending_row_def review_payload_def decision_ok_def record_field_def json_field_def)
    qed
    have old: "licence_inv (db\<lparr>ld_rows := updated_rows env (\<lambda>r. dl_veriffSessionId r = manualSessionId x) (submitted_fields k) (ld_rows db)\<rparr>)"
      by (intro inv_update_rows[OF inv] conjI submitted_ok licence_invD(3)[OF inv]) simp_all
    show ?thesis using inv new old Some
      by (auto simp: submitDlDocument_def run_andThen run_andDo run_update_rows split: option.splits prod.splits sum.splits)
  qed
qed

lemma rows_then_users: "db\<lparr>ld_rows := rs, ld_users := us\<rparr> = db\<lparr>ld_users := us, ld_rows := rs\<rparr>"
  by simp

text \<open>A decision against the driver is taken only when no approved row but the manual one could be his.\<close>

lemma reject_document_preserves:
  assumes "st \<noteq> DL_APPROVED" shows "preserves licence_inv (reject_document env st a n x reason adm)"
proof (rule preservesI)
  fix db assume inv: "licence_inv db"
  let ?db1 = "db\<lparr>ld_rows := updated_rows env (\<lambda>r. dl_veriffSessionId r = manualSessionId x) (rejected_fields env st a reason adm) (ld_rows db)\<rparr>"
  have i1: "licence_inv ?db1"
    by (intro inv_update_rows[OF inv] conjI rejected_ok licence_invD(3)[OF inv] assms) simp_all
  show "licence_inv (snd (reject_document env st a n x reason adm db))"
  proof (cases rule: loadPendingRow_cases[of x db])
    case (stop e)
    then show ?thesis using inv by (simp add: reject_document_def run_andDo)
  next
    case (go r)
    have "licence_inv (?db1\<lparr>ld_users := flagged x False (ld_users ?db1)\<rparr>)"
    proof (rule inv_flag_False[OF i1])
      fix q assume "q \<in> set (ld_rows ?db1)" and qx: "holder q = x"
      then obtain q0 where q0: "q0 \<in> set (ld_rows db)"
        and q: "q = (if dl_veriffSessionId q0 = manualSessionId x then (rejected_fields env st a reason adm q0)\<lparr>dl_updatedAt := le_now env\<rparr> else q0)"
        by (auto simp: set_update_where)
      show "dl_status q \<noteq> DL_APPROVED"
      proof (cases "dl_veriffSessionId q0 = manualSessionId x")
        case True
        then show ?thesis using q assms by simp
      next
        case False
        then have "\<not> startsWith (dl_veriffSessionId q) manual_prefix" using q qx holder_simps(3)[of q] by auto
        then have "dl_userId q = x" using qx holder_simps(1) by simp
        then show ?thesis using go(3) q0 q False by (auto simp: isVerifiedElsewhere_def list_ex_iff)
      qed
    qed
    then show ?thesis using inv go(1) by (simp add: reject_document_def run_defs run_update_rows run_set_verified notify_decision_def lic_user_by_id_def)
  qed
qed

lemma approveDlDocument_preserves: "preserves licence_inv (approveDlDocument env x adm)"
proof (rule preservesI)
  fix db assume inv: "licence_inv db"
  show "licence_inv (snd (approveDlDocument env x adm db))"
  proof (cases rule: loadPendingRow_cases[of x db])
    case (stop e)
    then show ?thesis using inv by (simp add: approveDlDocument_def run_andDo)
  next
    case (go r)
    show ?thesis
    proof (cases "lic_user_by_id x db")
      case None
      then show ?thesis using inv go(1) by (simp add: approveDlDocument_def run_andDo run_andThen)
    next
      case (Some user)
      let ?p = "\<lambda>r. dl_veriffSessionId r = manualSessionId x \<and> dl_status r \<noteq> DL_APPROVED"
      let ?db1 = "db\<lparr>ld_users := flagged x True (ld_users db)\<rparr>"
      have i1: "licence_inv ?db1" by (rule inv_flag_True[OF inv])
      have o: "\<exists>v \<in> set (ld_users ?db1). lu_id v = x \<and> lu_dlVerified v"
        using user_found[OF Some] flagged_owner[of x True "ld_users db" x True] by auto
      have "licence_inv (?db1\<lparr>ld_rows := updated_rows env ?p (approved_fields env adm user) (ld_rows ?db1)\<rparr>)"
      proof (intro inv_update_rows[OF i1] conjI approved_ok licence_invD(3)[OF i1])
        fix q assume q: "q \<in> set (ld_rows ?db1)" and p: "?p q"
        then have "holder q = x" by (intro holder_simps(2)) simp
        then show "\<exists>v \<in> set (ld_users ?db1). lu_id v = holder q \<and> lu_dlVerified v" using o by simp
      qed simp_all
      then show ?thesis using Some go(1)
        by (simp add: rows_then_users approveDlDocument_def run_andDo run_andThen run_transaction run_update_rows run_set_verified notify_decision_def
          lic_user_by_id_def Let_def)
    qed
  qed
qed

lemma withdrawn_ok:
  "row_ok us r \<Longrightarrow> row_ok us (r\<lparr>dl_status := DL_SUPERSEDED, dl_decisionPayload :=
     Some (JObj [(units ''source'', JStr s), (units ''action'', JStr a)])\<rparr>)"
  by (auto simp: row_ok_def decision_ok_def record_field_def json_field_def)

lemma requireVeriffForUser_preserves: "preserves licence_inv (requireVeriffForUser env x)"
proof (rule preservesI)
  fix db assume inv: "licence_inv db"
  let ?f = "\<lambda>r. r\<lparr>dl_status := DL_SUPERSEDED, dl_decisionPayload := Some (JObj [(units ''source'', JStr (units ''ADMIN'')), (units ''action'', JStr (units ''REQUIRE_VERIFF''))])\<rparr>"
  let ?m = "\<lambda>r. dl_veriffSessionId r = manualSessionId x"
  define manual where "manual = row_by_session (manualSessionId x) db"
  define db1 where "db1 = (if map_option dl_status manual = Some DL_APPROVED
    then db\<lparr>ld_rows := updated_rows env ?m ?f (ld_rows db)\<rparr> else db)"
  have i1: "licence_inv db1" unfolding db1_def
    using inv by (auto intro!: inv_update_rows[OF inv] intro: withdrawn_ok dest: licence_invD(3)[OF inv])
  show "licence_inv (snd (requireVeriffForUser env x db))"
  proof (cases "lic_user_by_id x db = None \<or> hasApprovedVerification x db")
    case True
    then show ?thesis using inv by (auto simp: requireVeriffForUser_def run_andDo run_andThen)
  next
    case False
    have "licence_inv (db1\<lparr>ld_users := flagged x False (ld_users db1)\<rparr>)"
    proof (rule inv_flag_False[OF i1])
      fix q assume q: "q \<in> set (ld_rows db1)" and qx: "holder q = x"
      show "dl_status q \<noteq> DL_APPROVED"
      proof
        assume ap: "dl_status q = DL_APPROVED"
        have q0: "q \<in> set (ld_rows db)" and not_superseded: "map_option dl_status manual = Some DL_APPROVED \<longrightarrow> \<not> ?m q"
          using q ap by (auto simp: db1_def set_update_where split: if_splits)
        have "startsWith (dl_veriffSessionId q) manual_prefix"
        proof (rule ccontr)
          assume veriff: "\<not> startsWith (dl_veriffSessionId q) manual_prefix"
          then have "is_veriff_row q" using licence_invD(3)[OF inv q0] by (auto simp: is_veriff_row_def row_ok_def)
          moreover have "dl_userId q = x" using qx holder_simps(1)[OF veriff] by simp
          ultimately show False using False q0 ap by (auto simp: hasApprovedVerification_def list_ex_iff)
        qed
        then have m: "?m q" using qx holder_simps(3) by metis
        have "manual = Some q" using find_key_unique[of dl_veriffSessionId "ld_rows db" q] licence_invD(2)[OF inv] q0 m
          by (simp add: manual_def row_by_session_def)
        then show False using not_superseded m ap by simp
      qed
    qed
    then show ?thesis using False
      by (auto simp: requireVeriffForUser_def run_defs run_update_rows run_set_verified notify_decision_def lic_user_by_id_def
        db1_def manual_def split: if_splits)
  qed
qed

subsection \<open>Every sequence of calls\<close>

inductive licence_step :: "lic_db \<Rightarrow> lic_db \<Rightarrow> bool" where
  ls_decision: "decision_ok body \<Longrightarrow> licence_step db (snd (handleWebhookDecision env body db))"
| ls_event: "licence_step db (snd (handleWebhookEvent env body db))"
| ls_create: "veriff_ids_ok env \<Longrightarrow> licence_step db (snd (createVeriffSession env opts db))"
| ls_register: "licence_step db (snd (registerVeriffSession env (\<lambda>d. d) x s url db))"
| ls_status: "veriff_ids_ok env \<Longrightarrow> licence_step db (snd (getVerificationStatus env x db))"
| ls_recover: "veriff_ids_ok env \<Longrightarrow> licence_step db (snd (recoverPendingVeriffDecisions env y fresh limit db))"
| ls_submit: "licence_step db (snd (submitDlDocument env x k db))"
| ls_approve: "licence_step db (snd (approveDlDocument env x adm db))"
| ls_decline: "licence_step db (snd (declineDlDocument env x reason adm db))"
| ls_resubmit: "licence_step db (snd (requestDlResubmission env x reason adm db))"
| ls_require: "licence_step db (snd (requireVeriffForUser env x db))"
| ls_sync: "veriff_ids_ok env \<Longrightarrow> licence_step db (snd (syncUserVeriffStatus env x db))"

lemma licence_step_inv: "licence_step db db' \<Longrightarrow> licence_inv db \<Longrightarrow> licence_inv db'"
proof (induction rule: licence_step.induct)
  case (ls_register db env x s url)
  then show ?case by (intro preservesD[OF registerVeriffSession_preserves])
next
  case (ls_sync env db x)
  have "preserves licence_inv (syncUserVeriffStatus env x)"
    unfolding syncUserVeriffStatus_def by (intro hoare_intros reconcile_preserves(1) ls_sync)
  then show ?case using ls_sync(2) by (rule preservesD)
qed (simp_all add: handleWebhookDecision_inv handleWebhookEvent_inv preservesD createVeriffSession_preserves getVerificationStatus_preserves
  recovery_preserves submitDlDocument_preserves approveDlDocument_preserves declineDlDocument_def requestDlResubmission_def
  reject_document_preserves requireVeriffForUser_preserves)

lemma licence_steps_inv: "licence_step\<^sup>*\<^sup>* db db' \<Longrightarrow> licence_inv db \<Longrightarrow> licence_inv db'"
  by (induction rule: rtranclp_induct) (blast intro: licence_step_inv)+

text \<open>
  C35. Whatever webhooks, recoveries, sessions, registrations, uploads and reviews happen, each call running alone, and in
  whatever order: for every approved licence row the driver it speaks for is marked as verified, that is the owner of a Veriff
  row and the user named by the key of a manual row, whoever owns that row; and sessions stay unique. What Veriff itself is
  assumed to do is that its own session ids never carry the prefix of the manual rows; the ids users register are arbitrary.
\<close>

theorem approved_licence_is_verified:
  assumes "licence_step\<^sup>*\<^sup>* db db'" "ld_rows db = []" "distinct (map lu_id (ld_users db))" "r \<in> set (ld_rows db')"
  shows "(dl_status r = DL_APPROVED \<longrightarrow> (\<exists>v \<in> set (ld_users db'). lu_dlVerified v \<and>
      (if startsWith (dl_veriffSessionId r) manual_prefix then dl_veriffSessionId r = manualSessionId (lu_id v) else dl_userId r = lu_id v)))
    \<and> row_by_session (dl_veriffSessionId r) db' = Some r"
proof -
  have "licence_inv db" using assms(2,3) by (simp add: licence_inv_def)
  then have inv: "licence_inv db'" by (rule licence_steps_inv[OF assms(1)])
  then have ok: "row_ok (ld_users db') r" using assms(4) by (rule licence_invD(3))
  have "row_by_session (dl_veriffSessionId r) db' = Some r"
    using find_key_unique[OF licence_invD(2)[OF inv] assms(4)] by (simp add: row_by_session_def)
  then show ?thesis using ok holder_simps(1,3)[of r] unfolding row_ok_def by (metis (full_types))
qed

definition decision_body :: "jstext \<Rightarrow> string \<Rightarrow> (string \<times> jstext) list \<Rightarrow> json" where
  "decision_body s status entries = JObj [(units ''verification'', JObj ((units ''id'', JStr s) # (units ''status'', JStr (units status)) #
     map (\<lambda>(k, v). (units k, JStr v)) entries))]"

definition sample_licence_env :: licence_env where
  "sample_licence_env = \<lparr>le_now = 1000, le_newId = units ''r1'', le_unicode = \<lparr>uc_nfd = id, uc_lower = id, uc_upper = id, uc_parseDate = (\<lambda>_. None)\<rparr>,
     le_webhookSecret = Some (units ''secret''), le_sharedSecret = None, le_apiKey = None, le_callbackUrl = [],
     le_hmac = (\<lambda>k m. replicate 32 ((int (length k + length m) mod 256))), le_parseJson = (\<lambda>_. None), le_numberOf = (\<lambda>_. None), le_parseTime = (\<lambda>_. None),
     le_get = (\<lambda>_ _. None), le_newSession = (\<lambda>_. None)\<rparr>"

definition sample_licence_user :: "string \<Rightarrow> lic_user" where
  "sample_licence_user x = \<lparr>lu_id = units x, lu_firstName = None, lu_lastName = None, lu_email = None, lu_phone = None, lu_dob = None,
     lu_gender = None, lu_dlVerified = False, lu_stripeOnboardingComplete = False\<rparr>"

definition sample_licence_db :: lic_db where
  "sample_licence_db = \<lparr>ld_users = [sample_licence_user ''u1'', sample_licence_user ''u2''], ld_rows = [], ld_notices = []\<rparr>"

lemma decision_body_simps:
  "record_field ''verification'' (decision_body s st entries) = Some (JObj ((units ''id'', JStr s) # (units ''status'', JStr (units st)) #
     map (\<lambda>(k, v). (units k, JStr v)) entries))"
  by (simp add: decision_body_def record_field_def json_field_def isRecord_def)

lemma handle_decision_body:
  "s \<noteq> [] \<Longrightarrow> handleWebhookDecision env (decision_body s st entries) = handle_verification env (decision_body s st entries)
     (JObj ((units ''id'', JStr s) # (units ''status'', JStr (units st)) # map (\<lambda>(k, v). (units k, JStr v)) entries)) s"
  by (rule ext) (simp add: handleWebhookDecision_def decision_body_simps text_field_def json_field_def)

text \<open>An approval that names its user: what the row and the user become.\<close>

lemma js_trim_units [simp]: "js_trim (units ''u1'') = units ''u1''" "js_trim (units ''u2'') = units ''u2''"
  by (simp_all add: js_trim_def units_def js_space_def)

lemma units_not_empty [simp]: "units (c # cs) \<noteq> []" "[] \<noteq> units (c # cs)"
  by (simp_all add: units_def)

lemma map_status_simps [simp]:
  "map_status (units ''approved'') = Some DL_APPROVED" "map_status (units ''declined'') = Some DL_DECLINED"
  by (simp_all add: map_status_def)

lemma sample_manual [simp]: "\<not> startsWith (units ''s1'') manual_prefix"
  by (simp add: startsWith_def manual_prefix_def units_def)

lemma decision_body_ok: "\<not> startsWith s manual_prefix \<Longrightarrow> decision_ok (decision_body s st entries)"
  by (simp add: decision_ok_def decision_body_simps text_field_def json_field_def)

theorem approved_licence_is_verified_witness:
  "\<exists>db r. licence_step\<^sup>*\<^sup>* sample_licence_db db \<and> r \<in> set (ld_rows db) \<and> dl_status r = DL_APPROVED \<and>
     (\<exists>v \<in> set (ld_users db). lu_dlVerified v)"
proof -
  let ?b = "decision_body (units ''s1'') ''approved'' [(''vendorData'', units ''u1'')]"
  let ?db = "snd (handleWebhookDecision sample_licence_env ?b sample_licence_db)"
  have step: "licence_step\<^sup>*\<^sup>* sample_licence_db ?db"
    by (intro r_into_rtranclp ls_decision decision_body_ok sample_manual)
  have "\<exists>r. ld_rows ?db = [r] \<and> dl_status r = DL_APPROVED"
    by (simp add: handle_decision_body handle_verification_def Let_def text_field_def json_field_def text_or_empty_def run_andThen run_andDo
      whenM_def row_by_session_def lic_user_by_id_def sample_licence_db_def sample_licence_user_def create_row_def pending_row_def
      decision_code_def run_update_rows run_approve_user)
  then obtain r where r: "ld_rows ?db = [r]" "dl_status r = DL_APPROVED" by blast
  have "distinct (map lu_id (ld_users sample_licence_db))" "ld_rows sample_licence_db = []"
    by (simp_all add: sample_licence_db_def sample_licence_user_def)
  then have "\<exists>v \<in> set (ld_users ?db). lu_dlVerified v"
    using approved_licence_is_verified[OF step, of r] r by auto
  then show ?thesis using step r by (intro exI[of _ ?db] exI[of _ r]) simp
qed

subsection \<open>What the calls do not keep\<close>

text \<open>No decision of Veriff takes a licence away.\<close>

lemma flagged_True_keeps: "\<exists>v \<in> set us. lu_id v = y \<and> lu_dlVerified v \<Longrightarrow> \<exists>v \<in> set (flagged x True us). lu_id v = y \<and> lu_dlVerified v"
  using flagged_owner[of x True us y True] by auto

text \<open>
  C38. A decline that Veriff sends for a session it had approved moves the row to declined but leaves the driver marked as
  verified, so with no other approval he keeps the licence that was withdrawn.
\<close>

theorem declined_session_keeps_the_licence:
  assumes "row_by_session s db = Some r" "s \<noteq> []" "dl_userId r \<noteq> []"
    and "lic_user_by_id (dl_userId r) db = Some v" "lu_dlVerified v"
  shows "\<exists>db'. handleWebhookDecision env (decision_body s ''declined'' []) db = (Inr (Succeeded DL_DECLINED), db')
    \<and> map_option dl_status (row_by_session s db') = Some DL_DECLINED
    \<and> lic_user_by_id (dl_userId r) db' = Some v
    \<and> (\<forall>q \<in> set (ld_rows db'). dl_veriffSessionId q \<noteq> s \<longrightarrow> q \<in> set (ld_rows db))"
proof -
  let ?f = "decided (dl_userId r) DL_DECLINED None None (decision_body s ''declined'' [])
    (decision_facts_of env (Some v) None DL_DECLINED)"
  let ?db = "db\<lparr>ld_rows := updated_rows env (\<lambda>q. dl_veriffSessionId q = s) ?f (ld_rows db)\<rparr>"
  have run: "handleWebhookDecision env (decision_body s ''declined'' []) db = (Inr (Succeeded DL_DECLINED), ?db)"
    using assms(1-4)
    by (simp add: handle_decision_body handle_verification_def Let_def text_field_def json_field_def text_or_empty_def js_trim_def
      run_andThen run_andDo whenM_def decision_code_def run_update_rows)
  have row: "row_by_session s ?db = Some ((?f r)\<lparr>dl_updatedAt := le_now env\<rparr>)"
    using find_update_where[of "\<lambda>q. dl_veriffSessionId q = s" dl_veriffSessionId "\<lambda>q. (?f q)\<lparr>dl_updatedAt := le_now env\<rparr>" s "ld_rows db"]
      assms(1) row_found[OF assms(1)] by (simp add: row_by_session_def)
  have user: "lic_user_by_id (dl_userId r) ?db = Some v" using assms(4) by (simp add: lic_user_by_id_def)
  have others: "\<forall>q \<in> set (ld_rows ?db). dl_veriffSessionId q \<noteq> s \<longrightarrow> q \<in> set (ld_rows db)" by (auto simp: set_update_where)
  show ?thesis by (intro exI[of _ ?db] conjI run user others) (simp add: row)
qed

theorem declined_session_keeps_the_licence_witness:
  "\<exists>db db' v. handleWebhookDecision sample_licence_env (decision_body (units ''s1'') ''declined'' []) db = (Inr (Succeeded DL_DECLINED), db')
     \<and> lic_user_by_id (units ''u1'') db' = Some v \<and> lu_dlVerified v"
proof -
  let ?v = "(sample_licence_user ''u1'')\<lparr>lu_dlVerified := True\<rparr>"
  let ?r = "(pending_row sample_licence_env (units ''u1'') (units ''s1'') [])\<lparr>dl_status := DL_APPROVED\<rparr>"
  let ?db = "\<lparr>ld_users = [?v], ld_rows = [?r], ld_notices = []\<rparr>"
  have h: "row_by_session (units ''s1'') ?db = Some ?r" "units ''s1'' \<noteq> []" "dl_userId ?r \<noteq> []"
    "lic_user_by_id (dl_userId ?r) ?db = Some ?v" "lu_dlVerified ?v"
    by (simp_all add: row_by_session_def lic_user_by_id_def pending_row_def sample_licence_user_def)
  have u: "dl_userId ?r = units ''u1''" by (simp add: pending_row_def)
  from declined_session_keeps_the_licence[OF h, of sample_licence_env]
  obtain db' where "handleWebhookDecision sample_licence_env (decision_body (units ''s1'') ''declined'' []) ?db = (Inr (Succeeded DL_DECLINED), db')"
    "lic_user_by_id (units ''u1'') db' = Some ?v" unfolding u by blast
  then show ?thesis using h(5) by (intro exI[of _ ?db] exI[of _ db'] exI[of _ ?v] conjI)
qed

lemma register_new_session:
  assumes "\<not> hasApprovedVerification x db" "row_by_session s db = None" "lic_user_by_id x db \<noteq> None"
  shows "registerVeriffSession env (\<lambda>d. d) x s url db =
    (Inr (Succeeded (row_data (pending_row env x s url))), db\<lparr>ld_rows := ld_rows db @ [pending_row env x s url]\<rparr>)"
  using assms by (simp add: registerVeriffSession_def run_andThen run_andDo run_tryCatch create_row_def pending_row_def)

lemma submit_into_existing:
  assumes "lic_user_by_id y db = Some v" "\<not> lu_dlVerified v" "\<not> isVerifiedElsewhere y db" "row_by_session (manualSessionId y) db = Some r"
  shows "submitDlDocument env y k db = (Inr (),
    db\<lparr>ld_rows := updated_rows env (\<lambda>r. dl_veriffSessionId r = manualSessionId y) (submitted_fields k) (ld_rows db)\<rparr>)"
  using assms by (simp add: submitDlDocument_def run_andThen run_andDo run_update_rows)

text \<open>
  C31. The session to register is any text of at most a hundred characters, so a user can register the key of another
  user's manual row: the document the other one uploads then lands in the row of the first, and the second has no
  document on file although the upload succeeded.
\<close>

theorem registered_manual_key_takes_the_document:
  assumes "x \<noteq> y" "lic_user_by_id x db = Some a" "lic_user_by_id y db = Some v" "\<not> lu_dlVerified v" "ld_rows db = []"
  shows "\<exists>db' r. (submitDlDocument env y k \<circ> snd) (registerVeriffSession env (\<lambda>d. d) x (manualSessionId y) url db) = (Inr (), db')
    \<and> ld_rows db' = [r] \<and> dl_userId r = x \<and> dl_documentImageKey r = Some k \<and> \<not> hasDlDocumentOnFile y db'"
proof -
  let ?p = "pending_row env x (manualSessionId y) url"
  let ?db1 = "db\<lparr>ld_rows := [?p]\<rparr>"
  have 1: "snd (registerVeriffSession env (\<lambda>d. d) x (manualSessionId y) url db) = ?db1"
    using register_new_session[of x db "manualSessionId y" env url] assms(2,5)
    by (simp add: hasApprovedVerification_def row_by_session_def)
  have 2: "submitDlDocument env y k ?db1 = (Inr (), ?db1\<lparr>ld_rows := [(submitted_fields k ?p)\<lparr>dl_updatedAt := le_now env\<rparr>]\<rparr>)"
    using submit_into_existing[of y ?db1 v ?p env k] assms(3,4)
    by (simp add: lic_user_by_id_def row_by_session_def isVerifiedElsewhere_def pending_row_def)
  let ?r = "(submitted_fields k ?p)\<lparr>dl_updatedAt := le_now env\<rparr>"
  have r: "dl_userId ?r = x" "dl_documentImageKey ?r = Some k" by (simp_all add: submitted_fields_def pending_row_def)
  show ?thesis
    by (intro exI[of _ "?db1\<lparr>ld_rows := [?r]\<rparr>"] exI[of _ ?r] conjI r) (use assms(1) r in \<open>simp_all add: 1 2 hasDlDocumentOnFile_def\<close>)
qed

theorem registered_manual_key_takes_the_document_witness:
  "\<exists>db' r. (submitDlDocument sample_licence_env (units ''u2'') [7] \<circ> snd)
       (registerVeriffSession sample_licence_env (\<lambda>d. d) (units ''u1'') (manualSessionId (units ''u2'')) [] sample_licence_db) = (Inr (), db')
     \<and> ld_rows db' = [r] \<and> dl_userId r = units ''u1'' \<and> \<not> hasDlDocumentOnFile (units ''u2'') db'"
proof -
  have "units ''u1'' \<noteq> units ''u2''" "lic_user_by_id (units ''u1'') sample_licence_db = Some (sample_licence_user ''u1'')"
    "lic_user_by_id (units ''u2'') sample_licence_db = Some (sample_licence_user ''u2'')" "\<not> lu_dlVerified (sample_licence_user ''u2'')"
    "ld_rows sample_licence_db = []"
    by (simp_all add: sample_licence_db_def lic_user_by_id_def sample_licence_user_def)
  from registered_manual_key_takes_the_document[OF this, of sample_licence_env "[7]" "[]"] show ?thesis by blast
qed

subsection \<open>Signatures\<close>

lemma foldl_any:
  "foldl (\<lambda>matched s. let e = f s in if length p \<noteq> length e then matched else p = e \<or> matched) b ss \<longleftrightarrow> b \<or> (\<exists>s \<in> set ss. p = f s)"
  by (induction ss arbitrary: b) (auto simp: Let_def)

lemma webhook_secrets:
  "set (getVeriffWebhookSecrets env) = {s. s \<noteq> [] \<and> (s = js_trim (text_or_empty (le_webhookSecret env)) \<or> s = js_trim (text_or_empty (le_sharedSecret env)))}"
  by (auto simp: getVeriffWebhookSecrets_def)

text \<open>
  A webhook is accepted exactly when its signature is 64 hexadecimal digits of the HMAC of the payload under one of the
  secrets that are not blank; without a secret nothing is accepted.
\<close>

theorem webhook_signature_iff:
  "validateWebhookSignature env payload signature \<longleftrightarrow> is_hex_sha256 signature \<and>
     (\<exists>s. s \<noteq> [] \<and> (s = js_trim (text_or_empty (le_webhookSecret env)) \<or> s = js_trim (text_or_empty (le_sharedSecret env))) \<and>
       from_hex signature = le_hmac env s payload)"
proof -
  have "validateWebhookSignature env payload signature \<longleftrightarrow> getVeriffWebhookSecrets env \<noteq> [] \<and> is_hex_sha256 signature \<and>
    (\<exists>s \<in> set (getVeriffWebhookSecrets env). from_hex signature = le_hmac env s payload)"
    unfolding validateWebhookSignature_def Let_def using foldl_any[where p = "from_hex signature" and f = "\<lambda>s. le_hmac env s payload" and b = False]
    by (simp add: Let_def)
  then show ?thesis using webhook_secrets[of env] by (cases "getVeriffWebhookSecrets env = []") auto
qed

end
