(* ===== verification/Vehicles.thy ===== *)
theory Vehicles
  imports Licence_Review "HOL-Library.AList"
begin

text \<open>
  Vehicles and their documents: \<open>src/src/modules/vehicles\<close> (service, draft in Redis, review reset, document sources) and the
  administrator's review of a vehicle (\<open>src/src/modules/admin/admin.service.ts\<close>). Object storage and percent-decoding are
  parameters (\<open>storage_env\<close>); each call runs alone against the rows it finds.
\<close>

subsection \<open>Rows\<close>

datatype vehicle_type = SEDAN | HATCHBACK | SUV | MINIBUS | COUPE | CONVERTIBLE | PICKUP | VAN | TRUCK

datatype document_type = VEHICLE_IMAGE | VEHICLE_IMAGE_FRONT | VEHICLE_IMAGE_BACK | VEHICLE_DOCUMENT | DRIVING_LICENSE | INSURANCE_DOCUMENT

datatype review_status = VEHICLE_PENDING | VEHICLE_APPROVED | VEHICLE_REJECTED

record vehicle =
  ve_id :: jstext
  ve_userId :: jstext
  ve_licenseCountry :: jstext
  ve_licenseNumber :: jstext
  ve_brand :: "jstext option"
  ve_model_num :: "jstext option"
  ve_model_name :: "jstext option"
  ve_type :: "vehicle_type option"
  ve_color :: "jstext option"
  ve_year :: "int option"
  ve_imageUrl :: "jstext option"
  ve_imageKey :: "jstext option"
  ve_isVerified :: bool
  ve_deletedAt :: "time option"
  ve_verificationStatus :: review_status
  ve_rejectionReason :: "jstext option"
  ve_reviewedAt :: "time option"
  ve_reviewedById :: "jstext option"
  ve_documentIssueNotifiedAt :: "time option"
  ve_createdAt :: time

record vehicle_document =
  vd_id :: jstext
  vd_vehicleId :: jstext
  vd_image :: "jstext option"
  vd_imageKey :: "jstext option"
  vd_documentType :: document_type
  vd_storageMissingAt :: "time option"
  vd_storageCheckedAt :: "time option"
  vd_createdAt :: time

record draft_document =
  dd_documentType :: document_type
  dd_imageUrl :: "jstext option"
  dd_imageKey :: "jstext option"

record draft_vehicle =
  dv_userId :: jstext
  dv_step :: int
  dv_createdAt :: time
  dv_updatedAt :: time
  dv_licenseCountry :: "jstext option"
  dv_licenseNumber :: "jstext option"
  dv_brand :: "jstext option"
  dv_model_num :: "jstext option"
  dv_model_name :: "jstext option"
  dv_type :: "vehicle_type option"
  dv_color :: "jstext option"
  dv_year :: "int option"
  dv_documents :: "draft_document list"

text \<open>\<open>gd_drafts\<close> is the part of Redis under \<open>vehicleDraft:\<close>, with the time each key expires.\<close>

record garage_db =
  gd_licences :: lic_db
  gd_vehicles :: "vehicle list"
  gd_documents :: "vehicle_document list"
  gd_drafts :: "(jstext \<times> draft_vehicle \<times> time) list"
  gd_notices :: "(jstext \<times> string) list"

text \<open>
  \<open>se_head key\<close>: whether the object exists, \<open>None\<close> when storage cannot be asked; \<open>se_promote\<close>: whether a copy succeeds;
  \<open>se_decode\<close>: \<open>decodeURIComponent\<close>, \<open>None\<close> when it throws; \<open>se_newIds\<close>: the identifiers the database gives.
\<close>

record storage_env =
  se_now :: time
  se_newIds :: "nat \<Rightarrow> jstext"
  se_unicode :: unicode
  se_head :: "jstext \<Rightarrow> bool option"
  se_promote :: "jstext \<Rightarrow> jstext \<Rightarrow> bool"
  se_decode :: "jstext \<Rightarrow> jstext option"
  se_skipVerification :: bool

type_synonym 'a garage = "(garage_db, 'a) op"

definition own_vehicle :: "jstext \<Rightarrow> jstext \<Rightarrow> garage_db \<Rightarrow> vehicle option" where
  "own_vehicle userId vehicleId db =
     find (\<lambda>v. ve_id v = vehicleId \<and> ve_userId v = userId \<and> ve_deletedAt v = None) (gd_vehicles db)"

definition update_vehicle :: "jstext \<Rightarrow> (vehicle \<Rightarrow> vehicle) \<Rightarrow> unit garage" where
  "update_vehicle vehicleId f = modify (\<lambda>db. db\<lparr>gd_vehicles := update_where (\<lambda>v. ve_id v = vehicleId) f (gd_vehicles db)\<rparr>)"

definition live_count :: "jstext \<Rightarrow> garage_db \<Rightarrow> nat" where
  "live_count userId db = count_where (\<lambda>v. ve_userId v = userId \<and> ve_deletedAt v = None) (gd_vehicles db)"

subsection \<open>What an edit does to the review\<close>

datatype change_kind = LICENSE_PLATE | VEHICLE_DETAILS | KYC_DOCUMENT | PRIMARY_PHOTO

definition REVIEW_RESET :: "vehicle \<Rightarrow> vehicle" where
  "REVIEW_RESET v = v\<lparr>ve_isVerified := False, ve_verificationStatus := VEHICLE_PENDING, ve_rejectionReason := None,
     ve_reviewedAt := None, ve_reviewedById := None\<rparr>"

definition REQUEUE_APPROVED_ON_PHOTO_CHANGE :: bool where "REQUEUE_APPROVED_ON_PHOTO_CHANGE = False"

fun changeKindForDocumentType :: "document_type \<Rightarrow> change_kind" where
  "changeKindForDocumentType VEHICLE_IMAGE = PRIMARY_PHOTO"
| "changeKindForDocumentType VEHICLE_IMAGE_FRONT = PRIMARY_PHOTO"
| "changeKindForDocumentType VEHICLE_IMAGE_BACK = PRIMARY_PHOTO"
| "changeKindForDocumentType _ = KYC_DOCUMENT"

text \<open>The reset to apply, \<open>id\<close> for \<open>null\<close>.\<close>

definition buildReviewReset :: "review_status \<Rightarrow> change_kind \<Rightarrow> vehicle \<Rightarrow> vehicle" where
  "buildReviewReset current change =
     (if current = VEHICLE_REJECTED then REVIEW_RESET
      else if current = VEHICLE_PENDING then id
      else if change = PRIMARY_PHOTO \<and> \<not> REQUEUE_APPROVED_ON_PHOTO_CHANGE then id
      else REVIEW_RESET)"

subsection \<open>The vehicles of a driver\<close>

definition MAX_VEHICLES_PER_USER :: nat where "MAX_VEHICLES_PER_USER = 3"

definition new_vehicle :: "storage_env \<Rightarrow> jstext \<Rightarrow> jstext \<Rightarrow> jstext \<Rightarrow> vehicle" where
  "new_vehicle env userId licenseCountry licenseNumber = \<lparr>ve_id = se_newIds env 0, ve_userId = userId, ve_licenseCountry = licenseCountry,
     ve_licenseNumber = licenseNumber, ve_brand = None, ve_model_num = None, ve_model_name = None, ve_type = None, ve_color = None,
     ve_year = None, ve_imageUrl = None, ve_imageKey = None, ve_isVerified = False, ve_deletedAt = None,
     ve_verificationStatus = VEHICLE_PENDING, ve_rejectionReason = None, ve_reviewedAt = None, ve_reviewedById = None,
     ve_documentIssueNotifiedAt = None, ve_createdAt = se_now env\<rparr>"

definition createVehicle :: "storage_env \<Rightarrow> jstext \<Rightarrow> jstext \<Rightarrow> jstext \<Rightarrow> vehicle garage" where
  "createVehicle env userId licenseCountry licenseNumber =
     andThen (gets (live_count userId)) (\<lambda>n.
     andDo (ensure (\<not> MAX_VEHICLES_PER_USER \<le> n) (Err ''MAX_VEHICLE_LIMIT_REACHED''))
    (let v = new_vehicle env userId licenseCountry licenseNumber in
     andDo (modify (\<lambda>db. db\<lparr>gd_vehicles := gd_vehicles db @ [v]\<rparr>)) (ret v)))"

definition edit_vehicle :: "jstext \<Rightarrow> jstext \<Rightarrow> change_kind \<Rightarrow> (vehicle \<Rightarrow> vehicle) \<Rightarrow> unit garage" where
  "edit_vehicle userId vehicleId change f =
     andThen (gets (own_vehicle userId vehicleId)) (\<lambda>found.
     andThen (ofOption (Err ''VEHICLE_NOT_FOUND'') found) (\<lambda>v.
     update_vehicle vehicleId (buildReviewReset (ve_verificationStatus v) change \<circ> f)))"

definition updateCreateVehicle :: "jstext \<Rightarrow> jstext \<Rightarrow> jstext \<Rightarrow> jstext \<Rightarrow> unit garage" where
  "updateCreateVehicle userId vehicleId licenseCountry licenseNumber =
     edit_vehicle userId vehicleId LICENSE_PLATE (\<lambda>v. v\<lparr>ve_licenseCountry := licenseCountry, ve_licenseNumber := licenseNumber\<rparr>)"

record vehicle_details =
  vt_brand :: jstext
  vt_model_num :: jstext
  vt_model_name :: jstext
  vt_type :: vehicle_type
  vt_color :: jstext
  vt_year :: int

definition updateVehicleDetailService :: "jstext \<Rightarrow> jstext \<Rightarrow> vehicle_details \<Rightarrow> unit garage" where
  "updateVehicleDetailService userId vehicleId d = edit_vehicle userId vehicleId VEHICLE_DETAILS
     (\<lambda>v. v\<lparr>ve_brand := Some (vt_brand d), ve_model_num := Some (vt_model_num d), ve_model_name := Some (vt_model_name d),
        ve_type := Some (vt_type d), ve_color := Some (vt_color d), ve_year := Some (vt_year d)\<rparr>)"

text \<open>The image paths answer \<open>{ success, previousImageKey }\<close>; \<open>None\<close> is \<open>success: false\<close>.\<close>

definition updateVehicle :: "jstext \<Rightarrow> jstext \<Rightarrow> (vehicle \<Rightarrow> vehicle) \<Rightarrow> jstext option option garage" where
  "updateVehicle userId vehicleId update =
     andThen (gets (own_vehicle userId vehicleId)) (\<lambda>found.
     case found of None \<Rightarrow> ret None
     | Some v \<Rightarrow> andDo (update_vehicle vehicleId (buildReviewReset (ve_verificationStatus v) PRIMARY_PHOTO \<circ> update)) (ret (Some (ve_imageKey v))))"

definition clearVehicleImage :: "jstext \<Rightarrow> jstext \<Rightarrow> jstext option option garage" where
  "clearVehicleImage userId vehicleId =
     andThen (gets (own_vehicle userId vehicleId)) (\<lambda>found.
     case found of None \<Rightarrow> ret None
     | Some v \<Rightarrow> andDo (update_vehicle vehicleId (\<lambda>v. v\<lparr>ve_imageUrl := None, ve_imageKey := None\<rparr>)) (ret (Some (ve_imageKey v))))"

definition userOwnsVehicle :: "jstext \<Rightarrow> jstext \<Rightarrow> garage_db \<Rightarrow> bool" where
  "userOwnsVehicle userId vehicleId db \<longleftrightarrow> own_vehicle userId vehicleId db \<noteq> None"

definition findVehicleDocumentByKey :: "jstext \<Rightarrow> jstext \<Rightarrow> jstext \<Rightarrow> garage_db \<Rightarrow> vehicle_document option" where
  "findVehicleDocumentByKey userId vehicleId imageKey db =
     find (\<lambda>d. vd_imageKey d = Some imageKey \<and> vd_vehicleId d = vehicleId \<and> own_vehicle userId vehicleId db \<noteq> None) (gd_documents db)"

definition deleteVehicleDocument :: "jstext \<Rightarrow> jstext \<Rightarrow> jstext \<Rightarrow> vehicle_document option garage" where
  "deleteVehicleDocument userId vehicleId imageKey =
     andThen (gets (findVehicleDocumentByKey userId vehicleId imageKey)) (\<lambda>found.
     case found of None \<Rightarrow> ret None
     | Some doc \<Rightarrow>
        andThen (gets (own_vehicle userId vehicleId)) (\<lambda>vehicle.
        andDo (modify (\<lambda>db. db\<lparr>gd_documents := filter (\<lambda>d. vd_id d \<noteq> vd_id doc) (gd_documents db)\<rparr>))
       (andDo (case vehicle of None \<Rightarrow> ret ()
               | Some v \<Rightarrow> update_vehicle vehicleId (buildReviewReset (ve_verificationStatus v) (changeKindForDocumentType (vd_documentType doc))))
         (ret (Some doc)))))"

definition addVehicleDocument :: "storage_env \<Rightarrow> jstext \<Rightarrow> jstext \<Rightarrow> jstext \<Rightarrow> jstext option \<Rightarrow> document_type \<Rightarrow> vehicle_document garage" where
  "addVehicleDocument env userId vehicleId imageKey imageUrl documentType =
     andThen (gets (own_vehicle userId vehicleId)) (\<lambda>found.
     andThen (ofOption (Err ''VEHICLE_NOT_FOUND'') found) (\<lambda>v.
     andThen (gets (\<lambda>db. find (\<lambda>d. vd_vehicleId d = vehicleId \<and> vd_imageKey d = Some imageKey) (gd_documents db))) (\<lambda>existing.
     case existing of Some d \<Rightarrow> ret d
     | None \<Rightarrow>
        let doc = \<lparr>vd_id = se_newIds env 0, vd_vehicleId = vehicleId, vd_image = imageUrl, vd_imageKey = Some imageKey,
              vd_documentType = documentType, vd_storageMissingAt = None, vd_storageCheckedAt = None, vd_createdAt = se_now env\<rparr> in
        andDo (modify (\<lambda>db. db\<lparr>gd_documents := filter (\<lambda>d. \<not> (vd_vehicleId d = vehicleId \<and> vd_documentType d = documentType)) (gd_documents db) @ [doc]\<rparr>))
       (andDo (update_vehicle vehicleId (buildReviewReset (ve_verificationStatus v) (changeKindForDocumentType documentType)))
         (ret doc)))))"

definition deleteVehicle :: "storage_env \<Rightarrow> jstext \<Rightarrow> jstext \<Rightarrow> unit garage" where
  "deleteVehicle env userId vehicleId =
     andThen (gets (own_vehicle userId vehicleId)) (\<lambda>found.
     andDo (ensure (found \<noteq> None) (Err ''VEHICLE_NOT_FOUND''))
       (update_vehicle vehicleId (\<lambda>v. v\<lparr>ve_deletedAt := Some (se_now env)\<rparr>)))"

subsection \<open>The administrator\<close>

definition review_vehicle :: "storage_env \<Rightarrow> jstext \<Rightarrow> review_status \<Rightarrow> jstext option \<Rightarrow> jstext option \<Rightarrow> string \<Rightarrow> unit garage" where
  "review_vehicle env vehicleId status reason reviewedById notice =
     andThen (gets (\<lambda>db. find (\<lambda>v. ve_id v = vehicleId) (gd_vehicles db))) (\<lambda>found.
     andThen (ofOption (Err ''VEHICLE_NOT_FOUND'') found) (\<lambda>vehicle.
     andDo (update_vehicle vehicleId (\<lambda>v. v\<lparr>ve_isVerified := (status = VEHICLE_APPROVED), ve_verificationStatus := status,
        ve_rejectionReason := reason, ve_reviewedAt := Some (se_now env), ve_reviewedById := reviewedById\<rparr>))
       (modify (\<lambda>db. db\<lparr>gd_notices := gd_notices db @ [(ve_userId vehicle, notice)]\<rparr>))))"

definition verifyVehicle :: "storage_env \<Rightarrow> jstext \<Rightarrow> jstext option \<Rightarrow> unit garage" where
  "verifyVehicle env vehicleId reviewedById = review_vehicle env vehicleId VEHICLE_APPROVED None reviewedById ''vehicle.approved''"

definition rejectVehicle :: "storage_env \<Rightarrow> jstext \<Rightarrow> jstext \<Rightarrow> jstext option \<Rightarrow> unit garage" where
  "rejectVehicle env vehicleId reason reviewedById = review_vehicle env vehicleId VEHICLE_REJECTED (Some reason) reviewedById ''vehicle.rejected''"

subsection \<open>Where a document is kept\<close>

definition PRIVATE_DOCUMENT_TYPES :: "document_type list" where
  "PRIVATE_DOCUMENT_TYPES = [DRIVING_LICENSE, INSURANCE_DOCUMENT, VEHICLE_DOCUMENT]"

definition isPrivateDocumentType :: "document_type \<Rightarrow> bool" where
  "isPrivateDocumentType t \<longleftrightarrow> t \<in> set PRIVATE_DOCUMENT_TYPES"

definition PRIMARY_IMAGE_DOCUMENT_TYPES :: "document_type list" where
  "PRIMARY_IMAGE_DOCUMENT_TYPES = [VEHICLE_IMAGE, VEHICLE_IMAGE_FRONT]"

definition isPrimaryImageDocumentType :: "document_type \<Rightarrow> bool" where
  "isPrimaryImageDocumentType t \<longleftrightarrow> t \<in> set PRIMARY_IMAGE_DOCUMENT_TYPES"

text \<open>\<open>split('/')\<close>, here on any code unit.\<close>

fun split_at :: "int \<Rightarrow> jstext \<Rightarrow> jstext list" where
  "split_at c [] = [[]]"
| "split_at c (x # xs) = (if x = c then [] # split_at c xs else (case split_at c xs of [] \<Rightarrow> [[x]] | p # ps \<Rightarrow> (x # p) # ps))"

text \<open>\<open>s.slice(s.indexOf(p))\<close>, \<open>None\<close> when the index is -1.\<close>

fun from_first :: "jstext \<Rightarrow> jstext \<Rightarrow> jstext option" where
  "from_first p s = (if startsWith s p then Some s else (case s of [] \<Rightarrow> None | _ # r \<Rightarrow> from_first p r))"

definition PERMANENT_PREFIX :: jstext where "PERMANENT_PREFIX = units ''uploads''"

definition PRIVATE_FOLDER :: jstext where "PRIVATE_FOLDER = units ''vehicle-documents''"

definition keyFromPublicUrl :: "storage_env \<Rightarrow> jstext \<Rightarrow> jstext option" where
  "keyFromPublicUrl env url =
     (case from_first ([47] @ PERMANENT_PREFIX @ [47]) url of
        None \<Rightarrow> None
      | Some r \<Rightarrow> let raw = hd (split_at 63 (drop 1 r)) in
          Some (case se_decode env raw of Some k \<Rightarrow> k | None \<Rightarrow> raw))"

definition isPrivateKey :: "jstext \<Rightarrow> bool" where
  "isPrivateKey key \<longleftrightarrow> (case split_at 47 key of a # b # _ \<Rightarrow> b = PRIVATE_FOLDER \<and> a = PERMANENT_PREFIX | _ \<Rightarrow> False)"

definition buildPrivateKey :: "jstext \<Rightarrow> jstext \<Rightarrow> jstext" where
  "buildPrivateKey ownerId sourceKey =
     join_with [47] [PERMANENT_PREFIX, PRIVATE_FOLDER, ownerId, last (split_at 47 sourceKey)]"

text \<open>The source to persist: image url and image key.\<close>

definition normalizeDocumentSource ::
  "storage_env \<Rightarrow> jstext \<Rightarrow> document_type \<Rightarrow> jstext option \<times> jstext option \<Rightarrow> error + (jstext option \<times> jstext option)" where
  "normalizeDocumentSource env ownerId documentType source =
     (let (imageUrl, imageKey) = source in
      if \<not> isPrivateDocumentType documentType then Inr (imageUrl, None) else
      let currentKey = (case imageKey of Some k \<Rightarrow> Some k
            | None \<Rightarrow> if no_text imageUrl then None else keyFromPublicUrl env (the imageUrl)) in
      if no_text currentKey then Inl (Err ''PRIVATE_DOCUMENT_KEY_UNRESOLVED'')
      else if isPrivateKey (the currentKey) then Inr (None, currentKey)
      else let privateKey = buildPrivateKey ownerId (the currentKey) in
        if se_promote env (the currentKey) privateKey then Inr (None, Some privateKey)
        else Inl (Err ''PRIVATE_DOCUMENT_REKEY_FAILED''))"

subsection \<open>The draft\<close>

definition DRAFT_TTL :: int where "DRAFT_TTL = 30 * 60"

definition DRAFT_NOT_FOUND :: error where "DRAFT_NOT_FOUND = Err ''DRAFT_NOT_FOUND''"

definition live_draft :: "storage_env \<Rightarrow> jstext \<Rightarrow> garage_db \<Rightarrow> draft_vehicle option" where
  "live_draft env userId db = (case map_of (gd_drafts db) userId of
     None \<Rightarrow> None | Some (d, expiry) \<Rightarrow> if se_now env < expiry then Some d else None)"

definition getDraft :: "storage_env \<Rightarrow> jstext \<Rightarrow> draft_vehicle garage" where
  "getDraft env userId = andThen (gets (live_draft env userId)) (ofOption DRAFT_NOT_FOUND)"

definition getActiveDraft :: "storage_env \<Rightarrow> jstext \<Rightarrow> draft_vehicle option garage" where
  "getActiveDraft env userId = tryCatch (andThen (getDraft env userId) (\<lambda>d. ret (Some d)))
     (\<lambda>e. if e = DRAFT_NOT_FOUND then ret None else throw e)"

definition drop_draft :: "jstext \<Rightarrow> unit garage" where
  "drop_draft userId = modify (\<lambda>db. db\<lparr>gd_drafts := filter (\<lambda>(k, _). k \<noteq> userId) (gd_drafts db)\<rparr>)"

definition saveDraft :: "storage_env \<Rightarrow> draft_vehicle \<Rightarrow> draft_vehicle garage" where
  "saveDraft env draft =
     (let d = draft\<lparr>dv_updatedAt := se_now env\<rparr> in
      andDo (modify (\<lambda>db. db\<lparr>gd_drafts := AList.update (dv_userId d) (d, se_now env + DRAFT_TTL * 1000) (gd_drafts db)\<rparr>)) (ret d))"

definition createWithLicense :: "storage_env \<Rightarrow> jstext \<Rightarrow> jstext \<Rightarrow> jstext \<Rightarrow> draft_vehicle garage" where
  "createWithLicense env userId licenseCountry licenseNumber =
     andDo (drop_draft userId)
       (saveDraft env \<lparr>dv_userId = userId, dv_step = 1, dv_createdAt = se_now env, dv_updatedAt = se_now env,
          dv_licenseCountry = Some licenseCountry, dv_licenseNumber = Some licenseNumber, dv_brand = None, dv_model_num = None,
          dv_model_name = None, dv_type = None, dv_color = None, dv_year = None, dv_documents = []\<rparr>)"

definition updateVehicleDetails :: "storage_env \<Rightarrow> jstext \<Rightarrow> vehicle_details \<Rightarrow> draft_vehicle garage" where
  "updateVehicleDetails env userId i =
     andThen (getDraft env userId) (\<lambda>draft.
     saveDraft env (draft\<lparr>dv_brand := Some (vt_brand i), dv_model_num := Some (vt_model_num i), dv_model_name := Some (vt_model_name i),
       dv_type := Some (vt_type i), dv_color := Some (vt_color i), dv_year := Some (vt_year i), dv_step := max (dv_step draft) 2\<rparr>))"

text \<open>Replace the first document of the type, otherwise append.\<close>

fun put_document :: "draft_document \<Rightarrow> draft_document list \<Rightarrow> draft_document list" where
  "put_document doc [] = [doc]"
| "put_document doc (d # ds) = (if dd_documentType d = dd_documentType doc then doc # ds else d # put_document doc ds)"

definition addDocument :: "storage_env \<Rightarrow> jstext \<Rightarrow> document_type \<Rightarrow> jstext option \<times> jstext option \<Rightarrow> draft_vehicle garage" where
  "addDocument env userId documentType source =
     andThen (getDraft env userId) (\<lambda>draft.
     saveDraft env (draft\<lparr>dv_documents := put_document
       \<lparr>dd_documentType = documentType, dd_imageUrl = fst source, dd_imageKey = snd source\<rparr> (dv_documents draft),
       dv_step := max (dv_step draft) 3\<rparr>))"

text \<open>The upload handler normalises the source first.\<close>

definition uploadDocument :: "storage_env \<Rightarrow> jstext \<Rightarrow> document_type \<Rightarrow> jstext option \<times> jstext option \<Rightarrow> draft_vehicle garage" where
  "uploadDocument env userId documentType source =
     andThen (ofSum (normalizeDocumentSource env userId documentType source)) (addDocument env userId documentType)"

subsection \<open>Saving the draft\<close>

definition DOCUMENT_REQUIRED_COUNTRIES :: "jstext list" where "DOCUMENT_REQUIRED_COUNTRIES = [units ''EE'']"

definition requiresFullDocumentSet :: "unicode \<Rightarrow> jstext \<Rightarrow> bool" where
  "requiresFullDocumentSet u licenseCountry \<longleftrightarrow> uc_upper u (js_trim licenseCountry) \<in> set DOCUMENT_REQUIRED_COUNTRIES"

definition REQUIRED_DOCUMENT_TYPES :: "document_type list" where
  "REQUIRED_DOCUMENT_TYPES = [VEHICLE_IMAGE_FRONT, VEHICLE_IMAGE_BACK, VEHICLE_DOCUMENT, INSURANCE_DOCUMENT]"

definition draft_document_key :: "storage_env \<Rightarrow> draft_document \<Rightarrow> jstext option" where
  "draft_document_key env d = (if \<not> no_text (dd_imageKey d) then dd_imageKey d
     else if no_text (dd_imageUrl d) then None else keyFromPublicUrl env (the (dd_imageUrl d)))"

text \<open>Only a definitive absence counts: without a key, or when storage cannot be asked, the document passes.\<close>

definition findMissingDocumentObjects :: "storage_env \<Rightarrow> draft_document list \<Rightarrow> document_type list" where
  "findMissingDocumentObjects env docs = map dd_documentType (filter (\<lambda>d.
     (let key = draft_document_key env d in \<not> no_text key \<and> se_head env (the key) = Some False)) docs)"

fun document_type_name :: "document_type \<Rightarrow> string" where
  "document_type_name VEHICLE_IMAGE = ''VEHICLE_IMAGE''"
| "document_type_name VEHICLE_IMAGE_FRONT = ''VEHICLE_IMAGE_FRONT''"
| "document_type_name VEHICLE_IMAGE_BACK = ''VEHICLE_IMAGE_BACK''"
| "document_type_name VEHICLE_DOCUMENT = ''VEHICLE_DOCUMENT''"
| "document_type_name DRIVING_LICENSE = ''DRIVING_LICENSE''"
| "document_type_name INSURANCE_DOCUMENT = ''INSURANCE_DOCUMENT''"

text \<open>An error that lists document types: \<open>code:A,B\<close>.\<close>

definition listing_error :: "string \<Rightarrow> document_type list \<Rightarrow> error" where
  "listing_error code types = Err (code @ '':'' @ join_with '','' (map document_type_name types))"

definition check_full_set :: "storage_env \<Rightarrow> jstext \<Rightarrow> lic_user \<Rightarrow> draft_vehicle \<Rightarrow> unit garage" where
  "check_full_set env userId user draft =
     (if \<not> requiresFullDocumentSet (se_unicode env) (text_or_empty (dv_licenseCountry draft)) then ret () else
      andDo (let missing = filter (\<lambda>t. t \<notin> dd_documentType ` set (dv_documents draft)) REQUIRED_DOCUMENT_TYPES in
        ensure (missing = []) (listing_error ''VEHICLE_DOCUMENTS_REQUIRED'' missing))
     (andThen (gets (\<lambda>db. hasDlDocumentOnFile userId (gd_licences db))) (\<lambda>onFile.
      ensure (lu_dlVerified user \<or> onFile) (Err ''DL_DOCUMENT_REQUIRED''))))"

definition main_image :: "draft_document list \<Rightarrow> jstext option" where
  "main_image docs = (case find (\<lambda>d. isPrimaryImageDocumentType (dd_documentType d)) docs of
     None \<Rightarrow> None | Some d \<Rightarrow> if no_text (dd_imageUrl d) then None else dd_imageUrl d)"

definition saved_vehicle :: "storage_env \<Rightarrow> jstext \<Rightarrow> draft_vehicle \<Rightarrow> vehicle" where
  "saved_vehicle env userId draft =
     (let orNull = (\<lambda>x. if no_text x then None else x) in
      (new_vehicle env userId (text_or_empty (dv_licenseCountry draft)) (text_or_empty (dv_licenseNumber draft)))
       \<lparr>ve_brand := orNull (dv_brand draft), ve_model_num := orNull (dv_model_num draft), ve_model_name := orNull (dv_model_name draft),
        ve_type := dv_type draft, ve_color := orNull (dv_color draft), ve_year := (if dv_year draft = Some 0 then None else dv_year draft),
        ve_imageUrl := main_image (dv_documents draft), ve_isVerified := se_skipVerification env,
        ve_verificationStatus := (if se_skipVerification env then VEHICLE_APPROVED else VEHICLE_PENDING),
        ve_reviewedAt := (if se_skipVerification env then Some (se_now env) else None)\<rparr>)"

definition saved_documents :: "storage_env \<Rightarrow> jstext \<Rightarrow> draft_document list \<Rightarrow> vehicle_document list" where
  "saved_documents env vehicleId docs =
     (let kept = filter (\<lambda>d. \<not> isPrimaryImageDocumentType (dd_documentType d)) docs in
      map (\<lambda>(i, d). \<lparr>vd_id = se_newIds env (i + 1), vd_vehicleId = vehicleId,
         vd_image = (if isPrivateDocumentType (dd_documentType d) then None else dd_imageUrl d), vd_imageKey = dd_imageKey d,
         vd_documentType = dd_documentType d, vd_storageMissingAt = None, vd_storageCheckedAt = None, vd_createdAt = se_now env\<rparr>)
       (zip [0..<length kept] kept))"

definition saveVehicle :: "storage_env \<Rightarrow> jstext \<Rightarrow> vehicle garage" where
  "saveVehicle env userId =
     andThen (getDraft env userId) (\<lambda>draft.
     andDo (ensure (\<not> no_text (dv_licenseCountry draft) \<and> \<not> no_text (dv_licenseNumber draft)) (Err ''LICENSE_REQUIRED''))
    (andThen (gets (\<lambda>db. lic_user_by_id userId (gd_licences db))) (\<lambda>found.
     andThen (ofOption (Err ''USER_NOT_FOUND'') found) (\<lambda>user.
     andThen (gets (live_count userId)) (\<lambda>n.
     andDo (ensure (\<not> MAX_VEHICLES_PER_USER \<le> n) (Err ''MAX_VEHICLE_LIMIT_REACHED''))
    (andDo (check_full_set env userId user draft)
    (andDo (let missing = findMissingDocumentObjects env (dv_documents draft) in
       ensure (missing = []) (listing_error ''VEHICLE_DOCUMENT_MISSING'' missing))
    (let v = saved_vehicle env userId draft in
     andDo (modify (\<lambda>db. db\<lparr>gd_vehicles := gd_vehicles db @ [v],
        gd_documents := gd_documents db @ saved_documents env (ve_id v) (dv_documents draft)\<rparr>))
    (andDo (drop_draft userId) (ret v))))))))))"

end
