(* ===== verification/Vehicle_Trail.thy ===== *)
theory Vehicle_Trail
  imports Vehicles
begin

text \<open>
  What the vehicle calls keep: the flag follows the review status, a driver has at most three vehicles, private documents
  have no public address, and nothing a driver does leaves a vehicle approved with other contents than were reviewed.
\<close>

subsection \<open>The invariant\<close>

abbreviation approved :: "vehicle \<Rightarrow> bool" where "approved v \<equiv> ve_verificationStatus v = VEHICLE_APPROVED"

definition vehicle_ok :: "vehicle \<Rightarrow> bool" where "vehicle_ok v \<longleftrightarrow> ve_isVerified v = approved v"

definition document_ok :: "jstext set \<Rightarrow> vehicle_document \<Rightarrow> bool" where
  "document_ok ids d \<longleftrightarrow> vd_vehicleId d \<in> ids \<and> (isPrivateDocumentType (vd_documentType d) \<longrightarrow> vd_image d = None)"

definition garage_inv :: "garage_db \<Rightarrow> bool" where
  "garage_inv db \<longleftrightarrow> distinct (map ve_id (gd_vehicles db)) \<and> distinct (map vd_id (gd_documents db)) \<and>
     list_all vehicle_ok (gd_vehicles db) \<and> list_all (document_ok (ve_id ` set (gd_vehicles db))) (gd_documents db) \<and>
     (\<forall>u. live_count u db \<le> MAX_VEHICLES_PER_USER)"

lemma garage_invD:
  assumes "garage_inv db"
  shows "distinct (map ve_id (gd_vehicles db))" "distinct (map vd_id (gd_documents db))"
    "v \<in> set (gd_vehicles db) \<Longrightarrow> vehicle_ok v" "d \<in> set (gd_documents db) \<Longrightarrow> document_ok (ve_id ` set (gd_vehicles db)) d"
    "live_count u db \<le> MAX_VEHICLES_PER_USER"
  using assms by (simp_all add: garage_inv_def list_all_iff)

lemma garage_inv_other [simp]:
  "garage_inv (db\<lparr>gd_drafts := x\<rparr>) = garage_inv db" "garage_inv (db\<lparr>gd_notices := y\<rparr>) = garage_inv db"
  "garage_inv (db\<lparr>gd_licences := z\<rparr>) = garage_inv db"
  by (simp_all add: garage_inv_def live_count_def)

abbreviation changed :: "jstext \<Rightarrow> (vehicle \<Rightarrow> vehicle) \<Rightarrow> vehicle list \<Rightarrow> vehicle list" where
  "changed x f vs \<equiv> update_where (\<lambda>v. ve_id v = x) f vs"

lemma run_update_vehicle: "update_vehicle x f db = (Inr (), db\<lparr>gd_vehicles := changed x f (gd_vehicles db)\<rparr>)"
  by (simp add: update_vehicle_def)

text \<open>An update of one vehicle that keeps its identity and its owner, and does not revive it.\<close>

definition tame :: "(vehicle \<Rightarrow> vehicle) \<Rightarrow> bool" where
  "tame f \<longleftrightarrow> (\<forall>v. ve_id (f v) = ve_id v \<and> ve_userId (f v) = ve_userId v \<and> (ve_deletedAt (f v) = None \<longrightarrow> ve_deletedAt v = None) \<and>
     (vehicle_ok v \<longrightarrow> vehicle_ok (f v)))"

lemma count_where_mono: "(\<And>x. x \<in> set xs \<Longrightarrow> p (f x) \<Longrightarrow> p x) \<Longrightarrow> count_where p (map f xs) \<le> count_where p xs"
  by (induction xs) (auto simp: count_where_def)

lemma changed_ids: "tame f \<Longrightarrow> map ve_id (changed x f vs) = map ve_id vs"
  by (rule map_update_where) (simp add: tame_def)

lemma changed_id_set: "tame f \<Longrightarrow> ve_id ` set (changed x f vs) = ve_id ` set vs"
  by (metis changed_ids list.set_map)

lemma inv_changed:
  assumes inv: "garage_inv db" and f: "tame f"
  shows "garage_inv (db\<lparr>gd_vehicles := changed x f (gd_vehicles db)\<rparr>)"
proof -
  have "live_count u (db\<lparr>gd_vehicles := changed x f (gd_vehicles db)\<rparr>) \<le> live_count u db" for u
    unfolding live_count_def update_where_def using f by (auto intro!: count_where_mono simp: tame_def split: if_splits)
  then have "live_count u (db\<lparr>gd_vehicles := changed x f (gd_vehicles db)\<rparr>) \<le> MAX_VEHICLES_PER_USER" for u
    using garage_invD(5)[OF inv, of u] by (rule le_trans)
  moreover have "list_all vehicle_ok (changed x f (gd_vehicles db))"
    using f garage_invD(3)[OF inv] by (auto simp: list_all_iff set_update_where tame_def)
  ultimately show ?thesis using inv by (simp add: garage_inv_def changed_ids[OF f] changed_id_set[OF f])
qed

lemma tame_reset [simp]: "tame (buildReviewReset st k)"
  by (simp add: tame_def buildReviewReset_def REVIEW_RESET_def vehicle_ok_def)

lemma tameD:
  assumes "tame f"
  shows "ve_id (f v) = ve_id v" "ve_userId (f v) = ve_userId v" "ve_deletedAt (f v) = None \<Longrightarrow> ve_deletedAt v = None"
    "vehicle_ok v \<Longrightarrow> vehicle_ok (f v)"
  using assms unfolding tame_def by blast+

lemma tame_comp: "tame f \<Longrightarrow> tame g \<Longrightarrow> tame (f \<circ> g)"
  unfolding tame_def[of "f \<circ> g"] comp_apply by (intro allI conjI impI) (simp_all add: tameD(1,2), (blast dest: tameD(3,4))+)

lemma inv_more_documents:
  assumes "garage_inv db" "distinct (map vd_id ds)" "\<And>d. d \<in> set ds \<Longrightarrow> document_ok (ve_id ` set (gd_vehicles db)) d"
  shows "garage_inv (db\<lparr>gd_documents := ds\<rparr>)"
  using assms by (simp add: garage_inv_def list_all_iff live_count_def)

lemma inv_new_vehicle:
  assumes inv: "garage_inv db" and v: "ve_id v \<notin> ve_id ` set (gd_vehicles db)" "vehicle_ok v" "live_count (ve_userId v) db < MAX_VEHICLES_PER_USER"
  shows "garage_inv (db\<lparr>gd_vehicles := gd_vehicles db @ [v]\<rparr>)"
proof -
  have "live_count u (db\<lparr>gd_vehicles := gd_vehicles db @ [v]\<rparr>) \<le> MAX_VEHICLES_PER_USER" for u
    using garage_invD(5)[OF inv, of u] v(3) by (auto simp: live_count_def count_where_def)
  moreover have "document_ok (insert i ids) d" if "document_ok ids d" for i ids d using that by (simp add: document_ok_def)
  ultimately show ?thesis using inv v by (auto simp: garage_inv_def list_all_iff)
qed

subsection \<open>What was reviewed\<close>

definition reviewed :: "vehicle \<Rightarrow> jstext \<times> jstext \<times> jstext option \<times> jstext option \<times> jstext option \<times> vehicle_type option \<times> jstext option \<times> int option" where
  "reviewed v = (ve_licenseCountry v, ve_licenseNumber v, ve_brand v, ve_model_num v, ve_model_name v, ve_type v, ve_color v, ve_year v)"

definition kyc_documents :: "jstext \<Rightarrow> garage_db \<Rightarrow> vehicle_document list" where
  "kyc_documents x db = filter (\<lambda>d. vd_vehicleId d = x \<and> changeKindForDocumentType (vd_documentType d) = KYC_DOCUMENT) (gd_documents db)"

text \<open>Every vehicle approved afterwards was approved before, with the same contents.\<close>

definition keeps_reviewed :: "garage_db \<Rightarrow> garage_db \<Rightarrow> bool" where
  "keeps_reviewed db db' \<longleftrightarrow> (\<forall>v' \<in> set (gd_vehicles db'). approved v' \<longrightarrow>
     (\<exists>v \<in> set (gd_vehicles db). ve_id v = ve_id v' \<and> approved v \<and> reviewed v = reviewed v' \<and>
        kyc_documents (ve_id v') db = kyc_documents (ve_id v') db'))"

lemma keeps_reviewed_refl [simp]: "keeps_reviewed db db"
  by (auto simp: keeps_reviewed_def)

lemma keeps_reviewed_trans:
  assumes "keeps_reviewed a b" "keeps_reviewed b c" shows "keeps_reviewed a c"
  unfolding keeps_reviewed_def
proof (intro ballI impI)
  fix w assume "w \<in> set (gd_vehicles c)" "approved w"
  then obtain v where v: "v \<in> set (gd_vehicles b)" "ve_id v = ve_id w" "approved v" "reviewed v = reviewed w"
    "kyc_documents (ve_id w) b = kyc_documents (ve_id w) c" using assms(2) unfolding keeps_reviewed_def by blast
  then obtain u where "u \<in> set (gd_vehicles a)" "ve_id u = ve_id v" "approved u" "reviewed u = reviewed v"
    "kyc_documents (ve_id v) a = kyc_documents (ve_id v) b" using assms(1) unfolding keeps_reviewed_def by blast
  then show "\<exists>u \<in> set (gd_vehicles a). ve_id u = ve_id w \<and> approved u \<and> reviewed u = reviewed w \<and>
      kyc_documents (ve_id w) a = kyc_documents (ve_id w) c"
    using v by (intro bexI[of _ u]) simp_all
qed

lemma keeps_reviewed_same:
  "gd_vehicles db' = gd_vehicles db \<Longrightarrow> gd_documents db' = gd_documents db \<Longrightarrow> keeps_reviewed db db'"
  by (auto simp: keeps_reviewed_def kyc_documents_def)

lemma keeps_reviewed_changed:
  assumes f: "tame f"
    and v: "\<And>v. v \<in> set (gd_vehicles db) \<Longrightarrow> ve_id v = x \<Longrightarrow> approved (f v) \<Longrightarrow> approved v \<and> reviewed (f v) = reviewed v \<and> kyc_documents x db' = kyc_documents x db"
    and db': "gd_vehicles db' = changed x f (gd_vehicles db)"
    and others: "\<And>y. y \<noteq> x \<Longrightarrow> kyc_documents y db' = kyc_documents y db"
  shows "keeps_reviewed db db'"
  unfolding keeps_reviewed_def db'
proof (intro ballI impI)
  fix w assume "w \<in> set (changed x f (gd_vehicles db))" and a: "approved w"
  then obtain u where u: "u \<in> set (gd_vehicles db)" "w = (if ve_id u = x then f u else u)" by (auto simp: set_update_where)
  show "\<exists>v \<in> set (gd_vehicles db). ve_id v = ve_id w \<and> approved v \<and> reviewed v = reviewed w \<and> kyc_documents (ve_id w) db = kyc_documents (ve_id w) db'"
  proof (cases "ve_id u = x")
    case True
    then have "ve_id w = x" using u(2) f by (simp add: tame_def)
    then show ?thesis using v[OF u(1) True] a u True by (intro bexI[of _ u]) simp_all
  next
    case False
    then show ?thesis using others[OF False] a u by (intro bexI[of _ u]) simp_all
  qed
qed

subsection \<open>The driver's calls\<close>

abbreviation good_step :: "garage_db \<Rightarrow> garage_db \<Rightarrow> bool" where
  "good_step db db' \<equiv> garage_inv db' \<and> keeps_reviewed db db'"

lemma own_vehicleD: "own_vehicle u x db = Some v \<Longrightarrow> v \<in> set (gd_vehicles db) \<and> ve_id v = x \<and> ve_userId v = u \<and> ve_deletedAt v = None"
  unfolding own_vehicle_def by (drule find_Some_mem) simp

lemma same_vehicle: "garage_inv db \<Longrightarrow> v \<in> set (gd_vehicles db) \<Longrightarrow> w \<in> set (gd_vehicles db) \<Longrightarrow> ve_id v = ve_id w \<Longrightarrow> v = w"
  using garage_invD(1)[of db] by (meson distinct_map inj_onD)

lemma reset_status:
  "k \<noteq> PRIMARY_PHOTO \<Longrightarrow> ve_verificationStatus w = st \<Longrightarrow> \<not> approved (buildReviewReset st k w)"
  "ve_verificationStatus w = st \<Longrightarrow> approved (buildReviewReset st k w) \<Longrightarrow> approved w"
  by (auto simp: buildReviewReset_def REVIEW_RESET_def split: if_splits)

lemma reset_reviewed [simp]: "reviewed (buildReviewReset st k w) = reviewed w"
  by (simp add: buildReviewReset_def REVIEW_RESET_def reviewed_def)

lemma kyc_same: "gd_documents db' = gd_documents db \<Longrightarrow> kyc_documents y db' = kyc_documents y db"
  by (simp add: kyc_documents_def)

lemma edit_vehicle_good:
  assumes inv: "garage_inv db" and k: "k \<noteq> PRIMARY_PHOTO" and f: "tame f" "\<And>v. ve_verificationStatus (f v) = ve_verificationStatus v"
  shows "good_step db (snd (edit_vehicle u x k f db))"
proof (cases "own_vehicle u x db")
  case None
  then show ?thesis using inv by (simp add: edit_vehicle_def run_andThen)
next
  case (Some v)
  let ?g = "buildReviewReset (ve_verificationStatus v) k \<circ> f"
  have g: "tame ?g" by (intro tame_comp tame_reset f(1))
  have "keeps_reviewed db (db\<lparr>gd_vehicles := changed x ?g (gd_vehicles db)\<rparr>)"
  proof (rule keeps_reviewed_changed[OF g])
    fix w assume w: "w \<in> set (gd_vehicles db)" "ve_id w = x" and a: "approved (?g w)"
    have "w = v" using same_vehicle[OF inv w(1)] own_vehicleD[OF Some] w(2) by simp
    then have "\<not> approved (?g w)" using k f(2) by (simp add: reset_status(1))
    then show "approved w \<and> reviewed (?g w) = reviewed w \<and> kyc_documents x (db\<lparr>gd_vehicles := changed x ?g (gd_vehicles db)\<rparr>) = kyc_documents x db"
      using a by simp
  qed (simp_all add: kyc_documents_def)
  then show ?thesis using inv_changed[OF inv g] Some by (simp add: edit_vehicle_def run_andThen run_update_vehicle)
qed

lemma photo_update_good:
  assumes inv: "garage_inv db" and f: "tame f" "\<And>v. reviewed (f v) = reviewed v"
    and st: "\<And>v. v \<in> set (gd_vehicles db) \<Longrightarrow> ve_id v = x \<Longrightarrow> approved (f v) \<Longrightarrow> approved v"
  shows "good_step db (db\<lparr>gd_vehicles := changed x f (gd_vehicles db)\<rparr>)"
  by (intro conjI inv_changed[OF inv f(1)] keeps_reviewed_changed[OF f(1)]) (simp_all add: f(2) st kyc_documents_def)

lemma updateVehicle_good:
  assumes inv: "garage_inv db" and f: "tame f" "\<And>v. reviewed (f v) = reviewed v" "\<And>v. ve_verificationStatus (f v) = ve_verificationStatus v"
  shows "good_step db (snd (updateVehicle u x f db))"
proof (cases "own_vehicle u x db")
  case None
  then show ?thesis using inv by (simp add: updateVehicle_def run_andThen)
next
  case (Some v)
  let ?g = "buildReviewReset (ve_verificationStatus v) PRIMARY_PHOTO \<circ> f"
  have "good_step db (db\<lparr>gd_vehicles := changed x ?g (gd_vehicles db)\<rparr>)"
  proof (rule photo_update_good[OF inv])
    show "tame ?g" by (intro tame_comp tame_reset f(1))
    fix w assume w: "w \<in> set (gd_vehicles db)" "ve_id w = x" and a: "approved (?g w)"
    have "w = v" using same_vehicle[OF inv w(1)] own_vehicleD[OF Some] w(2) by simp
    then show "approved w" using a reset_status(2)[of "f w" "ve_verificationStatus v" PRIMARY_PHOTO] f(3) by simp
  qed (simp add: f(2))
  then show ?thesis using Some by (simp add: updateVehicle_def run_andThen run_andDo run_update_vehicle)
qed

lemma clearVehicleImage_good:
  assumes inv: "garage_inv db" shows "good_step db (snd (clearVehicleImage u x db))"
proof -
  have "good_step db (db\<lparr>gd_vehicles := changed x (\<lambda>v. v\<lparr>ve_imageUrl := None, ve_imageKey := None\<rparr>) (gd_vehicles db)\<rparr>)"
    by (rule photo_update_good[OF inv]) (simp_all add: tame_def vehicle_ok_def reviewed_def)
  then show ?thesis using inv by (simp add: clearVehicleImage_def run_andThen run_andDo run_update_vehicle split: option.splits)
qed

lemma deleteVehicle_good:
  assumes inv: "garage_inv db" shows "good_step db (snd (deleteVehicle env u x db))"
proof -
  have "good_step db (db\<lparr>gd_vehicles := changed x (\<lambda>v. v\<lparr>ve_deletedAt := Some t\<rparr>) (gd_vehicles db)\<rparr>)" for t
    by (rule photo_update_good[OF inv]) (simp_all add: tame_def vehicle_ok_def reviewed_def)
  then show ?thesis using inv by (simp add: deleteVehicle_def run_andThen run_andDo run_update_vehicle)
qed

text \<open>A document of one vehicle comes or goes together with the reset of its review.\<close>

lemma document_change_good:
  assumes inv: "garage_inv db" and v: "own_vehicle u x db = Some v"
    and ds: "distinct (map vd_id ds)" "\<And>d. d \<in> set ds \<Longrightarrow> document_ok (ve_id ` set (gd_vehicles db)) d"
    and same: "\<And>y. y \<noteq> x \<or> k = PRIMARY_PHOTO \<Longrightarrow> kyc_documents y (db\<lparr>gd_documents := ds\<rparr>) = kyc_documents y db"
  shows "good_step db (db\<lparr>gd_documents := ds, gd_vehicles := changed x (buildReviewReset (ve_verificationStatus v) k) (gd_vehicles db)\<rparr>)"
proof -
  let ?g = "buildReviewReset (ve_verificationStatus v) k"
  let ?db = "db\<lparr>gd_documents := ds, gd_vehicles := changed x ?g (gd_vehicles db)\<rparr>"
  have kyc: "kyc_documents y (db\<lparr>gd_documents := ds, gd_vehicles := vs\<rparr>) = kyc_documents y (db\<lparr>gd_documents := ds\<rparr>)" for y vs
    by (simp add: kyc_documents_def)
  have "garage_inv (db\<lparr>gd_documents := ds\<rparr>)" using inv ds by (rule inv_more_documents)
  from inv_changed[OF this tame_reset] have "garage_inv ?db" by simp
  moreover have "keeps_reviewed db ?db"
  proof (rule keeps_reviewed_changed[OF tame_reset])
    fix w assume w: "w \<in> set (gd_vehicles db)" "ve_id w = x" and a: "approved (?g w)"
    have wv: "w = v" using same_vehicle[OF inv w(1)] own_vehicleD[OF v] w(2) by simp
    then have "k = PRIMARY_PHOTO" using a reset_status(1)[of k w] by blast
    then show "approved w \<and> reviewed (?g w) = reviewed w \<and> kyc_documents x ?db = kyc_documents x db"
      using a wv reset_status(2)[of w "ve_verificationStatus v" k] same[of x] by (simp add: kyc)
  next
    show "kyc_documents y ?db = kyc_documents y db" if "y \<noteq> x" for y using same[of y] that by (simp add: kyc)
  qed simp
  ultimately show ?thesis by blast
qed

lemma addVehicleDocument_good:
  assumes inv: "garage_inv db" and fresh: "se_newIds env 0 \<notin> vd_id ` set (gd_documents db)"
  shows "good_step db (snd (addVehicleDocument env u x key None t db))"
proof (cases "own_vehicle u x db")
  case None
  then show ?thesis using inv by (simp add: addVehicleDocument_def run_andThen)
next
  case (Some v)
  show ?thesis
  proof (cases "find (\<lambda>d. vd_vehicleId d = x \<and> vd_imageKey d = Some key) (gd_documents db)")
    case (Some d)
    then show ?thesis using \<open>own_vehicle u x db = Some v\<close> inv by (simp add: addVehicleDocument_def run_andThen)
  next
    case None
    let ?doc = "\<lparr>vd_id = se_newIds env 0, vd_vehicleId = x, vd_image = None, vd_imageKey = Some key, vd_documentType = t,
      vd_storageMissingAt = None, vd_storageCheckedAt = None, vd_createdAt = se_now env\<rparr>"
    let ?ds = "filter (\<lambda>d. \<not> (vd_vehicleId d = x \<and> vd_documentType d = t)) (gd_documents db) @ [?doc]"
    have kyc: "kyc_documents y (db\<lparr>gd_documents := ?ds\<rparr>) = kyc_documents y db" if "y \<noteq> x \<or> changeKindForDocumentType t = PRIMARY_PHOTO" for y
    proof -
      have "(vd_vehicleId d = y \<and> changeKindForDocumentType (vd_documentType d) = KYC_DOCUMENT) \<and> \<not> (vd_vehicleId d = x \<and> vd_documentType d = t) \<longleftrightarrow>
        vd_vehicleId d = y \<and> changeKindForDocumentType (vd_documentType d) = KYC_DOCUMENT" for d :: vehicle_document using that by auto
      then show ?thesis using that by (auto simp: kyc_documents_def conj_commute)
    qed
    have "good_step db (db\<lparr>gd_documents := ?ds, gd_vehicles :=
        changed x (buildReviewReset (ve_verificationStatus v) (changeKindForDocumentType t)) (gd_vehicles db)\<rparr>)"
    proof (rule document_change_good[OF inv Some])
      show "distinct (map vd_id ?ds)" using garage_invD(2)[OF inv] fresh by (auto simp: distinct_map inj_on_def)
      fix d assume "d \<in> set ?ds"
      then consider "d \<in> set (gd_documents db)" | "d = ?doc" by auto
      then show "document_ok (ve_id ` set (gd_vehicles db)) d"
        using garage_invD(4)[OF inv] own_vehicleD[OF Some] by cases (auto simp: document_ok_def)
    qed (rule kyc)
    then show ?thesis using Some None by (simp add: addVehicleDocument_def run_andThen run_andDo run_update_vehicle Let_def)
  qed
qed

lemma deleteVehicleDocument_good:
  assumes inv: "garage_inv db" shows "good_step db (snd (deleteVehicleDocument u x key db))"
proof (cases "findVehicleDocumentByKey u x key db")
  case None
  then show ?thesis using inv by (simp add: deleteVehicleDocument_def run_andThen)
next
  case (Some doc)
  then have doc: "doc \<in> set (gd_documents db)" "vd_vehicleId doc = x" and own: "own_vehicle u x db \<noteq> None"
    unfolding findVehicleDocumentByKey_def by (auto dest: find_Some_mem)
  then obtain v where v: "own_vehicle u x db = Some v" by blast
  let ?ds = "filter (\<lambda>d. vd_id d \<noteq> vd_id doc) (gd_documents db)"
  have only: "d = doc" if "d \<in> set (gd_documents db)" "vd_id d = vd_id doc" for d
    using garage_invD(2)[OF inv] that doc(1) by (meson distinct_map inj_onD)
  have kyc: "kyc_documents y (db\<lparr>gd_documents := ?ds\<rparr>) = kyc_documents y db"
    if "y \<noteq> x \<or> changeKindForDocumentType (vd_documentType doc) = PRIMARY_PHOTO" for y
  proof -
    have "vd_id d \<noteq> vd_id doc" if "d \<in> set (gd_documents db)" "vd_vehicleId d = y" "changeKindForDocumentType (vd_documentType d) = KYC_DOCUMENT" for d
    proof
      assume "vd_id d = vd_id doc"
      then have "d = doc" by (rule only[OF that(1)])
      then show False using that(2,3) doc(2) \<open>y \<noteq> x \<or> _\<close> by simp
    qed
    then show ?thesis by (auto simp: kyc_documents_def intro!: filter_cong)
  qed
  have "good_step db (db\<lparr>gd_documents := ?ds, gd_vehicles :=
      changed x (buildReviewReset (ve_verificationStatus v) (changeKindForDocumentType (vd_documentType doc))) (gd_vehicles db)\<rparr>)"
  proof (rule document_change_good[OF inv v])
    show "distinct (map vd_id ?ds)" using garage_invD(2)[OF inv] by (simp add: distinct_map_filter)
    show "document_ok (ve_id ` set (gd_vehicles db)) d" if "d \<in> set ?ds" for d using garage_invD(4)[OF inv] that by simp
  qed (rule kyc)
  then show ?thesis using Some v by (simp add: deleteVehicleDocument_def run_andThen run_andDo run_update_vehicle)
qed

text \<open>A new vehicle is never approved, unless the bypass of the review is switched on.\<close>

lemma new_vehicle_good:
  assumes inv: "garage_inv db" and v: "ve_id v \<notin> ve_id ` set (gd_vehicles db)" "vehicle_ok v" "live_count (ve_userId v) db < MAX_VEHICLES_PER_USER"
    and ds: "distinct (map vd_id ds)" "vd_id ` set ds \<inter> vd_id ` set (gd_documents db) = {}"
      "\<And>d. d \<in> set ds \<Longrightarrow> vd_vehicleId d = ve_id v \<and> (isPrivateDocumentType (vd_documentType d) \<longrightarrow> vd_image d = None)"
  shows "garage_inv (db\<lparr>gd_vehicles := gd_vehicles db @ [v], gd_documents := gd_documents db @ ds\<rparr>)"
    and "\<not> approved v \<Longrightarrow> keeps_reviewed db (db\<lparr>gd_vehicles := gd_vehicles db @ [v], gd_documents := gd_documents db @ ds\<rparr>)"
proof -
  let ?db1 = "db\<lparr>gd_vehicles := gd_vehicles db @ [v]\<rparr>"
  have i1: "garage_inv ?db1" by (rule inv_new_vehicle[OF inv v(1-3)])
  have "garage_inv (?db1\<lparr>gd_documents := gd_documents ?db1 @ ds\<rparr>)"
  proof (rule inv_more_documents[OF i1])
    show "distinct (map vd_id (gd_documents ?db1 @ ds))" using garage_invD(2)[OF inv] ds(1,2) by auto
    fix d assume "d \<in> set (gd_documents ?db1 @ ds)"
    then consider "d \<in> set (gd_documents ?db1)" | "d \<in> set ds" by auto
    then show "document_ok (ve_id ` set (gd_vehicles ?db1)) d"
      using garage_invD(4)[OF i1] ds(3) by cases (auto simp: document_ok_def)
  qed
  then show "garage_inv (db\<lparr>gd_vehicles := gd_vehicles db @ [v], gd_documents := gd_documents db @ ds\<rparr>)" by simp
  assume pending: "\<not> approved v"
  have "keeps_reviewed db (?db1\<lparr>gd_documents := gd_documents ?db1 @ ds\<rparr>)"
    unfolding keeps_reviewed_def
  proof (intro ballI impI)
    fix w assume "w \<in> set (gd_vehicles (?db1\<lparr>gd_documents := gd_documents ?db1 @ ds\<rparr>))" "approved w"
    then have w: "w \<in> set (gd_vehicles db)" using pending by auto
    then have "ve_id w \<noteq> ve_id v" using v(1) by (metis image_eqI)
    then have "filter (\<lambda>d. vd_vehicleId d = ve_id w \<and> changeKindForDocumentType (vd_documentType d) = KYC_DOCUMENT) ds = []"
      using ds(3) by (auto simp: filter_empty_conv)
    then show "\<exists>u \<in> set (gd_vehicles db). ve_id u = ve_id w \<and> approved u \<and> reviewed u = reviewed w \<and>
        kyc_documents (ve_id w) db = kyc_documents (ve_id w) (?db1\<lparr>gd_documents := gd_documents ?db1 @ ds\<rparr>)"
      using w \<open>approved w\<close> by (intro bexI[of _ w]) (simp_all add: kyc_documents_def)
  qed
  then show "keeps_reviewed db (db\<lparr>gd_vehicles := gd_vehicles db @ [v], gd_documents := gd_documents db @ ds\<rparr>)" by simp
qed

definition fresh_ids :: "storage_env \<Rightarrow> garage_db \<Rightarrow> bool" where
  "fresh_ids env db \<longleftrightarrow> inj (se_newIds env) \<and>
     (\<forall>n. se_newIds env n \<notin> ve_id ` set (gd_vehicles db) \<and> se_newIds env n \<notin> vd_id ` set (gd_documents db))"

lemma createVehicle_good:
  assumes inv: "garage_inv db" and fresh: "fresh_ids env db" shows "good_step db (snd (createVehicle env u c n db))"
proof (cases "MAX_VEHICLES_PER_USER \<le> live_count u db")
  case True
  then show ?thesis using inv by (simp add: createVehicle_def run_defs)
next
  case False
  let ?v = "new_vehicle env u c n"
  have "good_step db (db\<lparr>gd_vehicles := gd_vehicles db @ [?v], gd_documents := gd_documents db @ []\<rparr>)"
    using False fresh by (intro conjI new_vehicle_good[OF inv]) (simp_all add: new_vehicle_def vehicle_ok_def fresh_ids_def)
  then show ?thesis using False by (simp add: createVehicle_def run_defs Let_def)
qed

lemma saved_documents_facts:
  assumes "inj (se_newIds env)"
  shows "distinct (map vd_id (saved_documents env x docs))"
    and "d \<in> set (saved_documents env x docs) \<Longrightarrow> vd_vehicleId d = x \<and> (isPrivateDocumentType (vd_documentType d) \<longrightarrow> vd_image d = None) \<and>
      (\<exists>i. vd_id d = se_newIds env i)"
proof -
  let ?kept = "filter (\<lambda>d. \<not> isPrimaryImageDocumentType (dd_documentType d)) docs"
  have "map vd_id (saved_documents env x docs) = map (\<lambda>i. se_newIds env (i + 1)) [0..<length ?kept]"
    by (rule nth_equalityI) (simp_all add: saved_documents_def Let_def)
  then show "distinct (map vd_id (saved_documents env x docs))" using assms by (auto simp: distinct_map inj_on_def inj_def dest: Suc_inject)
  show "d \<in> set (saved_documents env x docs) \<Longrightarrow> vd_vehicleId d = x \<and> (isPrivateDocumentType (vd_documentType d) \<longrightarrow> vd_image d = None) \<and>
      (\<exists>i. vd_id d = se_newIds env i)"
    by (auto simp: saved_documents_def Let_def)
qed

lemma draft_ops_same:
  "gd_vehicles (snd (drop_draft u db)) = gd_vehicles db" "gd_documents (snd (drop_draft u db)) = gd_documents db"
  "gd_vehicles (snd (saveDraft env d db)) = gd_vehicles db" "gd_documents (snd (saveDraft env d db)) = gd_documents db"
  "snd (getDraft env u db) = db"
  by (simp_all add: drop_draft_def saveDraft_def getDraft_def run_defs Let_def split: option.splits)

lemma run_getDraft: "getDraft env u db = (case live_draft env u db of None \<Rightarrow> (Inl DRAFT_NOT_FOUND, db) | Some d \<Rightarrow> (Inr d, db))"
  by (simp add: getDraft_def run_andThen)

lemma garage_inv_cong:
  "gd_vehicles db' = gd_vehicles db \<Longrightarrow> gd_documents db' = gd_documents db \<Longrightarrow> garage_inv db' = garage_inv db"
  by (simp add: garage_inv_def live_count_def)

lemma draft_calls_good:
  assumes inv: "garage_inv db"
  shows "good_step db (snd (createWithLicense env u c n db))" "good_step db (snd (updateVehicleDetails env u i db))"
    "good_step db (snd (uploadDocument env u t src db))"
proof -
  have good: "good_step db db'" if "gd_vehicles db' = gd_vehicles db" "gd_documents db' = gd_documents db" for db'
    using that inv keeps_reviewed_same garage_inv_cong[of db' db] by simp
  show "good_step db (snd (createWithLicense env u c n db))"
    by (rule good) (simp_all add: createWithLicense_def run_andDo saveDraft_def drop_draft_def Let_def)
  show "good_step db (snd (updateVehicleDetails env u i db))"
    by (rule good) (simp_all add: updateVehicleDetails_def run_andThen run_getDraft draft_ops_same split: option.split)
  show "good_step db (snd (uploadDocument env u t src db))"
    by (rule good) (simp_all add: uploadDocument_def addDocument_def run_andThen run_getDraft draft_ops_same split: option.split sum.split)
qed

lemma saveVehicle_good:
  assumes inv: "garage_inv db" and fresh: "fresh_ids env db"
  shows "garage_inv (snd (saveVehicle env u db)) \<and> (\<not> se_skipVerification env \<longrightarrow> keeps_reviewed db (snd (saveVehicle env u db)))"
proof (cases "live_draft env u db")
  case None
  then show ?thesis using inv by (simp add: saveVehicle_def run_andThen run_getDraft)
next
  case (Some draft)
  let ?v = "saved_vehicle env u draft"
  let ?ds = "saved_documents env (ve_id ?v) (dv_documents draft)"
  have check: "snd (check_full_set env u user draft db) = db" for user
    by (simp add: check_full_set_def run_defs)
  have v: "ve_id ?v = se_newIds env 0" "ve_userId ?v = u" "vehicle_ok ?v" "approved ?v \<longleftrightarrow> se_skipVerification env"
    by (simp_all add: saved_vehicle_def new_vehicle_def vehicle_ok_def Let_def)
  let ?good = "\<lambda>db'. garage_inv db' \<and> (\<not> se_skipVerification env \<longrightarrow> keeps_reviewed db db')"
  have ds: "vd_id ` set ?ds \<inter> vd_id ` set (gd_documents db) = {}"
    using saved_documents_facts(2)[of env _ "ve_id ?v" "dv_documents draft"] fresh unfolding fresh_ids_def by fastforce
  have saved: "?good (db\<lparr>gd_vehicles := gd_vehicles db @ [?v], gd_documents := gd_documents db @ ?ds\<rparr>)"
    if "live_count u db < MAX_VEHICLES_PER_USER"
    using that fresh v ds saved_documents_facts[of env]
    by (intro conjI impI new_vehicle_good[OF inv]) (simp_all add: fresh_ids_def)
  have dropped: "?good (db1\<lparr>gd_drafts := z\<rparr>)" if "?good db1" for db1 z
    using that by (simp add: keeps_reviewed_def kyc_documents_def)
  show ?thesis
  proof (cases "fst (check_full_set env u (the (lic_user_by_id u (gd_licences db))) draft db)")
    case (Inl e)
    then have "check_full_set env u (the (lic_user_by_id u (gd_licences db))) draft db = (Inl e, db)" using check by (simp add: prod_eq_iff)
    then show ?thesis using inv Some
      by (cases "lic_user_by_id u (gd_licences db)") (simp_all add: saveVehicle_def run_andThen run_andDo run_getDraft)
  next
    case (Inr y)
    then have "check_full_set env u (the (lic_user_by_id u (gd_licences db))) draft db = (Inr (), db)" using check by (simp add: prod_eq_iff)
    then show ?thesis using inv Some dropped[OF saved]
      by (cases "lic_user_by_id u (gd_licences db)")
        (simp_all add: saveVehicle_def run_andThen run_andDo run_getDraft Let_def drop_draft_def)
  qed
qed

subsection \<open>Every sequence of calls\<close>

text \<open>
  The image paths write only the picture of the vehicle. \<open>skip\<close> is the switch \<open>SKIP_VEHICLE_VERIFICATION\<close> under which
  \<open>saveVehicle\<close> runs.
\<close>

inductive driver_step :: "bool \<Rightarrow> garage_db \<Rightarrow> garage_db \<Rightarrow> bool" for skip :: bool where
  ds_create: "fresh_ids env db \<Longrightarrow> driver_step skip db (snd (createVehicle env u c n db))"
| ds_plate: "driver_step skip db (snd (updateCreateVehicle u x c n db))"
| ds_details: "driver_step skip db (snd (updateVehicleDetailService u x i db))"
| ds_photo: "driver_step skip db (snd (updateVehicle u x (\<lambda>v. v\<lparr>ve_imageUrl := url, ve_imageKey := key\<rparr>) db))"
| ds_clear: "driver_step skip db (snd (clearVehicleImage u x db))"
| ds_add: "fresh_ids env db \<Longrightarrow> driver_step skip db (snd (addVehicleDocument env u x k None t db))"
| ds_remove: "driver_step skip db (snd (deleteVehicleDocument u x k db))"
| ds_delete: "driver_step skip db (snd (deleteVehicle env u x db))"
| ds_draft: "driver_step skip db (snd (createWithLicense env u c n db))"
| ds_draft_details: "driver_step skip db (snd (updateVehicleDetails env u i db))"
| ds_upload: "driver_step skip db (snd (uploadDocument env u t src db))"
| ds_save: "fresh_ids env db \<Longrightarrow> se_skipVerification env = skip \<Longrightarrow> driver_step skip db (snd (saveVehicle env u db))"

lemma driver_step_good:
  "driver_step skip db db' \<Longrightarrow> garage_inv db \<Longrightarrow> garage_inv db' \<and> (\<not> skip \<longrightarrow> keeps_reviewed db db')"
proof (induction rule: driver_step.induct)
  case (ds_plate db u x c n)
  then have "good_step db (snd (updateCreateVehicle u x c n db))"
    unfolding updateCreateVehicle_def by (intro edit_vehicle_good) (simp_all add: tame_def vehicle_ok_def)
  then show ?case by simp
next
  case (ds_details db u x i)
  then have "good_step db (snd (updateVehicleDetailService u x i db))"
    unfolding updateVehicleDetailService_def by (intro edit_vehicle_good) (simp_all add: tame_def vehicle_ok_def)
  then show ?case by simp
next
  case (ds_photo db u x key url)
  then have "good_step db (snd (updateVehicle u x (\<lambda>v. v\<lparr>ve_imageUrl := url, ve_imageKey := key\<rparr>) db))"
    by (intro updateVehicle_good) (simp_all add: tame_def vehicle_ok_def reviewed_def)
  then show ?case by simp
next
  case (ds_add env db u x k t)
  then have "good_step db (snd (addVehicleDocument env u x k None t db))"
    by (intro addVehicleDocument_good) (simp_all add: fresh_ids_def)
  then show ?case by simp
qed (simp_all add: createVehicle_good clearVehicleImage_good deleteVehicleDocument_good deleteVehicle_good draft_calls_good saveVehicle_good)

inductive garage_step :: "garage_db \<Rightarrow> garage_db \<Rightarrow> bool" where
  gs_driver: "driver_step skip db db' \<Longrightarrow> garage_step db db'"
| gs_verify: "garage_step db (snd (verifyVehicle env x adm db))"
| gs_reject: "garage_step db (snd (rejectVehicle env x reason adm db))"

lemma review_vehicle_inv: "garage_inv db \<Longrightarrow> garage_inv (snd (review_vehicle env x st reason adm notice db))"
proof -
  assume inv: "garage_inv db"
  let ?f = "\<lambda>v. v\<lparr>ve_isVerified := (st = VEHICLE_APPROVED), ve_verificationStatus := st, ve_rejectionReason := reason,
    ve_reviewedAt := Some (se_now env), ve_reviewedById := adm\<rparr>"
  have "garage_inv (db\<lparr>gd_vehicles := changed x ?f (gd_vehicles db)\<rparr>)" by (rule inv_changed[OF inv]) (simp add: tame_def vehicle_ok_def)
  then show ?thesis using inv by (simp add: review_vehicle_def run_andThen run_andDo run_update_vehicle split: option.splits)
qed

lemma garage_steps_inv: "garage_step\<^sup>*\<^sup>* db db' \<Longrightarrow> garage_inv db \<Longrightarrow> garage_inv db'"
proof (induction rule: rtranclp_induct)
  case (step db1 db2)
  then have "garage_inv db1" by simp
  with step.hyps(2) show ?case
    by cases (auto simp: verifyVehicle_def rejectVehicle_def review_vehicle_inv dest: driver_step_good)
qed

text \<open>
  C37. Under any sequence of the drivers' and the administrator's calls, each running alone, from an empty garage, a vehicle is flagged as
  verified exactly when its review is approved, no driver has more than three vehicles that are not deleted, and no
  private document has a public address.
\<close>

theorem garage_calls_keep:
  assumes "garage_step\<^sup>*\<^sup>* db db'" "gd_vehicles db = []" "gd_documents db = []"
  shows "(\<forall>v \<in> set (gd_vehicles db'). ve_isVerified v \<longleftrightarrow> ve_verificationStatus v = VEHICLE_APPROVED)
    \<and> (\<forall>u. live_count u db' \<le> 3)
    \<and> (\<forall>d \<in> set (gd_documents db'). isPrivateDocumentType (vd_documentType d) \<longrightarrow> vd_image d = None)"
proof -
  have "garage_inv db" using assms(2,3) by (simp add: garage_inv_def live_count_def count_where_def)
  then have inv: "garage_inv db'" by (rule garage_steps_inv[OF assms(1)])
  show ?thesis using garage_invD(3,4)[OF inv] garage_invD(5)[OF inv]
    by (auto simp: vehicle_ok_def document_ok_def MAX_VEHICLES_PER_USER_def)
qed

text \<open>
  C34. With the review of vehicles switched on (\<open>SKIP_VEHICLE_VERIFICATION\<close> not set, under which \<open>saveVehicle\<close> approves what it
  saves), whatever a driver does with his vehicles, documents and drafts, each call running alone, from a garage in a state the
  calls leave it in (\<open>garage_inv\<close>): a vehicle that is approved afterwards was approved before with the same plate, the same
  details and the same registration and insurance documents.
\<close>

theorem drivers_keep_what_was_reviewed:
  assumes "(driver_step False)\<^sup>*\<^sup>* db db'" "garage_inv db" "v' \<in> set (gd_vehicles db')" "ve_verificationStatus v' = VEHICLE_APPROVED"
  shows "\<exists>v \<in> set (gd_vehicles db). ve_id v = ve_id v' \<and> ve_verificationStatus v = VEHICLE_APPROVED \<and> reviewed v = reviewed v'
    \<and> kyc_documents (ve_id v') db = kyc_documents (ve_id v') db'"
proof -
  have "garage_inv db' \<and> keeps_reviewed db db'" using assms(1,2)
  proof (induction rule: rtranclp_induct)
    case (step db1 db2)
    then have "good_step db1 db2" using driver_step_good[OF step.hyps(2)] by simp
    then show ?case using step keeps_reviewed_trans by blast
  qed simp
  then show ?thesis using assms(3,4) unfolding keeps_reviewed_def by blast
qed

definition sample_storage_env :: storage_env where
  "sample_storage_env = \<lparr>se_now = 1000, se_newIds = (\<lambda>n. replicate (n + 3) 118), se_unicode = \<lparr>uc_nfd = id, uc_lower = id, uc_upper = id, uc_parseDate = (\<lambda>_. None)\<rparr>,
     se_head = (\<lambda>_. Some True), se_promote = (\<lambda>_ _. True), se_decode = Some, se_skipVerification = False\<rparr>"

definition sample_garage :: garage_db where
  "sample_garage = \<lparr>gd_licences = \<lparr>ld_users = [], ld_rows = [], ld_notices = []\<rparr>, gd_vehicles = [], gd_documents = [], gd_drafts = [], gd_notices = []\<rparr>"

lemma sample_fresh: "fresh_ids sample_storage_env sample_garage"
  by (auto simp: fresh_ids_def sample_storage_env_def sample_garage_def inj_def replicate_eq_replicate)

theorem garage_calls_keep_witness:
  "\<exists>db v. garage_step\<^sup>*\<^sup>* sample_garage db \<and> gd_vehicles db = [v] \<and> ve_isVerified v \<and> ve_verificationStatus v = VEHICLE_APPROVED \<and> live_count [1] db \<le> 3"
proof -
  let ?db1 = "snd (createVehicle sample_storage_env [1] [69, 69] [65] sample_garage)"
  let ?db2 = "snd (verifyVehicle sample_storage_env (replicate 3 118) None ?db1)"
  have "garage_step sample_garage ?db1" by (intro gs_driver ds_create sample_fresh)
  moreover have "garage_step ?db1 ?db2" by (rule gs_verify)
  ultimately have step: "garage_step\<^sup>*\<^sup>* sample_garage ?db2" by simp
  have "\<exists>v. gd_vehicles ?db2 = [v] \<and> ve_verificationStatus v = VEHICLE_APPROVED"
  proof -
    let ?w = "new_vehicle sample_storage_env [1] [69, 69] [65]"
    have w: "ve_id ?w = replicate 3 118" by (simp add: new_vehicle_def sample_storage_env_def)
    have "?db1 = sample_garage\<lparr>gd_vehicles := [?w]\<rparr>"
      by (simp add: createVehicle_def run_defs Let_def live_count_def count_where_def sample_garage_def MAX_VEHICLES_PER_USER_def)
    then show ?thesis by (simp add: verifyVehicle_def review_vehicle_def run_andThen run_andDo run_update_vehicle w)
  qed
  then obtain v where v: "gd_vehicles ?db2 = [v]" "ve_verificationStatus v = VEHICLE_APPROVED" by blast
  have "gd_vehicles sample_garage = []" "gd_documents sample_garage = []" by (simp_all add: sample_garage_def)
  then have "ve_isVerified v" "live_count [1] ?db2 \<le> 3" using garage_calls_keep[OF step] v by simp_all
  then show ?thesis using step v by blast
qed

theorem drivers_keep_what_was_reviewed_witness:
  "\<exists>db db' v'. driver_step False db db' \<and> gd_vehicles db \<noteq> gd_vehicles db' \<and> v' \<in> set (gd_vehicles db') \<and> ve_verificationStatus v' = VEHICLE_APPROVED \<and>
     (\<exists>v \<in> set (gd_vehicles db). ve_id v = ve_id v' \<and> reviewed v = reviewed v')"
proof -
  let ?v = "(new_vehicle sample_storage_env [1] [69, 69] [65])\<lparr>ve_isVerified := True, ve_verificationStatus := VEHICLE_APPROVED\<rparr>"
  let ?db = "sample_garage\<lparr>gd_vehicles := [?v]\<rparr>"
  let ?f = "\<lambda>v. v\<lparr>ve_imageUrl := Some [7], ve_imageKey := Some [8]\<rparr>"
  let ?db' = "snd (updateVehicle [1] (ve_id ?v) ?f ?db)"
  have step: "driver_step False ?db ?db'" by (rule ds_photo)
  have inv: "garage_inv ?db"
    by (simp add: garage_inv_def sample_garage_def vehicle_ok_def live_count_def count_where_def MAX_VEHICLES_PER_USER_def)
  have v': "gd_vehicles ?db' = [?f ?v]"
    by (simp add: updateVehicle_def run_andThen run_andDo run_update_vehicle own_vehicle_def sample_garage_def new_vehicle_def
      buildReviewReset_def REQUEUE_APPROVED_ON_PHOTO_CHANGE_def)
  have m: "?f ?v \<in> set (gd_vehicles ?db')" unfolding v' by simp
  have "\<exists>v \<in> set (gd_vehicles ?db). ve_id v = ve_id (?f ?v) \<and> ve_verificationStatus v = VEHICLE_APPROVED \<and> reviewed v = reviewed (?f ?v)
      \<and> kyc_documents (ve_id (?f ?v)) ?db = kyc_documents (ve_id (?f ?v)) ?db'"
    by (rule drivers_keep_what_was_reviewed[OF r_into_rtranclp[of "driver_step False", OF step] inv m]) simp
  moreover have "gd_vehicles ?db \<noteq> gd_vehicles ?db'" unfolding v' by (simp add: new_vehicle_def)
  ultimately show ?thesis using step m by (intro exI[of _ ?db] exI[of _ ?db'] exI[of _ "?f ?v"] conjI) (assumption | blast | simp)+
qed

end
