(* ===== verification/Vehicle_Audit.thy ===== *)
theory Vehicle_Audit
  imports Vehicle_Trail
begin

text \<open>
  The audit of vehicle documents against storage: \<open>src/src/modules/vehicles/vehicle-document-audit.service.ts\<close>. The loop
  over batches is a recursion that may not end (\<open>None\<close>); when it ends and when it cannot is proved.
\<close>

subsection \<open>Options and summary\<close>

definition DEFAULT_BATCH_SIZE :: nat where "DEFAULT_BATCH_SIZE = 200"

definition DEFAULT_RECHECK_AFTER_HOURS :: int where "DEFAULT_RECHECK_AFTER_HOURS = 20"

record audit_options =
  ao_limit :: "nat option"
  ao_batchSize :: nat
  ao_recheckAfterHours :: int
  ao_dryRun :: bool
  ao_notify :: bool

definition default_audit_options :: audit_options where
  "default_audit_options = \<lparr>ao_limit = None, ao_batchSize = DEFAULT_BATCH_SIZE, ao_recheckAfterHours = DEFAULT_RECHECK_AFTER_HOURS,
     ao_dryRun = False, ao_notify = True\<rparr>"

record audit_summary =
  as_checked :: nat
  as_missing :: nat
  as_recovered :: nat
  as_inconclusive :: nat
  as_vehiclesNotified :: nat
  as_missingByDocumentType :: "document_type \<Rightarrow> nat"

definition empty_summary :: audit_summary where
  "empty_summary = \<lparr>as_checked = 0, as_missing = 0, as_recovered = 0, as_inconclusive = 0, as_vehiclesNotified = 0,
     as_missingByDocumentType = (\<lambda>_. 0)\<rparr>"

subsection \<open>One document\<close>

datatype verdict = PRESENT | MISSING

definition resolveDocumentKey :: "storage_env \<Rightarrow> vehicle_document \<Rightarrow> jstext option" where
  "resolveDocumentKey env d = (if \<not> no_text (vd_imageKey d) then vd_imageKey d
     else if no_text (vd_image d) then None else keyFromPublicUrl env (the (vd_image d)))"

text \<open>\<open>None\<close>: storage could not be asked.\<close>

definition checkDocument :: "storage_env \<Rightarrow> vehicle_document \<Rightarrow> verdict option" where
  "checkDocument env d =
     (let key = resolveDocumentKey env d in
      if no_text key then Some MISSING
      else (case se_head env (the key) of None \<Rightarrow> None | Some exists \<Rightarrow> Some (if exists then PRESENT else MISSING)))"

definition stamped :: "storage_env \<Rightarrow> verdict \<Rightarrow> vehicle_document \<Rightarrow> vehicle_document \<Rightarrow> vehicle_document" where
  "stamped env v doc r = r\<lparr>vd_storageCheckedAt := Some (se_now env), vd_storageMissingAt :=
     (if v = MISSING then (case vd_storageMissingAt doc of Some t \<Rightarrow> Some t | None \<Rightarrow> Some (se_now env)) else None)\<rparr>"

definition count_verdict :: "verdict \<Rightarrow> vehicle_document \<Rightarrow> audit_summary \<Rightarrow> audit_summary" where
  "count_verdict v doc s =
     (if v = MISSING then s\<lparr>as_missing := as_missing s + 1,
        as_missingByDocumentType := (as_missingByDocumentType s)(vd_documentType doc := as_missingByDocumentType s (vd_documentType doc) + 1)\<rparr>
      else if vd_storageMissingAt doc \<noteq> None then s\<lparr>as_recovered := as_recovered s + 1\<rparr> else s)"

text \<open>The state of the walk: the rows, the summary, and the vehicles touched in the order they were first touched.\<close>

type_synonym audit_state = "garage_db \<times> audit_summary \<times> jstext list"

definition audit_document :: "storage_env \<Rightarrow> audit_options \<Rightarrow> vehicle_document \<Rightarrow> audit_state \<Rightarrow> audit_state" where
  "audit_document env opts doc st = (case st of (db, s0, touched) \<Rightarrow>
     (let s = s0\<lparr>as_checked := as_checked s0 + 1\<rparr> in
      case checkDocument env doc of
        None \<Rightarrow> (db, s\<lparr>as_inconclusive := as_inconclusive s + 1\<rparr>, touched)
      | Some v \<Rightarrow>
          (if ao_dryRun opts then db
           else db\<lparr>gd_documents := update_where (\<lambda>r. vd_id r = vd_id doc) (stamped env v doc) (gd_documents db)\<rparr>,
           count_verdict v doc s, if vd_vehicleId doc \<in> set touched then touched else touched @ [vd_vehicleId doc])))"

subsection \<open>The walk\<close>

definition stale_before :: "storage_env \<Rightarrow> audit_options \<Rightarrow> time" where
  "stale_before env opts = se_now env - ao_recheckAfterHours opts * 60 * 60 * 1000"

definition eligible :: "storage_env \<Rightarrow> audit_options \<Rightarrow> garage_db \<Rightarrow> vehicle_document \<Rightarrow> bool" where
  "eligible env opts db d \<longleftrightarrow> list_ex (\<lambda>v. ve_id v = vd_vehicleId d \<and> ve_deletedAt v = None) (gd_vehicles db) \<and>
     (case vd_storageCheckedAt d of None \<Rightarrow> True | Some t \<Rightarrow> t < stale_before env opts)"

text \<open>Postgres puts nulls last in ascending order.\<close>

definition audit_order :: "vehicle_document list \<Rightarrow> vehicle_document list" where
  "audit_order ds = sort_key (\<lambda>d. the (vd_storageCheckedAt d)) (filter (\<lambda>d. vd_storageCheckedAt d \<noteq> None) ds)
     @ filter (\<lambda>d. vd_storageCheckedAt d = None) ds"

definition audit_take :: "audit_options \<Rightarrow> audit_summary \<Rightarrow> nat" where
  "audit_take opts s = (case ao_limit opts of None \<Rightarrow> ao_batchSize opts | Some limit \<Rightarrow> min (ao_batchSize opts) (limit - as_checked s))"

definition audit_batch :: "storage_env \<Rightarrow> audit_options \<Rightarrow> audit_summary \<Rightarrow> garage_db \<Rightarrow> vehicle_document list" where
  "audit_batch env opts s db = take (audit_take opts s) (audit_order (filter (eligible env opts db) (gd_documents db)))"

definition within_limit :: "audit_options \<Rightarrow> audit_summary \<Rightarrow> bool" where
  "within_limit opts s \<longleftrightarrow> (case ao_limit opts of None \<Rightarrow> True | Some limit \<Rightarrow> as_checked s < limit)"

partial_function (option) audit_walk :: "storage_env \<Rightarrow> audit_options \<Rightarrow> audit_state \<Rightarrow> audit_state option" where
  "audit_walk env opts st =
     (if \<not> within_limit opts (fst (snd st)) then Some st
      else let documents = audit_batch env opts (fst (snd st)) (fst st) in
        if documents = [] then Some st
        else let st' = fold (audit_document env opts) documents st in
          if length documents < audit_take opts (fst (snd st)) then Some st'
          else audit_walk env opts st')"

subsection \<open>The vehicles afterwards\<close>

definition notifyOwner :: "storage_env \<Rightarrow> jstext \<Rightarrow> bool garage" where
  "notifyOwner env vehicleId =
     andThen (gets (\<lambda>db. find (\<lambda>v. ve_id v = vehicleId) (gd_vehicles db))) (\<lambda>found.
     case found of None \<Rightarrow> ret False
     | Some v \<Rightarrow> if ve_documentIssueNotifiedAt v \<noteq> None then ret False else
         andDo (update_vehicle vehicleId (\<lambda>v. v\<lparr>ve_documentIssueNotifiedAt := Some (se_now env)\<rparr>))
        (andDo (modify (\<lambda>db. db\<lparr>gd_notices := gd_notices db @ [(ve_userId v, ''vehicle.document.missing'')]\<rparr>)) (ret True)))"

definition settleVehicle :: "storage_env \<Rightarrow> bool \<Rightarrow> jstext \<Rightarrow> bool garage" where
  "settleVehicle env notify vehicleId =
     andThen (gets (\<lambda>db. list_ex (\<lambda>d. vd_vehicleId d = vehicleId \<and> vd_storageMissingAt d \<noteq> None) (gd_documents db))) (\<lambda>stillMissing.
     andThen (gets (\<lambda>db. find (\<lambda>v. ve_id v = vehicleId) (gd_vehicles db))) (\<lambda>found.
     case found of None \<Rightarrow> ret False
     | Some v \<Rightarrow>
        if \<not> stillMissing then
          andDo (whenM (ve_documentIssueNotifiedAt v \<noteq> None) (update_vehicle vehicleId (\<lambda>v. v\<lparr>ve_documentIssueNotifiedAt := None\<rparr>))) (ret False)
        else if \<not> notify then ret False else notifyOwner env vehicleId))"

fun settle_all :: "storage_env \<Rightarrow> bool \<Rightarrow> jstext list \<Rightarrow> audit_summary \<Rightarrow> audit_summary garage" where
  "settle_all env notify [] s = ret s"
| "settle_all env notify (x # xs) s = andThen (settleVehicle env notify x) (\<lambda>notified.
     settle_all env notify xs (if notified then s\<lparr>as_vehiclesNotified := as_vehiclesNotified s + 1\<rparr> else s))"

definition auditVehicleDocuments :: "storage_env \<Rightarrow> audit_options \<Rightarrow> garage_db \<Rightarrow> ((error + audit_summary) \<times> garage_db) option" where
  "auditVehicleDocuments env opts db =
     map_option (\<lambda>(db', s, touched). if ao_dryRun opts then (Inr s, db') else settle_all env (ao_notify opts) touched s db')
       (audit_walk env opts (db, empty_summary, []))"

subsection \<open>The walk without end\<close>

lemma audit_document_checked: "as_checked (fst (snd (audit_document env opts d st))) = as_checked (fst (snd st)) + 1"
  by (cases st) (auto simp: audit_document_def count_verdict_def Let_def split: option.split)

lemma fold_checked: "as_checked (fst (snd (fold (audit_document env opts) ds st))) = as_checked (fst (snd st)) + length ds"
  by (induction ds arbitrary: st) (simp_all add: audit_document_checked)

lemma fold_same_rows:
  "ao_dryRun opts \<or> (\<forall>d \<in> set ds. checkDocument env d = None) \<Longrightarrow> fst (fold (audit_document env opts) ds st) = fst st"
  by (induction ds arbitrary: st) (auto simp: audit_document_def Let_def split: prod.split option.split)

lemma audit_batch_eligible: "d \<in> set (audit_batch env opts s db) \<Longrightarrow> d \<in> set (gd_documents db) \<and> eligible env opts db d"
  by (auto simp: audit_batch_def audit_order_def dest!: in_set_takeD)

lemma length_audit_order [simp]: "length (audit_order ds) = length ds"
proof -
  have "length (filter (\<lambda>d. vd_storageCheckedAt d \<noteq> None) ds) + length (filter (\<lambda>d. \<not> vd_storageCheckedAt d \<noteq> None) ds) = length ds"
    by (rule sum_length_filter_compl)
  then show ?thesis by (simp add: audit_order_def)
qed

definition stuck :: "storage_env \<Rightarrow> audit_options \<Rightarrow> audit_state \<Rightarrow> bool" where
  "stuck env opts st \<longleftrightarrow> ao_limit opts = None \<and> 0 < ao_batchSize opts \<and>
     ao_batchSize opts \<le> length (filter (eligible env opts (fst st)) (gd_documents (fst st))) \<and>
     (ao_dryRun opts \<or> (\<forall>d \<in> set (gd_documents (fst st)). eligible env opts (fst st) d \<longrightarrow> checkDocument env d = None))"

lemma stuck_step:
  assumes "stuck env opts st"
  defines "ds \<equiv> audit_batch env opts (fst (snd st)) (fst st)"
  shows "within_limit opts (fst (snd st))" "ds \<noteq> []" "\<not> length ds < audit_take opts (fst (snd st))"
    "stuck env opts (fold (audit_document env opts) ds st)"
proof -
  have len: "length ds = audit_take opts (fst (snd st))" "0 < audit_take opts (fst (snd st))"
    using assms by (simp_all add: stuck_def audit_batch_def audit_take_def)
  then show "ds \<noteq> []" "\<not> length ds < audit_take opts (fst (snd st))" by auto
  show "within_limit opts (fst (snd st))" using assms(1) by (simp add: stuck_def within_limit_def)
  have "fst (fold (audit_document env opts) ds st) = fst st"
    using assms(1) unfolding ds_def by (intro fold_same_rows) (auto simp: stuck_def dest: audit_batch_eligible)
  then show "stuck env opts (fold (audit_document env opts) ds st)" using assms(1) by (simp add: stuck_def)
qed

lemma stuck_walk: "stuck env opts st \<Longrightarrow> audit_walk env opts st = None"
proof (rule ccontr)
  assume stuck: "stuck env opts st" and "audit_walk env opts st \<noteq> None"
  then obtain r where r: "audit_walk env opts st = Some r" by auto
  have "\<not> stuck env opts st"
  proof (rule audit_walk.raw_induct[where P = "\<lambda>e p s _. \<not> stuck e p s", OF _ r])
    fix walk e p s y
    assume IH: "\<And>e p s y. walk e p s = Some y \<Longrightarrow> \<not> stuck e p s"
      and run: "(if \<not> within_limit p (fst (snd s)) then Some s
         else let documents = audit_batch e p (fst (snd s)) (fst s) in
           if documents = [] then Some s
           else let st' = fold (audit_document e p) documents s in
             if length documents < audit_take p (fst (snd s)) then Some st' else walk e p st') = Some y"
    show "\<not> stuck e p s"
    proof
      assume st: "stuck e p s"
      then have "walk e p (fold (audit_document e p) (audit_batch e p (fst (snd s)) (fst s)) s) = Some y"
        using run stuck_step(1-3)[OF st] by (simp add: Let_def)
      then show False using IH stuck_step(4)[OF st] by blast
    qed
  qed
  then show False using stuck by (rule notE)
qed

text \<open>
  C23. A run over at least one full batch of documents, without a limit, never returns when it is a dry run or when
  storage cannot be asked about any of them: no row is stamped, so every batch is the first one again. The nightly job
  passes no limit and writes, so a storage outage is enough.
\<close>

theorem audit_never_returns:
  assumes "ao_limit opts = None" "0 < ao_batchSize opts"
    and "ao_batchSize opts \<le> length (filter (eligible env opts db) (gd_documents db))"
    and "ao_dryRun opts \<or> (\<forall>d \<in> set (gd_documents db). eligible env opts db d \<longrightarrow> checkDocument env d = None)"
  shows "auditVehicleDocuments env opts db = None"
  using stuck_walk[of env opts "(db, empty_summary, [])"] assms by (simp add: auditVehicleDocuments_def stuck_def)

subsection \<open>The walk that ends\<close>

definition mark :: "storage_env \<Rightarrow> vehicle_document \<Rightarrow> vehicle_document" where
  "mark env r = (case checkDocument env r of None \<Rightarrow> r | Some v \<Rightarrow> stamped env v r r)"

lemma mark_simps [simp]: "vd_id (mark env r) = vd_id r" "vd_vehicleId (mark env r) = vd_vehicleId r" "checkDocument env (mark env r) = checkDocument env r"
proof -
  have "checkDocument env (stamped env v d r) = checkDocument env r" for v d
    by (simp add: checkDocument_def resolveDocumentKey_def stamped_def)
  then show "checkDocument env (mark env r) = checkDocument env r" by (simp add: mark_def split: option.split)
qed (simp_all add: mark_def stamped_def split: option.split)

definition audited :: "storage_env \<Rightarrow> audit_options \<Rightarrow> garage_db \<Rightarrow> garage_db" where
  "audited env opts db = db\<lparr>gd_documents := map (\<lambda>r. if eligible env opts db r then mark env r else r) (gd_documents db)\<rparr>"

lemma audit_document_row:
  assumes "\<not> ao_dryRun opts" "checkDocument env d \<noteq> None" "d \<in> set (gd_documents db)" "distinct (map vd_id (gd_documents db))"
  shows "fst (audit_document env opts d (db, s, t)) =
    db\<lparr>gd_documents := map (\<lambda>r. if vd_id r = vd_id d then mark env r else r) (gd_documents db)\<rparr>"
proof -
  obtain v where v: "checkDocument env d = Some v" using assms(2) by blast
  have only: "r = d" if "r \<in> set (gd_documents db)" "vd_id r = vd_id d" for r
    using assms(3,4) that by (meson distinct_map inj_onD)
  have "stamped env v d r = mark env r" if "r \<in> set (gd_documents db)" "vd_id r = vd_id d" for r
    unfolding only[OF that] by (simp add: mark_def v)
  then have "update_where (\<lambda>r. vd_id r = vd_id d) (stamped env v d) (gd_documents db) =
      map (\<lambda>r. if vd_id r = vd_id d then mark env r else r) (gd_documents db)"
    by (simp add: update_where_def)
  then show ?thesis using assms(1) v by (simp add: audit_document_def Let_def)
qed

lemma fold_rows:
  assumes "\<not> ao_dryRun opts" "distinct (map vd_id (gd_documents db))" "distinct (map vd_id ds)"
    "\<And>d. d \<in> set ds \<Longrightarrow> d \<in> set (gd_documents db) \<and> checkDocument env d \<noteq> None"
  shows "fst (fold (audit_document env opts) ds (db, s, t)) =
    db\<lparr>gd_documents := map (\<lambda>r. if vd_id r \<in> vd_id ` set ds then mark env r else r) (gd_documents db)\<rparr>"
  using assms(2-4)
proof (induction ds arbitrary: db s t)
  case (Cons d ds)
  let ?g = "\<lambda>r. if vd_id r = vd_id d then mark env r else r"
  let ?db = "db\<lparr>gd_documents := map ?g (gd_documents db)\<rparr>"
  obtain s1 t1 where step: "audit_document env opts d (db, s, t) = (?db, s1, t1)"
    using audit_document_row[OF assms(1), of env d db s t] Cons.prems by (cases "audit_document env opts d (db, s, t)") auto
  have ids: "map vd_id (gd_documents ?db) = map vd_id (gd_documents db)" by simp
  have "fst (fold (audit_document env opts) ds (?db, s1, t1)) =
      ?db\<lparr>gd_documents := map (\<lambda>r. if vd_id r \<in> vd_id ` set ds then mark env r else r) (gd_documents ?db)\<rparr>"
  proof (rule Cons.IH)
    show "distinct (map vd_id (gd_documents ?db))" unfolding ids by (rule Cons.prems(1))
    show "distinct (map vd_id ds)" using Cons.prems(2) by simp
    fix e assume e: "e \<in> set ds"
    then have "vd_id e \<noteq> vd_id d" using Cons.prems(2) by (metis distinct.simps(2) image_eqI list.set_map list.simps(9))
    then have g: "e = ?g e" by simp
    have m: "e \<in> set (gd_documents db)" "checkDocument env e \<noteq> None" using Cons.prems(3)[of e] e by simp_all
    have "?g e \<in> ?g ` set (gd_documents db)" using m(1) by (rule imageI)
    then have "e \<in> set (gd_documents ?db)" using g by simp
    then show "e \<in> set (gd_documents ?db) \<and> checkDocument env e \<noteq> None" using m(2) by blast
  qed
  moreover have "(if vd_id (?g r) \<in> vd_id ` set ds then mark env (?g r) else ?g r) = (if vd_id r \<in> vd_id ` set (d # ds) then mark env r else r)" for r
    using Cons.prems(2) by auto
  ultimately show ?case by (simp add: step comp_def)
qed simp

lemma filter_map_less:
  "(\<And>x. x \<in> set xs \<Longrightarrow> P (g x) \<Longrightarrow> Q x) \<Longrightarrow> x \<in> set xs \<Longrightarrow> Q x \<Longrightarrow> \<not> P (g x) \<Longrightarrow> length (filter P (map g xs)) < length (filter Q xs)"
proof (induction xs)
  case (Cons y ys)
  have le: "length (filter P (map g zs)) \<le> length (filter Q zs)" if "\<And>x. x \<in> set zs \<Longrightarrow> P (g x) \<Longrightarrow> Q x" for zs
    using that by (induction zs) auto
  show ?case
  proof (cases "x = y")
    case True
    have "length (filter P (map g ys)) \<le> length (filter Q ys)" using Cons.prems(1) by (intro le) simp
    then show ?thesis using True Cons.prems(3,4) by simp
  next
    case False
    then have "length (filter P (map g ys)) < length (filter Q ys)" using Cons.prems by (intro Cons.IH) auto
    then show ?thesis using Cons.prems(1)[of y] by auto
  qed
qed simp

lemma set_audit_order [simp]: "set (audit_order ds) = set ds"
  by (auto simp: audit_order_def)

lemma distinct_audit_order:
  assumes "distinct (map vd_id ds)" shows "distinct (map vd_id (audit_order ds))"
proof -
  have "inj_on vd_id (set (audit_order ds))" using assms by (simp add: distinct_map)
  moreover have "distinct (audit_order ds)" using assms by (auto simp: audit_order_def distinct_map)
  ultimately show ?thesis by (simp add: distinct_map)
qed

lemma eligible_mark:
  assumes "0 \<le> ao_recheckAfterHours opts" "checkDocument env r \<noteq> None"
  shows "\<not> eligible env opts db (mark env r)"
  using assms by (auto simp: eligible_def mark_def stamped_def stale_before_def)

lemma eligible_documents [simp]: "eligible env opts (db\<lparr>gd_documents := x\<rparr>) = eligible env opts db"
  by (rule ext) (simp add: eligible_def)

lemma id_mem:
  assumes "distinct (map vd_id docs)" "set ds \<subseteq> set docs" "r \<in> set docs"
  shows "vd_id r \<in> vd_id ` set ds \<longleftrightarrow> r \<in> set ds"
proof
  assume "vd_id r \<in> vd_id ` set ds"
  then obtain d where d: "d \<in> set ds" "vd_id d = vd_id r" by (metis imageE)
  have "inj_on vd_id (set docs)" using assms(1) by (simp add: distinct_map)
  then have "d = r" using d assms(2,3) by (meson inj_onD subsetD)
  then show "r \<in> set ds" using d(1) by simp
qed (rule imageI)

lemma audited_whole:
  assumes "distinct (map vd_id (gd_documents db))" "set ds = set (filter (eligible env opts db) (gd_documents db))"
  shows "db\<lparr>gd_documents := map (\<lambda>r. if vd_id r \<in> vd_id ` set ds then mark env r else r) (gd_documents db)\<rparr> = audited env opts db"
  using id_mem[OF assms(1), of ds] assms(2) by (simp add: audited_def cong: map_cong)

lemma audited_step:
  assumes ids: "distinct (map vd_id (gd_documents db))" and ds: "set ds \<subseteq> set (filter (eligible env opts db) (gd_documents db))"
    and again: "0 \<le> ao_recheckAfterHours opts"
    and asked: "\<And>d. d \<in> set (gd_documents db) \<Longrightarrow> eligible env opts db d \<Longrightarrow> checkDocument env d \<noteq> None"
  shows "audited env opts (db\<lparr>gd_documents := map (\<lambda>r. if vd_id r \<in> vd_id ` set ds then mark env r else r) (gd_documents db)\<rparr>) = audited env opts db"
proof -
  have "eligible env opts db r \<and> \<not> eligible env opts db (mark env r)" if r: "r \<in> set (gd_documents db)" "vd_id r \<in> vd_id ` set ds" for r
  proof -
    have "r \<in> set ds" using id_mem[OF ids, of ds r] ds r by auto
    then have "eligible env opts db r" using ds by auto
    then show ?thesis using eligible_mark[OF again asked[OF r(1)]] by blast
  qed
  then show ?thesis unfolding audited_def by (auto simp: comp_def)
qed

lemma walk_exact:
  assumes opts: "ao_limit opts = None" "0 < ao_batchSize opts" "\<not> ao_dryRun opts" "0 \<le> ao_recheckAfterHours opts"
  shows "distinct (map vd_id (gd_documents db)) \<Longrightarrow>
    (\<And>d. d \<in> set (gd_documents db) \<Longrightarrow> eligible env opts db d \<Longrightarrow> checkDocument env d \<noteq> None) \<Longrightarrow>
    \<exists>s' t'. audit_walk env opts (db, s, t) = Some (audited env opts db, s', t')"
proof (induction "length (filter (eligible env opts db) (gd_documents db))" arbitrary: db s t rule: less_induct)
  case less
  let ?e = "filter (eligible env opts db) (gd_documents db)"
  let ?ds = "audit_batch env opts s db"
  have ids: "distinct (map vd_id (gd_documents db))" by fact
  have asked: "d \<in> set (gd_documents db) \<Longrightarrow> eligible env opts db d \<Longrightarrow> checkDocument env d \<noteq> None" for d by fact
  have take: "audit_take opts s = ao_batchSize opts" and within: "within_limit opts s"
    using opts(1) by (simp_all add: audit_take_def within_limit_def)
  have ds: "?ds = take (ao_batchSize opts) (audit_order ?e)" by (simp add: audit_batch_def take)
  have sub: "set ?ds \<subseteq> set ?e" using set_take_subset[of _ "audit_order ?e"] by (simp add: ds)
  have dist: "distinct (map vd_id ?ds)" unfolding ds
    by (metis distinct_audit_order distinct_map_filter distinct_take ids take_map)
  let ?db1 = "db\<lparr>gd_documents := map (\<lambda>r. if vd_id r \<in> vd_id ` set ?ds then mark env r else r) (gd_documents db)\<rparr>"
  obtain s1 t1 where fold: "fold (audit_document env opts) ?ds (db, s, t) = (?db1, s1, t1)"
    using fold_rows[OF opts(3) ids dist, of env s t] sub asked
    by (cases "fold (audit_document env opts) ?ds (db, s, t)") auto
  have walk: "audit_walk env opts (db, s, t) = (if ?ds = [] then Some (db, s, t)
      else if length ?ds < ao_batchSize opts then Some (?db1, s1, t1) else audit_walk env opts (?db1, s1, t1))"
    by (subst audit_walk.simps) (simp add: within fold take Let_def)
  consider "?ds = []" | "?ds \<noteq> []" "length ?ds < ao_batchSize opts" | "?ds \<noteq> []" "\<not> length ?ds < ao_batchSize opts" by blast
  then show ?case
  proof cases
    case 1
    then have "length (audit_order ?e) = 0" using opts(2) by (simp add: ds)
    then have "?e = []" by simp
    then have "audited env opts db = db" unfolding audited_def filter_empty_conv by (simp add: map_idI)
    then show ?thesis using walk 1 by simp
  next
    case 2
    then have "?ds = audit_order ?e" by (simp add: ds)
    then have "set ?ds = set ?e" by simp
    then show ?thesis using walk 2 audited_whole[OF ids] by simp
  next
    case 3
    have inside: "r \<in> set ?ds" if "r \<in> set (gd_documents db)" "vd_id r \<in> vd_id ` set ?ds" for r
      using id_mem[OF ids, of ?ds r] sub that by auto
    have "length (filter (eligible env opts ?db1) (gd_documents ?db1)) < length ?e"
    proof -
      obtain d where d: "d \<in> set ?ds" using hd_in_set[OF 3(1)] by blast
      then have de: "d \<in> set (gd_documents db)" "eligible env opts db d" using sub by auto
      let ?g = "\<lambda>r. if vd_id r \<in> vd_id ` set ?ds then mark env r else r"
      have gone: "\<not> eligible env opts db (?g d)" using eligible_mark[OF opts(4) asked[OF de]] d by simp
      have "eligible env opts db r" if "r \<in> set (gd_documents db)" "eligible env opts db (?g r)" for r
        using inside[OF that(1)] that(2) sub by (cases "vd_id r \<in> vd_id ` set ?ds") auto
      then have "length (filter (eligible env opts db) (map ?g (gd_documents db))) < length ?e"
        using de gone by (rule filter_map_less)
      then show ?thesis by simp
    qed
    moreover have "distinct (map vd_id (gd_documents ?db1))"
    proof -
      have "map vd_id (gd_documents ?db1) = map vd_id (gd_documents db)" by simp
      then show ?thesis using ids by (simp only:)
    qed
    moreover have "checkDocument env d \<noteq> None" if d: "d \<in> set (gd_documents ?db1)" "eligible env opts ?db1 d" for d
    proof -
      obtain r where r: "r \<in> set (gd_documents db)" "d = (if vd_id r \<in> vd_id ` set ?ds then mark env r else r)" using d(1) by auto
      then have "eligible env opts db r" using inside[OF r(1)] d(2) sub by (cases "vd_id r \<in> vd_id ` set ?ds") auto
      then show ?thesis using asked[OF r(1)] r(2) by simp
    qed
    ultimately obtain s' t' where "audit_walk env opts (?db1, s1, t1) = Some (audited env opts ?db1, s', t')"
      using less.hyps[of ?db1 s1 t1] by blast
    then show ?thesis using walk 3 audited_step[OF ids sub opts(4) asked] by simp
  qed
qed

text \<open>With a limit every batch counts towards it, so the walk ends whatever storage answers.\<close>

lemma limited_walk_ends:
  assumes "ao_limit opts = Some n" "0 < ao_batchSize opts"
  shows "audit_walk env opts st \<noteq> None"
proof (induction "n - as_checked (fst (snd st))" arbitrary: st rule: less_induct)
  case less
  let ?ds = "audit_batch env opts (fst (snd st)) (fst st)"
  show ?case
  proof (cases "within_limit opts (fst (snd st)) \<and> ?ds \<noteq> []")
    case True
    then have "as_checked (fst (snd st)) < n" using assms(1) by (simp add: within_limit_def)
    moreover have "0 < length ?ds" using True by simp
    ultimately have "n - as_checked (fst (snd (fold (audit_document env opts) ?ds st))) < n - as_checked (fst (snd st))"
      unfolding fold_checked by (intro diff_less_mono2) (use True in auto)
    from less.hyps[OF this] show ?thesis using True
      by (cases "fold (audit_document env opts) ?ds st", subst audit_walk.simps) (simp add: Let_def)
  next
    case False
    then show ?thesis by (cases st, subst audit_walk.simps) (auto simp: Let_def)
  qed
qed

lemma settle_all_documents: "\<exists>s' db'. settle_all env notify xs s db = (Inr s', db') \<and> gd_documents db' = gd_documents db"
proof (induction xs arbitrary: s db)
  case (Cons x xs)
  have "\<exists>b db'. settleVehicle env notify x db = (Inr b, db') \<and> gd_documents db' = gd_documents db"
    by (auto simp: settleVehicle_def notifyOwner_def run_defs run_update_vehicle split: option.split)
  then obtain b db' where "settleVehicle env notify x db = (Inr b, db')" "gd_documents db' = gd_documents db" by blast
  then show ?case using Cons[of "if b then s\<lparr>as_vehiclesNotified := as_vehiclesNotified s + 1\<rparr> else s" db'] by (simp add: run_andThen)
qed simp

text \<open>
  C36. An audit without a limit (no \<open>--limit\<close>) that writes and whose storage answers for every row that is due returns, whatever
  the number of rows and the batch size, and it has stamped exactly the rows that were due: each is flagged as missing if and
  only if storage has no object for it, with the time of the first discovery kept.
\<close>

theorem audit_returns_exactly:
  assumes "ao_limit opts = None" "0 < ao_batchSize opts" "\<not> ao_dryRun opts" "0 \<le> ao_recheckAfterHours opts" "garage_inv db"
    and "\<forall>d \<in> set (gd_documents db). eligible env opts db d \<longrightarrow> checkDocument env d \<noteq> None"
  shows "\<exists>s db'. auditVehicleDocuments env opts db = Some (Inr s, db') \<and> gd_documents db' =
    map (\<lambda>d. if eligible env opts db d then d\<lparr>vd_storageCheckedAt := Some (se_now env), vd_storageMissingAt :=
        (if checkDocument env d = Some MISSING then Some (case vd_storageMissingAt d of Some t \<Rightarrow> t | None \<Rightarrow> se_now env) else None)\<rparr> else d)
      (gd_documents db)"
proof -
  obtain s t where walk: "audit_walk env opts (db, empty_summary, []) = Some (audited env opts db, s, t)"
    using walk_exact[OF assms(1-4) garage_invD(2)[OF assms(5)], of env empty_summary "[]"] assms(6) by blast
  obtain s' db' where settle: "settle_all env (ao_notify opts) t s (audited env opts db) = (Inr s', db')"
    and docs: "gd_documents db' = gd_documents (audited env opts db)" using settle_all_documents by blast
  have "mark env d = d\<lparr>vd_storageCheckedAt := Some (se_now env), vd_storageMissingAt :=
      (if checkDocument env d = Some MISSING then Some (case vd_storageMissingAt d of Some t \<Rightarrow> t | None \<Rightarrow> se_now env) else None)\<rparr>"
    if "checkDocument env d \<noteq> None" for d
    using that by (auto simp: mark_def stamped_def split: option.split)
  then have "gd_documents (audited env opts db) =
      map (\<lambda>d. if eligible env opts db d then d\<lparr>vd_storageCheckedAt := Some (se_now env), vd_storageMissingAt :=
        (if checkDocument env d = Some MISSING then Some (case vd_storageMissingAt d of Some t \<Rightarrow> t | None \<Rightarrow> se_now env) else None)\<rparr> else d)
      (gd_documents db)"
    using assms(6) by (simp add: audited_def cong: map_cong)
  then show ?thesis using walk settle docs assms(3) by (simp add: auditVehicleDocuments_def)
qed

definition sample_document :: vehicle_document where
  "sample_document = \<lparr>vd_id = [1], vd_vehicleId = [9], vd_image = None, vd_imageKey = Some [2], vd_documentType = VEHICLE_DOCUMENT,
     vd_storageMissingAt = None, vd_storageCheckedAt = None, vd_createdAt = 0\<rparr>"

definition sample_audit_db :: garage_db where
  "sample_audit_db = sample_garage\<lparr>gd_vehicles := [(new_vehicle sample_storage_env [1] [69, 69] [65])\<lparr>ve_id := [9]\<rparr>],
     gd_documents := [sample_document]\<rparr>"

lemma sample_audit:
  "garage_inv sample_audit_db" "gd_documents sample_audit_db = [sample_document]"
  "eligible env opts sample_audit_db sample_document"
  by (simp_all add: garage_inv_def sample_audit_db_def sample_garage_def vehicle_ok_def document_ok_def live_count_def count_where_def
    MAX_VEHICLES_PER_USER_def new_vehicle_def sample_document_def eligible_def)

theorem audit_never_returns_witness:
  "auditVehicleDocuments sample_storage_env (default_audit_options\<lparr>ao_dryRun := True, ao_batchSize := 1\<rparr>) sample_audit_db = None"
  by (rule audit_never_returns) (simp_all add: default_audit_options_def sample_audit)

theorem audit_returns_exactly_witness:
  "\<exists>s db'. auditVehicleDocuments (sample_storage_env\<lparr>se_head := (\<lambda>_. Some False)\<rparr>) default_audit_options sample_audit_db = Some (Inr s, db')
     \<and> map vd_storageMissingAt (gd_documents db') = [Some 1000]"
proof -
  let ?env = "sample_storage_env\<lparr>se_head := (\<lambda>_. Some False)\<rparr>"
  have asked: "checkDocument ?env sample_document = Some MISSING"
    by (simp add: checkDocument_def resolveDocumentKey_def sample_document_def Let_def)
  have "\<exists>s db'. auditVehicleDocuments ?env default_audit_options sample_audit_db = Some (Inr s, db') \<and> gd_documents db' =
      map (\<lambda>d. if eligible ?env default_audit_options sample_audit_db d then d\<lparr>vd_storageCheckedAt := Some (se_now ?env), vd_storageMissingAt :=
        (if checkDocument ?env d = Some MISSING then Some (case vd_storageMissingAt d of Some t \<Rightarrow> t | None \<Rightarrow> se_now ?env) else None)\<rparr> else d)
      (gd_documents sample_audit_db)"
    by (rule audit_returns_exactly)
      (simp_all add: default_audit_options_def DEFAULT_BATCH_SIZE_def DEFAULT_RECHECK_AFTER_HOURS_def sample_audit asked)
  then obtain s db' where run: "auditVehicleDocuments ?env default_audit_options sample_audit_db = Some (Inr s, db')"
    and docs: "gd_documents db' = map (\<lambda>d. if eligible ?env default_audit_options sample_audit_db d then d\<lparr>vd_storageCheckedAt := Some (se_now ?env), vd_storageMissingAt :=
        (if checkDocument ?env d = Some MISSING then Some (case vd_storageMissingAt d of Some t \<Rightarrow> t | None \<Rightarrow> se_now ?env) else None)\<rparr> else d)
      (gd_documents sample_audit_db)" by blast
  have "vd_storageMissingAt sample_document = None" "se_now ?env = 1000" by (simp_all add: sample_document_def sample_storage_env_def)
  then have "map vd_storageMissingAt (gd_documents db') = [Some 1000]" unfolding docs by (simp add: sample_audit asked)
  with run show ?thesis by (intro exI[of _ s] exI[of _ db'] conjI)
qed

text \<open>
  Rows never checked come last, not first: a limited run over enough rows that were checked long ago reads none of them.
\<close>

lemma never_checked_rows_wait:
  assumes "audit_take opts s \<le> length (filter (\<lambda>d. eligible env opts db d \<and> vd_storageCheckedAt d \<noteq> None) (gd_documents db))"
    and "d \<in> set (audit_batch env opts s db)"
  shows "vd_storageCheckedAt d \<noteq> None"
proof -
  let ?old = "filter (\<lambda>d. vd_storageCheckedAt d \<noteq> None) (filter (eligible env opts db) (gd_documents db))"
  have "audit_take opts s \<le> length ?old" using assms(1) by (simp add: conj_commute)
  then have "audit_batch env opts s db = take (audit_take opts s) (sort_key (\<lambda>d. the (vd_storageCheckedAt d)) ?old)"
    by (simp add: audit_batch_def audit_order_def)
  then show ?thesis using assms(2) by (auto dest!: in_set_takeD)
qed

end
