(* ===== verification/Spec2Isabelle.thy ===== *)
theory Spec2Isabelle
  imports Booking_Price Booking_Time Reconciliation Segment_View Booking_Safety Outbox_Progress Dispute_Money
    Completion_Payout Decisions Webhook_Once Trip_Refinement Reward_Wallet Ratings Polyline Pricing_Admin
    Licence_Trail Vehicle_Audit
begin

text \<open>
  \<^bold>\<open>Verification of the core of the Deliivo ride sharing backend.\<close>

  The program is a TypeScript server (\<open>src/src\<close>) over a PostgreSQL database (\<open>src/prisma/schema.prisma\<close>) and Stripe.
  Drivers publish rides with a number of seats; riders book segments of them, pay, wait for the driver's decision,
  travel, and the fare is paid out to the driver. HTTP requests, delayed jobs and Stripe webhooks call the same
  service functions, at any time and in any order. The development models those services, their tables and the way
  they interleave.

  \<^bold>\<open>Foundations.\<close>
  \<^item> \<open>Prelude\<close>: identifiers, instants in milliseconds, error codes, tables as lists of rows (\<open>update_where\<close>,
    \<open>count_where\<close>, \<open>sum_where\<close>).
  \<^item> \<open>Js_Number\<close>: JavaScript numbers as rationals rounded to doubles (\<open>fl64\<close>), \<open>Math.round\<close>, \<open>toFixed(2)\<close>; the locale
    \<open>js_rounding\<close> is what the money proofs use of them.
  \<^item> \<open>Effects\<close>: an \<open>async\<close> function is a state transformer that may throw and keeps the writes made before;
    a transaction discards them. \<open>preserves\<close> and its rules, the locale \<open>service\<close> for families of calls.
  \<^item> \<open>Store\<close>: the rows (\<open>booking_row\<close>, \<open>ride_row\<close>, \<open>payment_row\<close>, \<dots>), the \<open>world\<close> that holds the tables and the trace of
    external effects, and \<open>env\<close>, the outside world: clock, configuration, what Stripe, notifications and queues answer.

  \<^bold>\<open>Components\<close> (theory: file under \<open>src/src/modules\<close> unless said otherwise).
  \<^item> \<open>Booking_Price\<close>, \<open>Booking_Time\<close>: \<open>ride-booking/booking-price.ts\<close>, \<open>booking-payment-split.ts\<close>,
    \<open>booking-cancellation-policy.ts\<close>, \<open>request-expiry.utils.ts\<close>, \<open>booking-window.ts\<close>, \<open>booking-otp-expiry.ts\<close>.
  \<^item> \<open>Seats\<close>: \<open>ride-booking/segment-capacity.utils.ts\<close>, the seat counters of a ride and its segments.
  \<^item> \<open>Segment_View\<close>: \<open>search-ride/segment-view.utils.ts\<close>, prices of segments.
  \<^item> \<open>Ledger\<close>, \<open>Payments\<close>, \<open>Payout\<close>, \<open>Reconciliation\<close>: \<open>ledger\<close>, \<open>payments/payment.service.ts\<close>,
    \<open>payments/payment-outbox.worker.ts\<close>, \<open>payout\<close>, \<open>reconciliation\<close>.
  \<^item> \<open>Request_Booking\<close>, \<open>Booking_Flow\<close>, \<open>Booking_Rider\<close>, \<open>Booking_Create\<close>: \<open>ride-request/ride-request.booking.ts\<close> and
    \<open>ride-booking/ride-booking.service.ts\<close> (payment, expiry, cancellation, withdrawal, creation of a booking).
  \<^item> \<open>Driver_Booking\<close>, \<open>Ride_Lifecycle\<close>, \<open>Ride_Operations\<close>, \<open>Ride_Events\<close>: \<open>driver-booking\<close>, \<open>publish-ride/publish-ride.service.ts\<close>,
    \<open>ride-operations\<close>.
  \<^item> \<open>Deadlines\<close>, \<open>Maintenance\<close>: the jobs of \<open>src/src/queue\<close>. \<open>Webhook\<close>: \<open>payments/stripe.webhook.controller.ts\<close>.
    \<open>Disputes\<close>: \<open>dispute\<close>.
  \<^item> \<open>Rewards\<close>: \<open>rewards/rewards.service.ts\<close>, over its own state \<open>rewards_db\<close>.

  \<^bold>\<open>Interleaving.\<close> A handler is split where the code first reads: \<open>x_read\<close> takes its rows from one state and \<open>x_body\<close>
  acts on them in a possibly later one; \<open>x\<close> composes the two. \<open>Booking_Machine\<close> runs any number of calls concurrently:
  a schedule lets calls arrive (read) and act in any order. The part after the read is one step: the handlers
  re-check their status guard inside the statement or transaction that writes, and what they do after it touches other
  rows. The locale \<open>interleaving\<close> is the contract (an invariant and what only grows); its interpretation on the
  handlers of the program, with the invariant \<open>core\<close> of \<open>Booking_Rules\<close>, gives the properties of \<open>Booking_Safety\<close>.
  \<open>Booking_Claim\<close>, \<open>Booking_Live\<close> and \<open>Trip_Live\<close> hold one rule per handler. \<open>settleDispute\<close> is not a call of the machine:
  it cancels a booking without giving its seats back, which breaks the invariant.

  \<^bold>\<open>Groups of theorems.\<close>
  \<^item> Seats and booking states under every interleaving: \<open>Booking_Safety\<close>; one operation at a time: \<open>Seats\<close>.
  \<^item> Trips: \<open>Trip_Refinement\<close> states the abstract machine over booking statuses and that every trip handler refines it;
    \<open>Decisions\<close> characterises the driver's acceptance and compares the ways out of a booking.
  \<^item> Money: the payment machine and the books (\<open>Payments\<close>), exactness of the floating-point sums in the stated ranges
    (\<open>Ledger\<close>, \<open>Booking_Price\<close>), payouts (\<open>Payout\<close>), when a completed trip is paid out (\<open>Completion_Payout\<close>), reconciliation
    and disputes that go wrong (\<open>Reconciliation\<close>, \<open>Dispute_Money\<close>).
  \<^item> Liveness of the outbox worker (\<open>Outbox_Progress\<close>): with a batch larger than the backlog ahead of an event and rounds
    spaced by the longest back-off, five rounds settle it.
  \<^item> Webhook deliveries are processed once (\<open>Webhook_Once\<close>). Wallets of rewards (\<open>Reward_Wallet\<close>).

  Every loop of the modelled code runs over a list read beforehand or a bounded number of attempts, so all definitions
  are total; there is no fuel. Money statements assume amounts in whole cents below the bound named in them
  (\<open>safe_cents\<close>, \<open>moderate\<close>), where doubles are exact enough.

  \<^bold>\<open>Not modelled.\<close> HTTP controllers, validators, authentication and middlewares; message delivery (notifications,
  mail, SMS, sockets, chat) beyond the fact that a call is made and may fail; the wizard state of draft rides in Redis, the
  geographic search and the route geometry (distances are parameters); vehicles and licences; administration
  and content pages. The Stripe SDK, SHA-256, collations, random identifiers and the time zone database are parameters.
\<close>

end
